(* ===== verification/Prelude.thy ===== *)
theory Prelude
  imports
    Main
    "HOL-Library.Finite_Map"
    "HOL-Library.Char_ord"
    "HOL-Library.List_Lexorder"
    "HOL-Library.Word"
begin

text \<open>
  What all components share: the Go values the operator computes with (errors with their
  wrapping, string maps that may be nil, the string functions of the standard library it
  calls) and the effect type of a reconciler, a function from a world to an error or a
  result and the world it leaves behind. The Hoare triples at the end are how the component
  theories reason about reconcilers.
\<close>

named_theorems io_simps \<open>unfolding of the effect combinators\<close>
named_theorems hoare_intros \<open>rules for Hoare triples over effects\<close>

section \<open>Errors\<close>

text \<open>
  An API error keeps the reason the code can test for (\<open>apierrors.IsNotFound\<close>,
  \<open>meta.IsNoMatchError\<close>). \<open>Errorf\<close> is \<open>fmt.Errorf\<close> without \<open>%w\<close> (or \<open>errors.New\<close>): the
  format and its arguments. \<open>Wrap\<close> is \<open>fmt.Errorf\<close> with one \<open>%w\<close>. \<open>Sentinel\<close> is a package
  level error value compared by \<open>errors.Is\<close>. \<open>Panic\<close> is a Go run-time panic.
\<close>

datatype api_error = NotFound | Conflict | AlreadyExists | NoMatch | OtherApi string

datatype fmt_arg = AStr string | ANum nat

datatype error =
    ApiErr api_error
  | Errorf string "fmt_arg list"
  | Wrap string "fmt_arg list" error
  | Sentinel string
  | Panic string

fun errors_is :: "error \<Rightarrow> error \<Rightarrow> bool" where
  "errors_is (Wrap f as e) t = (Wrap f as e = t \<or> errors_is e t)"
| "errors_is e t = (e = t)"

fun is_not_found :: "error \<Rightarrow> bool" where
  "is_not_found (ApiErr NotFound) = True"
| "is_not_found (Wrap f as e) = is_not_found e"
| "is_not_found e = False"

fun is_no_match :: "error \<Rightarrow> bool" where
  "is_no_match (ApiErr NoMatch) = True"
| "is_no_match (Wrap f as e) = is_no_match e"
| "is_no_match e = False"

lemma is_not_found_ApiErr [simp]: "is_not_found (ApiErr e) \<longleftrightarrow> e = NotFound"
  by (cases e) simp_all

lemma is_no_match_ApiErr [simp]: "is_no_match (ApiErr e) \<longleftrightarrow> e = NoMatch"
  by (cases e) simp_all

section \<open>Maps, slices and pointers\<close>

text \<open>
  A Go map from strings to strings is nil (\<open>None\<close>) or a finite map. Reading an absent key,
  or a nil map, gives the empty string; the two-valued read tells whether the key is there.
\<close>

type_synonym smap = "(string, string) fmap option"

definition sm_lookup :: "smap \<Rightarrow> string \<Rightarrow> string option" where
  "sm_lookup m k = (case m of None \<Rightarrow> None | Some f \<Rightarrow> fmlookup f k)"

definition sm_get :: "smap \<Rightarrow> string \<Rightarrow> string" where
  "sm_get m k = (case sm_lookup m k of None \<Rightarrow> [] | Some v \<Rightarrow> v)"

text \<open>\<open>if m == nil { m = make(...) }; m[k] = v\<close>\<close>

definition sm_put :: "string \<Rightarrow> string \<Rightarrow> smap \<Rightarrow> smap" where
  "sm_put k v m = Some (fmupd k v (case m of None \<Rightarrow> fmempty | Some f \<Rightarrow> f))"

definition sm_len :: "smap \<Rightarrow> nat" where
  "sm_len m = (case m of None \<Rightarrow> 0 | Some f \<Rightarrow> fcard (fmdom f))"

text \<open>\<open>equality.Semantic.DeepEqual\<close> does not tell a nil map from an empty one.\<close>

definition sm_norm :: "smap \<Rightarrow> smap" where
  "sm_norm m = (if m = Some fmempty then None else m)"

lemma sm_lookup_simps [simp]:
  "sm_lookup None k = None"
  "sm_lookup (Some f) k = fmlookup f k"
  by (simp_all add: sm_lookup_def)

lemma sm_get_None [simp]: "sm_get None k = []"
  by (simp add: sm_get_def)

lemma sm_get_Some [simp]: "sm_get (Some f) k = (case fmlookup f k of None \<Rightarrow> [] | Some v \<Rightarrow> v)"
  by (simp add: sm_get_def)

lemma sm_lookup_put [simp]: "sm_lookup (sm_put k v m) k' = (if k' = k then Some v else sm_lookup m k')"
  by (simp add: sm_put_def split: option.split)

lemma sm_get_put [simp]: "sm_get (sm_put k v m) k' = (if k' = k then v else sm_get m k')"
  by (simp add: sm_get_def)

lemma sm_lookup_norm [simp]: "sm_lookup (sm_norm m) k = sm_lookup m k"
  by (simp add: sm_norm_def)

lemma sm_get_norm [simp]: "sm_get (sm_norm m) k = sm_get m k"
  by (simp add: sm_get_def)

section \<open>Strings\<close>

text \<open>A Go string is a sequence of bytes: a \<^typ>\<open>char list\<close>.\<close>

definition has_prefix :: "string \<Rightarrow> string \<Rightarrow> bool" where
  "has_prefix s p \<longleftrightarrow> take (length p) s = p"

definition has_suffix :: "string \<Rightarrow> string \<Rightarrow> bool" where
  "has_suffix s p \<longleftrightarrow> length p \<le> length s \<and> drop (length s - length p) s = p"

text \<open>\<open>strings.TrimPrefix\<close>\<close>

definition trim_prefix :: "string \<Rightarrow> string \<Rightarrow> string" where
  "trim_prefix s p = (if has_prefix s p then drop (length p) s else s)"

text \<open>\<open>strings.CutSuffix\<close>: the string without the suffix, and whether it had it\<close>

definition cut_suffix :: "string \<Rightarrow> string \<Rightarrow> string \<times> bool" where
  "cut_suffix s p =
     (if has_suffix s p then (take (length s - length p) s, True) else (s, False))"

text \<open>
  \<open>strings.Cut\<close> at a one-byte separator: before, after, found; without the separator,
  the whole string, the empty string and false.
\<close>

fun cut :: "string \<Rightarrow> char \<Rightarrow> string \<times> string \<times> bool" where
  "cut [] c = ([], [], False)"
| "cut (x # xs) c =
     (if x = c then ([], xs, True)
      else (case cut xs c of (b, a, f) \<Rightarrow> (x # b, a, f)))"

text \<open>\<open>strings.LastIndex\<close> of a one-byte string: \<open>None\<close> stands for -1\<close>

fun last_index :: "string \<Rightarrow> char \<Rightarrow> nat option" where
  "last_index [] c = None"
| "last_index (x # xs) c =
     (case last_index xs c of
        Some i \<Rightarrow> Some (Suc i)
      | None \<Rightarrow> if x = c then Some 0 else None)"

text \<open>\<open>strings.ToLower\<close> and \<open>strings.ToUpper\<close> on ASCII bytes\<close>

definition lower_char :: "char \<Rightarrow> char" where
  "lower_char c = (let n = (of_char c :: nat) in if 65 \<le> n \<and> n \<le> 90 then char_of (n + 32) else c)"

definition upper_char :: "char \<Rightarrow> char" where
  "upper_char c = (let n = (of_char c :: nat) in if 97 \<le> n \<and> n \<le> 122 then char_of (n - 32) else c)"

definition to_lower :: "string \<Rightarrow> string" where
  "to_lower s = map lower_char s"

definition to_upper :: "string \<Rightarrow> string" where
  "to_upper s = map upper_char s"

text \<open>\<open>%d\<close> of a natural number\<close>

fun show_nat :: "nat \<Rightarrow> string" where
  "show_nat n =
     (if n < 10 then [char_of (48 + n)]
      else show_nat (n div 10) @ [char_of (48 + n mod 10)])"

declare show_nat.simps [simp del]

lemma cut_append: "c \<notin> set xs \<Longrightarrow> cut (xs @ c # ys) c = (xs, ys, True)"
  by (induction xs) auto

lemma cut_no_sep: "c \<notin> set xs \<Longrightarrow> cut xs c = (xs, [], False)"
  by (induction xs) auto

lemma has_suffix_append [simp]: "has_suffix (xs @ ys) ys"
  by (simp add: has_suffix_def)

lemma cut_suffix_append [simp]: "cut_suffix (xs @ ys) ys = (xs, True)"
  by (simp add: cut_suffix_def)

lemma cut_suffix_True: "cut_suffix s p = (b, True) \<Longrightarrow> s = b @ p"
  by (auto simp: cut_suffix_def has_suffix_def split: if_splits)
    (metis append_take_drop_id)

lemma trim_prefix_append [simp]: "trim_prefix (p @ s) p = s"
  by (simp add: trim_prefix_def has_prefix_def)

lemma last_index_None_iff: "last_index xs c = None \<longleftrightarrow> c \<notin> set xs"
  by (induction xs) (auto split: option.splits)

lemma last_index_append: "c \<notin> set ys \<Longrightarrow> last_index (xs @ c # ys) c = Some (length xs)"
  by (induction xs) (auto simp: last_index_None_iff[THEN iffD2])

lemma last_index_Some:
  "last_index xs c = Some i \<Longrightarrow> i < length xs \<and> xs ! i = c \<and> c \<notin> set (drop (Suc i) xs)"
  by (induction xs arbitrary: i)
    (auto simp: last_index_None_iff split: option.splits if_splits)

lemma show_nat_nonempty [simp]: "show_nat n \<noteq> []"
  by (subst show_nat.simps) simp

section \<open>Reconciler effects\<close>

text \<open>
  An effect reads and changes a world and ends with an error or a value. \<open>handleE m h k\<close>
  is \<open>x, err := m; if err != nil { h(err) } else { k(x) }\<close>; \<open>bindE\<close> returns the error,
  \<open>wrapE\<close> returns it wrapped, \<open>forE\<close> is a range loop whose body may return an error.
\<close>

type_synonym ('w, 'a) io = "'w \<Rightarrow> (error + 'a) \<times> 'w"

definition ret :: "'a \<Rightarrow> ('w, 'a) io" where
  "ret a = (\<lambda>w. (Inr a, w))"

definition raise :: "error \<Rightarrow> ('w, 'a) io" where
  "raise e = (\<lambda>w. (Inl e, w))"

definition handleE :: "('w, 'a) io \<Rightarrow> (error \<Rightarrow> ('w, 'b) io) \<Rightarrow> ('a \<Rightarrow> ('w, 'b) io) \<Rightarrow> ('w, 'b) io" where
  "handleE m h k = (\<lambda>w. case m w of (Inl e, w') \<Rightarrow> h e w' | (Inr a, w') \<Rightarrow> k a w')"

definition bindE :: "('w, 'a) io \<Rightarrow> ('a \<Rightarrow> ('w, 'b) io) \<Rightarrow> ('w, 'b) io" where
  "bindE m k = handleE m raise k"

definition wrapE :: "string \<Rightarrow> fmt_arg list \<Rightarrow> ('w, 'a) io \<Rightarrow> ('w, 'a) io" where
  "wrapE f as m = handleE m (\<lambda>e. raise (Wrap f as e)) ret"

definition liftE :: "error + 'a \<Rightarrow> ('w, 'a) io" where
  "liftE r = (\<lambda>w. (r, w))"

definition readE :: "('w \<Rightarrow> 'a) \<Rightarrow> ('w, 'a) io" where
  "readE f = (\<lambda>w. (Inr (f w), w))"

definition modifyE :: "('w \<Rightarrow> 'w) \<Rightarrow> ('w, unit) io" where
  "modifyE f = (\<lambda>w. (Inr (), f w))"

fun forE :: "'x list \<Rightarrow> ('x \<Rightarrow> ('w, unit) io) \<Rightarrow> ('w, unit) io" where
  "forE [] f = ret ()"
| "forE (x # xs) f = bindE (f x) (\<lambda>_. forE xs f)"

lemma io_run [io_simps, simp]:
  "ret a w = (Inr a, w)"
  "raise e w = (Inl e, w)"
  "liftE r w = (r, w)"
  "readE g w = (Inr (g w), w)"
  "modifyE h w = (Inr (), h w)"
  by (simp_all add: ret_def raise_def liftE_def readE_def modifyE_def)

lemma handleE_run [io_simps]:
  "handleE m h k w = (case m w of (Inl e, w') \<Rightarrow> h e w' | (Inr a, w') \<Rightarrow> k a w')"
  by (simp add: handleE_def)

lemma bindE_run [io_simps]:
  "bindE m k w = (case m w of (Inl e, w') \<Rightarrow> (Inl e, w') | (Inr a, w') \<Rightarrow> k a w')"
  by (auto simp: bindE_def handleE_def raise_def split: prod.split sum.split)

lemma wrapE_run [io_simps]:
  "wrapE f as m w = (case m w of (Inl e, w') \<Rightarrow> (Inl (Wrap f as e), w') | (Inr a, w') \<Rightarrow> (Inr a, w'))"
  by (auto simp: wrapE_def handleE_def raise_def ret_def split: prod.split sum.split)

lemma bindE_InrE:
  assumes "bindE m k w = (Inr b, w2)"
  obtains a w1 where "m w = (Inr a, w1)" "k a w1 = (Inr b, w2)"
  using assms by (auto simp: bindE_run split: prod.splits sum.splits)

lemma wrapE_Inr_iff [simp]: "wrapE f as m w = (Inr a, w') \<longleftrightarrow> m w = (Inr a, w')"
  by (auto simp: wrapE_run split: prod.splits sum.splits)

section \<open>Hoare triples\<close>

text \<open>
  \<open>hoare P m Q E\<close>: from a world that satisfies \<open>P\<close>, a result \<open>a\<close> leaves a world that
  satisfies \<open>Q a\<close>, an error leaves one that satisfies \<open>E\<close>. Effects always end, so this is
  total correctness. \<open>keeps P m\<close> says that \<open>m\<close> keeps \<open>P\<close> however it ends.
\<close>

definition hoare :: "('w \<Rightarrow> bool) \<Rightarrow> ('w, 'a) io \<Rightarrow> ('a \<Rightarrow> 'w \<Rightarrow> bool) \<Rightarrow> ('w \<Rightarrow> bool) \<Rightarrow> bool" where
  "hoare P m Q E \<longleftrightarrow>
     (\<forall>w. P w \<longrightarrow> (case m w of (Inl e, w') \<Rightarrow> E w' | (Inr a, w') \<Rightarrow> Q a w'))"

abbreviation keeps :: "('w \<Rightarrow> bool) \<Rightarrow> ('w, 'a) io \<Rightarrow> bool" where
  "keeps P m \<equiv> hoare P m (\<lambda>_. P) P"

lemma hoareI:
  assumes "\<And>w e w'. P w \<Longrightarrow> m w = (Inl e, w') \<Longrightarrow> E w'"
    and "\<And>w a w'. P w \<Longrightarrow> m w = (Inr a, w') \<Longrightarrow> Q a w'"
  shows "hoare P m Q E"
  using assms by (auto simp: hoare_def split: prod.splits sum.splits)

lemma hoareD:
  assumes "hoare P m Q E" "P w"
  shows "m w = (Inl e, w') \<Longrightarrow> E w'" and "m w = (Inr a, w') \<Longrightarrow> Q a w'"
  using assms unfolding hoare_def by (fastforce split: prod.splits sum.splits)+

lemma keepsD: "keeps P m \<Longrightarrow> P w \<Longrightarrow> P (snd (m w))"
  unfolding hoare_def by (cases "m w"; cases "fst (m w)") force+

lemma keepsI: "(\<And>w. P w \<Longrightarrow> P (snd (m w))) \<Longrightarrow> keeps P m"
  by (fastforce simp: hoare_def split: prod.splits sum.splits)

lemma hoare_weaken:
  "hoare P m Q E \<Longrightarrow> (\<And>w. P' w \<Longrightarrow> P w) \<Longrightarrow> (\<And>a w. Q a w \<Longrightarrow> Q' a w) \<Longrightarrow> (\<And>w. E w \<Longrightarrow> E' w)
     \<Longrightarrow> hoare P' m Q' E'"
  by (fastforce simp: hoare_def split: prod.splits sum.splits)

lemma hoare_ret [hoare_intros]: "(\<And>w. P w \<Longrightarrow> Q a w) \<Longrightarrow> hoare P (ret a) Q E"
  by (simp add: hoare_def)

lemma hoare_raise [hoare_intros]: "(\<And>w. P w \<Longrightarrow> E w) \<Longrightarrow> hoare P (raise e) Q E"
  by (simp add: hoare_def)

lemma hoare_handleE:
  assumes "hoare P m R S" "\<And>a. hoare (R a) (k a) Q E" "\<And>e. hoare S (h e) Q E"
  shows "hoare P (handleE m h k) Q E"
  using assms unfolding hoare_def handleE_def
  by (fastforce split: prod.splits sum.splits)

lemma hoare_bindE:
  assumes "hoare P m R E" "\<And>a. hoare (R a) (k a) Q E"
  shows "hoare P (bindE m k) Q E"
  unfolding bindE_def
  by (rule hoare_handleE [OF assms]) (rule hoare_raise)

lemma hoare_wrapE: "hoare P m Q E \<Longrightarrow> hoare P (wrapE f as m) Q E"
  unfolding wrapE_def
  by (erule hoare_handleE) (auto intro: hoare_ret hoare_raise)

lemma keeps_handleE [hoare_intros]:
  "keeps P m \<Longrightarrow> (\<And>a. keeps P (k a)) \<Longrightarrow> (\<And>e. keeps P (h e)) \<Longrightarrow> keeps P (handleE m h k)"
  by (rule hoare_handleE)

lemma keeps_bindE [hoare_intros]:
  "keeps P m \<Longrightarrow> (\<And>a. keeps P (k a)) \<Longrightarrow> keeps P (bindE m k)"
  by (rule hoare_bindE)

lemma keeps_wrapE [hoare_intros]: "keeps P m \<Longrightarrow> keeps P (wrapE f as m)"
  by (rule hoare_wrapE)

lemma keeps_liftE [hoare_intros]: "keeps P (liftE r)"
  by (simp add: hoare_def split: sum.split)

lemma keeps_readE [hoare_intros]: "keeps P (readE f)"
  by (simp add: hoare_def)

lemma keeps_forE [hoare_intros]: "(\<And>x. x \<in> set xs \<Longrightarrow> keeps P (f x)) \<Longrightarrow> keeps P (forE xs f)"
  by (induction xs) (auto intro!: hoare_intros)

lemma keeps_if [hoare_intros]:
  "(b \<Longrightarrow> hoare P m Q E) \<Longrightarrow> (\<not> b \<Longrightarrow> hoare P m' Q E) \<Longrightarrow> hoare P (if b then m else m') Q E"
  by simp

lemma keeps_case_option [hoare_intros]:
  "(x = None \<Longrightarrow> hoare P m Q E) \<Longrightarrow> (\<And>a. x = Some a \<Longrightarrow> hoare P (k a) Q E)
     \<Longrightarrow> hoare P (case x of None \<Rightarrow> m | Some a \<Rightarrow> k a) Q E"
  by (cases x) simp_all

lemma keeps_case_list [hoare_intros]:
  "(x = [] \<Longrightarrow> hoare P m Q E) \<Longrightarrow> (\<And>y ys. x = y # ys \<Longrightarrow> hoare P (k y ys) Q E)
     \<Longrightarrow> hoare P (case x of [] \<Rightarrow> m | y # ys \<Rightarrow> k y ys) Q E"
  by (cases x) simp_all

lemma keeps_case_prod [hoare_intros]:
  "(\<And>a b. x = (a, b) \<Longrightarrow> hoare P (k a b) Q E) \<Longrightarrow> hoare P (case x of (a, b) \<Rightarrow> k a b) Q E"
  by (cases x) simp_all

lemma keeps_Let [hoare_intros]:
  "(\<And>y. y = x \<Longrightarrow> hoare P (k y) Q E) \<Longrightarrow> hoare P (let y = x in k y) Q E"
  by simp

end
