(* ===== verification/Kube_Meta.thy ===== *)
theory Kube_Meta
  imports Prelude
begin

text \<open>
  The object metadata every API object embeds (\<open>metav1.ObjectMeta\<close>), and the library
  functions the controllers call on it: the finalizer and owner reference helpers of
  \<open>controllerutil\<close> and the status condition helpers of \<open>apimachinery/pkg/api/meta\<close>.
  Object kinds extend the record \<open>object_meta\<close>, as the Go structs embed the struct, so one
  definition of a helper serves them all.
\<close>

section \<open>Time\<close>

text \<open>\<open>metav1.Time\<close>: the zero time, or an instant.\<close>

datatype gotime = ZeroTime | At int

text \<open>\<open>IsZero\<close> on a \<open>*metav1.Time\<close> accepts nil.\<close>

fun time_is_zero :: "gotime option \<Rightarrow> bool" where
  "time_is_zero None = True"
| "time_is_zero (Some ZeroTime) = True"
| "time_is_zero (Some (At t)) = False"

text \<open>
  \<open>Format(time.RFC3339)\<close> of an instant in UTC, counted in seconds from the epoch. The days are
  split into year, month and day by eras of 400 years that start in March.
\<close>

definition civil_from_days :: "int \<Rightarrow> int \<times> int \<times> int" where
  "civil_from_days d =
     (let z = d + 719468;
          era = z div 146097;
          doe = z mod 146097;
          yoe = (doe - doe div 1460 + doe div 36524 - doe div 146096) div 365;
          doy = doe - (365 * yoe + yoe div 4 - yoe div 100);
          mp = (5 * doy + 2) div 153;
          day = doy - (153 * mp + 2) div 5 + 1;
          month = (if mp < 10 then mp + 3 else mp - 9);
          year = yoe + era * 400 + (if month \<le> 2 then 1 else 0)
      in (year, month, day))"

definition pad :: "nat \<Rightarrow> int \<Rightarrow> string" where
  "pad n i = (let s = show_nat (nat i) in replicate (n - length s) CHR ''0'' @ s)"

definition format_rfc3339 :: "gotime \<Rightarrow> string" where
  "format_rfc3339 t =
     (case t of
        ZeroTime \<Rightarrow> ''0001-01-01T00:00:00Z''
      | At s \<Rightarrow>
          (case civil_from_days (s div 86400) of (y, m, d) \<Rightarrow>
             let r = s mod 86400 in
             pad 4 y @ ''-'' @ pad 2 m @ ''-'' @ pad 2 d @ ''T'' @
             pad 2 (r div 3600) @ '':'' @ pad 2 (r div 60 mod 60) @ '':'' @ pad 2 (r mod 60) @ ''Z''))"

lemma format_rfc3339_nonempty [simp]: "format_rfc3339 t \<noteq> []"
  by (simp add: format_rfc3339_def Let_def split: gotime.split prod.split)

lemma format_rfc3339_example:
  "format_rfc3339 (At 1583020799) = ''2020-02-29T23:59:59Z''"
  by code_simp

section \<open>Object metadata\<close>

record owner_reference =
  or_apiVersion :: string
  or_kind :: string
  or_name :: string
  or_uid :: string
  or_controller :: "bool option"
  or_blockOwnerDeletion :: "bool option"

text \<open>A resource version of 0 stands for the empty string: an object never written.\<close>

record object_meta =
  namespace :: string
  name :: string
  uid :: string
  resourceVersion :: nat
  generation :: int
  deletionTimestamp :: "gotime option"
  labels :: smap
  annotations :: smap
  finalizers :: "string list"
  ownerReferences :: "owner_reference list"

type_synonym object_key = "string \<times> string"

definition obj_key :: "'a object_meta_scheme \<Rightarrow> object_key" where
  "obj_key o' = (namespace o', name o')"

text \<open>Metadata up to the difference between nil and empty maps.\<close>

definition norm_meta :: "'a object_meta_scheme \<Rightarrow> 'a object_meta_scheme" where
  "norm_meta o' = o'\<lparr>labels := sm_norm (labels o'), annotations := sm_norm (annotations o')\<rparr>"

section \<open>Finalizers\<close>

definition ContainsFinalizer :: "'a object_meta_scheme \<Rightarrow> string \<Rightarrow> bool" where
  "ContainsFinalizer o' f \<longleftrightarrow> f \<in> set (finalizers o')"

definition AddFinalizer :: "string \<Rightarrow> 'a object_meta_scheme \<Rightarrow> 'a object_meta_scheme" where
  "AddFinalizer f o' =
     (if f \<in> set (finalizers o') then o' else o'\<lparr>finalizers := finalizers o' @ [f]\<rparr>)"

definition RemoveFinalizer :: "string \<Rightarrow> 'a object_meta_scheme \<Rightarrow> 'a object_meta_scheme" where
  "RemoveFinalizer f o' = o'\<lparr>finalizers := filter (\<lambda>g. g \<noteq> f) (finalizers o')\<rparr>"

lemma contains_add [simp]: "ContainsFinalizer (AddFinalizer f o') f"
  by (simp add: ContainsFinalizer_def AddFinalizer_def)

lemma contains_remove [simp]: "\<not> ContainsFinalizer (RemoveFinalizer f o') f"
  by (simp add: ContainsFinalizer_def RemoveFinalizer_def)

lemma contains_add_other [simp]:
  "ContainsFinalizer (AddFinalizer f o') g \<longleftrightarrow> g = f \<or> ContainsFinalizer o' g"
  by (auto simp: ContainsFinalizer_def AddFinalizer_def)

lemma contains_remove_other [simp]:
  "ContainsFinalizer (RemoveFinalizer f o') g \<longleftrightarrow> g \<noteq> f \<and> ContainsFinalizer o' g"
  by (auto simp: ContainsFinalizer_def RemoveFinalizer_def)

lemma finalizer_frame [simp]:
  "obj_key (AddFinalizer f o') = obj_key o'"
  "obj_key (RemoveFinalizer f o') = obj_key o'"
  "deletionTimestamp (AddFinalizer f o') = deletionTimestamp o'"
  "deletionTimestamp (RemoveFinalizer f o') = deletionTimestamp o'"
  "resourceVersion (AddFinalizer f o') = resourceVersion o'"
  "resourceVersion (RemoveFinalizer f o') = resourceVersion o'"
  "name (AddFinalizer f o') = name o'"
  "name (RemoveFinalizer f o') = name o'"
  "namespace (AddFinalizer f o') = namespace o'"
  "namespace (RemoveFinalizer f o') = namespace o'"
  by (simp_all add: AddFinalizer_def RemoveFinalizer_def obj_key_def)

lemma add_remove_finalizer:
  "\<not> ContainsFinalizer o' f \<Longrightarrow> RemoveFinalizer f (AddFinalizer f o') = o'"
proof -
  assume "\<not> ContainsFinalizer o' f"
  then have "filter (\<lambda>g. g \<noteq> f) (finalizers o') = finalizers o'"
    by (auto simp: ContainsFinalizer_def intro!: filter_True)
  with \<open>\<not> ContainsFinalizer o' f\<close> show ?thesis
    by (simp add: ContainsFinalizer_def AddFinalizer_def RemoveFinalizer_def)
qed

section \<open>Owner references\<close>

text \<open>\<open>schema.ParseGroupVersion\<close>: the group of an API version, \<open>None\<close> for a parse error\<close>

definition api_group :: "string \<Rightarrow> string option" where
  "api_group s =
     (if s = [] \<or> s = ''/'' then Some []
      else (case cut s CHR ''/'' of (g, v, found) \<Rightarrow>
        if \<not> found then Some []
        else if CHR ''/'' \<in> set v then None
        else Some g))"

definition referSameObject :: "owner_reference \<Rightarrow> owner_reference \<Rightarrow> bool" where
  "referSameObject a b =
     (case (api_group (or_apiVersion a), api_group (or_apiVersion b)) of
        (Some ga, Some gb) \<Rightarrow> ga = gb \<and> or_kind a = or_kind b \<and> or_name a = or_name b
      | _ \<Rightarrow> False)"

definition GetControllerOf :: "'a object_meta_scheme \<Rightarrow> owner_reference option" where
  "GetControllerOf o' = find (\<lambda>r. or_controller r = Some True) (ownerReferences o')"

fun upsert_ref :: "owner_reference \<Rightarrow> owner_reference list \<Rightarrow> owner_reference list" where
  "upsert_ref r [] = [r]"
| "upsert_ref r (x # xs) = (if referSameObject x r then r # xs else x # upsert_ref r xs)"

definition validateOwner :: "'a object_meta_scheme \<Rightarrow> 'b object_meta_scheme \<Rightarrow> error option" where
  "validateOwner owner obj =
     (if namespace owner \<noteq> [] then
        if namespace obj = [] then
          Some (Errorf ''cluster-scoped resource must not have a namespace-scoped owner, owner's namespace %s''
                 [AStr (namespace owner)])
        else if namespace owner \<noteq> namespace obj then
          Some (Errorf ''cross-namespace owner references are disallowed, owner's namespace %s, obj's namespace %s''
                 [AStr (namespace owner), AStr (namespace obj)])
        else None
      else None)"

text \<open>
  The API version and kind of the owner come from the scheme (\<open>apiutil.GVKForObject\<close>); the
  caller passes them.
\<close>

definition controller_ref :: "string \<Rightarrow> string \<Rightarrow> 'a object_meta_scheme \<Rightarrow> owner_reference" where
  "controller_ref apiVersion kind owner =
     \<lparr>or_apiVersion = apiVersion, or_kind = kind, or_name = name owner, or_uid = uid owner,
      or_controller = Some True, or_blockOwnerDeletion = Some True\<rparr>"

definition SetControllerReference ::
  "string \<Rightarrow> string \<Rightarrow> 'a object_meta_scheme \<Rightarrow> 'b object_meta_scheme \<Rightarrow> error + 'b object_meta_scheme" where
  "SetControllerReference apiVersion kind owner obj =
     (case validateOwner owner obj of
        Some e \<Rightarrow> Inl e
      | None \<Rightarrow>
          let ref = controller_ref apiVersion kind owner in
          (case GetControllerOf obj of
             Some existing \<Rightarrow>
               if \<not> referSameObject existing ref then
                 Inl (Errorf ''Object %s/%s is already owned by another %s controller %s''
                        [AStr (namespace obj), AStr (name obj), AStr (or_kind existing), AStr (or_name existing)])
               else Inr (obj\<lparr>ownerReferences := upsert_ref ref (ownerReferences obj)\<rparr>)
           | None \<Rightarrow> Inr (obj\<lparr>ownerReferences := upsert_ref ref (ownerReferences obj)\<rparr>)))"

lemma upsert_ref_mem: "r \<in> set (upsert_ref r rs)"
  by (induction rs) auto

lemma SetControllerReference_Inr:
  assumes "SetControllerReference av kd owner obj = Inr obj'"
  shows "obj' = obj\<lparr>ownerReferences := upsert_ref (controller_ref av kd owner) (ownerReferences obj)\<rparr>"
    and "controller_ref av kd owner \<in> set (ownerReferences obj')"
  using assms upsert_ref_mem
  by (auto simp: SetControllerReference_def Let_def split: option.splits if_splits)

lemma SetControllerReference_new:
  "namespace owner = [] \<Longrightarrow> ownerReferences obj = [] \<Longrightarrow>
   SetControllerReference av kd owner obj = Inr (obj\<lparr>ownerReferences := [controller_ref av kd owner]\<rparr>)"
  by (simp add: SetControllerReference_def validateOwner_def GetControllerOf_def)

text \<open>Setting the reference that is already the only one changes nothing.\<close>

lemma SetControllerReference_again:
  assumes "namespace owner = []" "ownerReferences obj = [controller_ref av kd owner]" "api_group av \<noteq> None"
  shows "SetControllerReference av kd owner obj = Inr obj"
proof -
  have "referSameObject (controller_ref av kd owner) (controller_ref av kd owner)"
    using assms(3) by (auto simp: referSameObject_def controller_ref_def)
  moreover have "GetControllerOf obj = Some (controller_ref av kd owner)"
    using assms(2) by (simp add: GetControllerOf_def controller_ref_def)
  moreover have "obj\<lparr>ownerReferences := [controller_ref av kd owner]\<rparr> = obj"
    by (simp flip: assms(2))
  ultimately show ?thesis
    using assms by (simp add: SetControllerReference_def validateOwner_def)
qed

section \<open>Status conditions\<close>

datatype condition_status = ConditionTrue | ConditionFalse | ConditionUnknown

record condition =
  c_type :: string
  c_status :: condition_status
  c_observedGeneration :: int
  c_lastTransitionTime :: gotime
  c_reason :: string
  c_message :: string

definition FindStatusCondition :: "condition list \<Rightarrow> string \<Rightarrow> condition option" where
  "FindStatusCondition cs t = find (\<lambda>c. c_type c = t) cs"

fun update_first :: "('a \<Rightarrow> bool) \<Rightarrow> ('a \<Rightarrow> 'a) \<Rightarrow> 'a list \<Rightarrow> 'a list" where
  "update_first p f [] = []"
| "update_first p f (x # xs) = (if p x then f x # xs else x # update_first p f xs)"

text \<open>The existing condition takes over the new one's fields; its transition time moves only
  with its status.\<close>

definition merge_condition :: "int \<Rightarrow> condition \<Rightarrow> condition \<Rightarrow> condition" where
  "merge_condition now new old =
     old\<lparr>c_status := c_status new,
         c_lastTransitionTime :=
           (if c_status old \<noteq> c_status new then
              (if c_lastTransitionTime new \<noteq> ZeroTime then c_lastTransitionTime new else At now)
            else c_lastTransitionTime old),
         c_reason := c_reason new,
         c_message := c_message new,
         c_observedGeneration := c_observedGeneration new\<rparr>"

definition SetStatusCondition :: "int \<Rightarrow> condition \<Rightarrow> condition list \<Rightarrow> condition list" where
  "SetStatusCondition now new cs =
     (case FindStatusCondition cs (c_type new) of
        None \<Rightarrow>
          cs @ [if c_lastTransitionTime new = ZeroTime then new\<lparr>c_lastTransitionTime := At now\<rparr> else new]
      | Some _ \<Rightarrow> update_first (\<lambda>c. c_type c = c_type new) (merge_condition now new) cs)"

definition RemoveStatusCondition :: "string \<Rightarrow> condition list \<Rightarrow> condition list" where
  "RemoveStatusCondition t cs = filter (\<lambda>c. c_type c \<noteq> t) cs"

lemma merge_condition_type [simp]: "c_type (merge_condition now new old) = c_type old"
  by (simp add: merge_condition_def)

lemma merge_condition_status [simp]: "c_status (merge_condition now new old) = c_status new"
  by (simp add: merge_condition_def)

lemma find_update_first_same:
  "find p xs = Some x \<Longrightarrow> (\<And>y. p (f y) = p y) \<Longrightarrow> find p (update_first p f xs) = Some (f x)"
  by (induction xs) (auto split: if_splits)

lemma find_update_first_other:
  "(\<And>y. p y \<Longrightarrow> \<not> q y \<and> \<not> q (f y)) \<Longrightarrow> find q (update_first p f xs) = find q xs"
  by (induction xs) auto

lemma map_update_first: "(\<And>y. g (f y) = g y) \<Longrightarrow> map g (update_first p f xs) = map g xs"
  by (induction xs) auto

lemma find_append_None: "find p xs = None \<Longrightarrow> find p (xs @ ys) = find p ys"
  by (induction xs) (auto split: if_splits)

lemma find_append: "find p (xs @ ys) = (case find p xs of None \<Rightarrow> find p ys | Some x \<Rightarrow> Some x)"
  by (induction xs) auto

lemma find_set_condition:
  "FindStatusCondition (SetStatusCondition now new cs) (c_type new) =
     Some (case FindStatusCondition cs (c_type new) of
             None \<Rightarrow> if c_lastTransitionTime new = ZeroTime then new\<lparr>c_lastTransitionTime := At now\<rparr> else new
           | Some old \<Rightarrow> merge_condition now new old)"
  by (auto simp: SetStatusCondition_def FindStatusCondition_def find_append
      intro!: find_update_first_same split: option.split)

lemma find_set_condition_status:
  "map_option c_status (FindStatusCondition (SetStatusCondition now new cs) (c_type new)) = Some (c_status new)"
  by (auto simp: find_set_condition split: option.split)

lemma find_set_condition_other:
  "t \<noteq> c_type new \<Longrightarrow> FindStatusCondition (SetStatusCondition now new cs) t = FindStatusCondition cs t"
  by (simp add: SetStatusCondition_def FindStatusCondition_def find_append find_update_first_other
      split: option.split)

lemma find_remove_condition:
  "FindStatusCondition (RemoveStatusCondition t cs) t' =
     (if t' = t then None else FindStatusCondition cs t')"
  by (induction cs) (auto simp: FindStatusCondition_def RemoveStatusCondition_def)

lemma FindStatusCondition_type: "FindStatusCondition cs t = Some c \<Longrightarrow> c_type c = t"
  by (auto simp: FindStatusCondition_def find_Some_iff)

lemma FindStatusCondition_None_iff: "FindStatusCondition cs t = None \<longleftrightarrow> t \<notin> c_type ` set cs"
  by (auto simp: FindStatusCondition_def find_None_iff)

text \<open>The type of a condition is its key in the list.\<close>

lemma set_condition_types:
  "map c_type (SetStatusCondition now new cs) =
     (if c_type new \<in> c_type ` set cs then map c_type cs else map c_type cs @ [c_type new])"
  by (auto simp: SetStatusCondition_def map_update_first FindStatusCondition_None_iff
      split: option.split dest: FindStatusCondition_type
      intro: FindStatusCondition_None_iff [THEN iffD1, THEN notE])
    (metis FindStatusCondition_None_iff option.distinct(1) rev_image_eqI)+

lemma set_condition_distinct:
  "distinct (map c_type cs) \<Longrightarrow> distinct (map c_type (SetStatusCondition now new cs))"
  by (auto simp: set_condition_types)

lemma remove_condition_distinct:
  "distinct (map c_type cs) \<Longrightarrow> distinct (map c_type (RemoveStatusCondition t cs))"
  by (simp add: RemoveStatusCondition_def distinct_map_filter)

end
