(* ===== verification/Kube_Client.thy ===== *)
theory Kube_Client
  imports Kube_Meta
begin

text \<open>
  The API server as the reconcilers see it through \<open>client.Client\<close>, translated from the
  object tracker the repository's tests run against
  (\<open>vendor/sigs.k8s.io/controller-runtime/pkg/client/fake\<close>): optimistic concurrency on
  resource versions, deletion that waits for finalizers, an update that never changes the
  status of a kind with a status subresource. Every call may fail with any API error: the
  world carries the answers of the calls to come (\<open>api_faults\<close>), an exhausted list meaning
  that the remaining calls succeed.

  A kind is described by how its objects are read and written in the world, so the calls are
  defined once. The locale \<open>api_kind\<close> states what the reconcilers rely on; the theory that
  declares the world interprets it for each of its kinds.
\<close>

section \<open>Lists of objects\<close>

definition find_obj :: "object_key \<Rightarrow> 'a object_meta_scheme list \<Rightarrow> 'a object_meta_scheme option" where
  "find_obj key objs = find (\<lambda>o'. obj_key o' = key) objs"

definition put_obj :: "'a object_meta_scheme \<Rightarrow> 'a object_meta_scheme list \<Rightarrow> 'a object_meta_scheme list" where
  "put_obj obj objs = map (\<lambda>o'. if obj_key o' = obj_key obj then obj else o') objs"

definition remove_obj :: "object_key \<Rightarrow> 'a object_meta_scheme list \<Rightarrow> 'a object_meta_scheme list" where
  "remove_obj key objs = filter (\<lambda>o'. obj_key o' \<noteq> key) objs"

text \<open>A write of an object that is being deleted and has no finalizer left removes it.\<close>

definition commit_obj :: "'a object_meta_scheme \<Rightarrow> 'a object_meta_scheme list \<Rightarrow> 'a object_meta_scheme list" where
  "commit_obj obj objs =
     (if \<not> time_is_zero (deletionTimestamp obj) \<and> finalizers obj = []
      then remove_obj (obj_key obj) objs else put_obj obj objs)"

text \<open>\<open>deleteObjectLocked\<close>: with finalizers the object is only marked.\<close>

definition delete_obj :: "int \<Rightarrow> object_key \<Rightarrow> 'a object_meta_scheme list \<Rightarrow> 'a object_meta_scheme list" where
  "delete_obj now key objs =
     (case find_obj key objs of
        None \<Rightarrow> objs
      | Some old \<Rightarrow>
          if finalizers old \<noteq> [] then
            put_obj (old\<lparr>deletionTimestamp := Some (At now), resourceVersion := Suc (resourceVersion old)\<rparr>) objs
          else remove_obj key objs)"

definition not_deleting :: "object_key \<Rightarrow> 'a object_meta_scheme list \<Rightarrow> bool" where
  "not_deleting key objs = (case find_obj key objs of None \<Rightarrow> True | Some o' \<Rightarrow> deletionTimestamp o' = None)"

lemma find_obj_Some: "find_obj key objs = Some o' \<Longrightarrow> o' \<in> set objs \<and> obj_key o' = key"
  by (auto simp: find_obj_def find_Some_iff)

lemma find_obj_None_iff: "find_obj key objs = None \<longleftrightarrow> key \<notin> obj_key ` set objs"
  by (auto simp: find_obj_def find_None_iff)

lemma find_obj_Nil [simp]: "find_obj key [] = None"
  by (simp add: find_obj_def)

lemma find_obj_Cons [simp]:
  "find_obj key (o' # objs) = (if obj_key o' = key then Some o' else find_obj key objs)"
  by (simp add: find_obj_def)

lemma find_obj_append:
  "find_obj key (xs @ ys) = (case find_obj key xs of None \<Rightarrow> find_obj key ys | Some o' \<Rightarrow> Some o')"
  by (simp add: find_obj_def find_append split: option.split)

lemma find_put_obj [simp]:
  "find_obj key (put_obj obj objs) =
     (if key = obj_key obj \<and> find_obj key objs \<noteq> None then Some obj else find_obj key objs)"
  by (induction objs) (auto simp: put_obj_def)

lemma find_remove_obj [simp]:
  "find_obj key (remove_obj key' objs) = (if key = key' then None else find_obj key objs)"
  by (induction objs) (auto simp: remove_obj_def)

lemma keys_put_obj [simp]: "map obj_key (put_obj obj objs) = map obj_key objs"
  by (induction objs) (auto simp: put_obj_def)

lemma set_put_obj: "o' \<in> set (put_obj obj objs) \<Longrightarrow> o' = obj \<or> (o' \<in> set objs \<and> obj_key o' \<noteq> obj_key obj)"
  by (auto simp: put_obj_def)

lemma set_remove_obj [simp]: "o' \<in> set (remove_obj key objs) \<longleftrightarrow> o' \<in> set objs \<and> obj_key o' \<noteq> key"
  by (auto simp: remove_obj_def)

lemma distinct_remove_obj: "distinct (map obj_key objs) \<Longrightarrow> distinct (map obj_key (remove_obj key objs))"
  by (simp add: remove_obj_def distinct_map_filter)

lemma distinct_commit_obj: "distinct (map obj_key objs) \<Longrightarrow> distinct (map obj_key (commit_obj obj objs))"
  by (simp add: commit_obj_def distinct_remove_obj)

lemma find_commit_obj:
  "find_obj key (commit_obj obj objs) =
     (if key = obj_key obj \<and> find_obj key objs \<noteq> None
      then (if \<not> time_is_zero (deletionTimestamp obj) \<and> finalizers obj = [] then None else Some obj)
      else find_obj key objs)"
  by (auto simp: commit_obj_def)

lemma set_commit_obj:
  "o' \<in> set (commit_obj obj objs) \<Longrightarrow> o' = obj \<or> (o' \<in> set objs \<and> obj_key o' \<noteq> obj_key obj)"
  by (auto simp: commit_obj_def split: if_splits dest: set_put_obj)

lemma obj_key_mark [simp]:
  "obj_key (o'\<lparr>deletionTimestamp := d\<rparr>) = obj_key o'"
  "obj_key (o'\<lparr>resourceVersion := r\<rparr>) = obj_key o'"
  "obj_key (o'\<lparr>finalizers := fs\<rparr>) = obj_key o'"
  "obj_key (o'\<lparr>annotations := a\<rparr>) = obj_key o'"
  "obj_key (o'\<lparr>labels := l\<rparr>) = obj_key o'"
  "obj_key (o'\<lparr>ownerReferences := rs\<rparr>) = obj_key o'"
  by (simp_all add: obj_key_def)

lemma delete_obj_keys: "set (map obj_key (delete_obj now key objs)) \<subseteq> set (map obj_key objs)"
proof (cases "find_obj key objs")
  case None
  then show ?thesis by (simp add: delete_obj_def)
next
  case (Some old)
  show ?thesis
  proof (cases "finalizers old = []")
    case True
    with Some show ?thesis by (auto simp: delete_obj_def)
  next
    case False
    with Some show ?thesis by (simp add: delete_obj_def flip: set_map del: set_map)
  qed
qed

lemma distinct_delete_obj: "distinct (map obj_key objs) \<Longrightarrow> distinct (map obj_key (delete_obj now key objs))"
  by (auto simp: delete_obj_def distinct_remove_obj split: option.split)

text \<open>
  Rounds over a listed kind: every object is replaced by the objects a call leaves in its
  place, none when it is removed.
\<close>

definition replace_obj :: "object_key \<Rightarrow> 'a object_meta_scheme list \<Rightarrow> 'a object_meta_scheme list
    \<Rightarrow> 'a object_meta_scheme list" where
  "replace_obj key ys objs = concat (map (\<lambda>o'. if obj_key o' = key then ys else [o']) objs)"

definition marked :: "int \<Rightarrow> 'a object_meta_scheme \<Rightarrow> 'a object_meta_scheme" where
  "marked now o' = o'\<lparr>deletionTimestamp := Some (At now), resourceVersion := Suc (resourceVersion o')\<rparr>"

definition deleted_round :: "int \<Rightarrow> 'a object_meta_scheme \<Rightarrow> 'a object_meta_scheme list" where
  "deleted_round now o' = (if finalizers o' \<noteq> [] then [marked now o'] else [])"

definition committed_round :: "'a object_meta_scheme \<Rightarrow> 'a object_meta_scheme list" where
  "committed_round o' = (if \<not> time_is_zero (deletionTimestamp o') \<and> finalizers o' = [] then [] else [o'])"

lemma replace_obj_absent: "key \<notin> obj_key ` set objs \<Longrightarrow> replace_obj key ys objs = objs"
  by (induction objs) (auto simp: replace_obj_def)

lemma replace_obj_append: "replace_obj key ys (xs @ zs) = replace_obj key ys xs @ replace_obj key ys zs"
  by (simp add: replace_obj_def)

lemma deleted_round_key: "y \<in> set (deleted_round now x) \<Longrightarrow> obj_key y = obj_key x"
  by (cases "finalizers x = []") (simp_all add: deleted_round_def marked_def)

lemma committed_round_key: "y \<in> set (committed_round x) \<Longrightarrow> obj_key y = obj_key x"
  by (cases "\<not> time_is_zero (deletionTimestamp x) \<and> finalizers x = []")
    (simp_all add: committed_round_def)

lemmas rounds_keys = deleted_round_key committed_round_key

lemma rounds_length [simp]: "length (deleted_round now x) \<le> Suc 0" "length (committed_round x) \<le> Suc 0"
  by (simp_all add: deleted_round_def committed_round_def)

lemma put_obj_replace: "put_obj obj objs = replace_obj (obj_key obj) [obj] objs"
  by (induction objs) (auto simp: put_obj_def replace_obj_def)

lemma remove_obj_replace: "remove_obj key objs = replace_obj key [] objs"
  by (induction objs) (auto simp: remove_obj_def replace_obj_def)

lemma commit_obj_replace: "commit_obj obj objs = replace_obj (obj_key obj) (committed_round obj) objs"
  by (simp add: commit_obj_def committed_round_def put_obj_replace remove_obj_replace)

lemma delete_obj_replace:
  "find_obj key objs = Some old \<Longrightarrow> delete_obj now key objs = replace_obj key (deleted_round now old) objs"
proof -
  assume old: "find_obj key objs = Some old"
  then have "obj_key old = key"
    by (auto dest: find_obj_Some)
  with old show ?thesis
    by (simp add: delete_obj_def deleted_round_def marked_def put_obj_replace remove_obj_replace)
qed

lemma replace_obj_same:
  "find_obj key objs = Some o' \<Longrightarrow> distinct (map obj_key objs) \<Longrightarrow> replace_obj key [o'] objs = objs"
proof (induction objs)
  case Nil
  then show ?case by simp
next
  case (Cons a objs)
  show ?case
  proof (cases "obj_key a = key")
    case True
    with Cons.prems have "replace_obj key [o'] objs = objs"
      by (intro replace_obj_absent) auto
    with True Cons.prems show ?thesis by (simp add: replace_obj_def)
  next
    case False
    with Cons show ?thesis by (simp add: replace_obj_def)
  qed
qed

section \<open>Calls\<close>

record api =
  api_faults :: "api_error option list"
  api_now :: int

record ('w, 'o) kind =
  k_objs :: "'w \<Rightarrow> 'o list"
  k_upd :: "('o list \<Rightarrow> 'o list) \<Rightarrow> 'w \<Rightarrow> 'w"
  \<comment> \<open>\<open>copyStatusFrom old new\<close>\<close>
  k_keepStatus :: "'o \<Rightarrow> 'o \<Rightarrow> 'o"
  \<comment> \<open>objects up to \<open>equality.Semantic.DeepEqual\<close>\<close>
  k_norm :: "'o \<Rightarrow> 'o"

text \<open>The answer of the next call.\<close>

definition api_call :: "('z api_scheme, unit) io" where
  "api_call = (\<lambda>w.
     case api_faults w of
       [] \<Rightarrow> (Inr (), w)
     | None # fs \<Rightarrow> (Inr (), w\<lparr>api_faults := fs\<rparr>)
     | Some e # fs \<Rightarrow> (Inl (ApiErr e), w\<lparr>api_faults := fs\<rparr>))"

definition nowE :: "('z api_scheme, int) io" where
  "nowE = readE api_now"

definition cl_get :: "('z api_scheme, 'a object_meta_scheme) kind \<Rightarrow> object_key
    \<Rightarrow> ('z api_scheme, 'a object_meta_scheme) io" where
  "cl_get K key =
     bindE api_call (\<lambda>_. \<lambda>w.
       case find_obj key (k_objs K w) of
         None \<Rightarrow> (Inl (ApiErr NotFound), w)
       | Some o' \<Rightarrow> (Inr o', w))"

definition cl_list :: "('z api_scheme, 'a object_meta_scheme) kind \<Rightarrow> ('a object_meta_scheme \<Rightarrow> bool)
    \<Rightarrow> ('z api_scheme, 'a object_meta_scheme list) io" where
  "cl_list K sel = bindE api_call (\<lambda>_. readE (\<lambda>w. filter sel (k_objs K w)))"

definition cl_create :: "('z api_scheme, 'a object_meta_scheme) kind \<Rightarrow> 'a object_meta_scheme
    \<Rightarrow> ('z api_scheme, 'a object_meta_scheme) io" where
  "cl_create K obj =
     bindE api_call (\<lambda>_. \<lambda>w.
       if name obj = [] then (Inl (ApiErr (OtherApi ''Invalid'')), w)
       else if resourceVersion obj \<noteq> 0 then (Inl (ApiErr (OtherApi ''BadRequest'')), w)
       else if find_obj (obj_key obj) (k_objs K w) \<noteq> None then (Inl (ApiErr AlreadyExists), w)
       else let new = obj\<lparr>resourceVersion := 1, deletionTimestamp := None\<rparr>
            in (Inr new, k_upd K (\<lambda>objs. objs @ [new]) w))"

text \<open>The common part of an update and a patch of the stored object \<open>old\<close> to \<open>new\<close>.\<close>

definition write_obj :: "('z api_scheme, 'a object_meta_scheme) kind \<Rightarrow> 'a object_meta_scheme
    \<Rightarrow> 'a object_meta_scheme \<Rightarrow> ('z api_scheme, 'a object_meta_scheme) io" where
  "write_obj K old new =
     (if deletionTimestamp new \<noteq> deletionTimestamp old
      then raise (ApiErr (OtherApi ''metadata.deletionTimestamp field is immutable''))
      else let new' = (k_keepStatus K old new)\<lparr>resourceVersion := Suc (resourceVersion old)\<rparr>
           in bindE (modifyE (k_upd K (commit_obj new'))) (\<lambda>_. ret new'))"

definition cl_update :: "('z api_scheme, 'a object_meta_scheme) kind \<Rightarrow> 'a object_meta_scheme
    \<Rightarrow> ('z api_scheme, 'a object_meta_scheme) io" where
  "cl_update K obj =
     bindE api_call (\<lambda>_. \<lambda>w.
       case find_obj (obj_key obj) (k_objs K w) of
         None \<Rightarrow> (Inl (ApiErr NotFound), w)
       | Some old \<Rightarrow>
           if resourceVersion obj \<noteq> resourceVersion old then (Inl (ApiErr Conflict), w)
           else write_obj K old obj w)"

text \<open>
  A merge patch computed from \<open>original\<close>. \<open>body\<close> is the patch as a function on the server's
  object; with the optimistic lock the patch carries the original's resource version.
\<close>

definition cl_patch :: "('z api_scheme, 'a object_meta_scheme) kind \<Rightarrow> bool \<Rightarrow> 'a object_meta_scheme
    \<Rightarrow> ('a object_meta_scheme \<Rightarrow> 'a object_meta_scheme) \<Rightarrow> ('z api_scheme, 'a object_meta_scheme) io" where
  "cl_patch K lock original body =
     bindE api_call (\<lambda>_. \<lambda>w.
       case find_obj (obj_key original) (k_objs K w) of
         None \<Rightarrow> (Inl (ApiErr NotFound), w)
       | Some old \<Rightarrow>
           if lock \<and> resourceVersion original \<noteq> resourceVersion old then (Inl (ApiErr Conflict), w)
           else write_obj K old (body old) w)"

text \<open>A patch of the status subresource: \<open>body\<close> changes the status only.\<close>

definition cl_status_patch :: "('z api_scheme, 'a object_meta_scheme) kind \<Rightarrow> bool \<Rightarrow> 'a object_meta_scheme
    \<Rightarrow> ('a object_meta_scheme \<Rightarrow> 'a object_meta_scheme) \<Rightarrow> ('z api_scheme, 'a object_meta_scheme) io" where
  "cl_status_patch K lock original body =
     bindE api_call (\<lambda>_. \<lambda>w.
       case find_obj (obj_key original) (k_objs K w) of
         None \<Rightarrow> (Inl (ApiErr NotFound), w)
       | Some old \<Rightarrow>
           if lock \<and> resourceVersion original \<noteq> resourceVersion old then (Inl (ApiErr Conflict), w)
           else let new = (k_keepStatus K (body old) old)\<lparr>resourceVersion := Suc (resourceVersion old)\<rparr>
                in (Inr new, k_upd K (put_obj new) w))"

definition cl_delete :: "('z api_scheme, 'a object_meta_scheme) kind \<Rightarrow> object_key
    \<Rightarrow> ('z api_scheme, unit) io" where
  "cl_delete K key =
     bindE api_call (\<lambda>_. \<lambda>w.
       case find_obj key (k_objs K w) of
         None \<Rightarrow> (Inl (ApiErr NotFound), w)
       | Some old \<Rightarrow> (Inr (), k_upd K (delete_obj (api_now w) key) w))"

section \<open>CreateOrUpdate\<close>

datatype operation_result = OperationResultNone | OperationResultCreated | OperationResultUpdated

text \<open>\<open>mutate\<close>: runs the mutation and checks that it kept name and namespace.\<close>

definition mutate_obj :: "('a object_meta_scheme \<Rightarrow> error + 'a object_meta_scheme) \<Rightarrow> object_key
    \<Rightarrow> 'a object_meta_scheme \<Rightarrow> error + 'a object_meta_scheme" where
  "mutate_obj f key obj =
     (case f obj of
        Inl e \<Rightarrow> Inl e
      | Inr obj' \<Rightarrow>
          if obj_key obj' \<noteq> key
          then Inl (Errorf ''MutateFn cannot mutate object name and/or object namespace'' [])
          else Inr obj')"

definition createOrUpdate :: "('z api_scheme, 'a object_meta_scheme) kind \<Rightarrow> 'a object_meta_scheme
    \<Rightarrow> ('a object_meta_scheme \<Rightarrow> error + 'a object_meta_scheme)
    \<Rightarrow> ('z api_scheme, operation_result \<times> 'a object_meta_scheme) io" where
  "createOrUpdate K obj f =
     handleE (cl_get K (obj_key obj))
       (\<lambda>e. if \<not> is_not_found e then raise e
            else bindE (liftE (mutate_obj f (obj_key obj) obj)) (\<lambda>obj'.
                 bindE (cl_create K obj') (\<lambda>created.
                 ret (OperationResultCreated, created))))
       (\<lambda>existing.
            bindE (liftE (mutate_obj f (obj_key obj) existing)) (\<lambda>obj'.
            if k_norm K existing = k_norm K obj' then ret (OperationResultNone, obj')
            else bindE (cl_update K obj') (\<lambda>updated.
                 ret (OperationResultUpdated, updated))))"

section \<open>Results and watch events\<close>

text \<open>
  \<open>ctrl.Result\<close>, with its delay in nanoseconds; \<open>Result0\<close> is \<open>ctrl.Result{}\<close>.
\<close>

record ctrl_result =
  requeueAfter :: int

definition Result0 :: ctrl_result where
  "Result0 = \<lparr>requeueAfter = 0\<rparr>"

definition second_ns :: int where
  "second_ns = 1000000000"

text \<open>
  The events a predicate of controller-runtime filters, and the requests a map function
  enqueues (\<open>reconcile.Request\<close>, a namespaced name).
\<close>

datatype 'o watch_event = CreateEvent 'o | UpdateEvent 'o 'o | DeleteEvent 'o | GenericEvent 'o

section \<open>Reading the calls\<close>

lemma api_call_cases:
  obtains (fault) e fs where "api_call w = (Inl (ApiErr e), w\<lparr>api_faults := fs\<rparr>)" "Some e \<in> set (api_faults w)"
  | (fine) fs where "api_call w = (Inr (), w\<lparr>api_faults := fs\<rparr>)"
proof (cases "api_faults w")
  case Nil
  then have "api_call w = (Inr (), w\<lparr>api_faults := []\<rparr>)"
    by (simp add: api_call_def)
  then show ?thesis by (rule fine)
next
  case (Cons x fs)
  then show ?thesis
    by (cases x) (auto simp: api_call_def intro: fault fine)
qed

lemma api_call_no_faults [simp]: "api_faults w = [] \<Longrightarrow> api_call w = (Inr (), w)"
  by (simp add: api_call_def)

text \<open>A read leaves the world as it was, but for the answers used up.\<close>

lemma cl_get_cases:
  obtains (fault) e fs where "cl_get K key w = (Inl (ApiErr e), w\<lparr>api_faults := fs\<rparr>)"
  | (missing) fs where "cl_get K key w = (Inl (ApiErr NotFound), w\<lparr>api_faults := fs\<rparr>)"
      "find_obj key (k_objs K (w\<lparr>api_faults := fs\<rparr>)) = None"
  | (found) o' fs where "cl_get K key w = (Inr o', w\<lparr>api_faults := fs\<rparr>)"
      "find_obj key (k_objs K (w\<lparr>api_faults := fs\<rparr>)) = Some o'"
proof (cases rule: api_call_cases [of w])
  case (fault e fs)
  then show ?thesis by (intro that(1) [of e fs]) (simp add: cl_get_def bindE_run)
next
  case (fine fs)
  then show ?thesis
    by (cases "find_obj key (k_objs K (w\<lparr>api_faults := fs\<rparr>))")
      (auto simp: cl_get_def bindE_run intro: that(2,3))
qed

lemma get_leaves: "cl_get K key w = (r, v) \<Longrightarrow> \<exists>fs. v = w\<lparr>api_faults := fs\<rparr>"
  by (cases rule: cl_get_cases [of K key w]) auto

lemma cl_list_cases:
  obtains (fault) e fs where "cl_list K sel w = (Inl (ApiErr e), w\<lparr>api_faults := fs\<rparr>)"
  | (listed) fs where
      "cl_list K sel w = (Inr (filter sel (k_objs K (w\<lparr>api_faults := fs\<rparr>))), w\<lparr>api_faults := fs\<rparr>)"
proof (cases rule: api_call_cases [of w])
  case (fault e fs)
  then show ?thesis by (intro that(1) [of e fs]) (simp add: cl_list_def bindE_run)
next
  case (fine fs)
  then show ?thesis by (intro that(2) [of fs]) (simp add: cl_list_def bindE_run)
qed

text \<open>Hoare rules of the calls: a read keeps what does not depend on the answers to come.\<close>

lemma keeps_api_call: "(\<And>w fs. P w \<Longrightarrow> P (w\<lparr>api_faults := fs\<rparr>)) \<Longrightarrow> keeps P api_call"
  by (rule hoareI) (metis api_call_cases prod.inject)+

lemma keeps_nowE [hoare_intros]: "keeps P nowE"
  unfolding nowE_def by (rule keeps_readE)

lemma keeps_cl_get:
  "(\<And>w fs. P w \<Longrightarrow> P (w\<lparr>api_faults := fs\<rparr>)) \<Longrightarrow> keeps P (cl_get K key)"
  by (rule hoareI) (metis cl_get_cases prod.inject)+

lemma keeps_cl_list:
  "(\<And>w fs. P w \<Longrightarrow> P (w\<lparr>api_faults := fs\<rparr>)) \<Longrightarrow> keeps P (cl_list K sel)"
  by (rule hoareI) (metis cl_list_cases prod.inject)+

lemma hoare_api_then:
  assumes "\<And>w fs. P w \<Longrightarrow> P' (w\<lparr>api_faults := fs\<rparr>)"
    and "\<And>w fs. P w \<Longrightarrow> E (w\<lparr>api_faults := fs\<rparr>)"
    and "hoare P' m Q E"
  shows "hoare P (bindE api_call (\<lambda>_. m)) Q E"
proof (rule hoare_bindE)
  show "hoare P api_call (\<lambda>_. P') E"
    by (rule hoareI) (metis assms(1,2) api_call_cases prod.inject)+
qed (rule assms(3))

lemma keeps_write_obj:
  assumes "\<And>w new. P w \<Longrightarrow> obj_key new = obj_key (k_keepStatus K old obj) \<Longrightarrow>
      deletionTimestamp new = deletionTimestamp (k_keepStatus K old obj) \<Longrightarrow>
      finalizers new = finalizers (k_keepStatus K old obj) \<Longrightarrow>
      new = (k_keepStatus K old obj)\<lparr>resourceVersion := Suc (resourceVersion old)\<rparr> \<Longrightarrow>
      P (k_upd K (commit_obj new) w)"
  shows "keeps P (write_obj K old obj)"
  unfolding write_obj_def Let_def
  by (intro hoare_intros) (auto simp: hoare_def intro!: assms)

text \<open>
  An honest server says that an object or a kind does not exist only when it does not: the
  answers to come contain neither of the two errors, which the store gives by itself.
\<close>

definition honest :: "'z api_scheme \<Rightarrow> bool" where
  "honest w \<longleftrightarrow> Some NotFound \<notin> set (api_faults w) \<and> Some NoMatch \<notin> set (api_faults w)"

lemma honest_api_call: "keeps honest api_call"
  by (rule keepsI) (auto simp: api_call_def honest_def split: list.splits option.splits)

lemma honest_get: "keeps honest (cl_get K key)"
  unfolding cl_get_def
  by (rule keeps_bindE, rule honest_api_call) (auto simp: hoare_def split: option.splits)

lemma honest_list: "keeps honest (cl_list K sel)"
  unfolding cl_list_def
  by (rule keeps_bindE, rule honest_api_call) (rule keeps_readE)

lemma honest_no_faults [simp]: "api_faults w = [] \<Longrightarrow> honest w"
  by (simp add: honest_def)

lemma get_error_honest:
  assumes "honest w" "cl_get K key w = (Inl e, w')" "is_not_found e \<or> is_no_match e"
  shows "find_obj key (k_objs K w') = None"
proof (cases "fst (api_call w)")
  case (Inl e')
  with assms show ?thesis
    by (auto simp: cl_get_def bindE_run api_call_def honest_def split: list.splits option.splits)
next
  case (Inr u)
  then obtain w1 where call: "api_call w = (Inr u, w1)"
    by (metis prod.collapse)
  with assms(2) show ?thesis
    by (auto simp: cl_get_def bindE_run split: option.splits)
qed

section \<open>What the reconcilers rely on\<close>

locale api_kind =
  fixes K :: "('z api_scheme, 'a object_meta_scheme) kind"
  assumes objs_upd: "k_objs K (k_upd K f w) = f (k_objs K w)"
    and objs_faults: "k_objs K (w\<lparr>api_faults := fs\<rparr>) = k_objs K w"
    and faults_upd: "api_faults (k_upd K f w) = api_faults w"
    and now_upd: "api_now (k_upd K f w) = api_now w"
    and upd_faults: "k_upd K f (w\<lparr>api_faults := fs\<rparr>) = (k_upd K f w)\<lparr>api_faults := fs\<rparr>"
    and upd_upd: "k_upd K f (k_upd K g w) = k_upd K (f \<circ> g) w"
    and upd_id: "k_upd K (\<lambda>objs. objs) w = w"
    and upd_cong: "f (k_objs K w) = g (k_objs K w) \<Longrightarrow> k_upd K f w = k_upd K g w"
    and keep_key: "obj_key (k_keepStatus K old new) = obj_key new"
    and keep_deletion: "deletionTimestamp (k_keepStatus K old new) = deletionTimestamp new"
    and keep_finalizers: "finalizers (k_keepStatus K old new) = finalizers new"
    and keep_version: "resourceVersion (k_keepStatus K old new) = resourceVersion new"
begin

lemmas lens = objs_upd objs_faults faults_upd now_upd upd_faults upd_upd
lemmas keep = keep_key keep_deletion keep_finalizers keep_version

lemma get_ok: "cl_get K key w = (Inr o', w') \<Longrightarrow> find_obj key (k_objs K w) = Some o' \<and> k_objs K w' = k_objs K w"
  by (cases rule: cl_get_cases [of K key w]) (auto simp: objs_faults)

lemma get_no_faults:
  "api_faults w = [] \<Longrightarrow>
   cl_get K key w = (case find_obj key (k_objs K w) of None \<Rightarrow> (Inl (ApiErr NotFound), w) | Some o' \<Rightarrow> (Inr o', w))"
  by (simp add: cl_get_def bindE_run)

lemma list_no_faults: "api_faults w = [] \<Longrightarrow> cl_list K sel w = (Inr (filter sel (k_objs K w)), w)"
  by (simp add: cl_list_def bindE_run)

lemma list_ok: "cl_list K sel w = (Inr os, w') \<Longrightarrow> os = filter sel (k_objs K w) \<and> k_objs K w' = k_objs K w"
  by (cases rule: cl_list_cases [of K sel w]) (auto simp: objs_faults)

text \<open>How a call can end, in terms of the objects it leaves.\<close>

lemma create_cases:
  obtains (failed) e fs where "cl_create K obj w = (Inl e, w\<lparr>api_faults := fs\<rparr>)"
  | (created) fs where "find_obj (obj_key obj) (k_objs K w) = None"
      "cl_create K obj w = (Inr (obj\<lparr>resourceVersion := 1, deletionTimestamp := None\<rparr>),
         k_upd K (\<lambda>objs. objs @ [obj\<lparr>resourceVersion := 1, deletionTimestamp := None\<rparr>]) (w\<lparr>api_faults := fs\<rparr>))"
proof (cases rule: api_call_cases [of w])
  case (fault e fs)
  then show ?thesis by (intro failed [of "ApiErr e" fs]) (simp add: cl_create_def bindE_run)
next
  case (fine fs)
  note call = fine
  show ?thesis
  proof (cases "name obj = [] \<or> resourceVersion obj \<noteq> 0 \<or> find_obj (obj_key obj) (k_objs K w) \<noteq> None")
    case True
    with call have "\<exists>e. cl_create K obj w = (Inl e, w\<lparr>api_faults := fs\<rparr>)"
      by (auto simp: cl_create_def bindE_run objs_faults)
    then show ?thesis using failed by blast
  next
    case False
    with call show ?thesis
      by (intro created [of fs]) (auto simp: cl_create_def bindE_run objs_faults Let_def)
  qed
qed

lemma delete_cases:
  obtains (failed) e fs where "cl_delete K key w = (Inl e, w\<lparr>api_faults := fs\<rparr>)"
  | (deleted) old fs where "find_obj key (k_objs K w) = Some old"
      "cl_delete K key w = (Inr (), k_upd K (delete_obj (api_now w) key) (w\<lparr>api_faults := fs\<rparr>))"
proof (cases rule: api_call_cases [of w])
  case (fault e fs)
  then show ?thesis by (intro failed [of "ApiErr e" fs]) (simp add: cl_delete_def bindE_run)
next
  case (fine fs)
  then show ?thesis
    by (cases "find_obj key (k_objs K w)")
      (auto simp: cl_delete_def bindE_run objs_faults intro: failed deleted)
qed

lemma patch_cases:
  obtains (failed) e fs where "cl_patch K lock orig body w = (Inl e, w\<lparr>api_faults := fs\<rparr>)"
  | (patched) old new fs where "find_obj (obj_key orig) (k_objs K w) = Some old"
      "lock \<Longrightarrow> resourceVersion orig = resourceVersion old"
      "deletionTimestamp (body old) = deletionTimestamp old"
      "new = (k_keepStatus K old (body old))\<lparr>resourceVersion := Suc (resourceVersion old)\<rparr>"
      "cl_patch K lock orig body w = (Inr new, k_upd K (commit_obj new) (w\<lparr>api_faults := fs\<rparr>))"
proof (cases rule: api_call_cases [of w])
  case (fault e fs)
  then show ?thesis by (intro failed [of "ApiErr e" fs]) (simp add: cl_patch_def bindE_run)
next
  case (fine fs)
  note call = fine
  show ?thesis
  proof (cases "find_obj (obj_key orig) (k_objs K w)")
    case None
    with call show ?thesis
      by (intro failed [of "ApiErr NotFound" fs]) (simp add: cl_patch_def bindE_run objs_faults)
  next
    case (Some old)
    show ?thesis
    proof (cases "(lock \<and> resourceVersion orig \<noteq> resourceVersion old)
        \<or> deletionTimestamp (body old) \<noteq> deletionTimestamp old")
      case True
      with call Some have "\<exists>e. cl_patch K lock orig body w = (Inl e, w\<lparr>api_faults := fs\<rparr>)"
        by (auto simp: cl_patch_def bindE_run objs_faults write_obj_def)
      then show ?thesis using failed by blast
    next
      case False
      with call Some show ?thesis
        by (intro patched [OF Some _ _ refl, of fs])
          (auto simp: cl_patch_def bindE_run objs_faults write_obj_def Let_def)
    qed
  qed
qed

lemma update_cases:
  obtains (failed) e fs where "cl_update K obj w = (Inl e, w\<lparr>api_faults := fs\<rparr>)"
  | (updated) old new fs where "find_obj (obj_key obj) (k_objs K w) = Some old"
      "resourceVersion obj = resourceVersion old" "deletionTimestamp obj = deletionTimestamp old"
      "new = (k_keepStatus K old obj)\<lparr>resourceVersion := Suc (resourceVersion old)\<rparr>"
      "cl_update K obj w = (Inr new, k_upd K (commit_obj new) (w\<lparr>api_faults := fs\<rparr>))"
proof (cases rule: api_call_cases [of w])
  case (fault e fs)
  then show ?thesis by (intro failed [of "ApiErr e" fs]) (simp add: cl_update_def bindE_run)
next
  case (fine fs)
  note call = fine
  show ?thesis
  proof (cases "find_obj (obj_key obj) (k_objs K w)")
    case None
    with call show ?thesis
      by (intro failed [of "ApiErr NotFound" fs]) (simp add: cl_update_def bindE_run objs_faults)
  next
    case (Some old)
    show ?thesis
    proof (cases "resourceVersion obj \<noteq> resourceVersion old \<or> deletionTimestamp obj \<noteq> deletionTimestamp old")
      case True
      with call Some have "\<exists>e. cl_update K obj w = (Inl e, w\<lparr>api_faults := fs\<rparr>)"
        by (auto simp: cl_update_def bindE_run objs_faults write_obj_def)
      then show ?thesis using failed by blast
    next
      case False
      with call Some show ?thesis
        by (intro updated [OF Some _ _ refl, of fs])
          (auto simp: cl_update_def bindE_run objs_faults write_obj_def Let_def)
    qed
  qed
qed

text \<open>
  Frame rules: a call on this kind keeps what neither the answers to come nor the objects of
  the kind can change.
\<close>

lemma frame_create:
  assumes "\<And>w fs. P w \<Longrightarrow> P (w\<lparr>api_faults := fs\<rparr>)" and "\<And>w f. P w \<Longrightarrow> P (k_upd K f w)"
  shows "keeps P (cl_create K obj)"
proof (rule keepsI)
  fix w assume "P w"
  with assms show "P (snd (cl_create K obj w))"
    by (cases rule: create_cases [of obj w]) simp_all
qed

lemma frame_delete:
  assumes "\<And>w fs. P w \<Longrightarrow> P (w\<lparr>api_faults := fs\<rparr>)" and "\<And>w f. P w \<Longrightarrow> P (k_upd K f w)"
  shows "keeps P (cl_delete K key)"
proof (rule keepsI)
  fix w assume "P w"
  with assms show "P (snd (cl_delete K key w))"
    by (cases rule: delete_cases [of key w]) simp_all
qed

lemma frame_patch:
  assumes "\<And>w fs. P w \<Longrightarrow> P (w\<lparr>api_faults := fs\<rparr>)" and "\<And>w f. P w \<Longrightarrow> P (k_upd K f w)"
  shows "keeps P (cl_patch K lock orig body)"
proof (rule keepsI)
  fix w assume "P w"
  with assms show "P (snd (cl_patch K lock orig body w))"
    by (cases rule: patch_cases [of lock orig body w]) simp_all
qed

lemma frame_update:
  assumes "\<And>w fs. P w \<Longrightarrow> P (w\<lparr>api_faults := fs\<rparr>)" and "\<And>w f. P w \<Longrightarrow> P (k_upd K f w)"
  shows "keeps P (cl_update K obj)"
proof (rule keepsI)
  fix w assume "P w"
  with assms show "P (snd (cl_update K obj w))"
    by (cases rule: update_cases [of obj w]) simp_all
qed

lemma status_patch_cases:
  obtains (failed) e fs where "cl_status_patch K lock orig body w = (Inl e, w\<lparr>api_faults := fs\<rparr>)"
  | (patched) old new fs where "find_obj (obj_key orig) (k_objs K w) = Some old"
      "lock \<Longrightarrow> resourceVersion orig = resourceVersion old"
      "new = (k_keepStatus K (body old) old)\<lparr>resourceVersion := Suc (resourceVersion old)\<rparr>"
      "cl_status_patch K lock orig body w = (Inr new, k_upd K (put_obj new) (w\<lparr>api_faults := fs\<rparr>))"
proof (cases rule: api_call_cases [of w])
  case (fault e fs)
  then show ?thesis by (intro failed [of "ApiErr e" fs]) (simp add: cl_status_patch_def bindE_run)
next
  case (fine fs)
  note call = fine
  show ?thesis
  proof (cases "find_obj (obj_key orig) (k_objs K w)")
    case None
    with call show ?thesis
      by (intro failed [of "ApiErr NotFound" fs]) (simp add: cl_status_patch_def bindE_run objs_faults)
  next
    case (Some old)
    show ?thesis
    proof (cases "lock \<and> resourceVersion orig \<noteq> resourceVersion old")
      case True
      with call Some show ?thesis
        by (intro failed [of "ApiErr Conflict" fs]) (simp add: cl_status_patch_def bindE_run objs_faults)
    next
      case False
      with call Some show ?thesis
        by (intro patched [OF Some _ refl, of fs])
          (auto simp: cl_status_patch_def bindE_run objs_faults Let_def)
    qed
  qed
qed

lemma frame_status_patch:
  assumes "\<And>w fs. P w \<Longrightarrow> P (w\<lparr>api_faults := fs\<rparr>)" and "\<And>w f. P w \<Longrightarrow> P (k_upd K f w)"
  shows "keeps P (cl_status_patch K lock orig body)"
proof (rule keepsI)
  fix w assume "P w"
  with assms show "P (snd (cl_status_patch K lock orig body w))"
    by (cases rule: status_patch_cases [of lock orig body w]) simp_all
qed

lemma frame_createOrUpdate:
  assumes "\<And>w fs. P w \<Longrightarrow> P (w\<lparr>api_faults := fs\<rparr>)" and "\<And>w f. P w \<Longrightarrow> P (k_upd K f w)"
  shows "keeps P (createOrUpdate K obj f)"
  unfolding createOrUpdate_def
  by (intro hoare_intros keeps_cl_get frame_create frame_update assms)

lemmas frame = frame_create frame_delete frame_patch frame_update frame_status_patch
  frame_createOrUpdate keeps_cl_get keeps_cl_list

lemma honest_upd [simp]: "honest (k_upd K f w) = honest w"
  by (simp add: honest_def faults_upd)

lemma honest_write: "keeps honest (write_obj K old new)"
  unfolding write_obj_def Let_def by (intro hoare_intros) (simp_all add: hoare_def)

lemma honest_create: "keeps honest (cl_create K obj)"
  unfolding cl_create_def
  by (rule keeps_bindE, rule honest_api_call) (auto simp: hoare_def Let_def)

lemma honest_update: "keeps honest (cl_update K obj)"
  unfolding cl_update_def
  by (rule keeps_bindE, rule honest_api_call)
    (use keepsD [OF honest_write] in \<open>auto intro!: keepsI split: option.split\<close>)

lemma honest_patch: "keeps honest (cl_patch K lock orig body)"
  unfolding cl_patch_def
  by (rule keeps_bindE, rule honest_api_call)
    (use keepsD [OF honest_write] in \<open>auto intro!: keepsI split: option.split\<close>)

lemma honest_status_patch: "keeps honest (cl_status_patch K lock orig body)"
  unfolding cl_status_patch_def
  by (rule keeps_bindE, rule honest_api_call) (auto simp: hoare_def Let_def split: option.split)

lemma honest_delete: "keeps honest (cl_delete K key)"
  unfolding cl_delete_def
  by (rule keeps_bindE, rule honest_api_call) (auto simp: hoare_def split: option.split)

lemma honest_createOrUpdate: "keeps honest (createOrUpdate K obj f)"
  unfolding createOrUpdate_def
  by (intro hoare_intros honest_get honest_create honest_update)

lemmas honest_calls = honest_get honest_list honest_create honest_update honest_patch
  honest_status_patch honest_delete honest_createOrUpdate

lemma delete_error_honest:
  assumes "honest w" "cl_delete K key w = (Inl e, w')" "is_not_found e"
  shows "find_obj key (k_objs K w') = None"
proof (cases "fst (api_call w)")
  case (Inl e')
  with assms show ?thesis
    by (auto simp: cl_delete_def bindE_run api_call_def honest_def split: list.splits option.splits)
next
  case (Inr u)
  then obtain w1 where call: "api_call w = (Inr u, w1)"
    by (metis prod.collapse)
  with assms(2) show ?thesis
    by (auto simp: cl_delete_def bindE_run split: option.splits)
qed

text \<open>What \<open>CreateOrUpdate\<close> may write: what the mutation made of a new or of a stored object.\<close>

lemma keeps_createOrUpdate:
  assumes flt: "\<And>w fs. P w \<Longrightarrow> P (w\<lparr>api_faults := fs\<rparr>)"
    and create: "\<And>w m. P w \<Longrightarrow> f obj = Inr m \<Longrightarrow> obj_key m = obj_key obj \<Longrightarrow>
      P (k_upd K (\<lambda>objs. objs @ [m\<lparr>resourceVersion := 1, deletionTimestamp := None\<rparr>]) w)"
    and update: "\<And>w existing old m. P w \<Longrightarrow> f existing = Inr m \<Longrightarrow> obj_key m = obj_key obj \<Longrightarrow>
      find_obj (obj_key obj) (k_objs K w) = Some old \<Longrightarrow>
      P (k_upd K (commit_obj ((k_keepStatus K old m)\<lparr>resourceVersion := Suc (resourceVersion old)\<rparr>)) w)"
  shows "keeps P (createOrUpdate K obj f)"
proof -
  have lift: "hoare P (liftE r) (\<lambda>a w. P w \<and> r = Inr a) P" for r :: "error + 'a object_meta_scheme"
    by (simp add: hoare_def split: sum.split)
  have mutate: "f x = Inr m \<and> obj_key m = obj_key obj" if "mutate_obj f (obj_key obj) x = Inr m" for x m
    using that by (simp add: mutate_obj_def split: sum.splits if_splits)
  have cre: "hoare (\<lambda>w. P w \<and> mutate_obj f (obj_key obj) obj = Inr m) (cl_create K m) (\<lambda>_. P) P" for m
  proof (rule hoareI)
    fix w e w'
    assume "P w \<and> mutate_obj f (obj_key obj) obj = Inr m" "cl_create K m w = (Inl e, w')"
    then show "P w'" by (cases rule: create_cases [of m w]) (auto simp: flt)
  next
    fix w a w'
    assume a: "P w \<and> mutate_obj f (obj_key obj) obj = Inr m" "cl_create K m w = (Inr a, w')"
    note m = mutate [of obj m]
    show "P w'"
    proof (cases rule: create_cases [of m w])
      case (created fs)
      with a(2) have w': "w' = k_upd K (\<lambda>objs. objs @ [m\<lparr>resourceVersion := 1, deletionTimestamp := None\<rparr>])
          (w\<lparr>api_faults := fs\<rparr>)"
        unfolding created(2) by (metis prod.inject)
      from a(1) m show ?thesis
        unfolding w' by (intro create flt) simp_all
    qed (use a in simp)
  qed
  have upd: "hoare (\<lambda>w. P w \<and> mutate_obj f (obj_key obj) x = Inr m) (cl_update K m) (\<lambda>_. P) P" for x m
  proof (rule hoareI)
    fix w e w'
    assume "P w \<and> mutate_obj f (obj_key obj) x = Inr m" "cl_update K m w = (Inl e, w')"
    then show "P w'" by (cases rule: update_cases [of m w]) (auto simp: flt)
  next
    fix w a w'
    assume a: "P w \<and> mutate_obj f (obj_key obj) x = Inr m" "cl_update K m w = (Inr a, w')"
    note m = mutate [of x m]
    show "P w'"
    proof (cases rule: update_cases [of m w])
      case (updated old new fs)
      with a(2) have w': "w' = k_upd K (commit_obj new) (w\<lparr>api_faults := fs\<rparr>)"
        by (metis prod.inject)
      from a(1) m updated(1) show ?thesis
        unfolding w' updated(4) by (intro update [of _ x m]) (simp_all add: flt objs_faults)
    qed (use a in simp)
  qed
  show ?thesis
    unfolding createOrUpdate_def
    by (rule keeps_handleE, rule keeps_cl_get, rule flt, assumption)
      (intro keeps_if hoare_raise hoare_bindE [OF lift] hoare_bindE [OF cre] hoare_bindE [OF upd] hoare_ret; simp)+
qed

text \<open>Without faults a call answers from the store.\<close>

lemma delete_no_faults:
  "api_faults w = [] \<Longrightarrow> find_obj key (k_objs K w) = Some old \<Longrightarrow>
   cl_delete K key w = (Inr (), k_upd K (replace_obj key (deleted_round (api_now w) old)) w)"
  by (auto simp: cl_delete_def bindE_run delete_obj_replace intro!: upd_cong)

lemma patch_no_faults:
  "api_faults w = [] \<Longrightarrow> find_obj (obj_key orig) (k_objs K w) = Some old \<Longrightarrow>
   (lock \<longrightarrow> resourceVersion orig = resourceVersion old) \<Longrightarrow>
   deletionTimestamp (body old) = deletionTimestamp old \<Longrightarrow>
   obj_key (body old) = obj_key old \<Longrightarrow>
   new = (k_keepStatus K old (body old))\<lparr>resourceVersion := Suc (resourceVersion old)\<rparr> \<Longrightarrow>
   cl_patch K lock orig body w = (Inr new, k_upd K (replace_obj (obj_key orig) (committed_round new)) w)"
  by (auto simp: cl_patch_def bindE_run write_obj_def Let_def commit_obj_replace keep_key
      dest!: find_obj_Some intro!: upd_cong)

lemma status_patch_no_faults:
  "api_faults w = [] \<Longrightarrow> find_obj (obj_key orig) (k_objs K w) = Some old \<Longrightarrow>
   (lock \<longrightarrow> resourceVersion orig = resourceVersion old) \<Longrightarrow>
   new = (k_keepStatus K (body old) old)\<lparr>resourceVersion := Suc (resourceVersion old)\<rparr> \<Longrightarrow>
   cl_status_patch K lock orig body w = (Inr new, k_upd K (replace_obj (obj_key orig) [new]) w)"
  by (auto simp: cl_status_patch_def bindE_run Let_def put_obj_replace keep_key
      dest!: find_obj_Some intro!: upd_cong)

lemma unchanged_round:
  "find_obj key (k_objs K w) = Some x \<Longrightarrow> distinct (map obj_key (k_objs K w)) \<Longrightarrow>
   k_upd K (replace_obj key [x]) w = w"
  using upd_cong [of "replace_obj key [x]" w "\<lambda>objs. objs"] by (simp add: replace_obj_same upd_id)

lemma delete_missing_no_faults:
  "api_faults w = [] \<Longrightarrow> find_obj key (k_objs K w) = None \<Longrightarrow> cl_delete K key w = (Inl (ApiErr NotFound), w)"
  by (simp add: cl_delete_def bindE_run)

text \<open>The three outcomes of \<open>createOrUpdate\<close>.\<close>

lemma createOrUpdate_creates:
  assumes "api_faults w = []" "find_obj (obj_key obj) (k_objs K w) = None"
    and "f obj = Inr m" "obj_key m = obj_key obj" "name obj \<noteq> []" "resourceVersion m = 0"
    and "new = m\<lparr>resourceVersion := 1, deletionTimestamp := None\<rparr>"
  shows "createOrUpdate K obj f w = (Inr (OperationResultCreated, new), k_upd K (\<lambda>os. os @ [new]) w)"
proof -
  have "name m \<noteq> []"
    using assms(4,5) by (simp add: obj_key_def)
  with assms show ?thesis
    by (simp add: createOrUpdate_def io_simps get_no_faults mutate_obj_def cl_create_def Let_def)
qed

lemma createOrUpdate_updates:
  assumes "api_faults w = []" "find_obj (obj_key obj) (k_objs K w) = Some old"
    and "f old = Inr m" "obj_key m = obj_key obj"
    and "resourceVersion m = resourceVersion old" "deletionTimestamp m = deletionTimestamp old"
    and "k_norm K old \<noteq> k_norm K m"
    and "new = (k_keepStatus K old m)\<lparr>resourceVersion := Suc (resourceVersion old)\<rparr>"
  shows "createOrUpdate K obj f w =
    (Inr (OperationResultUpdated, new), k_upd K (replace_obj (obj_key obj) (committed_round new)) w)"
  using assms
  by (auto simp: createOrUpdate_def io_simps get_no_faults mutate_obj_def cl_update_def write_obj_def Let_def
      commit_obj_replace keep_key intro!: upd_cong)

lemma createOrUpdate_unchanged:
  assumes "api_faults w = []" "find_obj (obj_key obj) (k_objs K w) = Some old"
    and "f old = Inr m" "obj_key m = obj_key obj" "k_norm K old = k_norm K m"
  shows "createOrUpdate K obj f w = (Inr (OperationResultNone, m), w)"
  using assms by (simp add: createOrUpdate_def io_simps get_no_faults mutate_obj_def)

text \<open>
  What a successful \<open>createOrUpdate\<close> leaves, whatever answers it met: an object of the key with
  everything its mutation establishes, and the other objects.
\<close>

lemma createOrUpdate_establishes:
  assumes run: "createOrUpdate K obj f w = (Inr r, w')"
    and set: "\<And>x m. f x = Inr m \<Longrightarrow> R m"
    and meta: "\<And>m v. R m \<Longrightarrow> R (m\<lparr>resourceVersion := v, deletionTimestamp := None\<rparr>)"
      "\<And>m old v. R m \<Longrightarrow> R ((k_keepStatus K old m)\<lparr>resourceVersion := v\<rparr>)"
      "\<And>x y. R y \<Longrightarrow> k_norm K x = k_norm K y \<Longrightarrow> R x"
    and live: "\<And>old. find_obj (obj_key obj) (k_objs K w) = Some old \<Longrightarrow> deletionTimestamp old = None"
  shows "(\<exists>x. find_obj (obj_key obj) (k_objs K w') = Some x \<and> R x \<and> deletionTimestamp x = None) \<and>
    (\<forall>k. k = obj_key obj \<or> find_obj k (k_objs K w') = find_obj k (k_objs K w))"
proof -
  have created: ?thesis if get: "cl_get K (obj_key obj) w = (Inl e, w\<lparr>api_faults := fs\<rparr>)" for e fs
  proof -
    from run get obtain m where m: "mutate_obj f (obj_key obj) obj = Inr m"
      by (cases "mutate_obj f (obj_key obj) obj") (auto simp: createOrUpdate_def handleE_run bindE_run split: if_splits)
    then have f: "f obj = Inr m" and key: "obj_key m = obj_key obj"
      by (auto simp: mutate_obj_def split: sum.splits if_splits)
    from run get m obtain u where cre: "cl_create K m (w\<lparr>api_faults := fs\<rparr>) = (Inr u, w')"
      by (auto simp: createOrUpdate_def handleE_run bindE_run split: prod.splits sum.splits if_splits)
    show ?thesis
    proof (cases rule: create_cases [of m "w\<lparr>api_faults := fs\<rparr>"])
      case (created fs')
      have "obj_key (m\<lparr>resourceVersion := 1, deletionTimestamp := None\<rparr>) = obj_key obj"
        using key by (simp add: obj_key_def)
      with created cre key meta(1) [OF set [OF f]] show ?thesis
        by (auto simp: objs_upd objs_faults find_obj_append split: option.split)
    qed (use cre in simp)
  qed
  show ?thesis
  proof (cases rule: cl_get_cases [of K "obj_key obj" w])
    case (found old fs)
    then obtain m where m: "mutate_obj f (obj_key obj) old = Inr m"
      using run by (cases "mutate_obj f (obj_key obj) old") (auto simp: createOrUpdate_def handleE_run bindE_run)
    then have f: "f old = Inr m" and key: "obj_key m = obj_key obj"
      by (auto simp: mutate_obj_def split: sum.splits if_splits)
    show ?thesis
    proof (cases "k_norm K old = k_norm K m")
      case True
      then have "w' = w\<lparr>api_faults := fs\<rparr>"
        using run found m by (simp add: createOrUpdate_def handleE_run bindE_run)
      with meta(3) [OF set [OF f] True] found live show ?thesis by (simp add: objs_faults)
    next
      case False
      with run found m obtain u where upd: "cl_update K m (w\<lparr>api_faults := fs\<rparr>) = (Inr u, w')"
        by (auto simp: createOrUpdate_def handleE_run bindE_run split: prod.splits sum.splits)
      show ?thesis
      proof (cases rule: update_cases [of m "w\<lparr>api_faults := fs\<rparr>"])
        case (updated old' new fs')
        have new: "obj_key new = obj_key obj" "deletionTimestamp new = None" "R new" "old' = old"
          using updated(1,3,4) found live key meta(2) [OF set [OF f]] by (simp_all add: objs_faults keep)
        with updated upd found key show ?thesis
          by (auto simp: objs_upd objs_faults find_commit_obj)
      qed (use upd in simp)
    qed
  qed (use created in blast)+
qed

text \<open>A loop over the listed objects whose body replaces each of them.\<close>

lemma forE_rounds:
  assumes body: "\<And>x w. x \<in> set items \<Longrightarrow> api_faults w = [] \<Longrightarrow> api_now w = now \<Longrightarrow>
      distinct (map obj_key (k_objs K w)) \<Longrightarrow>
      find_obj (obj_key x) (k_objs K w) = Some x \<Longrightarrow>
      f x w = (Inr (), k_upd K (replace_obj (obj_key x) (g x)) w)"
    and keys: "\<And>x y. x \<in> set items \<Longrightarrow> y \<in> set (g x) \<Longrightarrow> obj_key y = obj_key x"
    and single: "\<And>x. x \<in> set items \<Longrightarrow> length (g x) \<le> Suc 0"
    and w: "api_faults w = []" "api_now w = now" "k_objs K w = done @ items"
    and distinct: "distinct (map obj_key (done @ items))"
  shows "forE items f w = (Inr (), k_upd K (\<lambda>_. done @ concat (map g items)) w)"
  using assms
proof (induction items arbitrary: "done" w)
  case Nil
  then have "k_upd K (\<lambda>_. done) w = k_upd K (\<lambda>objs. objs) w"
    by (intro upd_cong) simp
  then show ?case by (simp add: upd_id)
next
  case (Cons x items)
  let ?w1 = "k_upd K (replace_obj (obj_key x) (g x)) w"
  have found: "find_obj (obj_key x) (k_objs K w) = Some x"
    using Cons.prems by (auto simp: find_obj_append find_obj_None_iff [THEN iffD2] image_iff)
  have run: "f x w = (Inr (), ?w1)"
    using Cons.prems found by (intro Cons.prems(1)) simp_all
  have keys: "\<And>y. y \<in> set (g x) \<Longrightarrow> obj_key y = obj_key x"
    using Cons.prems(2) by auto
  have "distinct (map obj_key (g x))"
    using Cons.prems(3) [of x] by (cases "g x"; cases "tl (g x)") simp_all
  with keys have distinct: "distinct (map obj_key ((done @ g x) @ items))"
    using Cons.prems(7) by (fastforce simp: image_iff)
  have "replace_obj (obj_key x) (g x) (done @ [x] @ items) = done @ g x @ items"
    using Cons.prems(7)
    by (simp only: replace_obj_append) (simp add: replace_obj_absent image_iff, simp add: replace_obj_def)
  then have objs: "k_objs K ?w1 = (done @ g x) @ items"
    using Cons.prems(6) by (simp add: objs_upd)
  have "forE items f ?w1 = (Inr (), k_upd K (\<lambda>_. (done @ g x) @ concat (map g items)) ?w1)"
    using Cons.prems(1-5) objs distinct
    by (intro Cons.IH) (simp_all add: faults_upd now_upd)
  with run show ?case
    by (simp add: bindE_run upd_upd comp_def)
qed

end

end
