(* ===== verification/Api_Types.thy ===== *)
theory Api_Types
  imports Kube_Meta
begin

text \<open>
  The objects the controllers read and write, as far as the operator looks at them: the
  HyperShift and Karpenter kinds, the core kinds, and the operator's own Karpenter resource.
  \<open>int32\<close> and \<open>int64\<close> fields are words; a pointer is an option; a string type with named
  values stays a string, with its values as constants.
\<close>

type_synonym int32 = "32 word"
type_synonym int64 = "64 word"

section \<open>Quantities\<close>

text \<open>
  \<open>resource.Quantity\<close> in billionths, its finest unit. \<open>Value()\<close> rounds away from zero.
  \<open>Equal\<close> compares amounts.
\<close>

type_synonym quantity = int

definition nano :: int where
  "nano = 1000000000"

definition quantity_value :: "quantity \<Rightarrow> int64" where
  "quantity_value q =
     word_of_int (if 0 \<le> q then (q + nano - 1) div nano else - ((- q + nano - 1) div nano))"

text \<open>\<open>resource.MustParse("<n>Gi")\<close>; amounts are capped at the largest int64\<close>

definition gibibytes :: "int \<Rightarrow> quantity" where
  "gibibytes n = min (n * 2 ^ 30 * nano) ((2 ^ 63 - 1) * nano)"

section \<open>HyperShift\<close>

text \<open>The override policy of a platform tag: \<open>Allow\<close>, \<open>Deny\<close> or unset.\<close>

record aws_resource_tag =
  rt_key :: string
  rt_value :: string
  rt_overridePolicy :: string

definition AWSResourceTagOverridePolicyAllow :: string where
  "AWSResourceTagOverridePolicyAllow = ''Allow''"

record release =
  rel_architecture :: string
  rel_version :: string
  rel_image :: string
  rel_url :: string
  rel_channels :: "string list"

record update_history =
  uh_state :: string
  uh_startedTime :: gotime
  uh_completionTime :: gotime
  uh_version :: string
  uh_image :: string

definition CompletedUpdate :: string where
  "CompletedUpdate = ''Completed''"

record control_plane_version =
  cpv_desired :: release
  cpv_history :: "update_history list"
  cpv_observedGeneration :: int64

text \<open>\<open>Spec.AutoNode\<close>: the provisioner's name and its configuration, which the operator only compares.\<close>

record auto_node =
  an_provisioner :: string
  an_karpenter :: string

definition ProvisionerKarpenter :: string where
  "ProvisionerKarpenter = ''Karpenter''"

record auto_node_status =
  ans_nodeCount :: "int32 option"
  ans_nodeClaimCount :: "int32 option"
  ans_vcpus :: "int32 option"

text \<open>\<open>hcp_awsPlatform\<close> is \<open>Spec.Platform.AWS\<close>: nil, or the resource tags.\<close>

record hosted_control_plane = object_meta +
  hcp_infraID :: string
  hcp_pullSecretName :: string
  hcp_autoNode :: auto_node
  hcp_awsPlatform :: "aws_resource_tag list option"
  hcp_controlPlaneVersion :: control_plane_version
  hcp_autoNodeStatus :: auto_node_status

text \<open>The CAPI Cluster is read as metadata only.\<close>

type_synonym capi_cluster = object_meta

section \<open>Karpenter and core kinds\<close>

type_synonym node_pool = object_meta

record node_claim = object_meta +
  nc_providerID :: string
  nc_nodeName :: string
  \<comment> \<open>\<open>Status.Capacity[cpu]\<close>\<close>
  nc_cpu :: "quantity option"

type_synonym node = object_meta

record secret = object_meta +
  sec_data :: smap

record config_map = object_meta +
  cm_data :: smap

record csr_condition =
  csrc_type :: string
  csrc_status :: string
  csrc_reason :: string
  csrc_message :: string

record csr = object_meta +
  csr_signerName :: string
  csr_username :: string
  csr_groups :: "string list"
  csr_request :: string
  csr_conditions :: "csr_condition list"

section \<open>The operator's Karpenter resource\<close>

record karpenter = object_meta +
  karp_logLevel :: string

definition SingletonName :: string where
  "SingletonName = ''default''"

definition LogLevelInfo :: string where
  "LogLevelInfo = ''info''"

definition logLevel_Arg :: "string \<Rightarrow> string" where
  "logLevel_Arg l =
     (if l = [] then ''--log-level='' @ LogLevelInfo else ''--log-level='' @ l)"

section \<open>Admission policies and CRDs\<close>

text \<open>
  A ValidatingAdmissionPolicy with the fields the operator sets; the fields it never sets are
  kept by name in \<open>vs_unmanaged\<close>. The spec of a CRD is an asset, compared as a whole.
\<close>

record vap_rule =
  vr_operations :: "string list"
  vr_apiGroups :: "string list"
  vr_apiVersions :: "string list"
  vr_resources :: "string list"

record vap_validation =
  vv_expression :: string
  vv_message :: string

record match_condition =
  mc_name :: string
  mc_expression :: string

record vap_spec =
  vs_resourceRules :: "vap_rule list"
  vs_validations :: "vap_validation list"
  vs_matchConditions :: "match_condition list"
  vs_unmanaged :: "(string \<times> string) list"

record vap = object_meta +
  vap_spec :: vap_spec

record vap_binding_spec =
  vbs_policyName :: string
  vbs_validationActions :: "string list"

record vap_binding = object_meta +
  vapb_spec :: vap_binding_spec

record crd = object_meta +
  crd_spec :: string
  crd_status :: string

section \<open>Annotations, labels and condition names\<close>

definition KarpenterImageOverrideAnnotation :: string where
  "KarpenterImageOverrideAnnotation = ''autoscaling.openshift.io/karpenter-image''"

definition KarpenterCoreE2EOverrideAnnotation :: string where
  "KarpenterCoreE2EOverrideAnnotation = ''hypershift.openshift.io/karpenter-core-e2e-override''"

definition TokenSecretNodePoolAnnotation :: string where
  "TokenSecretNodePoolAnnotation = ''hypershift.openshift.io/nodePool''"

definition UserDataAMILabel :: string where
  "UserDataAMILabel = ''hypershift.openshift.io/ami''"

definition ManagedByKarpenterLabel :: string where
  "ManagedByKarpenterLabel = ''hypershift.openshift.io/managed-by-karpenter''"

definition ConditionTypeReady :: string where
  "ConditionTypeReady = ''Ready''"

definition ConditionTypeVersionResolved :: string where
  "ConditionTypeVersionResolved = ''VersionResolved''"

definition ConditionTypeSupportedVersionSkew :: string where
  "ConditionTypeSupportedVersionSkew = ''SupportedVersionSkew''"

definition ConditionReasonResolutionFailed :: string where
  "ConditionReasonResolutionFailed = ''ResolutionFailed''"

lemma condition_types_distinct [simp]:
  "ConditionTypeReady \<noteq> ConditionTypeVersionResolved"
  "ConditionTypeVersionResolved \<noteq> ConditionTypeReady"
  "ConditionTypeReady \<noteq> ConditionTypeSupportedVersionSkew"
  "ConditionTypeSupportedVersionSkew \<noteq> ConditionTypeReady"
  "ConditionTypeVersionResolved \<noteq> ConditionTypeSupportedVersionSkew"
  "ConditionTypeSupportedVersionSkew \<noteq> ConditionTypeVersionResolved"
  by (simp_all add: ConditionTypeReady_def ConditionTypeVersionResolved_def ConditionTypeSupportedVersionSkew_def)

text \<open>
  The instance \<open>hcp.Annotations[KarpenterCoreE2EOverrideAnnotation] == "true"\<close> that most hosted
  controllers start with.
\<close>

definition core_e2e_override :: "'a object_meta_scheme \<Rightarrow> bool" where
  "core_e2e_override hcp \<longleftrightarrow> sm_get (annotations hcp) KarpenterCoreE2EOverrideAnnotation = ''true''"

section \<open>Bounds of quantities\<close>

lemma sint_of_int_64: "- (2 ^ 63) \<le> n \<Longrightarrow> n < 2 ^ 63 \<Longrightarrow> sint (word_of_int n :: int64) = n"
  by (simp add: sint_sbintrunc' signed_take_bit_int_eq_self)

lemma sint_of_int_32: "- (2 ^ 31) \<le> n \<Longrightarrow> n < 2 ^ 31 \<Longrightarrow> sint (word_of_int n :: int32) = n"
  by (simp add: sint_sbintrunc' signed_take_bit_int_eq_self)

lemma quantity_value_whole:
  assumes "0 \<le> n" "n < 2 ^ 63"
  shows "quantity_value (n * nano) = word_of_int n"
proof -
  have "(n * nano + nano - 1) div nano = n"
    by (simp add: nano_def)
  with assms show ?thesis
    by (simp add: quantity_value_def nano_def)
qed

end
