(* ===== verification/Ec2_Types.thy ===== *)
theory Ec2_Types
  imports Api_Types
begin

text \<open>
  The OpenshiftEC2NodeClass of the operator's API group with its kubelet configuration, and
  the EC2NodeClass of the AWS provider it is translated to. A slice whose nil value the code
  tests is an option.
\<close>

section \<open>Kubelet configuration\<close>

record kubelet_configuration =
  kc_maxPods :: int32
  kc_podsPerCore :: int32
  kc_systemReserved :: smap
  kc_kubeReserved :: smap
  kc_evictionHard :: smap
  kc_evictionSoft :: smap
  kc_evictionSoftGracePeriod :: smap
  kc_evictionMaxPodGracePeriod :: "int32 option"
  kc_imageGCHighThresholdPercent :: "int32 option"
  kc_imageGCLowThresholdPercent :: "int32 option"
  kc_cpuCFSQuota :: "bool option"
  kc_overflow :: string

definition HasTypedFields :: "kubelet_configuration \<Rightarrow> bool" where
  "HasTypedFields k \<longleftrightarrow>
     kc_maxPods k \<noteq> 0 \<or>
     kc_podsPerCore k \<noteq> 0 \<or>
     kc_systemReserved k \<noteq> None \<or>
     kc_kubeReserved k \<noteq> None \<or>
     kc_evictionHard k \<noteq> None \<or>
     kc_evictionSoft k \<noteq> None \<or>
     kc_evictionSoftGracePeriod k \<noteq> None \<or>
     kc_evictionMaxPodGracePeriod k \<noteq> None \<or>
     kc_imageGCHighThresholdPercent k \<noteq> None \<or>
     kc_imageGCLowThresholdPercent k \<noteq> None \<or>
     kc_cpuCFSQuota k \<noteq> None"

definition kubelet_IsZero :: "kubelet_configuration \<Rightarrow> bool" where
  "kubelet_IsZero k \<longleftrightarrow> \<not> HasTypedFields k \<and> kc_overflow k = []"

definition zero_kubelet :: kubelet_configuration where
  "zero_kubelet =
     \<lparr>kc_maxPods = 0, kc_podsPerCore = 0, kc_systemReserved = None, kc_kubeReserved = None,
      kc_evictionHard = None, kc_evictionSoft = None, kc_evictionSoftGracePeriod = None,
      kc_evictionMaxPodGracePeriod = None, kc_imageGCHighThresholdPercent = None,
      kc_imageGCLowThresholdPercent = None, kc_cpuCFSQuota = None, kc_overflow = []\<rparr>"

section \<open>OpenshiftEC2NodeClass\<close>

record subnet_selector_term =
  sst_tags :: smap
  sst_id :: string

record security_group_selector_term =
  sgst_tags :: smap
  sgst_id :: string
  sgst_name :: string

record capacity_reservation_selector_term =
  crst_tags :: smap
  crst_id :: string
  crst_ownerID :: string
  crst_instanceMatchCriteria :: string

record block_device =
  bd_deleteOnTermination :: string
  bd_encrypted :: string
  bd_iops :: "int64 option"
  bd_kmsKeyID :: string
  bd_snapshotID :: string
  bd_throughput :: "int64 option"
  bd_volumeSizeGiB :: int64
  bd_volumeType :: string

record block_device_mapping =
  bdm_deviceName :: string
  bdm_ebs :: block_device
  bdm_rootVolume :: string

record metadata_options =
  mo_access :: string
  mo_httpIPProtocol :: string
  mo_httpPutResponseHopLimit :: int64
  mo_httpTokens :: string

record openshift_ec2_spec =
  os_subnetSelectorTerms :: "subnet_selector_term list option"
  os_securityGroupSelectorTerms :: "security_group_selector_term list option"
  os_capacityReservationSelectorTerms :: "capacity_reservation_selector_term list option"
  os_ipAddressAssociation :: string
  os_tags :: smap
  os_blockDeviceMappings :: "block_device_mapping list option"
  os_instanceStorePolicy :: string
  os_monitoring :: string
  os_metadataOptions :: metadata_options
  os_version :: string
  os_kubelet :: kubelet_configuration

record subnet =
  sn_id :: string
  sn_zone :: string
  sn_zoneID :: string

record security_group =
  sg_id :: string
  sg_name :: string

record capacity_reservation =
  cr_availabilityZone :: string
  cr_endTime :: gotime
  cr_id :: string
  cr_instanceMatchCriteria :: string
  cr_instanceType :: string
  cr_ownerID :: string
  cr_reservationType :: string
  cr_state :: string

record openshift_ec2_status =
  ost_conditions :: "condition list"
  ost_subnets :: "subnet list"
  ost_securityGroups :: "security_group list"
  ost_releaseImage :: string
  ost_version :: string
  ost_capacityReservations :: "capacity_reservation list"

record openshift_ec2_node_class = object_meta +
  onc_spec :: openshift_ec2_spec
  onc_status :: openshift_ec2_status

definition IPAddressAssociationPublic :: string where
  "IPAddressAssociationPublic = ''Public''"

definition IPAddressAssociationSubnetDefault :: string where
  "IPAddressAssociationSubnetDefault = ''SubnetDefault''"

definition MonitoringStateDetailed :: string where
  "MonitoringStateDetailed = ''Detailed''"

definition MonitoringStateBasic :: string where
  "MonitoringStateBasic = ''Basic''"

definition RootVolumeDesignationRootVolume :: string where
  "RootVolumeDesignationRootVolume = ''RootVolume''"

definition DeleteOnTerminationPolicyDelete :: string where
  "DeleteOnTerminationPolicyDelete = ''Delete''"

definition DeleteOnTerminationPolicyRetain :: string where
  "DeleteOnTerminationPolicyRetain = ''Retain''"

definition EncryptionStateEncrypted :: string where
  "EncryptionStateEncrypted = ''Encrypted''"

definition EncryptionStateUnencrypted :: string where
  "EncryptionStateUnencrypted = ''Unencrypted''"

definition MetadataAccessHTTPEndpoint :: string where
  "MetadataAccessHTTPEndpoint = ''HTTPEndpoint''"

definition MetadataAccessNone :: string where
  "MetadataAccessNone = ''None''"

definition MetadataHTTPProtocolIPv4 :: string where
  "MetadataHTTPProtocolIPv4 = ''IPv4''"

definition MetadataHTTPProtocolIPv6 :: string where
  "MetadataHTTPProtocolIPv6 = ''IPv6''"

definition MetadataHTTPTokensStateRequired :: string where
  "MetadataHTTPTokensStateRequired = ''Required''"

definition MetadataHTTPTokensStateOptional :: string where
  "MetadataHTTPTokensStateOptional = ''Optional''"

definition InstanceMatchCriteriaOpen :: string where
  "InstanceMatchCriteriaOpen = ''Open''"

definition InstanceMatchCriteriaTargeted :: string where
  "InstanceMatchCriteriaTargeted = ''Targeted''"

definition CapacityReservationTypeDefault :: string where
  "CapacityReservationTypeDefault = ''Default''"

definition CapacityReservationTypeCapacityBlock :: string where
  "CapacityReservationTypeCapacityBlock = ''CapacityBlock''"

definition CapacityReservationStateActive :: string where
  "CapacityReservationStateActive = ''Active''"

definition CapacityReservationStateExpiring :: string where
  "CapacityReservationStateExpiring = ''Expiring''"

section \<open>EC2NodeClass\<close>

record ec2_kubelet_configuration =
  ek_maxPods :: "int32 option"
  ek_podsPerCore :: "int32 option"
  ek_systemReserved :: smap
  ek_kubeReserved :: smap
  ek_evictionHard :: smap
  ek_evictionSoft :: smap
  \<comment> \<open>durations in nanoseconds\<close>
  ek_evictionSoftGracePeriod :: "(string, int64) fmap option"
  ek_evictionMaxPodGracePeriod :: "int32 option"
  ek_imageGCHighThresholdPercent :: "int32 option"
  ek_imageGCLowThresholdPercent :: "int32 option"
  ek_cpuCFSQuota :: "bool option"

record ec2_block_device =
  eb_deleteOnTermination :: "bool option"
  eb_encrypted :: "bool option"
  eb_iops :: "int64 option"
  eb_kmsKeyID :: "string option"
  eb_snapshotID :: "string option"
  eb_throughput :: "int64 option"
  eb_volumeSize :: "quantity option"
  eb_volumeType :: "string option"

record ec2_block_device_mapping =
  em_deviceName :: "string option"
  em_ebs :: "ec2_block_device option"
  em_rootVolume :: bool

record ec2_metadata_options =
  eo_httpEndpoint :: "string option"
  eo_httpProtocolIPv6 :: "string option"
  eo_httpPutResponseHopLimit :: "int64 option"
  eo_httpTokens :: "string option"

text \<open>
  The fields of \<open>EC2NodeClassSpec\<close> the operator sets; \<open>ec_unmanaged\<close> stands for the others
  (placement groups, network interfaces, CPU options and the like), by name.
\<close>

record ec2_spec =
  ec_subnetSelectorTerms :: "subnet_selector_term list"
  ec_securityGroupSelectorTerms :: "security_group_selector_term list"
  ec_capacityReservationSelectorTerms :: "capacity_reservation_selector_term list"
  ec_associatePublicIPAddress :: "bool option"
  \<comment> \<open>the AMI IDs of the terms\<close>
  ec_amiSelectorTerms :: "string list"
  ec_amiFamily :: "string option"
  ec_userData :: "string option"
  ec_instanceProfile :: "string option"
  ec_tags :: smap
  ec_kubelet :: "ec2_kubelet_configuration option"
  ec_blockDeviceMappings :: "ec2_block_device_mapping list"
  ec_instanceStorePolicy :: "string option"
  ec_detailedMonitoring :: "bool option"
  ec_metadataOptions :: "ec2_metadata_options option"
  ec_unmanaged :: "(string \<times> string) list"

record ec2_capacity_reservation =
  ecr_availabilityZone :: string
  ecr_endTime :: "gotime option"
  ecr_id :: string
  ecr_instanceMatchCriteria :: string
  ecr_instanceType :: string
  ecr_ownerID :: string
  ecr_reservationType :: string
  ecr_state :: string

record ec2_status =
  es_subnets :: "subnet list"
  es_securityGroups :: "security_group list"
  es_capacityReservations :: "ec2_capacity_reservation list"
  es_conditions :: "condition list"

record ec2_node_class = object_meta +
  enc_spec :: ec2_spec
  enc_status :: ec2_status

section \<open>Zero values\<close>

definition zero_object_meta :: object_meta where
  "zero_object_meta =
     \<lparr>namespace = [], name = [], uid = [], resourceVersion = 0, generation = 0,
      deletionTimestamp = None, labels = None, annotations = None, finalizers = [],
      ownerReferences = []\<rparr>"

definition zero_metadata_options :: metadata_options where
  "zero_metadata_options =
     \<lparr>mo_access = [], mo_httpIPProtocol = [], mo_httpPutResponseHopLimit = 0, mo_httpTokens = []\<rparr>"

definition zero_openshift_ec2_spec :: openshift_ec2_spec where
  "zero_openshift_ec2_spec =
     \<lparr>os_subnetSelectorTerms = None, os_securityGroupSelectorTerms = None,
      os_capacityReservationSelectorTerms = None, os_ipAddressAssociation = [], os_tags = None,
      os_blockDeviceMappings = None, os_instanceStorePolicy = [], os_monitoring = [],
      os_metadataOptions = zero_metadata_options, os_version = [], os_kubelet = zero_kubelet\<rparr>"

definition zero_openshift_ec2_status :: openshift_ec2_status where
  "zero_openshift_ec2_status =
     \<lparr>ost_conditions = [], ost_subnets = [], ost_securityGroups = [], ost_releaseImage = [],
      ost_version = [], ost_capacityReservations = []\<rparr>"

definition zero_ec2_spec :: ec2_spec where
  "zero_ec2_spec =
     \<lparr>ec_subnetSelectorTerms = [], ec_securityGroupSelectorTerms = [],
      ec_capacityReservationSelectorTerms = [], ec_associatePublicIPAddress = None,
      ec_amiSelectorTerms = [], ec_amiFamily = None, ec_userData = None,
      ec_instanceProfile = None, ec_tags = None, ec_kubelet = None, ec_blockDeviceMappings = [],
      ec_instanceStorePolicy = None, ec_detailedMonitoring = None, ec_metadataOptions = None,
      ec_unmanaged = []\<rparr>"

definition zero_ec2_status :: ec2_status where
  "zero_ec2_status =
     \<lparr>es_subnets = [], es_securityGroups = [], es_capacityReservations = [], es_conditions = []\<rparr>"

lemma kubelet_IsZero_zero: "kubelet_IsZero zero_kubelet"
  by (simp add: kubelet_IsZero_def HasTypedFields_def zero_kubelet_def)

lemma kubelet_IsZero_iff: "kubelet_IsZero k \<longleftrightarrow> k = zero_kubelet"
  by (cases k) (auto simp: kubelet_IsZero_def HasTypedFields_def zero_kubelet_def)

end
