(* ===== verification/Azure_Types.thy ===== *)
theory Azure_Types
  imports Ec2_Types
begin

text \<open>
  The OpenShiftAzureNodeClass of the operator's API group and the AKSNodeClass of the Azure
  provider it is translated to.
\<close>

definition AzureHostEncryptionEnabled :: string where
  "AzureHostEncryptionEnabled = ''Enabled''"

record azure_spec =
  az_vnetSubnetID :: string
  az_osDiskSizeGiB :: int32
  az_tags :: smap
  az_kubelet :: kubelet_configuration
  \<comment> \<open>\<open>Security.Encryption.HostEncryption\<close>\<close>
  az_hostEncryption :: string
  az_version :: string

record azure_status =
  azs_conditions :: "condition list"
  azs_releaseImage :: string
  azs_version :: string

record openshift_azure_node_class = object_meta +
  anc_spec :: azure_spec
  anc_status :: azure_status

record marketplace_image =
  mi_publisher :: string
  mi_offer :: string
  mi_sku :: string
  mi_version :: string

text \<open>As for EC2, the fields the operator never sets are kept by name in \<open>ak_unmanaged\<close>.\<close>

record aks_spec =
  ak_vnetSubnetID :: "string option"
  ak_osDiskSizeGB :: "int32 option"
  ak_marketplaceImage :: "marketplace_image option"
  ak_imageFamily :: "string option"
  ak_userData :: "string option"
  ak_tags :: smap
  ak_maxPods :: "int32 option"
  \<comment> \<open>\<open>Security.EncryptionAtHost\<close>; the outer option is the \<open>Security\<close> pointer\<close>
  ak_security :: "bool option option"
  ak_unmanaged :: "(string \<times> string) list"

record aks_node_class = object_meta +
  akc_spec :: aks_spec
  akc_conditions :: "condition list"

definition zero_azure_spec :: azure_spec where
  "zero_azure_spec =
     \<lparr>az_vnetSubnetID = [], az_osDiskSizeGiB = 0, az_tags = None, az_kubelet = zero_kubelet,
      az_hostEncryption = [], az_version = []\<rparr>"

definition zero_azure_status :: azure_status where
  "zero_azure_status = \<lparr>azs_conditions = [], azs_releaseImage = [], azs_version = []\<rparr>"

definition zero_aks_spec :: aks_spec where
  "zero_aks_spec =
     \<lparr>ak_vnetSubnetID = None, ak_osDiskSizeGB = None, ak_marketplaceImage = None,
      ak_imageFamily = None, ak_userData = None, ak_tags = None, ak_maxPods = None,
      ak_security = None, ak_unmanaged = []\<rparr>"

end
