(* ===== verification/World.thy ===== *)
theory World
  imports Kube_Client Azure_Types
begin

text \<open>
  The state the hosted control plane controllers share: the objects of the management cluster
  (HostedControlPlanes, CAPI Clusters, Secrets, ConfigMaps) and of the hosted cluster (the
  Karpenter kinds, Nodes, CSRs, NodeClasses, admission policies and CRDs), with one answer list for the calls to come.
  Each kind is a value of \<^typ>\<open>('w, 'o) kind\<close>; \<open>api_kind\<close> is interpreted for every one of
  them, so the facts of the client hold of the concrete world.
\<close>

record world = api +
  w_hcps :: "hosted_control_plane list"
  w_capiClusters :: "capi_cluster list"
  w_secrets :: "secret list"
  w_configMaps :: "config_map list"
  w_nodePools :: "node_pool list"
  w_nodeClaims :: "node_claim list"
  w_nodes :: "node list"
  w_csrs :: "csr list"
  w_openshiftEC2 :: "openshift_ec2_node_class list"
  w_ec2 :: "ec2_node_class list"
  w_openshiftAzure :: "openshift_azure_node_class list"
  w_aks :: "aks_node_class list"
  w_vaps :: "vap list"
  w_vapBindings :: "vap_binding list"
  w_crds :: "crd list"

definition empty_world :: world where
  "empty_world =
     \<lparr>api_faults = [], api_now = 0, w_hcps = [], w_capiClusters = [], w_secrets = [],
      w_configMaps = [], w_nodePools = [], w_nodeClaims = [], w_nodes = [], w_csrs = [],
      w_openshiftEC2 = [], w_ec2 = [], w_openshiftAzure = [], w_aks = [],
      w_vaps = [], w_vapBindings = [], w_crds = []\<rparr>"

section \<open>Objects up to semantic equality\<close>

text \<open>
  \<open>equality.Semantic.DeepEqual\<close> takes nil and empty maps for equal; the \<open>norm\<close> functions send
  equal objects to the same one.
\<close>

definition norm_config_map :: "config_map \<Rightarrow> config_map" where
  "norm_config_map cm = norm_meta (cm\<lparr>cm_data := sm_norm (cm_data cm)\<rparr>)"

definition norm_term_tags :: "subnet_selector_term \<Rightarrow> subnet_selector_term" where
  "norm_term_tags t = t\<lparr>sst_tags := sm_norm (sst_tags t)\<rparr>"

definition norm_sg_term_tags :: "security_group_selector_term \<Rightarrow> security_group_selector_term" where
  "norm_sg_term_tags t = t\<lparr>sgst_tags := sm_norm (sgst_tags t)\<rparr>"

definition norm_cr_term_tags :: "capacity_reservation_selector_term \<Rightarrow> capacity_reservation_selector_term" where
  "norm_cr_term_tags t = t\<lparr>crst_tags := sm_norm (crst_tags t)\<rparr>"

definition norm_slice :: "'a list option \<Rightarrow> 'a list option" where
  "norm_slice s = (if s = Some [] then None else s)"

definition norm_kubelet :: "kubelet_configuration \<Rightarrow> kubelet_configuration" where
  "norm_kubelet k =
     k\<lparr>kc_systemReserved := sm_norm (kc_systemReserved k), kc_kubeReserved := sm_norm (kc_kubeReserved k),
       kc_evictionHard := sm_norm (kc_evictionHard k), kc_evictionSoft := sm_norm (kc_evictionSoft k),
       kc_evictionSoftGracePeriod := sm_norm (kc_evictionSoftGracePeriod k)\<rparr>"

definition norm_ec2_kubelet :: "ec2_kubelet_configuration \<Rightarrow> ec2_kubelet_configuration" where
  "norm_ec2_kubelet k =
     k\<lparr>ek_systemReserved := sm_norm (ek_systemReserved k), ek_kubeReserved := sm_norm (ek_kubeReserved k),
       ek_evictionHard := sm_norm (ek_evictionHard k), ek_evictionSoft := sm_norm (ek_evictionSoft k),
       ek_evictionSoftGracePeriod :=
         (if ek_evictionSoftGracePeriod k = Some fmempty then None else ek_evictionSoftGracePeriod k)\<rparr>"

definition norm_ec2_spec :: "ec2_spec \<Rightarrow> ec2_spec" where
  "norm_ec2_spec s =
     s\<lparr>ec_subnetSelectorTerms := map norm_term_tags (ec_subnetSelectorTerms s),
       ec_securityGroupSelectorTerms := map norm_sg_term_tags (ec_securityGroupSelectorTerms s),
       ec_capacityReservationSelectorTerms := map norm_cr_term_tags (ec_capacityReservationSelectorTerms s),
       ec_tags := sm_norm (ec_tags s),
       ec_kubelet := map_option norm_ec2_kubelet (ec_kubelet s)\<rparr>"

definition norm_openshift_ec2_spec :: "openshift_ec2_spec \<Rightarrow> openshift_ec2_spec" where
  "norm_openshift_ec2_spec s =
     s\<lparr>os_subnetSelectorTerms := norm_slice (map_option (map norm_term_tags) (os_subnetSelectorTerms s)),
       os_securityGroupSelectorTerms :=
         norm_slice (map_option (map norm_sg_term_tags) (os_securityGroupSelectorTerms s)),
       os_capacityReservationSelectorTerms :=
         norm_slice (map_option (map norm_cr_term_tags) (os_capacityReservationSelectorTerms s)),
       os_blockDeviceMappings := norm_slice (os_blockDeviceMappings s),
       os_tags := sm_norm (os_tags s),
       os_kubelet := norm_kubelet (os_kubelet s)\<rparr>"

definition norm_ec2_node_class :: "ec2_node_class \<Rightarrow> ec2_node_class" where
  "norm_ec2_node_class o' = norm_meta (o'\<lparr>enc_spec := norm_ec2_spec (enc_spec o')\<rparr>)"

definition norm_openshift_ec2 :: "openshift_ec2_node_class \<Rightarrow> openshift_ec2_node_class" where
  "norm_openshift_ec2 o' = norm_meta (o'\<lparr>onc_spec := norm_openshift_ec2_spec (onc_spec o')\<rparr>)"

definition norm_azure_spec :: "azure_spec \<Rightarrow> azure_spec" where
  "norm_azure_spec s = s\<lparr>az_tags := sm_norm (az_tags s), az_kubelet := norm_kubelet (az_kubelet s)\<rparr>"

definition norm_openshift_azure :: "openshift_azure_node_class \<Rightarrow> openshift_azure_node_class" where
  "norm_openshift_azure o' = norm_meta (o'\<lparr>anc_spec := norm_azure_spec (anc_spec o')\<rparr>)"

definition norm_aks_node_class :: "aks_node_class \<Rightarrow> aks_node_class" where
  "norm_aks_node_class o' =
     norm_meta (o'\<lparr>akc_spec := (akc_spec o')\<lparr>ak_tags := sm_norm (ak_tags (akc_spec o'))\<rparr>\<rparr>)"

section \<open>The kinds\<close>

text \<open>The status of a HostedControlPlane, an EC2 or an Azure NodeClass survives an update.\<close>

definition HCPs :: "(world, hosted_control_plane) kind" where
  "HCPs = \<lparr>k_objs = w_hcps, k_upd = w_hcps_update,
     k_keepStatus = (\<lambda>old new. new\<lparr>hcp_controlPlaneVersion := hcp_controlPlaneVersion old,
                                    hcp_autoNodeStatus := hcp_autoNodeStatus old\<rparr>),
     k_norm = norm_meta\<rparr>"

definition CAPIClusters :: "(world, capi_cluster) kind" where
  "CAPIClusters = \<lparr>k_objs = w_capiClusters, k_upd = w_capiClusters_update,
     k_keepStatus = (\<lambda>old new. new), k_norm = norm_meta\<rparr>"

definition Secrets :: "(world, secret) kind" where
  "Secrets = \<lparr>k_objs = w_secrets, k_upd = w_secrets_update,
     k_keepStatus = (\<lambda>old new. new), k_norm = norm_meta\<rparr>"

definition ConfigMaps :: "(world, config_map) kind" where
  "ConfigMaps = \<lparr>k_objs = w_configMaps, k_upd = w_configMaps_update,
     k_keepStatus = (\<lambda>old new. new), k_norm = norm_config_map\<rparr>"

definition NodePools :: "(world, node_pool) kind" where
  "NodePools = \<lparr>k_objs = w_nodePools, k_upd = w_nodePools_update,
     k_keepStatus = (\<lambda>old new. new), k_norm = norm_meta\<rparr>"

definition NodeClaims :: "(world, node_claim) kind" where
  "NodeClaims = \<lparr>k_objs = w_nodeClaims, k_upd = w_nodeClaims_update,
     k_keepStatus = (\<lambda>old new. new\<lparr>nc_providerID := nc_providerID old, nc_nodeName := nc_nodeName old,
                                    nc_cpu := nc_cpu old\<rparr>),
     k_norm = norm_meta\<rparr>"

definition Nodes :: "(world, node) kind" where
  "Nodes = \<lparr>k_objs = w_nodes, k_upd = w_nodes_update,
     k_keepStatus = (\<lambda>old new. new), k_norm = norm_meta\<rparr>"

definition CSRs :: "(world, csr) kind" where
  "CSRs = \<lparr>k_objs = w_csrs, k_upd = w_csrs_update,
     k_keepStatus = (\<lambda>old new. new\<lparr>csr_conditions := csr_conditions old\<rparr>), k_norm = norm_meta\<rparr>"

definition OpenshiftEC2 :: "(world, openshift_ec2_node_class) kind" where
  "OpenshiftEC2 = \<lparr>k_objs = w_openshiftEC2, k_upd = w_openshiftEC2_update,
     k_keepStatus = (\<lambda>old new. new\<lparr>onc_status := onc_status old\<rparr>), k_norm = norm_openshift_ec2\<rparr>"

definition EC2 :: "(world, ec2_node_class) kind" where
  "EC2 = \<lparr>k_objs = w_ec2, k_upd = w_ec2_update,
     k_keepStatus = (\<lambda>old new. new\<lparr>enc_status := enc_status old\<rparr>), k_norm = norm_ec2_node_class\<rparr>"

definition OpenshiftAzure :: "(world, openshift_azure_node_class) kind" where
  "OpenshiftAzure = \<lparr>k_objs = w_openshiftAzure, k_upd = w_openshiftAzure_update,
     k_keepStatus = (\<lambda>old new. new\<lparr>anc_status := anc_status old\<rparr>), k_norm = norm_openshift_azure\<rparr>"

definition AKS :: "(world, aks_node_class) kind" where
  "AKS = \<lparr>k_objs = w_aks, k_upd = w_aks_update,
     k_keepStatus = (\<lambda>old new. new\<lparr>akc_conditions := akc_conditions old\<rparr>), k_norm = norm_aks_node_class\<rparr>"

definition VAPs :: "(world, vap) kind" where
  "VAPs = \<lparr>k_objs = w_vaps, k_upd = w_vaps_update, k_keepStatus = (\<lambda>old new. new), k_norm = norm_meta\<rparr>"

definition VAPBindings :: "(world, vap_binding) kind" where
  "VAPBindings = \<lparr>k_objs = w_vapBindings, k_upd = w_vapBindings_update, k_keepStatus = (\<lambda>old new. new), k_norm = norm_meta\<rparr>"

definition CRDs :: "(world, crd) kind" where
  "CRDs = \<lparr>k_objs = w_crds, k_upd = w_crds_update,
     k_keepStatus = (\<lambda>old new. new\<lparr>crd_status := crd_status old\<rparr>), k_norm = norm_meta\<rparr>"

lemmas kind_defs = HCPs_def CAPIClusters_def Secrets_def ConfigMaps_def NodePools_def NodeClaims_def
  Nodes_def CSRs_def OpenshiftEC2_def EC2_def OpenshiftAzure_def AKS_def
  VAPs_def VAPBindings_def CRDs_def

lemma k_objs_simps [simp]:
  "k_objs HCPs = w_hcps" "k_objs CAPIClusters = w_capiClusters" "k_objs Secrets = w_secrets"
  "k_objs ConfigMaps = w_configMaps" "k_objs NodePools = w_nodePools" "k_objs NodeClaims = w_nodeClaims"
  "k_objs Nodes = w_nodes" "k_objs CSRs = w_csrs" "k_objs OpenshiftEC2 = w_openshiftEC2"
  "k_objs EC2 = w_ec2" "k_objs OpenshiftAzure = w_openshiftAzure" "k_objs AKS = w_aks"
  "k_objs VAPs = w_vaps" "k_objs VAPBindings = w_vapBindings" "k_objs CRDs = w_crds"
  by (simp_all add: kind_defs)

lemma k_upd_simps [simp]:
  "k_upd HCPs = w_hcps_update" "k_upd CAPIClusters = w_capiClusters_update"
  "k_upd Secrets = w_secrets_update" "k_upd ConfigMaps = w_configMaps_update"
  "k_upd NodePools = w_nodePools_update" "k_upd NodeClaims = w_nodeClaims_update"
  "k_upd Nodes = w_nodes_update" "k_upd CSRs = w_csrs_update"
  "k_upd OpenshiftEC2 = w_openshiftEC2_update" "k_upd EC2 = w_ec2_update"
  "k_upd OpenshiftAzure = w_openshiftAzure_update" "k_upd AKS = w_aks_update"
  "k_upd VAPs = w_vaps_update" "k_upd VAPBindings = w_vapBindings_update" "k_upd CRDs = w_crds_update"
  by (simp_all add: kind_defs)

section \<open>Interpretations\<close>

interpretation hcps: api_kind HCPs
  by unfold_locales (simp_all add: HCPs_def obj_key_def)

interpretation capiClusters: api_kind CAPIClusters
  by unfold_locales (simp_all add: CAPIClusters_def)

interpretation secrets: api_kind Secrets
  by unfold_locales (simp_all add: Secrets_def)

interpretation configMaps: api_kind ConfigMaps
  by unfold_locales (simp_all add: ConfigMaps_def)

interpretation nodePools: api_kind NodePools
  by unfold_locales (simp_all add: NodePools_def)

interpretation nodeClaims: api_kind NodeClaims
  by unfold_locales (simp_all add: NodeClaims_def obj_key_def)

interpretation nodes: api_kind Nodes
  by unfold_locales (simp_all add: Nodes_def)

interpretation csrs: api_kind CSRs
  by unfold_locales (simp_all add: CSRs_def obj_key_def)

interpretation openshiftEC2: api_kind OpenshiftEC2
  by unfold_locales (simp_all add: OpenshiftEC2_def obj_key_def)

interpretation ec2: api_kind EC2
  by unfold_locales (simp_all add: EC2_def obj_key_def)

interpretation openshiftAzure: api_kind OpenshiftAzure
  by unfold_locales (simp_all add: OpenshiftAzure_def obj_key_def)

interpretation aks: api_kind AKS
  by unfold_locales (simp_all add: AKS_def obj_key_def)

interpretation vaps: api_kind VAPs
  by unfold_locales (simp_all add: VAPs_def)

interpretation vapBindings: api_kind VAPBindings
  by unfold_locales (simp_all add: VAPBindings_def)

interpretation crds: api_kind CRDs
  by unfold_locales (simp_all add: CRDs_def obj_key_def)

end
