(* ===== verification/Hypershift.thy ===== *)
theory Hypershift
  imports World
begin

text \<open>
  \<open>pkg/hypershift\<close>: how the controllers find the HostedControlPlane of their namespace, decide
  whether the cluster is being deleted or its control plane upgraded, and find the user data
  Secret that HyperShift generates for a NodeClass.
\<close>

section \<open>The HostedControlPlane\<close>

definition ErrHostedControlPlaneNotFound :: error where
  "ErrHostedControlPlaneNotFound = Sentinel ''hosted control plane not found''"

definition GetHostedControlPlane :: "string \<Rightarrow> (world, hosted_control_plane) io" where
  "GetHostedControlPlane ns =
     bindE (wrapE ''listing hosted control planes: %w'' [] (cl_list HCPs (\<lambda>o'. namespace o' = ns)))
       (\<lambda>items.
          case items of
            [] \<Rightarrow> raise (Wrap ''%w in namespace %q'' [AStr ns] ErrHostedControlPlaneNotFound)
          | [hcp] \<Rightarrow> ret hcp
          | _ \<Rightarrow> raise (Errorf ''expected one hosted control plane in namespace %q, found %d''
                     [AStr ns, ANum (length items)]))"

section \<open>Control plane upgrades\<close>

fun first_completed :: "string \<Rightarrow> update_history list \<Rightarrow> bool" where
  "first_completed desiredImage [] = False"
| "first_completed desiredImage (entry # history) =
     (if uh_state entry = CompletedUpdate then uh_image entry \<noteq> desiredImage
      else first_completed desiredImage history)"

definition isControlPlaneUpgrading :: "hosted_control_plane \<Rightarrow> bool" where
  "isControlPlaneUpgrading hcp =
     (let desiredImage = rel_image (cpv_desired (hcp_controlPlaneVersion hcp)) in
      if desiredImage = [] then False
      else first_completed desiredImage (cpv_history (hcp_controlPlaneVersion hcp)))"

definition WaitsForControlPlaneUpgrade :: "hosted_control_plane \<Rightarrow> string \<Rightarrow> bool" where
  "WaitsForControlPlaneUpgrade hcp version \<longleftrightarrow> version = [] \<and> isControlPlaneUpgrading hcp"

definition ControlPlaneVersionChanged :: "hosted_control_plane \<Rightarrow> hosted_control_plane \<Rightarrow> bool" where
  "ControlPlaneVersionChanged oldHCP newHCP \<longleftrightarrow>
     hcp_controlPlaneVersion oldHCP \<noteq> hcp_controlPlaneVersion newHCP"

section \<open>Cluster deletion\<close>

text \<open>The REST mapper of the management cluster maps a group and kind to a group, version and kind.\<close>

definition capiClusterGroupKind :: "string \<times> string" where
  "capiClusterGroupKind = (''cluster.x-k8s.io'', ''Cluster'')"

definition ResolveCAPIClusterGVK ::
  "(string \<times> string \<Rightarrow> error + (string \<times> string \<times> string)) \<Rightarrow> error + (string \<times> string \<times> string)" where
  "ResolveCAPIClusterGVK mapper =
     (case mapper capiClusterGroupKind of
        Inl e \<Rightarrow> Inl (Wrap ''resolving CAPI Cluster version: %w'' [] e)
      | Inr gvk \<Rightarrow> Inr gvk)"

definition IsClusterDeleting :: "hosted_control_plane \<Rightarrow> (world, bool) io" where
  "IsClusterDeleting hcp =
     (if deletionTimestamp hcp \<noteq> None then ret True
      else if hcp_infraID hcp = [] then ret False
      else handleE (cl_get CAPIClusters (namespace hcp, hcp_infraID hcp))
        (\<lambda>err. if is_not_found err then ret False
               else raise (Wrap ''getting CAPI Cluster: %w'' [] err))
        (\<lambda>capiCluster. ret (\<not> time_is_zero (deletionTimestamp capiCluster))))"

section \<open>User data Secrets\<close>

definition tokenSecretAnnotation :: string where
  "tokenSecretAnnotation = ''hypershift.openshift.io/ignition-config''"

definition karpenterNodePoolSuffix :: string where
  "karpenterNodePoolSuffix = ''-karpenter''"

definition karpenterSecretSelector :: "'a object_meta_scheme \<Rightarrow> bool" where
  "karpenterSecretSelector o' \<longleftrightarrow> sm_lookup (labels o') ManagedByKarpenterLabel = Some ''true''"

definition ErrUserDataSecretNotFound :: error where
  "ErrUserDataSecretNotFound = Sentinel ''user data secret not found''"

definition karpenterNodePoolName :: "string \<Rightarrow> string" where
  "karpenterNodePoolName nodeClassName = nodeClassName @ karpenterNodePoolSuffix"

definition key_string :: "object_key \<Rightarrow> string" where
  "key_string key = fst key @ ''/'' @ snd key"

text \<open>The test of the loop of \<open>GetUserDataSecret\<close>\<close>

definition is_user_data_secret :: "string \<Rightarrow> string \<Rightarrow> secret \<Rightarrow> bool" where
  "is_user_data_secret ns nodeClassName s \<longleftrightarrow>
     sm_get (annotations s) TokenSecretNodePoolAnnotation
       = key_string (ns, karpenterNodePoolName nodeClassName) \<and>
     sm_get (annotations s) tokenSecretAnnotation \<noteq> ''true''"

definition GetUserDataSecret :: "string \<Rightarrow> string \<Rightarrow> (world, secret) io" where
  "GetUserDataSecret ns nodeClassName =
     bindE (wrapE ''listing secrets: %w'' []
              (cl_list Secrets (\<lambda>s. namespace s = ns \<and> karpenterSecretSelector s)))
       (\<lambda>items.
          let userDataSecrets = filter (is_user_data_secret ns nodeClassName) items in
          case userDataSecrets of
            [] \<Rightarrow> raise (Wrap ''%w for NodeClass %q'' [AStr nodeClassName] ErrUserDataSecretNotFound)
          | [s] \<Rightarrow> ret s
          | _ \<Rightarrow> raise (Errorf ''expected one user data secret for NodeClass %q, found %d''
                     [AStr nodeClassName, ANum (length userDataSecrets)]))"

definition KarpenterSecretPredicate :: "'a object_meta_scheme watch_event \<Rightarrow> bool" where
  "KarpenterSecretPredicate ev =
     (case ev of
        CreateEvent o' \<Rightarrow> karpenterSecretSelector o'
      | UpdateEvent old new \<Rightarrow> karpenterSecretSelector new
      | DeleteEvent o' \<Rightarrow> False
      | GenericEvent o' \<Rightarrow> False)"

definition mapUserDataSecretToNodeClass :: "'a object_meta_scheme \<Rightarrow> object_key list" where
  "mapUserDataSecretToNodeClass o' =
     (if sm_get (annotations o') tokenSecretAnnotation = ''true'' then []
      else case cut (sm_get (annotations o') TokenSecretNodePoolAnnotation) CHR ''/'' of
        (_, nodePoolName, _) \<Rightarrow>
          (case cut_suffix nodePoolName karpenterNodePoolSuffix of
             (nodeClassName, ok) \<Rightarrow> if \<not> ok then [] else [([], nodeClassName)]))"

section \<open>Facts\<close>

lemma GetHostedControlPlane_cases:
  obtains (failed) e fs where "GetHostedControlPlane ns w = (Inl e, w\<lparr>api_faults := fs\<rparr>)"
  | (found) hcp fs where "filter (\<lambda>o'. namespace o' = ns) (w_hcps w) = [hcp]"
      "GetHostedControlPlane ns w = (Inr hcp, w\<lparr>api_faults := fs\<rparr>)"
proof (cases rule: cl_list_cases [of HCPs "\<lambda>o'. namespace o' = ns" w])
  case (fault e fs)
  then show ?thesis
    by (intro failed [of _ fs]) (simp add: GetHostedControlPlane_def io_simps)
next
  case (listed fs)
  then have run: "GetHostedControlPlane ns w =
      (case filter (\<lambda>o'. namespace o' = ns) (w_hcps w) of
         [] \<Rightarrow> raise (Wrap ''%w in namespace %q'' [AStr ns] ErrHostedControlPlaneNotFound)
       | [hcp] \<Rightarrow> ret hcp
       | _ \<Rightarrow> raise (Errorf ''expected one hosted control plane in namespace %q, found %d''
                  [AStr ns, ANum (length (filter (\<lambda>o'. namespace o' = ns) (w_hcps w)))]))
        (w\<lparr>api_faults := fs\<rparr>)"
    by (simp add: GetHostedControlPlane_def io_simps)
  show ?thesis
  proof (cases "filter (\<lambda>o'. namespace o' = ns) (w_hcps w)")
    case Nil
    with run show ?thesis by (intro failed [of _ fs]) simp
  next
    case (Cons hcp rest)
    with run show ?thesis
      by (cases rest) (simp_all add: failed found)
  qed
qed

lemma GetHostedControlPlane_no_faults:
  "api_faults w = [] \<Longrightarrow>
   GetHostedControlPlane ns w =
     (case filter (\<lambda>o'. namespace o' = ns) (w_hcps w) of
        [] \<Rightarrow> Inl (Wrap ''%w in namespace %q'' [AStr ns] ErrHostedControlPlaneNotFound)
      | [hcp] \<Rightarrow> Inr hcp
      | hcps \<Rightarrow> Inl (Errorf ''expected one hosted control plane in namespace %q, found %d''
                  [AStr ns, ANum (length hcps)]), w)"
  by (simp add: GetHostedControlPlane_def io_simps hcps.list_no_faults split: list.splits)

lemma IsClusterDeleting_frame: "\<exists>fs. snd (IsClusterDeleting hcp w) = w\<lparr>api_faults := fs\<rparr>"
proof (cases rule: cl_get_cases [of CAPIClusters "(namespace hcp, hcp_infraID hcp)" w])
  case (fault e fs)
  then show ?thesis
    by (auto simp: IsClusterDeleting_def io_simps intro: exI [of _ "api_faults w"])
next
  case (missing fs)
  then show ?thesis
    by (auto simp: IsClusterDeleting_def io_simps intro: exI [of _ "api_faults w"])
next
  case (found o' fs)
  then show ?thesis
    by (auto simp: IsClusterDeleting_def io_simps intro: exI [of _ "api_faults w"])
qed

lemma IsClusterDeleting_no_faults:
  "api_faults w = [] \<Longrightarrow>
   IsClusterDeleting hcp w =
     (Inr (deletionTimestamp hcp \<noteq> None \<or>
           hcp_infraID hcp \<noteq> [] \<and>
           (\<exists>c. find_obj (namespace hcp, hcp_infraID hcp) (w_capiClusters w) = Some c \<and>
                \<not> time_is_zero (deletionTimestamp c))), w)"
  by (auto simp: IsClusterDeleting_def io_simps capiClusters.get_no_faults split: option.split)

lemma errors_is_wrap [simp]: "errors_is (Wrap f as e) e"
  by (cases e) simp_all

lemma not_found_hcp_error [simp]:
  "errors_is (Wrap f as ErrHostedControlPlaneNotFound) ErrHostedControlPlaneNotFound"
  by (rule errors_is_wrap)

lemma first_completed_iff:
  "first_completed img history \<longleftrightarrow>
     (\<exists>entry. find (\<lambda>h. uh_state h = CompletedUpdate) history = Some entry \<and> uh_image entry \<noteq> img)"
  by (induction history) auto

lemma key_string_no_slash: "CHR ''/'' \<notin> set ns \<Longrightarrow> cut (key_string (ns, n)) CHR ''/'' = (ns, n, True)"
  by (simp add: key_string_def cut_append)

lemma mapUserDataSecretToNodeClass_user_data:
  "is_user_data_secret ns n s \<Longrightarrow> CHR ''/'' \<notin> set ns \<Longrightarrow> mapUserDataSecretToNodeClass s = [([], n)]"
  by (simp add: is_user_data_secret_def mapUserDataSecretToNodeClass_def key_string_no_slash
      karpenterNodePoolName_def)

lemma GetUserDataSecret_no_faults:
  "api_faults w = [] \<Longrightarrow>
   GetUserDataSecret ns n w =
     (case filter (\<lambda>s. namespace s = ns \<and> karpenterSecretSelector s \<and> is_user_data_secret ns n s) (w_secrets w) of
        [] \<Rightarrow> Inl (Wrap ''%w for NodeClass %q'' [AStr n] ErrUserDataSecretNotFound)
      | [s] \<Rightarrow> Inr s
      | ss \<Rightarrow> Inl (Errorf ''expected one user data secret for NodeClass %q, found %d''
                [AStr n, ANum (length ss)]), w)"
  by (simp add: GetUserDataSecret_def io_simps secrets.list_no_faults conj_commute conj_left_commute
      split: list.splits)

lemma GetUserDataSecret_ok:
  "GetUserDataSecret ns n w = (Inr s, w') \<Longrightarrow>
     s \<in> set (w_secrets w) \<and> namespace s = ns \<and> karpenterSecretSelector s \<and> is_user_data_secret ns n s"
proof (cases rule: cl_list_cases [of Secrets "\<lambda>s. namespace s = ns \<and> karpenterSecretSelector s" w])
  case (fault e fs)
  moreover assume "GetUserDataSecret ns n w = (Inr s, w')"
  ultimately show ?thesis by (simp add: GetUserDataSecret_def io_simps)
next
  case (listed fs)
  moreover assume "GetUserDataSecret ns n w = (Inr s, w')"
  ultimately have "filter (is_user_data_secret ns n)
      (filter (\<lambda>s. namespace s = ns \<and> karpenterSecretSelector s) (w_secrets w)) = [s]"
    by (simp add: GetUserDataSecret_def io_simps Let_def split: list.splits)
  then have "s \<in> set (filter (is_user_data_secret ns n)
      (filter (\<lambda>s. namespace s = ns \<and> karpenterSecretSelector s) (w_secrets w)))"
    by simp
  then show ?thesis by simp
qed

text \<open>The HostedControlPlane of the namespace is the object of its key.\<close>

lemma find_unique_namespace:
  assumes "filter (\<lambda>o'. namespace o' = ns) objs = [hcp]"
  shows "find_obj (obj_key hcp) objs = Some hcp"
proof (cases "find_obj (obj_key hcp) objs")
  case None
  moreover from assms have "hcp \<in> set objs"
    by (metis filter_is_subset list.set_intros(1) subsetD)
  ultimately show ?thesis by (auto simp: find_obj_None_iff)
next
  case (Some h)
  then have "h \<in> set objs" "obj_key h = obj_key hcp"
    by (auto dest: find_obj_Some)
  moreover have "hcp \<in> set (filter (\<lambda>o'. namespace o' = ns) objs)"
    by (simp add: assms)
  ultimately have "h \<in> set (filter (\<lambda>o'. namespace o' = ns) objs)"
    by (simp add: obj_key_def)
  with assms Some show ?thesis by simp
qed

lemma filter_namespace: "filter (\<lambda>o'. namespace o' = ns) objs = [hcp] \<Longrightarrow> namespace hcp = ns"
  by (auto simp: filter_eq_Cons_iff)

lemma filter_replace:
  assumes "\<And>y. y \<in> set ys \<Longrightarrow> namespace y = ns" and "filter (\<lambda>o'. namespace o' = ns) objs = [hcp]"
  shows "filter (\<lambda>o'. namespace o' = ns) (replace_obj (obj_key hcp) ys objs) = ys"
  using assms(2)
proof (induction objs)
  case Nil
  then show ?case by simp
next
  case (Cons a objs)
  have ys: "filter (\<lambda>o'. namespace o' = ns) ys = ys"
    using assms(1) by (simp add: filter_True)
  show ?case
  proof (cases "namespace a = ns")
    case True
    with Cons.prems have "a = hcp" and rest: "filter (\<lambda>o'. namespace o' = ns) objs = []"
      by simp_all
    have "replace_obj (obj_key hcp) ys objs = objs"
      using rest True \<open>a = hcp\<close>
      by (intro replace_obj_absent) (auto simp: obj_key_def filter_empty_conv)
    with rest ys \<open>a = hcp\<close> show ?thesis by (simp add: replace_obj_def)
  next
    case False
    with Cons.prems have "namespace hcp = ns" and prems: "filter (\<lambda>o'. namespace o' = ns) objs = [hcp]"
      by (auto simp: filter_eq_Cons_iff)
    with False have "obj_key a \<noteq> obj_key hcp"
      by (auto simp: obj_key_def)
    with Cons.IH [OF prems] False show ?thesis by (simp add: replace_obj_def)
  qed
qed

end
