(* ===== verification/Hcp_Deletion.thy ===== *)
theory Hcp_Deletion
  imports Hypershift
begin

text \<open>
  \<open>pkg/controllers/hcp/deletion\<close>: the finalizer that keeps a HostedControlPlane until Karpenter
  has drained the hosted cluster. The controller adds it while the cluster is alive; once the
  cluster is being deleted it deletes the NodePools, then the NodeClaims, and removes the
  finalizer when none is left and the HostedControlPlane itself is being deleted.
\<close>

section \<open>The controller\<close>

definition karpenterFinalizer :: string where
  "karpenterFinalizer = ''hypershift.openshift.io/karpenter-finalizer''"

definition nodeClaimDeletionTimeout :: int where
  "nodeClaimDeletionTimeout = 180 * second_ns"

definition karpenterDeletionRequeueInterval :: int where
  "karpenterDeletionRequeueInterval = 15 * second_ns"

definition NodeClaimTerminationTimestampAnnotationKey :: string where
  "NodeClaimTerminationTimestampAnnotationKey = ''karpenter.sh/nodeclaim-termination-timestamp''"

text \<open>\<open>time.Since\<close>, which saturates at the longest duration\<close>

definition time_since :: "int \<Rightarrow> gotime \<Rightarrow> int" where
  "time_since now t =
     (case t of ZeroTime \<Rightarrow> 2 ^ 63 - 1 | At s \<Rightarrow> max (- (2 ^ 63)) (min (2 ^ 63 - 1) ((now - s) * second_ns)))"

definition deleteNodePools :: "(world, bool) io" where
  "deleteNodePools =
     bindE (wrapE ''listing NodePools: %w'' [] (cl_list NodePools (\<lambda>_. True))) (\<lambda>items.
     bindE (forE items (\<lambda>nodePool.
              if \<not> time_is_zero (deletionTimestamp nodePool) then ret ()
              else wrapE ''deleting NodePool: %w'' [] (cl_delete NodePools (obj_key nodePool)))) (\<lambda>_.
     ret (items = [])))"

definition handleForcefulNodeClaimDeletion :: "node_claim \<Rightarrow> (world, unit) io" where
  "handleForcefulNodeClaimDeletion nodeClaim =
     (if sm_get (annotations nodeClaim) NodeClaimTerminationTimestampAnnotationKey \<noteq> [] then ret ()
      else let stamp = (case deletionTimestamp nodeClaim of None \<Rightarrow> [] | Some t \<Rightarrow> format_rfc3339 t) in
        bindE (wrapE ''applying NodeClaim termination annotation: %w'' []
          (cl_patch NodeClaims False nodeClaim
             (\<lambda>o'. o'\<lparr>annotations :=
                sm_put NodeClaimTerminationTimestampAnnotationKey stamp (annotations o')\<rparr>)))
        (\<lambda>_. ret ()))"

definition deleteNodeClaims :: "(world, bool) io" where
  "deleteNodeClaims =
     (let force = True in
      bindE (wrapE ''listing NodeClaims: %w'' [] (cl_list NodeClaims (\<lambda>_. True))) (\<lambda>items.
      bindE (forE items (\<lambda>nodeClaim.
               case deletionTimestamp nodeClaim of
                 None \<Rightarrow> wrapE ''deleting NodeClaim: %w'' [] (cl_delete NodeClaims (obj_key nodeClaim))
               | Some t \<Rightarrow>
                   bindE nowE (\<lambda>now.
                   let elapsed = time_since now t in
                   if \<not> force \<and> elapsed < nodeClaimDeletionTimeout then ret ()
                   else wrapE ''handling forceful NodeClaim deletion: %w'' []
                          (handleForcefulNodeClaimDeletion nodeClaim)))) (\<lambda>_.
      ret (items = []))))"

definition cleanupKarpenterResources :: "(world, bool) io" where
  "cleanupKarpenterResources =
     bindE deleteNodePools (\<lambda>nodePoolsGone.
     if \<not> nodePoolsGone then ret False else deleteNodeClaims)"

text \<open>The merge patch of a finalizer change replaces the list of finalizers.\<close>

definition finalizer_patch :: "'a object_meta_scheme \<Rightarrow> 'a object_meta_scheme \<Rightarrow> 'a object_meta_scheme" where
  "finalizer_patch changed o' = o'\<lparr>finalizers := finalizers changed\<rparr>"

definition reconcileDeletion :: "hosted_control_plane \<Rightarrow> (world, ctrl_result) io" where
  "reconcileDeletion hcp =
     (if \<not> ContainsFinalizer hcp karpenterFinalizer then ret Result0
      else bindE cleanupKarpenterResources (\<lambda>cleanedUp.
        if \<not> cleanedUp then ret (Result0\<lparr>requeueAfter := karpenterDeletionRequeueInterval\<rparr>)
        else if deletionTimestamp hcp = None then ret Result0
        else let hcp' = RemoveFinalizer karpenterFinalizer hcp in
          bindE (wrapE ''removing finalizer from HostedControlPlane: %w'' []
                   (cl_patch HCPs True hcp (finalizer_patch hcp'))) (\<lambda>_.
          ret Result0)))"

definition deletion_Reconcile :: "string \<Rightarrow> (world, ctrl_result) io" where
  "deletion_Reconcile ns =
     handleE (GetHostedControlPlane ns)
       (\<lambda>err. if errors_is err ErrHostedControlPlaneNotFound then ret Result0 else raise err)
       (\<lambda>hcp.
          bindE (wrapE ''checking cluster deletion state: %w'' [] (IsClusterDeleting hcp)) (\<lambda>clusterDeleting.
          if clusterDeleting then reconcileDeletion hcp
          else if \<not> ContainsFinalizer hcp karpenterFinalizer then
            let hcp' = AddFinalizer karpenterFinalizer hcp in
            bindE (wrapE ''adding finalizer to HostedControlPlane: %w'' []
                     (cl_patch HCPs True hcp (finalizer_patch hcp'))) (\<lambda>_.
            ret Result0)
          else ret Result0))"

section \<open>Draining the hosted cluster\<close>

lemma deletion_frame:
  "keeps (\<lambda>w. w_hcps w = H) deleteNodePools"
  "keeps (\<lambda>w. w_hcps w = H) deleteNodeClaims"
  unfolding deleteNodePools_def deleteNodeClaims_def handleForcefulNodeClaimDeletion_def Let_def
  by (intro hoare_intros nodePools.frame nodeClaims.frame keeps_if; simp)+

lemma cleanup_frame: "keeps (\<lambda>w. w_hcps w = H) cleanupKarpenterResources"
  unfolding cleanupKarpenterResources_def by (intro hoare_intros deletion_frame)

text \<open>The controller only reports a kind as gone when the list it read was empty.\<close>

lemma deleteNodePools_True:
  assumes "deleteNodePools w = (Inr True, w')"
  shows "w_nodePools w = [] \<and> (\<exists>fs. w' = w\<lparr>api_faults := fs\<rparr>)"
proof (cases rule: cl_list_cases [of NodePools "\<lambda>_. True" w])
  case (fault e fs)
  with assms show ?thesis by (simp add: deleteNodePools_def io_simps)
next
  case (listed fs)
  with assms show ?thesis
    by (auto simp: deleteNodePools_def io_simps split: prod.splits sum.splits)
qed

lemma deleteNodeClaims_True:
  assumes "deleteNodeClaims w = (Inr True, w')"
  shows "w_nodeClaims w = [] \<and> (\<exists>fs. w' = w\<lparr>api_faults := fs\<rparr>)"
proof (cases rule: cl_list_cases [of NodeClaims "\<lambda>_. True" w])
  case (fault e fs)
  with assms show ?thesis by (simp add: deleteNodeClaims_def io_simps)
next
  case (listed fs)
  with assms show ?thesis
    by (auto simp: deleteNodeClaims_def io_simps split: prod.splits sum.splits)
qed

lemma cleanup_True:
  assumes "cleanupKarpenterResources w = (Inr True, w')"
  shows "w_nodePools w = [] \<and> w_nodeClaims w = [] \<and> (\<exists>fs. w' = w\<lparr>api_faults := fs\<rparr>)"
proof -
  from assms obtain gone w1 where pools: "deleteNodePools w = (Inr gone, w1)"
    and rest: "(if \<not> gone then ret False else deleteNodeClaims) w1 = (Inr True, w')"
    unfolding cleanupKarpenterResources_def by (rule bindE_InrE)
  from rest have gone: "gone" and claims: "deleteNodeClaims w1 = (Inr True, w')"
    by (simp_all split: if_splits)
  from pools gone have "w_nodePools w = [] \<and> (\<exists>fs. w1 = w\<lparr>api_faults := fs\<rparr>)"
    by (intro deleteNodePools_True) simp
  with deleteNodeClaims_True [OF claims] show ?thesis by auto
qed

section \<open>The finalizer protects the HostedControlPlane\<close>

definition hcp_protected :: "object_key \<Rightarrow> world \<Rightarrow> bool" where
  "hcp_protected key w =
     (\<exists>h. find_obj key (w_hcps w) = Some h \<and> ContainsFinalizer h karpenterFinalizer)"

definition hcp_deleting :: "object_key \<Rightarrow> world \<Rightarrow> bool" where
  "hcp_deleting key w =
     (\<exists>h. find_obj key (w_hcps w) = Some h \<and> deletionTimestamp h \<noteq> None)"

definition drained :: "world \<Rightarrow> bool" where
  "drained w \<longleftrightarrow> w_nodePools w = [] \<and> w_nodeClaims w = []"

lemma protected_faults [simp]:
  "hcp_protected key (w\<lparr>api_faults := fs\<rparr>) = hcp_protected key w"
  "hcp_deleting key (w\<lparr>api_faults := fs\<rparr>) = hcp_deleting key w"
  "drained (w\<lparr>api_faults := fs\<rparr>) = drained w"
  by (simp_all add: hcp_protected_def hcp_deleting_def drained_def)

text \<open>A patch that adds the finalizer leaves every HostedControlPlane protected that was.\<close>

lemma add_patch_protected:
  assumes "hcp_protected key w"
  shows "hcp_protected key
    (snd (cl_patch HCPs True hcp (finalizer_patch (AddFinalizer karpenterFinalizer hcp)) w))"
proof (cases rule: hcps.patch_cases [of True hcp "finalizer_patch (AddFinalizer karpenterFinalizer hcp)" w])
  case (failed e fs)
  with assms show ?thesis by simp
next
  case (patched old new fs)
  then have "ContainsFinalizer new karpenterFinalizer" "obj_key new = obj_key old"
    using contains_add [of karpenterFinalizer hcp]
    by (simp_all add: ContainsFinalizer_def finalizer_patch_def HCPs_def obj_key_def del: contains_add)
  with assms patched show ?thesis
    by (auto simp: hcp_protected_def find_commit_obj ContainsFinalizer_def dest: find_obj_Some)
qed

text \<open>A patch that removes it from \<open>hcp\<close> touches no other HostedControlPlane.\<close>

lemma remove_patch_protected:
  assumes "hcp_protected key w"
    and "\<not> hcp_protected key
      (snd (cl_patch HCPs True hcp (finalizer_patch (RemoveFinalizer karpenterFinalizer hcp)) w))"
  shows "key = obj_key hcp"
proof (cases rule: hcps.patch_cases [of True hcp "finalizer_patch (RemoveFinalizer karpenterFinalizer hcp)" w])
  case (failed e fs)
  with assms show ?thesis by simp
next
  case (patched old new fs)
  from patched(1,4) have "obj_key new = obj_key hcp"
    by (auto simp: finalizer_patch_def HCPs_def obj_key_def dest: find_obj_Some)
  with assms patched show ?thesis
    by (auto simp: hcp_protected_def find_commit_obj split: if_splits)
qed

lemma reconcileDeletion_protected:
  assumes unique: "filter (\<lambda>o'. namespace o' = ns) (w_hcps w) = [hcp]"
    and before: "hcp_protected key w"
    and after: "\<not> hcp_protected key (snd (reconcileDeletion hcp w))"
  shows "drained w \<and> hcp_deleting key w"
proof -
  have fin: "ContainsFinalizer hcp karpenterFinalizer"
    using assms by (auto simp: reconcileDeletion_def io_simps split: if_splits)
  obtain r w1 where clean: "cleanupKarpenterResources w = (r, w1)"
    by fastforce
  have hcps: "w_hcps w1 = w_hcps w"
    using keepsD [OF cleanup_frame [of "w_hcps w"], of w] clean by simp
  have r: "r = Inr True" and deleting: "deletionTimestamp hcp \<noteq> None"
    using after before fin clean hcps
    by (auto simp: reconcileDeletion_def io_simps hcp_protected_def split: sum.splits if_splits)
  have "drained w"
    using cleanup_True clean r by (auto simp: drained_def)
  moreover have "key = obj_key hcp"
    using after before fin clean hcps r deleting
    by (intro remove_patch_protected [of key w1 hcp])
      (auto simp: reconcileDeletion_def io_simps Let_def hcp_protected_def split: prod.splits sum.splits)
  ultimately show ?thesis
    using find_unique_namespace [OF unique] deleting by (auto simp: hcp_deleting_def)
qed

lemma deletion_Reconcile_protected:
  assumes before: "hcp_protected key w"
    and after: "\<not> hcp_protected key (snd (deletion_Reconcile ns w))"
  shows "drained w \<and> hcp_deleting key w"
proof (cases rule: GetHostedControlPlane_cases [of ns w])
  case (failed e fs)
  with assms show ?thesis
    by (simp add: deletion_Reconcile_def io_simps split: if_splits)
next
  case (found hcp fs)
  obtain r w1 where del: "IsClusterDeleting hcp (w\<lparr>api_faults := fs\<rparr>) = (r, w1)"
    by fastforce
  obtain fs1 where w1: "w1 = w\<lparr>api_faults := fs1\<rparr>"
    using IsClusterDeleting_frame [of hcp "w\<lparr>api_faults := fs\<rparr>"] del by auto
  have unique: "filter (\<lambda>o'. namespace o' = ns) (w_hcps w1) = [hcp]"
    using found w1 by simp
  have before1: "hcp_protected key w1"
    using before w1 by simp
  show ?thesis
  proof (cases "r = Inr True")
    case True
    with found del after have "\<not> hcp_protected key (snd (reconcileDeletion hcp w1))"
      by (simp add: deletion_Reconcile_def io_simps)
    with reconcileDeletion_protected [OF unique before1] w1 show ?thesis by simp
  next
    case False
    with found del after before1 add_patch_protected [OF before1, of hcp] show ?thesis
      by (auto simp: deletion_Reconcile_def io_simps Let_def split: sum.splits prod.splits if_splits)
  qed
qed

section \<open>What a pass over the hosted cluster does\<close>

definition pool_round :: "int \<Rightarrow> node_pool \<Rightarrow> node_pool list" where
  "pool_round now p = (if \<not> time_is_zero (deletionTimestamp p) then [p] else deleted_round now p)"

definition terminated :: "node_claim \<Rightarrow> gotime \<Rightarrow> node_claim" where
  "terminated c t =
     c\<lparr>annotations := sm_put NodeClaimTerminationTimestampAnnotationKey (format_rfc3339 t) (annotations c),
       resourceVersion := Suc (resourceVersion c)\<rparr>"

definition claim_round :: "int \<Rightarrow> node_claim \<Rightarrow> node_claim list" where
  "claim_round now c =
     (case deletionTimestamp c of
        None \<Rightarrow> deleted_round now c
      | Some t \<Rightarrow>
          if sm_get (annotations c) NodeClaimTerminationTimestampAnnotationKey \<noteq> [] then [c]
          else committed_round (terminated c t))"

lemma deleteNodePools_no_faults:
  assumes "api_faults w = []" "distinct (map obj_key (w_nodePools w))"
  shows "deleteNodePools w =
    (Inr (w_nodePools w = []),
     w\<lparr>w_nodePools := concat (map (pool_round (api_now w)) (w_nodePools w))\<rparr>)"
proof -
  have "forE (w_nodePools w) (\<lambda>nodePool.
          if \<not> time_is_zero (deletionTimestamp nodePool) then ret ()
          else wrapE ''deleting NodePool: %w'' [] (cl_delete NodePools (obj_key nodePool))) w
      = (Inr (), k_upd NodePools (\<lambda>_. [] @ concat (map (pool_round (api_now w)) (w_nodePools w))) w)"
    using assms
    by (intro nodePools.forE_rounds)
      (auto simp: pool_round_def io_simps nodePools.delete_no_faults
        nodePools.unchanged_round [unfolded k_upd_simps k_objs_simps] split: if_splits
        dest: rounds_keys)
  with assms show ?thesis
    by (simp add: deleteNodePools_def io_simps nodePools.list_no_faults)
qed

lemma terminated_keep:
  "(k_keepStatus NodeClaims c (c\<lparr>annotations := a\<rparr>))\<lparr>resourceVersion := r\<rparr> = c\<lparr>annotations := a, resourceVersion := r\<rparr>"
  by (simp add: NodeClaims_def)

lemma obj_key_terminated [simp]: "obj_key (terminated c t) = obj_key c"
  by (simp add: terminated_def obj_key_def)

lemma claim_step:
  assumes "api_faults w = []" "find_obj (obj_key c) (w_nodeClaims w) = Some c"
    and "distinct (map obj_key (w_nodeClaims w))"
  shows "deletionTimestamp c = Some t \<Longrightarrow>
    handleForcefulNodeClaimDeletion c w =
      (Inr (), w_nodeClaims_update (replace_obj (obj_key c) (claim_round (api_now w) c)) w)"
  using assms
    nodeClaims.patch_no_faults [of w c c False
      "\<lambda>o'. o'\<lparr>annotations := sm_put NodeClaimTerminationTimestampAnnotationKey (format_rfc3339 t) (annotations o')\<rparr>",
      OF _ _ _ _ _ refl]
  by (simp add: handleForcefulNodeClaimDeletion_def claim_round_def io_simps terminated_keep
      terminated_def nodeClaims.unchanged_round [unfolded k_upd_simps k_objs_simps])

lemma deleteNodeClaims_no_faults:
  assumes "api_faults w = []" "distinct (map obj_key (w_nodeClaims w))"
  shows "deleteNodeClaims w =
    (Inr (w_nodeClaims w = []),
     w\<lparr>w_nodeClaims := concat (map (claim_round (api_now w)) (w_nodeClaims w))\<rparr>)"
proof -
  have "forE (w_nodeClaims w) (\<lambda>nodeClaim.
          case deletionTimestamp nodeClaim of
            None \<Rightarrow> wrapE ''deleting NodeClaim: %w'' [] (cl_delete NodeClaims (obj_key nodeClaim))
          | Some t \<Rightarrow>
              bindE nowE (\<lambda>now. wrapE ''handling forceful NodeClaim deletion: %w'' []
                     (handleForcefulNodeClaimDeletion nodeClaim))) w
      = (Inr (), k_upd NodeClaims (\<lambda>_. [] @ concat (map (claim_round (api_now w)) (w_nodeClaims w))) w)"
  proof (rule nodeClaims.forE_rounds)
    fix x w'
    assume "api_faults w' = []" "api_now w' = api_now w" "distinct (map obj_key (k_objs NodeClaims w'))"
      "find_obj (obj_key x) (k_objs NodeClaims w') = Some x"
    then show "(case deletionTimestamp x of
            None \<Rightarrow> wrapE ''deleting NodeClaim: %w'' [] (cl_delete NodeClaims (obj_key x))
          | Some t \<Rightarrow>
              bindE nowE (\<lambda>now. wrapE ''handling forceful NodeClaim deletion: %w'' []
                     (handleForcefulNodeClaimDeletion x))) w' =
        (Inr (), k_upd NodeClaims (replace_obj (obj_key x) (claim_round (api_now w) x)) w')"
      by (cases "deletionTimestamp x")
        (simp_all add: io_simps nodeClaims.delete_no_faults nowE_def claim_step,
         simp add: claim_round_def)
  qed (use assms in \<open>auto simp: claim_round_def split: option.splits if_splits dest: rounds_keys\<close>)
  with assms show ?thesis
    by (simp add: deleteNodeClaims_def io_simps nodeClaims.list_no_faults Let_def
        cong: option.case_cong)
qed

lemma cleanup_no_faults:
  assumes "api_faults w = []" "distinct (map obj_key (w_nodePools w))"
    "distinct (map obj_key (w_nodeClaims w))"
  shows "cleanupKarpenterResources w =
    (if w_nodePools w \<noteq> []
     then (Inr False, w\<lparr>w_nodePools := concat (map (pool_round (api_now w)) (w_nodePools w))\<rparr>)
     else (Inr (w_nodeClaims w = []),
           w\<lparr>w_nodeClaims := concat (map (claim_round (api_now w)) (w_nodeClaims w))\<rparr>))"
  using assms
  by (simp add: cleanupKarpenterResources_def io_simps deleteNodePools_no_faults deleteNodeClaims_no_faults)

text \<open>A whole reconcile of the only HostedControlPlane of the namespace, when no call fails.\<close>

definition released_hcp :: "hosted_control_plane \<Rightarrow> hosted_control_plane" where
  "released_hcp hcp = (RemoveFinalizer karpenterFinalizer hcp)\<lparr>resourceVersion := Suc (resourceVersion hcp)\<rparr>"

lemma released_keep:
  "(k_keepStatus HCPs hcp (finalizer_patch (RemoveFinalizer karpenterFinalizer hcp) hcp))
     \<lparr>resourceVersion := Suc (resourceVersion hcp)\<rparr> = released_hcp hcp"
  by (simp add: HCPs_def finalizer_patch_def released_hcp_def RemoveFinalizer_def)

lemma finalizer_patch_frame [simp]:
  "deletionTimestamp (finalizer_patch c o') = deletionTimestamp o'"
  "obj_key (finalizer_patch c o') = obj_key o'"
  by (simp_all add: finalizer_patch_def)

lemma Reconcile_deleting_no_faults:
  assumes w: "api_faults w = []" "distinct (map obj_key (w_nodePools w))"
      "distinct (map obj_key (w_nodeClaims w))"
    and hcp: "filter (\<lambda>o'. namespace o' = ns) (w_hcps w) = [hcp]" "deletionTimestamp hcp \<noteq> None"
    and fin: "ContainsFinalizer hcp karpenterFinalizer"
  shows "deletion_Reconcile ns w =
    (if w_nodePools w \<noteq> [] then
       (Inr (Result0\<lparr>requeueAfter := karpenterDeletionRequeueInterval\<rparr>),
        w\<lparr>w_nodePools := concat (map (pool_round (api_now w)) (w_nodePools w))\<rparr>)
     else if w_nodeClaims w \<noteq> [] then
       (Inr (Result0\<lparr>requeueAfter := karpenterDeletionRequeueInterval\<rparr>),
        w\<lparr>w_nodeClaims := concat (map (claim_round (api_now w)) (w_nodeClaims w))\<rparr>)
     else (Inr Result0, w\<lparr>w_hcps := replace_obj (obj_key hcp) (committed_round (released_hcp hcp)) (w_hcps w)\<rparr>))"
proof -
  have same: "w\<lparr>w_nodeClaims := []\<rparr> = w" if "w_nodeClaims w = []"
    using that by (cases w) simp
  have rv: "cl_patch HCPs True hcp (finalizer_patch (RemoveFinalizer karpenterFinalizer hcp)) w =
      (Inr (released_hcp hcp), w\<lparr>w_hcps := replace_obj (obj_key hcp) (committed_round (released_hcp hcp)) (w_hcps w)\<rparr>)"
    using hcps.patch_no_faults [of w hcp hcp True "finalizer_patch (RemoveFinalizer karpenterFinalizer hcp)", OF _ _ _ _ _ refl]
      find_unique_namespace [OF hcp(1)] w
    by (simp add: released_keep replace_obj_def)
  show ?thesis
    using w hcp fin
    by (auto simp: deletion_Reconcile_def io_simps GetHostedControlPlane_no_faults
        IsClusterDeleting_no_faults reconcileDeletion_def cleanup_no_faults Let_def same rv)
qed

section \<open>Progress\<close>

text \<open>
  Karpenter's side of a round: it terminates the instances of what is being deleted and lets
  the objects go.
\<close>

definition karpenter_finalizes :: "world \<Rightarrow> world" where
  "karpenter_finalizes w =
     w\<lparr>w_nodePools := filter (\<lambda>p. deletionTimestamp p = None) (w_nodePools w),
       w_nodeClaims := filter (\<lambda>c. deletionTimestamp c = None) (w_nodeClaims w)\<rparr>"

definition deletion_cycle :: "string \<Rightarrow> world \<Rightarrow> world" where
  "deletion_cycle ns w = karpenter_finalizes (snd (deletion_Reconcile ns w))"

definition deletion_pending :: "string \<Rightarrow> hosted_control_plane \<Rightarrow> world \<Rightarrow> bool" where
  "deletion_pending ns hcp w \<longleftrightarrow>
     api_faults w = [] \<and> distinct (map obj_key (w_nodePools w)) \<and> distinct (map obj_key (w_nodeClaims w)) \<and>
     filter (\<lambda>o'. namespace o' = ns) (w_hcps w) = [hcp] \<and> deletionTimestamp hcp \<noteq> None \<and>
     ContainsFinalizer hcp karpenterFinalizer"

definition deletion_done :: "string \<Rightarrow> world \<Rightarrow> bool" where
  "deletion_done ns w \<longleftrightarrow>
     api_faults w = [] \<and> drained w \<and>
     (case filter (\<lambda>o'. namespace o' = ns) (w_hcps w) of
        [] \<Rightarrow> True
      | [h] \<Rightarrow> deletionTimestamp h \<noteq> None \<and> \<not> ContainsFinalizer h karpenterFinalizer
      | _ \<Rightarrow> False)"

lemma pool_round_deleted: "p \<in> set (pool_round now q) \<Longrightarrow> deletionTimestamp p \<noteq> None"
  by (cases "deletionTimestamp q")
    (auto simp: pool_round_def deleted_round_def marked_def split: if_splits)

lemma claim_round_deleted: "c \<in> set (claim_round now d) \<Longrightarrow> deletionTimestamp c \<noteq> None"
  by (cases "deletionTimestamp d")
    (auto simp: claim_round_def deleted_round_def marked_def committed_round_def terminated_def split: if_splits)

lemma cycle_pools:
  assumes "deletion_pending ns hcp w" "w_nodePools w \<noteq> []"
  shows "deletion_pending ns hcp (deletion_cycle ns w)" and "w_nodePools (deletion_cycle ns w) = []"
proof -
  have run: "deletion_cycle ns w =
      karpenter_finalizes (w\<lparr>w_nodePools := concat (map (pool_round (api_now w)) (w_nodePools w))\<rparr>)"
    using assms by (simp add: deletion_cycle_def deletion_pending_def Reconcile_deleting_no_faults)
  show "w_nodePools (deletion_cycle ns w) = []"
    by (auto simp: run karpenter_finalizes_def filter_empty_conv dest: pool_round_deleted)
  then show "deletion_pending ns hcp (deletion_cycle ns w)"
    using assms by (simp add: run deletion_pending_def karpenter_finalizes_def distinct_map_filter)
qed

lemma cycle_claims:
  assumes "deletion_pending ns hcp w" "w_nodePools w = []" "w_nodeClaims w \<noteq> []"
  shows "deletion_pending ns hcp (deletion_cycle ns w) \<and> drained (deletion_cycle ns w)"
proof -
  have run: "deletion_cycle ns w =
      karpenter_finalizes (w\<lparr>w_nodeClaims := concat (map (claim_round (api_now w)) (w_nodeClaims w))\<rparr>)"
    using assms by (simp add: deletion_cycle_def deletion_pending_def Reconcile_deleting_no_faults)
  have "w_nodeClaims (deletion_cycle ns w) = []"
    by (auto simp: run karpenter_finalizes_def filter_empty_conv dest: claim_round_deleted)
  then show ?thesis
    using assms by (simp add: run deletion_pending_def drained_def karpenter_finalizes_def)
qed

lemma cycle_drained:
  assumes "deletion_pending ns hcp w" "drained w"
  shows "deletion_done ns (deletion_cycle ns w)"
proof -
  have run: "deletion_cycle ns w =
      karpenter_finalizes (w\<lparr>w_hcps := replace_obj (obj_key hcp) (committed_round (released_hcp hcp)) (w_hcps w)\<rparr>)"
    using assms by (simp add: deletion_cycle_def deletion_pending_def drained_def Reconcile_deleting_no_faults)
  have unique: "filter (\<lambda>o'. namespace o' = ns) (w_hcps w) = [hcp]"
    using assms by (simp add: deletion_pending_def)
  then have "hcp \<in> set (filter (\<lambda>o'. namespace o' = ns) (w_hcps w))"
    by simp
  then have "namespace hcp = ns" by simp
  then have "filter (\<lambda>o'. namespace o' = ns)
      (replace_obj (obj_key hcp) (committed_round (released_hcp hcp)) (w_hcps w)) = committed_round (released_hcp hcp)"
    by (intro filter_replace unique)
      (auto simp: committed_round_def released_hcp_def split: if_splits)
  with assms show ?thesis
    by (auto simp: run deletion_done_def deletion_pending_def karpenter_finalizes_def drained_def
        committed_round_def released_hcp_def ContainsFinalizer_def RemoveFinalizer_def)
qed

lemma cycle_done:
  assumes "deletion_done ns w"
  shows "deletion_done ns (deletion_cycle ns w)"
proof -
  have "snd (deletion_Reconcile ns w) = w"
    using assms
    by (auto simp: deletion_done_def deletion_Reconcile_def io_simps GetHostedControlPlane_no_faults
        IsClusterDeleting_no_faults reconcileDeletion_def split: list.splits)
  with assms show ?thesis
    by (simp add: deletion_cycle_def deletion_done_def karpenter_finalizes_def drained_def)
qed

lemma deletion_pending_cycles:
  assumes "deletion_pending ns hcp w"
  shows "deletion_done ns ((deletion_cycle ns ^^ 3) w)"
proof -
  have drained: "deletion_done ns ((deletion_cycle ns ^^ Suc n) v)"
    if "deletion_pending ns hcp v" "drained v" for v n
  proof (induction n)
    case 0
    show ?case using cycle_drained [OF that] by simp
  next
    case (Suc n)
    then show ?case using cycle_done by simp
  qed
  have claims: "deletion_done ns (deletion_cycle ns (deletion_cycle ns v))"
    if "deletion_pending ns hcp v" "w_nodePools v = []" for v
  proof (cases "w_nodeClaims v = []")
    case True
    with that drained [of v 1] show ?thesis by (simp add: drained_def)
  next
    case False
    with that have "deletion_pending ns hcp (deletion_cycle ns v)" "drained (deletion_cycle ns v)"
      using cycle_claims by blast+
    then show ?thesis using cycle_drained by blast
  qed
  show ?thesis
  proof (cases "w_nodePools w = []")
    case True
    with claims [OF assms] cycle_done show ?thesis by (simp add: numeral_3_eq_3)
  next
    case False
    with cycle_pools [OF assms] claims show ?thesis by (simp add: numeral_3_eq_3)
  qed
qed

lemma deletion_done_unprotected:
  assumes "deletion_done ns w" "fst key = ns"
  shows "drained w \<and> \<not> hcp_protected key w"
proof -
  have "\<not> hcp_protected key w"
  proof
    assume "hcp_protected key w"
    then obtain h where h: "h \<in> set (w_hcps w)" "obj_key h = key" "ContainsFinalizer h karpenterFinalizer"
      by (auto simp: hcp_protected_def dest: find_obj_Some)
    with assms(2) have "h \<in> set (filter (\<lambda>o'. namespace o' = ns) (w_hcps w))"
      by (auto simp: obj_key_def)
    with assms(1) h(3) show False
      by (auto simp: deletion_done_def simp del: set_filter split: list.splits)
  qed
  with assms show ?thesis by (simp add: deletion_done_def)
qed

text \<open>NodeClaims wait for NodePools: with a NodePool left, no reconcile touches a NodeClaim.\<close>

lemma deleteNodePools_claims: "keeps (\<lambda>w. w_nodeClaims w = C) deleteNodePools"
  unfolding deleteNodePools_def
  by (intro hoare_intros nodePools.frame keeps_if; simp)

lemma cleanup_claims:
  assumes "w_nodePools w \<noteq> []"
  shows "w_nodeClaims (snd (cleanupKarpenterResources w)) = w_nodeClaims w"
proof -
  obtain r w1 where pools: "deleteNodePools w = (r, w1)"
    by fastforce
  then have "w_nodeClaims w1 = w_nodeClaims w"
    using keepsD [OF deleteNodePools_claims [of "w_nodeClaims w"], of w] by simp
  moreover have "r \<noteq> Inr True"
    using deleteNodePools_True pools assms by blast
  ultimately show ?thesis
    using pools by (auto simp: cleanupKarpenterResources_def io_simps split: sum.splits)
qed

lemma hcps_patch_claims: "keeps (\<lambda>w. w_nodeClaims w = C) (cl_patch HCPs lock orig body)"
  by (intro hcps.frame) simp_all

lemma reconcileDeletion_claims:
  assumes "w_nodePools w \<noteq> []"
  shows "w_nodeClaims (snd (reconcileDeletion hcp w)) = w_nodeClaims w"
proof -
  obtain r w1 where clean: "cleanupKarpenterResources w = (r, w1)"
    by fastforce
  with cleanup_claims [OF assms] have "w_nodeClaims w1 = w_nodeClaims w"
    by simp
  moreover have "r \<noteq> Inr True"
    using cleanup_True clean assms by blast
  ultimately show ?thesis
    using clean by (auto simp: reconcileDeletion_def io_simps split: sum.splits)
qed

lemma Reconcile_claims:
  assumes "w_nodePools w \<noteq> []"
  shows "w_nodeClaims (snd (deletion_Reconcile ns w)) = w_nodeClaims w"
proof (cases rule: GetHostedControlPlane_cases [of ns w])
  case (failed e fs)
  then show ?thesis by (simp add: deletion_Reconcile_def io_simps)
next
  case (found hcp fs)
  obtain r w1 where del: "IsClusterDeleting hcp (w\<lparr>api_faults := fs\<rparr>) = (r, w1)"
    by fastforce
  obtain fs1 where w1: "w1 = w\<lparr>api_faults := fs1\<rparr>"
    using IsClusterDeleting_frame [of hcp "w\<lparr>api_faults := fs\<rparr>"] del by auto
  show ?thesis
    using found del w1 reconcileDeletion_claims [of w1 hcp] assms
      keepsD [OF hcps_patch_claims [of "w_nodeClaims w" True hcp "finalizer_patch (AddFinalizer karpenterFinalizer hcp)"], of w1]
    by (auto simp: deletion_Reconcile_def io_simps Let_def split: sum.splits prod.splits)
qed

text \<open>A live cluster gets the finalizer.\<close>

definition adopted_hcp :: "hosted_control_plane \<Rightarrow> hosted_control_plane" where
  "adopted_hcp hcp = (AddFinalizer karpenterFinalizer hcp)\<lparr>resourceVersion := Suc (resourceVersion hcp)\<rparr>"

lemma adopted_keep:
  "\<not> ContainsFinalizer hcp karpenterFinalizer \<Longrightarrow>
   (k_keepStatus HCPs hcp (finalizer_patch (AddFinalizer karpenterFinalizer hcp) hcp))
     \<lparr>resourceVersion := Suc (resourceVersion hcp)\<rparr> = adopted_hcp hcp"
  by (simp add: HCPs_def finalizer_patch_def adopted_hcp_def AddFinalizer_def ContainsFinalizer_def)

lemma adopted_round: "deletionTimestamp hcp = None \<Longrightarrow> committed_round (adopted_hcp hcp) = [adopted_hcp hcp]"
  by (simp add: committed_round_def adopted_hcp_def AddFinalizer_def)

lemma Reconcile_live_no_faults:
  assumes w: "api_faults w = []"
    and hcp: "filter (\<lambda>o'. namespace o' = ns) (w_hcps w) = [hcp]" "deletionTimestamp hcp = None"
    and live: "\<And>c. hcp_infraID hcp \<noteq> [] \<Longrightarrow> find_obj (namespace hcp, hcp_infraID hcp) (w_capiClusters w) = Some c
      \<Longrightarrow> time_is_zero (deletionTimestamp c)"
    and fin: "\<not> ContainsFinalizer hcp karpenterFinalizer"
  shows "deletion_Reconcile ns w =
    (Inr Result0, w\<lparr>w_hcps := replace_obj (obj_key hcp) [adopted_hcp hcp] (w_hcps w)\<rparr>)"
proof -
  have "cl_patch HCPs True hcp (finalizer_patch (AddFinalizer karpenterFinalizer hcp)) w =
      (Inr (adopted_hcp hcp), w\<lparr>w_hcps := replace_obj (obj_key hcp) (committed_round (adopted_hcp hcp)) (w_hcps w)\<rparr>)"
    using hcps.patch_no_faults [of w hcp hcp True "finalizer_patch (AddFinalizer karpenterFinalizer hcp)", OF _ _ _ _ _ refl]
      find_unique_namespace [OF hcp(1)] w
    by (simp add: adopted_keep [OF fin] replace_obj_def)
  with assms show ?thesis
    by (auto simp: deletion_Reconcile_def io_simps GetHostedControlPlane_no_faults
        IsClusterDeleting_no_faults Let_def adopted_round)
qed

section \<open>The controller among the others\<close>

text \<open>
  One step of the system around the controller: a reconcile with whatever answers the API
  servers give, or a step of somebody else. HyperShift and the users may create, delete and
  write HostedControlPlanes as long as they leave the finalizer alone; the hosted cluster and
  the CAPI Clusters change freely.
\<close>

inductive deletion_step :: "string \<Rightarrow> world \<Rightarrow> world \<Rightarrow> bool" for ns where
  reconcile: "deletion_step ns w (snd (deletion_Reconcile ns w))"
| answers: "deletion_step ns w (w\<lparr>api_faults := fs\<rparr>)"
| clock: "deletion_step ns w (w\<lparr>api_now := t\<rparr>)"
| hcp_deleted: "deletion_step ns w (w\<lparr>w_hcps := delete_obj (api_now w) key (w_hcps w)\<rparr>)"
| hcp_created: "find_obj (obj_key new) (w_hcps w) = None \<Longrightarrow> deletion_step ns w (w\<lparr>w_hcps := w_hcps w @ [new]\<rparr>)"
| hcp_written: "find_obj (obj_key new) (w_hcps w) = Some old \<Longrightarrow>
    (ContainsFinalizer old karpenterFinalizer \<Longrightarrow> ContainsFinalizer new karpenterFinalizer) \<Longrightarrow>
    deletion_step ns w (w\<lparr>w_hcps := commit_obj new (w_hcps w)\<rparr>)"
| hosted_cluster: "deletion_step ns w (w\<lparr>w_nodePools := ps, w_nodeClaims := cs\<rparr>)"
| capi_cluster: "deletion_step ns w (w\<lparr>w_capiClusters := cls\<rparr>)"

lemma hcp_deleted_protected:
  assumes "hcp_protected key w"
  shows "hcp_protected key (w\<lparr>w_hcps := delete_obj now key' (w_hcps w)\<rparr>)"
proof (cases "find_obj key' (w_hcps w)")
  case None
  with assms show ?thesis by (simp add: hcp_protected_def delete_obj_def)
next
  case (Some old)
  with assms show ?thesis
    by (auto simp: hcp_protected_def delete_obj_def ContainsFinalizer_def dest: find_obj_Some)
qed

lemma hcp_written_protected:
  assumes "find_obj (obj_key new) (w_hcps w) = Some old"
    and "ContainsFinalizer old karpenterFinalizer \<Longrightarrow> ContainsFinalizer new karpenterFinalizer"
    and "hcp_protected key w"
  shows "hcp_protected key (w\<lparr>w_hcps := commit_obj new (w_hcps w)\<rparr>)"
proof (cases "key = obj_key new")
  case True
  with assms have "ContainsFinalizer new karpenterFinalizer"
    by (auto simp: hcp_protected_def)
  with True assms(1) show ?thesis
    by (auto simp: hcp_protected_def find_commit_obj ContainsFinalizer_def)
next
  case False
  with assms(3) show ?thesis by (simp add: hcp_protected_def find_commit_obj)
qed

text \<open>Only a reconcile of the drained cluster takes the protection away.\<close>

lemma deletion_step_protected:
  assumes "deletion_step ns w w'" "hcp_protected key w" "\<not> hcp_protected key w'"
  shows "drained w \<and> hcp_deleting key w"
  using assms
proof (cases rule: deletion_step.cases)
  case reconcile
  with assms show ?thesis using deletion_Reconcile_protected by blast
next
  case (hcp_deleted key')
  with assms hcp_deleted_protected show ?thesis by blast
next
  case (hcp_created new)
  with assms show ?thesis
    by (auto simp: hcp_protected_def find_obj_append)
next
  case (hcp_written new old)
  with assms hcp_written_protected show ?thesis by blast
qed (use assms in \<open>simp_all add: hcp_protected_def\<close>)

section \<open>Properties\<close>

text \<open>A namespace with one HostedControlPlane that is being deleted, used to instantiate them.\<close>

definition demo_hcp :: hosted_control_plane where
  "demo_hcp = object_meta.extend
     (zero_object_meta\<lparr>namespace := ''clusters-a'', name := ''a'', resourceVersion := 7,
        deletionTimestamp := Some (At 100), finalizers := [karpenterFinalizer]\<rparr>)
     \<lparr>hcp_infraID = ''a-x7f2p'', hcp_pullSecretName = ''pull-secret'',
      hcp_autoNode = \<lparr>an_provisioner = ProvisionerKarpenter, an_karpenter = []\<rparr>, hcp_awsPlatform = None,
      hcp_controlPlaneVersion = \<lparr>cpv_desired = \<lparr>rel_architecture = [], rel_version = [], rel_image = [],
        rel_url = [], rel_channels = []\<rparr>, cpv_history = [], cpv_observedGeneration = 1\<rparr>,
      hcp_autoNodeStatus = \<lparr>ans_nodeCount = None, ans_nodeClaimCount = None, ans_vcpus = None\<rparr>\<rparr>"

definition demo_pool :: node_pool where
  "demo_pool = zero_object_meta\<lparr>name := ''default'', resourceVersion := 3, finalizers := [''karpenter.sh/termination'']\<rparr>"

definition demo_claim :: node_claim where
  "demo_claim = object_meta.extend
     (zero_object_meta\<lparr>name := ''default-8xk2p'', resourceVersion := 4, finalizers := [''karpenter.sh/termination'']\<rparr>)
     \<lparr>nc_providerID = ''aws:///us-east-1a/i-0123'', nc_nodeName = ''ip-10-0-0-1'', nc_cpu = Some (4 * nano)\<rparr>"

definition demo_world :: world where
  "demo_world = empty_world\<lparr>w_hcps := [demo_hcp], w_nodePools := [demo_pool], w_nodeClaims := [demo_claim]\<rparr>"

lemma demo_hcp_simps [simp]:
  "namespace demo_hcp = ''clusters-a''" "name demo_hcp = ''a''" "deletionTimestamp demo_hcp = Some (At 100)"
  "finalizers demo_hcp = [karpenterFinalizer]" "obj_key demo_hcp = (''clusters-a'', ''a'')"
  by (simp_all add: demo_hcp_def object_meta.defs obj_key_def zero_object_meta_def)

lemma demo_pending: "deletion_pending ''clusters-a'' demo_hcp demo_world"
  by (simp add: deletion_pending_def demo_world_def empty_world_def ContainsFinalizer_def)


definition demo_drained :: world where
  "demo_drained = demo_world\<lparr>w_nodePools := [], w_nodeClaims := []\<rparr>"

lemma demo_drained_released:
  "deletion_Reconcile ''clusters-a'' demo_drained = (Inr Result0, demo_drained\<lparr>w_hcps := []\<rparr>)"
proof -
  have "deletion_Reconcile ''clusters-a'' demo_drained =
      (Inr Result0, demo_drained\<lparr>w_hcps := replace_obj (obj_key demo_hcp) (committed_round (released_hcp demo_hcp)) (w_hcps demo_drained)\<rparr>)"
    using demo_pending
    by (subst Reconcile_deleting_no_faults [of _ _ demo_hcp])
      (simp_all add: deletion_pending_def demo_drained_def)
  moreover have "committed_round (released_hcp demo_hcp) = []"
    by (simp add: committed_round_def released_hcp_def RemoveFinalizer_def)
  ultimately show ?thesis
    by (simp add: demo_drained_def demo_world_def empty_world_def replace_obj_def)
qed


text \<open>
  C4: when no call fails and Karpenter lets go of what is being deleted, three rounds drain the
  hosted cluster and take the finalizer off the HostedControlPlane.
\<close>

theorem deletion_completes:
  assumes "deletion_pending ns hcp w"
  shows "drained ((deletion_cycle ns ^^ 3) w) \<and> \<not> hcp_protected (obj_key hcp) ((deletion_cycle ns ^^ 3) w)"
proof -
  have "deletion_done ns ((deletion_cycle ns ^^ 3) w)"
    using deletion_pending_cycles [OF assms] .
  moreover from assms have "fst (obj_key hcp) = ns"
    using filter_namespace [of ns "w_hcps w" hcp] by (simp add: deletion_pending_def obj_key_def)
  ultimately show ?thesis
    using deletion_done_unprotected by simp
qed

theorem deletion_completes_witness:
  "drained ((deletion_cycle ''clusters-a'' ^^ 3) demo_world) \<and>
   \<not> hcp_protected (''clusters-a'', ''a'') ((deletion_cycle ''clusters-a'' ^^ 3) demo_world)"
  using deletion_completes [OF demo_pending] by simp



text \<open>
  NodeClaims wait for NodePools. A reconcile of a hosted cluster that still has a NodePool
  leaves all NodeClaims as they are, whatever the API servers answer.
\<close>

theorem claims_wait_for_pools:
  assumes "w_nodePools w \<noteq> []"
  shows "w_nodeClaims (snd (deletion_Reconcile ns w)) = w_nodeClaims w"
  using assms by (rule Reconcile_claims)

theorem claims_wait_for_pools_witness:
  "w_nodeClaims (snd (deletion_Reconcile ''clusters-a'' demo_world)) = [demo_claim]"
  using claims_wait_for_pools [of demo_world "''clusters-a''"] by (simp add: demo_world_def empty_world_def)

text \<open>
  A HostedControlPlane that is not being deleted, and whose CAPI Cluster is absent or not
  being deleted, gets the finalizer; nothing else of it changes but its resource version.
\<close>

theorem live_hcp_adopted:
  assumes "api_faults w = []"
    and "filter (\<lambda>o'. namespace o' = ns) (w_hcps w) = [hcp]" "deletionTimestamp hcp = None"
    and "\<And>c. hcp_infraID hcp \<noteq> [] \<Longrightarrow> find_obj (namespace hcp, hcp_infraID hcp) (w_capiClusters w) = Some c
      \<Longrightarrow> time_is_zero (deletionTimestamp c)"
    and "\<not> ContainsFinalizer hcp karpenterFinalizer"
  shows "deletion_Reconcile ns w =
    (Inr Result0, w\<lparr>w_hcps := replace_obj (obj_key hcp) [adopted_hcp hcp] (w_hcps w)\<rparr>)"
  using assms by (rule Reconcile_live_no_faults)

definition demo_live :: world where
  "demo_live = empty_world\<lparr>w_hcps := [demo_hcp\<lparr>deletionTimestamp := None, finalizers := []\<rparr>]\<rparr>"

theorem live_hcp_adopted_witness:
  "deletion_Reconcile ''clusters-a'' demo_live =
    (Inr Result0, demo_live\<lparr>w_hcps := [adopted_hcp (demo_hcp\<lparr>deletionTimestamp := None, finalizers := []\<rparr>)]\<rparr>)"
  using live_hcp_adopted [of demo_live "''clusters-a''" "demo_hcp\<lparr>deletionTimestamp := None, finalizers := []\<rparr>"]
  by (simp add: demo_live_def empty_world_def ContainsFinalizer_def replace_obj_def)

end
