(* ===== verification/Autonode_Status.thy ===== *)
theory Autonode_Status
  imports Hypershift
begin

text \<open>
  \<open>pkg/controllers/hcp/autonodestatus\<close>: the counts of Karpenter Nodes, NodeClaims and vCPUs
  that the controller reports in the status of the HostedControlPlane, and the predicates that
  decide which events make it count again.
\<close>

section \<open>Predicates\<close>

definition NodePoolLabelKey :: string where
  "NodePoolLabelKey = ''karpenter.sh/nodepool''"

text \<open>Reading an absent resource of a capacity gives the zero quantity.\<close>

definition cpu_or_zero :: "node_claim \<Rightarrow> quantity" where
  "cpu_or_zero c = (case nc_cpu c of None \<Rightarrow> 0 | Some q \<Rightarrow> q)"

definition nodeClaimPredicate :: "node_claim watch_event \<Rightarrow> bool" where
  "nodeClaimPredicate ev =
     (case ev of
        CreateEvent c \<Rightarrow> True
      | DeleteEvent c \<Rightarrow> True
      | UpdateEvent old new \<Rightarrow>
          if cpu_or_zero old \<noteq> cpu_or_zero new then True else nc_nodeName old \<noteq> nc_nodeName new
      | GenericEvent c \<Rightarrow> False)"

definition has_nodepool_label :: "'a object_meta_scheme \<Rightarrow> bool" where
  "has_nodepool_label n \<longleftrightarrow> sm_lookup (labels n) NodePoolLabelKey \<noteq> None"

definition countChangePredicate :: "node watch_event \<Rightarrow> bool" where
  "countChangePredicate ev =
     (case ev of
        CreateEvent n \<Rightarrow> True
      | DeleteEvent n \<Rightarrow> True
      | UpdateEvent old new \<Rightarrow> has_nodepool_label old \<noteq> has_nodepool_label new
      | GenericEvent n \<Rightarrow> False)"

section \<open>Counting\<close>

text \<open>The loop over the Nodes: their names, and the 32-bit count of Karpenter's.\<close>

fun count_nodes :: "node list \<Rightarrow> string set \<times> int32 \<Rightarrow> string set \<times> int32" where
  "count_nodes [] (liveNodes, n) = (liveNodes, n)"
| "count_nodes (node # nodes) (liveNodes, n) =
     count_nodes nodes (insert (name node) liveNodes, if has_nodepool_label node then n + 1 else n)"

fun sum_vcpus :: "node_claim list \<Rightarrow> string set \<Rightarrow> int64 \<Rightarrow> int64" where
  "sum_vcpus [] liveNodes acc = acc"
| "sum_vcpus (nc # ncs) liveNodes acc =
     (if nc_nodeName nc \<notin> liveNodes then sum_vcpus ncs liveNodes acc
      else case nc_cpu nc of
        Some cpu \<Rightarrow> sum_vcpus ncs liveNodes (acc + quantity_value cpu)
      | None \<Rightarrow> sum_vcpus ncs liveNodes acc)"

definition sumNodeClaimVCPUs :: "node_claim list \<Rightarrow> string set \<Rightarrow> int32" where
  "sumNodeClaimVCPUs nodeClaims liveNodes = ucast (sum_vcpus nodeClaims liveNodes 0)"

definition desired_status :: "node list \<Rightarrow> node_claim list \<Rightarrow> auto_node_status" where
  "desired_status nodes claims =
     (case count_nodes nodes ({}, 0) of
        (liveNodes, karpenterNodeCount) \<Rightarrow>
          \<lparr>ans_nodeCount = Some karpenterNodeCount,
           ans_nodeClaimCount = Some (word_of_int (int (length claims))),
           ans_vcpus = Some (sumNodeClaimVCPUs claims liveNodes)\<rparr>)"

section \<open>The controller\<close>

definition reconcileAutoNodeStatus :: "hosted_control_plane \<Rightarrow> (world, unit) io" where
  "reconcileAutoNodeStatus hcp =
     bindE (wrapE ''listing nodes: %w'' [] (cl_list Nodes (\<lambda>_. True))) (\<lambda>nodes.
     bindE (wrapE ''listing NodeClaims: %w'' [] (cl_list NodeClaims (\<lambda>_. True))) (\<lambda>nodeClaims.
     let desired = desired_status nodes nodeClaims in
     if hcp_autoNodeStatus hcp = desired then ret ()
     else bindE (wrapE ''applying AutoNode status: %w'' []
                   (cl_status_patch HCPs False hcp (\<lambda>o'. o'\<lparr>hcp_autoNodeStatus := desired\<rparr>))) (\<lambda>_.
          ret ())))"

definition autonode_Reconcile :: "string \<Rightarrow> (world, ctrl_result) io" where
  "autonode_Reconcile ns =
     handleE (GetHostedControlPlane ns)
       (\<lambda>err. if errors_is err ErrHostedControlPlaneNotFound then ret Result0 else raise err)
       (\<lambda>hcp.
          bindE (wrapE ''reconciling AutoNode status: %w'' [] (reconcileAutoNodeStatus hcp)) (\<lambda>_.
          ret Result0))"

section \<open>The counts\<close>

lemma count_nodes_eq:
  "count_nodes nodes (live, n) =
     (live \<union> name ` set nodes, n + word_of_int (int (length (filter has_nodepool_label nodes))))"
  by (induction nodes arbitrary: live n) auto

text \<open>The cores a NodeClaim brings: its CPU quantity rounded up.\<close>

definition cores :: "node_claim \<Rightarrow> int" where
  "cores c = (let q = cpu_or_zero c in
     if 0 \<le> q then (q + nano - 1) div nano else - ((- q + nano - 1) div nano))"

definition live_cores :: "node list \<Rightarrow> node_claim list \<Rightarrow> int" where
  "live_cores nodes claims =
     (\<Sum>c\<leftarrow>filter (\<lambda>c. nc_nodeName c \<in> name ` set nodes) claims. cores c)"

lemma sum_vcpus_eq:
  "sum_vcpus claims live acc =
     acc + word_of_int (\<Sum>c\<leftarrow>filter (\<lambda>c. nc_nodeName c \<in> live) claims. cores c)"
  by (induction claims arbitrary: acc)
    (simp_all add: cores_def cpu_or_zero_def quantity_value_def nano_def split: option.split)

lemma ucast_of_int: "(ucast (word_of_int n :: int64) :: int32) = word_of_int n"
  by (rule bit_word_eqI) (simp add: bit_unsigned_iff bit_word_of_int_iff)

lemma desired_status_eq:
  "desired_status nodes claims =
     \<lparr>ans_nodeCount = Some (word_of_int (int (length (filter has_nodepool_label nodes)))),
      ans_nodeClaimCount = Some (word_of_int (int (length claims))),
      ans_vcpus = Some (word_of_int (live_cores nodes claims))\<rparr>"
  by (simp add: desired_status_def count_nodes_eq sumNodeClaimVCPUs_def sum_vcpus_eq live_cores_def
      ucast_of_int)

section \<open>A reconcile\<close>

definition reported_hcp :: "auto_node_status \<Rightarrow> hosted_control_plane \<Rightarrow> hosted_control_plane" where
  "reported_hcp s hcp = hcp\<lparr>hcp_autoNodeStatus := s, resourceVersion := Suc (resourceVersion hcp)\<rparr>"

lemma reported_simps [simp]:
  "obj_key (reported_hcp s hcp) = obj_key hcp" "namespace (reported_hcp s hcp) = namespace hcp"
  "hcp_autoNodeStatus (reported_hcp s hcp) = s"
  by (simp_all add: reported_hcp_def obj_key_def)

lemma reported_keep:
  "(k_keepStatus HCPs (hcp\<lparr>hcp_autoNodeStatus := s\<rparr>) hcp)\<lparr>resourceVersion := Suc (resourceVersion hcp)\<rparr> =
     reported_hcp s hcp"
  by (simp add: HCPs_def reported_hcp_def)

lemma autonode_Reconcile_no_faults:
  assumes "api_faults w = []" "filter (\<lambda>o'. namespace o' = ns) (w_hcps w) = [hcp]"
  shows "autonode_Reconcile ns w =
    (Inr Result0,
     if hcp_autoNodeStatus hcp = desired_status (w_nodes w) (w_nodeClaims w) then w
     else w\<lparr>w_hcps := replace_obj (obj_key hcp)
              [reported_hcp (desired_status (w_nodes w) (w_nodeClaims w)) hcp] (w_hcps w)\<rparr>)"
proof -
  let ?d = "desired_status (w_nodes w) (w_nodeClaims w)"
  have "cl_status_patch HCPs False hcp (\<lambda>o'. o'\<lparr>hcp_autoNodeStatus := ?d\<rparr>) w =
      (Inr (reported_hcp ?d hcp), w\<lparr>w_hcps := replace_obj (obj_key hcp) [reported_hcp ?d hcp] (w_hcps w)\<rparr>)"
    using hcps.status_patch_no_faults [where w = w and orig = hcp and old = hcp and lock = False
        and body = "\<lambda>o'. o'\<lparr>hcp_autoNodeStatus := ?d\<rparr>", OF _ _ _ refl]
      find_unique_namespace [OF assms(2)] assms(1)
    by (simp add: reported_keep replace_obj_def)
  with assms show ?thesis
    by (simp add: autonode_Reconcile_def reconcileAutoNodeStatus_def io_simps GetHostedControlPlane_no_faults
        nodes.list_no_faults nodeClaims.list_no_faults Let_def)
qed

section \<open>Properties\<close>

definition demo_reporting :: world where
  "demo_reporting = empty_world\<lparr>
     w_hcps := [object_meta.extend
       (zero_object_meta\<lparr>namespace := ''clusters-a'', name := ''a'', resourceVersion := 7\<rparr>)
       \<lparr>hcp_infraID = ''a-x7f2p'', hcp_pullSecretName = ''pull-secret'',
        hcp_autoNode = \<lparr>an_provisioner = ProvisionerKarpenter, an_karpenter = []\<rparr>, hcp_awsPlatform = None,
        hcp_controlPlaneVersion = \<lparr>cpv_desired = \<lparr>rel_architecture = [], rel_version = [], rel_image = [],
          rel_url = [], rel_channels = []\<rparr>, cpv_history = [], cpv_observedGeneration = 1\<rparr>,
        hcp_autoNodeStatus = \<lparr>ans_nodeCount = None, ans_nodeClaimCount = None, ans_vcpus = None\<rparr>\<rparr>],
     w_nodes := [zero_object_meta\<lparr>name := ''n1'', labels := Some (fmap_of_list [(NodePoolLabelKey, ''p'')])\<rparr>,
                 zero_object_meta\<lparr>name := ''n2''\<rparr>],
     w_nodeClaims := [object_meta.extend (zero_object_meta\<lparr>name := ''c1''\<rparr>)
       \<lparr>nc_providerID = [], nc_nodeName = ''n1'', nc_cpu = Some 3500000000\<rparr>,
       object_meta.extend (zero_object_meta\<lparr>name := ''c2''\<rparr>)
       \<lparr>nc_providerID = [], nc_nodeName = ''gone'', nc_cpu = Some 8000000000\<rparr>]\<rparr>"

lemma demo_reporting_hcp:
  "api_faults demo_reporting = []"
  "filter (\<lambda>o'. namespace o' = ''clusters-a'') (w_hcps demo_reporting) = [hd (w_hcps demo_reporting)]"
  by (simp_all add: demo_reporting_def empty_world_def object_meta.defs zero_object_meta_def)

text \<open>
  C36: when no call fails, a reconcile leaves the status of the HostedControlPlane with the number
  of Nodes that carry the NodePool label, the number of NodeClaims, and the cores of the
  NodeClaims whose Node exists, each modulo 2^32, and changes nothing else.
\<close>

theorem autonode_status_reported:
  assumes "api_faults w = []" "filter (\<lambda>o'. namespace o' = ns) (w_hcps w) = [hcp]"
    and "s = \<lparr>ans_nodeCount = Some (word_of_int (int (length (filter has_nodepool_label (w_nodes w))))),
              ans_nodeClaimCount = Some (word_of_int (int (length (w_nodeClaims w)))),
              ans_vcpus = Some (word_of_int (live_cores (w_nodes w) (w_nodeClaims w)))\<rparr>"
  shows "autonode_Reconcile ns w =
    (Inr Result0,
     if hcp_autoNodeStatus hcp = s then w
     else w\<lparr>w_hcps := replace_obj (obj_key hcp) [reported_hcp s hcp] (w_hcps w)\<rparr>)"
  using autonode_Reconcile_no_faults [OF assms(1,2)] by (simp add: desired_status_eq assms(3))

theorem autonode_status_reported_witness:
  "map hcp_autoNodeStatus (w_hcps (snd (autonode_Reconcile ''clusters-a'' demo_reporting))) =
     [\<lparr>ans_nodeCount = Some 1, ans_nodeClaimCount = Some 2, ans_vcpus = Some 4\<rparr>]"
  using autonode_status_reported [OF demo_reporting_hcp refl]
  by (simp add: demo_reporting_def empty_world_def object_meta.defs zero_object_meta_def replace_obj_def
      live_cores_def cores_def cpu_or_zero_def nano_def has_nodepool_label_def obj_key_def)

text \<open>
  Within the range of a signed 32-bit integer the reported vCPUs and NodeClaims are the exact
  numbers; a fractional CPU quantity counts as the next whole core.
\<close>

theorem vcpus_exact:
  assumes "0 \<le> live_cores nodes claims" "live_cores nodes claims < 2 ^ 31" "length claims < 2 ^ 31"
  shows "map_option sint (ans_vcpus (desired_status nodes claims)) = Some (live_cores nodes claims) \<and>
    map_option sint (ans_nodeClaimCount (desired_status nodes claims)) = Some (int (length claims))"
  using assms sint_of_int_32 [of "int (length claims)"] by (simp add: desired_status_eq sint_of_int_32)

theorem vcpus_exact_witness:
  "map_option sint (ans_vcpus (desired_status (w_nodes demo_reporting) (w_nodeClaims demo_reporting))) = Some 4"
  using vcpus_exact [of "w_nodes demo_reporting" "w_nodeClaims demo_reporting"]
  by (simp add: demo_reporting_def empty_world_def object_meta.defs zero_object_meta_def
      live_cores_def cores_def cpu_or_zero_def nano_def)

text \<open>
  The status converges: right after a reconcile, another one changes nothing.
\<close>

theorem autonode_status_stable:
  assumes "api_faults w = []" "filter (\<lambda>o'. namespace o' = ns) (w_hcps w) = [hcp]"
  shows "autonode_Reconcile ns (snd (autonode_Reconcile ns w)) = (Inr Result0, snd (autonode_Reconcile ns w))"
proof -
  let ?d = "desired_status (w_nodes w) (w_nodeClaims w)"
  have "filter (\<lambda>o'. namespace o' = ns) (replace_obj (obj_key hcp) [reported_hcp ?d hcp] (w_hcps w)) =
      [reported_hcp ?d hcp]"
    using filter_namespace [OF assms(2)] by (intro filter_replace assms(2)) simp
  with assms show ?thesis
    by (simp add: autonode_Reconcile_no_faults [OF assms]
        autonode_Reconcile_no_faults [of _ ns "reported_hcp ?d hcp"] autonode_Reconcile_no_faults [of _ ns hcp])
qed

theorem autonode_status_stable_witness:
  "autonode_Reconcile ''clusters-a'' (snd (autonode_Reconcile ''clusters-a'' demo_reporting)) =
     (Inr Result0, snd (autonode_Reconcile ''clusters-a'' demo_reporting))"
  using autonode_status_stable [OF demo_reporting_hcp] .

text \<open>
  The predicates lose no change. An update of a NodeClaim or of a Node that they reject
  leaves the desired status as it was; creations and deletions always pass.
\<close>

theorem predicates_complete:
  assumes "\<not> nodeClaimPredicate (UpdateEvent c c')"
    and "\<not> countChangePredicate (UpdateEvent n n')" "name n' = name n"
  shows "desired_status (ns1 @ n' # ns2) (cs1 @ c' # cs2) = desired_status (ns1 @ n # ns2) (cs1 @ c # cs2)"
  using assms
  by (simp add: desired_status_eq live_cores_def nodeClaimPredicate_def countChangePredicate_def cores_def
      split: if_splits)

theorem predicates_complete_witness:
  "let n = zero_object_meta\<lparr>name := ''n1''\<rparr>;
       c = hd (w_nodeClaims demo_reporting)
   in desired_status [n\<lparr>resourceVersion := 2\<rparr>] [c\<lparr>resourceVersion := 9\<rparr>] = desired_status [n] [c]"
  using predicates_complete [of "hd (w_nodeClaims demo_reporting)" "(hd (w_nodeClaims demo_reporting))\<lparr>resourceVersion := 9\<rparr>"
      "zero_object_meta\<lparr>name := ''n1''\<rparr>" "zero_object_meta\<lparr>name := ''n1'', resourceVersion := 2\<rparr>" "[]" "[]" "[]" "[]"]
  by (simp add: nodeClaimPredicate_def countChangePredicate_def cpu_or_zero_def has_nodepool_label_def)

end
