(* ===== verification/Aws_Verifier.thy ===== *)
theory Aws_Verifier
  imports Hypershift
begin

text \<open>
  The contract of \<open>common.NodeIdentityVerifier\<close> and its AWS implementation
  (\<open>pkg/cloudprovider/aws/node_identity_verifier.go\<close>), which looks the node name up among the
  private DNS names of the EC2 instances of the NodeClaims. The EC2 API is the argument
  \<open>describe\<close>: the reservations that DescribeInstances returns for a list of instance IDs, or an
  error.
\<close>

section \<open>The contract\<close>

text \<open>
  \<open>evidence\<close> is what a positive answer rests on: a fact about the node name and the NodeClaims
  that were asked about.
\<close>

locale node_identity_verifier =
  fixes verify :: "string \<Rightarrow> node_claim list \<Rightarrow> error + bool"
    and evidence :: "string \<Rightarrow> node_claim list \<Rightarrow> bool"
  assumes verify_sound: "verify nodeName claims = Inr True \<Longrightarrow> evidence nodeName claims"
    and evidence_claim: "evidence nodeName claims \<Longrightarrow> claims \<noteq> []"
    and evidence_mono: "evidence nodeName claims \<Longrightarrow> set claims \<subseteq> set claims' \<Longrightarrow> evidence nodeName claims'"
begin

lemma verify_claim: "verify nodeName claims = Inr True \<Longrightarrow> claims \<noteq> []"
  using verify_sound evidence_claim by blast

lemma verify_among: "verify nodeName claims = Inr True \<Longrightarrow> set claims \<subseteq> set claims' \<Longrightarrow> evidence nodeName claims'"
  using verify_sound evidence_mono by blast

end

section \<open>EC2 instances\<close>

record ec2_instance =
  inst_id :: string
  inst_privateDnsName :: "string option"

type_synonym describe_instances = "string list \<Rightarrow> error + ec2_instance list list"

definition maxInstanceIDsPerDescribeCall :: nat where
  "maxInstanceIDsPerDescribeCall = 1000"

text \<open>\<open>awssdk.ToString\<close>\<close>

definition to_string :: "string option \<Rightarrow> string" where
  "to_string p = (case p of None \<Rightarrow> [] | Some s \<Rightarrow> s)"

text \<open>The ID and \<open>ok\<close> as an option\<close>

definition ec2InstanceID :: "string \<Rightarrow> string option" where
  "ec2InstanceID providerID =
     (case last_index providerID CHR ''/'' of
        None \<Rightarrow> None
      | Some separator \<Rightarrow>
          if separator = length providerID - 1 then None
          else Some (drop (separator + 1) providerID))"

definition matchesPrivateDNSName :: "describe_instances \<Rightarrow> string list \<Rightarrow> string \<Rightarrow> error + bool" where
  "matchesPrivateDNSName describe instanceIDs nodeName =
     (case describe instanceIDs of
        Inl e \<Rightarrow> Inl e
      | Inr reservations \<Rightarrow>
          Inr (list_ex (\<lambda>instances. list_ex (\<lambda>i. to_string (inst_privateDnsName i) = nodeName) instances)
                 reservations))"

text \<open>\<open>slices.Chunk\<close>\<close>

function chunk :: "nat \<Rightarrow> 'a list \<Rightarrow> 'a list list" where
  "chunk n xs = (if xs = [] \<or> n = 0 then [] else take n xs # chunk n (drop n xs))"
  by pat_completeness auto
termination by (relation "measure (\<lambda>(n, xs). length xs)") auto

declare chunk.simps [simp del]

fun verify_batches :: "describe_instances \<Rightarrow> string \<Rightarrow> string list list \<Rightarrow> error + bool" where
  "verify_batches describe nodeName [] = Inr False"
| "verify_batches describe nodeName (batch # batches) =
     (case matchesPrivateDNSName describe batch nodeName of
        Inl e \<Rightarrow> Inl e
      | Inr found \<Rightarrow> if found then Inr True else verify_batches describe nodeName batches)"

definition instance_ids :: "node_claim list \<Rightarrow> string list" where
  "instance_ids nodeClaims = List.map_filter (\<lambda>claim. ec2InstanceID (nc_providerID claim)) nodeClaims"

definition Verify :: "describe_instances \<Rightarrow> string \<Rightarrow> node_claim list \<Rightarrow> error + bool" where
  "Verify describe nodeName nodeClaims =
     verify_batches describe nodeName (chunk maxInstanceIDsPerDescribeCall (instance_ids nodeClaims))"

section \<open>Batches\<close>

lemma chunk_concat: "n \<noteq> 0 \<Longrightarrow> concat (chunk n xs) = xs"
proof (induction n xs rule: chunk.induct)
  case (1 n xs)
  then show ?case by (cases "xs = []") (simp_all add: chunk.simps [of n xs] chunk.simps [of n "[]"])
qed

lemma chunk_bounds: "batch \<in> set (chunk n xs) \<Longrightarrow> batch \<noteq> [] \<and> length batch \<le> n"
proof (induction n xs rule: chunk.induct)
  case (1 n xs)
  then show ?case
    by (cases "xs = [] \<or> n = 0") (auto simp: chunk.simps [of n xs])
qed

lemma verify_batches_True:
  "verify_batches describe nodeName batches = Inr True \<Longrightarrow>
   \<exists>batch\<in>set batches. matchesPrivateDNSName describe batch nodeName = Inr True"
  by (induction batches) (auto split: sum.splits if_splits)

lemma verify_batches_total:
  "(\<And>batch. batch \<in> set batches \<Longrightarrow> matchesPrivateDNSName describe batch nodeName = Inr (f batch)) \<Longrightarrow>
   verify_batches describe nodeName batches = Inr (\<exists>batch\<in>set batches. f batch)"
  by (induction batches) auto

lemma set_instance_ids: "set (instance_ids claims) = {i. \<exists>c\<in>set claims. ec2InstanceID (nc_providerID c) = Some i}"
  by (auto simp: instance_ids_def List.map_filter_def image_iff) force

section \<open>Instance IDs\<close>

lemma ec2InstanceID_Some:
  "ec2InstanceID p = Some i \<Longrightarrow> i \<noteq> [] \<and> CHR ''/'' \<notin> set i \<and> (\<exists>pre. p = pre @ ''/'' @ i)"
  by (auto simp: ec2InstanceID_def split: option.splits if_splits dest!: last_index_Some)
    (metis Suc_eq_plus1 append_Cons append_Nil id_take_nth_drop)

lemma ec2InstanceID_append:
  "i \<noteq> [] \<Longrightarrow> CHR ''/'' \<notin> set i \<Longrightarrow> ec2InstanceID (pre @ ''/'' @ i) = Some i"
  by (cases i) (simp_all add: ec2InstanceID_def last_index_append)

section \<open>The AWS verifier keeps the contract\<close>

definition aws_evidence :: "describe_instances \<Rightarrow> string \<Rightarrow> node_claim list \<Rightarrow> bool" where
  "aws_evidence describe nodeName claims \<longleftrightarrow>
     (\<exists>ids reservations i.
        ids \<noteq> [] \<and> (\<forall>id\<in>set ids. \<exists>c\<in>set claims. ec2InstanceID (nc_providerID c) = Some id) \<and>
        length ids \<le> maxInstanceIDsPerDescribeCall \<and>
        describe ids = Inr reservations \<and> i \<in> set (concat reservations) \<and>
        to_string (inst_privateDnsName i) = nodeName)"

lemma matches_True:
  "matchesPrivateDNSName describe batch nodeName = Inr True \<Longrightarrow>
   \<exists>reservations i. describe batch = Inr reservations \<and> i \<in> set (concat reservations) \<and>
     to_string (inst_privateDnsName i) = nodeName"
  by (auto simp: matchesPrivateDNSName_def list_ex_iff split: sum.splits)

lemma Verify_evidence:
  assumes "Verify describe nodeName claims = Inr True"
  shows "aws_evidence describe nodeName claims"
proof -
  from assms obtain batch where batch: "batch \<in> set (chunk maxInstanceIDsPerDescribeCall (instance_ids claims))"
    "matchesPrivateDNSName describe batch nodeName = Inr True"
    unfolding Verify_def by (blast dest: verify_batches_True)
  have "set batch \<subseteq> set (concat (chunk maxInstanceIDsPerDescribeCall (instance_ids claims)))"
    using batch(1) by auto
  then have "set batch \<subseteq> set (instance_ids claims)"
    by (simp add: chunk_concat maxInstanceIDsPerDescribeCall_def)
  with batch chunk_bounds [OF batch(1)] matches_True [OF batch(2)] show ?thesis
    unfolding aws_evidence_def set_instance_ids by blast
qed

interpretation aws: node_identity_verifier "Verify describe" "aws_evidence describe" for describe
proof
  fix nodeName claims
  assume "Verify describe nodeName claims = Inr True"
  then show "aws_evidence describe nodeName claims" by (rule Verify_evidence)
next
  fix nodeName claims
  assume "aws_evidence describe nodeName claims"
  then show "claims \<noteq> []" unfolding aws_evidence_def by fastforce
next
  fix nodeName claims claims'
  assume "aws_evidence describe nodeName claims" "set claims \<subseteq> set claims'"
  then show "aws_evidence describe nodeName claims'" unfolding aws_evidence_def by blast
qed

section \<open>Properties\<close>

text \<open>
  An account whose instances answer DescribeInstances: every requested instance that exists is
  returned, and no other one.
\<close>

definition fleet_describe :: "ec2_instance list \<Rightarrow> describe_instances" where
  "fleet_describe fleet ids = Inr [filter (\<lambda>i. inst_id i \<in> set ids) fleet]"

lemma matches_fleet:
  "matchesPrivateDNSName (fleet_describe fleet) ids nodeName =
     Inr (\<exists>i\<in>set fleet. inst_id i \<in> set ids \<and> to_string (inst_privateDnsName i) = nodeName)"
  by (auto simp: matchesPrivateDNSName_def fleet_describe_def list_ex_iff)


text \<open>
  No DescribeInstances call asks for more than a thousand instances or for none: an answer
  that looks at the list it is given only when it is of such a length gives the same result.
\<close>

theorem Verify_batch_limit:
  "Verify describe nodeName claims =
   Verify (\<lambda>ids. if ids \<noteq> [] \<and> length ids \<le> 1000 then describe ids else Inl e) nodeName claims"
proof -
  have "verify_batches describe nodeName batches =
      verify_batches (\<lambda>ids. if ids \<noteq> [] \<and> length ids \<le> 1000 then describe ids else Inl e) nodeName batches"
    if "\<And>b. b \<in> set batches \<Longrightarrow> b \<noteq> [] \<and> length b \<le> 1000" for batches
    using that by (induction batches) (auto simp: matchesPrivateDNSName_def split: sum.split)
  then show ?thesis
    unfolding Verify_def using chunk_bounds [of _ maxInstanceIDsPerDescribeCall "instance_ids claims"]
    by (simp add: maxInstanceIDsPerDescribeCall_def)
qed

text \<open>
  An instance ID is what follows the last slash of a provider ID, and is never empty.
\<close>

theorem ec2InstanceID_iff:
  "ec2InstanceID p = Some i \<longleftrightarrow> i \<noteq> [] \<and> CHR ''/'' \<notin> set i \<and> (\<exists>pre. p = pre @ ''/'' @ i)"
  using ec2InstanceID_Some ec2InstanceID_append by blast

end
