(* ===== verification/Machine_Approver.thy ===== *)
theory Machine_Approver
  imports Aws_Verifier
begin

text \<open>
  \<open>pkg/controllers/machineapprover\<close>: which certificate signing requests of the hosted cluster
  the operator looks at and which it approves. PEM and X.509 decoding are the arguments \<open>pem\<close>
  (block type and bytes of the first block) and \<open>x509\<close> (the subject's common name, or an error);
  the node identity verifier of the platform is the argument \<open>verify\<close>.
\<close>

section \<open>The controller\<close>

definition controllerName :: string where
  "controllerName = ''karpenter-machine-approver''"

definition nodeBootstrapperUsername :: string where
  "nodeBootstrapperUsername = ''system:serviceaccount:openshift-machine-config-operator:node-bootstrapper''"

definition nodeGroup :: string where
  "nodeGroup = ''system:nodes''"

definition KubeAPIServerClientKubeletSignerName :: string where
  "KubeAPIServerClientKubeletSignerName = ''kubernetes.io/kube-apiserver-client-kubelet''"

definition KubeletServingSignerName :: string where
  "KubeletServingSignerName = ''kubernetes.io/kubelet-serving''"

definition CertificateApproved :: string where
  "CertificateApproved = ''Approved''"

definition CertificateDenied :: string where
  "CertificateDenied = ''Denied''"

fun no_decision :: "csr_condition list \<Rightarrow> bool" where
  "no_decision [] = True"
| "no_decision (condition # conditions) =
     (if csrc_type condition = CertificateApproved \<or> csrc_type condition = CertificateDenied then False
      else no_decision conditions)"

definition isCertificateRequestPending :: "csr \<Rightarrow> bool" where
  "isCertificateRequestPending csr = no_decision (csr_conditions csr)"

definition csrFilterFn :: "csr \<Rightarrow> bool" where
  "csrFilterFn csr =
     (if \<not> isCertificateRequestPending csr then False
      else if csr_signerName csr = KubeAPIServerClientKubeletSignerName
        then csr_username csr = nodeBootstrapperUsername
      else if csr_signerName csr = KubeletServingSignerName then nodeGroup \<in> set (csr_groups csr)
      else False)"

definition parseCSR ::
  "(string \<Rightarrow> (string \<times> string) option) \<Rightarrow> (string \<Rightarrow> error + string) \<Rightarrow> string \<Rightarrow> error + string" where
  "parseCSR pem x509 pemBytes =
     (case pem pemBytes of
        None \<Rightarrow> Inl (Errorf ''PEM block type must be CERTIFICATE REQUEST'' [])
      | Some (type, bytes) \<Rightarrow>
          if type \<noteq> ''CERTIFICATE REQUEST''
          then Inl (Errorf ''PEM block type must be CERTIFICATE REQUEST'' [])
          else x509 bytes)"

definition listNodeClaims :: "(world, node_claim list) io" where
  "listNodeClaims = wrapE ''listing NodeClaims: %w'' [] (cl_list NodeClaims (\<lambda>_. True))"

definition findTargetNodeClaim :: "string \<Rightarrow> (world, node_claim option) io" where
  "findTargetNodeClaim nodeName =
     bindE listNodeClaims (\<lambda>claims. ret (find (\<lambda>c. nc_nodeName c = nodeName) claims))"

type_synonym verifier = "string \<Rightarrow> node_claim list \<Rightarrow> error + bool"
type_synonym pem_decoder = "string \<Rightarrow> (string \<times> string) option"
type_synonym x509_parser = "string \<Rightarrow> error + string"

definition authorizeClientCSR :: "verifier \<Rightarrow> pem_decoder \<Rightarrow> x509_parser \<Rightarrow> csr \<Rightarrow> (world, bool) io" where
  "authorizeClientCSR verify pem x509 csr =
     bindE (liftE (parseCSR pem x509 (csr_request csr))) (\<lambda>commonName.
     let nodeName = trim_prefix commonName ''system:node:'' in
     if nodeName = [] then raise (Errorf ''subject common name does not have a valid node name'' [])
     else bindE listNodeClaims (\<lambda>nodeClaims.
       let filteredNodeClaims = filter (\<lambda>c. nc_nodeName c = []) nodeClaims in
       if filteredNodeClaims = [] then ret False
       else liftE (verify nodeName filteredNodeClaims)))"

definition authorizeServingCSR :: "verifier \<Rightarrow> csr \<Rightarrow> (world, bool) io" where
  "authorizeServingCSR verify csr =
     (let nodeName = trim_prefix (csr_username csr) ''system:node:'' in
      if nodeName = [] then raise (Errorf ''csr username does not have a valid node name'' [])
      else bindE (findTargetNodeClaim nodeName) (\<lambda>nodeClaim.
        case nodeClaim of
          None \<Rightarrow> ret False
        | Some c \<Rightarrow> liftE (verify nodeName [c])))"

definition authorize :: "verifier \<Rightarrow> pem_decoder \<Rightarrow> x509_parser \<Rightarrow> csr \<Rightarrow> (world, bool) io" where
  "authorize verify pem x509 csr =
     (if csr_signerName csr = KubeAPIServerClientKubeletSignerName then authorizeClientCSR verify pem x509 csr
      else if csr_signerName csr = KubeletServingSignerName then authorizeServingCSR verify csr
      else raise (Errorf ''unrecognized signerName %s'' [AStr (csr_signerName csr)]))"

definition approval :: csr_condition where
  "approval = \<lparr>csrc_type = CertificateApproved, csrc_status = ''True'', csrc_reason = ''KarpenterCSRApprove'',
     csrc_message = ''Auto approved by '' @ controllerName\<rparr>"

text \<open>The approval subresource writes the conditions, under the resource version the caller read.\<close>

definition approve :: "csr \<Rightarrow> (world, unit) io" where
  "approve csr =
     (let conditions = csr_conditions csr @ [approval] in
      bindE (wrapE ''updating csr approval: %w'' []
               (cl_status_patch CSRs True csr (\<lambda>o'. o'\<lparr>csr_conditions := conditions\<rparr>))) (\<lambda>_.
      ret ()))"

definition approver_Reconcile :: "verifier \<Rightarrow> pem_decoder \<Rightarrow> x509_parser \<Rightarrow> object_key \<Rightarrow> (world, ctrl_result) io" where
  "approver_Reconcile verify pem x509 req =
     handleE (cl_get CSRs req)
       (\<lambda>err. if is_not_found err then ret Result0 else raise (Wrap ''getting csr: %w'' [] err))
       (\<lambda>csr.
          if \<not> time_is_zero (deletionTimestamp csr) then ret Result0
          else if \<not> isCertificateRequestPending csr then ret Result0
          else bindE (authorize verify pem x509 csr) (\<lambda>authorized.
            if authorized then
              bindE (wrapE ''approving csr: %w'' [] (approve csr)) (\<lambda>_. ret Result0)
            else ret Result0))"

section \<open>Decisions\<close>

definition csr_approved :: "csr \<Rightarrow> bool" where
  "csr_approved csr \<longleftrightarrow> (\<exists>c\<in>set (csr_conditions csr). csrc_type c = CertificateApproved)"

lemma no_decision_iff:
  "no_decision cs \<longleftrightarrow> (\<forall>c\<in>set cs. csrc_type c \<noteq> CertificateApproved \<and> csrc_type c \<noteq> CertificateDenied)"
  by (induction cs) auto

lemma pending_not_approved: "isCertificateRequestPending csr \<Longrightarrow> \<not> csr_approved csr"
  by (simp add: isCertificateRequestPending_def csr_approved_def no_decision_iff)

text \<open>The node name a request asks a certificate for, and the NodeClaims that can vouch for it.\<close>

definition requested_node :: "pem_decoder \<Rightarrow> x509_parser \<Rightarrow> csr \<Rightarrow> error + string" where
  "requested_node pem x509 csr =
     (if csr_signerName csr = KubeAPIServerClientKubeletSignerName then
        (case parseCSR pem x509 (csr_request csr) of
           Inl e \<Rightarrow> Inl e
         | Inr cn \<Rightarrow>
             if trim_prefix cn ''system:node:'' = []
             then Inl (Errorf ''subject common name does not have a valid node name'' [])
             else Inr (trim_prefix cn ''system:node:''))
      else if csr_signerName csr = KubeletServingSignerName then
        (if trim_prefix (csr_username csr) ''system:node:'' = []
         then Inl (Errorf ''csr username does not have a valid node name'' [])
         else Inr (trim_prefix (csr_username csr) ''system:node:''))
      else Inl (Errorf ''unrecognized signerName %s'' [AStr (csr_signerName csr)]))"

definition vouching_claims :: "csr \<Rightarrow> string \<Rightarrow> node_claim list \<Rightarrow> node_claim list" where
  "vouching_claims csr nodeName claims =
     (if csr_signerName csr = KubeAPIServerClientKubeletSignerName
      then filter (\<lambda>c. nc_nodeName c = []) claims
      else (case find (\<lambda>c. nc_nodeName c = nodeName) claims of None \<Rightarrow> [] | Some c \<Rightarrow> [c]))"

text \<open>What \<open>authorize\<close> answers for given NodeClaims.\<close>

definition authorization :: "verifier \<Rightarrow> pem_decoder \<Rightarrow> x509_parser \<Rightarrow> csr \<Rightarrow> node_claim list \<Rightarrow> error + bool" where
  "authorization verify pem x509 csr claims =
     (case requested_node pem x509 csr of
        Inl e \<Rightarrow> Inl e
      | Inr nodeName \<Rightarrow>
          (case vouching_claims csr nodeName claims of
             [] \<Rightarrow> Inr False
           | c # cs \<Rightarrow> verify nodeName (c # cs)))"

lemma signer_names_distinct [simp]: "KubeletServingSignerName \<noteq> KubeAPIServerClientKubeletSignerName"
  by (simp add: KubeletServingSignerName_def KubeAPIServerClientKubeletSignerName_def)

lemma authorize_no_faults:
  "api_faults w = [] \<Longrightarrow>
   authorize verify pem x509 csr w = (authorization verify pem x509 csr (w_nodeClaims w), w)"
  by (auto simp: authorize_def authorizeClientCSR_def authorizeServingCSR_def findTargetNodeClaim_def
      listNodeClaims_def io_simps authorization_def requested_node_def vouching_claims_def
      nodeClaims.list_no_faults Let_def split: sum.split option.split list.split)

lemma listNodeClaims_cases:
  obtains (failed) e fs where "listNodeClaims w = (Inl e, w\<lparr>api_faults := fs\<rparr>)"
  | (listed) fs where "listNodeClaims w = (Inr (w_nodeClaims w), w\<lparr>api_faults := fs\<rparr>)"
  by (cases rule: cl_list_cases [of NodeClaims "\<lambda>_. True" w])
    (auto simp: listNodeClaims_def io_simps intro: failed listed)

text \<open>Whatever the answers of the API, authorizing reads only; it can only err on the safe side.\<close>

lemma authorize_cases:
  obtains (failed) e fs where "authorize verify pem x509 csr w = (Inl e, w\<lparr>api_faults := fs\<rparr>)"
  | (decided) fs where
      "authorize verify pem x509 csr w = (authorization verify pem x509 csr (w_nodeClaims w), w\<lparr>api_faults := fs\<rparr>)"
proof (cases rule: listNodeClaims_cases [of w])
  case (failed e fs)
  have "\<exists>e fs. authorize verify pem x509 csr w = (Inl e, w\<lparr>api_faults := fs\<rparr>)"
    by (auto simp: authorize_def authorizeClientCSR_def authorizeServingCSR_def findTargetNodeClaim_def
        io_simps failed Let_def intro: exI [of _ "api_faults w"] split: sum.split)
  then show ?thesis using that(1) by blast
next
  case (listed fs)
  have "\<exists>fs. authorize verify pem x509 csr w =
      (authorization verify pem x509 csr (w_nodeClaims w), w\<lparr>api_faults := fs\<rparr>)"
    by (auto simp: authorize_def authorizeClientCSR_def authorizeServingCSR_def findTargetNodeClaim_def
        io_simps listed authorization_def requested_node_def vouching_claims_def Let_def
        intro: exI [of _ "api_faults w"] exI [of _ fs] split: sum.split option.split list.split)
  then show ?thesis using that(2) by blast
qed

section \<open>How a reconcile can end\<close>

definition approved_csr :: "csr \<Rightarrow> csr" where
  "approved_csr c = c\<lparr>csr_conditions := csr_conditions c @ [approval], resourceVersion := Suc (resourceVersion c)\<rparr>"

lemma approved_csr_simps [simp]:
  "obj_key (approved_csr c) = obj_key c" "csr_approved (approved_csr c)"
  "\<not> isCertificateRequestPending (approved_csr c)"
  "deletionTimestamp (approved_csr c) = deletionTimestamp c"
  by (simp_all add: approved_csr_def obj_key_def csr_approved_def approval_def
      isCertificateRequestPending_def no_decision_iff)

lemma approved_keep:
  "(k_keepStatus CSRs (c\<lparr>csr_conditions := csr_conditions c @ [approval]\<rparr>) c)\<lparr>resourceVersion := Suc (resourceVersion c)\<rparr>
     = approved_csr c"
  by (simp add: CSRs_def approved_csr_def)

lemma approve_cases:
  assumes "find_obj (obj_key c) (w_csrs w) = Some c"
  obtains (failed) e fs where "approve c w = (Inl e, w\<lparr>api_faults := fs\<rparr>)"
  | (written) fs where "approve c w = (Inr (), w\<lparr>api_faults := fs, w_csrs := put_obj (approved_csr c) (w_csrs w)\<rparr>)"
proof (cases rule: csrs.status_patch_cases [of True c "\<lambda>o'. o'\<lparr>csr_conditions := csr_conditions c @ [approval]\<rparr>" w])
  case (failed e fs)
  then show ?thesis by (intro that(1) [of _ fs]) (simp add: approve_def io_simps)
next
  case (patched old new fs)
  with assms have "new = approved_csr c"
    by (simp add: approved_keep)
  with patched show ?thesis
    by (intro that(2) [of fs]) (simp add: approve_def io_simps)
qed

lemma approver_cases:
  obtains (same) r fs where "approver_Reconcile verify pem x509 req w = (r, w\<lparr>api_faults := fs\<rparr>)"
  | (approved) c fs where "find_obj req (w_csrs w) = Some c" "obj_key c = req" "isCertificateRequestPending c"
      "time_is_zero (deletionTimestamp c)" "authorization verify pem x509 c (w_nodeClaims w) = Inr True"
      "approver_Reconcile verify pem x509 req w =
         (Inr Result0, w\<lparr>api_faults := fs, w_csrs := put_obj (approved_csr c) (w_csrs w)\<rparr>)"
proof (cases rule: cl_get_cases [of CSRs req w])
  case (fault e fs)
  then show ?thesis by (cases "is_not_found (ApiErr e)") (auto simp: approver_Reconcile_def io_simps intro: same)
next
  case (missing fs)
  then show ?thesis by (intro same [of _ fs]) (simp add: approver_Reconcile_def io_simps)
next
  case (found c fs)
  then have c: "find_obj req (w_csrs w) = Some c" "obj_key c = req"
    by (auto dest: find_obj_Some)
  show ?thesis
  proof (cases "time_is_zero (deletionTimestamp c) \<and> isCertificateRequestPending c")
    case False
    with found show ?thesis by (intro same [of _ fs]) (auto simp: approver_Reconcile_def io_simps)
  next
    case True
    let ?w = "w\<lparr>api_faults := fs\<rparr>"
    show ?thesis
    proof (cases rule: authorize_cases [of verify pem x509 c ?w])
      case (failed e fs')
      with found True show ?thesis
        by (intro same [of "Inl e" fs']) (simp add: approver_Reconcile_def io_simps)
    next
      case (decided fs')
      show ?thesis
      proof (cases "authorization verify pem x509 c (w_nodeClaims w) = Inr True")
        case False
        with decided found True show ?thesis
          by (cases "authorization verify pem x509 c (w_nodeClaims w)")
            (auto simp: approver_Reconcile_def io_simps intro: same)
      next
        case yes: True
        have key: "find_obj (obj_key c) (w_csrs (w\<lparr>api_faults := fs'\<rparr>)) = Some c"
          using c by simp
        show ?thesis
          by (cases rule: approve_cases [OF key])
            (use decided found True yes c in \<open>auto simp: approver_Reconcile_def io_simps intro: same approved\<close>)
      qed
    qed
  qed
qed

lemma approver_new_approval:
  assumes "find_obj key (w_csrs w) = Some c" "\<not> csr_approved c"
    and "find_obj key (w_csrs (snd (approver_Reconcile verify pem x509 req w))) = Some c'" "csr_approved c'"
  shows "key = req \<and> isCertificateRequestPending c \<and> time_is_zero (deletionTimestamp c) \<and>
    authorization verify pem x509 c (w_nodeClaims w) = Inr True"
  by (cases rule: approver_cases [of verify pem x509 req w])
    (use assms in \<open>auto dest: find_obj_Some split: if_splits\<close>)

context node_identity_verifier
begin

text \<open>An approval rests on evidence about the node name the certificate is for.\<close>

lemma authorization_evidence:
  assumes "authorization verify pem x509 c claims = Inr True"
  shows "\<exists>nodeName. requested_node pem x509 c = Inr nodeName \<and> evidence nodeName (vouching_claims c nodeName claims)"
  using assms verify_sound by (auto simp: authorization_def split: sum.splits list.splits)

end

section \<open>Properties\<close>

text \<open>
  C3: on AWS, whatever the API servers answer, a request gains an approval in a reconcile only
  if it is the reconciled one, is pending and not being deleted, comes from one of the two
  kubelet signers, and EC2 reports an instance of one of the NodeClaims that may vouch for it
  whose private DNS name is the node name it is for: a NodeClaim without a Node for a client
  certificate, the NodeClaim of the Node for a serving certificate.
\<close>

theorem approval_needs_instance:
  assumes "find_obj key (w_csrs w) = Some c" "\<not> csr_approved c"
    and "find_obj key (w_csrs (snd (approver_Reconcile (Verify describe) pem x509 req w))) = Some c'" "csr_approved c'"
  shows "key = req \<and> isCertificateRequestPending c \<and> time_is_zero (deletionTimestamp c) \<and>
    csr_signerName c \<in> {KubeAPIServerClientKubeletSignerName, KubeletServingSignerName} \<and>
    (\<exists>nodeName. requested_node pem x509 c = Inr nodeName \<and> nodeName \<noteq> [] \<and>
       aws_evidence describe nodeName (vouching_claims c nodeName (w_nodeClaims w)))"
proof -
  note auth = approver_new_approval [OF assms]
  then obtain nodeName where "requested_node pem x509 c = Inr nodeName"
      "aws_evidence describe nodeName (vouching_claims c nodeName (w_nodeClaims w))"
    using aws.authorization_evidence by blast
  moreover from this(1) have "nodeName \<noteq> []"
      "csr_signerName c \<in> {KubeAPIServerClientKubeletSignerName, KubeletServingSignerName}"
    by (auto simp: requested_node_def split: if_splits sum.splits)
  ultimately show ?thesis using auth by blast
qed

definition demo_csr :: csr where
  "demo_csr = object_meta.extend (zero_object_meta\<lparr>name := ''csr-1'', resourceVersion := 5\<rparr>)
     \<lparr>csr_signerName = KubeletServingSignerName, csr_username = ''system:node:ip-10-0-0-1.ec2.internal'',
      csr_groups = [nodeGroup], csr_request = ''PEM'', csr_conditions = []\<rparr>"

definition demo_csr_claim :: node_claim where
  "demo_csr_claim = object_meta.extend (zero_object_meta\<lparr>name := ''default-8xk2p''\<rparr>)
     \<lparr>nc_providerID = ''aws:///us-east-1a/i-0123'', nc_nodeName = ''ip-10-0-0-1.ec2.internal'', nc_cpu = None\<rparr>"

definition demo_approving :: world where
  "demo_approving = empty_world\<lparr>w_csrs := [demo_csr], w_nodeClaims := [demo_csr_claim]\<rparr>"

definition demo_fleet :: "ec2_instance list" where
  "demo_fleet = [\<lparr>inst_id = ''i-0123'', inst_privateDnsName = Some ''ip-10-0-0-1.ec2.internal''\<rparr>]"

lemma demo_verified:
  "Verify (fleet_describe demo_fleet) ''ip-10-0-0-1.ec2.internal'' [demo_csr_claim] = Inr True"
proof -
  have "ec2InstanceID ''aws:///us-east-1a/i-0123'' = Some ''i-0123''"
    by (simp add: ec2InstanceID_def)
  then show ?thesis
    by (simp add: Verify_def instance_ids_def List.map_filter_simps demo_csr_claim_def object_meta.defs
        chunk.simps maxInstanceIDsPerDescribeCall_def matchesPrivateDNSName_def fleet_describe_def
        demo_fleet_def to_string_def)
qed

lemma demo_approved:
  "approver_Reconcile (Verify (fleet_describe demo_fleet)) pem x509 ([], ''csr-1'') demo_approving =
     (Inr Result0, demo_approving\<lparr>w_csrs := [approved_csr demo_csr]\<rparr>)"
proof -
  have key: "find_obj ([], ''csr-1'') (w_csrs demo_approving) = Some demo_csr" "obj_key demo_csr = ([], ''csr-1'')"
    and w: "api_faults demo_approving = []" "w_nodeClaims demo_approving = [demo_csr_claim]"
    and zero: "deletionTimestamp demo_csr = None"
    by (simp_all add: demo_approving_def empty_world_def demo_csr_def object_meta.defs obj_key_def zero_object_meta_def)
  have pending: "isCertificateRequestPending demo_csr"
    by (simp add: isCertificateRequestPending_def demo_csr_def object_meta.defs)
  have "authorization (Verify (fleet_describe demo_fleet)) pem x509 demo_csr [demo_csr_claim] = Inr True"
    using demo_verified
    by (simp add: authorization_def requested_node_def vouching_claims_def demo_csr_def object_meta.defs
        trim_prefix_def has_prefix_def demo_csr_claim_def)
  moreover have "approve demo_csr demo_approving = (Inr (), demo_approving\<lparr>w_csrs := [approved_csr demo_csr]\<rparr>)"
    using key w
      csrs.status_patch_no_faults [where w = demo_approving and orig = demo_csr and old = demo_csr and lock = True
        and body = "\<lambda>o'. o'\<lparr>csr_conditions := csr_conditions demo_csr @ [approval]\<rparr>", OF _ _ _ refl]
    by (simp add: approve_def io_simps approved_keep)
      (simp add: demo_approving_def empty_world_def replace_obj_def)
  ultimately show ?thesis
    using key w pending zero
    by (simp add: approver_Reconcile_def io_simps csrs.get_no_faults authorize_no_faults)
qed

theorem approval_needs_instance_witness:
  "\<exists>nodeName. requested_node (\<lambda>_. None) (\<lambda>_. Inr []) demo_csr = Inr nodeName \<and>
     aws_evidence (fleet_describe demo_fleet) nodeName (vouching_claims demo_csr nodeName [demo_csr_claim])"
proof -
  have "find_obj ([], ''csr-1'') (w_csrs demo_approving) = Some demo_csr" "\<not> csr_approved demo_csr"
    "obj_key demo_csr = ([], ''csr-1'')" "w_nodeClaims demo_approving = [demo_csr_claim]"
    by (simp_all add: demo_approving_def empty_world_def demo_csr_def object_meta.defs obj_key_def
        zero_object_meta_def csr_approved_def)
  with approval_needs_instance [of "([], ''csr-1'')" demo_approving demo_csr "fleet_describe demo_fleet" "\<lambda>_. None"
      "\<lambda>_. Inr []" "([], ''csr-1'')" "approved_csr demo_csr"]
  show ?thesis by (auto simp: demo_approved)
qed

text \<open>
  A decided request is final. A reconcile leaves every request that is approved or denied,
  and every request other than the one it is called for, exactly as it is.
\<close>

theorem decided_csr_untouched:
  assumes "find_obj key (w_csrs w) = Some c" "key \<noteq> req \<or> \<not> isCertificateRequestPending c"
  shows "find_obj key (w_csrs (snd (approver_Reconcile verify pem x509 req w))) = Some c"
  by (cases rule: approver_cases [of verify pem x509 req w]) (use assms in \<open>auto dest: find_obj_Some\<close>)

theorem decided_csr_untouched_witness:
  "find_obj ([], ''csr-1'') (w_csrs (snd (approver_Reconcile (\<lambda>_ _. Inr True) (\<lambda>_. None) (\<lambda>_. Inr []) ([], ''csr-1'')
     (demo_approving\<lparr>w_csrs := [approved_csr demo_csr]\<rparr>)))) = Some (approved_csr demo_csr)"
  by (rule decided_csr_untouched)
    (simp_all, simp add: demo_csr_def object_meta.defs obj_key_def zero_object_meta_def)

text \<open>
  C10: when no call fails, the outcome is decided by the request, the NodeClaims and the
  verifier: a missing, deleting or decided request is left alone; an authorization error is
  returned; a refused request is left pending; an authorized one gets the approval condition.
\<close>

theorem approver_outcome:
  assumes "api_faults w = []"
  shows "approver_Reconcile verify pem x509 req w =
    (case find_obj req (w_csrs w) of
       None \<Rightarrow> (Inr Result0, w)
     | Some c \<Rightarrow>
         if \<not> time_is_zero (deletionTimestamp c) \<or> \<not> isCertificateRequestPending c then (Inr Result0, w)
         else case authorization verify pem x509 c (w_nodeClaims w) of
           Inl e \<Rightarrow> (Inl e, w)
         | Inr ok \<Rightarrow> (Inr Result0, if ok then w\<lparr>w_csrs := put_obj (approved_csr c) (w_csrs w)\<rparr> else w))"
proof (cases "find_obj req (w_csrs w)")
  case None
  with assms show ?thesis by (simp add: approver_Reconcile_def io_simps csrs.get_no_faults)
next
  case (Some c)
  then have "obj_key c = req" by (auto dest: find_obj_Some)
  with Some assms have "approve c w = (Inr (), w\<lparr>w_csrs := put_obj (approved_csr c) (w_csrs w)\<rparr>)"
    using csrs.status_patch_no_faults [where w = w and orig = c and old = c and lock = True
        and body = "\<lambda>o'. o'\<lparr>csr_conditions := csr_conditions c @ [approval]\<rparr>", OF _ _ _ refl]
    by (simp add: approve_def io_simps approved_keep put_obj_replace)
  with Some assms show ?thesis
    by (auto simp: approver_Reconcile_def io_simps csrs.get_no_faults authorize_no_faults split: sum.split)
qed

theorem approver_outcome_witness:
  "approver_Reconcile (Verify (fleet_describe demo_fleet)) (\<lambda>_. None) (\<lambda>_. Inr []) ([], ''csr-2'') demo_approving =
     (Inr Result0, demo_approving)"
  using approver_outcome [of demo_approving "Verify (fleet_describe demo_fleet)" "\<lambda>_. None" "\<lambda>_. Inr []" "([], ''csr-2'')"]
  by (simp add: demo_approving_def empty_world_def demo_csr_def object_meta.defs obj_key_def zero_object_meta_def)

end
