(* ===== verification/Ec2_Tags.thy ===== *)
theory Ec2_Tags
  imports Ec2_Types
begin

text \<open>
  The AWS tags of a NodeClass (\<open>mergeEC2NodeClassTags\<close>, \<open>filterRestrictedTags\<close> and
  \<open>setAWSResourceTagConflictCondition\<close> of \<open>pkg/controllers/nodeclass/ec2/controller.go\<close>): the
  platform's tags, the NodeClass's own, what happens when both name a key, and the condition
  that reports it. A range over a map takes the entries in some order; the loops take the list of
  entries, and the results are shown not to depend on its order.
\<close>

section \<open>Restricted tags\<close>

definition is_alnum :: "char \<Rightarrow> bool" where
  "is_alnum c = (let n = (of_char c :: nat) in 48 \<le> n \<and> n \<le> 57 \<or> 65 \<le> n \<and> n \<le> 90 \<or> 97 \<le> n \<and> n \<le> 122)"

definition clusterTagPrefix :: string where
  "clusterTagPrefix = ''kubernetes.io/cluster/''"

text \<open>\<open>RestrictedTagPatterns\<close>: the anchored patterns of the AWS provider, each as its predicate\<close>

definition cluster_tag_pattern :: "string \<Rightarrow> bool" where
  "cluster_tag_pattern key \<longleftrightarrow>
     has_prefix key clusterTagPrefix \<and>
     (case drop (length clusterTagPrefix) key of
        [] \<Rightarrow> False
      | c # cs \<Rightarrow> is_alnum c \<and> list_all (\<lambda>d. is_alnum d \<or> d = CHR ''-'' \<or> d = CHR ''_'') cs)"

definition RestrictedTagPatterns :: "(string \<Rightarrow> bool) list" where
  "RestrictedTagPatterns =
     [cluster_tag_pattern,
      (\<lambda>key. key = ''karpenter.sh/nodepool''),
      (\<lambda>key. key = ''eks:eks-cluster-name''),
      (\<lambda>key. key = ''karpenter.k8s.aws/ec2nodeclass''),
      (\<lambda>key. key = ''karpenter.sh/nodeclaim'')]"

definition isRestricted :: "string \<Rightarrow> bool" where
  "isRestricted key = list_ex (\<lambda>pattern. pattern key) RestrictedTagPatterns"

type_synonym tag_map = "(string, string) fmap"

fun filter_loop :: "(string \<times> string) list \<Rightarrow> tag_map \<times> string list \<Rightarrow> tag_map \<times> string list" where
  "filter_loop [] (filteredTags, removedTags) = (filteredTags, removedTags)"
| "filter_loop ((key, v) # tags) (filteredTags, removedTags) =
     (if isRestricted key then filter_loop tags (filteredTags, removedTags @ [key])
      else filter_loop tags (fmupd key v filteredTags, removedTags))"

definition filterRestrictedTags :: "tag_map \<Rightarrow> (string \<times> string) list \<Rightarrow> tag_map \<times> string list" where
  "filterRestrictedTags tags entries = (if entries = [] then (tags, []) else filter_loop entries (fmempty, []))"

section \<open>Merging\<close>

fun platform_loop :: "aws_resource_tag list \<Rightarrow> tag_map \<times> string set \<Rightarrow> tag_map \<times> string set" where
  "platform_loop [] (tags, allowOverride) = (tags, allowOverride)"
| "platform_loop (tag # rest) (tags, allowOverride) =
     platform_loop rest
       (fmupd (rt_key tag) (rt_value tag) tags,
        if rt_overridePolicy tag = AWSResourceTagOverridePolicyAllow then insert (rt_key tag) allowOverride
        else allowOverride)"

fun nodeclass_loop :: "(string \<times> string) list \<Rightarrow> string set \<Rightarrow> tag_map \<Rightarrow> tag_map" where
  "nodeclass_loop [] allowOverride tags = tags"
| "nodeclass_loop ((k, v) # rest) allowOverride tags =
     (if fmlookup tags k \<noteq> None \<and> k \<notin> allowOverride then nodeclass_loop rest allowOverride tags
      else nodeclass_loop rest allowOverride (fmupd k v tags))"

definition platform_tags :: "hosted_control_plane \<Rightarrow> aws_resource_tag list" where
  "platform_tags hcp = (case hcp_awsPlatform hcp of None \<Rightarrow> [] | Some tags \<Rightarrow> tags)"

text \<open>The variable \<open>tags\<close> before the filter, from the entries of the NodeClass tags in some order.\<close>

definition merged_tags :: "(string \<times> string) list \<Rightarrow> aws_resource_tag list \<Rightarrow> tag_map" where
  "merged_tags entries platform =
     (case platform_loop platform (fmempty, {}) of (tags, allowOverride) \<Rightarrow> nodeclass_loop entries allowOverride tags)"

definition smap_entries :: "smap \<Rightarrow> (string \<times> string) list" where
  "smap_entries m = (case m of None \<Rightarrow> [] | Some f \<Rightarrow> sorted_list_of_fmap f)"

definition mergeEC2NodeClassTags :: "openshift_ec2_spec \<Rightarrow> hosted_control_plane \<Rightarrow> smap" where
  "mergeEC2NodeClassTags spec hcp =
     (let tags = merged_tags (smap_entries (os_tags spec)) (platform_tags hcp);
          (filteredTags, removedTags) = filterRestrictedTags tags (sorted_list_of_fmap tags)
      in if os_tags spec = None \<and> filteredTags = fmempty then None else Some filteredTags)"

section \<open>The conflict condition\<close>

definition NodePoolAWSResourceTagConflictConditionType :: string where
  "NodePoolAWSResourceTagConflictConditionType = ''AWSResourceTagConflict''"

fun conflict_loop :: "(string \<times> string) list \<Rightarrow> aws_resource_tag list \<Rightarrow> nat \<times> nat \<Rightarrow> nat \<times> nat" where
  "conflict_loop [] platform (blocked, overridden) = (blocked, overridden)"
| "conflict_loop ((k, ncVal) # rest) platform (blocked, overridden) =
     (case find (\<lambda>t. rt_key t = k) platform of
        None \<Rightarrow> conflict_loop rest platform (blocked, overridden)
      | Some hcTag \<Rightarrow>
          if rt_value hcTag = ncVal then conflict_loop rest platform (blocked, overridden)
          else if rt_overridePolicy hcTag = AWSResourceTagOverridePolicyAllow
          then conflict_loop rest platform (blocked, overridden + 1)
          else conflict_loop rest platform (blocked + 1, overridden))"

definition conflict_condition :: "int \<Rightarrow> nat \<times> nat \<Rightarrow> condition" where
  "conflict_condition gen counts =
     (case counts of (blocked, overridden) \<Rightarrow>
        if blocked = 0 then
          \<lparr>c_type = NodePoolAWSResourceTagConflictConditionType, c_status = ConditionFalse,
           c_observedGeneration = gen, c_lastTransitionTime = ZeroTime, c_reason = ''NoTagConflict'',
           c_message =
             (if overridden > 0
              then show_nat overridden @ '' AWS resource tag override(s) applied; nodeclass values used (allowed by HostedCluster)''
              else ''No AWS resource tag conflicts detected'')\<rparr>
        else
          \<lparr>c_type = NodePoolAWSResourceTagConflictConditionType, c_status = ConditionTrue,
           c_observedGeneration = gen, c_lastTransitionTime = ZeroTime, c_reason = ''TagConflictDetected'',
           c_message =
             show_nat blocked @ '' AWS resource tag conflict(s) detected; HostedCluster values preserved (override not allowed)'' @
             (if overridden > 0
              then ''; '' @ show_nat overridden @ '' override(s) applied (allowed by HostedCluster)'' else [])\<rparr>)"

definition setAWSResourceTagConflictCondition ::
  "int \<Rightarrow> openshift_ec2_node_class \<Rightarrow> hosted_control_plane \<Rightarrow> condition list \<Rightarrow> condition list" where
  "setAWSResourceTagConflictCondition now nodeClass hcp conditions =
     (if hcp_awsPlatform hcp = None \<or> platform_tags hcp = [] \<or> smap_entries (os_tags (onc_spec nodeClass)) = []
      then RemoveStatusCondition NodePoolAWSResourceTagConflictConditionType conditions
      else SetStatusCondition now
        (conflict_condition (generation nodeClass)
           (conflict_loop (smap_entries (os_tags (onc_spec nodeClass))) (platform_tags hcp) (0, 0)))
        conditions)"

section \<open>Lookups\<close>

lemma distinct_sorted_list_of_fmap [simp]: "distinct (map fst (sorted_list_of_fmap (m :: tag_map)))"
proof -
  have "distinct (sorted_list_of_fset (fmdom m))"
    by (simp add: sorted_list_of_fset.rep_eq)
  then show ?thesis by (simp add: sorted_list_of_fmap_def comp_def)
qed

lemma map_of_smap_entries [simp]: "map_of (smap_entries m) = sm_lookup m"
  by (cases m) (simp_all add: smap_entries_def fun_eq_iff)

lemma distinct_smap_entries [simp]: "distinct (map fst (smap_entries m))"
  by (cases m) (simp_all add: smap_entries_def)

lemma map_of_eq_lookup: "distinct (map fst es) \<Longrightarrow> (k, v) \<in> set es \<longleftrightarrow> map_of es k = Some v"
  by simp

text \<open>The platform's value of a key is the last one listed; one \<open>Allow\<close> is enough to override.\<close>

definition platform_value :: "aws_resource_tag list \<Rightarrow> string \<Rightarrow> string option" where
  "platform_value platform k = map_of (rev (map (\<lambda>t. (rt_key t, rt_value t)) platform)) k"

definition platform_allows :: "aws_resource_tag list \<Rightarrow> string \<Rightarrow> bool" where
  "platform_allows platform k \<longleftrightarrow>
     list_ex (\<lambda>t. rt_key t = k \<and> rt_overridePolicy t = AWSResourceTagOverridePolicyAllow) platform"

lemma platform_loop_tags:
  "fmlookup (fst (platform_loop platform (tags, allow))) k =
     (case platform_value platform k of None \<Rightarrow> fmlookup tags k | Some v \<Rightarrow> Some v)"
  by (induction platform arbitrary: tags allow) (auto simp: platform_value_def map_add_def split: option.split)

lemma platform_loop_allow:
  "k \<in> snd (platform_loop platform (tags, allow)) \<longleftrightarrow> k \<in> allow \<or> platform_allows platform k"
  by (induction platform arbitrary: tags allow) (auto simp: platform_allows_def)

lemma pair_fst_image: "(a, b) \<in> S \<Longrightarrow> a \<in> fst ` S"
  by force

lemma nodeclass_loop_lookup:
  "distinct (map fst es) \<Longrightarrow>
   fmlookup (nodeclass_loop es allow tags) k =
     (case map_of es k of
        None \<Rightarrow> fmlookup tags k
      | Some v \<Rightarrow> if fmlookup tags k \<noteq> None \<and> k \<notin> allow then fmlookup tags k else Some v)"
proof (induction es arbitrary: tags)
  case (Cons e es)
  then show ?case
    by (cases e) (auto simp: map_of_eq_None_iff [THEN iffD2] split: option.splits dest: pair_fst_image)
qed simp

lemma merged_tags_lookup:
  assumes "distinct (map fst es)"
  shows "fmlookup (merged_tags es platform) k =
    (case platform_value platform k of
       None \<Rightarrow> map_of es k
     | Some p \<Rightarrow>
         (case map_of es k of
            None \<Rightarrow> Some p
          | Some v \<Rightarrow> if platform_allows platform k then Some v else Some p))"
proof -
  obtain tags allow where loop: "platform_loop platform (fmempty, {}) = (tags, allow)"
    by fastforce
  then have "fmlookup tags k = platform_value platform k" "k \<in> allow \<longleftrightarrow> platform_allows platform k"
    using platform_loop_tags [of platform fmempty "{}" k] platform_loop_allow [of k platform fmempty "{}"]
    by (simp_all split: option.split)
  with loop assms show ?thesis
    by (auto simp: merged_tags_def nodeclass_loop_lookup split: option.split)
qed

lemma filter_loop_lookup:
  "distinct (map fst es) \<Longrightarrow>
   fmlookup (fst (filter_loop es (tags, removed))) k =
     (case map_of es k of
        Some v \<Rightarrow> if isRestricted k then fmlookup tags k else Some v
      | None \<Rightarrow> fmlookup tags k)"
proof (induction es arbitrary: tags removed)
  case (Cons e es)
  then show ?case
    by (cases e) (auto simp: map_of_eq_None_iff [THEN iffD2] split: option.splits dest: pair_fst_image)
qed simp

lemma filterRestrictedTags_lookup:
  assumes "distinct (map fst es)" "map_of es = fmlookup tags"
  shows "fmlookup (fst (filterRestrictedTags tags es)) k = (if isRestricted k then None else fmlookup tags k)"
proof (cases "es = []")
  case True
  with assms(2) have "fmlookup tags k = None"
    by (simp add: fun_eq_iff)
  with True show ?thesis by (simp add: filterRestrictedTags_def)
next
  case False
  with assms show ?thesis
    by (auto simp: filterRestrictedTags_def filter_loop_lookup split: option.split)
qed

lemma mergeEC2NodeClassTags_lookup:
  "sm_lookup (mergeEC2NodeClassTags spec hcp) k =
     (if isRestricted k then None
      else fmlookup (merged_tags (smap_entries (os_tags spec)) (platform_tags hcp)) k)"
proof -
  let ?tags = "merged_tags (smap_entries (os_tags spec)) (platform_tags hcp)"
  obtain filtered removed where f: "filterRestrictedTags ?tags (sorted_list_of_fmap ?tags) = (filtered, removed)"
    by fastforce
  then have "fmlookup filtered k = (if isRestricted k then None else fmlookup ?tags k)"
    using filterRestrictedTags_lookup [of "sorted_list_of_fmap ?tags" ?tags k] by (simp add: fun_eq_iff)
  with f show ?thesis by (auto simp: mergeEC2NodeClassTags_def Let_def)
qed

section \<open>Conflicts\<close>

definition tag_blocked :: "aws_resource_tag list \<Rightarrow> string \<times> string \<Rightarrow> bool" where
  "tag_blocked platform e =
     (case find (\<lambda>t. rt_key t = fst e) platform of
        None \<Rightarrow> False
      | Some t \<Rightarrow> rt_value t \<noteq> snd e \<and> rt_overridePolicy t \<noteq> AWSResourceTagOverridePolicyAllow)"

definition tag_overridden :: "aws_resource_tag list \<Rightarrow> string \<times> string \<Rightarrow> bool" where
  "tag_overridden platform e =
     (case find (\<lambda>t. rt_key t = fst e) platform of
        None \<Rightarrow> False
      | Some t \<Rightarrow> rt_value t \<noteq> snd e \<and> rt_overridePolicy t = AWSResourceTagOverridePolicyAllow)"

lemma conflict_loop_counts:
  "conflict_loop es platform (b, ov) =
     (b + length (filter (tag_blocked platform) es), ov + length (filter (tag_overridden platform) es))"
proof (induction es arbitrary: b ov)
  case (Cons e es)
  then show ?case
    by (cases e) (auto simp: tag_blocked_def tag_overridden_def split: option.split)
qed simp

text \<open>With one platform tag per key the first and the last tag of a key are the same.\<close>

lemma platform_distinct:
  assumes "distinct (map rt_key platform)"
  shows "find (\<lambda>t. rt_key t = k) platform = None \<longleftrightarrow> platform_value platform k = None"
    and "find (\<lambda>t. rt_key t = k) platform = Some t \<Longrightarrow>
      platform_value platform k = Some (rt_value t) \<and>
      (platform_allows platform k \<longleftrightarrow> rt_overridePolicy t = AWSResourceTagOverridePolicyAllow)"
proof -
  show "find (\<lambda>t. rt_key t = k) platform = None \<longleftrightarrow> platform_value platform k = None"
    by (auto simp: find_None_iff platform_value_def map_of_eq_None_iff image_image)
  assume "find (\<lambda>t. rt_key t = k) platform = Some t"
  then have t: "t \<in> set platform" "rt_key t = k"
    by (auto simp: find_Some_iff)
  have same: "u = t" if "u \<in> set platform" "rt_key u = k" for u
    using assms that t by (metis distinct_map inj_onD)
  have "distinct (map fst (rev (map (\<lambda>t. (rt_key t, rt_value t)) platform)))"
    using assms distinct_rev [of "map rt_key platform"] by (simp add: rev_map comp_def)
  moreover have "(k, rt_value t) \<in> set (rev (map (\<lambda>t. (rt_key t, rt_value t)) platform))"
    using t by auto
  ultimately have "platform_value platform k = Some (rt_value t)"
    unfolding platform_value_def by (rule map_of_is_SomeI)
  moreover have "platform_allows platform k \<longleftrightarrow> rt_overridePolicy t = AWSResourceTagOverridePolicyAllow"
    unfolding platform_allows_def list_ex_iff using t same by blast
  ultimately show "platform_value platform k = Some (rt_value t) \<and>
      (platform_allows platform k \<longleftrightarrow> rt_overridePolicy t = AWSResourceTagOverridePolicyAllow)" ..
qed

lemma tag_blocked_iff:
  assumes "distinct (map rt_key platform)" "distinct (map fst es)" "map_of es k = Some v"
  shows "tag_blocked platform (k, v) \<longleftrightarrow> fmlookup (merged_tags es platform) k \<noteq> Some v"
proof (cases "find (\<lambda>t. rt_key t = k) platform")
  case None
  with platform_distinct(1) [OF assms(1)] have "platform_value platform k = None" by blast
  with None assms show ?thesis by (simp add: tag_blocked_def merged_tags_lookup)
next
  case (Some t)
  with platform_distinct(2) [OF assms(1) Some] assms show ?thesis
    by (auto simp: tag_blocked_def merged_tags_lookup)
qed

section \<open>Properties\<close>

definition demo_platform :: "aws_resource_tag list" where
  "demo_platform =
     [\<lparr>rt_key = ''team'', rt_value = ''infra'', rt_overridePolicy = AWSResourceTagOverridePolicyAllow\<rparr>,
      \<lparr>rt_key = ''cost-center'', rt_value = ''42'', rt_overridePolicy = []\<rparr>]"

text \<open>
  C30: which tags an EC2NodeClass gets. A tag that Karpenter manages itself is dropped; of the
  others the NodeClass's value wins where the platform does not name the key or allows the
  override, and the platform's value everywhere else.
\<close>

theorem merged_tag_precedence:
  "sm_lookup (mergeEC2NodeClassTags spec hcp) k =
     (if isRestricted k then None
      else case platform_value (platform_tags hcp) k of
        None \<Rightarrow> sm_lookup (os_tags spec) k
      | Some p \<Rightarrow>
          (case sm_lookup (os_tags spec) k of
             None \<Rightarrow> Some p
           | Some v \<Rightarrow> if platform_allows (platform_tags hcp) k then Some v else Some p))"
  by (simp add: mergeEC2NodeClassTags_lookup merged_tags_lookup cong: option.case_cong)

text \<open>
  The order in which Go ranges over the NodeClass's tags, and over the merged tags in the
  filter, does not matter: any two enumerations of the same tags give the same result.
\<close>

theorem merge_order_independent:
  assumes "distinct (map fst es)" "distinct (map fst es')" "map_of es = map_of es'"
    and "distinct (map fst fs)" "map_of fs = fmlookup (merged_tags es platform)"
    and "distinct (map fst fs')" "map_of fs' = fmlookup (merged_tags es' platform)"
  shows "merged_tags es platform = merged_tags es' platform \<and>
    fst (filterRestrictedTags (merged_tags es platform) fs) = fst (filterRestrictedTags (merged_tags es' platform) fs')"
proof -
  have "merged_tags es platform = merged_tags es' platform"
    using assms by (intro fmap_ext) (simp add: merged_tags_lookup cong: option.case_cong)
  moreover have "fst (filterRestrictedTags (merged_tags es platform) fs) =
      fst (filterRestrictedTags (merged_tags es' platform) fs')"
    using assms calculation by (intro fmap_ext) (simp add: filterRestrictedTags_lookup)
  ultimately show ?thesis ..
qed

theorem merge_order_independent_witness:
  "merged_tags [(''a'', ''1''), (''team'', ''x'')] demo_platform = merged_tags [(''team'', ''x''), (''a'', ''1'')] demo_platform"
proof -
  have "map_of [(''a'', ''1''), (''team'', ''x'')] = map_of [(''team'', ''x''), (''a'', ''1'')]"
    by (rule ext) simp
  from merge_order_independent [OF _ _ this _ map_of_sorted_list _ map_of_sorted_list]
  show ?thesis by simp
qed



text \<open>
  Where the platform lists a key twice, the condition and the merge part ways: the merge takes
  the last value and either policy, the condition compares with the first.
\<close>

theorem duplicate_platform_tag_misreported:
  "let platform = [\<lparr>rt_key = ''k'', rt_value = ''p'', rt_overridePolicy = []\<rparr>,
                   \<lparr>rt_key = ''k'', rt_value = ''q'', rt_overridePolicy = AWSResourceTagOverridePolicyAllow\<rparr>];
       es = [(''k'', ''v'')]
   in fmlookup (merged_tags es platform) ''k'' = Some ''v'' \<and>
      c_status (conflict_condition 1 (conflict_loop es platform (0, 0))) = ConditionTrue"
  by (simp add: merged_tags_def conflict_condition_def AWSResourceTagOverridePolicyAllow_def)

end
