(* ===== verification/Go_Duration.thy ===== *)
theory Go_Duration
  imports Api_Types
begin

text \<open>
  \<open>time.ParseDuration\<close> of the standard library, in nanoseconds. The sum is kept modulo 2^64 and
  checked against 2^63, as in Go; the fraction of a unit is computed in exact
  arithmetic where Go uses a float64.
\<close>

definition is_digit :: "char \<Rightarrow> bool" where
  "is_digit c = (let n = (of_char c :: int) in 48 \<le> n \<and> n \<le> 57)"

definition digit_val :: "char \<Rightarrow> int" where
  "digit_val c = of_char c - 48"

text \<open>\<open>leadingInt\<close>: \<open>None\<close> on overflow beyond 2^63\<close>

fun leadingInt :: "int \<Rightarrow> string \<Rightarrow> (int \<times> string) option" where
  "leadingInt x [] = Some (x, [])"
| "leadingInt x (c # cs) =
     (if \<not> is_digit c then Some (x, c # cs)
      else if x > 2 ^ 63 div 10 then None
      else let y = x * 10 + digit_val c in
        if y > 2 ^ 63 then None else leadingInt y cs)"

text \<open>\<open>leadingFraction\<close>: digits that would overflow are dropped\<close>

fun leadingFraction :: "int \<Rightarrow> int \<Rightarrow> bool \<Rightarrow> string \<Rightarrow> int \<times> int \<times> string" where
  "leadingFraction x scale over [] = (x, scale, [])"
| "leadingFraction x scale over (c # cs) =
     (if \<not> is_digit c then (x, scale, c # cs)
      else if over then leadingFraction x scale over cs
      else if x > (2 ^ 63 - 1) div 10 then leadingFraction x scale True cs
      else let y = x * 10 + digit_val c in
        if y > 2 ^ 63 then leadingFraction x scale True cs
        else leadingFraction y (scale * 10) over cs)"

text \<open>\<open>unitMap\<close>; the two micro signs are the bytes of U+00B5 and U+03BC in UTF-8\<close>

definition unit_ns :: "string \<Rightarrow> int option" where
  "unit_ns u =
     (if u = ''ns'' then Some 1
      else if u = ''us'' \<or> u = [char_of (194 :: nat), char_of (181 :: nat), CHR ''s'']
        \<or> u = [char_of (206 :: nat), char_of (188 :: nat), CHR ''s''] then Some 1000
      else if u = ''ms'' then Some 1000000
      else if u = ''s'' then Some 1000000000
      else if u = ''m'' then Some 60000000000
      else if u = ''h'' then Some 3600000000000
      else None)"

definition unit_span :: "string \<Rightarrow> string \<times> string" where
  "unit_span s = (takeWhile (\<lambda>c. c \<noteq> CHR ''.'' \<and> \<not> is_digit c) s, dropWhile (\<lambda>c. c \<noteq> CHR ''.'' \<and> \<not> is_digit c) s)"

text \<open>An optional fraction: its digits as a number, their scale, the rest, whether it had digits\<close>

definition fraction_part :: "string \<Rightarrow> int \<times> int \<times> string \<times> bool" where
  "fraction_part s =
     (case s of
        [] \<Rightarrow> (0, 1, [], False)
      | c # cs \<Rightarrow>
          if c = CHR ''.'' then
            (case leadingFraction 0 1 False cs of (f, scale, rest) \<Rightarrow> (f, scale, rest, length cs \<noteq> length rest))
          else (0, 1, c # cs, False))"

text \<open>One \<open><number><unit>\<close> pair: its nanoseconds and the rest of the string\<close>

definition duration_term :: "string \<Rightarrow> (int \<times> string) option" where
  "duration_term s =
     (case s of
        [] \<Rightarrow> None
      | c # _ \<Rightarrow>
          if \<not> (c = CHR ''.'' \<or> is_digit c) then None
          else case leadingInt 0 s of
            None \<Rightarrow> None
          | Some (v, s1) \<Rightarrow>
              (case fraction_part s1 of
                 (f, scale, s2, post) \<Rightarrow>
                   if length s = length s1 \<and> \<not> post then None
                   else case unit_span s2 of
                     (u, s3) \<Rightarrow>
                       if u = [] then None
                       else case unit_ns u of
                         None \<Rightarrow> None
                       | Some unit \<Rightarrow>
                           if v > 2 ^ 63 div unit then None
                           else let t = v * unit + f * unit div scale in
                             if t > 2 ^ 63 then None else Some (t, s3)))"

lemma leadingInt_length: "leadingInt x s = Some (v, r) \<Longrightarrow> length r \<le> length s"
  by (induction x s rule: leadingInt.induct) (auto simp: Let_def split: if_splits)

lemma leadingFraction_length: "leadingFraction x sc ov s = (f, sc', r) \<Longrightarrow> length r \<le> length s"
  by (induction x sc ov s rule: leadingFraction.induct) (auto simp: Let_def split: if_splits)

lemma unit_span_length: "unit_span s = (u, r) \<Longrightarrow> u \<noteq> [] \<Longrightarrow> length r < length s"
proof -
  assume a: "unit_span s = (u, r)" "u \<noteq> []"
  then have "s = u @ r"
    by (auto simp: unit_span_def)
  with a(2) show ?thesis by simp
qed

lemma duration_term_length:
  assumes "duration_term s = Some (t, r)"
  shows "length r < length s"
proof -
  obtain c cs where s: "s = c # cs"
    using assms by (cases s) (auto simp: duration_term_def)
  obtain v s1 where int: "leadingInt 0 s = Some (v, s1)"
    using assms s by (auto simp: duration_term_def split: if_splits option.splits)
  obtain f scale s2 post where frac: "fraction_part s1 = (f, scale, s2, post)"
    by (metis prod_cases4)
  then have "length s2 \<le> length s1"
    by (auto simp: fraction_part_def dest!: leadingFraction_length split: list.splits if_splits prod.splits)
  moreover obtain u s3 where "unit_span s2 = (u, s3)"
    by fastforce
  moreover have "r = s3 \<and> u \<noteq> []"
    using assms int frac \<open>unit_span s2 = (u, s3)\<close> s
    by (auto simp: duration_term_def Let_def split: if_splits option.splits)
  ultimately show ?thesis
    using leadingInt_length [OF int] unit_span_length [of s2 u s3] by force
qed

function duration_terms :: "int \<Rightarrow> string \<Rightarrow> int option" where
  "duration_terms d s =
     (if s = [] then Some d
      else case duration_term s of
        None \<Rightarrow> None
      | Some (t, rest) \<Rightarrow>
          let d' = (d + t) mod 2 ^ 64 in if d' > 2 ^ 63 then None else duration_terms d' rest)"
  by pat_completeness auto
termination
  by (relation "measure (\<lambda>(d, s). length s)") (auto dest: duration_term_length)

declare duration_terms.simps [simp del]

definition ParseDuration :: "string \<Rightarrow> error + int64" where
  "ParseDuration s =
     (let (neg, s') = (case s of
            [] \<Rightarrow> (False, [])
          | c # cs \<Rightarrow> if c = CHR ''-'' then (True, cs) else if c = CHR ''+'' then (False, cs) else (False, s));
          invalid = Inl (Errorf ''time: invalid duration %q'' [AStr s])
      in if s' = ''0'' then Inr 0
         else if s' = [] then invalid
         else case duration_terms 0 s' of
           None \<Rightarrow> invalid
         | Some d \<Rightarrow>
             if neg then Inr (word_of_int (- d))
             else if d > 2 ^ 63 - 1 then invalid
             else Inr (word_of_int d))"

text \<open>The sum fits a signed 64-bit integer, but for 2^63 itself.\<close>

lemma duration_terms_bound: "duration_terms d s = Some t \<Longrightarrow> d \<le> 2 ^ 63 \<Longrightarrow> t \<le> 2 ^ 63"
proof (induction d s rule: duration_terms.induct)
  case (1 d s)
  show ?case
  proof (cases "s = []")
    case True
    with "1.prems" show ?thesis by (simp add: duration_terms.simps)
  next
    case False
    with "1.prems" "1.IH" show ?thesis
      by (subst (asm) duration_terms.simps [of d s]) (auto simp: Let_def split: option.splits if_splits)
  qed
qed

lemma ParseDuration_examples:
  "ParseDuration ''90s'' = Inr 90000000000"
  "ParseDuration ''1m30s'' = Inr 90000000000"
  "ParseDuration ''1.5h'' = Inr 5400000000000"
  "ParseDuration ''-2ms'' = Inr (-2000000)"
  "ParseDuration ''0'' = Inr 0"
  "ParseDuration ''90'' = Inl (Errorf ''time: invalid duration %q'' [AStr ''90''])"
  "ParseDuration ''2562048h'' = Inl (Errorf ''time: invalid duration %q'' [AStr ''2562048h''])"
  by code_simp+

end
