(* ===== verification/Release_Pipeline.thy ===== *)
theory Release_Pipeline
  imports Hypershift
begin

text \<open>
  What the NodeClass controllers of both platforms do with a release (the user data and the image
  that the ignition pipeline resolved): a NodeClass without a version keeps its current release
  while the control plane upgrades, every other takes the one of the user data Secret. The locale
  states the law; \<open>Ec2_Spec\<close> and \<open>Azure_Nodeclass\<close> interpret it on the code of their platform.
\<close>

locale release_pipeline =
  fixes apply_release :: "'spec \<Rightarrow> 'spec \<Rightarrow> string \<Rightarrow> hosted_control_plane \<Rightarrow> secret \<Rightarrow> error + 'spec"
    and release_of :: "'spec \<Rightarrow> 'rel option"
    and resolve :: "secret \<Rightarrow> error + 'rel"
  assumes hold: "WaitsForControlPlaneUpgrade hcp version \<Longrightarrow> release_of current = Some rel \<Longrightarrow>
      \<exists>d. apply_release desired current version hcp s = Inr d \<and> release_of d = Some rel"
    and follow: "\<not> (WaitsForControlPlaneUpgrade hcp version \<and> release_of current \<noteq> None) \<Longrightarrow> resolve s = Inr rel \<Longrightarrow>
      \<exists>d. apply_release desired current version hcp s = Inr d \<and> release_of d = Some rel"
    and unresolved: "\<not> (WaitsForControlPlaneUpgrade hcp version \<and> release_of current \<noteq> None) \<Longrightarrow> resolve s = Inl e \<Longrightarrow>
      \<exists>e'. apply_release desired current version hcp s = Inl e'"
begin

lemma outcome:
  assumes "apply_release desired current version hcp s = Inr d"
  shows "release_of d =
    (if WaitsForControlPlaneUpgrade hcp version \<and> release_of current \<noteq> None then release_of current
     else (case resolve s of Inl e \<Rightarrow> None | Inr rel \<Rightarrow> Some rel))"
    and "release_of d \<noteq> None"
proof -
  show R: "release_of d =
    (if WaitsForControlPlaneUpgrade hcp version \<and> release_of current \<noteq> None then release_of current
     else (case resolve s of Inl e \<Rightarrow> None | Inr rel \<Rightarrow> Some rel))"
  proof (cases "WaitsForControlPlaneUpgrade hcp version \<and> release_of current \<noteq> None")
    case True
    then obtain rel where rel: "release_of current = Some rel" by auto
    with True hold [of hcp version current rel desired s] assms show ?thesis by auto
  next
    case False
    show ?thesis
    proof (cases "resolve s")
      case (Inl e)
      with unresolved [OF False Inl, of desired] assms show ?thesis by auto
    next
      case (Inr rel)
      with follow [OF False Inr, of desired] assms False show ?thesis by auto
    qed
  qed
  show "release_of d \<noteq> None"
  proof (cases "WaitsForControlPlaneUpgrade hcp version \<and> release_of current \<noteq> None")
    case True
    with R show ?thesis by simp
  next
    case False
    with R assms unresolved [OF False, of s _ desired] show ?thesis
      by (cases "resolve s") auto
  qed
qed

text \<open>
  A run of reconciles, each with its own desired spec and Secret: an error keeps the spec. While
  the upgrade lasts the release does not move.
\<close>

primrec run :: "hosted_control_plane \<Rightarrow> string \<Rightarrow> ('spec \<times> secret) list \<Rightarrow> 'spec \<Rightarrow> 'spec" where
  "run hcp version [] current = current"
| "run hcp version (x # xs) current =
     run hcp version xs
       (case apply_release (fst x) current version hcp (snd x) of Inl e \<Rightarrow> current | Inr d \<Rightarrow> d)"

lemma run_holds:
  "isControlPlaneUpgrading hcp \<Longrightarrow> release_of current = Some rel \<Longrightarrow> release_of (run hcp [] xs current) = Some rel"
proof (induction xs arbitrary: current)
  case (Cons x xs)
  have "WaitsForControlPlaneUpgrade hcp []"
    using Cons.prems(1) by (simp add: WaitsForControlPlaneUpgrade_def)
  with Cons.prems hold obtain d where
    "apply_release (fst x) current [] hcp (snd x) = Inr d" "release_of d = Some rel"
    by blast
  with Cons show ?case by simp
qed simp

lemma follows_after_upgrade:
  "\<not> isControlPlaneUpgrading hcp \<or> version \<noteq> [] \<Longrightarrow> resolve s = Inr rel \<Longrightarrow>
   \<exists>d. apply_release desired current version hcp s = Inr d \<and> release_of d = Some rel"
  by (rule follow) (auto simp: WaitsForControlPlaneUpgrade_def)

end

end
