(* ===== verification/Ec2_Spec.thy ===== *)
theory Ec2_Spec
  imports Ec2_Tags Go_Duration Release_Pipeline
begin

text \<open>
  \<open>pkg/controllers/nodeclass/ec2/{spec,userdata}.go\<close>: the EC2NodeClass spec of an
  OpenshiftEC2NodeClass, field by field, and the release the user data Secret adds to it.
\<close>

section \<open>AMIs of the user data Secret\<close>

definition ArchitectureAMD64 :: string where
  "ArchitectureAMD64 = ''amd64''"

definition ArchitectureARM64 :: string where
  "ArchitectureARM64 = ''arm64''"

definition supportedArchitectures :: "string list" where
  "supportedArchitectures = [ArchitectureAMD64, ArchitectureARM64]"

definition archToAMILabelKey :: "string \<Rightarrow> string" where
  "archToAMILabelKey arch =
     (if arch = ArchitectureAMD64 then UserDataAMILabel else UserDataAMILabel @ ''-'' @ arch)"

fun ami_terms :: "string list \<Rightarrow> smap \<Rightarrow> string list" where
  "ami_terms [] ls = []"
| "ami_terms (arch # archs) ls =
     (case sm_lookup ls (archToAMILabelKey arch) of
        Some ami \<Rightarrow> ami # ami_terms archs ls
      | None \<Rightarrow> ami_terms archs ls)"

definition amiSelectorTermsFromUserDataSecret :: "secret \<Rightarrow> error + string list" where
  "amiSelectorTermsFromUserDataSecret userDataSecret =
     (let terms = ami_terms supportedArchitectures (labels userDataSecret) in
      if terms = []
      then Inl (Errorf ''no AMIs found for supported architectures: %v'' (map AStr supportedArchitectures))
      else Inr terms)"

section \<open>Fields\<close>

definition ptrIfNonEmpty :: "string \<Rightarrow> string option" where
  "ptrIfNonEmpty s = (if s = [] then None else Some s)"

definition ptrIfNonZero :: "int32 \<Rightarrow> int32 option" where
  "ptrIfNonZero v = (if v = 0 then None else Some v)"

definition defaultRootVolumeSize :: quantity where
  "defaultRootVolumeSize = gibibytes 120"

definition DefaultSubnetSelectorTags :: "string \<Rightarrow> smap" where
  "DefaultSubnetSelectorTags infraID =
     Some (fmap_of_list [(''kubernetes.io/role/internal-elb'', ''1''),
                         (''kubernetes.io/cluster/'' @ infraID, ''*'')])"

definition DefaultSecurityGroupSelectorTags :: "string \<Rightarrow> smap" where
  "DefaultSecurityGroupSelectorTags infraID = Some (fmap_of_list [(''karpenter.sh/discovery'', infraID)])"

definition deleteOnTerminationToBool :: "string \<Rightarrow> bool option" where
  "deleteOnTerminationToBool policy =
     (if policy = DeleteOnTerminationPolicyDelete then Some True
      else if policy = DeleteOnTerminationPolicyRetain then Some False
      else None)"

definition encryptionStateToBool :: "string \<Rightarrow> bool option" where
  "encryptionStateToBool state =
     (if state = EncryptionStateEncrypted then Some True
      else if state = EncryptionStateUnencrypted then Some False
      else None)"

definition volumeSizeGiBToQuantity :: "int64 \<Rightarrow> quantity option" where
  "volumeSizeGiBToQuantity sizeGiB = (if sizeGiB = 0 then None else Some (gibibytes (sint sizeGiB)))"

definition volumeTypeToKarpenter :: "string \<Rightarrow> string option" where
  "volumeTypeToKarpenter vt = (if vt = [] then None else Some (to_lower vt))"

definition karpenterBlockDeviceFromBlockDevice :: "block_device \<Rightarrow> ec2_block_device" where
  "karpenterBlockDeviceFromBlockDevice bd =
     \<lparr>eb_deleteOnTermination = deleteOnTerminationToBool (bd_deleteOnTermination bd),
      eb_encrypted = encryptionStateToBool (bd_encrypted bd),
      eb_iops = bd_iops bd,
      eb_kmsKeyID = ptrIfNonEmpty (bd_kmsKeyID bd),
      eb_snapshotID = ptrIfNonEmpty (bd_snapshotID bd),
      eb_throughput = bd_throughput bd,
      eb_volumeSize = volumeSizeGiBToQuantity (bd_volumeSizeGiB bd),
      eb_volumeType = volumeTypeToKarpenter (bd_volumeType bd)\<rparr>"

text \<open>A nil result and an empty one are both the empty list: the caller tests for nil, and an empty
  range appends nothing to the nil slice.\<close>

definition karpenterBlockDeviceMappingFromNodeClassSpec :: "openshift_ec2_spec \<Rightarrow> ec2_block_device_mapping list" where
  "karpenterBlockDeviceMappingFromNodeClassSpec spec =
     (case os_blockDeviceMappings spec of
        None \<Rightarrow> []
      | Some mappings \<Rightarrow>
          map (\<lambda>mapping.
            \<lparr>em_deviceName = ptrIfNonEmpty (bdm_deviceName mapping),
             em_ebs = Some (karpenterBlockDeviceFromBlockDevice (bdm_ebs mapping)),
             em_rootVolume = (bdm_rootVolume mapping = RootVolumeDesignationRootVolume)\<rparr>) mappings)"

definition karpenterCapacityReservationSelectorTermsFromNodeClassSpec ::
  "openshift_ec2_spec \<Rightarrow> capacity_reservation_selector_term list" where
  "karpenterCapacityReservationSelectorTermsFromNodeClassSpec spec =
     (case os_capacityReservationSelectorTerms spec of
        None \<Rightarrow> []
      | Some terms \<Rightarrow>
          map (\<lambda>t. \<lparr>crst_tags = crst_tags t, crst_id = crst_id t, crst_ownerID = crst_ownerID t,
                      crst_instanceMatchCriteria = to_lower (crst_instanceMatchCriteria t)\<rparr>) terms)"

definition karpenterInstanceStorePolicyFromNodeClassSpec :: "openshift_ec2_spec \<Rightarrow> string option" where
  "karpenterInstanceStorePolicyFromNodeClassSpec spec =
     (if os_instanceStorePolicy spec = [] then None else Some (os_instanceStorePolicy spec))"

definition karpenterAssociatePublicIPAddressFromNodeClassSpec :: "openshift_ec2_spec \<Rightarrow> bool option" where
  "karpenterAssociatePublicIPAddressFromNodeClassSpec spec =
     (if os_ipAddressAssociation spec = IPAddressAssociationPublic then Some True
      else if os_ipAddressAssociation spec = IPAddressAssociationSubnetDefault then Some False
      else None)"

definition karpenterMetadataOptionsFromNodeClassSpec :: "openshift_ec2_spec \<Rightarrow> ec2_metadata_options option" where
  "karpenterMetadataOptionsFromNodeClassSpec spec =
     (let mo = os_metadataOptions spec in
      if mo_access mo = [] \<and> mo_httpIPProtocol mo = [] \<and> mo_httpPutResponseHopLimit mo = 0 \<and> mo_httpTokens mo = []
      then None
      else Some
        \<lparr>eo_httpEndpoint =
           (if mo_access mo = MetadataAccessHTTPEndpoint then Some ''enabled''
            else if mo_access mo = MetadataAccessNone then Some ''disabled'' else None),
         eo_httpProtocolIPv6 =
           (if mo_httpIPProtocol mo = MetadataHTTPProtocolIPv6 then Some ''enabled''
            else if mo_httpIPProtocol mo = MetadataHTTPProtocolIPv4 then Some ''disabled'' else None),
         eo_httpPutResponseHopLimit =
           (if mo_httpPutResponseHopLimit mo \<noteq> 0 then Some (mo_httpPutResponseHopLimit mo) else None),
         eo_httpTokens =
           (if mo_httpTokens mo = MetadataHTTPTokensStateRequired then Some ''required''
            else if mo_httpTokens mo = MetadataHTTPTokensStateOptional then Some ''optional'' else None)\<rparr>)"

definition karpenterDetailedMonitoringFromNodeClassSpec :: "openshift_ec2_spec \<Rightarrow> bool option" where
  "karpenterDetailedMonitoringFromNodeClassSpec spec =
     (if os_monitoring spec = MonitoringStateDetailed then Some True
      else if os_monitoring spec = MonitoringStateBasic then Some False
      else None)"

text \<open>The loops over a map build a map; a grace period that does not parse is dropped.\<close>

fun grace_loop :: "(string \<times> string) list \<Rightarrow> (string, int64) fmap \<Rightarrow> (string, int64) fmap" where
  "grace_loop [] result = result"
| "grace_loop ((k, v) # rest) result =
     (case ParseDuration v of
        Inl e \<Rightarrow> grace_loop rest result
      | Inr d \<Rightarrow> grace_loop rest (fmupd k d result))"

definition evictionSoftGracePeriodToDuration :: "smap \<Rightarrow> (string, int64) fmap option" where
  "evictionSoftGracePeriodToDuration m =
     (case m of None \<Rightarrow> None | Some f \<Rightarrow> Some (grace_loop (sorted_list_of_fmap f) fmempty))"

fun copy_loop :: "(string \<times> string) list \<Rightarrow> tag_map \<Rightarrow> tag_map" where
  "copy_loop [] result = result"
| "copy_loop ((k, v) # rest) result = copy_loop rest (fmupd k v result)"

definition evictionThresholdMapToStringMap :: "smap \<Rightarrow> smap" where
  "evictionThresholdMapToStringMap m =
     (case m of None \<Rightarrow> None | Some f \<Rightarrow> Some (copy_loop (sorted_list_of_fmap f) fmempty))"

definition karpenterKubeletConfigurationFromNodeClassSpec :: "openshift_ec2_spec \<Rightarrow> ec2_kubelet_configuration option" where
  "karpenterKubeletConfigurationFromNodeClassSpec spec =
     (let k = os_kubelet spec in
      if \<not> HasTypedFields k then None
      else Some
        \<lparr>ek_maxPods = ptrIfNonZero (kc_maxPods k),
         ek_podsPerCore = ptrIfNonZero (kc_podsPerCore k),
         ek_systemReserved = kc_systemReserved k,
         ek_kubeReserved = kc_kubeReserved k,
         ek_evictionHard = evictionThresholdMapToStringMap (kc_evictionHard k),
         ek_evictionSoft = evictionThresholdMapToStringMap (kc_evictionSoft k),
         ek_evictionSoftGracePeriod = evictionSoftGracePeriodToDuration (kc_evictionSoftGracePeriod k),
         ek_evictionMaxPodGracePeriod = kc_evictionMaxPodGracePeriod k,
         ek_imageGCHighThresholdPercent = kc_imageGCHighThresholdPercent k,
         ek_imageGCLowThresholdPercent = kc_imageGCLowThresholdPercent k,
         ek_cpuCFSQuota = kc_cpuCFSQuota k\<rparr>)"

section \<open>The spec\<close>

definition AWSKarpenterDefaultInstanceProfile :: string where
  "AWSKarpenterDefaultInstanceProfile = ''hypershift.openshift.io/aws-karpenter-default-instance-profile''"

definition default_block_device_mapping :: ec2_block_device_mapping where
  "default_block_device_mapping =
     \<lparr>em_deviceName = Some ''/dev/xvda'',
      em_ebs = Some \<lparr>eb_deleteOnTermination = None, eb_encrypted = Some True, eb_iops = None,
        eb_kmsKeyID = None, eb_snapshotID = None, eb_throughput = None,
        eb_volumeSize = Some defaultRootVolumeSize, eb_volumeType = Some ''gp3''\<rparr>,
      em_rootVolume = False\<rparr>"

definition ec2NodeClassSpec :: "openshift_ec2_node_class \<Rightarrow> hosted_control_plane \<Rightarrow> ec2_spec" where
  "ec2NodeClassSpec nodeClass hcp =
     (let s = onc_spec nodeClass;
          instanceProfile = sm_get (annotations hcp) AWSKarpenterDefaultInstanceProfile;
          mappings = karpenterBlockDeviceMappingFromNodeClassSpec s
      in \<lparr>ec_subnetSelectorTerms =
            (case os_subnetSelectorTerms s of
               None \<Rightarrow> [\<lparr>sst_tags = DefaultSubnetSelectorTags (hcp_infraID hcp), sst_id = []\<rparr>]
             | Some terms \<Rightarrow> map (\<lambda>t. \<lparr>sst_tags = sst_tags t, sst_id = sst_id t\<rparr>) terms),
          ec_securityGroupSelectorTerms =
            (case os_securityGroupSelectorTerms s of
               None \<Rightarrow> [\<lparr>sgst_tags = DefaultSecurityGroupSelectorTags (hcp_infraID hcp), sgst_id = [], sgst_name = []\<rparr>]
             | Some terms \<Rightarrow> map (\<lambda>t. \<lparr>sgst_tags = sgst_tags t, sgst_id = sgst_id t, sgst_name = sgst_name t\<rparr>) terms),
          ec_capacityReservationSelectorTerms = karpenterCapacityReservationSelectorTermsFromNodeClassSpec s,
          ec_associatePublicIPAddress = karpenterAssociatePublicIPAddressFromNodeClassSpec s,
          ec_amiSelectorTerms = [],
          ec_amiFamily = Some ''Custom'',
          ec_userData = None,
          ec_instanceProfile = (if instanceProfile \<noteq> [] then Some instanceProfile else None),
          ec_tags = mergeEC2NodeClassTags s hcp,
          ec_kubelet = karpenterKubeletConfigurationFromNodeClassSpec s,
          ec_blockDeviceMappings = (if mappings = [] then [default_block_device_mapping] else mappings),
          ec_instanceStorePolicy = karpenterInstanceStorePolicyFromNodeClassSpec s,
          ec_detailedMonitoring = karpenterDetailedMonitoringFromNodeClassSpec s,
          ec_metadataOptions = karpenterMetadataOptionsFromNodeClassSpec s,
          ec_unmanaged = []\<rparr>)"

definition reconcileEC2NodeClassRelease ::
  "ec2_spec \<Rightarrow> ec2_spec \<Rightarrow> string \<Rightarrow> hosted_control_plane \<Rightarrow> secret \<Rightarrow> error + ec2_spec" where
  "reconcileEC2NodeClassRelease desired current version hcp userDataSecret =
     (let desired' = desired\<lparr>ec_userData := Some (sm_get (sec_data userDataSecret) ''value'')\<rparr> in
      if WaitsForControlPlaneUpgrade hcp version \<and> ec_userData current \<noteq> None \<and> ec_amiSelectorTerms current \<noteq> []
      then Inr (desired'\<lparr>ec_userData := ec_userData current, ec_amiSelectorTerms := ec_amiSelectorTerms current\<rparr>)
      else case amiSelectorTermsFromUserDataSecret userDataSecret of
        Inl e \<Rightarrow> Inl (Wrap ''getting AMISelectorTerms: %w'' [] e)
      | Inr terms \<Rightarrow> Inr (desired'\<lparr>ec_amiSelectorTerms := terms\<rparr>))"

section \<open>The release pipeline\<close>

definition ec2_release_of :: "ec2_spec \<Rightarrow> (string \<times> string list) option" where
  "ec2_release_of s =
     (case ec_userData s of
        None \<Rightarrow> None
      | Some u \<Rightarrow> if ec_amiSelectorTerms s = [] then None else Some (u, ec_amiSelectorTerms s))"

definition ec2_resolve :: "secret \<Rightarrow> error + string \<times> string list" where
  "ec2_resolve userDataSecret =
     (case amiSelectorTermsFromUserDataSecret userDataSecret of
        Inl e \<Rightarrow> Inl e
      | Inr terms \<Rightarrow> Inr (sm_get (sec_data userDataSecret) ''value'', terms))"

lemma ec2_release_of_None: "ec2_release_of s = None \<longleftrightarrow> ec_userData s = None \<or> ec_amiSelectorTerms s = []"
  by (simp add: ec2_release_of_def split: option.split)

interpretation ec2_release: release_pipeline reconcileEC2NodeClassRelease ec2_release_of ec2_resolve
proof
  fix hcp version current rel desired s
  assume "WaitsForControlPlaneUpgrade hcp version" "ec2_release_of current = Some rel"
  then show "\<exists>d. reconcileEC2NodeClassRelease desired current version hcp s = Inr d \<and> ec2_release_of d = Some rel"
    by (auto simp: reconcileEC2NodeClassRelease_def ec2_release_of_def Let_def split: option.splits if_splits)
next
  fix hcp version current s rel desired
  assume "\<not> (WaitsForControlPlaneUpgrade hcp version \<and> ec2_release_of current \<noteq> None)" "ec2_resolve s = Inr rel"
  then show "\<exists>d. reconcileEC2NodeClassRelease desired current version hcp s = Inr d \<and> ec2_release_of d = Some rel"
    by (auto simp: reconcileEC2NodeClassRelease_def ec2_release_of_None ec2_resolve_def Let_def split: sum.splits)
      (auto simp: ec2_release_of_def amiSelectorTermsFromUserDataSecret_def Let_def split: if_splits)
next
  fix hcp version current s e desired
  assume "\<not> (WaitsForControlPlaneUpgrade hcp version \<and> ec2_release_of current \<noteq> None)" "ec2_resolve s = Inl e"
  then show "\<exists>e'. reconcileEC2NodeClassRelease desired current version hcp s = Inl e'"
    by (auto simp: reconcileEC2NodeClassRelease_def ec2_release_of_None ec2_resolve_def Let_def split: sum.splits)
qed

section \<open>Lookups\<close>

lemma grace_loop_lookup:
  "distinct (map fst es) \<Longrightarrow>
   fmlookup (grace_loop es m) k =
     (case map_of es k of
        None \<Rightarrow> fmlookup m k
      | Some v \<Rightarrow> (case ParseDuration v of Inl e \<Rightarrow> fmlookup m k | Inr d \<Rightarrow> Some d))"
proof (induction es arbitrary: m)
  case (Cons e es)
  then show ?case
    by (cases e) (auto simp: map_of_eq_None_iff [THEN iffD2] split: option.splits sum.splits dest: pair_fst_image)
qed simp

lemma copy_loop_lookup:
  "distinct (map fst es) \<Longrightarrow>
   fmlookup (copy_loop es m) k = (case map_of es k of None \<Rightarrow> fmlookup m k | Some v \<Rightarrow> Some v)"
proof (induction es arbitrary: m)
  case (Cons e es)
  then show ?case
    by (cases e) (auto simp: map_of_eq_None_iff [THEN iffD2] split: option.splits dest: pair_fst_image)
qed simp

lemma evictionThresholdMapToStringMap_id: "evictionThresholdMapToStringMap m = m"
  by (cases m) (auto simp: evictionThresholdMapToStringMap_def copy_loop_lookup intro!: fmap_ext split: option.split)

lemma ami_terms_subset: "set (ami_terms archs ls) = {a. \<exists>arch\<in>set archs. sm_lookup ls (archToAMILabelKey arch) = Some a}"
  by (induction archs) (auto split: option.split)

section \<open>Properties\<close>

definition demo_user_data :: secret where
  "demo_user_data = object_meta.extend
     (zero_object_meta\<lparr>namespace := ''clusters-a'', name := ''user-data-default-karpenter-1'',
        labels := Some (fmap_of_list [(UserDataAMILabel, ''ami-1''), (UserDataAMILabel @ ''-arm64'', ''ami-2'')])\<rparr>)
     \<lparr>sec_data = Some (fmap_of_list [(''value'', ''ignition'')])\<rparr>"

definition demo_upgrading :: hosted_control_plane where
  "demo_upgrading = object_meta.extend (zero_object_meta\<lparr>namespace := ''clusters-a'', name := ''a''\<rparr>)
     \<lparr>hcp_infraID = ''a-x7f2p'', hcp_pullSecretName = ''pull-secret'',
      hcp_autoNode = \<lparr>an_provisioner = ProvisionerKarpenter, an_karpenter = []\<rparr>, hcp_awsPlatform = None,
      hcp_controlPlaneVersion = \<lparr>
        cpv_desired = \<lparr>rel_architecture = [], rel_version = [], rel_image = ''img-2'', rel_url = [], rel_channels = []\<rparr>,
        cpv_history = [\<lparr>uh_state = ''Partial'', uh_startedTime = At 2, uh_completionTime = ZeroTime, uh_version = [], uh_image = ''img-2''\<rparr>,
                       \<lparr>uh_state = CompletedUpdate, uh_startedTime = At 0, uh_completionTime = At 1, uh_version = [], uh_image = ''img-1''\<rparr>],
        cpv_observedGeneration = 1\<rparr>,
      hcp_autoNodeStatus = \<lparr>ans_nodeCount = None, ans_nodeClaimCount = None, ans_vcpus = None\<rparr>\<rparr>"

text \<open>
  C7: where the release of an EC2NodeClass comes from. When the reconcile of the release succeeds,
  the spec has user data and AMIs: those it already had if the NodeClass has no version and the
  control plane is being upgraded, and otherwise those of the user data Secret. The rest of the
  desired spec is kept.
\<close>

theorem ec2_release_outcome:
  assumes "reconcileEC2NodeClassRelease desired current version hcp s = Inr d"
  shows "ec2_release_of d \<noteq> None \<and>
    ec2_release_of d =
      (if WaitsForControlPlaneUpgrade hcp version \<and> ec2_release_of current \<noteq> None then ec2_release_of current
       else (case ec2_resolve s of Inl e \<Rightarrow> None | Inr rel \<Rightarrow> Some rel)) \<and>
    d\<lparr>ec_userData := None, ec_amiSelectorTerms := []\<rparr> = desired\<lparr>ec_userData := None, ec_amiSelectorTerms := []\<rparr>"
proof -
  have "d\<lparr>ec_userData := None, ec_amiSelectorTerms := []\<rparr> = desired\<lparr>ec_userData := None, ec_amiSelectorTerms := []\<rparr>"
    using assms by (auto simp: reconcileEC2NodeClassRelease_def Let_def split: if_splits sum.splits)
  with ec2_release.outcome [OF assms] show ?thesis by blast
qed

theorem ec2_release_outcome_witness:
  "\<exists>d. reconcileEC2NodeClassRelease zero_ec2_spec
      (zero_ec2_spec\<lparr>ec_userData := Some ''old'', ec_amiSelectorTerms := [''ami-0'']\<rparr>) [] demo_upgrading demo_user_data = Inr d \<and>
    ec2_release_of d = Some (''old'', [''ami-0''])"
proof -
  let ?c = "zero_ec2_spec\<lparr>ec_userData := Some ''old'', ec_amiSelectorTerms := [''ami-0'']\<rparr>"
  have waits: "WaitsForControlPlaneUpgrade demo_upgrading []"
    by (simp add: WaitsForControlPlaneUpgrade_def isControlPlaneUpgrading_def demo_upgrading_def
        object_meta.defs CompletedUpdate_def)
  then obtain d where d: "reconcileEC2NodeClassRelease zero_ec2_spec ?c [] demo_upgrading demo_user_data = Inr d"
    by (auto simp: reconcileEC2NodeClassRelease_def)
  with ec2_release_outcome [OF d] waits show ?thesis by (simp add: ec2_release_of_def)
qed

text \<open>
  What users cannot choose. Every spec the operator writes uses the Custom AMI family, leaves
  AMIs and user data to the release, takes its instance profile from the annotation of the
  HostedControlPlane only, has at least one block device, and selects the hosted cluster's own
  subnets and security groups when the NodeClass names none.
\<close>

theorem ec2_spec_platform_controlled:
  "ec_amiFamily (ec2NodeClassSpec nc hcp) = Some ''Custom'' \<and>
   ec2_release_of (ec2NodeClassSpec nc hcp) = None \<and> ec_amiSelectorTerms (ec2NodeClassSpec nc hcp) = [] \<and>
   ec_instanceProfile (ec2NodeClassSpec nc hcp) = ptrIfNonEmpty (sm_get (annotations hcp) AWSKarpenterDefaultInstanceProfile) \<and>
   ec_blockDeviceMappings (ec2NodeClassSpec nc hcp) \<noteq> [] \<and>
   (os_subnetSelectorTerms (onc_spec nc) = None \<longrightarrow>
      map (\<lambda>t. sm_lookup (sst_tags t) (''kubernetes.io/cluster/'' @ hcp_infraID hcp)) (ec_subnetSelectorTerms (ec2NodeClassSpec nc hcp)) = [Some ''*'']) \<and>
   (os_securityGroupSelectorTerms (onc_spec nc) = None \<longrightarrow>
      map (\<lambda>t. sm_lookup (sgst_tags t) ''karpenter.sh/discovery'') (ec_securityGroupSelectorTerms (ec2NodeClassSpec nc hcp)) = [Some (hcp_infraID hcp)])"
  by (simp add: ec2NodeClassSpec_def Let_def ec2_release_of_def ptrIfNonEmpty_def
      DefaultSubnetSelectorTags_def DefaultSecurityGroupSelectorTags_def fmlookup_of_list)

theorem ec2_spec_platform_controlled_witness:
  "ec_blockDeviceMappings (ec2NodeClassSpec
     (object_meta.extend zero_object_meta \<lparr>onc_spec = zero_openshift_ec2_spec, onc_status = zero_openshift_ec2_status\<rparr>)
     demo_upgrading) \<noteq> []"
  using ec2_spec_platform_controlled
    [of "object_meta.extend zero_object_meta \<lparr>onc_spec = zero_openshift_ec2_spec, onc_status = zero_openshift_ec2_status\<rparr>"
      demo_upgrading]
  by blast

text \<open>
  A volume size in gibibytes reaches the provider as exactly that many bytes.
\<close>

theorem volume_size_bytes:
  assumes "0 < sint n" "sint n < 2 ^ 33"
  shows "map_option (\<lambda>q. sint (quantity_value q)) (volumeSizeGiBToQuantity n) = Some (sint n * 2 ^ 30)"
proof -
  have bound: "sint n * 2 ^ 30 \<le> 2 ^ 63 - 1"
    using assms by simp
  then have "gibibytes (sint n) = (sint n * 2 ^ 30) * nano"
    unfolding gibibytes_def nano_def by simp
  moreover have "quantity_value ((sint n * 2 ^ 30) * nano) = word_of_int (sint n * 2 ^ 30)"
    using assms by (intro quantity_value_whole) simp_all
  moreover have "sint (word_of_int (sint n * 2 ^ 30) :: int64) = sint n * 2 ^ 30"
    using assms by (intro sint_of_int_64) simp_all
  ultimately show ?thesis
    using assms by (auto simp: volumeSizeGiBToQuantity_def)
qed

theorem volume_size_bytes_witness:
  "map_option (\<lambda>q. sint (quantity_value q)) (volumeSizeGiBToQuantity 120) = Some 128849018880"
  using volume_size_bytes [of 120] by simp

text \<open>
  A grace period is passed on in nanoseconds when it parses and is silently dropped when it
  does not, independently of the order in which the map is ranged over.
\<close>

theorem grace_periods:
  assumes "distinct (map fst es)" "map_of es = fmlookup f"
  shows "fmlookup (grace_loop es fmempty) k =
      (case fmlookup f k of
         None \<Rightarrow> None
       | Some v \<Rightarrow> (case ParseDuration v of Inl e \<Rightarrow> None | Inr d \<Rightarrow> Some d)) \<and>
    evictionSoftGracePeriodToDuration (Some f) = Some (grace_loop es fmempty)"
proof -
  have "grace_loop es fmempty = grace_loop (sorted_list_of_fmap f) fmempty"
    using assms by (intro fmap_ext) (simp add: grace_loop_lookup)
  with assms show ?thesis
    by (simp add: grace_loop_lookup evictionSoftGracePeriodToDuration_def cong: option.case_cong sum.case_cong)
qed

theorem grace_periods_witness:
  "fmlookup (grace_loop [(''memory.available'', ''1m30s''), (''nodefs.available'', ''soon'')] fmempty) ''memory.available''
     = Some 90000000000"
  using grace_periods [of "[(''memory.available'', ''1m30s''), (''nodefs.available'', ''soon'')]"
      "fmap_of_list [(''memory.available'', ''1m30s''), (''nodefs.available'', ''soon'')]" "''memory.available''"]
  by (simp add: fmlookup_of_list fun_eq_iff ParseDuration_examples)

end
