(* ===== verification/Nodeclass_Status.thy ===== *)
theory Nodeclass_Status
  imports Api_Types
begin

text \<open>
  \<open>pkg/controllers/nodeclass/status\<close>: how the conditions of the provider's NodeClass are copied
  to the OpenShift NodeClass, with readiness held back until the release is resolved.
\<close>

section \<open>The code\<close>

text \<open>The loop over the provider's conditions, with the last Ready condition met.\<close>

fun sync_loop :: "int \<Rightarrow> condition list \<Rightarrow> condition list \<times> condition option
    \<Rightarrow> condition list \<times> condition option" where
  "sync_loop now [] (result, providerReady) = (result, providerReady)"
| "sync_loop now (c # cs) (result, providerReady) =
     (if c_type c = ConditionTypeReady then sync_loop now cs (result, Some c)
      else sync_loop now cs (SetStatusCondition now c result, providerReady))"

definition notReady :: "int \<Rightarrow> condition option \<Rightarrow> condition" where
  "notReady gen versionResolved =
     (case versionResolved of
        None \<Rightarrow>
          \<lparr>c_type = ConditionTypeReady, c_status = ConditionFalse, c_observedGeneration = gen,
           c_lastTransitionTime = ZeroTime, c_reason = ConditionReasonResolutionFailed,
           c_message = ''Version resolution status is unknown''\<rparr>
      | Some v \<Rightarrow>
          \<lparr>c_type = ConditionTypeReady, c_status = ConditionFalse, c_observedGeneration = gen,
           c_lastTransitionTime = ZeroTime, c_reason = c_reason v,
           c_message = ''Version resolution failed: '' @ c_message v\<rparr>)"

definition condition_is_true :: "condition option \<Rightarrow> bool" where
  "condition_is_true c = (case c of None \<Rightarrow> False | Some v \<Rightarrow> c_status v = ConditionTrue)"

definition SyncConditions :: "int \<Rightarrow> condition list \<Rightarrow> condition list \<Rightarrow> int \<Rightarrow> condition list" where
  "SyncConditions now conditions providerConditions gen =
     (case sync_loop now providerConditions (conditions, None) of
        (result, providerReady) \<Rightarrow>
          let versionResolved = FindStatusCondition result ConditionTypeVersionResolved in
          if condition_is_true versionResolved
          then (case providerReady of None \<Rightarrow> result | Some c \<Rightarrow> SetStatusCondition now c result)
          else SetStatusCondition now (notReady gen versionResolved) result)"

section \<open>The loop\<close>

lemma condition_is_true_iff: "condition_is_true c \<longleftrightarrow> (\<exists>v. c = Some v \<and> c_status v = ConditionTrue)"
  by (simp add: condition_is_true_def split: option.split)

lemma notReady_simps [simp]:
  "c_type (notReady g v) = ConditionTypeReady" "c_status (notReady g v) = ConditionFalse"
  by (simp_all add: notReady_def split: option.split)

lemma sync_loop_ready:
  "snd (sync_loop now cs (r, p)) =
     (case filter (\<lambda>c. c_type c = ConditionTypeReady) cs of [] \<Rightarrow> p | c # cs' \<Rightarrow> Some (last (c # cs')))"
  by (induction cs arbitrary: r p) (auto split: list.splits)

lemma sync_loop_other:
  "t \<notin> c_type ` set cs \<Longrightarrow> FindStatusCondition (fst (sync_loop now cs (r, p))) t = FindStatusCondition r t"
  by (induction cs arbitrary: r p) (auto simp: find_set_condition_other)

lemma sync_loop_keeps_ready:
  "FindStatusCondition (fst (sync_loop now cs (r, p))) ConditionTypeReady = FindStatusCondition r ConditionTypeReady"
  by (induction cs arbitrary: r p) (auto simp: find_set_condition_other)

lemma sync_loop_distinct:
  "distinct (map c_type r) \<Longrightarrow> distinct (map c_type (fst (sync_loop now cs (r, p))))"
  by (induction cs arbitrary: r p) (auto simp: set_condition_distinct)

lemma sync_loop_ready_type:
  "snd (sync_loop now cs (r, None)) = Some c \<Longrightarrow> c_type c = ConditionTypeReady \<and> c \<in> set cs"
proof -
  assume "snd (sync_loop now cs (r, None)) = Some c"
  then have "c \<in> set (filter (\<lambda>c. c_type c = ConditionTypeReady) cs)"
    by (auto simp: sync_loop_ready simp del: set_filter split: list.splits if_splits)
  then show ?thesis by simp
qed

section \<open>Settled conditions\<close>

text \<open>A condition is settled in a list that already says what it would say.\<close>

definition settled :: "condition list \<Rightarrow> condition \<Rightarrow> bool" where
  "settled cs c \<longleftrightarrow>
     (\<exists>old. FindStatusCondition cs (c_type c) = Some old \<and> c_status old = c_status c \<and>
        c_reason old = c_reason c \<and> c_message old = c_message c \<and>
        c_observedGeneration old = c_observedGeneration c)"

lemma update_first_id: "find p xs = Some x \<Longrightarrow> f x = x \<Longrightarrow> update_first p f xs = xs"
  by (induction xs) (auto split: if_splits)

lemma settled_set_id: "settled cs c \<Longrightarrow> SetStatusCondition now c cs = cs"
  by (auto simp: settled_def SetStatusCondition_def FindStatusCondition_def merge_condition_def
      intro!: update_first_id)

lemma settled_set: "settled (SetStatusCondition now c cs) c"
  by (auto simp: settled_def find_set_condition merge_condition_def split: option.split)

lemma settled_set_other: "c_type d \<noteq> c_type c \<Longrightarrow> settled (SetStatusCondition now d cs) c = settled cs c"
  by (simp add: settled_def find_set_condition_other)

lemma sync_loop_settled_id:
  "(\<And>c. c \<in> set cs \<Longrightarrow> c_type c \<noteq> ConditionTypeReady \<Longrightarrow> settled r c) \<Longrightarrow> fst (sync_loop now cs (r, p)) = r"
  by (induction cs arbitrary: p) (auto simp: settled_set_id)

lemma sync_loop_settled_other:
  "c_type c \<notin> c_type ` set cs \<Longrightarrow> settled (fst (sync_loop now cs (r, p))) c = settled r c"
  by (simp add: settled_def sync_loop_other)

lemma sync_loop_settled:
  "distinct (map c_type cs) \<Longrightarrow> c \<in> set cs \<Longrightarrow> c_type c \<noteq> ConditionTypeReady \<Longrightarrow>
   settled (fst (sync_loop now cs (r, p))) c"
proof (induction cs arbitrary: r p)
  case (Cons d cs)
  show ?case
  proof (cases "c = d")
    case True
    with Cons.prems show ?thesis by (simp add: sync_loop_settled_other settled_set)
  next
    case False
    with Cons show ?thesis by simp
  qed
qed simp

lemma sync_ready_version:
  assumes "FindStatusCondition (SyncConditions now conds provider gen) ConditionTypeReady = Some c"
    and "c_status c = ConditionTrue"
  shows "\<exists>v. FindStatusCondition (SyncConditions now conds provider gen) ConditionTypeVersionResolved = Some v \<and>
    c_status v = ConditionTrue"
proof -
  obtain r p where loop: "sync_loop now provider (conds, None) = (r, p)"
    by fastforce
  let ?v = "FindStatusCondition r ConditionTypeVersionResolved"
  show ?thesis
  proof (cases "condition_is_true ?v")
    case True
    moreover have "c_type d \<noteq> ConditionTypeVersionResolved" if "p = Some d" for d
      using sync_loop_ready_type [of now provider conds d] loop that by simp
    ultimately show ?thesis
      using loop by (auto simp: SyncConditions_def Let_def condition_is_true_iff find_set_condition_other split: option.split)
  next
    case False
    with assms loop find_set_condition_status [of now "notReady gen ?v" r] show ?thesis
      by (auto simp: SyncConditions_def Let_def)
  qed
qed

text \<open>A second pass over its own result changes nothing.\<close>

lemma sync_again:
  assumes "distinct (map c_type provider)"
  shows "SyncConditions later (SyncConditions now conds provider gen) provider gen = SyncConditions now conds provider gen"
proof -
  obtain r p where loop: "sync_loop now provider (conds, None) = (r, p)"
    by fastforce
  let ?v = "FindStatusCondition r ConditionTypeVersionResolved"
  let ?R = "SyncConditions now conds provider gen"
  define final where "final = (if condition_is_true ?v then p else Some (notReady gen ?v))"
  have R: "?R = (case final of None \<Rightarrow> r | Some c \<Rightarrow> SetStatusCondition now c r)"
    using loop by (simp add: SyncConditions_def final_def Let_def)
  have type: "c_type d = ConditionTypeReady" if "final = Some d" for d
    using that sync_loop_ready_type [of now provider conds d] loop by (auto simp: final_def split: if_splits)
  have settled: "settled ?R c" if "c \<in> set provider" "c_type c \<noteq> ConditionTypeReady" for c
    using sync_loop_settled [OF assms that, of now conds None] loop that(2) type
    by (auto simp: R settled_set_other split: option.split)
  then have "fst (sync_loop later provider (?R, None)) = ?R"
    by (rule sync_loop_settled_id)
  moreover have "snd (sync_loop later provider (?R, None)) = p"
    using loop sync_loop_ready [of later provider ?R None] sync_loop_ready [of now provider conds None] by simp
  ultimately have loop2: "sync_loop later provider (?R, None) = (?R, p)"
    by (metis prod.collapse)
  have v: "FindStatusCondition ?R ConditionTypeVersionResolved = ?v"
    using type by (auto simp: R find_set_condition_other split: option.split)
  have "SyncConditions later ?R provider gen = (case final of None \<Rightarrow> ?R | Some c \<Rightarrow> SetStatusCondition later c ?R)"
    unfolding SyncConditions_def [of later ?R] loop2 by (simp add: v final_def Let_def)
  also have "\<dots> = ?R"
    by (auto simp: R settled_set settled_set_id split: option.split)
  finally show ?thesis .
qed

section \<open>Properties\<close>

definition demo_condition :: "string \<Rightarrow> condition_status \<Rightarrow> condition" where
  "demo_condition t s = \<lparr>c_type = t, c_status = s, c_observedGeneration = 1, c_lastTransitionTime = At 10,
     c_reason = ''AsExpected'', c_message = []\<rparr>"

text \<open>
  A NodeClass is never reported ready before its release is resolved: in the synchronized
  conditions Ready is True only if VersionResolved is True.
\<close>

theorem ready_needs_version:
  assumes "FindStatusCondition (SyncConditions now conds provider gen) ConditionTypeReady = Some c"
    and "c_status c = ConditionTrue"
  shows "\<exists>v. FindStatusCondition (SyncConditions now conds provider gen) ConditionTypeVersionResolved = Some v \<and>
    c_status v = ConditionTrue"
  using assms by (rule sync_ready_version)

theorem ready_needs_version_witness:
  "\<exists>v. FindStatusCondition (SyncConditions 20 [demo_condition ConditionTypeVersionResolved ConditionTrue]
        [demo_condition ConditionTypeReady ConditionTrue] 1) ConditionTypeVersionResolved = Some v \<and>
      c_status v = ConditionTrue"
  by (rule ready_needs_version [of _ _ _ _ "demo_condition ConditionTypeReady ConditionTrue"])
    (simp_all add: SyncConditions_def condition_is_true_def demo_condition_def FindStatusCondition_def SetStatusCondition_def)

text \<open>
  The ignition controller's conditions survive. A condition type that the provider does not
  report, other than Ready, is the same before and after; no type appears twice.
\<close>

theorem foreign_conditions_kept:
  assumes "t \<notin> c_type ` set provider" "t \<noteq> ConditionTypeReady" "distinct (map c_type conds)"
  shows "FindStatusCondition (SyncConditions now conds provider gen) t = FindStatusCondition conds t \<and>
    distinct (map c_type (SyncConditions now conds provider gen))"
proof -
  obtain r p where loop: "sync_loop now provider (conds, None) = (r, p)"
    by fastforce
  then have "FindStatusCondition r t = FindStatusCondition conds t" "distinct (map c_type r)"
    using sync_loop_other [OF assms(1), of now conds None] sync_loop_distinct [OF assms(3), of now provider None] by simp_all
  moreover have "c_type d \<noteq> t" if "p = Some d" for d
    using sync_loop_ready_type [of now provider conds d] loop that assms(2) by auto
  ultimately show ?thesis
    using loop assms(2)
    by (auto simp: SyncConditions_def Let_def find_set_condition_other set_condition_distinct split: option.split)
qed

theorem foreign_conditions_kept_witness:
  "FindStatusCondition (SyncConditions 20 [demo_condition ConditionTypeSupportedVersionSkew ConditionFalse]
     [demo_condition ''SubnetsReady'' ConditionTrue] 1) ConditionTypeSupportedVersionSkew =
   Some (demo_condition ConditionTypeSupportedVersionSkew ConditionFalse)"
  using foreign_conditions_kept [of ConditionTypeSupportedVersionSkew "[demo_condition ''SubnetsReady'' ConditionTrue]"
      "[demo_condition ConditionTypeSupportedVersionSkew ConditionFalse]" 20 1]
  by (simp add: demo_condition_def ConditionTypeSupportedVersionSkew_def ConditionTypeReady_def FindStatusCondition_def)

text \<open>
  Synchronizing is idempotent. With one provider condition per type, a second pass over its
  own result changes nothing, at whatever time it runs.
\<close>

theorem SyncConditions_idempotent:
  assumes "distinct (map c_type provider)"
  shows "SyncConditions later (SyncConditions now conds provider gen) provider gen = SyncConditions now conds provider gen"
  using assms by (rule sync_again)

theorem SyncConditions_idempotent_witness:
  "SyncConditions 30 (SyncConditions 20 [] [demo_condition ConditionTypeReady ConditionTrue] 1)
     [demo_condition ConditionTypeReady ConditionTrue] 1 =
   SyncConditions 20 [] [demo_condition ConditionTypeReady ConditionTrue] 1"
  by (rule SyncConditions_idempotent) simp

text \<open>
  An unchanged effective readiness keeps its transition time, although the provider may
  report Ready while the version is not resolved.
\<close>

theorem ready_time_stable:
  assumes "FindStatusCondition conds ConditionTypeReady = Some old"
    and "FindStatusCondition (SyncConditions now conds provider gen) ConditionTypeReady = Some new"
    and "c_status new = c_status old"
  shows "c_lastTransitionTime new = c_lastTransitionTime old"
proof -
  obtain r p where loop: "sync_loop now provider (conds, None) = (r, p)"
    by fastforce
  have r: "FindStatusCondition r ConditionTypeReady = Some old"
    using assms(1) sync_loop_keeps_ready [of now provider conds None] loop by simp
  have set: "c_lastTransitionTime d' = c_lastTransitionTime old"
    if "c_type d = ConditionTypeReady" "FindStatusCondition (SetStatusCondition now d r) ConditionTypeReady = Some d'"
      "c_status d' = c_status old" for d d'
    using that r find_set_condition [of now d r] by (auto simp: merge_condition_def)
  have type: "c_type d = ConditionTypeReady" if "p = Some d" for d
    using sync_loop_ready_type [of now provider conds d] loop that by simp
  show ?thesis
    using assms(2,3) loop r set type
      set [of "notReady gen (FindStatusCondition r ConditionTypeVersionResolved)" new]
    by (auto simp: SyncConditions_def Let_def split: option.splits if_splits)
qed

theorem ready_time_stable_witness:
  "c_lastTransitionTime (hd (SyncConditions 99 [demo_condition ConditionTypeReady ConditionFalse]
     [demo_condition ConditionTypeReady ConditionTrue] 1)) = At 10"
  using ready_time_stable [of "[demo_condition ConditionTypeReady ConditionFalse]"
      "demo_condition ConditionTypeReady ConditionFalse" 99 "[demo_condition ConditionTypeReady ConditionTrue]" 1
      "hd (SyncConditions 99 [demo_condition ConditionTypeReady ConditionFalse] [demo_condition ConditionTypeReady ConditionTrue] 1)"]
  by (simp add: SyncConditions_def condition_is_true_def demo_condition_def FindStatusCondition_def SetStatusCondition_def merge_condition_def)

end
