(* ===== verification/Guarded_Pair.thy ===== *)
theory Guarded_Pair
  imports World
begin

text \<open>
  The pattern both NodeClass controllers follow: an owner (the OpenShift NodeClass) guards a
  child of the same name (the provider's NodeClass) with a finalizer. The owner gets the
  finalizer before the child is created and loses it only when the child is gone. The locale
  proves what each write of a controller does to that invariant, over any two cluster-scoped
  kinds; \<open>Ec2_Nodeclass\<close> and \<open>Azure_Nodeclass\<close> interpret it.
\<close>

definition guarded :: "('w, 'a object_meta_scheme) kind \<Rightarrow> string \<Rightarrow> string \<Rightarrow> 'w \<Rightarrow> bool" where
  "guarded Ko fin n w \<longleftrightarrow> (\<exists>o'. find_obj ([], n) (k_objs Ko w) = Some o' \<and> ContainsFinalizer o' fin)"

definition guard_inv ::
  "('w, 'a object_meta_scheme) kind \<Rightarrow> ('w, 'b object_meta_scheme) kind \<Rightarrow> string \<Rightarrow> 'w \<Rightarrow> bool" where
  "guard_inv Ko Kc fin w \<longleftrightarrow>
     (\<forall>o'\<in>set (k_objs Ko w). namespace o' = []) \<and>
     (\<forall>c\<in>set (k_objs Kc w). namespace c = [] \<and> guarded Ko fin (name c) w)"

text \<open>A merge patch of the finalizers replaces their list.\<close>

definition finalizers_body :: "'a object_meta_scheme \<Rightarrow> 'a object_meta_scheme \<Rightarrow> 'a object_meta_scheme" where
  "finalizers_body changed o' = o'\<lparr>finalizers := finalizers changed\<rparr>"

lemma delete_obj_member: "x \<in> set (delete_obj now key objs) \<Longrightarrow> \<exists>o'\<in>set objs. obj_key o' = obj_key x"
  using delete_obj_keys [of now key objs] by (metis image_iff image_subset_iff set_map)

locale guarded_pair =
  owner: api_kind Ko + child: api_kind Kc
  for Ko :: "('z api_scheme, 'a object_meta_scheme) kind" and Kc :: "('z api_scheme, 'b object_meta_scheme) kind" +
  fixes fin :: string
  assumes child_owner: "k_objs Kc (k_upd Ko f w) = k_objs Kc w"
    and owner_child: "k_objs Ko (k_upd Kc g w) = k_objs Ko w"
    and owner_keep_finalizers: "finalizers (k_keepStatus Ko a b) = finalizers b"
begin

lemma guarded_child [simp]: "guarded Ko fin n (k_upd Kc f w) = guarded Ko fin n w"
  by (simp add: guarded_def owner_child)

lemma guard_faults [simp]:
  "guarded Ko fin n (w\<lparr>api_faults := fs\<rparr>) = guarded Ko fin n w"
  "guard_inv Ko Kc fin (w\<lparr>api_faults := fs\<rparr>) = guard_inv Ko Kc fin w"
  by (simp_all add: guarded_def guard_inv_def owner.objs_faults child.objs_faults)

lemma owner_namespace: "guard_inv Ko Kc fin w \<Longrightarrow> find_obj key (k_objs Ko w) = Some o' \<Longrightarrow> namespace o' = [] \<and> key = ([], name o')"
  by (auto simp: guard_inv_def obj_key_def dest!: find_obj_Some)

text \<open>Writing an owner without taking the finalizer away keeps what it guards.\<close>

lemma guarded_write:
  assumes "find_obj (obj_key new) (k_objs Ko w) = Some old"
    and "ContainsFinalizer old fin \<Longrightarrow> ContainsFinalizer new fin"
    and "guarded Ko fin n w"
  shows "guarded Ko fin n (k_upd Ko (commit_obj new) w)"
proof (cases "obj_key new = ([], n)")
  case True
  with assms have "ContainsFinalizer new fin"
    by (auto simp: guarded_def)
  with True assms(1) show ?thesis
    by (auto simp: guarded_def owner.objs_upd find_commit_obj ContainsFinalizer_def)
next
  case False
  with assms(3) show ?thesis by (auto simp: guarded_def owner.objs_upd find_commit_obj)
qed

lemma inv_write:
  assumes "guard_inv Ko Kc fin w" "find_obj (obj_key new) (k_objs Ko w) = Some old"
    and "\<And>n. \<exists>c\<in>set (k_objs Kc w). name c = n \<Longrightarrow> guarded Ko fin n w \<Longrightarrow> guarded Ko fin n (k_upd Ko (commit_obj new) w)"
  shows "guard_inv Ko Kc fin (k_upd Ko (commit_obj new) w)"
proof -
  have "namespace new = []"
    using owner_namespace [OF assms(1,2)] by (simp add: obj_key_def)
  with assms show ?thesis
    by (auto simp: guard_inv_def owner.objs_upd child_owner dest!: set_commit_obj)
qed

lemma inv_write_kept:
  "guard_inv Ko Kc fin w \<Longrightarrow> find_obj (obj_key new) (k_objs Ko w) = Some old \<Longrightarrow>
   (ContainsFinalizer old fin \<Longrightarrow> ContainsFinalizer new fin) \<Longrightarrow> guard_inv Ko Kc fin (k_upd Ko (commit_obj new) w)"
  by (erule inv_write) (auto intro: guarded_write)

lemma guarded_put:
  assumes "find_obj (obj_key new) (k_objs Ko w) = Some old" "finalizers new = finalizers old"
    and "guarded Ko fin n w"
  shows "guarded Ko fin n (k_upd Ko (put_obj new) w)"
  using assms by (auto simp: guarded_def owner.objs_upd ContainsFinalizer_def)

lemma status_patch_guards:
  "keeps (\<lambda>w. guard_inv Ko Kc fin w \<and> guarded Ko fin n w) (cl_status_patch Ko lock o' body)"
proof (rule keepsI)
  fix w
  assume w: "guard_inv Ko Kc fin w \<and> guarded Ko fin n w"
  show "guard_inv Ko Kc fin (snd (cl_status_patch Ko lock o' body w)) \<and>
    guarded Ko fin n (snd (cl_status_patch Ko lock o' body w))"
  proof (cases rule: owner.status_patch_cases [of lock o' body w])
    case (patched old new fs)
    then have new: "obj_key new = obj_key old" "finalizers new = finalizers old"
      by (simp_all add: owner.keep_key owner_keep_finalizers)
    have "obj_key old = obj_key o'"
      using patched(1) by (auto dest: find_obj_Some)
    with patched(1) new have found: "find_obj (obj_key new) (k_objs Ko w) = Some old"
      by simp
    have "namespace new = []"
      using owner_namespace [of w, OF _ found] w by (simp add: obj_key_def)
    with w guarded_put [of new "w\<lparr>api_faults := fs\<rparr>" old] found new(2) patched(4) show ?thesis
      by (auto simp: guard_inv_def owner.objs_upd owner.objs_faults child.objs_faults child_owner dest!: set_put_obj)
  qed (use w in simp)
qed

text \<open>Creating or updating the child of a guarded name.\<close>

lemma createOrUpdate_guards:
  assumes key: "obj_key c = ([], n)"
  shows "keeps (\<lambda>w. guard_inv Ko Kc fin w \<and> guarded Ko fin n w) (createOrUpdate Kc c f)"
proof (rule child.keeps_createOrUpdate)
  fix w and m :: "'b object_meta_scheme"
  assume "guard_inv Ko Kc fin w \<and> guarded Ko fin n w" "obj_key m = obj_key c"
  with key show "guard_inv Ko Kc fin (k_upd Kc (\<lambda>objs. objs @ [m\<lparr>resourceVersion := 1, deletionTimestamp := None\<rparr>]) w) \<and>
      guarded Ko fin n (k_upd Kc (\<lambda>objs. objs @ [m\<lparr>resourceVersion := 1, deletionTimestamp := None\<rparr>]) w)"
    by (auto simp: guard_inv_def child.objs_upd owner_child obj_key_def)
next
  fix w and m old :: "'b object_meta_scheme"
  assume w: "guard_inv Ko Kc fin w \<and> guarded Ko fin n w" and m: "obj_key m = obj_key c"
  let ?new = "(k_keepStatus Kc old m)\<lparr>resourceVersion := Suc (resourceVersion old)\<rparr>"
  have "obj_key ?new = ([], n)"
    using key m by (simp add: child.keep_key)
  with w show "guard_inv Ko Kc fin (k_upd Kc (commit_obj ?new) w) \<and> guarded Ko fin n (k_upd Kc (commit_obj ?new) w)"
    by (auto simp: guard_inv_def child.objs_upd owner_child obj_key_def dest!: set_commit_obj)
qed simp

lemma delete_child_inv: "guard_inv Ko Kc fin w \<Longrightarrow> guard_inv Ko Kc fin (k_upd Kc (delete_obj now key) w)"
  by (auto simp: guard_inv_def child.objs_upd owner_child obj_key_def dest!: delete_obj_member)

text \<open>The owner is adopted before its child is written, and let go when no child is left.\<close>

lemma adopt_guards:
  assumes "guard_inv Ko Kc fin w" "find_obj (obj_key o') (k_objs Ko w) = Some o'"
  shows "hoare (\<lambda>v. v = w)
    (if \<not> ContainsFinalizer o' fin then
       wrapE f as (cl_patch Ko True o' (finalizers_body (AddFinalizer fin o')))
     else ret o')
    (\<lambda>a v. guard_inv Ko Kc fin v \<and> guarded Ko fin (name a) v) (guard_inv Ko Kc fin)"
proof (cases "ContainsFinalizer o' fin")
  case True
  with assms owner_namespace [OF assms] show ?thesis
    by (auto simp: hoare_def guarded_def)
next
  case False
  have "hoare (\<lambda>v. v = w) (cl_patch Ko True o' (finalizers_body (AddFinalizer fin o')))
      (\<lambda>a v. guard_inv Ko Kc fin v \<and> guarded Ko fin (name a) v) (guard_inv Ko Kc fin)"
  proof (cases rule: owner.patch_cases [of True o' "finalizers_body (AddFinalizer fin o')" w])
    case (failed e fs)
    with assms show ?thesis by (simp add: hoare_def)
  next
    case (patched old new fs)
    let ?w = "w\<lparr>api_faults := fs\<rparr>"
    have old: "obj_key old = obj_key o'"
      using patched(1) by (auto dest: find_obj_Some)
    have new: "obj_key new = obj_key old" "ContainsFinalizer new fin"
      using patched(4) contains_add [of fin o']
      by (simp_all add: owner.keep_key owner.keep_finalizers finalizers_body_def ContainsFinalizer_def del: contains_add)
    have found: "find_obj (obj_key new) (k_objs Ko ?w) = Some old"
      using patched(1) old new(1) by (simp add: owner.objs_faults)
    have inv: "guard_inv Ko Kc fin (k_upd Ko (commit_obj new) ?w)"
      using assms(1) found new(2) by (intro inv_write_kept [of _ _ old]) simp_all
    have "obj_key new = ([], name new)"
      using owner_namespace [of ?w, OF _ found] assms(1) by (simp add: obj_key_def)
    then have "guarded Ko fin (name new) (k_upd Ko (commit_obj new) ?w)"
      using found new(2) by (auto simp: guarded_def owner.objs_upd find_commit_obj ContainsFinalizer_def)
    with inv patched(5) show ?thesis by (simp add: hoare_def)
  qed
  with False show ?thesis by (simp add: hoare_wrapE)
qed

lemma release_inv:
  assumes inv: "guard_inv Ko Kc fin w" and gone: "find_obj ([], name o') (k_objs Kc w) = None"
    and ns: "namespace o' = []"
  shows "guard_inv Ko Kc fin (snd (cl_patch Ko True o' (finalizers_body (RemoveFinalizer fin o')) w))"
proof (cases rule: owner.patch_cases [of True o' "finalizers_body (RemoveFinalizer fin o')" w])
  case (failed e fs)
  with inv show ?thesis by simp
next
  case (patched old new fs)
  let ?w = "w\<lparr>api_faults := fs\<rparr>"
  have old: "obj_key old = obj_key o'"
    using patched(1) by (auto dest: find_obj_Some)
  have new: "obj_key new = obj_key o'"
    using patched(4) old by (simp add: owner.keep_key finalizers_body_def)
  have other: "n \<noteq> name o'" if "\<exists>c\<in>set (k_objs Kc w). name c = n" for n
    using that gone inv by (auto simp: find_obj_None_iff guard_inv_def obj_key_def image_iff)
  have "guard_inv Ko Kc fin (k_upd Ko (commit_obj new) ?w)"
  proof (rule inv_write)
    show "guard_inv Ko Kc fin ?w" "find_obj (obj_key new) (k_objs Ko ?w) = Some old"
      using inv patched(1) new by (simp_all add: owner.objs_faults)
    fix n
    assume "\<exists>c\<in>set (k_objs Kc ?w). name c = n" "guarded Ko fin n ?w"
    with other [of n] new ns show "guarded Ko fin n (k_upd Ko (commit_obj new) ?w)"
      by (auto simp: guarded_def owner.objs_upd owner.objs_faults child.objs_faults find_commit_obj obj_key_def)
  qed
  with patched show ?thesis by simp
qed

text \<open>What others may do: create, write and delete owners, change or drop children.\<close>

lemma inv_owner_created:
  "guard_inv Ko Kc fin w \<Longrightarrow> find_obj (obj_key o') (k_objs Ko w) = None \<Longrightarrow> namespace o' = [] \<Longrightarrow>
   guard_inv Ko Kc fin (k_upd Ko (\<lambda>os. os @ [o']) w)"
  by (auto simp: guard_inv_def guarded_def owner.objs_upd child_owner find_obj_append)

lemma inv_owner_deleted:
  assumes inv: "guard_inv Ko Kc fin w"
  shows "guard_inv Ko Kc fin (k_upd Ko (delete_obj now key) w)"
proof -
  have "guarded Ko fin n (k_upd Ko (delete_obj now key) w)" if "guarded Ko fin n w" for n
    using that
    by (auto simp: guarded_def owner.objs_upd delete_obj_def ContainsFinalizer_def split: option.split dest: find_obj_Some)
  moreover have "namespace x = []" if "x \<in> set (delete_obj now key (k_objs Ko w))" for x
    using delete_obj_member [OF that] inv by (auto simp: guard_inv_def obj_key_def)
  ultimately show ?thesis
    using inv by (simp add: guard_inv_def owner.objs_upd child_owner)
qed

lemma inv_children:
  assumes inv: "guard_inv Ko Kc fin w" and sub: "set (map obj_key cs) \<subseteq> set (map obj_key (k_objs Kc w))"
  shows "guard_inv Ko Kc fin (k_upd Kc (\<lambda>_. cs) w)"
proof -
  have "namespace c = [] \<and> guarded Ko fin (name c) w" if "c \<in> set cs" for c
  proof -
    have "obj_key c \<in> set (map obj_key (k_objs Kc w))"
      using that sub by auto
    then obtain c' where "c' \<in> set (k_objs Kc w)" "obj_key c = obj_key c'"
      by auto
    with inv show ?thesis by (simp add: guard_inv_def obj_key_def)
  qed
  with inv show ?thesis by (simp add: guard_inv_def child.objs_upd owner_child)
qed

end

end
