(* ===== verification/Ec2_Nodeclass.thy ===== *)
theory Ec2_Nodeclass
  imports Ec2_Spec Nodeclass_Status Guarded_Pair
begin

text \<open>
  \<open>pkg/controllers/nodeclass/ec2/controller.go\<close>: the controller that keeps one EC2NodeClass per
  OpenshiftEC2NodeClass, with a finalizer that holds the latter until the former is gone, and
  copies the status back.
\<close>

section \<open>Status\<close>

definition ec2_finalizer :: string where
  "ec2_finalizer = ''hypershift.openshift.io/ec2-nodeclass-finalizer''"

text \<open>Slicing the first byte of the empty string panics.\<close>

definition upstreamInstanceMatchCriteria :: "string \<Rightarrow> error + string" where
  "upstreamInstanceMatchCriteria v =
     (case v of
        [] \<Rightarrow> Inl (Panic ''slice bounds out of range [:1] with length 0'')
      | c # cs \<Rightarrow> Inr (to_upper [c] @ cs))"

definition upstreamReservationType :: "string \<Rightarrow> string" where
  "upstreamReservationType v =
     (if v = ''capacity-block'' then CapacityReservationTypeCapacityBlock else CapacityReservationTypeDefault)"

definition upstreamReservationState :: "string \<Rightarrow> string" where
  "upstreamReservationState v =
     (if v = ''expiring'' then CapacityReservationStateExpiring else CapacityReservationStateActive)"

definition resolved_reservation :: "ec2_capacity_reservation \<Rightarrow> error + capacity_reservation" where
  "resolved_reservation cr =
     (case upstreamInstanceMatchCriteria (ecr_instanceMatchCriteria cr) of
        Inl e \<Rightarrow> Inl e
      | Inr criteria \<Rightarrow> Inr
          \<lparr>cr_availabilityZone = ecr_availabilityZone cr,
           cr_endTime = (case ecr_endTime cr of None \<Rightarrow> ZeroTime | Some t \<Rightarrow> t),
           cr_id = ecr_id cr,
           cr_instanceMatchCriteria = criteria,
           cr_instanceType = ecr_instanceType cr,
           cr_ownerID = ecr_ownerID cr,
           cr_reservationType = upstreamReservationType (ecr_reservationType cr),
           cr_state = upstreamReservationState (ecr_state cr)\<rparr>)"

fun reservations_loop :: "ec2_capacity_reservation list \<Rightarrow> capacity_reservation list \<Rightarrow> error + capacity_reservation list" where
  "reservations_loop [] resolved = Inr resolved"
| "reservations_loop (cr # crs) resolved =
     (case resolved_reservation cr of
        Inl e \<Rightarrow> Inl e
      | Inr r \<Rightarrow> reservations_loop crs (resolved @ [r]))"

text \<open>The status that \<open>reconcileStatus\<close> computes for the NodeClass.\<close>

definition synced_status ::
  "int \<Rightarrow> ec2_node_class \<Rightarrow> openshift_ec2_node_class \<Rightarrow> hosted_control_plane \<Rightarrow> error + openshift_ec2_status" where
  "synced_status now ec2NodeClass nodeClass hcp =
     (let old = onc_status nodeClass; st = enc_status ec2NodeClass in
      case reservations_loop (es_capacityReservations st) [] of
        Inl e \<Rightarrow> Inl e
      | Inr reservations \<Rightarrow>
          let conditions = SyncConditions now (ost_conditions old) (es_conditions st) (generation nodeClass) in
          Inr (old\<lparr>ost_securityGroups := map (\<lambda>sg. \<lparr>sg_id = sg_id sg, sg_name = sg_name sg\<rparr>) (es_securityGroups st),
                   ost_subnets := map (\<lambda>s. \<lparr>sn_id = sn_id s, sn_zone = sn_zone s, sn_zoneID = sn_zoneID s\<rparr>) (es_subnets st),
                   ost_capacityReservations := reservations,
                   ost_conditions := setAWSResourceTagConflictCondition now nodeClass hcp conditions\<rparr>))"

text \<open>
  \<open>reflect.DeepEqual\<close> tells the empty slices the controller makes from the nil ones it read, so a
  NodeClass without subnets or security groups is patched even when nothing else changed.
\<close>

definition ec2_reconcileStatus ::
  "ec2_node_class \<Rightarrow> openshift_ec2_node_class \<Rightarrow> hosted_control_plane \<Rightarrow> (world, unit) io" where
  "ec2_reconcileStatus ec2NodeClass nodeClass hcp =
     bindE nowE (\<lambda>now.
     bindE (liftE (synced_status now ec2NodeClass nodeClass hcp)) (\<lambda>status.
     if status \<noteq> onc_status nodeClass \<or> ost_securityGroups status = [] \<or> ost_subnets status = [] then
       bindE (wrapE ''updating status: %w'' []
                (cl_status_patch OpenshiftEC2 True nodeClass (\<lambda>o'. o'\<lparr>onc_status := status\<rparr>))) (\<lambda>_. ret ())
     else ret ()))"

section \<open>Reconcile\<close>

definition deleteIfNeeded :: "object_key \<Rightarrow> (world, bool) io" where
  "deleteIfNeeded key =
     handleE (cl_get EC2 key)
       (\<lambda>err. if is_not_found err \<or> is_no_match err then ret False
              else raise (Wrap ''getting %T: %w'' [] err))
       (\<lambda>o'.
          if deletionTimestamp o' \<noteq> None then ret True
          else handleE (cl_delete EC2 key)
            (\<lambda>err. if is_not_found err then ret False else raise (Wrap ''deleting %T: %w'' [] err))
            (\<lambda>_. ret True))"

definition new_ec2_node_class :: "string \<Rightarrow> ec2_node_class" where
  "new_ec2_node_class n =
     object_meta.extend (zero_object_meta\<lparr>name := n\<rparr>) \<lparr>enc_spec = zero_ec2_spec, enc_status = zero_ec2_status\<rparr>"

definition ec2_mutate ::
  "openshift_ec2_node_class \<Rightarrow> hosted_control_plane \<Rightarrow> secret \<Rightarrow> ec2_node_class \<Rightarrow> error + ec2_node_class" where
  "ec2_mutate nodeClass hcp userDataSecret ec2NodeClass =
     (case reconcileEC2NodeClassRelease (ec2NodeClassSpec nodeClass hcp) (enc_spec ec2NodeClass)
             (os_version (onc_spec nodeClass)) hcp userDataSecret of
        Inl e \<Rightarrow> Inl e
      | Inr spec \<Rightarrow>
          SetControllerReference ''karpenter.hypershift.openshift.io/v1'' ''OpenshiftEC2NodeClass'' nodeClass
            (ec2NodeClass\<lparr>enc_spec := spec\<rparr>))"

definition reconcileEC2NodeClass ::
  "openshift_ec2_node_class \<Rightarrow> hosted_control_plane \<Rightarrow> secret \<Rightarrow> (world, ec2_node_class) io" where
  "reconcileEC2NodeClass nodeClass hcp userDataSecret =
     bindE (createOrUpdate EC2 (new_ec2_node_class (name nodeClass)) (ec2_mutate nodeClass hcp userDataSecret))
       (\<lambda>(op, ec2NodeClass). ret ec2NodeClass)"

definition ec2_reconcileDelete :: "openshift_ec2_node_class \<Rightarrow> (world, ctrl_result) io" where
  "ec2_reconcileDelete nodeClass =
     bindE (deleteIfNeeded (namespace nodeClass, name nodeClass)) (\<lambda>exists.
     if exists then ret (Result0\<lparr>requeueAfter := second_ns * 5\<rparr>)
     else if ContainsFinalizer nodeClass ec2_finalizer then
       bindE (wrapE ''removing finalizer from openshiftEC2NodeClass: %w'' []
         (cl_patch OpenshiftEC2 True nodeClass (finalizers_body (RemoveFinalizer ec2_finalizer nodeClass)))) (\<lambda>_.
       ret Result0)
     else ret Result0)"

definition ec2_reconcileLive ::
  "string \<Rightarrow> hosted_control_plane \<Rightarrow> openshift_ec2_node_class \<Rightarrow> (world, ctrl_result) io" where
  "ec2_reconcileLive ns hcp nodeClass =
     handleE (GetUserDataSecret ns (name nodeClass))
       (\<lambda>err. if errors_is err ErrUserDataSecretNotFound then ret (Result0\<lparr>requeueAfter := second_ns * 1\<rparr>) else raise err)
       (\<lambda>userDataSecret.
          bindE (reconcileEC2NodeClass nodeClass hcp userDataSecret) (\<lambda>ec2NodeClass.
          bindE (ec2_reconcileStatus ec2NodeClass nodeClass hcp) (\<lambda>_.
          ret Result0)))"

definition ec2_Reconcile :: "string \<Rightarrow> object_key \<Rightarrow> (world, ctrl_result) io" where
  "ec2_Reconcile ns req =
     handleE (GetHostedControlPlane ns)
       (\<lambda>err. if errors_is err ErrHostedControlPlaneNotFound then ret Result0 else raise err)
       (\<lambda>hcp.
          if core_e2e_override hcp then ret Result0
          else handleE (cl_get OpenshiftEC2 req)
            (\<lambda>err. if is_not_found err then ret Result0
                   else raise (Wrap ''getting openshiftEC2NodeClass: %w'' [] err))
            (\<lambda>nodeClass.
               if \<not> time_is_zero (deletionTimestamp nodeClass) then ec2_reconcileDelete nodeClass
               else bindE
                 (if \<not> ContainsFinalizer nodeClass ec2_finalizer then
                    wrapE ''adding finalizer to openshiftEC2NodeClass: %w'' []
                      (cl_patch OpenshiftEC2 True nodeClass (finalizers_body (AddFinalizer ec2_finalizer nodeClass)))
                  else ret nodeClass)
                 (\<lambda>nodeClass'. ec2_reconcileLive ns hcp nodeClass')))"

section \<open>Watches\<close>

definition awsResourceTags :: "hosted_control_plane \<Rightarrow> aws_resource_tag list" where
  "awsResourceTags hcp = (case hcp_awsPlatform hcp of None \<Rightarrow> [] | Some tags \<Rightarrow> tags)"

definition ec2_hcpPredicate :: "hosted_control_plane watch_event \<Rightarrow> bool" where
  "ec2_hcpPredicate ev =
     (case ev of
        CreateEvent h \<Rightarrow> True
      | UpdateEvent old new \<Rightarrow>
          sm_get (annotations old) AWSKarpenterDefaultInstanceProfile
            \<noteq> sm_get (annotations new) AWSKarpenterDefaultInstanceProfile \<or>
          awsResourceTags old \<noteq> awsResourceTags new \<or>
          ControlPlaneVersionChanged old new
      | DeleteEvent h \<Rightarrow> False
      | GenericEvent h \<Rightarrow> False)"

definition mapToOpenShiftEC2NodeClasses :: "(world, object_key list) io" where
  "mapToOpenShiftEC2NodeClasses =
     handleE (cl_list OpenshiftEC2 (\<lambda>_. True)) (\<lambda>err. ret [])
       (\<lambda>items. ret (map (\<lambda>nc. (namespace nc, name nc)) items))"

section \<open>The finalizer protocol\<close>

text \<open>
  Every EC2NodeClass is guarded: the OpenshiftEC2NodeClass of its name exists and carries the
  finalizer. Both kinds are cluster-scoped.
\<close>

abbreviation ec2_guarded :: "string \<Rightarrow> world \<Rightarrow> bool" where
  "ec2_guarded \<equiv> guarded OpenshiftEC2 ec2_finalizer"

abbreviation ec2_inv :: "world \<Rightarrow> bool" where
  "ec2_inv \<equiv> guard_inv OpenshiftEC2 EC2 ec2_finalizer"

interpretation ec2_pair: guarded_pair OpenshiftEC2 EC2 ec2_finalizer
  by unfold_locales (simp_all add: OpenshiftEC2_def EC2_def)

lemma reconcileEC2NodeClass_guards:
  "keeps (\<lambda>w. ec2_inv w \<and> ec2_guarded (name nc) w) (reconcileEC2NodeClass nc hcp s)"
proof -
  have "obj_key (new_ec2_node_class (name nc)) = ([], name nc)"
    by (simp add: new_ec2_node_class_def object_meta.defs obj_key_def zero_object_meta_def)
  from ec2_pair.createOrUpdate_guards [OF this] show ?thesis
    unfolding reconcileEC2NodeClass_def by (intro hoare_intros) auto
qed

lemma ec2_reconcileLive_guards:
  "keeps (\<lambda>w. ec2_inv w \<and> ec2_guarded (name nc) w) (ec2_reconcileLive ns hcp nc)"
proof -
  have "keeps (\<lambda>w. ec2_inv w \<and> ec2_guarded (name nc) w) (GetUserDataSecret ns (name nc))"
    unfolding GetUserDataSecret_def Let_def by (intro hoare_intros keeps_cl_list) simp_all
  then show ?thesis
    unfolding ec2_reconcileLive_def ec2_reconcileStatus_def
    by (intro hoare_intros reconcileEC2NodeClass_guards ec2_pair.status_patch_guards) simp_all
qed

text \<open>Deleting: \<open>False\<close> is only answered when the EC2NodeClass is gone.\<close>

lemma deleteIfNeeded_cases:
  assumes "honest w"
  obtains (gone) fs where "deleteIfNeeded key w = (Inr False, w\<lparr>api_faults := fs\<rparr>)" "find_obj key (w_ec2 w) = None"
  | (kept) r fs where "deleteIfNeeded key w = (r, w\<lparr>api_faults := fs\<rparr>)" "r \<noteq> Inr False"
  | (deleting) fs where "deleteIfNeeded key w = (Inr True, w_ec2_update (delete_obj (api_now w) key) (w\<lparr>api_faults := fs\<rparr>))"
proof (cases rule: cl_get_cases [of EC2 key w])
  case (fault e fs)
  with get_error_honest [OF assms fault] show ?thesis
    by (cases "e = NotFound \<or> e = NoMatch") (auto simp: deleteIfNeeded_def io_simps intro: gone kept)
next
  case (missing fs)
  then show ?thesis by (intro gone [of fs]) (simp_all add: deleteIfNeeded_def io_simps)
next
  case (found e fs)
  have honest: "honest (w\<lparr>api_faults := fs\<rparr>)"
    using keepsD [OF honest_get assms, of EC2 key] found by simp
  show ?thesis
  proof (cases "deletionTimestamp e = None")
    case False
    with found show ?thesis by (intro kept [of "Inr True" fs]) (simp_all add: deleteIfNeeded_def io_simps)
  next
    case True
    show ?thesis
    proof (cases rule: ec2.delete_cases [of key "w\<lparr>api_faults := fs\<rparr>"])
      case (failed err fs')
      have "\<not> is_not_found err"
        using ec2.delete_error_honest [OF honest failed] found by auto
      with failed found True show ?thesis
        by (intro kept [of "Inl (Wrap ''deleting %T: %w'' [] err)" fs']) (simp_all add: deleteIfNeeded_def io_simps)
    next
      case (deleted old fs')
      with found True show ?thesis
        by (intro deleting [of fs']) (simp add: deleteIfNeeded_def io_simps)
    qed
  qed
qed

lemma ec2_reconcileDelete_inv:
  assumes "honest w" "ec2_inv w" "namespace nc = []"
  shows "ec2_inv (snd (ec2_reconcileDelete nc w))"
  using assms(1)
proof (cases rule: deleteIfNeeded_cases [of w "([], name nc)"])
  case (kept r fs)
  with assms show ?thesis
    by (auto simp: ec2_reconcileDelete_def io_simps split: sum.splits)
next
  case (deleting fs)
  with assms ec2_pair.delete_child_inv [of "w\<lparr>api_faults := fs\<rparr>" "api_now w"] show ?thesis
    by (simp add: ec2_reconcileDelete_def io_simps)
next
  case (gone fs)
  with assms ec2_pair.release_inv [of "w\<lparr>api_faults := fs\<rparr>" nc] show ?thesis
    by (auto simp: ec2_reconcileDelete_def io_simps split: prod.splits sum.splits)
qed

lemma ec2_Reconcile_inv:
  assumes "honest w" "ec2_inv w"
  shows "ec2_inv (snd (ec2_Reconcile ns req w))"
proof (cases rule: GetHostedControlPlane_cases [of ns w])
  case (failed e fs)
  with assms show ?thesis by (simp add: ec2_Reconcile_def io_simps)
next
  case (found hcp fs)
  let ?w = "w\<lparr>api_faults := fs\<rparr>"
  have honest1: "honest ?w"
  proof -
    have "keeps honest (GetHostedControlPlane ns)"
      unfolding GetHostedControlPlane_def by (intro hoare_intros honest_list) simp_all
    from keepsD [OF this assms(1)] found show ?thesis by simp
  qed
  show ?thesis
  proof (cases rule: cl_get_cases [of OpenshiftEC2 req ?w])
    case (fault e fs')
    with found assms show ?thesis by (simp add: ec2_Reconcile_def io_simps)
  next
    case (missing fs')
    with found assms show ?thesis by (simp add: ec2_Reconcile_def io_simps)
  next
    case get: (found nc fs')
    let ?v = "w\<lparr>api_faults := fs'\<rparr>"
    have honest2: "honest ?v"
      using keepsD [OF honest_get honest1, of OpenshiftEC2 req] get by simp
    have stored: "find_obj (obj_key nc) (w_openshiftEC2 ?v) = Some nc" "namespace nc = []"
      using get(2) assms(2) ec2_pair.owner_namespace [of ?v req nc] by (auto simp: obj_key_def)
    have inv: "ec2_inv ?v" using assms(2) by simp
    show ?thesis
    proof (cases "core_e2e_override hcp \<or> \<not> time_is_zero (deletionTimestamp nc)")
      case True
      with found get assms ec2_reconcileDelete_inv [OF honest2 inv stored(2)] show ?thesis
        by (auto simp: ec2_Reconcile_def io_simps)
    next
      case False
      let ?adopt = "if \<not> ContainsFinalizer nc ec2_finalizer then
         wrapE ''adding finalizer to openshiftEC2NodeClass: %w'' []
           (cl_patch OpenshiftEC2 True nc (finalizers_body (AddFinalizer ec2_finalizer nc)))
         else ret nc"
      have live: "hoare (\<lambda>v. ec2_inv v \<and> ec2_guarded (name nc') v) (ec2_reconcileLive ns hcp nc') (\<lambda>_. ec2_inv) ec2_inv" for nc'
        by (rule hoare_weaken [OF ec2_reconcileLive_guards]) auto
      have "hoare (\<lambda>v. v = ?v) (bindE ?adopt (\<lambda>nc'. ec2_reconcileLive ns hcp nc')) (\<lambda>_. ec2_inv) ec2_inv"
        by (rule hoare_bindE, rule ec2_pair.adopt_guards [of ?v nc, unfolded k_objs_simps, OF inv stored(1)], rule live)
      then have "ec2_inv (snd (bindE ?adopt (\<lambda>nc'. ec2_reconcileLive ns hcp nc') ?v))"
        by (auto simp: hoare_def split: prod.splits sum.splits)
      with found get False show ?thesis
        by (simp add: ec2_Reconcile_def handleE_run)
    qed
  qed
qed

section \<open>The controller among the others\<close>

text \<open>
  One step around the controller: a reconcile of any NodeClass with any honest answers; a user
  creates, writes or deletes OpenshiftEC2NodeClasses without touching the finalizer; Karpenter
  writes existing EC2NodeClasses, and lets deleted ones go; everything else may change freely.
  Only the operator creates EC2NodeClasses (its admission policy denies it to anybody else).
\<close>

inductive ec2_step :: "string \<Rightarrow> world \<Rightarrow> world \<Rightarrow> bool" for ns where
  reconcile: "honest w \<Longrightarrow> ec2_step ns w (snd (ec2_Reconcile ns req w))"
| answers: "ec2_step ns w (w\<lparr>api_faults := fs\<rparr>)"
| elsewhere: "ec2_step ns w (w\<lparr>api_now := t, w_hcps := hs, w_secrets := ss, w_nodeClaims := cs\<rparr>)"
| user_create: "find_obj (obj_key nc) (w_openshiftEC2 w) = None \<Longrightarrow> namespace nc = [] \<Longrightarrow>
    ec2_step ns w (w_openshiftEC2_update (\<lambda>ncs. ncs @ [nc]) w)"
| user_write: "find_obj (obj_key nc) (w_openshiftEC2 w) = Some old \<Longrightarrow>
    (ContainsFinalizer old ec2_finalizer \<Longrightarrow> ContainsFinalizer nc ec2_finalizer) \<Longrightarrow>
    ec2_step ns w (w_openshiftEC2_update (commit_obj nc) w)"
| user_delete: "ec2_step ns w (w_openshiftEC2_update (delete_obj (api_now w) key) w)"
| karpenter: "set (map obj_key es) \<subseteq> set (map obj_key (w_ec2 w)) \<Longrightarrow> ec2_step ns w (w_ec2_update (\<lambda>_. es) w)"

lemma ec2_step_inv:
  assumes "ec2_step ns w w'" "ec2_inv w"
  shows "ec2_inv w'"
  using assms(1)
proof cases
  case (reconcile req)
  with assms ec2_Reconcile_inv show ?thesis by blast
next
  case (user_create nc)
  with assms ec2_pair.inv_owner_created [of w nc] show ?thesis by simp
next
  case (user_write nc old)
  with assms ec2_pair.inv_write_kept [of w nc old] show ?thesis by simp
next
  case (user_delete key)
  with assms ec2_pair.inv_owner_deleted [of w] show ?thesis by simp
next
  case (karpenter es)
  with assms ec2_pair.inv_children [of w es] show ?thesis by simp
qed (use assms in \<open>simp_all add: guard_inv_def guarded_def\<close>)

section \<open>The status\<close>

lemma reservations_loop_Inr:
  "(\<And>cr. cr \<in> set crs \<Longrightarrow> ecr_instanceMatchCriteria cr \<noteq> []) \<Longrightarrow>
   \<exists>rs. reservations_loop crs acc = Inr (acc @ rs) \<and> list_all2 (\<lambda>cr r. resolved_reservation cr = Inr r) crs rs"
proof (induction crs arbitrary: acc)
  case (Cons cr crs)
  from Cons.prems have "ecr_instanceMatchCriteria cr \<noteq> []" by simp
  then have "\<exists>r. resolved_reservation cr = Inr r"
    by (cases "ecr_instanceMatchCriteria cr") (simp_all add: resolved_reservation_def upstreamInstanceMatchCriteria_def)
  then obtain r where r: "resolved_reservation cr = Inr r" by blast
  from Cons.IH [of "acc @ [r]"] Cons.prems obtain rs where
    "reservations_loop crs (acc @ [r]) = Inr ((acc @ [r]) @ rs)" "list_all2 (\<lambda>cr r. resolved_reservation cr = Inr r) crs rs"
    by auto
  with r show ?case by (intro exI [of _ "r # rs"]) simp
qed simp

lemma conflict_condition_type [simp]: "c_type (conflict_condition g c) = NodePoolAWSResourceTagConflictConditionType"
  by (simp add: conflict_condition_def split: prod.split)

lemma tag_conflict_other:
  "t \<noteq> NodePoolAWSResourceTagConflictConditionType \<Longrightarrow>
   FindStatusCondition (setAWSResourceTagConflictCondition now nc hcp cs) t = FindStatusCondition cs t"
  by (simp add: setAWSResourceTagConflictCondition_def find_set_condition_other find_remove_condition)

lemma synced_status_Inr:
  assumes "synced_status now e nc hcp = Inr s"
  shows "ost_releaseImage s = ost_releaseImage (onc_status nc)" "ost_version s = ost_version (onc_status nc)"
    "ost_conditions s = setAWSResourceTagConflictCondition now nc hcp
       (SyncConditions now (ost_conditions (onc_status nc)) (es_conditions (enc_status e)) (generation nc))"
  using assms by (auto simp: synced_status_def Let_def split: sum.splits)

section \<open>Properties\<close>

definition demo_nodeclass :: openshift_ec2_node_class where
  "demo_nodeclass = object_meta.extend
     (zero_object_meta\<lparr>name := ''default'', uid := ''u1'', resourceVersion := 3, finalizers := [ec2_finalizer]\<rparr>)
     \<lparr>onc_spec = zero_openshift_ec2_spec, onc_status = zero_openshift_ec2_status\<rparr>"

definition demo_ec2 :: ec2_node_class where
  "demo_ec2 = new_ec2_node_class ''default''"

definition demo_ec2_world :: world where
  "demo_ec2_world = empty_world\<lparr>w_openshiftEC2 := [demo_nodeclass], w_ec2 := [demo_ec2]\<rparr>"

lemma demo_ec2_inv: "ec2_inv demo_ec2_world"
  by (simp add: guard_inv_def guarded_def demo_ec2_world_def empty_world_def demo_nodeclass_def demo_ec2_def
      new_ec2_node_class_def object_meta.defs zero_object_meta_def obj_key_def ContainsFinalizer_def)

text \<open>
  C2: no EC2NodeClass outlives its guard. In every state reachable from one where it holds, by
  reconciles with honest answers and by the other actors in any order, each EC2NodeClass has the
  OpenshiftEC2NodeClass of its name, and that one carries the finalizer.
\<close>

theorem ec2_node_class_guarded:
  assumes "(ec2_step ns)\<^sup>*\<^sup>* w0 w" "ec2_inv w0" "e \<in> set (w_ec2 w)"
  shows "\<exists>nc. find_obj ([], name e) (w_openshiftEC2 w) = Some nc \<and> ContainsFinalizer nc ec2_finalizer"
proof -
  have "ec2_inv w"
    using assms(1,2) by (induction rule: rtranclp_induct) (auto intro: ec2_step_inv)
  with assms(3) show ?thesis by (simp add: guard_inv_def guarded_def)
qed

theorem ec2_node_class_guarded_witness:
  "\<exists>nc. find_obj ([], name demo_ec2) (w_openshiftEC2 (snd (ec2_Reconcile ''clusters-a'' ([], ''default'') demo_ec2_world))) = Some nc \<and>
    ContainsFinalizer nc ec2_finalizer"
proof (rule ec2_node_class_guarded)
  have step: "ec2_step ''clusters-a'' demo_ec2_world (snd (ec2_Reconcile ''clusters-a'' ([], ''default'') demo_ec2_world))"
    by (rule ec2_step.reconcile) (simp add: demo_ec2_world_def empty_world_def)
  then show "(ec2_step ''clusters-a'')\<^sup>*\<^sup>* demo_ec2_world (snd (ec2_Reconcile ''clusters-a'' ([], ''default'') demo_ec2_world))"
    by (rule r_into_rtranclp)
  show "ec2_inv demo_ec2_world" by (rule demo_ec2_inv)
  show "demo_ec2 \<in> set (w_ec2 (snd (ec2_Reconcile ''clusters-a'' ([], ''default'') demo_ec2_world)))"
    by (simp add: ec2_Reconcile_def io_simps GetHostedControlPlane_no_faults demo_ec2_world_def empty_world_def)
qed



text \<open>
  The two spellings of the match criteria correspond: what the spec sends in lower case
  comes back from the status in the API's spelling.
\<close>

theorem match_criteria_roundtrip:
  assumes "v \<in> {InstanceMatchCriteriaOpen, InstanceMatchCriteriaTargeted}"
  shows "upstreamInstanceMatchCriteria
    (crst_instanceMatchCriteria (hd (karpenterCapacityReservationSelectorTermsFromNodeClassSpec
       (spec\<lparr>os_capacityReservationSelectorTerms := Some (t\<lparr>crst_instanceMatchCriteria := v\<rparr> # ts)\<rparr>)))) = Inr v"
proof -
  have "upstreamInstanceMatchCriteria (to_lower ''Open'') = Inr ''Open''"
    "upstreamInstanceMatchCriteria (to_lower ''Targeted'') = Inr ''Targeted''"
    by code_simp+
  with assms show ?thesis
    by (auto simp: karpenterCapacityReservationSelectorTermsFromNodeClassSpec_def
        InstanceMatchCriteriaOpen_def InstanceMatchCriteriaTargeted_def)
qed

theorem match_criteria_roundtrip_witness:
  "upstreamInstanceMatchCriteria
    (crst_instanceMatchCriteria (hd (karpenterCapacityReservationSelectorTermsFromNodeClassSpec
       (zero_openshift_ec2_spec\<lparr>os_capacityReservationSelectorTerms :=
          Some [\<lparr>crst_tags = None, crst_id = [], crst_ownerID = [], crst_instanceMatchCriteria = InstanceMatchCriteriaOpen\<rparr>]\<rparr>))))
     = Inr InstanceMatchCriteriaOpen"
  using match_criteria_roundtrip [of InstanceMatchCriteriaOpen
      "\<lparr>crst_tags = None, crst_id = [], crst_ownerID = [], crst_instanceMatchCriteria = InstanceMatchCriteriaOpen\<rparr>" "[]"
      zero_openshift_ec2_spec]
  by simp

text \<open>
  The HostedControlPlane predicate loses no change. An update that it rejects, with the
  infrastructure ID unchanged, changes nothing of what a reconcile makes of a NodeClass: neither
  the EC2NodeClass it writes nor the tag conflict condition.
\<close>

theorem ec2_hcp_predicate_complete:
  assumes "\<not> ec2_hcpPredicate (UpdateEvent old new)" "hcp_infraID new = hcp_infraID old"
  shows "ec2_mutate nc new s e = ec2_mutate nc old s e \<and>
    setAWSResourceTagConflictCondition now nc new cs = setAWSResourceTagConflictCondition now nc old cs"
proof -
  have same: "sm_get (annotations new) AWSKarpenterDefaultInstanceProfile = sm_get (annotations old) AWSKarpenterDefaultInstanceProfile"
    "platform_tags new = platform_tags old" "hcp_controlPlaneVersion new = hcp_controlPlaneVersion old"
    using assms(1)
    by (simp_all add: ec2_hcpPredicate_def awsResourceTags_def platform_tags_def ControlPlaneVersionChanged_def)
  then have "ec2NodeClassSpec nc new = ec2NodeClassSpec nc old"
    "WaitsForControlPlaneUpgrade new v = WaitsForControlPlaneUpgrade old v" for v
    using assms(2)
    by (simp_all add: ec2NodeClassSpec_def Let_def mergeEC2NodeClassTags_def WaitsForControlPlaneUpgrade_def
        isControlPlaneUpgrading_def cong: option.case_cong)
  moreover have "setAWSResourceTagConflictCondition now nc h cs =
      (if platform_tags h = [] \<or> smap_entries (os_tags (onc_spec nc)) = []
       then RemoveStatusCondition NodePoolAWSResourceTagConflictConditionType cs
       else SetStatusCondition now
         (conflict_condition (generation nc) (conflict_loop (smap_entries (os_tags (onc_spec nc))) (platform_tags h) (0, 0))) cs)"
    for h
    by (auto simp: setAWSResourceTagConflictCondition_def platform_tags_def)
  ultimately show ?thesis
    using same(2) by (simp add: ec2_mutate_def reconcileEC2NodeClassRelease_def)
qed

theorem ec2_hcp_predicate_complete_witness:
  "ec2_mutate demo_nodeclass (demo_upgrading\<lparr>resourceVersion := 8\<rparr>) demo_user_data demo_ec2 =
   ec2_mutate demo_nodeclass demo_upgrading demo_user_data demo_ec2"
  using ec2_hcp_predicate_complete [of demo_upgrading "demo_upgrading\<lparr>resourceVersion := 8\<rparr>" demo_nodeclass demo_user_data demo_ec2]
  by (simp add: ec2_hcpPredicate_def awsResourceTags_def ControlPlaneVersionChanged_def)

end
