(* ===== verification/Azure_Nodeclass.thy ===== *)
theory Azure_Nodeclass
  imports Ec2_Spec Nodeclass_Status Guarded_Pair
begin

text \<open>
  \<open>pkg/controllers/nodeclass/azure/{spec,controller}.go\<close>: the controller that keeps one
  AKSNodeClass per OpenShiftAzureNodeClass. Its release follows the same rule as on EC2
  (\<open>release_pipeline\<close>) and its finalizer the same protocol (\<open>guarded_pair\<close>).
\<close>

section \<open>Spec\<close>

definition defaultOSDiskSizeGiB :: int32 where
  "defaultOSDiskSizeGiB = 120"

definition UbuntuImageFamily :: string where
  "UbuntuImageFamily = ''Ubuntu''"

definition marketplacePublisherAnnotation :: string where
  "marketplacePublisherAnnotation = ''hypershift.openshift.io/azure-marketplace-publisher''"

definition marketplaceOfferAnnotation :: string where
  "marketplaceOfferAnnotation = ''hypershift.openshift.io/azure-marketplace-offer''"

definition marketplaceSKUAnnotation :: string where
  "marketplaceSKUAnnotation = ''hypershift.openshift.io/azure-marketplace-sku''"

definition marketplaceVersionAnnotation :: string where
  "marketplaceVersionAnnotation = ''hypershift.openshift.io/azure-marketplace-version''"

definition aksNodeClassSpec :: "azure_spec \<Rightarrow> aks_spec" where
  "aksNodeClassSpec spec =
     \<lparr>ak_vnetSubnetID = ptrIfNonEmpty (az_vnetSubnetID spec),
      ak_osDiskSizeGB = Some (if az_osDiskSizeGiB spec \<noteq> 0 then az_osDiskSizeGiB spec else defaultOSDiskSizeGiB),
      ak_marketplaceImage = None,
      ak_imageFamily = Some UbuntuImageFamily,
      ak_userData = None,
      ak_tags = az_tags spec,
      ak_maxPods = ptrIfNonZero (kc_maxPods (az_kubelet spec)),
      ak_security = Some (Some (az_hostEncryption spec = AzureHostEncryptionEnabled)),
      ak_unmanaged = []\<rparr>"

text \<open>The loop that looks for the first annotation that is missing or empty.\<close>

fun missing_annotation :: "string list \<Rightarrow> smap \<Rightarrow> string option" where
  "missing_annotation [] as = None"
| "missing_annotation (a # rest) as = (if sm_get as a = [] then Some a else missing_annotation rest as)"

definition marketplaceImageFromUserDataSecret :: "secret \<Rightarrow> error + marketplace_image" where
  "marketplaceImageFromUserDataSecret s =
     (case missing_annotation
             [marketplacePublisherAnnotation, marketplaceOfferAnnotation,
              marketplaceSKUAnnotation, marketplaceVersionAnnotation] (annotations s) of
        Some annotation \<Rightarrow>
          Inl (Errorf ''user data secret %s/%s has missing or empty annotation %q''
                 [AStr (namespace s), AStr (name s), AStr annotation])
      | None \<Rightarrow> Inr
          \<lparr>mi_publisher = sm_get (annotations s) marketplacePublisherAnnotation,
           mi_offer = sm_get (annotations s) marketplaceOfferAnnotation,
           mi_sku = sm_get (annotations s) marketplaceSKUAnnotation,
           mi_version = sm_get (annotations s) marketplaceVersionAnnotation\<rparr>)"

definition reconcileAKSNodeClassRelease ::
  "aks_spec \<Rightarrow> aks_spec \<Rightarrow> string \<Rightarrow> hosted_control_plane \<Rightarrow> secret \<Rightarrow> error + aks_spec" where
  "reconcileAKSNodeClassRelease desired current version hcp userDataSecret =
     (if WaitsForControlPlaneUpgrade hcp version \<and> ak_userData current \<noteq> None \<and> ak_marketplaceImage current \<noteq> None
      then Inr (desired\<lparr>ak_userData := ak_userData current, ak_marketplaceImage := ak_marketplaceImage current\<rparr>)
      else case marketplaceImageFromUserDataSecret userDataSecret of
        Inl err \<Rightarrow> Inl err
      | Inr marketplaceImage \<Rightarrow>
          Inr (desired\<lparr>ak_userData := Some (sm_get (sec_data userDataSecret) ''value''),
                       ak_marketplaceImage := Some marketplaceImage\<rparr>))"

section \<open>The release pipeline\<close>

definition aks_release_of :: "aks_spec \<Rightarrow> (string \<times> marketplace_image) option" where
  "aks_release_of s =
     (case ak_userData s of None \<Rightarrow> None | Some u \<Rightarrow> map_option (Pair u) (ak_marketplaceImage s))"

definition aks_resolve :: "secret \<Rightarrow> error + string \<times> marketplace_image" where
  "aks_resolve s =
     (case marketplaceImageFromUserDataSecret s of
        Inl e \<Rightarrow> Inl e
      | Inr i \<Rightarrow> Inr (sm_get (sec_data s) ''value'', i))"

lemma aks_release_of_None: "aks_release_of s = None \<longleftrightarrow> ak_userData s = None \<or> ak_marketplaceImage s = None"
  by (simp add: aks_release_of_def split: option.split)

interpretation aks_release: release_pipeline reconcileAKSNodeClassRelease aks_release_of aks_resolve
proof
  fix hcp version current rel desired s
  assume "WaitsForControlPlaneUpgrade hcp version" "aks_release_of current = Some rel"
  then show "\<exists>d. reconcileAKSNodeClassRelease desired current version hcp s = Inr d \<and> aks_release_of d = Some rel"
    by (auto simp: reconcileAKSNodeClassRelease_def aks_release_of_def split: option.splits)
next
  fix hcp version current s rel desired
  assume "\<not> (WaitsForControlPlaneUpgrade hcp version \<and> aks_release_of current \<noteq> None)" "aks_resolve s = Inr rel"
  then show "\<exists>d. reconcileAKSNodeClassRelease desired current version hcp s = Inr d \<and> aks_release_of d = Some rel"
    by (auto simp: reconcileAKSNodeClassRelease_def aks_release_of_None aks_resolve_def split: sum.splits)
      (auto simp: aks_release_of_def)
next
  fix hcp version current s e desired
  assume "\<not> (WaitsForControlPlaneUpgrade hcp version \<and> aks_release_of current \<noteq> None)" "aks_resolve s = Inl e"
  then show "\<exists>e'. reconcileAKSNodeClassRelease desired current version hcp s = Inl e'"
    by (auto simp: reconcileAKSNodeClassRelease_def aks_release_of_None aks_resolve_def split: sum.splits)
qed

section \<open>Reconcile\<close>

definition azure_finalizer :: string where
  "azure_finalizer = ''hypershift.openshift.io/azure-nodeclass-finalizer''"

definition new_aks_node_class :: "string \<Rightarrow> aks_node_class" where
  "new_aks_node_class n =
     object_meta.extend (zero_object_meta\<lparr>name := n\<rparr>) \<lparr>akc_spec = zero_aks_spec, akc_conditions = []\<rparr>"

definition aks_mutate ::
  "openshift_azure_node_class \<Rightarrow> hosted_control_plane \<Rightarrow> secret \<Rightarrow> aks_node_class \<Rightarrow> error + aks_node_class" where
  "aks_mutate nodeClass hcp userDataSecret aksNodeClass =
     (case reconcileAKSNodeClassRelease (aksNodeClassSpec (anc_spec nodeClass)) (akc_spec aksNodeClass)
             (az_version (anc_spec nodeClass)) hcp userDataSecret of
        Inl err \<Rightarrow> Inl err
      | Inr desired \<Rightarrow>
          SetControllerReference ''karpenter.hypershift.openshift.io/v1alpha1'' ''OpenShiftAzureNodeClass'' nodeClass
            (aksNodeClass\<lparr>akc_spec := desired\<rparr>))"

definition reconcileAKSNodeClass ::
  "openshift_azure_node_class \<Rightarrow> hosted_control_plane \<Rightarrow> secret \<Rightarrow> (world, aks_node_class) io" where
  "reconcileAKSNodeClass nodeClass hcp userDataSecret =
     bindE (wrapE ''reconciling AKSNodeClass: %w'' []
       (createOrUpdate AKS (new_aks_node_class (name nodeClass)) (aks_mutate nodeClass hcp userDataSecret)))
       (\<lambda>(op, aksNodeClass). ret aksNodeClass)"

definition azure_reconcileStatus ::
  "openshift_azure_node_class \<Rightarrow> aks_node_class \<Rightarrow> (world, unit) io" where
  "azure_reconcileStatus nodeClass aksNodeClass =
     bindE nowE (\<lambda>now.
     let conditions = SyncConditions now (azs_conditions (anc_status nodeClass)) (akc_conditions aksNodeClass)
                        (generation nodeClass) in
     if conditions = azs_conditions (anc_status nodeClass) then ret ()
     else bindE (wrapE ''updating status: %w'' []
       (cl_status_patch OpenshiftAzure True nodeClass
          (\<lambda>o'. o'\<lparr>anc_status := (anc_status o')\<lparr>azs_conditions := conditions\<rparr>\<rparr>))) (\<lambda>_. ret ()))"

definition azure_reconcileDelete :: "openshift_azure_node_class \<Rightarrow> (world, unit) io" where
  "azure_reconcileDelete nodeClass =
     handleE (cl_delete AKS ([], name nodeClass))
       (\<lambda>err.
          if \<not> is_not_found err then raise (Wrap ''deleting AKSNodeClass: %w'' [] err)
          else if ContainsFinalizer nodeClass azure_finalizer then
            bindE (wrapE ''removing finalizer: %w'' []
              (cl_patch OpenshiftAzure True nodeClass (finalizers_body (RemoveFinalizer azure_finalizer nodeClass))))
              (\<lambda>_. ret ())
          else ret ())
       (\<lambda>_. ret ())"

definition azure_reconcileLive :: "string \<Rightarrow> openshift_azure_node_class \<Rightarrow> (world, ctrl_result) io" where
  "azure_reconcileLive ns nodeClass =
     handleE (GetHostedControlPlane ns)
       (\<lambda>err. if errors_is err ErrHostedControlPlaneNotFound then ret Result0 else raise err)
       (\<lambda>hcp.
          handleE (GetUserDataSecret ns (name nodeClass))
            (\<lambda>err. if errors_is err ErrUserDataSecretNotFound then ret Result0 else raise err)
            (\<lambda>userDataSecret.
               bindE (reconcileAKSNodeClass nodeClass hcp userDataSecret) (\<lambda>aksNodeClass.
               bindE (azure_reconcileStatus nodeClass aksNodeClass) (\<lambda>_.
               ret Result0))))"

definition azure_Reconcile :: "string \<Rightarrow> object_key \<Rightarrow> (world, ctrl_result) io" where
  "azure_Reconcile ns req =
     handleE (cl_get OpenshiftAzure req)
       (\<lambda>err. if is_not_found err then ret Result0 else raise err)
       (\<lambda>nodeClass.
          if \<not> time_is_zero (deletionTimestamp nodeClass) then
            bindE (azure_reconcileDelete nodeClass) (\<lambda>_. ret Result0)
          else bindE
            (if \<not> ContainsFinalizer nodeClass azure_finalizer then
               wrapE ''adding finalizer: %w'' []
                 (cl_patch OpenshiftAzure True nodeClass (finalizers_body (AddFinalizer azure_finalizer nodeClass)))
             else ret nodeClass)
            (\<lambda>nodeClass'. azure_reconcileLive ns nodeClass'))"

section \<open>Watches\<close>

definition azure_hcpPredicate :: "hosted_control_plane watch_event \<Rightarrow> bool" where
  "azure_hcpPredicate ev =
     (case ev of
        CreateEvent h \<Rightarrow> True
      | UpdateEvent old new \<Rightarrow> ControlPlaneVersionChanged old new
      | DeleteEvent h \<Rightarrow> False
      | GenericEvent h \<Rightarrow> False)"

definition mapToNodeClasses :: "(world, object_key list) io" where
  "mapToNodeClasses =
     handleE (cl_list OpenshiftAzure (\<lambda>_. True)) (\<lambda>err. ret [])
       (\<lambda>items. ret (map (\<lambda>nc. ([], name nc)) items))"

section \<open>The finalizer protocol\<close>

abbreviation azure_guarded :: "string \<Rightarrow> world \<Rightarrow> bool" where
  "azure_guarded \<equiv> guarded OpenshiftAzure azure_finalizer"

abbreviation azure_inv :: "world \<Rightarrow> bool" where
  "azure_inv \<equiv> guard_inv OpenshiftAzure AKS azure_finalizer"

interpretation azure_pair: guarded_pair OpenshiftAzure AKS azure_finalizer
  by unfold_locales (simp_all add: OpenshiftAzure_def AKS_def)

lemma reconcileAKSNodeClass_guards:
  "keeps (\<lambda>w. azure_inv w \<and> azure_guarded (name nc) w) (reconcileAKSNodeClass nc hcp s)"
proof -
  have "obj_key (new_aks_node_class (name nc)) = ([], name nc)"
    by (simp add: new_aks_node_class_def object_meta.defs obj_key_def zero_object_meta_def)
  from azure_pair.createOrUpdate_guards [OF this] show ?thesis
    unfolding reconcileAKSNodeClass_def by (intro hoare_intros) auto
qed

lemma azure_reconcileLive_guards:
  "keeps (\<lambda>w. azure_inv w \<and> azure_guarded (name nc) w) (azure_reconcileLive ns nc)"
proof -
  have "keeps (\<lambda>w. azure_inv w \<and> azure_guarded (name nc) w) (GetUserDataSecret ns (name nc))"
    "keeps (\<lambda>w. azure_inv w \<and> azure_guarded (name nc) w) (GetHostedControlPlane ns)"
    unfolding GetUserDataSecret_def GetHostedControlPlane_def Let_def by (intro hoare_intros keeps_cl_list; simp)+
  then show ?thesis
    unfolding azure_reconcileLive_def azure_reconcileStatus_def Let_def
    by (intro hoare_intros reconcileAKSNodeClass_guards azure_pair.status_patch_guards) simp_all
qed

lemma azure_reconcileDelete_inv:
  assumes "honest w" "azure_inv w" "namespace nc = []"
  shows "azure_inv (snd (azure_reconcileDelete nc w))"
proof (cases rule: aks.delete_cases [of "([], name nc)" w])
  case (failed e fs)
  show ?thesis
  proof (cases "is_not_found e")
    case True
    with aks.delete_error_honest [OF assms(1) failed] have "find_obj ([], name nc) (w_aks w) = None"
      by simp
    with failed True assms azure_pair.release_inv [of "w\<lparr>api_faults := fs\<rparr>" nc] show ?thesis
      by (auto simp: azure_reconcileDelete_def io_simps split: prod.splits sum.splits)
  next
    case False
    with failed assms show ?thesis by (simp add: azure_reconcileDelete_def io_simps)
  qed
next
  case (deleted old fs)
  with assms azure_pair.delete_child_inv [of "w\<lparr>api_faults := fs\<rparr>" "api_now w"] show ?thesis
    by (simp add: azure_reconcileDelete_def io_simps)
qed

lemma azure_Reconcile_inv:
  assumes "honest w" "azure_inv w"
  shows "azure_inv (snd (azure_Reconcile ns req w))"
proof (cases rule: cl_get_cases [of OpenshiftAzure req w])
  case (fault e fs)
  with assms show ?thesis by (simp add: azure_Reconcile_def io_simps)
next
  case (missing fs)
  with assms show ?thesis by (simp add: azure_Reconcile_def io_simps)
next
  case get: (found nc fs)
  let ?v = "w\<lparr>api_faults := fs\<rparr>"
  have honest: "honest ?v"
    using keepsD [OF honest_get assms(1), of OpenshiftAzure req] get by simp
  have inv: "azure_inv ?v" using assms(2) by simp
  have stored: "find_obj (obj_key nc) (w_openshiftAzure ?v) = Some nc" "namespace nc = []"
    using get(2) assms(2) azure_pair.owner_namespace [of ?v req nc] by (auto simp: obj_key_def)
  show ?thesis
  proof (cases "time_is_zero (deletionTimestamp nc)")
    case False
    with get azure_reconcileDelete_inv [OF honest inv stored(2)] show ?thesis
      by (auto simp: azure_Reconcile_def io_simps split: prod.splits sum.splits)
  next
    case True
    let ?adopt = "if \<not> ContainsFinalizer nc azure_finalizer then
       wrapE ''adding finalizer: %w'' []
         (cl_patch OpenshiftAzure True nc (finalizers_body (AddFinalizer azure_finalizer nc)))
       else ret nc"
    have live: "hoare (\<lambda>v. azure_inv v \<and> azure_guarded (name nc') v) (azure_reconcileLive ns nc') (\<lambda>_. azure_inv) azure_inv" for nc'
      by (rule hoare_weaken [OF azure_reconcileLive_guards]) auto
    have "hoare (\<lambda>v. v = ?v) (bindE ?adopt (\<lambda>nc'. azure_reconcileLive ns nc')) (\<lambda>_. azure_inv) azure_inv"
      by (rule hoare_bindE, rule azure_pair.adopt_guards [of ?v nc, unfolded k_objs_simps, OF inv stored(1)], rule live)
    then have "azure_inv (snd (bindE ?adopt (\<lambda>nc'. azure_reconcileLive ns nc') ?v))"
      by (auto simp: hoare_def split: prod.splits sum.splits)
    with get True show ?thesis
      by (simp add: azure_Reconcile_def handleE_run)
  qed
qed

section \<open>The controller among the others\<close>

text \<open>As for EC2: reconciles with honest answers, users who leave the finalizer alone, and Karpenter.\<close>

inductive azure_step :: "string \<Rightarrow> world \<Rightarrow> world \<Rightarrow> bool" for ns where
  reconcile: "honest w \<Longrightarrow> azure_step ns w (snd (azure_Reconcile ns req w))"
| answers: "azure_step ns w (w\<lparr>api_faults := fs\<rparr>)"
| elsewhere: "azure_step ns w (w\<lparr>api_now := t, w_hcps := hs, w_secrets := ss, w_nodeClaims := cs\<rparr>)"
| user_create: "find_obj (obj_key nc) (w_openshiftAzure w) = None \<Longrightarrow> namespace nc = [] \<Longrightarrow>
    azure_step ns w (w_openshiftAzure_update (\<lambda>ncs. ncs @ [nc]) w)"
| user_write: "find_obj (obj_key nc) (w_openshiftAzure w) = Some old \<Longrightarrow>
    (ContainsFinalizer old azure_finalizer \<Longrightarrow> ContainsFinalizer nc azure_finalizer) \<Longrightarrow>
    azure_step ns w (w_openshiftAzure_update (commit_obj nc) w)"
| user_delete: "azure_step ns w (w_openshiftAzure_update (delete_obj (api_now w) key) w)"
| karpenter: "set (map obj_key as) \<subseteq> set (map obj_key (w_aks w)) \<Longrightarrow> azure_step ns w (w_aks_update (\<lambda>_. as) w)"

lemma azure_step_inv:
  assumes "azure_step ns w w'" "azure_inv w"
  shows "azure_inv w'"
  using assms(1)
proof cases
  case (reconcile req)
  with assms azure_Reconcile_inv show ?thesis by blast
next
  case (user_create nc)
  with assms azure_pair.inv_owner_created [of w nc] show ?thesis by simp
next
  case (user_write nc old)
  with assms azure_pair.inv_write_kept [of w nc old] show ?thesis by simp
next
  case (user_delete key)
  with assms azure_pair.inv_owner_deleted [of w] show ?thesis by simp
next
  case (karpenter as)
  with assms azure_pair.inv_children [of w as] show ?thesis by simp
qed (use assms in \<open>simp_all add: guard_inv_def guarded_def\<close>)

section \<open>One reconcile without faults\<close>

text \<open>What the controller finds for a live NodeClass: its control plane and its user data Secret.\<close>

definition azure_ready :: "string \<Rightarrow> openshift_azure_node_class \<Rightarrow> hosted_control_plane \<Rightarrow> secret \<Rightarrow> world \<Rightarrow> bool" where
  "azure_ready ns nc hcp s w \<longleftrightarrow>
     api_faults w = [] \<and> namespace nc = [] \<and> name nc \<noteq> [] \<and>
     find_obj ([], name nc) (w_openshiftAzure w) = Some nc \<and>
     deletionTimestamp nc = None \<and> ContainsFinalizer nc azure_finalizer \<and>
     filter (\<lambda>o'. namespace o' = ns) (w_hcps w) = [hcp] \<and>
     filter (\<lambda>s. namespace s = ns \<and> karpenterSecretSelector s \<and> is_user_data_secret ns (name nc) s) (w_secrets w) = [s]"

lemma azure_Reconcile_ready:
  assumes "azure_ready ns nc hcp s w"
  shows "azure_Reconcile ns ([], name nc) w =
    bindE (reconcileAKSNodeClass nc hcp s) (\<lambda>a. bindE (azure_reconcileStatus nc a) (\<lambda>_. ret Result0)) w"
  using assms
  by (simp add: azure_ready_def azure_Reconcile_def azure_reconcileLive_def io_simps openshiftAzure.get_no_faults
      GetHostedControlPlane_no_faults GetUserDataSecret_no_faults)

lemma azure_status_settled:
  "SyncConditions (api_now w) (azs_conditions (anc_status nc)) (akc_conditions a) (generation nc) = azs_conditions (anc_status nc) \<Longrightarrow>
   azure_reconcileStatus nc a w = (Inr (), w)"
  by (simp add: azure_reconcileStatus_def nowE_def io_simps)

definition synced_azure :: "int \<Rightarrow> openshift_azure_node_class \<Rightarrow> aks_node_class \<Rightarrow> openshift_azure_node_class" where
  "synced_azure now nc a =
     (let cs = SyncConditions now (azs_conditions (anc_status nc)) (akc_conditions a) (generation nc) in
      if cs = azs_conditions (anc_status nc) then nc
      else nc\<lparr>anc_status := (anc_status nc)\<lparr>azs_conditions := cs\<rparr>, resourceVersion := Suc (resourceVersion nc)\<rparr>)"

lemma azure_status_run:
  assumes "api_faults w = []" "namespace nc = []" "find_obj ([], name nc) (w_openshiftAzure w) = Some nc"
    and "distinct (map obj_key (w_openshiftAzure w))"
  shows "azure_reconcileStatus nc a w =
    (Inr (), w_openshiftAzure_update (replace_obj ([], name nc) [synced_azure (api_now w) nc a]) w)"
proof (cases "SyncConditions (api_now w) (azs_conditions (anc_status nc)) (akc_conditions a) (generation nc) = azs_conditions (anc_status nc)")
  case True
  then have "synced_azure (api_now w) nc a = nc"
    by (simp only: synced_azure_def Let_def simp_thms if_True)
  moreover have "w_openshiftAzure_update (replace_obj ([], name nc) [nc]) w = w"
    using assms(3,4) by (intro openshiftAzure.unchanged_round [unfolded k_objs_simps k_upd_simps])
  ultimately show ?thesis
    by (simp only: azure_status_settled [OF True])
next
  case False
  define cs where "cs = SyncConditions (api_now w) (azs_conditions (anc_status nc)) (akc_conditions a) (generation nc)"
  define body where "body = (\<lambda>o' :: openshift_azure_node_class. o'\<lparr>anc_status := (anc_status o')\<lparr>azs_conditions := cs\<rparr>\<rparr>)"
  have key: "obj_key nc = ([], name nc)"
    using assms(2) by (simp add: obj_key_def)
  have new: "synced_azure (api_now w) nc a =
      (k_keepStatus OpenshiftAzure (body nc) nc)\<lparr>resourceVersion := Suc (resourceVersion nc)\<rparr>"
    using False by (simp add: synced_azure_def Let_def OpenshiftAzure_def body_def cs_def)
  have "cl_status_patch OpenshiftAzure True nc body w =
    (Inr (synced_azure (api_now w) nc a),
     k_upd OpenshiftAzure (replace_obj (obj_key nc) [synced_azure (api_now w) nc a]) w)"
    by (rule openshiftAzure.status_patch_no_faults [where old = nc]) (use assms key new in simp_all)
  moreover have "azure_reconcileStatus nc a w =
      bindE (wrapE ''updating status: %w'' [] (cl_status_patch OpenshiftAzure True nc body)) (\<lambda>_. ret ()) w"
    using False by (simp add: azure_reconcileStatus_def nowE_def bindE_run Let_def body_def cs_def)
  ultimately show ?thesis
    by (simp add: io_simps key)
qed

lemma synced_azure_simps [simp]:
  "name (synced_azure t nc a) = name nc" "namespace (synced_azure t nc a) = namespace nc"
  "uid (synced_azure t nc a) = uid nc" "generation (synced_azure t nc a) = generation nc"
  "finalizers (synced_azure t nc a) = finalizers nc" "deletionTimestamp (synced_azure t nc a) = deletionTimestamp nc"
  "anc_spec (synced_azure t nc a) = anc_spec nc"
  "azs_conditions (anc_status (synced_azure t nc a)) =
     SyncConditions t (azs_conditions (anc_status nc)) (akc_conditions a) (generation nc)"
  by (simp_all add: synced_azure_def Let_def)

text \<open>The desired AKSNodeClass, as the mutation leaves it.\<close>

abbreviation azure_ref :: "openshift_azure_node_class \<Rightarrow> owner_reference" where
  "azure_ref \<equiv> controller_ref ''karpenter.hypershift.openshift.io/v1alpha1'' ''OpenShiftAzureNodeClass''"

definition desired_aks_spec :: "openshift_azure_node_class \<Rightarrow> secret \<Rightarrow> marketplace_image \<Rightarrow> aks_spec" where
  "desired_aks_spec nc s i =
     (aksNodeClassSpec (anc_spec nc))\<lparr>ak_userData := Some (sm_get (sec_data s) ''value''), ak_marketplaceImage := Some i\<rparr>"

definition created_aks :: "openshift_azure_node_class \<Rightarrow> secret \<Rightarrow> marketplace_image \<Rightarrow> aks_node_class" where
  "created_aks nc s i =
     (new_aks_node_class (name nc))\<lparr>akc_spec := desired_aks_spec nc s i, ownerReferences := [azure_ref nc], resourceVersion := 1\<rparr>"

lemma new_aks_simps [simp]:
  "name (new_aks_node_class n) = n" "obj_key (new_aks_node_class n) = ([], n)"
  "resourceVersion (new_aks_node_class n) = 0" "deletionTimestamp (new_aks_node_class n) = None"
  "ownerReferences (new_aks_node_class n) = []" "akc_spec (new_aks_node_class n) = zero_aks_spec"
  "akc_conditions (new_aks_node_class n) = []"
  by (simp_all add: new_aks_node_class_def object_meta.defs obj_key_def zero_object_meta_def)

lemma obj_key_aks_update [simp]:
  "obj_key (a\<lparr>akc_spec := x\<rparr>) = obj_key a" "obj_key (b\<lparr>ownerReferences := r\<rparr>) = obj_key b"
  by (simp_all add: obj_key_def)

lemma created_aks_simps [simp]:
  "akc_spec (created_aks nc s i) = desired_aks_spec nc s i" "ownerReferences (created_aks nc s i) = [azure_ref nc]"
  "akc_conditions (created_aks nc s i) = []" "obj_key (created_aks nc s i) = ([], name nc)"
  by (simp_all add: created_aks_def obj_key_def) (simp_all add: new_aks_node_class_def object_meta.defs zero_object_meta_def)

lemma aks_mutate_new:
  assumes "marketplaceImageFromUserDataSecret s = Inr i" "namespace nc = []"
  shows "aks_mutate nc hcp s (new_aks_node_class (name nc)) =
    Inr ((new_aks_node_class (name nc))\<lparr>akc_spec := desired_aks_spec nc s i, ownerReferences := [azure_ref nc]\<rparr>)"
  using assms
  by (simp add: aks_mutate_def reconcileAKSNodeClassRelease_def zero_aks_spec_def desired_aks_spec_def SetControllerReference_new)

lemma aks_mutate_created:
  assumes "marketplaceImageFromUserDataSecret s = Inr i" "namespace nc = []"
    and "akc_spec a = desired_aks_spec nc s i" "ownerReferences a = [azure_ref nc]"
  shows "aks_mutate nc hcp s a = Inr a"
proof -
  have "reconcileAKSNodeClassRelease (aksNodeClassSpec (anc_spec nc)) (akc_spec a) (az_version (anc_spec nc)) hcp s =
      Inr (akc_spec a)"
    using assms by (simp add: reconcileAKSNodeClassRelease_def desired_aks_spec_def)
  moreover have "api_group ''karpenter.hypershift.openshift.io/v1alpha1'' = Some ''karpenter.hypershift.openshift.io''"
    by code_simp
  ultimately show ?thesis
    using assms(2,4) by (simp add: aks_mutate_def SetControllerReference_again)
qed

section \<open>Properties\<close>

definition demo_azure :: openshift_azure_node_class where
  "demo_azure = object_meta.extend
     (zero_object_meta\<lparr>name := ''default'', uid := ''u1'', resourceVersion := 3, finalizers := [azure_finalizer]\<rparr>)
     \<lparr>anc_spec = zero_azure_spec, anc_status = zero_azure_status\<rparr>"

definition demo_azure_secret :: secret where
  "demo_azure_secret = object_meta.extend
     (zero_object_meta\<lparr>namespace := ''clusters-a'', name := ''user-data-default-karpenter-1'',
        labels := Some (fmap_of_list [(ManagedByKarpenterLabel, ''true'')]),
        annotations := Some (fmap_of_list
          [(TokenSecretNodePoolAnnotation, ''clusters-a/default-karpenter''), (marketplacePublisherAnnotation, ''azureopenshift''),
           (marketplaceOfferAnnotation, ''aro4''), (marketplaceSKUAnnotation, ''aro_420''),
           (marketplaceVersionAnnotation, ''420.1.1'')])\<rparr>)
     \<lparr>sec_data = Some (fmap_of_list [(''value'', ''ignition'')])\<rparr>"

definition demo_azure_image :: marketplace_image where
  "demo_azure_image = \<lparr>mi_publisher = ''azureopenshift'', mi_offer = ''aro4'', mi_sku = ''aro_420'', mi_version = ''420.1.1''\<rparr>"

definition demo_azure_world :: world where
  "demo_azure_world = empty_world\<lparr>w_hcps := [demo_upgrading], w_secrets := [demo_azure_secret], w_openshiftAzure := [demo_azure]\<rparr>"

lemma demo_azure_ready: "azure_ready ''clusters-a'' demo_azure demo_upgrading demo_azure_secret demo_azure_world"
  by (simp add: azure_ready_def demo_azure_world_def empty_world_def demo_azure_def demo_azure_secret_def demo_upgrading_def
      object_meta.defs zero_object_meta_def obj_key_def ContainsFinalizer_def karpenterSecretSelector_def sm_lookup_def
      is_user_data_secret_def fmlookup_of_list ManagedByKarpenterLabel_def TokenSecretNodePoolAnnotation_def
      tokenSecretAnnotation_def marketplacePublisherAnnotation_def marketplaceOfferAnnotation_def marketplaceSKUAnnotation_def
      marketplaceVersionAnnotation_def key_string_def karpenterNodePoolName_def karpenterNodePoolSuffix_def)

lemma demo_azure_resolves: "marketplaceImageFromUserDataSecret demo_azure_secret = Inr demo_azure_image"
  by (simp add: marketplaceImageFromUserDataSecret_def demo_azure_image_def demo_azure_secret_def object_meta.defs zero_object_meta_def
      fmlookup_of_list TokenSecretNodePoolAnnotation_def marketplacePublisherAnnotation_def marketplaceOfferAnnotation_def
      marketplaceSKUAnnotation_def marketplaceVersionAnnotation_def)

text \<open>
  No AKSNodeClass outlives its guard. In every state reachable by reconciles with honest
  answers and by the other actors in any order, each AKSNodeClass has the OpenShiftAzureNodeClass
  of its name, and that one carries the finalizer.
\<close>

theorem aks_node_class_guarded:
  assumes "(azure_step ns)\<^sup>*\<^sup>* w0 w" "azure_inv w0" "a \<in> set (w_aks w)"
  shows "\<exists>nc. find_obj ([], name a) (w_openshiftAzure w) = Some nc \<and> ContainsFinalizer nc azure_finalizer"
proof -
  have "azure_inv w"
    using assms(1,2) by (induction rule: rtranclp_induct) (auto intro: azure_step_inv)
  with assms(3) show ?thesis by (simp add: guard_inv_def guarded_def)
qed

theorem aks_node_class_guarded_witness:
  "\<exists>nc. find_obj ([], ''default'') (w_openshiftAzure (demo_azure_world\<lparr>w_aks := [new_aks_node_class ''default'']\<rparr>)) = Some nc \<and>
     ContainsFinalizer nc azure_finalizer"
proof -
  let ?w = "demo_azure_world\<lparr>w_aks := [new_aks_node_class ''default'']\<rparr>"
  have "azure_inv ?w"
    by (simp add: guard_inv_def guarded_def demo_azure_world_def empty_world_def demo_azure_def new_aks_node_class_def
        object_meta.defs zero_object_meta_def obj_key_def ContainsFinalizer_def)
  moreover have "(azure_step ''clusters-a'')\<^sup>*\<^sup>* ?w ?w"
    by (rule rtranclp.rtrancl_refl)
  ultimately show ?thesis
    using aks_node_class_guarded [of "''clusters-a''" ?w ?w "new_aks_node_class ''default''"] by simp
qed

text \<open>A reconcile of a live NodeClass creates its target; any later one changes nothing.\<close>

lemma azure_converges:
  assumes "azure_ready ns nc hcp s w" "distinct (map obj_key (w_openshiftAzure w))"
    and "find_obj ([], name nc) (w_aks w) = None" "marketplaceImageFromUserDataSecret s = Inr i"
  shows "\<exists>w'. azure_Reconcile ns ([], name nc) w = (Inr Result0, w') \<and>
    w_aks w' = w_aks w @ [created_aks nc s i] \<and>
    (\<forall>t. azure_Reconcile ns ([], name nc) (w'\<lparr>api_now := t\<rparr>) = (Inr Result0, w'\<lparr>api_now := t\<rparr>))"
proof -
  let ?a = "created_aks nc s i" and ?key = "([], name nc)"
  let ?nc = "synced_azure (api_now w) nc ?a"
  define w1 where "w1 = w_aks_update (\<lambda>as. as @ [?a]) w"
  define w2 where "w2 = w_openshiftAzure_update (replace_obj ?key [?nc]) w1"
  have ns: "namespace nc = []" and found: "find_obj ?key (w_openshiftAzure w) = Some nc"
    using assms(1) by (simp_all add: azure_ready_def)
  have "createOrUpdate AKS (new_aks_node_class (name nc)) (aks_mutate nc hcp s) w = (Inr (OperationResultCreated, ?a), w1)"
    using aks.createOrUpdate_creates [where f = "aks_mutate nc hcp s" and w = w and new = ?a,
        OF _ _ aks_mutate_new [OF assms(4) ns]] assms(1,3)
    by (simp add: azure_ready_def created_aks_def w1_def)
  moreover have "azure_reconcileStatus nc ?a w1 = (Inr (), w2)"
    using azure_status_run [of w1 nc ?a] assms(1,2) by (simp add: azure_ready_def w1_def w2_def)
  ultimately have first: "azure_Reconcile ns ?key w = (Inr Result0, w2)"
    by (simp add: azure_Reconcile_ready [OF assms(1)] reconcileAKSNodeClass_def io_simps)
  have again: "azure_Reconcile ns ?key (w2\<lparr>api_now := t\<rparr>) = (Inr Result0, w2\<lparr>api_now := t\<rparr>)" for t
  proof -
    let ?w = "w2\<lparr>api_now := t\<rparr>"
    have "find_obj ?key (replace_obj ?key [?nc] (w_openshiftAzure w)) = Some ?nc"
      using found find_put_obj [of ?key ?nc "w_openshiftAzure w"] ns by (simp add: put_obj_replace obj_key_def)
    then have ready: "azure_ready ns ?nc hcp s ?w"
      using assms(1) by (simp add: azure_ready_def w2_def w1_def ContainsFinalizer_def)
    have "find_obj ?key (w_aks ?w) = Some ?a"
      using assms(3) by (simp add: w2_def w1_def find_obj_append)
    moreover have "aks_mutate ?nc hcp s ?a = Inr ?a"
      using ns by (intro aks_mutate_created [OF assms(4)]) (simp_all add: desired_aks_spec_def controller_ref_def)
    ultimately have "createOrUpdate AKS (new_aks_node_class (name nc)) (aks_mutate ?nc hcp s) ?w = (Inr (OperationResultNone, ?a), ?w)"
      using ready by (intro aks.createOrUpdate_unchanged [where old = ?a]) (simp_all add: azure_ready_def)
    moreover have "azure_reconcileStatus ?nc ?a ?w = (Inr (), ?w)"
      by (rule azure_status_settled) (simp add: sync_again)
    ultimately show ?thesis
      using azure_Reconcile_ready [OF ready] by (simp add: reconcileAKSNodeClass_def io_simps)
  qed
  have "w_aks w2 = w_aks w @ [?a]"
    by (simp add: w2_def w1_def)
  with first again show ?thesis by blast
qed



text \<open>
  The release of an AKSNodeClass. When reconciling it succeeds, the spec has user data and an
  image: the current ones for a NodeClass without version during a control plane upgrade, and
  otherwise those of the Secret. It fails exactly when the Secret is needed and one of its four
  annotations is missing or empty, and the error names that annotation.
\<close>

theorem aks_release_outcome:
  "case reconcileAKSNodeClassRelease desired current version hcp s of
     Inr d \<Rightarrow> aks_release_of d =
       (if WaitsForControlPlaneUpgrade hcp version \<and> aks_release_of current \<noteq> None then aks_release_of current
        else (case aks_resolve s of Inl e \<Rightarrow> None | Inr rel \<Rightarrow> Some rel)) \<and>
       aks_release_of d \<noteq> None
   | Inl e \<Rightarrow>
       (\<exists>a\<in>{marketplacePublisherAnnotation, marketplaceOfferAnnotation, marketplaceSKUAnnotation, marketplaceVersionAnnotation}.
          sm_get (annotations s) a = [] \<and>
          e = Errorf ''user data secret %s/%s has missing or empty annotation %q'' [AStr (namespace s), AStr (name s), AStr a]) \<and>
       \<not> (WaitsForControlPlaneUpgrade hcp version \<and> aks_release_of current \<noteq> None)"
proof (cases "reconcileAKSNodeClassRelease desired current version hcp s")
  case (Inr d)
  with aks_release.outcome [OF Inr] show ?thesis by simp
next
  case (Inl e)
  then have "\<not> (WaitsForControlPlaneUpgrade hcp version \<and> aks_release_of current \<noteq> None)"
    "marketplaceImageFromUserDataSecret s = Inl e"
    by (auto simp: reconcileAKSNodeClassRelease_def aks_release_of_None split: if_splits sum.splits)
  with Inl show ?thesis
    by (auto simp: marketplaceImageFromUserDataSecret_def split: if_splits)
qed

text \<open>
  Deletion takes two rounds. A reconcile of a deleted NodeClass deletes its AKSNodeClass and
  keeps the finalizer; once Karpenter has let the AKSNodeClass go, the next reconcile removes the
  finalizer and with it the NodeClass, if no other finalizer holds it.
\<close>

theorem azure_deletion_completes:
  assumes w: "api_faults w = []" "distinct (map obj_key (w_aks w))"
    and nc: "find_obj ([], name nc) (w_openshiftAzure w) = Some nc" "\<not> time_is_zero (deletionTimestamp nc)"
      "finalizers nc = [azure_finalizer]"
    and a: "find_obj ([], name nc) (w_aks w) = Some a"
  shows "azure_Reconcile ns ([], name nc) w =
      (Inr Result0, w\<lparr>w_aks := replace_obj ([], name nc) (deleted_round (api_now w) a) (w_aks w)\<rparr>) \<and>
    azure_Reconcile ns ([], name nc) (w\<lparr>w_aks := remove_obj ([], name nc) (w_aks w)\<rparr>) =
      (Inr Result0, w\<lparr>w_aks := remove_obj ([], name nc) (w_aks w),
                      w_openshiftAzure := remove_obj ([], name nc) (w_openshiftAzure w)\<rparr>)"
proof
  let ?key = "([], name nc)"
  show "azure_Reconcile ns ?key w =
      (Inr Result0, w\<lparr>w_aks := replace_obj ?key (deleted_round (api_now w) a) (w_aks w)\<rparr>)"
    using assms aks.delete_no_faults [OF w(1), of ?key a]
    by (simp add: azure_Reconcile_def azure_reconcileDelete_def io_simps openshiftAzure.get_no_faults)
  let ?w = "w\<lparr>w_aks := remove_obj ?key (w_aks w)\<rparr>"
  have key: "obj_key nc = ?key"
    using nc(1) by (auto dest: find_obj_Some)
  define new where "new = (k_keepStatus OpenshiftAzure nc (nc\<lparr>finalizers := []\<rparr>))\<lparr>resourceVersion := Suc (resourceVersion nc)\<rparr>"
  have body: "finalizers_body (RemoveFinalizer azure_finalizer nc) nc = nc\<lparr>finalizers := []\<rparr>"
    using nc(3) by (simp add: finalizers_body_def RemoveFinalizer_def)
  have gone: "committed_round new = []"
    using nc(2) by (simp add: committed_round_def new_def openshiftAzure.keep)
  have "cl_patch OpenshiftAzure True nc (finalizers_body (RemoveFinalizer azure_finalizer nc)) ?w =
      (Inr new, k_upd OpenshiftAzure (replace_obj (obj_key nc) (committed_round new)) ?w)"
    by (rule openshiftAzure.patch_no_faults [where old = nc])
      (use w nc key body in \<open>simp_all add: new_def obj_key_def\<close>)
  then have "cl_patch OpenshiftAzure True nc (finalizers_body (RemoveFinalizer azure_finalizer nc)) ?w =
      (Inr new, ?w\<lparr>w_openshiftAzure := remove_obj ?key (w_openshiftAzure w)\<rparr>)"
    by (simp add: gone key remove_obj_replace)
  moreover have "cl_delete AKS ?key ?w = (Inl (ApiErr NotFound), ?w)"
    using w by (intro aks.delete_missing_no_faults) simp_all
  ultimately show "azure_Reconcile ns ?key ?w =
      (Inr Result0, ?w\<lparr>w_openshiftAzure := remove_obj ?key (w_openshiftAzure w)\<rparr>)"
    using assms
    by (simp add: azure_Reconcile_def azure_reconcileDelete_def io_simps openshiftAzure.get_no_faults ContainsFinalizer_def)
qed

theorem azure_deletion_completes_witness:
  "w_openshiftAzure (snd (azure_Reconcile ''clusters-a'' ([], ''default'')
     (demo_azure_world\<lparr>w_openshiftAzure := [demo_azure\<lparr>deletionTimestamp := Some (At 5)\<rparr>], w_aks := []\<rparr>))) = []"
proof -
  let ?nc = "demo_azure\<lparr>deletionTimestamp := Some (At 5)\<rparr>" and ?a = "new_aks_node_class ''default''"
  let ?w = "demo_azure_world\<lparr>w_openshiftAzure := [?nc], w_aks := [?a]\<rparr>"
  have nc: "name ?nc = ''default''" "obj_key ?nc = ([], ''default'')" "finalizers ?nc = [azure_finalizer]"
    by (simp_all add: demo_azure_def object_meta.defs zero_object_meta_def obj_key_def)
  have "azure_Reconcile ''clusters-a'' ([], ''default'') (?w\<lparr>w_aks := []\<rparr>) =
      (Inr Result0, ?w\<lparr>w_aks := [], w_openshiftAzure := []\<rparr>)"
    using azure_deletion_completes [of ?w ?nc ?a "''clusters-a''"] nc
    by (simp add: demo_azure_world_def empty_world_def remove_obj_def)
  then show ?thesis by simp
qed

end
