(* ===== verification/Go_Json.thy ===== *)
theory Go_Json
  imports Prelude
begin

text \<open>
  \<open>encoding/json\<close> as the operator uses it to write a list of strings: \<open>json.Marshal\<close> with its HTML
  escaping, and a decoder of such documents to state what a reader gets back. Strings are byte
  sequences; the model is exact for ASCII (other valid UTF-8 passes unchanged except U+2028 and
  U+2029, which Go escapes and which no AWS resource ID contains).
\<close>

section \<open>Encoding\<close>

definition quote_char :: char where
  "quote_char = CHR 0x22"

definition backslash :: char where
  "backslash = CHR 0x5C"

definition hex_digit :: "nat \<Rightarrow> char" where
  "hex_digit d = (if d < 10 then char_of (48 + d) else char_of (87 + d))"

definition json_short :: "(char \<times> char) list" where
  "json_short = [(CHR 0x22, CHR 0x22), (CHR 0x5C, CHR 0x5C), (CHR 0x08, CHR ''b''), (CHR 0x0C, CHR ''f''),
     (CHR 0x0A, CHR ''n''), (CHR 0x0D, CHR ''r''), (CHR 0x09, CHR ''t'')]"

definition json_escaped :: "char \<Rightarrow> bool" where
  "json_escaped c \<longleftrightarrow> of_char c < (32 :: nat) \<or> c = CHR ''<'' \<or> c = CHR ''>'' \<or> c = CHR 0x26"

definition json_char :: "char \<Rightarrow> string" where
  "json_char c =
     (case map_of json_short c of
        Some e \<Rightarrow> [backslash, e]
      | None \<Rightarrow>
          if json_escaped c
          then [backslash, CHR ''u'', CHR ''0'', CHR ''0'', hex_digit (of_char c div 16), hex_digit (of_char c mod 16)]
          else [c])"

definition json_string :: "string \<Rightarrow> string" where
  "json_string s = quote_char # concat (map json_char s) @ [quote_char]"

fun json_items :: "string list \<Rightarrow> string" where
  "json_items [] = []"
| "json_items [s] = json_string s"
| "json_items (s # ss) = json_string s @ CHR '','' # json_items ss"

definition json_strings :: "string list \<Rightarrow> string" where
  "json_strings ss = CHR ''['' # json_items ss @ [CHR '']'']"

section \<open>Decoding\<close>

definition hex_value :: "char \<Rightarrow> nat option" where
  "hex_value c =
     (let n = of_char c :: nat in
      if 48 \<le> n \<and> n \<le> 57 then Some (n - 48)
      else if 97 \<le> n \<and> n \<le> 102 then Some (n - 87)
      else if 65 \<le> n \<and> n \<le> 70 then Some (n - 55) else None)"

text \<open>The body of a string up to the closing quote, and what follows it.\<close>

function json_body :: "string \<Rightarrow> (string \<times> string) option" where
  "json_body [] = None"
| "json_body (c # r) =
     (if c = quote_char then Some ([], r)
      else if c = backslash then
        (case r of
           [] \<Rightarrow> None
         | e # r1 \<Rightarrow>
             if e = CHR ''u'' then
               (case r1 of
                  z1 # z2 # a # b # r2 \<Rightarrow>
                    (case (hex_value a, hex_value b) of
                       (Some x, Some y) \<Rightarrow>
                         if z1 = CHR ''0'' \<and> z2 = CHR ''0''
                         then map_option (map_prod ((#) (char_of (16 * x + y))) id) (json_body r2) else None
                     | _ \<Rightarrow> None)
                | _ \<Rightarrow> None)
             else (case map_of (map prod.swap json_short) e of
                     None \<Rightarrow> None
                   | Some d \<Rightarrow> map_option (map_prod ((#) d) id) (json_body r1)))
      else map_option (map_prod ((#) c) id) (json_body r))"
  by pat_completeness auto
termination
  by (relation "measure length") auto

function json_elems :: "string \<Rightarrow> string list option" where
  "json_elems [] = None"
| "json_elems (q # r) =
     (if q \<noteq> quote_char then None
      else case json_body r of
        None \<Rightarrow> None
      | Some (s, rest) \<Rightarrow>
          if length rest \<ge> length r then None
          else if rest = [CHR '']''] then Some [s]
          else (case rest of
                  c # rest' \<Rightarrow> if c = CHR '','' then map_option ((#) s) (json_elems rest') else None
                | [] \<Rightarrow> None))"
  by pat_completeness auto
termination
  by (relation "measure length") auto

definition parse_json_strings :: "string \<Rightarrow> string list option" where
  "parse_json_strings doc =
     (case doc of
        [] \<Rightarrow> None
      | b # r \<Rightarrow> if b \<noteq> CHR ''['' then None else if r = [CHR '']''] then Some [] else json_elems r)"

section \<open>Round trip\<close>

lemma hex_value_digit: "d < 16 \<Longrightarrow> hex_value (hex_digit d) = Some d"
  by (auto simp: hex_value_def hex_digit_def)

lemma json_short_swap:
  "map_of json_short c = Some e \<Longrightarrow> map_of (map prod.swap json_short) e = Some c \<and> e \<noteq> CHR ''u''"
  by (auto simp: json_short_def split: if_splits)

lemma json_short_None: "map_of json_short c = None \<Longrightarrow> c \<noteq> quote_char \<and> c \<noteq> backslash"
  by (auto simp: json_short_def quote_char_def backslash_def split: if_splits)

lemma json_body_char: "json_body (json_char c @ r) = map_option (map_prod ((#) c) id) (json_body r)"
proof (cases "map_of json_short c")
  case (Some e)
  with json_short_swap [OF Some] show ?thesis
    by (simp add: json_char_def quote_char_def backslash_def)
next
  case None
  have "(of_char c :: nat) < 256"
    by simp
  moreover have "(of_char c :: nat) div 16 < 16" "(of_char c :: nat) mod 16 < 16"
    by (rule less_mult_imp_div_less) simp_all
  moreover have "char_of (16 * ((of_char c :: nat) div 16) + of_char c mod 16) = c"
    by (simp only: mult_div_mod_eq char_of_char)
  ultimately show ?thesis
    using None json_short_None [OF None]
    by (simp add: json_char_def hex_value_digit) (simp add: quote_char_def backslash_def)
qed

lemma json_body_string: "json_body (concat (map json_char s) @ quote_char # r) = Some (s, r)"
  by (induction s) (simp_all add: json_body_char)

lemma json_body_shorter: "json_body r = Some (s, rest) \<Longrightarrow> length rest < length r"
  by (induction r arbitrary: s rest rule: json_body.induct)
    (fastforce split: if_splits list.splits option.splits)+

lemma json_elems_items:
  "ss \<noteq> [] \<Longrightarrow> json_elems (json_items ss @ [CHR '']'']) = Some ss"
proof (induction ss rule: json_items.induct)
  case (2 s)
  have "json_body (concat (map json_char s) @ [quote_char, CHR '']'']) = Some (s, [CHR '']''])"
    using json_body_string [of s "[CHR '']'']"] by simp
  with json_body_shorter [OF this] show ?case by (simp add: json_string_def)
next
  case (3 s t ts)
  let ?rest = "CHR '','' # json_items (t # ts) @ [CHR '']'']"
  have "json_body (concat (map json_char s) @ quote_char # ?rest) = Some (s, ?rest)"
    by (rule json_body_string)
  with json_body_shorter [OF this] 3 show ?case by (simp add: json_string_def)
qed simp

lemma parse_json_strings: "parse_json_strings (json_strings ss) = Some ss"
proof (cases ss)
  case Nil
  then show ?thesis by (simp add: json_strings_def parse_json_strings_def)
next
  case (Cons t ts)
  have "json_items (t # ts) @ [CHR '']''] \<noteq> [CHR '']'']"
    by (cases ts) (simp_all add: json_string_def)
  with Cons json_elems_items [of ss] show ?thesis
    by (simp add: json_strings_def parse_json_strings_def)
qed

lemma json_strings_examples:
  "json_strings [] = ''[]''"
  "json_strings [''subnet-1'', ''a<b''] =
     ''['' @ [quote_char] @ ''subnet-1'' @ [quote_char] @ '','' @ [quote_char] @ ''a'' @ [backslash] @ ''u003cb'' @ [quote_char] @ '']''"
  by code_simp+

end
