(* ===== verification/Ec2_Subnet.thy ===== *)
theory Ec2_Subnet
  imports Hypershift Go_Json
begin

text \<open>
  \<open>pkg/controllers/nodeclass/ec2/subnet/controller.go\<close>: the subnets that the OpenshiftEC2NodeClasses
  of a hosted cluster resolve to, published in a ConfigMap of the management cluster that
  HyperShift reads.
\<close>

section \<open>The subnets\<close>

definition configMapName :: string where
  "configMapName = ''karpenter-subnets''"

fun subnet_loop :: "subnet list \<Rightarrow> string fset \<Rightarrow> string fset" where
  "subnet_loop [] unique = unique"
| "subnet_loop (s # ss) unique = subnet_loop ss (if sn_id s \<noteq> [] then finsert (sn_id s) unique else unique)"

fun subnets_of_node_classes :: "openshift_ec2_node_class list \<Rightarrow> string fset \<Rightarrow> string fset" where
  "subnets_of_node_classes [] unique = unique"
| "subnets_of_node_classes (nc # ncs) unique =
     subnets_of_node_classes ncs (subnet_loop (ost_subnets (onc_status nc)) unique)"

text \<open>The keys of the Go map come in any order; sorting makes the result independent of it.\<close>

definition resolvedSubnetIDs :: "openshift_ec2_node_class list \<Rightarrow> string list" where
  "resolvedSubnetIDs nodeClasses = sort (sorted_list_of_fset (subnets_of_node_classes nodeClasses {||}))"

section \<open>Reconcile\<close>

definition new_config_map :: "string \<Rightarrow> string \<Rightarrow> config_map" where
  "new_config_map ns n = object_meta.extend (zero_object_meta\<lparr>namespace := ns, name := n\<rparr>) \<lparr>cm_data = None\<rparr>"

definition subnet_mutate :: "hosted_control_plane \<Rightarrow> string \<Rightarrow> config_map \<Rightarrow> error + config_map" where
  "subnet_mutate hcp serializedSubnetIDs configMap =
     (case SetControllerReference ''hypershift.openshift.io/v1beta1'' ''HostedControlPlane'' hcp configMap of
        Inl err \<Rightarrow> Inl err
      | Inr cm \<Rightarrow> Inr
          (cm\<lparr>labels := sm_put ''hypershift.openshift.io/infra-id'' (hcp_infraID hcp)
                         (sm_put ''hypershift.openshift.io/managed-by'' ''karpenter'' (labels cm)),
              cm_data := sm_put ''subnetIDs'' serializedSubnetIDs (cm_data cm)\<rparr>))"

definition reconcileConfigMap :: "string \<Rightarrow> hosted_control_plane \<Rightarrow> (world, unit) io" where
  "reconcileConfigMap ns hcp =
     bindE (wrapE ''listing OpenshiftEC2NodeClass: %w'' [] (cl_list OpenshiftEC2 (\<lambda>_. True))) (\<lambda>items.
     let serializedSubnetIDs = json_strings (resolvedSubnetIDs items) in
     bindE (createOrUpdate ConfigMaps (new_config_map ns configMapName) (subnet_mutate hcp serializedSubnetIDs)) (\<lambda>_.
     ret ()))"

definition subnet_Reconcile :: "string \<Rightarrow> (world, ctrl_result) io" where
  "subnet_Reconcile ns =
     handleE (GetHostedControlPlane ns)
       (\<lambda>err. if errors_is err ErrHostedControlPlaneNotFound then ret Result0 else raise err)
       (\<lambda>hcp.
          if \<not> time_is_zero (deletionTimestamp hcp) then ret Result0
          else if core_e2e_override hcp then ret Result0
          else bindE (wrapE ''reconciling karpenter subnets configmap: %w'' [] (reconcileConfigMap ns hcp)) (\<lambda>_.
               ret Result0))"

definition subnet_hcpPredicate :: "hosted_control_plane watch_event \<Rightarrow> bool" where
  "subnet_hcpPredicate ev =
     (case ev of
        CreateEvent h \<Rightarrow> True
      | UpdateEvent old new \<Rightarrow>
          hcp_infraID old \<noteq> hcp_infraID new \<or>
          sm_get (annotations old) KarpenterCoreE2EOverrideAnnotation
            \<noteq> sm_get (annotations new) KarpenterCoreE2EOverrideAnnotation
      | DeleteEvent h \<Rightarrow> False
      | GenericEvent h \<Rightarrow> False)"

definition configMapPredicate :: "config_map watch_event \<Rightarrow> bool" where
  "configMapPredicate ev =
     (case ev of
        CreateEvent o' \<Rightarrow> name o' = configMapName
      | UpdateEvent old new \<Rightarrow> name new = configMapName
      | DeleteEvent o' \<Rightarrow> name o' = configMapName
      | GenericEvent o' \<Rightarrow> name o' = configMapName)"

section \<open>Facts\<close>

lemma subnet_loop_set: "fset (subnet_loop ss u) = fset u \<union> {sn_id s |s. s \<in> set ss \<and> sn_id s \<noteq> []}"
  by (induction ss arbitrary: u) auto

lemma subnets_of_node_classes_set:
  "fset (subnets_of_node_classes ncs u) =
     fset u \<union> {sn_id s |s nc. nc \<in> set ncs \<and> s \<in> set (ost_subnets (onc_status nc)) \<and> sn_id s \<noteq> []}"
  by (induction ncs arbitrary: u) (auto simp: subnet_loop_set)

lemma resolved_subnets:
  "sorted (resolvedSubnetIDs ncs)" "distinct (resolvedSubnetIDs ncs)"
  "set (resolvedSubnetIDs ncs) = {sn_id s |s nc. nc \<in> set ncs \<and> s \<in> set (ost_subnets (onc_status nc)) \<and> sn_id s \<noteq> []}"
  by (simp_all add: resolvedSubnetIDs_def subnets_of_node_classes_set sorted_list_of_fset_def)

lemma resolved_subnets_any_order:
  assumes "distinct keys" "set keys = fset (subnets_of_node_classes ncs {||})"
  shows "sort keys = resolvedSubnetIDs ncs"
  using assms
  by (intro sorted_distinct_set_unique) (simp_all add: resolved_subnets subnets_of_node_classes_set)

lemma subnet_predicate_complete:
  assumes "\<not> subnet_hcpPredicate (UpdateEvent old new)" "name new = name old" "namespace new = namespace old" "uid new = uid old"
  shows "subnet_mutate new s cm = subnet_mutate old s cm \<and> core_e2e_override new = core_e2e_override old"
proof -
  have "SetControllerReference av kd new cm = SetControllerReference av kd old cm" for av kd
    using assms(2-) by (simp add: SetControllerReference_def validateOwner_def controller_ref_def)
  moreover have "hcp_infraID new = hcp_infraID old" "core_e2e_override new = core_e2e_override old"
    using assms(1) by (simp_all add: subnet_hcpPredicate_def core_e2e_override_def)
  ultimately show ?thesis
    by (simp only: subnet_mutate_def simp_thms)
qed

lemma subnet_mutate_Inr:
  assumes "subnet_mutate hcp s cm = Inr m"
  shows "obj_key m = obj_key cm" "resourceVersion m = resourceVersion cm" "deletionTimestamp m = deletionTimestamp cm"
    "cm_data m = sm_put ''subnetIDs'' s (cm_data cm)"
  using assms by (auto simp: subnet_mutate_def obj_key_def split: sum.splits dest!: SetControllerReference_Inr(1))

text \<open>A fault-free run of \<open>createOrUpdate\<close> on the ConfigMap, whether it exists or not.\<close>

lemma subnet_config_map_written:
  assumes w: "api_faults w = []"
    and base: "base = (case find_obj (ns, configMapName) (w_configMaps w) of None \<Rightarrow> new_config_map ns configMapName | Some old \<Rightarrow> old)"
    and mutated: "subnet_mutate hcp s base = Inr m"
    and live: "deletionTimestamp base = None"
  shows "\<exists>r w'. createOrUpdate ConfigMaps (new_config_map ns configMapName) (subnet_mutate hcp s) w = (Inr r, w') \<and>
    (\<exists>cm. find_obj (ns, configMapName) (w_configMaps w') = Some cm \<and>
       (\<forall>k. sm_lookup (cm_data cm) k = sm_lookup (cm_data m) k)) \<and>
    w_openshiftEC2 w' = w_openshiftEC2 w"
proof -
  let ?key = "(ns, configMapName)" and ?new = "new_config_map ns configMapName"
  have new: "obj_key ?new = ?key" "name ?new \<noteq> []" "resourceVersion ?new = 0"
    by (simp_all add: new_config_map_def object_meta.defs obj_key_def zero_object_meta_def configMapName_def)
  note m = subnet_mutate_Inr [OF mutated]
  show ?thesis
  proof (cases "find_obj ?key (w_configMaps w)")
    case None
    then have "base = ?new" using base by simp
    with configMaps.createOrUpdate_creates [of w ?new "subnet_mutate hcp s" m, OF w _ _ _ _ _ refl] None mutated m new
    show ?thesis
      by (auto simp: find_obj_append obj_key_def)
  next
    case (Some old)
    then have old: "base = old" "obj_key old = ?key"
      using base by (auto dest: find_obj_Some)
    show ?thesis
    proof (cases "k_norm ConfigMaps old = k_norm ConfigMaps m")
      case True
      then have "cm_data (norm_config_map old) = cm_data (norm_config_map m)"
        by (simp add: ConfigMaps_def)
      then have "sm_norm (cm_data old) = sm_norm (cm_data m)"
        by (simp add: norm_config_map_def norm_meta_def)
      then have "\<forall>k. sm_lookup (cm_data old) k = sm_lookup (cm_data m) k"
        by (metis sm_lookup_norm)
      with configMaps.createOrUpdate_unchanged [of w ?new old "subnet_mutate hcp s" m, OF w _ _ _ True] Some mutated m new old
      show ?thesis by auto
    next
      case False
      let ?put = "(k_keepStatus ConfigMaps old m)\<lparr>resourceVersion := Suc (resourceVersion old)\<rparr>"
      have put: "committed_round ?put = [?put]" "obj_key ?put = ?key" "cm_data ?put = cm_data m"
        using live m old by (simp_all add: committed_round_def ConfigMaps_def obj_key_def)
      have "find_obj ?key (replace_obj ?key [?put] (w_configMaps w)) = Some ?put"
        using find_put_obj [of ?key ?put "w_configMaps w"] Some put(2) by (simp add: put_obj_replace)
      with configMaps.createOrUpdate_updates [of w ?new old "subnet_mutate hcp s" m, OF w _ _ _ _ _ False refl] Some mutated m new old put
      show ?thesis by auto
    qed
  qed
qed

section \<open>Properties\<close>

text \<open>
  What is published. The subnet IDs are, sorted and without duplicates, exactly the non-empty
  IDs in the status of any OpenshiftEC2NodeClass, one that is being deleted included.
\<close>

theorem subnet_ids_exact:
  "sorted (resolvedSubnetIDs ncs) \<and> distinct (resolvedSubnetIDs ncs) \<and>
   set (resolvedSubnetIDs ncs) = (\<Union>nc\<in>set ncs. sn_id ` set (ost_subnets (onc_status nc))) - {[]}"
  using resolved_subnets [of ncs] by auto


definition demo_subnet_world :: world where
  "demo_subnet_world = empty_world\<lparr>
     w_hcps := [object_meta.extend (zero_object_meta\<lparr>namespace := ''clusters-a'', name := ''a'', uid := ''u''\<rparr>)
       \<lparr>hcp_infraID = ''a-x'', hcp_pullSecretName = [], hcp_autoNode = \<lparr>an_provisioner = ProvisionerKarpenter, an_karpenter = []\<rparr>,
        hcp_awsPlatform = None,
        hcp_controlPlaneVersion = \<lparr>cpv_desired = \<lparr>rel_architecture = [], rel_version = [], rel_image = [], rel_url = [], rel_channels = []\<rparr>,
          cpv_history = [], cpv_observedGeneration = 0\<rparr>,
        hcp_autoNodeStatus = \<lparr>ans_nodeCount = None, ans_nodeClaimCount = None, ans_vcpus = None\<rparr>\<rparr>],
     w_openshiftEC2 := [object_meta.extend (zero_object_meta\<lparr>name := ''default''\<rparr>)
       \<lparr>onc_spec = zero_openshift_ec2_spec,
        onc_status = zero_openshift_ec2_status\<lparr>ost_subnets := [\<lparr>sn_id = ''subnet-2'', sn_zone = [], sn_zoneID = []\<rparr>,
          \<lparr>sn_id = ''subnet-1'', sn_zone = [], sn_zoneID = []\<rparr>]\<rparr>\<rparr>]\<rparr>"


end
