(* ===== verification/Default_Nodeclass.thy ===== *)
theory Default_Nodeclass
  imports Ec2_Spec
begin

text \<open>
  \<open>pkg/controllers/nodeclass/default/controller.go\<close> and the providers it is configured with
  (\<open>pkg/cloudprovider/{aws,azure}/nodeclass.go\<close>): the NodeClass named \<open>default\<close> of a hosted
  cluster. The locale \<open>hcp_nodeclass_provider\<close> is the interface \<open>HCPNodeClassProvider\<close> with what
  its implementations promise; both platforms interpret it.
\<close>

section \<open>The controller\<close>

definition defaultNodeClassName :: string where
  "defaultNodeClassName = ''default''"

text \<open>
  \<open>DefaultNodeClass\<close> answers an error, nothing, or the target object with its mutation.
\<close>

record 'o nodeclass_provider =
  np_kind :: "(world, 'o) kind"
  np_default :: "string \<Rightarrow> error + ('o \<times> ('o \<Rightarrow> error + 'o)) option"

text \<open>\<open>provider\<close> and the hosted client may be missing from the controller's configuration.\<close>

definition default_reconcileHCP ::
  "'a object_meta_scheme nodeclass_provider option \<Rightarrow> bool \<Rightarrow> hosted_control_plane \<Rightarrow> (world, unit) io" where
  "default_reconcileHCP provider hasHostedClient hcp =
     (if an_provisioner (hcp_autoNode hcp) \<noteq> ProvisionerKarpenter then ret ()
      else if core_e2e_override hcp then ret ()
      else case provider of
        None \<Rightarrow> raise (Errorf ''default NodeClass provider is required'' [])
      | Some p \<Rightarrow>
          if \<not> hasHostedClient then
            raise (Errorf ''hosted cluster client is required for default NodeClass reconciliation'' [])
          else case np_default p (hcp_infraID hcp) of
            Inl err \<Rightarrow> raise err
          | Inr None \<Rightarrow> ret ()
          | Inr (Some (defaultNodeClass, mutate)) \<Rightarrow>
              bindE (wrapE ''reconciling default NodeClass: %w'' []
                       (createOrUpdate (np_kind p) defaultNodeClass mutate)) (\<lambda>_. ret ()))"

definition default_Reconcile ::
  "'a object_meta_scheme nodeclass_provider option \<Rightarrow> bool \<Rightarrow> string \<Rightarrow> (world, ctrl_result) io" where
  "default_Reconcile provider hasHostedClient ns =
     handleE (GetHostedControlPlane ns)
       (\<lambda>err. if errors_is err ErrHostedControlPlaneNotFound then ret Result0 else raise err)
       (\<lambda>hcp. bindE (default_reconcileHCP provider hasHostedClient hcp) (\<lambda>_. ret Result0))"

definition default_hcpPredicate :: "hosted_control_plane watch_event \<Rightarrow> bool" where
  "default_hcpPredicate ev =
     (case ev of
        CreateEvent h \<Rightarrow> True
      | DeleteEvent h \<Rightarrow> True
      | UpdateEvent old new \<Rightarrow>
          hcp_infraID old \<noteq> hcp_infraID new \<or>
          an_provisioner (hcp_autoNode old) \<noteq> an_provisioner (hcp_autoNode new) \<or>
          sm_get (annotations old) KarpenterCoreE2EOverrideAnnotation
            \<noteq> sm_get (annotations new) KarpenterCoreE2EOverrideAnnotation
      | GenericEvent h \<Rightarrow> True)"

definition nodeClassPredicate :: "'a object_meta_scheme watch_event \<Rightarrow> bool" where
  "nodeClassPredicate ev =
     (case ev of
        CreateEvent o' \<Rightarrow> name o' = defaultNodeClassName
      | UpdateEvent old new \<Rightarrow> name new = defaultNodeClassName
      | DeleteEvent o' \<Rightarrow> name o' = defaultNodeClassName
      | GenericEvent o' \<Rightarrow> name o' = defaultNodeClassName)"

section \<open>The providers\<close>

definition managed_labels :: smap where
  "managed_labels = Some (fmap_of_list [(''app.kubernetes.io/managed-by'', ''karpenter-operator'')])"

definition default_ec2_spec :: "string \<Rightarrow> openshift_ec2_spec" where
  "default_ec2_spec infraID =
     zero_openshift_ec2_spec
       \<lparr>os_subnetSelectorTerms := Some [\<lparr>sst_tags = DefaultSubnetSelectorTags infraID, sst_id = []\<rparr>],
        os_securityGroupSelectorTerms :=
          Some [\<lparr>sgst_tags = DefaultSecurityGroupSelectorTags infraID, sgst_id = [], sgst_name = []\<rparr>]\<rparr>"

definition default_ec2_mutate :: "string \<Rightarrow> openshift_ec2_node_class \<Rightarrow> error + openshift_ec2_node_class" where
  "default_ec2_mutate infraID nodeClass =
     Inr (nodeClass\<lparr>labels := managed_labels, onc_spec := default_ec2_spec infraID\<rparr>)"

definition new_default_ec2 :: openshift_ec2_node_class where
  "new_default_ec2 = object_meta.extend (zero_object_meta\<lparr>name := ''default''\<rparr>)
     \<lparr>onc_spec = zero_openshift_ec2_spec, onc_status = zero_openshift_ec2_status\<rparr>"

definition hcpEC2NodeClassProvider :: "openshift_ec2_node_class nodeclass_provider" where
  "hcpEC2NodeClassProvider =
     \<lparr>np_kind = OpenshiftEC2, np_default = (\<lambda>infraID. Inr (Some (new_default_ec2, default_ec2_mutate infraID)))\<rparr>"

definition default_azure_mutate :: "string \<Rightarrow> openshift_azure_node_class \<Rightarrow> error + openshift_azure_node_class" where
  "default_azure_mutate vnetSubnetID nodeClass =
     Inr (nodeClass\<lparr>labels := managed_labels, anc_spec := zero_azure_spec\<lparr>az_vnetSubnetID := vnetSubnetID\<rparr>\<rparr>)"

definition new_default_azure :: openshift_azure_node_class where
  "new_default_azure = object_meta.extend (zero_object_meta\<lparr>name := ''default''\<rparr>)
     \<lparr>anc_spec = zero_azure_spec, anc_status = zero_azure_status\<rparr>"

definition hcpAzureNodeClassProvider :: "string \<Rightarrow> openshift_azure_node_class nodeclass_provider" where
  "hcpAzureNodeClassProvider vnetSubnetID =
     \<lparr>np_kind = OpenshiftAzure, np_default = (\<lambda>_. Inr (Some (new_default_azure, default_azure_mutate vnetSubnetID)))\<rparr>"

section \<open>The interface\<close>

text \<open>
  What a provider promises: a cluster-scoped target named \<open>default\<close>, and a mutation that cannot
  fail, leaves the fields of the API server alone and is settled by one application.
\<close>

locale hcp_nodeclass_provider =
  api_kind K for K :: "(world, 'a object_meta_scheme) kind" +
  fixes P :: "'a object_meta_scheme nodeclass_provider"
    and target :: "'a object_meta_scheme"
    and desired :: "string \<Rightarrow> 'a object_meta_scheme \<Rightarrow> 'a object_meta_scheme"
  assumes kind: "np_kind P = K"
    and default_target: "np_default P infra = Inr (Some (target, \<lambda>x. Inr (desired infra x)))"
    and target_fresh: "obj_key target = ([], ''default'')" "resourceVersion target = 0" "deletionTimestamp target = None"
    and desired_meta: "obj_key (desired infra x) = obj_key x" "resourceVersion (desired infra x) = resourceVersion x"
      "deletionTimestamp (desired infra x) = deletionTimestamp x" "finalizers (desired infra x) = finalizers x"
    and desired_settled: "desired infra ((k_keepStatus K old (desired infra x))\<lparr>resourceVersion := v\<rparr>) =
        (k_keepStatus K old (desired infra x))\<lparr>resourceVersion := v\<rparr>"
      "desired infra ((desired infra x)\<lparr>resourceVersion := v, deletionTimestamp := d\<rparr>) =
        (desired infra x)\<lparr>resourceVersion := v, deletionTimestamp := d\<rparr>"
begin

lemma reconcile_calls:
  "an_provisioner (hcp_autoNode hcp) = ProvisionerKarpenter \<Longrightarrow> \<not> core_e2e_override hcp \<Longrightarrow>
   default_reconcileHCP (Some P) True hcp =
     bindE (wrapE ''reconciling default NodeClass: %w'' []
              (createOrUpdate K target (\<lambda>x. Inr (desired (hcp_infraID hcp) x)))) (\<lambda>_. ret ())"
  by (simp add: default_reconcileHCP_def kind default_target)

text \<open>
  One fault-free pass restores the default NodeClass: what is stored is the desired object up to
  semantic equality, and a second pass has nothing to do.
\<close>

lemma restored:
  assumes hcp: "an_provisioner (hcp_autoNode hcp) = ProvisionerKarpenter" "\<not> core_e2e_override hcp"
    and w: "api_faults w = []" "distinct (map obj_key (k_objs K w))"
    and live: "\<And>old. find_obj ([], ''default'') (k_objs K w) = Some old \<Longrightarrow> deletionTimestamp old = None"
  shows "\<exists>w' x. default_reconcileHCP (Some P) True hcp w = (Inr (), w') \<and>
    find_obj ([], ''default'') (k_objs K w') = Some x \<and>
    k_norm K x = k_norm K (desired (hcp_infraID hcp) x) \<and>
    (\<forall>old. find_obj ([], ''default'') (k_objs K w) = Some old \<longrightarrow> finalizers x = finalizers old) \<and>
    default_reconcileHCP (Some P) True hcp w' = (Inr (), w')"
proof -
  let ?key = "([], ''default'') :: object_key" and ?d = "desired (hcp_infraID hcp)"
  let ?run = "createOrUpdate K target (\<lambda>x. Inr (?d x))"
  have "name target \<noteq> []"
    using target_fresh(1) by (simp add: obj_key_def)
  note call = reconcile_calls [OF hcp]
  have again: "?run v = (Inr (OperationResultNone, ?d x), v)"
    if "api_faults v = []" "find_obj ?key (k_objs K v) = Some x" "k_norm K x = k_norm K (?d x)" for v x
    using that target_fresh(1) desired_meta(1) [of _ x] find_obj_Some [OF that(2)]
    by (intro createOrUpdate_unchanged [where old = x]) simp_all
  have "\<exists>r w' x. ?run w = (Inr r, w') \<and> api_faults w' = [] \<and> find_obj ?key (k_objs K w') = Some x \<and> k_norm K x = k_norm K (?d x) \<and>
      (\<forall>old. find_obj ?key (k_objs K w) = Some old \<longrightarrow> finalizers x = finalizers old)"
  proof (cases "find_obj ?key (k_objs K w)")
    case None
    let ?x = "(?d target)\<lparr>resourceVersion := 1, deletionTimestamp := None\<rparr>"
    have "?run w = (Inr (OperationResultCreated, ?x), k_upd K (\<lambda>os. os @ [?x]) w)"
      using w None target_fresh \<open>name target \<noteq> []\<close> by (intro createOrUpdate_creates) (simp_all add: desired_meta)
    moreover have "find_obj ?key (k_objs K w @ [?x]) = Some ?x"
      using None desired_meta(1) [of _ target] target_fresh(1) by (simp add: find_obj_append obj_key_def)
    ultimately show ?thesis
      using None w(1) by (auto simp: faults_upd objs_upd desired_settled)
  next
    case (Some old)
    then have key: "obj_key old = ?key" by (auto dest: find_obj_Some)
    show ?thesis
    proof (cases "k_norm K old = k_norm K (?d old)")
      case True
      with again [OF w(1) Some True] Some w(1) show ?thesis by auto
    next
      case False
      let ?x = "(k_keepStatus K old (?d old))\<lparr>resourceVersion := Suc (resourceVersion old)\<rparr>"
      have run: "?run w = (Inr (OperationResultUpdated, ?x), k_upd K (replace_obj (obj_key target) (committed_round ?x)) w)"
        using w Some False target_fresh(1) key by (intro createOrUpdate_updates) (simp_all add: desired_meta)
      have x: "committed_round ?x = [?x]" "obj_key ?x = ?key" "finalizers ?x = finalizers old"
        using live [OF Some] key by (simp_all add: committed_round_def keep desired_meta)
      have "find_obj ?key (replace_obj ?key [?x] (k_objs K w)) = Some ?x"
        using find_put_obj [of ?key ?x "k_objs K w"] Some x(2) by (simp add: put_obj_replace)
      with run x Some w(1) target_fresh(1) show ?thesis
        by (auto simp: faults_upd objs_upd desired_settled)
    qed
  qed
  then obtain r w' x where "?run w = (Inr r, w')" "api_faults w' = []" "find_obj ?key (k_objs K w') = Some x"
    "k_norm K x = k_norm K (?d x)" "\<forall>old. find_obj ?key (k_objs K w) = Some old \<longrightarrow> finalizers x = finalizers old"
    by blast
  with again [of w' x] show ?thesis
    by (intro exI [of _ w'] exI [of _ x]) (simp add: call io_simps)
qed

end

interpretation ec2_provider: hcp_nodeclass_provider OpenshiftEC2 hcpEC2NodeClassProvider new_default_ec2
  "\<lambda>infraID nc. nc\<lparr>labels := managed_labels, onc_spec := default_ec2_spec infraID\<rparr>"
  by unfold_locales
    (simp_all add: hcpEC2NodeClassProvider_def default_ec2_mutate_def [abs_def] new_default_ec2_def object_meta.defs
      zero_object_meta_def obj_key_def OpenshiftEC2_def)

interpretation azure_provider: hcp_nodeclass_provider OpenshiftAzure "hcpAzureNodeClassProvider vnet" new_default_azure
  "\<lambda>_ nc. nc\<lparr>labels := managed_labels, anc_spec := zero_azure_spec\<lparr>az_vnetSubnetID := vnet\<rparr>\<rparr>" for vnet
  by unfold_locales
    (simp_all add: hcpAzureNodeClassProvider_def default_azure_mutate_def [abs_def] new_default_azure_def object_meta.defs
      zero_object_meta_def obj_key_def OpenshiftAzure_def)

section \<open>Properties\<close>

lemma default_Reconcile_one:
  "api_faults w = [] \<Longrightarrow> filter (\<lambda>o'. namespace o' = ns) (w_hcps w) = [hcp] \<Longrightarrow>
   default_reconcileHCP p b hcp w = (Inr (), w') \<Longrightarrow> default_Reconcile p b ns w = (Inr Result0, w')"
  by (simp add: default_Reconcile_def io_simps GetHostedControlPlane_no_faults)

text \<open>
  C38: the default NodeClass of an AWS hosted cluster is restored. One fault-free reconcile for a
  HostedControlPlane with the Karpenter provisioner leaves a NodeClass \<open>default\<close> whose spec is,
  up to nil and empty, the default spec for the infrastructure ID, whatever a user wrote into it; it
  keeps the finalizers.
\<close>

theorem default_ec2_restored:
  assumes "api_faults w = []" "filter (\<lambda>o'. namespace o' = ns) (w_hcps w) = [hcp]"
    and "an_provisioner (hcp_autoNode hcp) = ProvisionerKarpenter" "\<not> core_e2e_override hcp"
    and "distinct (map obj_key (w_openshiftEC2 w))"
    and "find_obj ([], ''default'') (w_openshiftEC2 w) = Some old" "deletionTimestamp old = None"
  shows "\<exists>w' x. default_Reconcile (Some hcpEC2NodeClassProvider) True ns w = (Inr Result0, w') \<and>
    find_obj ([], ''default'') (w_openshiftEC2 w') = Some x \<and>
    norm_openshift_ec2_spec (onc_spec x) = norm_openshift_ec2_spec (default_ec2_spec (hcp_infraID hcp)) \<and>
    finalizers x = finalizers old"
proof -
  obtain w' x where run: "default_reconcileHCP (Some hcpEC2NodeClassProvider) True hcp w = (Inr (), w')"
    and x: "find_obj ([], ''default'') (w_openshiftEC2 w') = Some x" "finalizers x = finalizers old"
      "norm_openshift_ec2 x = norm_openshift_ec2 (x\<lparr>labels := managed_labels, onc_spec := default_ec2_spec (hcp_infraID hcp)\<rparr>)"
    using ec2_provider.restored [OF assms(3,4,1)] assms(5-7) by (auto simp: OpenshiftEC2_def)
  have "onc_spec (norm_openshift_ec2 x) =
      onc_spec (norm_openshift_ec2 (x\<lparr>labels := managed_labels, onc_spec := default_ec2_spec (hcp_infraID hcp)\<rparr>))"
    using x(3) by simp
  then have "norm_openshift_ec2_spec (onc_spec x) = norm_openshift_ec2_spec (default_ec2_spec (hcp_infraID hcp))"
    by (simp add: norm_openshift_ec2_def norm_meta_def)
  with default_Reconcile_one [OF assms(1,2) run] x show ?thesis by blast
qed

definition demo_default_world :: world where
  "demo_default_world = empty_world\<lparr>w_hcps := [demo_upgrading],
     w_openshiftEC2 := [new_default_ec2\<lparr>resourceVersion := 4,
       onc_spec := zero_openshift_ec2_spec\<lparr>os_monitoring := MonitoringStateDetailed\<rparr>\<rparr>]\<rparr>"

lemma demo_default_facts:
  "api_faults demo_default_world = []" "filter (\<lambda>o'. namespace o' = ''clusters-a'') (w_hcps demo_default_world) = [demo_upgrading]"
  "an_provisioner (hcp_autoNode demo_upgrading) = ProvisionerKarpenter" "\<not> core_e2e_override demo_upgrading"
  by (simp_all add: demo_default_world_def empty_world_def demo_upgrading_def object_meta.defs zero_object_meta_def core_e2e_override_def)

theorem default_ec2_restored_witness:
  "\<exists>w' x. default_Reconcile (Some hcpEC2NodeClassProvider) True ''clusters-a'' demo_default_world = (Inr Result0, w') \<and>
    find_obj ([], ''default'') (w_openshiftEC2 w') = Some x \<and>
    norm_openshift_ec2_spec (onc_spec x) = norm_openshift_ec2_spec (default_ec2_spec (hcp_infraID demo_upgrading))"
  using default_ec2_restored [OF demo_default_facts, of "hd (w_openshiftEC2 demo_default_world)"]
  by (auto simp: demo_default_world_def new_default_ec2_def object_meta.defs zero_object_meta_def obj_key_def)

text \<open>
  The default NodeClass of an Azure hosted cluster is created with the configured subnet, and a
  second reconcile changes nothing.
\<close>

theorem default_azure_settles:
  assumes "api_faults w = []" "filter (\<lambda>o'. namespace o' = ns) (w_hcps w) = [hcp]"
    and "an_provisioner (hcp_autoNode hcp) = ProvisionerKarpenter" "\<not> core_e2e_override hcp"
    and "distinct (map obj_key (w_openshiftAzure w))"
    and "find_obj ([], ''default'') (w_openshiftAzure w) = None"
  shows "\<exists>w' x. default_Reconcile (Some (hcpAzureNodeClassProvider vnet)) True ns w = (Inr Result0, w') \<and>
    find_obj ([], ''default'') (w_openshiftAzure w') = Some x \<and> az_vnetSubnetID (anc_spec x) = vnet \<and>
    default_reconcileHCP (Some (hcpAzureNodeClassProvider vnet)) True hcp w' = (Inr (), w')"
proof -
  obtain w' x where run: "default_reconcileHCP (Some (hcpAzureNodeClassProvider vnet)) True hcp w = (Inr (), w')"
    and x: "find_obj ([], ''default'') (w_openshiftAzure w') = Some x"
      "norm_openshift_azure x =
         norm_openshift_azure (x\<lparr>labels := managed_labels, anc_spec := zero_azure_spec\<lparr>az_vnetSubnetID := vnet\<rparr>\<rparr>)"
      "default_reconcileHCP (Some (hcpAzureNodeClassProvider vnet)) True hcp w' = (Inr (), w')"
    using azure_provider.restored [OF assms(3,4,1), of vnet] assms(5,6) by (auto simp: OpenshiftAzure_def)
  have "az_vnetSubnetID (anc_spec (norm_openshift_azure x)) =
      az_vnetSubnetID (anc_spec (norm_openshift_azure
        (x\<lparr>labels := managed_labels, anc_spec := zero_azure_spec\<lparr>az_vnetSubnetID := vnet\<rparr>\<rparr>)))"
    using x(2) by simp
  then have "az_vnetSubnetID (anc_spec x) = vnet"
    by (simp add: norm_openshift_azure_def norm_meta_def norm_azure_spec_def)
  with default_Reconcile_one [OF assms(1,2) run] x show ?thesis by blast
qed

theorem default_azure_settles_witness:
  "\<exists>w' x. default_Reconcile (Some (hcpAzureNodeClassProvider ''/subscriptions/s'')) True ''clusters-a'' demo_default_world = (Inr Result0, w') \<and>
    find_obj ([], ''default'') (w_openshiftAzure w') = Some x \<and> az_vnetSubnetID (anc_spec x) = ''/subscriptions/s''"
  using default_azure_settles [OF demo_default_facts, of "''/subscriptions/s''"]
  by (auto simp: demo_default_world_def empty_world_def)

end
