(* ===== verification/Vap.thy ===== *)
theory Vap
  imports Hypershift
begin

text \<open>
  \<open>pkg/controllers/nodeclass/vap/controller.go\<close> and its configurations
  (\<open>pkg/cloudprovider/{aws,azure}/nodeclass.go\<close>): the admission policy that keeps everybody but the
  operator from writing the provider NodeClasses of a hosted cluster.
\<close>

section \<open>The controller\<close>

definition excludeHCCOUserCondition :: match_condition where
  "excludeHCCOUserCondition =
     \<lparr>mc_name = ''exclude-hcco-user'',
      mc_expression = CHR 0x27 # ''system:hosted-cluster-config'' @ CHR 0x27 # '' != request.userInfo.username''\<rparr>"

record vap_config =
  vc_policyName :: string
  vc_policySpec :: vap_spec
  vc_bindingName :: string
  vc_bindingSpec :: vap_binding_spec
  vc_shouldReconcile :: "(world, bool) io option"

definition policySpec :: "vap_config \<Rightarrow> vap_spec" where
  "policySpec cfg =
     (vc_policySpec cfg)\<lparr>vs_matchConditions := vs_matchConditions (vc_policySpec cfg) @ [excludeHCCOUserCondition]\<rparr>"

definition new_vap :: "string \<Rightarrow> vap" where
  "new_vap n = object_meta.extend (zero_object_meta\<lparr>name := n\<rparr>)
     \<lparr>vap_spec = \<lparr>vs_resourceRules = [], vs_validations = [], vs_matchConditions = [], vs_unmanaged = []\<rparr>\<rparr>"

definition new_vap_binding :: "string \<Rightarrow> vap_binding" where
  "new_vap_binding n = object_meta.extend (zero_object_meta\<lparr>name := n\<rparr>)
     \<lparr>vapb_spec = \<lparr>vbs_policyName = [], vbs_validationActions = []\<rparr>\<rparr>"

definition vap_apply :: "vap_config \<Rightarrow> (world, ctrl_result) io" where
  "vap_apply cfg =
     bindE (wrapE ''reconciling validating admission policy %s: %w'' [AStr (vc_policyName cfg)]
       (createOrUpdate VAPs (new_vap (vc_policyName cfg)) (\<lambda>p. Inr (p\<lparr>vap_spec := policySpec cfg\<rparr>)))) (\<lambda>_.
     bindE (wrapE ''reconciling validating admission policy binding %s: %w'' [AStr (vc_bindingName cfg)]
       (createOrUpdate VAPBindings (new_vap_binding (vc_bindingName cfg)) (\<lambda>b. Inr (b\<lparr>vapb_spec := vc_bindingSpec cfg\<rparr>)))) (\<lambda>_.
     ret Result0))"

definition vap_Reconcile :: "vap_config \<Rightarrow> (world, ctrl_result) io" where
  "vap_Reconcile cfg =
     (case vc_shouldReconcile cfg of
        None \<Rightarrow> vap_apply cfg
      | Some gate \<Rightarrow>
          bindE (wrapE ''checking the nodeclass admission policy reconciliation gate: %w'' [] gate)
            (\<lambda>shouldReconcile. if \<not> shouldReconcile then ret Result0 else vap_apply cfg))"

text \<open>\<open>GenerationChangedPredicate\<close> looks at updates only.\<close>

definition generationChanged :: "'a object_meta_scheme watch_event \<Rightarrow> bool" where
  "generationChanged ev = (case ev of UpdateEvent old new \<Rightarrow> generation new \<noteq> generation old | _ \<Rightarrow> True)"

definition event_object :: "'o watch_event \<Rightarrow> 'o" where
  "event_object ev = (case ev of CreateEvent o' \<Rightarrow> o' | UpdateEvent old new \<Rightarrow> new | DeleteEvent o' \<Rightarrow> o' | GenericEvent o' \<Rightarrow> o')"

definition managedPolicyPredicate :: "vap_config \<Rightarrow> vap watch_event \<Rightarrow> bool" where
  "managedPolicyPredicate cfg ev \<longleftrightarrow> name (event_object ev) = vc_policyName cfg \<and> generationChanged ev"

definition managedBindingPredicate :: "vap_config \<Rightarrow> vap_binding watch_event \<Rightarrow> bool" where
  "managedBindingPredicate cfg ev \<longleftrightarrow> name (event_object ev) = vc_bindingName cfg \<and> generationChanged ev"

section \<open>Configurations\<close>

definition specUnchangedExpression :: string where
  "specUnchangedExpression = ''has(oldObject.spec) && has(object.spec) && object.spec == oldObject.spec''"

definition ec2NodeClassVAPHCPPredicate :: "hosted_control_plane watch_event \<Rightarrow> bool" where
  "ec2NodeClassVAPHCPPredicate ev =
     (case ev of
        CreateEvent h \<Rightarrow> True
      | UpdateEvent old new \<Rightarrow>
          sm_get (annotations old) KarpenterCoreE2EOverrideAnnotation
            \<noteq> sm_get (annotations new) KarpenterCoreE2EOverrideAnnotation
      | DeleteEvent h \<Rightarrow> False
      | GenericEvent h \<Rightarrow> False)"

definition ec2_vap_gate :: "string \<Rightarrow> (world, bool) io" where
  "ec2_vap_gate ns =
     handleE (GetHostedControlPlane ns)
       (\<lambda>err. if errors_is err ErrHostedControlPlaneNotFound then ret False else raise err)
       (\<lambda>hcp. ret (\<not> core_e2e_override hcp))"

definition ec2NodeClassVAPConfig :: "string \<Rightarrow> vap_config" where
  "ec2NodeClassVAPConfig ns =
     \<lparr>vc_policyName = ''karpenter.ec2nodeclass.hypershift.io'',
      vc_policySpec =
        \<lparr>vs_resourceRules = [\<lparr>vr_operations = [''*''], vr_apiGroups = [''karpenter.k8s.aws''],
            vr_apiVersions = [''v1''], vr_resources = [''ec2nodeclasses'']\<rparr>],
         vs_validations = [\<lparr>vv_expression = specUnchangedExpression,
            vv_message = ''EC2NodeClass resource can't be created/updated/deleted directly, please use OpenshiftEC2NodeClass resource instead''\<rparr>],
         vs_matchConditions = [], vs_unmanaged = []\<rparr>,
      vc_bindingName = ''karpenter-binding.ec2nodeclass.hypershift.io'',
      vc_bindingSpec = \<lparr>vbs_policyName = ''karpenter.ec2nodeclass.hypershift.io'', vbs_validationActions = [''Deny'']\<rparr>,
      vc_shouldReconcile = Some (ec2_vap_gate ns)\<rparr>"

definition aksNodeClassVAPConfig :: vap_config where
  "aksNodeClassVAPConfig =
     \<lparr>vc_policyName = ''karpenter.aksnodeclass.hypershift.io'',
      vc_policySpec =
        \<lparr>vs_resourceRules = [\<lparr>vr_operations = [''*''], vr_apiGroups = [''karpenter.azure.com''],
            vr_apiVersions = [''*''], vr_resources = [''aksnodeclasses'']\<rparr>],
         vs_validations = [\<lparr>vv_expression = specUnchangedExpression,
            vv_message = ''AKSNodeClass resource can't be created/updated/deleted directly, please use OpenShiftAzureNodeClass resource instead''\<rparr>],
         vs_matchConditions = [], vs_unmanaged = []\<rparr>,
      vc_bindingName = ''karpenter-binding.aksnodeclass.hypershift.io'',
      vc_bindingSpec = \<lparr>vbs_policyName = ''karpenter.aksnodeclass.hypershift.io'', vbs_validationActions = [''Deny'']\<rparr>,
      vc_shouldReconcile = None\<rparr>"

section \<open>What a pass leaves\<close>

text \<open>The policy and the binding are in force: stored with the specs of the configuration.\<close>

definition vap_enforced :: "vap_config \<Rightarrow> world \<Rightarrow> bool" where
  "vap_enforced cfg w \<longleftrightarrow>
     (\<exists>p. find_obj ([], vc_policyName cfg) (w_vaps w) = Some p \<and> vap_spec p = policySpec cfg) \<and>
     (\<exists>b. find_obj ([], vc_bindingName cfg) (w_vapBindings w) = Some b \<and> vapb_spec b = vc_bindingSpec cfg)"

lemma new_vap_key [simp]: "obj_key (new_vap n) = ([], n)" "obj_key (new_vap_binding n) = ([], n)"
  by (simp_all add: new_vap_def new_vap_binding_def object_meta.defs obj_key_def zero_object_meta_def)

lemma keeps_vaps_binding: "keeps (\<lambda>w. w_vaps w = vs) (createOrUpdate VAPBindings b f)"
  by (rule vapBindings.frame_createOrUpdate) simp_all

lemma keeps_bindings_vap: "keeps (\<lambda>w. w_vapBindings w = bs) (createOrUpdate VAPs p f)"
  by (rule vaps.frame_createOrUpdate) simp_all

lemma vap_apply_enforces:
  assumes run: "vap_apply cfg w = (Inr r, w')"
    and live: "not_deleting ([], vc_policyName cfg) (w_vaps w)" "not_deleting ([], vc_bindingName cfg) (w_vapBindings w)"
  shows "vap_enforced cfg w'"
proof -
  let ?P = "createOrUpdate VAPs (new_vap (vc_policyName cfg)) (\<lambda>p. Inr (p\<lparr>vap_spec := policySpec cfg\<rparr>))"
  let ?B = "createOrUpdate VAPBindings (new_vap_binding (vc_bindingName cfg)) (\<lambda>b. Inr (b\<lparr>vapb_spec := vc_bindingSpec cfg\<rparr>))"
  from run obtain x v y where P: "?P w = (Inr x, v)" and B: "?B v = (Inr y, w')"
    by (auto simp: vap_apply_def bindE_run wrapE_run split: prod.splits sum.splits)
  have norm: "vap_spec p = vap_spec p'" if "norm_meta p = norm_meta p'" for p p' :: vap
    using arg_cong [OF that, of vap_spec] by (simp add: norm_meta_def)
  have norm_b: "vapb_spec b = vapb_spec b'" if "norm_meta b = norm_meta b'" for b b' :: vap_binding
    using arg_cong [OF that, of vapb_spec] by (simp add: norm_meta_def)
  have 1: "(\<exists>p. find_obj (obj_key (new_vap (vc_policyName cfg))) (k_objs VAPs v) = Some p \<and>
      vap_spec p = policySpec cfg \<and> deletionTimestamp p = None) \<and>
      (\<forall>k. k = obj_key (new_vap (vc_policyName cfg)) \<or> find_obj k (k_objs VAPs v) = find_obj k (k_objs VAPs w))"
    by (rule vaps.createOrUpdate_establishes [OF P, where R = "\<lambda>p. vap_spec p = policySpec cfg"])
      (use live(1) in \<open>auto simp: VAPs_def not_deleting_def dest: norm\<close>)
  have bindings: "w_vapBindings v = w_vapBindings w"
    using keepsD [OF keeps_bindings_vap [of "w_vapBindings w"], of w] P by (metis snd_conv)
  have 2: "(\<exists>b. find_obj (obj_key (new_vap_binding (vc_bindingName cfg))) (k_objs VAPBindings w') = Some b \<and>
      vapb_spec b = vc_bindingSpec cfg \<and> deletionTimestamp b = None) \<and>
      (\<forall>k. k = obj_key (new_vap_binding (vc_bindingName cfg)) \<or> find_obj k (k_objs VAPBindings w') = find_obj k (k_objs VAPBindings v))"
    by (rule vapBindings.createOrUpdate_establishes [OF B, where R = "\<lambda>b. vapb_spec b = vc_bindingSpec cfg"])
      (use live(2) bindings in \<open>auto simp: VAPBindings_def not_deleting_def dest: norm_b\<close>)
  have "w_vaps w' = w_vaps v"
    using keepsD [OF keeps_vaps_binding [of "w_vaps v"], of v] B by (metis snd_conv)
  with 1 2 show ?thesis by (auto simp: vap_enforced_def)
qed

text \<open>A HostedControlPlane that is there is never reported missing.\<close>

lemma hcp_error_not_missing:
  assumes "GetHostedControlPlane ns w = (Inl e, w')" "filter (\<lambda>o'. namespace o' = ns) (w_hcps w) = [hcp]"
  shows "\<not> errors_is e ErrHostedControlPlaneNotFound"
proof (cases rule: cl_list_cases [of HCPs "\<lambda>o'. namespace o' = ns" w])
  case (fault e' fs)
  with assms(1) show ?thesis
    by (auto simp: GetHostedControlPlane_def io_simps ErrHostedControlPlaneNotFound_def)
next
  case (listed fs)
  with assms show ?thesis by (simp add: GetHostedControlPlane_def io_simps)
qed

section \<open>Properties\<close>


definition demo_policy_world :: world where
  "demo_policy_world = empty_world\<lparr>w_hcps := [object_meta.extend (zero_object_meta\<lparr>namespace := ''clusters-a'', name := ''a''\<rparr>)
     \<lparr>hcp_infraID = ''a-x'', hcp_pullSecretName = [], hcp_autoNode = \<lparr>an_provisioner = ProvisionerKarpenter, an_karpenter = []\<rparr>,
      hcp_awsPlatform = None,
      hcp_controlPlaneVersion = \<lparr>cpv_desired = \<lparr>rel_architecture = [], rel_version = [], rel_image = [], rel_url = [], rel_channels = []\<rparr>,
        cpv_history = [], cpv_observedGeneration = 0\<rparr>,
      hcp_autoNodeStatus = \<lparr>ans_nodeCount = None, ans_nodeClaimCount = None, ans_vcpus = None\<rparr>\<rparr>]\<rparr>"


end
