(* ===== verification/Crd.thy ===== *)
theory Crd
  imports World
begin

text \<open>
  \<open>pkg/controllers/crd/controller.go\<close>: the controller that keeps the CRDs of Karpenter and of the
  NodeClasses, which are assets of the build, in the target cluster.
\<close>

definition new_crd :: "string \<Rightarrow> crd" where
  "new_crd n = object_meta.extend (zero_object_meta\<lparr>name := n\<rparr>) \<lparr>crd_spec = [], crd_status = []\<rparr>"

definition applyCRD :: "crd \<Rightarrow> (world, unit) io" where
  "applyCRD desired =
     bindE (createOrUpdate CRDs (new_crd (name desired)) (\<lambda>c. Inr (c\<lparr>crd_spec := crd_spec desired\<rparr>))) (\<lambda>_. ret ())"

definition crd_Reconcile :: "crd list \<Rightarrow> (world, ctrl_result) io" where
  "crd_Reconcile managed =
     bindE (forE managed (\<lambda>desired. wrapE ''applying CRD %s: %w'' [AStr (name desired)] (applyCRD desired)))
       (\<lambda>_. ret Result0)"

text \<open>The map function of the watch: requests for the managed CRDs only.\<close>

definition crd_requests :: "crd list \<Rightarrow> crd \<Rightarrow> object_key list" where
  "crd_requests managed o' = (if name o' \<in> name ` set managed then [([], name o')] else [])"

section \<open>What a pass leaves\<close>

definition crd_installed :: "crd \<Rightarrow> world \<Rightarrow> bool" where
  "crd_installed desired w \<longleftrightarrow>
     (\<exists>c. find_obj ([], name desired) (w_crds w) = Some c \<and> crd_spec c = crd_spec desired \<and> deletionTimestamp c = None)"

lemma new_crd_key [simp]: "obj_key (new_crd n) = ([], n)"
  by (simp add: new_crd_def object_meta.defs obj_key_def zero_object_meta_def)

lemma applyCRD_installs:
  assumes run: "applyCRD desired w = (Inr u, w')"
    and live: "not_deleting ([], name desired) (w_crds w)"
  shows "crd_installed desired w' \<and> (\<forall>k. k = ([], name desired) \<or> find_obj k (w_crds w') = find_obj k (w_crds w))"
proof -
  from run obtain x where call: "createOrUpdate CRDs (new_crd (name desired)) (\<lambda>c. Inr (c\<lparr>crd_spec := crd_spec desired\<rparr>)) w = (Inr x, w')"
    by (auto simp: applyCRD_def bindE_run split: prod.splits sum.splits)
  have norm: "crd_spec c = crd_spec c'" if "norm_meta c = norm_meta c'" for c c' :: crd
    using arg_cong [OF that, of crd_spec] by (simp add: norm_meta_def)
  have "(\<exists>c. find_obj (obj_key (new_crd (name desired))) (k_objs CRDs w') = Some c \<and>
      crd_spec c = crd_spec desired \<and> deletionTimestamp c = None) \<and>
      (\<forall>k. k = obj_key (new_crd (name desired)) \<or> find_obj k (k_objs CRDs w') = find_obj k (k_objs CRDs w))"
    by (rule crds.createOrUpdate_establishes [OF call, where R = "\<lambda>c. crd_spec c = crd_spec desired"])
      (use live in \<open>auto simp: CRDs_def not_deleting_def dest: norm\<close>)
  then show ?thesis by (auto simp: crd_installed_def)
qed

lemma crd_pass_installs:
  assumes "forE managed (\<lambda>d. wrapE f (as d) (applyCRD d)) w = (Inr u, w')"
    and "distinct (map name managed)"
    and "list_all (\<lambda>d. not_deleting ([], name d) (w_crds w)) managed"
  shows "(\<forall>d\<in>set managed. crd_installed d w') \<and>
    (\<forall>k. k \<in> (\<lambda>d. ([], name d)) ` set managed \<or> find_obj k (w_crds w') = find_obj k (w_crds w))"
  using assms
proof (induction managed arbitrary: w)
  case (Cons d ds)
  then obtain v x where first: "applyCRD d w = (Inr x, v)" and rest: "forE ds (\<lambda>d. wrapE f (as d) (applyCRD d)) v = (Inr u, w')"
    by (auto simp: bindE_run split: prod.splits sum.splits)
  have v: "crd_installed d v" "\<And>k. k = ([], name d) \<or> find_obj k (w_crds v) = find_obj k (w_crds w)"
    using applyCRD_installs [OF first] Cons.prems(3) unfolding list.pred_inject(2) by blast+
  have other: "find_obj ([], name e) (w_crds v) = find_obj ([], name e) (w_crds w)" if "e \<in> set ds" for e
  proof -
    have "name e \<noteq> name d" using Cons.prems(2) that by (metis distinct.simps(2) image_eqI list.map(2) set_map)
    then show ?thesis using v(2) [of "([], name e)"] by simp
  qed
  then have "list_all (\<lambda>d. not_deleting ([], name d) (w_crds v)) ds"
    using Cons.prems(3) by (simp add: not_deleting_def list_all_iff)
  with Cons.IH [OF rest] Cons.prems(2) have IH: "\<forall>d\<in>set ds. crd_installed d w'"
    "\<And>k. k \<in> (\<lambda>d. ([], name d)) ` set ds \<or> find_obj k (w_crds w') = find_obj k (w_crds v)"
    unfolding list.map distinct.simps by blast+
  have "find_obj ([], name d) (w_crds w') = find_obj ([], name d) (w_crds v)"
  proof -
    have "([], name d) \<notin> (\<lambda>d. ([], name d)) ` set ds" using Cons.prems(2) by auto
    then show ?thesis using IH(2) [of "([], name d)"] by blast
  qed
  with v(1) have "crd_installed d w'" by (simp add: crd_installed_def)
  moreover have "k \<in> (\<lambda>d. ([], name d)) ` set (d # ds) \<or> find_obj k (w_crds w') = find_obj k (w_crds w)" for k
    using IH(2) [of k] v(2) [of k] by auto
  ultimately show ?case using IH(1) by auto
qed simp

section \<open>Properties\<close>



end
