(* ===== verification/Work_Queue.thy ===== *)
theory Work_Queue
  imports Kube_Client
begin

text \<open>
  The loop around a reconciler (controller-runtime): events of the watches enqueue keys, a worker
  takes a key from the queue and reconciles it, and the outcome decides whether the key is
  enqueued again. Rate limits only delay a key, so the queue is a set and the worker may take
  any of its keys; a reconcile is one step, since an event that arrives during it leaves its key in
  the queue.

  The locale states what a controller has to promise so that no wakeup is lost: a key that is not
  in the queue is at rest.
\<close>

section \<open>The loop\<close>

text \<open>\<open>reconcileHandler\<close>: an error or a delay puts the key back.\<close>

fun requeued :: "error + ctrl_result \<Rightarrow> bool" where
  "requeued (Inl err) = True"
| "requeued (Inr result) = (requeueAfter result > 0)"

record ('w, 'k, 'ev) event_controller =
  ec_reconcile :: "'k \<Rightarrow> ('w, ctrl_result) io"
  \<comment> \<open>a watched object changes: when it can, the world it leaves, and what it enqueues\<close>
  ec_possible :: "'ev \<Rightarrow> 'w \<Rightarrow> bool"
  ec_store :: "'ev \<Rightarrow> 'w \<Rightarrow> 'w"
  ec_enqueue :: "'ev \<Rightarrow> 'w \<Rightarrow> 'k set"
  \<comment> \<open>the keys that the events of a reconcile's own writes enqueue\<close>
  ec_own :: "'w \<Rightarrow> 'w \<Rightarrow> 'k set"
  \<comment> \<open>changes of what is not watched: the time, the answers to come, other objects\<close>
  ec_elsewhere :: "'w \<Rightarrow> 'w \<Rightarrow> bool"

definition after_work :: "('w, 'k, 'ev) event_controller \<Rightarrow> 'k \<Rightarrow> error + ctrl_result \<Rightarrow> 'w \<Rightarrow> 'w \<Rightarrow> 'k set \<Rightarrow> 'k set" where
  "after_work c k r w w' q = (q - {k}) \<union> (if requeued r then {k} else {}) \<union> ec_own c w w'"

inductive queue_step :: "(('z api_scheme), 'k, 'ev) event_controller \<Rightarrow> 'z api_scheme \<times> 'k set \<Rightarrow> 'z api_scheme \<times> 'k set \<Rightarrow> bool" for c where
  watched: "ec_possible c ev w \<Longrightarrow> queue_step c (w, q) (ec_store c ev w, q \<union> ec_enqueue c ev (ec_store c ev w))"
| unwatched: "ec_elsewhere c w w' \<Longrightarrow> queue_step c (w, q) (w', q)"
| work: "k \<in> q \<Longrightarrow> honest w \<Longrightarrow> ec_reconcile c k w = (r, w') \<Longrightarrow> queue_step c (w, q) (w', after_work c k r w w' q)"

inductive_cases queue_stepE: "queue_step c s s'"

section \<open>No lost wakeups\<close>

locale level_triggered =
  fixes c :: "(('z api_scheme), 'k, 'ev) event_controller"
    and wf :: "'z api_scheme \<Rightarrow> bool"
    and rest :: "'k \<Rightarrow> 'z api_scheme \<Rightarrow> bool"
  assumes wf_store: "wf w \<Longrightarrow> ec_possible c ev w \<Longrightarrow> wf (ec_store c ev w)"
    and wf_elsewhere: "wf w \<Longrightarrow> ec_elsewhere c w w' \<Longrightarrow> wf w'"
    and wf_reconcile: "wf w \<Longrightarrow> honest w \<Longrightarrow> wf (snd (ec_reconcile c k w))"
    and rest_store: "wf w \<Longrightarrow> ec_possible c ev w \<Longrightarrow> rest k w \<Longrightarrow>
      k \<notin> ec_enqueue c ev (ec_store c ev w) \<Longrightarrow> rest k (ec_store c ev w)"
    and rest_elsewhere: "rest k w \<Longrightarrow> ec_elsewhere c w w' \<Longrightarrow> rest k w'"
    and rest_others: "wf w \<Longrightarrow> honest w \<Longrightarrow> ec_reconcile c k w = (r, w') \<Longrightarrow> rest k' w \<Longrightarrow>
      k' \<notin> ec_own c w w' \<Longrightarrow> k' \<noteq> k \<Longrightarrow> rest k' w'"
    and rest_reconcile: "wf w \<Longrightarrow> honest w \<Longrightarrow> ec_reconcile c k w = (Inr result, w') \<Longrightarrow>
      requeueAfter result \<le> 0 \<Longrightarrow> k \<notin> ec_own c w w' \<Longrightarrow> rest k w'"
begin

definition awake_or_rest :: "'z api_scheme \<times> 'k set \<Rightarrow> bool" where
  "awake_or_rest s \<longleftrightarrow> wf (fst s) \<and> (\<forall>k. k \<in> snd s \<or> rest k (fst s))"

lemma step_awake: "queue_step c s s' \<Longrightarrow> awake_or_rest s \<Longrightarrow> awake_or_rest s'"
proof (induction rule: queue_step.induct)
  case (watched ev w q)
  then show ?case
    unfolding awake_or_rest_def fst_conv snd_conv by (meson UnI1 UnI2 wf_store rest_store)
next
  case (unwatched w w' q)
  then show ?case
    unfolding awake_or_rest_def fst_conv snd_conv by (meson wf_elsewhere rest_elsewhere)
next
  case (work k q w r w')
  then have wf: "wf w" and inv: "\<And>k. k \<in> q \<or> rest k w"
    by (auto simp: awake_or_rest_def)
  have "wf w'"
    using wf_reconcile [OF wf work(2), of k] work(3) by simp
  moreover have "rest k' w'" if "k' \<notin> after_work c k r w w' q" for k'
  proof (cases "k' = k")
    case True
    with that have r: "\<not> requeued r" "k \<notin> ec_own c w w'"
      by (auto simp: after_work_def)
    then obtain result where "r = Inr result" "requeueAfter result \<le> 0"
      by (cases r) auto
    with rest_reconcile [OF wf work(2)] work(3) r(2) True show ?thesis by blast
  next
    case False
    with that have "k' \<notin> q" "k' \<notin> ec_own c w w'"
      by (auto simp: after_work_def)
    with rest_others [OF wf work(2,3)] inv False show ?thesis by blast
  qed
  ultimately show ?case
    by (auto simp: awake_or_rest_def)
qed

theorem no_lost_wakeup:
  assumes "(queue_step c)\<^sup>*\<^sup>* s s'" "wf (fst s)" "\<And>k. k \<in> snd s \<or> rest k (fst s)"
  shows "wf (fst s') \<and> (k \<in> snd s' \<or> rest k (fst s'))"
proof -
  have "awake_or_rest s"
    using assms(2,3) by (simp add: awake_or_rest_def)
  with assms(1) have "awake_or_rest s'"
    by (induction rule: rtranclp_induct) (auto intro: step_awake)
  then show ?thesis by (simp add: awake_or_rest_def)
qed

end

end
