(* ===== verification/Cloud_Provider.thy ===== *)
theory Cloud_Provider
  imports Default_Nodeclass Aws_Verifier
begin

text \<open>
  \<open>pkg/cloudprovider\<close> and \<open>pkg/assets/assets.go\<close>: what the operator knows of its
  infrastructure, the two implementations of the interface \<open>CloudProvider\<close> and how one is
  chosen, and the RBAC and CRD assets embedded in the operator. The locale \<open>operand_cloud\<close> is the
  part of that interface the Deployment of the operand relies on.
\<close>

section \<open>The environment\<close>

text \<open>\<open>os.Getenv\<close>: the empty string when unset.\<close>

type_synonym environment = "string \<Rightarrow> string"

definition RequireEnv :: "environment \<Rightarrow> string \<Rightarrow> error + string" where
  "RequireEnv getenv n = (let v = getenv n in if v = [] then Inl (Errorf ''%s not set'' [AStr n]) else Inr v)"

lemma RequireEnv_Inr_iff: "RequireEnv getenv n = Inr v \<longleftrightarrow> getenv n = v \<and> v \<noteq> []"
  by (auto simp: RequireEnv_def Let_def)

definition KarpenterImageEnvName_aws :: string where
  "KarpenterImageEnvName_aws = ''KARPENTER_IMAGE_AWS''"

definition AWSSharedAuthFileEnvName :: string where
  "AWSSharedAuthFileEnvName = ''AWS_SHARED_CREDENTIALS_FILE''"

definition KarpenterImageEnvName_azure :: string where
  "KarpenterImageEnvName_azure = ''KARPENTER_IMAGE_AZURE''"

definition AzureClientIDEnvName :: string where
  "AzureClientIDEnvName = ''AZURE_CLIENT_ID''"

definition AzureTenantIDEnvName :: string where
  "AzureTenantIDEnvName = ''AZURE_TENANT_ID''"

definition AzureSubscriptionIDEnvName :: string where
  "AzureSubscriptionIDEnvName = ''AZURE_SUBSCRIPTION_ID''"

definition AzureFederatedTokenFileEnvName :: string where
  "AzureFederatedTokenFileEnvName = ''AZURE_FEDERATED_TOKEN_FILE''"

definition AzureVNetSubnetIDEnvName :: string where
  "AzureVNetSubnetIDEnvName = ''VNET_SUBNET_ID''"

definition AzureNodeResourceGroupEnvName :: string where
  "AzureNodeResourceGroupEnvName = ''AZURE_NODE_RESOURCE_GROUP''"

definition AzureLocationEnvName :: string where
  "AzureLocationEnvName = ''LOCATION''"

definition AzureProvisionModeEnvName :: string where
  "AzureProvisionModeEnvName = ''PROVISION_MODE''"

lemmas azure_env_names = AzureClientIDEnvName_def AzureTenantIDEnvName_def AzureSubscriptionIDEnvName_def
  AzureFederatedTokenFileEnvName_def AzureVNetSubnetIDEnvName_def AzureNodeResourceGroupEnvName_def
  AzureLocationEnvName_def AzureProvisionModeEnvName_def

section \<open>Infrastructure\<close>

record infrastructure_info =
  ii_platformType :: string
  ii_region :: string
  ii_infraName :: string
  ii_clusterEndpoint :: string

definition AWSPlatformType :: string where
  "AWSPlatformType = ''AWS''"

definition AzurePlatformType :: string where
  "AzurePlatformType = ''Azure''"

section \<open>Pieces of a pod\<close>

text \<open>
  The parts of the core types the operator fills in. \<open>corev1.EnvVar\<close> here has a name and a value;
  a volume is a Secret or an empty directory.
\<close>

record core_env_var =
  ce_name :: string
  ce_value :: string

datatype volume_source =
    SecretVolume string "int option" "(string \<times> string) list"  \<comment> \<open>name, default mode, items (key, path)\<close>
  | EmptyDirVolume

record volume =
  vol_name :: string
  vol_source :: volume_source

record volume_mount =
  vm_name :: string
  vm_mountPath :: string
  vm_readOnly :: bool

record operand_cloud_config =
  oc_credentialsSecretName :: string
  oc_env :: "core_env_var list"
  oc_volumes :: "volume list"
  oc_volumeMounts :: "volume_mount list"

section \<open>RBAC and CRD assets\<close>

record policy_rule =
  pr_verbs :: "string list"
  pr_apiGroups :: "string list"
  pr_resources :: "string list"
  pr_resourceNames :: "string list"
  pr_nonResourceURLs :: "string list"

record role_ref =
  rr_apiGroup :: string
  rr_kind :: string
  rr_name :: string

record subject =
  sj_kind :: string
  sj_name :: string
  sj_namespace :: string
  sj_apiGroup :: string

record role = object_meta +
  role_rules :: "policy_rule list"

record role_binding = object_meta +
  rb_roleRef :: role_ref
  rb_subjects :: "subject list"

record rbac_assets =
  ra_roles :: "role list"
  ra_roleBindings :: "role_binding list"
  ra_clusterRoles :: "role list"
  ra_clusterRoleBindings :: "role_binding list"

definition mk_rule :: "string list \<Rightarrow> string list \<Rightarrow> string list \<Rightarrow> string list \<Rightarrow> policy_rule" where
  "mk_rule groups resources names verbs =
     \<lparr>pr_verbs = verbs, pr_apiGroups = groups, pr_resources = resources, pr_resourceNames = names, pr_nonResourceURLs = []\<rparr>"

definition mk_role :: "string \<Rightarrow> string \<Rightarrow> policy_rule list \<Rightarrow> role" where
  "mk_role ns n rules = object_meta.extend (zero_object_meta\<lparr>namespace := ns, name := n\<rparr>) \<lparr>role_rules = rules\<rparr>"

definition karpenter_subject :: subject where
  "karpenter_subject =
     \<lparr>sj_kind = ''ServiceAccount'', sj_name = ''karpenter'', sj_namespace = ''openshift-karpenter'', sj_apiGroup = []\<rparr>"

definition mk_binding :: "string \<Rightarrow> string \<Rightarrow> string \<Rightarrow> role_binding" where
  "mk_binding ns kind n = object_meta.extend (zero_object_meta\<lparr>namespace := ns, name := n\<rparr>)
     \<lparr>rb_roleRef = \<lparr>rr_apiGroup = ''rbac.authorization.k8s.io'', rr_kind = kind, rr_name = n\<rparr>,
      rb_subjects = [karpenter_subject]\<rparr>"

text \<open>The files \<open>karpenter/*.yaml\<close> and \<open>aws/*.yaml\<close> that \<open>assets.go\<close> decodes.\<close>

definition core_role_rules :: "policy_rule list" where
  "core_role_rules =
     [mk_rule [''coordination.k8s.io''] [''leases''] [] [''get'', ''watch''],
      mk_rule [''coordination.k8s.io''] [''leases''] [''karpenter-leader-election''] [''patch'', ''update''],
      mk_rule [''coordination.k8s.io''] [''leases''] [] [''create'']]"

definition core_clusterrole_rules :: "policy_rule list" where
  "core_clusterrole_rules =
     [mk_rule [''karpenter.sh''] [''nodepools'', ''nodepools/status'', ''nodeclaims'', ''nodeclaims/status'',
        ''nodeclaims/finalizers'', ''nodeoverlays'', ''nodeoverlays/status''] [] [''get'', ''list'', ''watch''],
      mk_rule [[]] [''pods'', ''nodes'', ''persistentvolumes'', ''persistentvolumeclaims'', ''replicationcontrollers'',
        ''namespaces''] [] [''get'', ''list'', ''watch''],
      mk_rule [''storage.k8s.io''] [''storageclasses'', ''csinodes'', ''volumeattachments''] [] [''get'', ''watch'', ''list''],
      mk_rule [''apps''] [''daemonsets'', ''deployments'', ''replicasets'', ''statefulsets''] [] [''list'', ''watch''],
      mk_rule [''policy''] [''poddisruptionbudgets''] [] [''get'', ''list'', ''watch''],
      mk_rule [[]] [''events''] [] [''get'', ''list'', ''watch''],
      mk_rule [''karpenter.sh''] [''nodeclaims'', ''nodeclaims/status'', ''nodeclaims/finalizers''] []
        [''create'', ''delete'', ''update'', ''patch''],
      mk_rule [''karpenter.sh''] [''nodepools'', ''nodepools/status'', ''nodepools/finalizers'', ''nodeoverlays/status''] []
        [''update'', ''patch''],
      mk_rule [[]] [''events''] [] [''create'', ''patch''],
      mk_rule [[]] [''nodes''] [] [''patch'', ''delete'', ''update''],
      mk_rule [[]] [''pods/eviction''] [] [''create''],
      mk_rule [[]] [''pods''] [] [''delete'']]"

definition aws_clusterrole_rules :: "policy_rule list" where
  "aws_clusterrole_rules =
     [mk_rule [''karpenter.k8s.aws''] [''ec2nodeclasses''] [] [''get'', ''list'', ''watch''],
      mk_rule [''karpenter.k8s.aws''] [''ec2nodeclasses'', ''ec2nodeclasses/status''] [] [''patch'', ''update'']]"

definition CoreRBAC :: rbac_assets where
  "CoreRBAC =
     \<lparr>ra_roles = [mk_role ''openshift-karpenter'' ''karpenter'' core_role_rules],
      ra_roleBindings = [mk_binding ''openshift-karpenter'' ''Role'' ''karpenter''],
      ra_clusterRoles = [mk_role [] ''karpenter-core'' core_clusterrole_rules],
      ra_clusterRoleBindings = [mk_binding [] ''ClusterRole'' ''karpenter-core'']\<rparr>"

definition AWSRBACAssets :: rbac_assets where
  "AWSRBACAssets =
     \<lparr>ra_roles = [], ra_roleBindings = [],
      ra_clusterRoles = [mk_role [] ''karpenter'' aws_clusterrole_rules],
      ra_clusterRoleBindings = [mk_binding [] ''ClusterRole'' ''karpenter'']\<rparr>"

definition no_rbac :: rbac_assets where
  "no_rbac = \<lparr>ra_roles = [], ra_roleBindings = [], ra_clusterRoles = [], ra_clusterRoleBindings = []\<rparr>"

text \<open>The CRD files are named by the CRD they hold; \<open>spec\<close> stands for the embedded contents.\<close>

definition embedded_crd :: "(string \<Rightarrow> string) \<Rightarrow> string \<Rightarrow> crd" where
  "embedded_crd spec n =
     object_meta.extend (zero_object_meta\<lparr>name := n\<rparr>) \<lparr>crd_spec = spec n, crd_status = []\<rparr>"

definition CoreCRDs :: "(string \<Rightarrow> string) \<Rightarrow> crd list" where
  "CoreCRDs spec = [embedded_crd spec ''nodepools.karpenter.sh'', embedded_crd spec ''nodeclaims.karpenter.sh'']"

definition AWSCRDs :: "(string \<Rightarrow> string) \<Rightarrow> crd list" where
  "AWSCRDs spec = [embedded_crd spec ''ec2nodeclasses.karpenter.k8s.aws'']"

definition AWSHCPCRDs :: "(string \<Rightarrow> string) \<Rightarrow> crd list" where
  "AWSHCPCRDs spec = [embedded_crd spec ''openshiftec2nodeclasses.karpenter.hypershift.openshift.io'']"

definition AzureCRDs :: "(string \<Rightarrow> string) \<Rightarrow> crd list" where
  "AzureCRDs spec =
     [embedded_crd spec ''aksnodeclasses.karpenter.azure.com'', embedded_crd spec ''nodeoverlays.karpenter.sh'']"

definition AzureHCPCRDs :: "(string \<Rightarrow> string) \<Rightarrow> crd list" where
  "AzureHCPCRDs spec = [embedded_crd spec ''openshiftazurenodeclasses.karpenter.hypershift.openshift.io'']"

lemma name_embedded_crd [simp]: "name (embedded_crd spec n) = n"
  by (simp add: embedded_crd_def object_meta.defs zero_object_meta_def)

section \<open>The AWS provider\<close>

text \<open>The EC2 client of the provider is the parameter of the node identity verifier, and not repeated here.\<close>

record aws_provider =
  ap_region :: string
  ap_infraName :: string
  ap_clusterEndpoint :: string
  ap_karpenterImage :: string

text \<open>\<open>loadDefaultConfig\<close> is the AWS SDK's \<open>config.LoadDefaultConfig\<close>, which may fail.\<close>

definition aws_New :: "environment \<Rightarrow> (string \<Rightarrow> error option) \<Rightarrow> infrastructure_info \<Rightarrow> error + aws_provider" where
  "aws_New getenv loadDefaultConfig infra =
     (if ii_region infra = [] then Inl (Errorf ''region not available'' [])
      else let karpenterImage = getenv KarpenterImageEnvName_aws in
        case RequireEnv getenv AWSSharedAuthFileEnvName of
          Inl err \<Rightarrow> Inl err
        | Inr _ \<Rightarrow>
            case loadDefaultConfig (ii_region infra) of
              Some err \<Rightarrow> Inl (Wrap ''loading AWS config: %w'' [] err)
            | None \<Rightarrow>
                Inr \<lparr>ap_region = ii_region infra, ap_infraName = ii_infraName infra,
                     ap_clusterEndpoint = ii_clusterEndpoint infra, ap_karpenterImage = karpenterImage\<rparr>)"

definition operandCredentialsSecret :: string where
  "operandCredentialsSecret = ''karpenter-credentials''"

definition aws_OperandConfig :: "aws_provider \<Rightarrow> operand_cloud_config" where
  "aws_OperandConfig p =
     \<lparr>oc_credentialsSecretName = operandCredentialsSecret,
      oc_env =
        [\<lparr>ce_name = ''AWS_REGION'', ce_value = ap_region p\<rparr>,
         \<lparr>ce_name = ''AWS_SHARED_CREDENTIALS_FILE'', ce_value = ''/etc/provider/credentials''\<rparr>,
         \<lparr>ce_name = ''AWS_SDK_LOAD_CONFIG'', ce_value = ''true''\<rparr>],
      oc_volumes = [\<lparr>vol_name = ''provider-creds'', vol_source = SecretVolume operandCredentialsSecret None []\<rparr>],
      oc_volumeMounts = [\<lparr>vm_name = ''provider-creds'', vm_mountPath = ''/etc/provider'', vm_readOnly = True\<rparr>]\<rparr>"

section \<open>The Azure provider\<close>

record azure_provider =
  zp_region :: string
  zp_karpenterImage :: string
  zp_clientID :: string
  zp_tenantID :: string
  zp_subscriptionID :: string
  zp_federatedTokenFile :: string
  zp_vnetSubnetID :: string
  zp_nodeResourceGroup :: string

definition bind_result :: "error + 'a \<Rightarrow> ('a \<Rightarrow> error + 'b) \<Rightarrow> error + 'b" where
  "bind_result r k = (case r of Inl e \<Rightarrow> Inl e | Inr a \<Rightarrow> k a)"

lemma bind_result_simps [simp]: "bind_result (Inl e) k = Inl e" "bind_result (Inr a) k = k a"
  by (simp_all add: bind_result_def)

lemma bind_result_Inr_iff: "bind_result r k = Inr b \<longleftrightarrow> (\<exists>a. r = Inr a \<and> k a = Inr b)"
  by (cases r) simp_all

definition azure_New :: "environment \<Rightarrow> infrastructure_info \<Rightarrow> error + azure_provider" where
  "azure_New getenv infra =
     (if ii_region infra = [] then Inl (Errorf ''region not available'' [])
      else let karpenterImage = getenv KarpenterImageEnvName_azure in
        bind_result (RequireEnv getenv AzureClientIDEnvName) (\<lambda>clientID.
        bind_result (RequireEnv getenv AzureTenantIDEnvName) (\<lambda>tenantID.
        bind_result (RequireEnv getenv AzureSubscriptionIDEnvName) (\<lambda>subscriptionID.
        bind_result (RequireEnv getenv AzureFederatedTokenFileEnvName) (\<lambda>federatedTokenFile.
        bind_result (RequireEnv getenv AzureVNetSubnetIDEnvName) (\<lambda>vnetSubnetID.
        bind_result (RequireEnv getenv AzureNodeResourceGroupEnvName) (\<lambda>nodeResourceGroup.
          Inr \<lparr>zp_region = ii_region infra, zp_karpenterImage = karpenterImage, zp_clientID = clientID,
               zp_tenantID = tenantID, zp_subscriptionID = subscriptionID,
               zp_federatedTokenFile = federatedTokenFile, zp_vnetSubnetID = vnetSubnetID,
               zp_nodeResourceGroup = nodeResourceGroup\<rparr>)))))))"

definition azure_OperandConfig :: "azure_provider \<Rightarrow> operand_cloud_config" where
  "azure_OperandConfig p =
     \<lparr>oc_credentialsSecretName = [],
      oc_env =
        [\<lparr>ce_name = AzureLocationEnvName, ce_value = zp_region p\<rparr>,
         \<lparr>ce_name = AzureClientIDEnvName, ce_value = zp_clientID p\<rparr>,
         \<lparr>ce_name = AzureTenantIDEnvName, ce_value = zp_tenantID p\<rparr>,
         \<lparr>ce_name = AzureSubscriptionIDEnvName, ce_value = zp_subscriptionID p\<rparr>,
         \<lparr>ce_name = AzureFederatedTokenFileEnvName, ce_value = zp_federatedTokenFile p\<rparr>,
         \<lparr>ce_name = AzureVNetSubnetIDEnvName, ce_value = zp_vnetSubnetID p\<rparr>,
         \<lparr>ce_name = AzureNodeResourceGroupEnvName, ce_value = zp_nodeResourceGroup p\<rparr>,
         \<lparr>ce_name = AzureProvisionModeEnvName, ce_value = ''openshift''\<rparr>],
      oc_volumes = [], oc_volumeMounts = []\<rparr>"

section \<open>The interface\<close>

record object_reference =
  oref_group :: string
  oref_resource :: string
  oref_name :: string
  oref_namespace :: string

definition resource_reference :: "string \<Rightarrow> string \<Rightarrow> object_reference" where
  "resource_reference g r = \<lparr>oref_group = g, oref_resource = r, oref_name = [], oref_namespace = []\<rparr>"

datatype cloud_provider = AWSProvider aws_provider | AzureProvider azure_provider

fun KarpenterImage :: "cloud_provider \<Rightarrow> string" where
  "KarpenterImage (AWSProvider p) = ap_karpenterImage p"
| "KarpenterImage (AzureProvider p) = zp_karpenterImage p"

fun OperandConfig :: "cloud_provider \<Rightarrow> operand_cloud_config" where
  "OperandConfig (AWSProvider p) = aws_OperandConfig p"
| "OperandConfig (AzureProvider p) = azure_OperandConfig p"

fun provider_CRDs :: "(string \<Rightarrow> string) \<Rightarrow> cloud_provider \<Rightarrow> crd list" where
  "provider_CRDs spec (AWSProvider p) = AWSCRDs spec"
| "provider_CRDs spec (AzureProvider p) = AzureCRDs spec"

fun provider_RBAC :: "cloud_provider \<Rightarrow> rbac_assets" where
  "provider_RBAC (AWSProvider p) = AWSRBACAssets"
| "provider_RBAC (AzureProvider p) = no_rbac"

fun RelatedObjects :: "cloud_provider \<Rightarrow> object_reference list" where
  "RelatedObjects (AWSProvider p) = [resource_reference ''karpenter.k8s.aws'' ''ec2nodeclasses'']"
| "RelatedObjects (AzureProvider p) = [resource_reference ''karpenter.azure.com'' ''aksnodeclasses'']"

text \<open>Whether \<open>NodeIdentityVerifier\<close> returns one; on AWS it is \<open>Aws_Verifier.Verify\<close>.\<close>

fun NodeIdentityVerifier :: "cloud_provider \<Rightarrow> bool" where
  "NodeIdentityVerifier (AWSProvider p) = True"
| "NodeIdentityVerifier (AzureProvider p) = False"

text \<open>The hosted control plane NodeClass provider; Azure's carries the subnet of new nodes.\<close>

datatype hcp_provider = HCPEC2NodeClassProvider | HCPAzureNodeClassProvider string

fun HCPNodeClassProvider :: "cloud_provider \<Rightarrow> hcp_provider" where
  "HCPNodeClassProvider (AWSProvider p) = HCPEC2NodeClassProvider"
| "HCPNodeClassProvider (AzureProvider p) = HCPAzureNodeClassProvider (zp_vnetSubnetID p)"

fun hcp_provider_CRDs :: "(string \<Rightarrow> string) \<Rightarrow> hcp_provider \<Rightarrow> crd list" where
  "hcp_provider_CRDs spec HCPEC2NodeClassProvider = AWSHCPCRDs spec"
| "hcp_provider_CRDs spec (HCPAzureNodeClassProvider v) = AzureHCPCRDs spec"

definition GetCloudProvider ::
  "environment \<Rightarrow> (string \<Rightarrow> error option) \<Rightarrow> infrastructure_info \<Rightarrow> error + cloud_provider" where
  "GetCloudProvider getenv loadDefaultConfig infra =
     (if ii_platformType infra = AWSPlatformType then
        map_sum id AWSProvider (aws_New getenv loadDefaultConfig infra)
      else if ii_platformType infra = AzurePlatformType then
        map_sum id AzureProvider (azure_New getenv infra)
      else Inl (Errorf ''unsupported platform type: %s'' [AStr (ii_platformType infra)]))"

section \<open>What the operand's pod relies on\<close>

text \<open>
  Names and paths the operator puts into the operand's pod itself. The API server keys the
  environment, the volumes and the mounts of a container by them, so a provider must stay clear.
\<close>

definition reserved_env :: "string list" where
  "reserved_env = [''SYSTEM_NAMESPACE'', ''CLUSTER_NAME'', ''CLUSTER_ENDPOINT'', ''DISABLE_WEBHOOK'',
     ''HEALTH_PROBE_PORT'', ''KUBECONFIG'', ''DISABLE_LEADER_ELECTION'']"

definition reserved_volumes :: "string list" where
  "reserved_volumes = [''tmp'', ''target-kubeconfig'', ''cloud-token'']"

definition reserved_paths :: "string list" where
  "reserved_paths = [''/tmp'', ''/mnt/kubeconfig'', ''/var/run/secrets/openshift/serviceaccount'']"

lemma distinct_around:
  "distinct xs \<Longrightarrow> set xs \<inter> R = {} \<Longrightarrow> distinct (ys @ zs) \<Longrightarrow> set (ys @ zs) \<subseteq> R \<Longrightarrow> distinct (ys @ xs @ zs)"
  by auto

locale operand_cloud =
  fixes cfg :: operand_cloud_config
  assumes env_distinct: "distinct (map ce_name (oc_env cfg))"
    and env_free: "set (map ce_name (oc_env cfg)) \<inter> set reserved_env = {}"
    and volumes_distinct: "distinct (map vol_name (oc_volumes cfg))"
    and volumes_free: "set (map vol_name (oc_volumes cfg)) \<inter> set reserved_volumes = {}"
    and paths_distinct: "distinct (map vm_mountPath (oc_volumeMounts cfg))"
    and paths_free: "set (map vm_mountPath (oc_volumeMounts cfg)) \<inter> set reserved_paths = {}"
    and mounts_declared: "set (map vm_name (oc_volumeMounts cfg)) \<subseteq> set (map vol_name (oc_volumes cfg))"
begin

lemma env_around:
  "distinct (ys @ zs) \<Longrightarrow> set (ys @ zs) \<subseteq> set reserved_env \<Longrightarrow> distinct (ys @ map ce_name (oc_env cfg) @ zs)"
  using distinct_around [OF env_distinct env_free] .

lemma volumes_around:
  "distinct (ys @ zs) \<Longrightarrow> set (ys @ zs) \<subseteq> set reserved_volumes \<Longrightarrow> distinct (ys @ map vol_name (oc_volumes cfg) @ zs)"
  using distinct_around [OF volumes_distinct volumes_free] .

lemma paths_around:
  "distinct (ys @ zs) \<Longrightarrow> set (ys @ zs) \<subseteq> set reserved_paths \<Longrightarrow> distinct (ys @ map vm_mountPath (oc_volumeMounts cfg) @ zs)"
  using distinct_around [OF paths_distinct paths_free] .

end

interpretation aws_cloud: operand_cloud "aws_OperandConfig p"
  by unfold_locales (simp_all add: aws_OperandConfig_def reserved_env_def reserved_volumes_def reserved_paths_def)

interpretation azure_cloud: operand_cloud "azure_OperandConfig p"
  by unfold_locales (simp_all add: azure_OperandConfig_def reserved_env_def reserved_volumes_def reserved_paths_def azure_env_names)

lemma operand_cloud_provider: "operand_cloud (OperandConfig p)"
  by (cases p) (simp_all add: aws_cloud.operand_cloud_axioms azure_cloud.operand_cloud_axioms)

interpretation provider_cloud: operand_cloud "OperandConfig p"
  by (rule operand_cloud_provider)

end
