(* ===== verification/Operand_Spec.thy ===== *)
theory Operand_Spec
  imports Cloud_Provider
begin

text \<open>
  \<open>pkg/controllers/karpenter/{config,convert,deployment,rbac,podmonitor}.go\<close>: how the manifests
  of the operand, the karpenter Deployment with its RBAC and PodMonitor, are rendered. A
  manifest is an apply configuration: a record of the fields the operator sets, where a field
  left out is \<open>None\<close>. Strings are taken to be valid UTF-8, so that encoding them cannot fail.
\<close>

section \<open>Apply configurations\<close>

record env_var =
  ev_name :: string
  ev_value :: "string option"
  ev_fieldPath :: "string option"

record container_port =
  cport_name :: string
  cport_containerPort :: int
  cport_protocol :: "string option"

datatype probe_handler = HTTPGet string int | Exec "string list"

record probe =
  prb_handler :: probe_handler
  prb_initialDelaySeconds :: "int option"
  prb_timeoutSeconds :: "int option"
  prb_periodSeconds :: "int option"
  prb_failureThreshold :: "int option"

text \<open>A \<open>corev1.Container\<close> and its apply configuration have the same JSON form; one record serves both.\<close>

record container =
  ct_name :: string
  ct_image :: string
  ct_imagePullPolicy :: string
  ct_command :: "string list"
  ct_args :: "string list"
  ct_env :: "env_var list"
  ct_ports :: "container_port list"
  ct_requests :: "(string \<times> quantity) list"
  ct_allowPrivilegeEscalation :: "bool option"
  ct_dropCapabilities :: "string list"
  ct_readOnlyRootFilesystem :: "bool option"
  ct_terminationMessagePolicy :: string
  ct_livenessProbe :: "probe option"
  ct_readinessProbe :: "probe option"
  ct_startupProbe :: "probe option"
  ct_restartPolicy :: "string option"
  ct_volumeMounts :: "volume_mount list"

record pod_security_context =
  psc_runAsNonRoot :: bool
  psc_seccompProfile :: string
  psc_runAsUser :: "int64 option"
  psc_fsGroup :: "int64 option"

record pod_spec =
  ps_priorityClassName :: string
  ps_serviceAccountName :: string
  ps_terminationGracePeriodSeconds :: int
  ps_securityContext :: pod_security_context
  ps_initContainers :: "container list"
  ps_containers :: "container list"
  ps_volumes :: "volume list"

type_synonym label_map = "(string, string) fmap"

record deployment_config =
  dpc_name :: string
  dpc_namespace :: string
  dpc_ownerReference :: owner_reference
  dpc_labels :: label_map
  dpc_annotations :: "label_map option"
  dpc_replicas :: int
  dpc_selector :: label_map
  dpc_templateAnnotations :: label_map
  dpc_templateLabels :: label_map
  dpc_podSpec :: pod_spec

section \<open>The configuration of the operand\<close>

definition karpenterName :: string where "karpenterName = ''karpenter''"
definition defaultMetricsPort :: int where "defaultMetricsPort = 8080"
definition defaultHealthProbePort :: int where "defaultHealthProbePort = 8081"
definition metricsPortName :: string where "metricsPortName = ''metrics''"
definition healthProbePortName :: string where "healthProbePortName = ''http''"
definition karpenterPodTerminationGracePeriodSeconds :: int where "karpenterPodTerminationGracePeriodSeconds = 10"
definition karpenterPodPriorityClassName :: string where "karpenterPodPriorityClassName = ''system-node-critical''"
definition hcpKarpenterPodPriorityClassName :: string where "hcpKarpenterPodPriorityClassName = ''hypershift-control-plane''"
definition tmpVolumeName :: string where "tmpVolumeName = ''tmp''"
definition tmpMountPath :: string where "tmpMountPath = ''/tmp''"
definition appLabelKey :: string where "appLabelKey = ''app''"

definition safeToEvictLocalVolumesAnnotation :: string where
  "safeToEvictLocalVolumesAnnotation = ''cluster-autoscaler.kubernetes.io/safe-to-evict-local-volumes''"

definition targetWorkloadManagementAnnotation :: string where
  "targetWorkloadManagementAnnotation = ''target.workload.openshift.io/management''"

definition targetWorkloadSchedulingPriority :: string where
  "targetWorkloadSchedulingPriority = ''{\"effect\": \"PreferredDuringScheduling\"}''"

definition defaultHealthProbePortStr :: string where
  "defaultHealthProbePortStr = show_nat (nat defaultHealthProbePort)"

definition PullIfNotPresent :: string where "PullIfNotPresent = ''IfNotPresent''"
definition PullAlways :: string where "PullAlways = ''Always''"

record operand_config =
  opc_namespace :: string
  opc_karpenterImage :: string
  opc_clusterName :: string
  opc_clusterEndpoint :: string
  opc_cloudProvider :: cloud_provider
  opc_imagePullPolicy :: string
  opc_logLevelArg :: string
  opc_releaseVersion :: string
  opc_priorityClassName :: string
  opc_defaultSecurityContextUID :: "int64 option"
  opc_additionalAnnotations :: smap
  opc_additionalLabels :: smap
  opc_additionalEnv :: "core_env_var list"
  opc_additionalVolumeMounts :: "volume_mount list"
  opc_additionalVolumes :: "volume list"
  opc_additionalInitContainers :: "container list"

section \<open>Conversions\<close>

text \<open>
  \<open>applyConfigurations\<close> converts item by item and reports the index of the first failure. The
  conversion of an item goes through its JSON form, which leaves out an empty value.
\<close>

fun applyConfigurations_from :: "nat \<Rightarrow> ('a \<Rightarrow> error + 'b) \<Rightarrow> 'a list \<Rightarrow> string \<Rightarrow> error + 'b list" where
  "applyConfigurations_from i conv [] field = Inr []"
| "applyConfigurations_from i conv (x # xs) field =
     (case conv x of
        Inl err \<Rightarrow> Inl (Wrap ''convert %s[%d]: %w'' [AStr field, ANum i] err)
      | Inr y \<Rightarrow> bind_result (applyConfigurations_from (Suc i) conv xs field) (\<lambda>ys. Inr (y # ys)))"

definition applyConfigurations :: "('a \<Rightarrow> error + 'b) \<Rightarrow> 'a list \<Rightarrow> string \<Rightarrow> error + 'b list" where
  "applyConfigurations conv xs field = applyConfigurations_from 0 conv xs field"

definition env_conv :: "core_env_var \<Rightarrow> env_var" where
  "env_conv e = \<lparr>ev_name = ce_name e, ev_value = (if ce_value e = [] then None else Some (ce_value e)), ev_fieldPath = None\<rparr>"

definition envVars :: "core_env_var list \<Rightarrow> error + env_var list" where
  "envVars vars = applyConfigurations (\<lambda>e. Inr (env_conv e)) vars ''env''"

definition to_volumes :: "volume list \<Rightarrow> error + volume list" where
  "to_volumes vols = applyConfigurations Inr vols ''volume''"

definition to_volumeMounts :: "volume_mount list \<Rightarrow> error + volume_mount list" where
  "to_volumeMounts mounts = applyConfigurations Inr mounts ''volumeMount''"

definition initContainers :: "container list \<Rightarrow> error + container list" where
  "initContainers containers = applyConfigurations Inr containers ''initContainer''"

lemma applyConfigurations_total: "applyConfigurations_from i (\<lambda>x. Inr (f x)) xs field = Inr (map f xs)"
  by (induction xs arbitrary: i) simp_all

lemma conversions [simp]:
  "envVars vars = Inr (map env_conv vars)" "to_volumes vols = Inr vols"
  "to_volumeMounts mounts = Inr mounts" "initContainers cs = Inr cs"
  using applyConfigurations_total [of 0 env_conv vars] applyConfigurations_total [of 0 "\<lambda>x. x" vols]
    applyConfigurations_total [of 0 "\<lambda>x. x" mounts] applyConfigurations_total [of 0 "\<lambda>x. x" cs]
  by (simp_all add: envVars_def to_volumes_def to_volumeMounts_def initContainers_def applyConfigurations_def)

section \<open>The pod\<close>

definition literal_env :: "string \<Rightarrow> string \<Rightarrow> env_var" where
  "literal_env n v = \<lparr>ev_name = n, ev_value = Some v, ev_fieldPath = None\<rparr>"

definition buildEnv :: "operand_config \<Rightarrow> operand_cloud_config \<Rightarrow> error + env_var list" where
  "buildEnv cfg cloudCfg =
     (let env =
        [\<lparr>ev_name = ''SYSTEM_NAMESPACE'', ev_value = None, ev_fieldPath = Some ''metadata.namespace''\<rparr>,
         literal_env ''CLUSTER_NAME'' (opc_clusterName cfg),
         literal_env ''CLUSTER_ENDPOINT'' (opc_clusterEndpoint cfg),
         literal_env ''DISABLE_WEBHOOK'' ''true'',
         literal_env ''HEALTH_PROBE_PORT'' defaultHealthProbePortStr]
      in bind_result (envVars (oc_env cloudCfg)) (\<lambda>cloudEnv. Inr (env @ cloudEnv)))"

definition karpenterPorts :: "container_port list" where
  "karpenterPorts =
     [\<lparr>cport_name = metricsPortName, cport_containerPort = defaultMetricsPort, cport_protocol = None\<rparr>,
      \<lparr>cport_name = healthProbePortName, cport_containerPort = defaultHealthProbePort, cport_protocol = Some ''TCP''\<rparr>]"

definition karpenterLivenessProbe :: probe where
  "karpenterLivenessProbe =
     \<lparr>prb_handler = HTTPGet ''/healthz'' defaultHealthProbePort, prb_initialDelaySeconds = Some 30,
      prb_timeoutSeconds = Some 30, prb_periodSeconds = None, prb_failureThreshold = None\<rparr>"

definition karpenterReadinessProbe :: probe where
  "karpenterReadinessProbe =
     \<lparr>prb_handler = HTTPGet ''/readyz'' defaultHealthProbePort, prb_initialDelaySeconds = Some 5,
      prb_timeoutSeconds = Some 30, prb_periodSeconds = None, prb_failureThreshold = None\<rparr>"

definition operand_container :: "operand_config \<Rightarrow> env_var list \<Rightarrow> volume_mount list \<Rightarrow> container" where
  "operand_container cfg env mounts =
     \<lparr>ct_name = karpenterName, ct_image = opc_karpenterImage cfg, ct_imagePullPolicy = opc_imagePullPolicy cfg,
      ct_command = [], ct_args = [opc_logLevelArg cfg], ct_env = env, ct_ports = karpenterPorts,
      ct_requests = [(''cpu'', nano), (''memory'', gibibytes 1)],
      ct_allowPrivilegeEscalation = Some False, ct_dropCapabilities = [''ALL''], ct_readOnlyRootFilesystem = Some True,
      ct_terminationMessagePolicy = ''FallbackToLogsOnError'',
      ct_livenessProbe = Some karpenterLivenessProbe, ct_readinessProbe = Some karpenterReadinessProbe,
      ct_startupProbe = None, ct_restartPolicy = None, ct_volumeMounts = mounts\<rparr>"

definition operand_securityContext :: "int64 option \<Rightarrow> error + pod_security_context" where
  "operand_securityContext defaultUID =
     (let sc = \<lparr>psc_runAsNonRoot = True, psc_seccompProfile = ''RuntimeDefault'', psc_runAsUser = None, psc_fsGroup = None\<rparr>
      in case defaultUID of
        None \<Rightarrow> Inr sc
      | Some u \<Rightarrow>
          if sint u \<le> 0 then Inl (Errorf ''operand security context UID must be positive'' [])
          else Inr (sc\<lparr>psc_runAsUser := Some u, psc_fsGroup := Some u\<rparr>))"

definition buildPodSpec :: "operand_config \<Rightarrow> error + pod_spec" where
  "buildPodSpec cfg =
     (let cloudCfg = OperandConfig (opc_cloudProvider cfg) in
      bind_result (buildEnv cfg cloudCfg) (\<lambda>env.
      bind_result (to_volumeMounts (oc_volumeMounts cloudCfg)) (\<lambda>cloudMounts.
      bind_result (to_volumeMounts (opc_additionalVolumeMounts cfg)) (\<lambda>additionalMounts.
      let mounts = cloudMounts @ additionalMounts
                   @ [\<lparr>vm_name = tmpVolumeName, vm_mountPath = tmpMountPath, vm_readOnly = False\<rparr>] in
      bind_result (to_volumes (oc_volumes cloudCfg)) (\<lambda>cloudVols.
      bind_result (to_volumes (opc_additionalVolumes cfg)) (\<lambda>additionalVols.
      let vols = cloudVols @ additionalVols @ [\<lparr>vol_name = tmpVolumeName, vol_source = EmptyDirVolume\<rparr>] in
      bind_result (envVars (opc_additionalEnv cfg)) (\<lambda>additionalEnv.
      let env = env @ additionalEnv in
      bind_result (initContainers (opc_additionalInitContainers cfg)) (\<lambda>inits.
      bind_result (operand_securityContext (opc_defaultSecurityContextUID cfg)) (\<lambda>securityContext.
      Inr \<lparr>ps_priorityClassName = opc_priorityClassName cfg, ps_serviceAccountName = karpenterName,
           ps_terminationGracePeriodSeconds = karpenterPodTerminationGracePeriodSeconds,
           ps_securityContext = securityContext, ps_initContainers = inits,
           ps_containers = [operand_container cfg env mounts], ps_volumes = vols\<rparr>)))))))))"

section \<open>The Deployment\<close>

text \<open>\<open>lo.Assign\<close> and repeated \<open>WithAnnotations\<close>: later entries win; a nil map adds nothing.\<close>

definition assign :: "label_map \<Rightarrow> smap \<Rightarrow> label_map" where
  "assign m extra = (case extra of None \<Rightarrow> m | Some e \<Rightarrow> m ++\<^sub>f e)"

definition karpenterSelector :: label_map where
  "karpenterSelector = fmap_of_list [(appLabelKey, karpenterName)]"

definition buildDeployment :: "operand_config \<Rightarrow> owner_reference \<Rightarrow> error + deployment_config" where
  "buildDeployment cfg ownerRef =
     (let selectorLabels = fmap_of_list [(appLabelKey, karpenterName)];
          podLabels = assign selectorLabels (opc_additionalLabels cfg) in
      bind_result (buildPodSpec cfg) (\<lambda>podSpec.
      let deploymentLabels = fmap_of_list [(appLabelKey, karpenterName), (''hypershift.openshift.io/managed-by'', ''karpenter-operator'')];
          deploymentAnnotations =
            (if opc_releaseVersion cfg \<noteq> [] then fmap_of_list [(''release.openshift.io/version'', opc_releaseVersion cfg)] else fmempty)
      in Inr \<lparr>dpc_name = karpenterName, dpc_namespace = opc_namespace cfg, dpc_ownerReference = ownerRef,
              dpc_labels = deploymentLabels,
              dpc_annotations = (if fcard (fmdom deploymentAnnotations) > 0 then Some deploymentAnnotations else None),
              dpc_replicas = 1, dpc_selector = karpenterSelector,
              dpc_templateAnnotations =
                assign (fmap_of_list [(safeToEvictLocalVolumesAnnotation, tmpVolumeName),
                                      (targetWorkloadManagementAnnotation, targetWorkloadSchedulingPriority),
                                      (''openshift.io/required-scc'', ''restricted-v2'')])
                       (opc_additionalAnnotations cfg),
              dpc_templateLabels = podLabels, dpc_podSpec = podSpec\<rparr>))"

section \<open>RBAC and PodMonitor\<close>

definition policyRules :: "policy_rule list \<Rightarrow> policy_rule list" where
  "policyRules rules =
     map (\<lambda>r. \<lparr>pr_verbs = pr_verbs r, pr_apiGroups = pr_apiGroups r, pr_resources = pr_resources r,
               pr_resourceNames = pr_resourceNames r, pr_nonResourceURLs = pr_nonResourceURLs r\<rparr>) rules"

definition roleRef :: "role_ref \<Rightarrow> role_ref" where
  "roleRef ref = \<lparr>rr_apiGroup = rr_apiGroup ref, rr_kind = rr_kind ref, rr_name = rr_name ref\<rparr>"

definition ServiceAccountKind :: string where "ServiceAccountKind = ''ServiceAccount''"

definition subjects :: "subject list \<Rightarrow> string \<Rightarrow> subject list" where
  "subjects subs ns =
     map (\<lambda>s. let sub = \<lparr>sj_kind = sj_kind s, sj_name = sj_name s, sj_namespace = [], sj_apiGroup = sj_apiGroup s\<rparr> in
           if sj_kind s = ServiceAccountKind then
             (if sj_namespace s \<noteq> [] then sub\<lparr>sj_namespace := sj_namespace s\<rparr> else sub\<lparr>sj_namespace := ns\<rparr>)
           else sub) subs"

record pod_monitor_config =
  pmc_name :: string
  pmc_namespace :: string
  pmc_ownerReference :: owner_reference
  pmc_selector :: label_map
  pmc_endpointPort :: string
  pmc_endpointPath :: string
  pmc_endpointScheme :: string

definition buildPodMonitor :: "operand_config \<Rightarrow> owner_reference \<Rightarrow> pod_monitor_config" where
  "buildPodMonitor cfg ownerRef =
     \<lparr>pmc_name = karpenterName, pmc_namespace = opc_namespace cfg, pmc_ownerReference = ownerRef,
      pmc_selector = karpenterSelector, pmc_endpointPort = metricsPortName, pmc_endpointPath = ''/metrics'',
      pmc_endpointScheme = ''HTTP''\<rparr>"

lemma policyRules_id [simp]: "policyRules rules = rules"
  by (induction rules) (simp_all add: policyRules_def)

lemma roleRef_id [simp]: "roleRef ref = ref"
  by (simp add: roleRef_def)

lemma subjects_namespaced:
  "s \<in> set (subjects subs ns) \<Longrightarrow> sj_kind s = ServiceAccountKind \<Longrightarrow> ns \<noteq> [] \<Longrightarrow> sj_namespace s \<noteq> []"
  by (auto simp: subjects_def Let_def split: if_splits)

end
