(* ===== verification/Operand.thy ===== *)
theory Operand
  imports Operand_Spec
begin

text \<open>
  \<open>pkg/controllers/karpenter/{apply,hcp_controller,ocp_controller}.go\<close>: the controllers that deploy
  the operand, for a HostedControlPlane on a management cluster and for the Karpenter resource of
  a standalone cluster.

  Manifests are written by server-side apply with forced ownership. For a manifest the world
  keeps the configuration this field manager applied last, as the API server does in the managed
  fields. The ServiceAccount is read back by the code, so it is an object of the world; how the
  API server merges an apply configuration into it is the parameter \<open>ssa\<close>.
\<close>

section \<open>The cluster of the operand\<close>

record service_account = object_meta +
  sa_imagePullSecrets :: "string list"

record role_config =
  rlc_name :: string
  rlc_namespace :: string
  rlc_ownerReference :: owner_reference
  rlc_labels :: smap
  rlc_rules :: "policy_rule list"

record binding_config =
  bdc_name :: string
  bdc_namespace :: string
  bdc_ownerReference :: owner_reference
  bdc_roleRef :: role_ref
  bdc_subjects :: "subject list"

datatype manifest =
    RoleManifest role_config
  | RoleBindingManifest binding_config
  | ClusterRoleManifest role_config
  | ClusterRoleBindingManifest binding_config
  | DeploymentManifest deployment_config
  | PodMonitorManifest pod_monitor_config

fun manifest_key :: "manifest \<Rightarrow> string \<times> object_key" where
  "manifest_key (RoleManifest r) = (''Role'', rlc_namespace r, rlc_name r)"
| "manifest_key (RoleBindingManifest b) = (''RoleBinding'', bdc_namespace b, bdc_name b)"
| "manifest_key (ClusterRoleManifest r) = (''ClusterRole'', [], rlc_name r)"
| "manifest_key (ClusterRoleBindingManifest b) = (''ClusterRoleBinding'', [], bdc_name b)"
| "manifest_key (DeploymentManifest d) = (''Deployment'', dpc_namespace d, dpc_name d)"
| "manifest_key (PodMonitorManifest p) = (''PodMonitor'', pmc_namespace p, pmc_name p)"

record operand_world = api +
  ow_hcps :: "hosted_control_plane list"
  ow_karpenters :: "karpenter list"
  ow_serviceAccounts :: "service_account list"
  ow_applied :: "manifest list"

definition OperandHCPs :: "(operand_world, hosted_control_plane) kind" where
  "OperandHCPs = \<lparr>k_objs = ow_hcps, k_upd = ow_hcps_update, k_keepStatus = (\<lambda>old new. new), k_norm = norm_meta\<rparr>"

definition Karpenters :: "(operand_world, karpenter) kind" where
  "Karpenters = \<lparr>k_objs = ow_karpenters, k_upd = ow_karpenters_update, k_keepStatus = (\<lambda>old new. new), k_norm = norm_meta\<rparr>"

definition ServiceAccounts :: "(operand_world, service_account) kind" where
  "ServiceAccounts =
     \<lparr>k_objs = ow_serviceAccounts, k_upd = ow_serviceAccounts_update, k_keepStatus = (\<lambda>old new. new), k_norm = norm_meta\<rparr>"

interpretation operandHCPs: api_kind OperandHCPs
  by unfold_locales (simp_all add: OperandHCPs_def)

interpretation karpenters: api_kind Karpenters
  by unfold_locales (simp_all add: Karpenters_def)

interpretation serviceAccounts: api_kind ServiceAccounts
  by unfold_locales (simp_all add: ServiceAccounts_def)

lemma operand_kinds [simp]:
  "k_objs OperandHCPs = ow_hcps" "k_objs Karpenters = ow_karpenters" "k_objs ServiceAccounts = ow_serviceAccounts"
  by (simp_all add: OperandHCPs_def Karpenters_def ServiceAccounts_def)

section \<open>Applying\<close>

fun record_apply :: "manifest \<Rightarrow> manifest list \<Rightarrow> manifest list" where
  "record_apply m [] = [m]"
| "record_apply m (x # xs) = (if manifest_key x = manifest_key m then m # xs else x # record_apply m xs)"

definition find_manifest :: "string \<times> object_key \<Rightarrow> manifest list \<Rightarrow> manifest option" where
  "find_manifest key ms = find (\<lambda>m. manifest_key m = key) ms"

definition cl_apply :: "manifest \<Rightarrow> (operand_world, unit) io" where
  "cl_apply m = bindE api_call (\<lambda>_. modifyE (ow_applied_update (record_apply m)))"

record sa_config =
  sac_namespace :: string
  sac_name :: string
  sac_ownerReference :: owner_reference
  sac_resourceVersion :: nat
  sac_imagePullSecrets :: "string list"

type_synonym ssa = "sa_config \<Rightarrow> service_account option \<Rightarrow> service_account"

text \<open>A resource version in the configuration must be the stored one.\<close>

definition cl_apply_sa :: "ssa \<Rightarrow> sa_config \<Rightarrow> (operand_world, unit) io" where
  "cl_apply_sa ssa cfg =
     bindE api_call (\<lambda>_. \<lambda>w.
       let key = (sac_namespace cfg, sac_name cfg); old = find_obj key (ow_serviceAccounts w) in
       if sac_resourceVersion cfg \<noteq> 0 \<and> map_option resourceVersion old \<noteq> Some (sac_resourceVersion cfg)
       then (Inl (ApiErr Conflict), w)
       else let new = (ssa cfg old)\<lparr>namespace := sac_namespace cfg, name := sac_name cfg\<rparr> in
         (Inr (), w\<lparr>ow_serviceAccounts :=
           (case old of None \<Rightarrow> ow_serviceAccounts w @ [new] | Some _ \<Rightarrow> put_obj new (ow_serviceAccounts w))\<rparr>))"

definition ensure_pull_secret :: "string \<Rightarrow> string list \<Rightarrow> string list" where
  "ensure_pull_secret pullSecretName pullSecrets =
     (if pullSecretName \<noteq> [] \<and> pullSecretName \<notin> set pullSecrets then pullSecrets @ [pullSecretName] else pullSecrets)"

definition applyServiceAccount :: "ssa \<Rightarrow> string \<Rightarrow> owner_reference \<Rightarrow> string \<Rightarrow> (operand_world, unit) io" where
  "applyServiceAccount ssa ns ownerRef pullSecretName =
     (let apply = (\<lambda>rv secrets. cl_apply_sa ssa
            \<lparr>sac_namespace = ns, sac_name = karpenterName, sac_ownerReference = ownerRef,
             sac_resourceVersion = rv, sac_imagePullSecrets = ensure_pull_secret pullSecretName secrets\<rparr>) in
      handleE (cl_get ServiceAccounts (ns, karpenterName))
        (\<lambda>err. if \<not> is_not_found err then raise err else apply 0 [])
        (\<lambda>existing. apply (resourceVersion existing) (sa_imagePullSecrets existing)))"

definition applyRoles :: "string \<Rightarrow> owner_reference \<Rightarrow> role list \<Rightarrow> (operand_world, unit) io" where
  "applyRoles ns ownerRef roles = forE roles (\<lambda>desired. cl_apply (RoleManifest
     \<lparr>rlc_name = name desired, rlc_namespace = ns, rlc_ownerReference = ownerRef, rlc_labels = None,
      rlc_rules = policyRules (role_rules desired)\<rparr>))"

definition applyRoleBindings :: "string \<Rightarrow> owner_reference \<Rightarrow> role_binding list \<Rightarrow> (operand_world, unit) io" where
  "applyRoleBindings ns ownerRef bindings = forE bindings (\<lambda>desired. cl_apply (RoleBindingManifest
     \<lparr>bdc_name = name desired, bdc_namespace = ns, bdc_ownerReference = ownerRef,
      bdc_roleRef = roleRef (rb_roleRef desired), bdc_subjects = subjects (rb_subjects desired) ns\<rparr>))"

definition applyClusterRoles :: "owner_reference \<Rightarrow> role list \<Rightarrow> (operand_world, unit) io" where
  "applyClusterRoles ownerRef clusterRoles = forE clusterRoles (\<lambda>desired. cl_apply (ClusterRoleManifest
     \<lparr>rlc_name = name desired, rlc_namespace = [], rlc_ownerReference = ownerRef, rlc_labels = labels desired,
      rlc_rules = policyRules (role_rules desired)\<rparr>))"

definition applyClusterRoleBindings :: "string \<Rightarrow> owner_reference \<Rightarrow> role_binding list \<Rightarrow> (operand_world, unit) io" where
  "applyClusterRoleBindings ns ownerRef bindings = forE bindings (\<lambda>desired. cl_apply (ClusterRoleBindingManifest
     \<lparr>bdc_name = name desired, bdc_namespace = [], bdc_ownerReference = ownerRef,
      bdc_roleRef = roleRef (rb_roleRef desired), bdc_subjects = subjects (rb_subjects desired) ns\<rparr>))"

definition applyDeployment :: "operand_config \<Rightarrow> owner_reference \<Rightarrow> (operand_world, unit) io" where
  "applyDeployment cfg ownerRef =
     handleE (liftE (buildDeployment cfg ownerRef))
       (\<lambda>err. raise (Wrap ''building deployment: %w'' [] err))
       (\<lambda>dep. cl_apply (DeploymentManifest dep))"

definition applyPodMonitor :: "operand_config \<Rightarrow> owner_reference \<Rightarrow> (operand_world, unit) io" where
  "applyPodMonitor cfg ownerRef = cl_apply (PodMonitorManifest (buildPodMonitor cfg ownerRef))"

section \<open>On a management cluster\<close>

record hcp_controller_config =
  hc_namespace :: string
  hc_karpenterImage :: string
  hc_clusterName :: string
  hc_clusterEndpoint :: string
  hc_cloudProvider :: cloud_provider
  hc_tokenMinterImage :: string
  hc_defaultSecurityContextUID :: "int64 option"

definition targetKubeconfigVolumeName :: string where "targetKubeconfigVolumeName = ''target-kubeconfig''"
definition targetKubeconfigMountPath :: string where "targetKubeconfigMountPath = ''/mnt/kubeconfig''"
definition targetKubeconfigFilePath :: string where "targetKubeconfigFilePath = ''target-kubeconfig''"
definition targetKubeconfigSecretKey :: string where "targetKubeconfigSecretKey = ''value''"
definition cloudTokenVolumeName :: string where "cloudTokenVolumeName = ''cloud-token''"
definition cloudTokenMountPath :: string where "cloudTokenMountPath = ''/var/run/secrets/openshift/serviceaccount''"
definition cloudTokenFilePath :: string where "cloudTokenFilePath = cloudTokenMountPath @ ''/token''"
definition targetServiceAccountNamespace :: string where "targetServiceAccountNamespace = ''kube-system''"
definition targetServiceAccountName :: string where "targetServiceAccountName = ''karpenter''"

lemmas target_paths = targetKubeconfigVolumeName_def targetKubeconfigMountPath_def targetKubeconfigFilePath_def
  targetKubeconfigSecretKey_def cloudTokenVolumeName_def cloudTokenMountPath_def cloudTokenFilePath_def
  targetServiceAccountNamespace_def targetServiceAccountName_def

definition hcpOwnerRef :: "hosted_control_plane \<Rightarrow> owner_reference" where
  "hcpOwnerRef hcp =
     \<lparr>or_apiVersion = ''hypershift.openshift.io/v1beta1'', or_kind = ''HostedControlPlane'', or_name = name hcp,
      or_uid = uid hcp, or_controller = Some True, or_blockOwnerDeletion = Some True\<rparr>"

definition tokenMinterContainer :: "string \<Rightarrow> container" where
  "tokenMinterContainer minterImage =
     \<lparr>ct_name = ''token-minter'', ct_image = minterImage, ct_imagePullPolicy = PullIfNotPresent,
      ct_command = [''/usr/bin/control-plane-operator'', ''token-minter''],
      ct_args = [''--service-account-namespace='' @ targetServiceAccountNamespace,
                 ''--service-account-name='' @ targetServiceAccountName,
                 ''--token-file='' @ cloudTokenFilePath,
                 ''--kubeconfig='' @ targetKubeconfigMountPath @ ''/'' @ targetKubeconfigFilePath],
      ct_env = [], ct_ports = [], ct_requests = [(''cpu'', nano div 100), (''memory'', 30 * 2 ^ 20 * nano)],
      ct_allowPrivilegeEscalation = None, ct_dropCapabilities = [], ct_readOnlyRootFilesystem = None,
      ct_terminationMessagePolicy = ''FallbackToLogsOnError'', ct_livenessProbe = None, ct_readinessProbe = None,
      ct_startupProbe = Some \<lparr>prb_handler = Exec [''test'', ''-f'', cloudTokenFilePath], prb_initialDelaySeconds = None,
        prb_timeoutSeconds = None, prb_periodSeconds = Some 1, prb_failureThreshold = Some 30\<rparr>,
      ct_restartPolicy = Some ''Always'',
      ct_volumeMounts =
        [\<lparr>vm_name = targetKubeconfigVolumeName, vm_mountPath = targetKubeconfigMountPath, vm_readOnly = False\<rparr>,
         \<lparr>vm_name = cloudTokenVolumeName, vm_mountPath = cloudTokenMountPath, vm_readOnly = False\<rparr>]\<rparr>"

definition hcp_operandConfig :: "hcp_controller_config \<Rightarrow> string \<Rightarrow> hosted_control_plane \<Rightarrow> operand_config" where
  "hcp_operandConfig c karpenterImage hcp =
     \<lparr>opc_namespace = hc_namespace c, opc_karpenterImage = karpenterImage, opc_clusterName = hc_clusterName c,
      opc_clusterEndpoint = hc_clusterEndpoint c, opc_cloudProvider = hc_cloudProvider c,
      opc_imagePullPolicy = PullIfNotPresent, opc_logLevelArg = ''--log-level=debug'',
      opc_releaseVersion = rel_version (cpv_desired (hcp_controlPlaneVersion hcp)),
      opc_priorityClassName = hcpKarpenterPodPriorityClassName,
      opc_defaultSecurityContextUID = hc_defaultSecurityContextUID c,
      opc_additionalAnnotations =
        Some (fmap_of_list [(safeToEvictLocalVolumesAnnotation, cloudTokenVolumeName @ '','' @ tmpVolumeName)]),
      opc_additionalLabels = None,
      opc_additionalEnv =
        [\<lparr>ce_name = ''KUBECONFIG'', ce_value = targetKubeconfigMountPath @ ''/'' @ targetKubeconfigFilePath\<rparr>,
         \<lparr>ce_name = ''DISABLE_LEADER_ELECTION'', ce_value = ''true''\<rparr>],
      opc_additionalVolumeMounts =
        [\<lparr>vm_name = targetKubeconfigVolumeName, vm_mountPath = targetKubeconfigMountPath, vm_readOnly = True\<rparr>,
         \<lparr>vm_name = cloudTokenVolumeName, vm_mountPath = cloudTokenMountPath, vm_readOnly = False\<rparr>],
      opc_additionalVolumes =
        [\<lparr>vol_name = targetKubeconfigVolumeName,
          vol_source = SecretVolume (hcp_infraID hcp @ ''-kubeconfig'') (Some 416)
            [(targetKubeconfigSecretKey, targetKubeconfigFilePath)]\<rparr>,
         \<lparr>vol_name = cloudTokenVolumeName, vol_source = EmptyDirVolume\<rparr>],
      opc_additionalInitContainers = [tokenMinterContainer (hc_tokenMinterImage c)]\<rparr>"

text \<open>The image of the operand: the annotation of the owner overrides the configured one.\<close>

definition operand_image :: "string \<Rightarrow> 'a object_meta_scheme \<Rightarrow> string" where
  "operand_image configured owner =
     (if sm_get (annotations owner) KarpenterImageOverrideAnnotation \<noteq> []
      then sm_get (annotations owner) KarpenterImageOverrideAnnotation else configured)"

definition hcp_deploy :: "ssa \<Rightarrow> hcp_controller_config \<Rightarrow> hosted_control_plane \<Rightarrow> (operand_world, ctrl_result) io" where
  "hcp_deploy ssa c hcp =
     (if an_provisioner (hcp_autoNode hcp) \<noteq> ProvisionerKarpenter then ret Result0
      else if rel_version (cpv_desired (hcp_controlPlaneVersion hcp)) = [] then ret \<lparr>requeueAfter = 5 * second_ns\<rparr>
      else let karpenterImage = operand_image (hc_karpenterImage c) hcp in
        if karpenterImage = [] then raise (Errorf ''karpenter image is not set'' [])
        else let ref = hcpOwnerRef hcp; cfg = hcp_operandConfig c karpenterImage hcp in
          bindE (wrapE ''reconciling ServiceAccount: %w'' []
                   (applyServiceAccount ssa (hc_namespace c) ref (hcp_pullSecretName hcp))) (\<lambda>_.
          bindE (wrapE ''reconciling Deployment: %w'' [] (applyDeployment cfg ref)) (\<lambda>_.
          bindE (wrapE ''reconciling PodMonitor: %w'' [] (applyPodMonitor cfg ref)) (\<lambda>_.
          ret Result0))))"

definition hcp_operand_Reconcile :: "ssa \<Rightarrow> hcp_controller_config \<Rightarrow> object_key \<Rightarrow> (operand_world, ctrl_result) io" where
  "hcp_operand_Reconcile ssa c req =
     handleE (cl_get OperandHCPs req)
       (\<lambda>err. if is_not_found err then ret Result0 else raise err)
       (hcp_deploy ssa c)"

definition hcpOperandChanged :: "hosted_control_plane \<Rightarrow> hosted_control_plane \<Rightarrow> bool" where
  "hcpOperandChanged oldHCP newHCP =
     (let specChanged = hcp_infraID oldHCP \<noteq> hcp_infraID newHCP \<or> hcp_pullSecretName oldHCP \<noteq> hcp_pullSecretName newHCP
            \<or> hcp_autoNode oldHCP \<noteq> hcp_autoNode newHCP;
          versionChanged = rel_version (cpv_desired (hcp_controlPlaneVersion oldHCP))
            \<noteq> rel_version (cpv_desired (hcp_controlPlaneVersion newHCP));
          imageOverrideChanged = sm_get (annotations oldHCP) KarpenterImageOverrideAnnotation
            \<noteq> sm_get (annotations newHCP) KarpenterImageOverrideAnnotation
      in specChanged \<or> versionChanged \<or> imageOverrideChanged)"

definition hcpOperandReconcilePredicate :: "hosted_control_plane watch_event \<Rightarrow> bool" where
  "hcpOperandReconcilePredicate ev =
     (case ev of CreateEvent h \<Rightarrow> True | DeleteEvent h \<Rightarrow> True | UpdateEvent old new \<Rightarrow> hcpOperandChanged old new
      | GenericEvent h \<Rightarrow> True)"

section \<open>On a standalone cluster\<close>

record ocp_controller_config =
  occ_namespace :: string
  occ_karpenterImage :: string
  occ_clusterName :: string
  occ_clusterEndpoint :: string
  occ_cloudProvider :: cloud_provider
  occ_imagePullPolicy :: string

definition operandImagePullPolicy :: "environment \<Rightarrow> string" where
  "operandImagePullPolicy getenv = (if getenv ''DEV_IMAGE_PULL_POLICY'' = ''Always'' then PullAlways else PullIfNotPresent)"

definition ocpOwnerRef :: "karpenter \<Rightarrow> owner_reference" where
  "ocpOwnerRef owner =
     \<lparr>or_apiVersion = ''autoscaling.openshift.io/v1alpha1'', or_kind = ''Karpenter'', or_name = name owner,
      or_uid = uid owner, or_controller = Some True, or_blockOwnerDeletion = Some True\<rparr>"

definition ocp_operandConfig :: "ocp_controller_config \<Rightarrow> string \<Rightarrow> karpenter \<Rightarrow> operand_config" where
  "ocp_operandConfig c karpenterImage karp =
     \<lparr>opc_namespace = occ_namespace c, opc_karpenterImage = karpenterImage, opc_clusterName = occ_clusterName c,
      opc_clusterEndpoint = occ_clusterEndpoint c, opc_cloudProvider = occ_cloudProvider c,
      opc_imagePullPolicy = occ_imagePullPolicy c, opc_logLevelArg = logLevel_Arg (karp_logLevel karp),
      opc_releaseVersion = [], opc_priorityClassName = karpenterPodPriorityClassName,
      opc_defaultSecurityContextUID = None, opc_additionalAnnotations = None, opc_additionalLabels = None,
      opc_additionalEnv = [], opc_additionalVolumeMounts = [], opc_additionalVolumes = [],
      opc_additionalInitContainers = []\<rparr>"

definition ocp_deploy :: "ssa \<Rightarrow> ocp_controller_config \<Rightarrow> karpenter \<Rightarrow> (operand_world, ctrl_result) io" where
  "ocp_deploy ssa c karp =
     (let karpenterImage = operand_image (occ_karpenterImage c) karp in
      if karpenterImage = [] then raise (Errorf ''karpenter image is not set'' [])
      else let ref = ocpOwnerRef karp; ns = occ_namespace c;
               cloudRBAC = provider_RBAC (occ_cloudProvider c);
               coreRoles = ra_roles CoreRBAC @ ra_roles cloudRBAC;
               coreRoleBindings = ra_roleBindings CoreRBAC @ ra_roleBindings cloudRBAC;
               cfg = ocp_operandConfig c karpenterImage karp in
        bindE (wrapE ''reconciling ServiceAccount: %w'' [] (applyServiceAccount ssa ns ref [])) (\<lambda>_.
        bindE (wrapE ''reconciling ClusterRoles: %w'' []
                 (applyClusterRoles ref (ra_clusterRoles CoreRBAC @ ra_clusterRoles cloudRBAC))) (\<lambda>_.
        bindE (wrapE ''reconciling ClusterRoleBindings: %w'' []
                 (applyClusterRoleBindings ns ref (ra_clusterRoleBindings CoreRBAC @ ra_clusterRoleBindings cloudRBAC))) (\<lambda>_.
        bindE (wrapE ''reconciling Roles: %w'' [] (applyRoles ns ref coreRoles)) (\<lambda>_.
        bindE (wrapE ''reconciling RoleBindings: %w'' [] (applyRoleBindings ns ref coreRoleBindings)) (\<lambda>_.
        bindE (wrapE ''reconciling Deployment: %w'' [] (applyDeployment cfg ref)) (\<lambda>_.
        bindE (wrapE ''reconciling PodMonitor: %w'' [] (applyPodMonitor cfg ref)) (\<lambda>_.
        ret Result0))))))))"

definition ocp_Reconcile :: "ssa \<Rightarrow> ocp_controller_config \<Rightarrow> (operand_world, ctrl_result) io" where
  "ocp_Reconcile ssa c =
     handleE (cl_get Karpenters ([], SingletonName))
       (\<lambda>err. if is_not_found err then ret Result0 else raise err)
       (ocp_deploy ssa c)"

section \<open>What applying leaves\<close>

lemma find_manifest_record [simp]:
  "find_manifest key (record_apply m ms) = (if manifest_key m = key then Some m else find_manifest key ms)"
  by (induction ms) (auto simp: find_manifest_def)

lemma find_manifest_Some: "find_manifest key ms = Some m \<Longrightarrow> m \<in> set ms \<and> manifest_key m = key"
  by (auto simp: find_manifest_def find_Some_iff)

lemma find_manifest_other: "key \<notin> manifest_key ` set ms \<Longrightarrow> find_manifest key (fold record_apply ms xs) = find_manifest key xs"
  by (induction ms arbitrary: xs) auto

lemma find_manifest_fold:
  "distinct (map manifest_key ms) \<Longrightarrow> m \<in> set ms \<Longrightarrow> find_manifest (manifest_key m) (fold record_apply ms xs) = Some m"
  by (induction ms arbitrary: xs) (auto simp: find_manifest_other)

lemma record_apply_present: "find_manifest (manifest_key m) ms = Some m \<Longrightarrow> record_apply m ms = ms"
  by (induction ms) (auto simp: find_manifest_def split: if_splits)

lemma fold_record_present: "(\<And>m. m \<in> set ms \<Longrightarrow> find_manifest (manifest_key m) xs = Some m) \<Longrightarrow> fold record_apply ms xs = xs"
  by (induction ms) (auto simp: record_apply_present)

lemma fold_record_again: "distinct (map manifest_key ms) \<Longrightarrow> fold record_apply ms (fold record_apply ms xs) = fold record_apply ms xs"
  by (rule fold_record_present) (rule find_manifest_fold)

lemma cl_apply_ok:
  "cl_apply m w = (Inr u, w') \<Longrightarrow>
   ow_applied w' = record_apply m (ow_applied w) \<and> ow_serviceAccounts w' = ow_serviceAccounts w"
  by (cases rule: api_call_cases [of w]) (auto simp: cl_apply_def bindE_run)

lemma for_apply_ok:
  "forE xs (\<lambda>x. cl_apply (f x)) w = (Inr u, w') \<Longrightarrow>
   ow_applied w' = fold record_apply (map f xs) (ow_applied w) \<and> ow_serviceAccounts w' = ow_serviceAccounts w"
proof (induction xs arbitrary: w)
  case (Cons x xs)
  then obtain v where "cl_apply (f x) w = (Inr (), v)" "forE xs (\<lambda>x. cl_apply (f x)) v = (Inr u, w')"
    by (auto elim: bindE_InrE)
  with Cons.IH [of v] show ?case by (auto dest!: cl_apply_ok)
qed simp

lemma apply_no_faults:
  "api_faults w = [] \<Longrightarrow> cl_apply m w = (Inr (), w\<lparr>ow_applied := record_apply m (ow_applied w)\<rparr>)"
  by (simp add: cl_apply_def bindE_run)

text \<open>
  What the operator relies on for the atomic list \<open>imagePullSecrets\<close>: a configuration with the list
  sets it, one without it adds nothing.
\<close>

definition ssa_contract :: "ssa \<Rightarrow> bool" where
  "ssa_contract ssa \<longleftrightarrow>
     (\<forall>cfg old. sac_imagePullSecrets cfg \<noteq> [] \<longrightarrow> sa_imagePullSecrets (ssa cfg old) = sac_imagePullSecrets cfg) \<and>
     (\<forall>cfg old. sac_imagePullSecrets cfg = [] \<longrightarrow> (\<forall>sa. old = Some sa \<longrightarrow> sa_imagePullSecrets sa = []) \<longrightarrow>
        sa_imagePullSecrets (ssa cfg old) = [])"

definition pull_secrets :: "object_key \<Rightarrow> operand_world \<Rightarrow> string list" where
  "pull_secrets key w = (case find_obj key (ow_serviceAccounts w) of None \<Rightarrow> [] | Some sa \<Rightarrow> sa_imagePullSecrets sa)"

lemma ssa_secrets:
  assumes "ssa_contract ssa" "set (case old of None \<Rightarrow> [] | Some sa \<Rightarrow> sa_imagePullSecrets sa) \<subseteq> set (sac_imagePullSecrets cfg)"
  shows "sa_imagePullSecrets (ssa cfg old) = sac_imagePullSecrets cfg"
proof (cases "sac_imagePullSecrets cfg = []")
  case True
  with assms(2) have "\<forall>sa. old = Some sa \<longrightarrow> sa_imagePullSecrets sa = []" by auto
  with True assms(1) show ?thesis by (simp add: ssa_contract_def)
next
  case False
  with assms(1) show ?thesis by (simp add: ssa_contract_def)
qed

lemma ensure_pull_secret_set: "set secrets \<subseteq> set (ensure_pull_secret p secrets)"
  by (auto simp: ensure_pull_secret_def)

lemma apply_sa_ok:
  assumes run: "cl_apply_sa ssa cfg w = (Inr u, w')" and contract: "ssa_contract ssa"
    and kept: "set (pull_secrets (sac_namespace cfg, sac_name cfg) w) \<subseteq> set (sac_imagePullSecrets cfg)"
  shows "ow_applied w' = ow_applied w \<and> pull_secrets (sac_namespace cfg, sac_name cfg) w' = sac_imagePullSecrets cfg \<and>
    find_obj (sac_namespace cfg, sac_name cfg) (ow_serviceAccounts w') \<noteq> None"
proof -
  let ?old = "find_obj (sac_namespace cfg, sac_name cfg) (ow_serviceAccounts w)"
  have "sa_imagePullSecrets (ssa cfg ?old) = sac_imagePullSecrets cfg"
    by (rule ssa_secrets [OF contract]) (use kept in \<open>simp add: pull_secrets_def\<close>)
  moreover have key: "obj_key (x\<lparr>namespace := a, name := b\<rparr>) = (a, b)" for x :: service_account and a b
    by (simp add: obj_key_def)
  ultimately show ?thesis
    using run by (cases rule: api_call_cases [of w])
      (auto simp: cl_apply_sa_def bindE_run Let_def pull_secrets_def find_obj_append split: if_splits option.splits)
qed

lemma applyServiceAccount_ok:
  assumes run: "applyServiceAccount ssa ns ref p w = (Inr u, w')" and contract: "ssa_contract ssa" and honest: "honest w"
  shows "ow_applied w' = ow_applied w \<and> pull_secrets (ns, karpenterName) w' = ensure_pull_secret p (pull_secrets (ns, karpenterName) w) \<and>
    find_obj (ns, karpenterName) (ow_serviceAccounts w') \<noteq> None"
proof -
  let ?cfg = "\<lambda>rv secrets. \<lparr>sac_namespace = ns, sac_name = karpenterName, sac_ownerReference = ref,
             sac_resourceVersion = rv, sac_imagePullSecrets = ensure_pull_secret p secrets\<rparr>"
  obtain rv v where written: "cl_apply_sa ssa (?cfg rv (pull_secrets (ns, karpenterName) w)) v = (Inr u, w')"
    and v: "ow_applied v = ow_applied w" "pull_secrets (ns, karpenterName) v = pull_secrets (ns, karpenterName) w"
  proof (cases "cl_get ServiceAccounts (ns, karpenterName) w")
    case (Pair r v)
    obtain fs where "v = w\<lparr>api_faults := fs\<rparr>"
      using get_leaves [OF Pair] by blast
    then have v: "ow_applied v = ow_applied w" "ow_serviceAccounts v = ow_serviceAccounts w" by simp_all
    show thesis
    proof (cases r)
      case (Inl e)
      with Pair run have e: "is_not_found e" "cl_apply_sa ssa (?cfg 0 []) v = (Inr u, w')"
        by (auto simp: applyServiceAccount_def handleE_run Let_def split: if_splits)
      have "find_obj (ns, karpenterName) (k_objs ServiceAccounts v) = None"
        using get_error_honest [OF honest] Pair Inl e(1) by blast
      then have "pull_secrets (ns, karpenterName) w = []"
        by (simp add: v pull_secrets_def)
      with e(2) v show thesis by (intro that [of 0 v]) (simp_all add: pull_secrets_def)
    next
      case (Inr sa)
      with Pair have "find_obj (ns, karpenterName) (ow_serviceAccounts w) = Some sa"
        using serviceAccounts.get_ok by fastforce
      with Pair Inr run v show thesis
        by (intro that [of "resourceVersion sa" v]) (simp_all add: pull_secrets_def applyServiceAccount_def handleE_run Let_def)
    qed
  qed
  from apply_sa_ok [OF written contract] v ensure_pull_secret_set show ?thesis by simp
qed

end
