(* ===== verification/Operand_Props.thy ===== *)
theory Operand_Props
  imports Operand
begin

text \<open>
  What holds of the operand the controllers deploy: the manifests are accepted by the rules of the
  API server on keyed lists and fit together, what a successful reconcile leaves applied, when one
  fails, which updates of the owner matter, and what the operand is allowed to do.
\<close>

section \<open>Well-formed manifests\<close>

definition container_ok :: "string set \<Rightarrow> container \<Rightarrow> bool" where
  "container_ok vols c \<longleftrightarrow>
     distinct (map ev_name (ct_env c)) \<and> distinct (map cport_name (ct_ports c)) \<and>
     distinct (map vm_mountPath (ct_volumeMounts c)) \<and> set (map vm_name (ct_volumeMounts c)) \<subseteq> vols"

definition pod_ok :: "pod_spec \<Rightarrow> bool" where
  "pod_ok ps \<longleftrightarrow>
     distinct (map vol_name (ps_volumes ps)) \<and>
     distinct (map ct_name (ps_initContainers ps @ ps_containers ps)) \<and>
     list_all (container_ok (set (map vol_name (ps_volumes ps)))) (ps_initContainers ps @ ps_containers ps)"

text \<open>The Deployment selects its own pods, and the PodMonitor scrapes a port they declare.\<close>

definition submap :: "label_map \<Rightarrow> label_map \<Rightarrow> bool" where
  "submap a b \<longleftrightarrow> (\<forall>k v. fmlookup a k = Some v \<longrightarrow> fmlookup b k = Some v)"

definition manifests_fit :: "deployment_config \<Rightarrow> pod_monitor_config \<Rightarrow> bool" where
  "manifests_fit d p \<longleftrightarrow>
     submap (dpc_selector d) (dpc_templateLabels d) \<and> submap (pmc_selector p) (dpc_templateLabels d) \<and>
     pmc_namespace p = dpc_namespace d \<and>
     list_ex (\<lambda>c. pmc_endpointPort p \<in> cport_name ` set (ct_ports c)) (ps_containers (dpc_podSpec d))"

definition operand_configured :: "operand_config \<Rightarrow> bool" where
  "operand_configured cfg \<longleftrightarrow>
     (\<exists>c img hcp. cfg = hcp_operandConfig c img hcp) \<or> (\<exists>c img karp. cfg = ocp_operandConfig c img karp)"

lemma mk_env_simps [simp]: "ev_name (env_conv e) = ce_name e" "ev_name (literal_env n v) = n"
  by (simp_all add: env_conv_def literal_env_def)

lemma buildPodSpec_Inr:
  "buildPodSpec cfg = Inr ps \<longleftrightarrow>
   (\<exists>sc. operand_securityContext (opc_defaultSecurityContextUID cfg) = Inr sc \<and>
     (let cc = OperandConfig (opc_cloudProvider cfg) in
     ps = \<lparr>ps_priorityClassName = opc_priorityClassName cfg, ps_serviceAccountName = karpenterName,
           ps_terminationGracePeriodSeconds = karpenterPodTerminationGracePeriodSeconds,
           ps_securityContext = sc, ps_initContainers = opc_additionalInitContainers cfg,
           ps_containers = [operand_container cfg
             ([\<lparr>ev_name = ''SYSTEM_NAMESPACE'', ev_value = None, ev_fieldPath = Some ''metadata.namespace''\<rparr>,
               literal_env ''CLUSTER_NAME'' (opc_clusterName cfg), literal_env ''CLUSTER_ENDPOINT'' (opc_clusterEndpoint cfg),
               literal_env ''DISABLE_WEBHOOK'' ''true'', literal_env ''HEALTH_PROBE_PORT'' defaultHealthProbePortStr]
              @ map env_conv (oc_env cc) @ map env_conv (opc_additionalEnv cfg))
             (oc_volumeMounts cc @ opc_additionalVolumeMounts cfg
              @ [\<lparr>vm_name = tmpVolumeName, vm_mountPath = tmpMountPath, vm_readOnly = False\<rparr>])],
           ps_volumes = oc_volumes cc @ opc_additionalVolumes cfg
             @ [\<lparr>vol_name = tmpVolumeName, vol_source = EmptyDirVolume\<rparr>]\<rparr>))"
  by (auto simp: buildPodSpec_def buildEnv_def Let_def bind_result_Inr_iff)

text \<open>What the two controllers add to the pod, next to the provider's part.\<close>

lemma operand_additions:
  assumes "operand_configured cfg"
  shows "map ce_name (opc_additionalEnv cfg) \<in> {[], [''KUBECONFIG'', ''DISABLE_LEADER_ELECTION'']}"
    and "map vol_name (opc_additionalVolumes cfg) \<in> {[], [''target-kubeconfig'', ''cloud-token'']}"
    and "map vm_mountPath (opc_additionalVolumeMounts cfg) \<in>
      {[], [''/mnt/kubeconfig'', ''/var/run/secrets/openshift/serviceaccount'']}"
    and "map vm_name (opc_additionalVolumeMounts cfg) = map vol_name (opc_additionalVolumes cfg)"
    and "opc_additionalInitContainers cfg = [] \<or>
      map vol_name (opc_additionalVolumes cfg) = [''target-kubeconfig'', ''cloud-token''] \<and>
      (\<exists>img. opc_additionalInitContainers cfg = [tokenMinterContainer img])"
    and "opc_additionalLabels cfg = None"
  using assms by (auto simp: operand_configured_def hcp_operandConfig_def ocp_operandConfig_def target_paths)

lemma operand_pod:
  assumes "buildPodSpec cfg = Inr ps"
  obtains c where "ps_containers ps = [c]" "ps_initContainers ps = opc_additionalInitContainers cfg"
    "ps_serviceAccountName ps = karpenterName" "ct_name c = karpenterName" "ct_ports c = karpenterPorts"
    "map ev_name (ct_env c) = [''SYSTEM_NAMESPACE'', ''CLUSTER_NAME'', ''CLUSTER_ENDPOINT'', ''DISABLE_WEBHOOK'', ''HEALTH_PROBE_PORT'']
       @ map ce_name (oc_env (OperandConfig (opc_cloudProvider cfg))) @ map ce_name (opc_additionalEnv cfg)"
    "ct_volumeMounts c = oc_volumeMounts (OperandConfig (opc_cloudProvider cfg)) @ opc_additionalVolumeMounts cfg
       @ [\<lparr>vm_name = tmpVolumeName, vm_mountPath = tmpMountPath, vm_readOnly = False\<rparr>]"
    "map vol_name (ps_volumes ps) = map vol_name (oc_volumes (OperandConfig (opc_cloudProvider cfg)))
       @ map vol_name (opc_additionalVolumes cfg) @ [tmpVolumeName]"
  using assms that unfolding buildPodSpec_Inr Let_def
  by (fastforce simp: operand_container_def comp_def)

lemma token_minter:
  "ct_name (tokenMinterContainer img) = ''token-minter''"
  "{''target-kubeconfig'', ''cloud-token''} \<subseteq> vols \<Longrightarrow> container_ok vols (tokenMinterContainer img)"
  by (simp_all add: tokenMinterContainer_def container_ok_def target_paths)

lemma operand_pod_ok:
  assumes conf: "operand_configured cfg" and ps: "buildPodSpec cfg = Inr ps"
  shows "pod_ok ps"
proof -
  let ?cc = "OperandConfig (opc_cloudProvider cfg)"
  from ps obtain c where c: "ps_containers ps = [c]" "ps_initContainers ps = opc_additionalInitContainers cfg"
    "ct_name c = karpenterName" "ct_ports c = karpenterPorts"
    and env: "map ev_name (ct_env c) = [''SYSTEM_NAMESPACE'', ''CLUSTER_NAME'', ''CLUSTER_ENDPOINT'', ''DISABLE_WEBHOOK'', ''HEALTH_PROBE_PORT'']
       @ map ce_name (oc_env ?cc) @ map ce_name (opc_additionalEnv cfg)"
    and mounts: "ct_volumeMounts c = oc_volumeMounts ?cc @ opc_additionalVolumeMounts cfg
       @ [\<lparr>vm_name = tmpVolumeName, vm_mountPath = tmpMountPath, vm_readOnly = False\<rparr>]"
    and vols: "map vol_name (ps_volumes ps) = map vol_name (oc_volumes ?cc) @ map vol_name (opc_additionalVolumes cfg) @ [tmpVolumeName]"
    by (rule operand_pod)
  note add = operand_additions [OF conf]
  have "distinct (map ev_name (ct_env c))"
    unfolding env using add(1) by (intro provider_cloud.env_around) (auto simp: reserved_env_def)
  moreover have "distinct ([] @ map vm_mountPath (oc_volumeMounts ?cc) @ map vm_mountPath (opc_additionalVolumeMounts cfg) @ [tmpMountPath])"
    using add(3) by (intro provider_cloud.paths_around) (auto simp: reserved_paths_def tmpMountPath_def)
  then have "distinct (map vm_mountPath (ct_volumeMounts c))"
    by (simp add: mounts)
  moreover have "set (map vm_name (ct_volumeMounts c)) \<subseteq> set (map vol_name (ps_volumes ps))"
    using provider_cloud.mounts_declared [of "opc_cloudProvider cfg"] add(4) unfolding vols mounts
    by (metis (no_types, lifting) Un_mono equalityE list.simps(8,9) map_append set_append volume_mount.select_convs(1))
  moreover have "distinct (map cport_name (ct_ports c))"
    by (simp add: c karpenterPorts_def metricsPortName_def healthProbePortName_def)
  ultimately have main: "container_ok (set (map vol_name (ps_volumes ps))) c"
    by (simp add: container_ok_def)
  have "distinct ([] @ map vol_name (oc_volumes ?cc) @ map vol_name (opc_additionalVolumes cfg) @ [tmpVolumeName])"
    using add(2) by (intro provider_cloud.volumes_around) (auto simp: reserved_volumes_def tmpVolumeName_def)
  then have distinct_vols: "distinct (map vol_name (ps_volumes ps))" by (simp add: vols)
  from add(5) have inits: "list_all (container_ok (set (map vol_name (ps_volumes ps)))) (ps_initContainers ps)"
    and names: "distinct (map ct_name (ps_initContainers ps @ ps_containers ps))"
    unfolding vols c(1,2) by (auto simp: c(3) token_minter karpenterName_def)
  from main distinct_vols inits names show ?thesis by (simp add: pod_ok_def c)
qed

lemma buildDeployment_Inr:
  "buildDeployment cfg ref = Inr d \<Longrightarrow> buildPodSpec cfg = Inr (dpc_podSpec d) \<and> dpc_name d = karpenterName \<and>
     dpc_namespace d = opc_namespace cfg \<and> dpc_selector d = karpenterSelector \<and>
     dpc_templateLabels d = assign karpenterSelector (opc_additionalLabels cfg)"
  by (auto simp: buildDeployment_def bind_result_Inr_iff Let_def karpenterSelector_def)

section \<open>Properties\<close>


definition demo_karpenter_hcp :: hosted_control_plane where
  "demo_karpenter_hcp = object_meta.extend (zero_object_meta\<lparr>namespace := ''clusters-a'', name := ''a''\<rparr>)
     \<lparr>hcp_infraID = ''a-x'', hcp_pullSecretName = ''pull'', hcp_autoNode = \<lparr>an_provisioner = ProvisionerKarpenter, an_karpenter = []\<rparr>,
      hcp_awsPlatform = None,
      hcp_controlPlaneVersion = \<lparr>cpv_desired = \<lparr>rel_architecture = [], rel_version = ''4.20.1'', rel_image = [], rel_url = [], rel_channels = []\<rparr>,
        cpv_history = [], cpv_observedGeneration = 0\<rparr>,
      hcp_autoNodeStatus = \<lparr>ans_nodeCount = None, ans_nodeClaimCount = None, ans_vcpus = None\<rparr>\<rparr>"

definition demo_aws :: cloud_provider where
  "demo_aws = AWSProvider \<lparr>ap_region = ''us-east-1'', ap_infraName = ''a-x'', ap_clusterEndpoint = ''https://api:6443'',
     ap_karpenterImage = ''karpenter:1''\<rparr>"

definition demo_controller :: hcp_controller_config where
  "demo_controller = \<lparr>hc_namespace = ''clusters-a'', hc_karpenterImage = ''karpenter:1'', hc_clusterName = ''a-x'',
     hc_clusterEndpoint = ''https://api:6443'', hc_cloudProvider = demo_aws, hc_tokenMinterImage = ''cpo:1'',
     hc_defaultSecurityContextUID = Some 1001\<rparr>"

lemma operand_hcp_simps [simp]:
  "obj_key demo_karpenter_hcp = (''clusters-a'', ''a'')" "an_provisioner (hcp_autoNode demo_karpenter_hcp) = ProvisionerKarpenter"
  "rel_version (cpv_desired (hcp_controlPlaneVersion demo_karpenter_hcp)) = ''4.20.1''" "annotations demo_karpenter_hcp = None"
  "hcp_pullSecretName demo_karpenter_hcp = ''pull''"
  by (simp_all add: demo_karpenter_hcp_def object_meta.defs obj_key_def zero_object_meta_def)

text \<open>The Deployment is rendered exactly when the UID is unset or positive.\<close>

definition uid_ok :: "int64 option \<Rightarrow> bool" where
  "uid_ok u = (case u of None \<Rightarrow> True | Some v \<Rightarrow> 0 < sint v)"

lemma security_context_total:
  "uid_ok u \<longleftrightarrow> (\<exists>sc. operand_securityContext u = Inr sc)"
  by (auto simp: uid_ok_def operand_securityContext_def Let_def split: option.split)

lemma buildDeployment_total: "(\<exists>d. buildDeployment cfg ref = Inr d) \<longleftrightarrow> uid_ok (opc_defaultSecurityContextUID cfg)"
proof -
  have "(\<exists>d. buildDeployment cfg ref = Inr d) \<longleftrightarrow> (\<exists>ps. buildPodSpec cfg = Inr ps)"
    by (auto simp: buildDeployment_def bind_result_Inr_iff Let_def)
  also have "\<dots> \<longleftrightarrow> uid_ok (opc_defaultSecurityContextUID cfg)"
    by (simp add: buildPodSpec_Inr security_context_total Let_def)
  finally show ?thesis .
qed

lemma hcp_uid [simp]: "opc_defaultSecurityContextUID (hcp_operandConfig c img hcp) = hc_defaultSecurityContextUID c"
  "opc_defaultSecurityContextUID (ocp_operandConfig oc img karp) = None"
  by (simp_all add: hcp_operandConfig_def ocp_operandConfig_def)


section \<open>The reconcile of a HostedControlPlane\<close>

definition hcp_manifests :: "hcp_controller_config \<Rightarrow> hosted_control_plane \<Rightarrow> deployment_config \<Rightarrow> manifest list" where
  "hcp_manifests c hcp d =
     [DeploymentManifest d,
      PodMonitorManifest (buildPodMonitor (hcp_operandConfig c (operand_image (hc_karpenterImage c) hcp) hcp) (hcpOwnerRef hcp))]"

lemma hcp_deploy_ok:
  assumes run: "hcp_deploy ssa c hcp w = (Inr r, w')" and "honest w" "ssa_contract ssa"
    and karpenter: "an_provisioner (hcp_autoNode hcp) = ProvisionerKarpenter"
    and version: "rel_version (cpv_desired (hcp_controlPlaneVersion hcp)) \<noteq> []"
  shows "r = Result0 \<and> operand_image (hc_karpenterImage c) hcp \<noteq> [] \<and>
    (\<exists>d. buildDeployment (hcp_operandConfig c (operand_image (hc_karpenterImage c) hcp) hcp) (hcpOwnerRef hcp) = Inr d \<and>
      ow_applied w' = fold record_apply (hcp_manifests c hcp d) (ow_applied w)) \<and>
    pull_secrets (hc_namespace c, karpenterName) w' =
      ensure_pull_secret (hcp_pullSecretName hcp) (pull_secrets (hc_namespace c, karpenterName) w)"
proof -
  let ?cfg = "hcp_operandConfig c (operand_image (hc_karpenterImage c) hcp) hcp" and ?ref = "hcpOwnerRef hcp"
  from run karpenter version have img: "operand_image (hc_karpenterImage c) hcp \<noteq> []"
    by (auto simp: hcp_deploy_def Let_def)
  with run karpenter version obtain u1 w1 u2 w2 u3 where
    sa: "applyServiceAccount ssa (hc_namespace c) ?ref (hcp_pullSecretName hcp) w = (Inr u1, w1)"
    and dep: "applyDeployment ?cfg ?ref w1 = (Inr u2, w2)" and pm: "applyPodMonitor ?cfg ?ref w2 = (Inr u3, w')" and r: "r = Result0"
    by (auto simp: hcp_deploy_def Let_def elim!: bindE_InrE)
  from dep obtain d where d: "buildDeployment ?cfg ?ref = Inr d" "cl_apply (DeploymentManifest d) w1 = (Inr u2, w2)"
    by (auto simp: applyDeployment_def handleE_run split: sum.splits)
  note steps = applyServiceAccount_ok [OF sa assms(3,2)] cl_apply_ok [OF d(2)] cl_apply_ok [OF pm [unfolded applyPodMonitor_def]]
  from steps have "pull_secrets (hc_namespace c, karpenterName) w' = pull_secrets (hc_namespace c, karpenterName) w1"
    by (simp add: pull_secrets_def)
  with steps d(1) img r show ?thesis by (simp add: hcp_manifests_def)
qed

text \<open>
  C14: a reconcile of a HostedControlPlane that succeeds, whatever errors single calls may return,
  leaves applied exactly the Deployment of its configuration and the PodMonitor, next to what other
  keys held before, and adds the pull secret to the ServiceAccount's list, keeping every
  reference that was there and adding none twice. Before the control plane has a version, or
  for another provisioner, it applies nothing.
\<close>

theorem hcp_operand_deployed:
  assumes "hcp_operand_Reconcile ssa c req w = (Inr r, w')" "honest w" "ssa_contract ssa"
    and "find_obj req (ow_hcps w) = Some hcp"
  shows "(if an_provisioner (hcp_autoNode hcp) = ProvisionerKarpenter \<and> rel_version (cpv_desired (hcp_controlPlaneVersion hcp)) \<noteq> []
     then r = Result0 \<and>
       (\<exists>d. buildDeployment (hcp_operandConfig c (operand_image (hc_karpenterImage c) hcp) hcp) (hcpOwnerRef hcp) = Inr d \<and>
         ow_applied w' = fold record_apply (hcp_manifests c hcp d) (ow_applied w)) \<and>
       pull_secrets (hc_namespace c, karpenterName) w' =
         ensure_pull_secret (hcp_pullSecretName hcp) (pull_secrets (hc_namespace c, karpenterName) w)
     else ow_applied w' = ow_applied w \<and> ow_serviceAccounts w' = ow_serviceAccounts w)"
proof (cases rule: cl_get_cases [of OperandHCPs req w])
  case (fault e fs)
  from get_error_honest [OF assms(2) fault] fault assms show ?thesis
    by (auto simp: hcp_operand_Reconcile_def handleE_run split: if_splits)
next
  case (missing fs)
  with assms(4) show ?thesis by simp
next
  case (found h fs)
  with assms(1,4) have run: "hcp_deploy ssa c hcp (w\<lparr>api_faults := fs\<rparr>) = (Inr r, w')"
    by (simp add: hcp_operand_Reconcile_def handleE_run)
  have honest: "honest (w\<lparr>api_faults := fs\<rparr>)"
    using keepsD [OF honest_get assms(2), of OperandHCPs req] found(1) by simp
  have same: "pull_secrets k (w\<lparr>api_faults := fs\<rparr>) = pull_secrets k w" for k
    by (simp add: pull_secrets_def)
  show ?thesis
  proof (cases "an_provisioner (hcp_autoNode hcp) = ProvisionerKarpenter \<and> rel_version (cpv_desired (hcp_controlPlaneVersion hcp)) \<noteq> []")
    case True
    with hcp_deploy_ok [OF run honest assms(3)] show ?thesis by (simp add: same)
  next
    case False
    then obtain r' where "hcp_deploy ssa c hcp = ret r'"
      by (cases "an_provisioner (hcp_autoNode hcp) = ProvisionerKarpenter") (simp_all add: hcp_deploy_def)
    with run False show ?thesis by auto
  qed
qed

definition demo_ssa :: ssa where
  "demo_ssa cfg old =
     object_meta.extend (zero_object_meta\<lparr>ownerReferences := [sac_ownerReference cfg]\<rparr>)
       \<lparr>sa_imagePullSecrets =
          (if sac_imagePullSecrets cfg \<noteq> [] then sac_imagePullSecrets cfg
           else case old of None \<Rightarrow> [] | Some sa \<Rightarrow> sa_imagePullSecrets sa)\<rparr>"

lemma demo_ssa_contract: "ssa_contract demo_ssa"
  by (auto simp: ssa_contract_def demo_ssa_def object_meta.defs split: option.split)

definition demo_operand_world :: operand_world where
  "demo_operand_world = \<lparr>api_faults = [], api_now = 0, ow_hcps = [demo_karpenter_hcp], ow_karpenters = [],
     ow_serviceAccounts = [], ow_applied = []\<rparr>"

lemma applyServiceAccount_runs:
  assumes "api_faults w = []"
  shows "\<exists>w1. applyServiceAccount ssa ns ref p w = (Inr (), w1) \<and> api_faults w1 = []"
  using assms serviceAccounts.get_no_faults [OF assms, of "(ns, karpenterName)"]
  by (cases "find_obj (ns, karpenterName) (ow_serviceAccounts w)")
    (simp_all add: applyServiceAccount_def handleE_run bindE_run cl_apply_sa_def Let_def)

lemma hcp_deploy_runs:
  assumes "api_faults w = []" "operand_image (hc_karpenterImage c) hcp \<noteq> []" "uid_ok (hc_defaultSecurityContextUID c)"
  shows "\<exists>r w'. hcp_deploy ssa c hcp w = (Inr r, w')"
proof -
  let ?cfg = "hcp_operandConfig c (operand_image (hc_karpenterImage c) hcp) hcp"
  obtain d where "buildDeployment ?cfg (hcpOwnerRef hcp) = Inr d"
    using buildDeployment_total [of ?cfg] assms(3) by auto
  then show ?thesis
    using assms(1,2) serviceAccounts.get_no_faults [of w "(hc_namespace c, karpenterName)"]
    by (simp add: hcp_deploy_def Let_def io_simps applyServiceAccount_def applyDeployment_def applyPodMonitor_def
        cl_apply_sa_def cl_apply_def split: option.split)
qed

theorem hcp_operand_deployed_witness:
  "\<exists>w'. hcp_operand_Reconcile demo_ssa demo_controller (''clusters-a'', ''a'') demo_operand_world = (Inr Result0, w') \<and>
    pull_secrets (''clusters-a'', karpenterName) w' = [''pull'']"
proof -
  let ?req = "(''clusters-a'', ''a'')"
  have w: "api_faults demo_operand_world = []" "find_obj ?req (ow_hcps demo_operand_world) = Some demo_karpenter_hcp"
    "pull_secrets (''clusters-a'', karpenterName) demo_operand_world = []"
    by (simp_all add: demo_operand_world_def pull_secrets_def)
  have c: "hc_namespace demo_controller = ''clusters-a''" "hc_karpenterImage demo_controller \<noteq> []" "uid_ok (hc_defaultSecurityContextUID demo_controller)"
    by (simp_all add: demo_controller_def uid_ok_def)
  have "operand_image (hc_karpenterImage demo_controller) demo_karpenter_hcp \<noteq> []"
    using c(2) by (simp add: operand_image_def)
  from hcp_deploy_runs [OF w(1) this c(3)] obtain r w' where "hcp_deploy demo_ssa demo_controller demo_karpenter_hcp demo_operand_world = (Inr r, w')"
    by blast
  then have run: "hcp_operand_Reconcile demo_ssa demo_controller ?req demo_operand_world = (Inr r, w')"
    using w operandHCPs.get_no_faults [OF w(1)] by (simp add: hcp_operand_Reconcile_def handleE_run)
  from hcp_operand_deployed [OF run _ demo_ssa_contract w(2)] w c run show ?thesis
    by (auto simp: ensure_pull_secret_def)
qed

text \<open>
  C22: without API errors the reconcile of a HostedControlPlane that uses Karpenter and has a
  version fails exactly when no image is configured or annotated, or when the configured UID is
  not positive; then no Deployment and no PodMonitor is written.
\<close>

theorem hcp_operand_failure:
  assumes "api_faults w = []" "find_obj req (ow_hcps w) = Some hcp"
    and "an_provisioner (hcp_autoNode hcp) = ProvisionerKarpenter" "rel_version (cpv_desired (hcp_controlPlaneVersion hcp)) \<noteq> []"
  shows "case hcp_operand_Reconcile ssa c req w of
      (Inl e, w') \<Rightarrow> (operand_image (hc_karpenterImage c) hcp = [] \<or> \<not> uid_ok (hc_defaultSecurityContextUID c)) \<and>
         ow_applied w' = ow_applied w
    | (Inr r, w') \<Rightarrow> operand_image (hc_karpenterImage c) hcp \<noteq> [] \<and> uid_ok (hc_defaultSecurityContextUID c)"
proof -
  let ?img = "operand_image (hc_karpenterImage c) hcp"
  let ?cfg = "hcp_operandConfig c ?img hcp"
  have run: "hcp_operand_Reconcile ssa c req w = hcp_deploy ssa c hcp w"
    using assms(1,2) operandHCPs.get_no_faults [OF assms(1)] by (simp add: hcp_operand_Reconcile_def handleE_run)
  show ?thesis
  proof (cases "?img = [] \<or> uid_ok (hc_defaultSecurityContextUID c)")
    case True
    show ?thesis
    proof (cases "?img = []")
      case True
      with assms(3,4) show ?thesis by (simp add: run hcp_deploy_def Let_def)
    next
      case False
      with \<open>?img = [] \<or> uid_ok (hc_defaultSecurityContextUID c)\<close> hcp_deploy_runs [OF assms(1) False, of ssa]
      obtain r w' where "hcp_deploy ssa c hcp w = (Inr r, w')" "uid_ok (hc_defaultSecurityContextUID c)" by blast
      with False show ?thesis by (simp add: run)
    qed
  next
    case False
    then obtain e where "buildDeployment ?cfg (hcpOwnerRef hcp) = Inl e"
      using buildDeployment_total [of ?cfg] by (metis hcp_uid(1) sum.exhaust)
    with False assms serviceAccounts.get_no_faults [OF assms(1), of "(hc_namespace c, karpenterName)"] show ?thesis
      unfolding run by (simp add: hcp_deploy_def Let_def io_simps applyServiceAccount_def applyDeployment_def
          cl_apply_sa_def split: option.split)
  qed
qed

theorem hcp_operand_failure_witness:
  "\<exists>e w'. hcp_operand_Reconcile demo_ssa (demo_controller\<lparr>hc_defaultSecurityContextUID := Some 0\<rparr>) (''clusters-a'', ''a'')
     demo_operand_world = (Inl e, w') \<and> ow_applied w' = []"
proof -
  let ?c = "demo_controller\<lparr>hc_defaultSecurityContextUID := Some 0\<rparr>"
  have w: "api_faults demo_operand_world = []" "find_obj (''clusters-a'', ''a'') (ow_hcps demo_operand_world) = Some demo_karpenter_hcp"
    "ow_applied demo_operand_world = []"
    by (simp_all add: demo_operand_world_def)
  have "\<not> uid_ok (hc_defaultSecurityContextUID ?c)" by (simp add: uid_ok_def)
  with hcp_operand_failure [OF w(1,2), where ssa = demo_ssa and c = ?c] w(3) show ?thesis
    by (auto split: prod.splits sum.splits)
qed

text \<open>
  C21: the watch predicate misses nothing: when it rejects an update of a HostedControlPlane, the
  reconcile of the new object does to any world exactly what that of the old one did.
\<close>

theorem hcp_operand_predicate_complete:
  assumes "\<not> hcpOperandReconcilePredicate (UpdateEvent old new)" "name new = name old" "uid new = uid old"
  shows "hcp_deploy ssa c new = hcp_deploy ssa c old"
proof -
  from assms(1) have same: "hcp_infraID old = hcp_infraID new" "hcp_pullSecretName old = hcp_pullSecretName new"
    "hcp_autoNode old = hcp_autoNode new"
    "rel_version (cpv_desired (hcp_controlPlaneVersion old)) = rel_version (cpv_desired (hcp_controlPlaneVersion new))"
    "operand_image img old = operand_image img new" for img
    by (auto simp: hcpOperandReconcilePredicate_def hcpOperandChanged_def operand_image_def)
  then have "hcp_operandConfig c img new = hcp_operandConfig c img old" "hcpOwnerRef new = hcpOwnerRef old" for img
    using assms(2,3) by (simp_all add: hcp_operandConfig_def hcpOwnerRef_def)
  with same show ?thesis by (simp add: hcp_deploy_def Let_def)
qed

theorem hcp_operand_predicate_complete_witness:
  "hcp_deploy demo_ssa demo_controller (demo_karpenter_hcp\<lparr>labels := Some (fmap_of_list [(''a'', ''b'')])\<rparr>) =
    hcp_deploy demo_ssa demo_controller demo_karpenter_hcp"
  by (rule hcp_operand_predicate_complete)
    (simp_all add: hcpOperandReconcilePredicate_def hcpOperandChanged_def)

section \<open>The reconcile of a Karpenter resource\<close>

definition rbac_manifests :: "string \<Rightarrow> owner_reference \<Rightarrow> rbac_assets \<Rightarrow> manifest list" where
  "rbac_manifests ns ref cloud =
     map (\<lambda>r. ClusterRoleManifest \<lparr>rlc_name = name r, rlc_namespace = [], rlc_ownerReference = ref, rlc_labels = labels r,
        rlc_rules = role_rules r\<rparr>) (ra_clusterRoles CoreRBAC @ ra_clusterRoles cloud) @
     map (\<lambda>b. ClusterRoleBindingManifest \<lparr>bdc_name = name b, bdc_namespace = [], bdc_ownerReference = ref,
        bdc_roleRef = rb_roleRef b, bdc_subjects = subjects (rb_subjects b) ns\<rparr>)
        (ra_clusterRoleBindings CoreRBAC @ ra_clusterRoleBindings cloud) @
     map (\<lambda>r. RoleManifest \<lparr>rlc_name = name r, rlc_namespace = ns, rlc_ownerReference = ref, rlc_labels = None,
        rlc_rules = role_rules r\<rparr>) (ra_roles CoreRBAC @ ra_roles cloud) @
     map (\<lambda>b. RoleBindingManifest \<lparr>bdc_name = name b, bdc_namespace = ns, bdc_ownerReference = ref,
        bdc_roleRef = rb_roleRef b, bdc_subjects = subjects (rb_subjects b) ns\<rparr>)
        (ra_roleBindings CoreRBAC @ ra_roleBindings cloud)"

definition ocp_manifests :: "ocp_controller_config \<Rightarrow> karpenter \<Rightarrow> deployment_config \<Rightarrow> manifest list" where
  "ocp_manifests c karp d =
     rbac_manifests (occ_namespace c) (ocpOwnerRef karp) (provider_RBAC (occ_cloudProvider c)) @
     [DeploymentManifest d,
      PodMonitorManifest (buildPodMonitor (ocp_operandConfig c (operand_image (occ_karpenterImage c) karp) karp) (ocpOwnerRef karp))]"

lemma ocp_deploy_ok:
  assumes run: "ocp_deploy ssa c karp w = (Inr r, w')" and "honest w" "ssa_contract ssa"
  shows "operand_image (occ_karpenterImage c) karp \<noteq> [] \<and>
    (\<exists>d. buildDeployment (ocp_operandConfig c (operand_image (occ_karpenterImage c) karp) karp) (ocpOwnerRef karp) = Inr d \<and>
      ow_applied w' = fold record_apply (ocp_manifests c karp d) (ow_applied w)) \<and>
    pull_secrets (occ_namespace c, karpenterName) w' = pull_secrets (occ_namespace c, karpenterName) w \<and>
    find_obj (occ_namespace c, karpenterName) (ow_serviceAccounts w') \<noteq> None"
proof -
  let ?img = "operand_image (occ_karpenterImage c) karp"
  let ?cfg = "ocp_operandConfig c ?img karp" and ?ref = "ocpOwnerRef karp" and ?ns = "occ_namespace c"
  let ?cloud = "provider_RBAC (occ_cloudProvider c)"
  from run have img: "?img \<noteq> []"
    by (auto simp: ocp_deploy_def Let_def)
  with run obtain u1 w1 u2 w2 u3 w3 u4 w4 u5 w5 u6 w6 u7 where
    sa: "applyServiceAccount ssa ?ns ?ref [] w = (Inr u1, w1)"
    and cr: "applyClusterRoles ?ref (ra_clusterRoles CoreRBAC @ ra_clusterRoles ?cloud) w1 = (Inr u2, w2)"
    and crb: "applyClusterRoleBindings ?ns ?ref (ra_clusterRoleBindings CoreRBAC @ ra_clusterRoleBindings ?cloud) w2 = (Inr u3, w3)"
    and ro: "applyRoles ?ns ?ref (ra_roles CoreRBAC @ ra_roles ?cloud) w3 = (Inr u4, w4)"
    and rb: "applyRoleBindings ?ns ?ref (ra_roleBindings CoreRBAC @ ra_roleBindings ?cloud) w4 = (Inr u5, w5)"
    and dep: "applyDeployment ?cfg ?ref w5 = (Inr u6, w6)" and pm: "applyPodMonitor ?cfg ?ref w6 = (Inr u7, w')"
    unfolding ocp_deploy_def Let_def if_not_P [OF img]
    by (elim bindE_InrE, unfold wrapE_Inr_iff io_run(1) prod.inject) blast
  from dep obtain d where d: "buildDeployment ?cfg ?ref = Inr d" "cl_apply (DeploymentManifest d) w5 = (Inr u6, w6)"
    by (auto simp: applyDeployment_def handleE_run split: sum.splits)
  note steps = applyServiceAccount_ok [OF sa assms(3,2)] for_apply_ok [OF cr [unfolded applyClusterRoles_def]]
    for_apply_ok [OF crb [unfolded applyClusterRoleBindings_def]] for_apply_ok [OF ro [unfolded applyRoles_def]]
    for_apply_ok [OF rb [unfolded applyRoleBindings_def]] cl_apply_ok [OF d(2)] cl_apply_ok [OF pm [unfolded applyPodMonitor_def]]
  from steps have sas: "ow_serviceAccounts w' = ow_serviceAccounts w1" by simp
  then have "pull_secrets (?ns, karpenterName) w' = pull_secrets (?ns, karpenterName) w1"
    by (simp add: pull_secrets_def)
  with steps have "pull_secrets (?ns, karpenterName) w' = pull_secrets (?ns, karpenterName) w"
    by (simp add: ensure_pull_secret_def)
  moreover from steps have "ow_applied w' = fold record_apply (ocp_manifests c karp d) (ow_applied w)"
    by (simp add: ocp_manifests_def rbac_manifests_def comp_def)
  moreover from steps sas have "find_obj (?ns, karpenterName) (ow_serviceAccounts w') \<noteq> None" by simp
  ultimately show ?thesis using d(1) img by blast
qed

lemma ocp_manifests_distinct:
  "buildDeployment cfg ref = Inr d \<Longrightarrow> opc_namespace cfg = occ_namespace c \<Longrightarrow> distinct (map manifest_key (ocp_manifests c karp d))"
  by (cases "occ_cloudProvider c")
    (simp_all add: ocp_manifests_def rbac_manifests_def CoreRBAC_def AWSRBACAssets_def no_rbac_def mk_role_def mk_binding_def object_meta.defs)

text \<open>
  What the RBAC objects among the applied manifests grant to a ServiceAccount, in the terms of the
  RBAC authorizer: a binding names the ServiceAccount as a subject and the role that holds the rule.
\<close>

definition is_subject :: "object_key \<Rightarrow> subject list \<Rightarrow> bool" where
  "is_subject sa subs \<longleftrightarrow> list_ex (\<lambda>s. sj_kind s = ServiceAccountKind \<and> (sj_namespace s, sj_name s) = sa) subs"

definition granted_cluster :: "object_key \<Rightarrow> policy_rule \<Rightarrow> manifest list \<Rightarrow> bool" where
  "granted_cluster sa rule ms \<longleftrightarrow>
     (\<exists>b r. ClusterRoleBindingManifest b \<in> set ms \<and> ClusterRoleManifest r \<in> set ms \<and> is_subject sa (bdc_subjects b) \<and>
        rr_kind (bdc_roleRef b) = ''ClusterRole'' \<and> rr_name (bdc_roleRef b) = rlc_name r \<and> rule \<in> set (rlc_rules r))"

definition granted_in :: "string \<Rightarrow> object_key \<Rightarrow> policy_rule \<Rightarrow> manifest list \<Rightarrow> bool" where
  "granted_in ns sa rule ms \<longleftrightarrow>
     (\<exists>b r. RoleBindingManifest b \<in> set ms \<and> RoleManifest r \<in> set ms \<and> is_subject sa (bdc_subjects b) \<and>
        bdc_namespace b = ns \<and> rlc_namespace r = ns \<and>
        rr_kind (bdc_roleRef b) = ''Role'' \<and> rr_name (bdc_roleRef b) = rlc_name r \<and> rule \<in> set (rlc_rules r))"

text \<open>In the namespace the assets name, the manifests themselves grant every rule.\<close>

lemma asset_subjects [simp]:
  "is_subject (''openshift-karpenter'', ''karpenter'') (subjects [karpenter_subject] ns)"
  by (simp add: is_subject_def subjects_def karpenter_subject_def ServiceAccountKind_def Let_def)

lemma asset_fields [simp]:
  "name (mk_role ns n rules) = n" "role_rules (mk_role ns n rules) = rules"
  "name (mk_binding ns k n) = n" "rb_subjects (mk_binding ns k n) = [karpenter_subject]"
  "rr_kind (rb_roleRef (mk_binding ns k n)) = k" "rr_name (rb_roleRef (mk_binding ns k n)) = n"
  by (simp_all add: mk_role_def mk_binding_def object_meta.defs zero_object_meta_def)

lemma granted_clusterI:
  assumes "role \<in> set (ra_clusterRoles CoreRBAC @ ra_clusterRoles cloud)" "b \<in> set (ra_clusterRoleBindings CoreRBAC @ ra_clusterRoleBindings cloud)"
    and "rb_subjects b = [karpenter_subject]" "rr_kind (rb_roleRef b) = ''ClusterRole''" "rr_name (rb_roleRef b) = name role" "rule \<in> set (role_rules role)"
  shows "granted_cluster (''openshift-karpenter'', ''karpenter'') rule (rbac_manifests ns ref cloud)"
  unfolding granted_cluster_def
  by (rule exI [of _ "\<lparr>bdc_name = name b, bdc_namespace = [], bdc_ownerReference = ref, bdc_roleRef = rb_roleRef b,
        bdc_subjects = subjects (rb_subjects b) ns\<rparr>"],
      rule exI [of _ "\<lparr>rlc_name = name role, rlc_namespace = [], rlc_ownerReference = ref, rlc_labels = labels role, rlc_rules = role_rules role\<rparr>"])
    (use assms in \<open>auto simp: rbac_manifests_def\<close>)

lemma granted_inI:
  assumes "role \<in> set (ra_roles CoreRBAC @ ra_roles cloud)" "b \<in> set (ra_roleBindings CoreRBAC @ ra_roleBindings cloud)"
    and "rb_subjects b = [karpenter_subject]" "rr_kind (rb_roleRef b) = ''Role''" "rr_name (rb_roleRef b) = name role" "rule \<in> set (role_rules role)"
  shows "granted_in ns (''openshift-karpenter'', ''karpenter'') rule (rbac_manifests ns ref cloud)"
  unfolding granted_in_def
  by (rule exI [of _ "\<lparr>bdc_name = name b, bdc_namespace = ns, bdc_ownerReference = ref, bdc_roleRef = rb_roleRef b,
        bdc_subjects = subjects (rb_subjects b) ns\<rparr>"],
      rule exI [of _ "\<lparr>rlc_name = name role, rlc_namespace = ns, rlc_ownerReference = ref, rlc_labels = None, rlc_rules = role_rules role\<rparr>"])
    (use assms in \<open>auto simp: rbac_manifests_def\<close>)

text \<open>Every role among the assets has its binding, named like the role.\<close>

lemma assets_bound:
  assumes "cloud = provider_RBAC p"
  shows "role \<in> set (ra_clusterRoles CoreRBAC @ ra_clusterRoles cloud) \<Longrightarrow>
      mk_binding [] ''ClusterRole'' (name role) \<in> set (ra_clusterRoleBindings CoreRBAC @ ra_clusterRoleBindings cloud)"
    and "role \<in> set (ra_roles CoreRBAC @ ra_roles cloud) \<Longrightarrow>
      mk_binding ''openshift-karpenter'' ''Role'' (name role) \<in> set (ra_roleBindings CoreRBAC @ ra_roleBindings cloud)"
  unfolding assms by (cases p; auto simp: CoreRBAC_def AWSRBACAssets_def no_rbac_def)+

lemma in_foldI:
  "distinct (map manifest_key ms) \<Longrightarrow> m \<in> set ms \<Longrightarrow> m \<in> set (fold record_apply ms xs)"
  using find_manifest_fold find_manifest_Some by blast

text \<open>
  A successful reconcile of the Karpenter resource in the namespace the RBAC assets name
  leaves the operand's ServiceAccount in place, with its pull secrets, and every rule of the core
  and of the provider's assets granted to it: the Deployment never runs without its permissions.
\<close>

theorem standalone_operand_authorized:
  assumes "ocp_deploy ssa c karp w = (Inr r, w')" "honest w" "ssa_contract ssa" "occ_namespace c = ''openshift-karpenter''"
  defines "cloud \<equiv> provider_RBAC (occ_cloudProvider c)" and "sa \<equiv> (''openshift-karpenter'', ''karpenter'')"
  shows "find_obj sa (ow_serviceAccounts w') \<noteq> None \<and> pull_secrets sa w' = pull_secrets sa w \<and>
    (\<forall>role \<in> set (ra_clusterRoles CoreRBAC @ ra_clusterRoles cloud). \<forall>rule \<in> set (role_rules role). granted_cluster sa rule (ow_applied w')) \<and>
    (\<forall>role \<in> set (ra_roles CoreRBAC @ ra_roles cloud). \<forall>rule \<in> set (role_rules role).
       granted_in ''openshift-karpenter'' sa rule (ow_applied w')) \<and>
    (\<exists>d. DeploymentManifest d \<in> set (ow_applied w') \<and> ps_serviceAccountName (dpc_podSpec d) = snd sa \<and> dpc_namespace d = fst sa)"
proof -
  from ocp_deploy_ok [OF assms(1-3)] obtain d where
    d: "buildDeployment (ocp_operandConfig c (operand_image (occ_karpenterImage c) karp) karp) (ocpOwnerRef karp) = Inr d"
    and applied: "ow_applied w' = fold record_apply (ocp_manifests c karp d) (ow_applied w)"
    and account: "pull_secrets sa w' = pull_secrets sa w" "find_obj sa (ow_serviceAccounts w') \<noteq> None"
    using assms(4) by (auto simp: sa_def karpenterName_def)
  have "distinct (map manifest_key (ocp_manifests c karp d))"
    by (rule ocp_manifests_distinct [OF d]) (simp add: ocp_operandConfig_def)
  then have "set (ocp_manifests c karp d) \<subseteq> set (ow_applied w')"
    unfolding applied using in_foldI by blast
  then have sub: "set (rbac_manifests ''openshift-karpenter'' (ocpOwnerRef karp) cloud) \<subseteq> set (ow_applied w')"
    and dep: "DeploymentManifest d \<in> set (ow_applied w')"
    by (auto simp: ocp_manifests_def cloud_def assms(4))
  have mono: "granted_cluster sa rule (ow_applied w')" if "granted_cluster sa rule (rbac_manifests ''openshift-karpenter'' (ocpOwnerRef karp) cloud)" for rule
    using that sub unfolding granted_cluster_def by blast
  have mono': "granted_in ns sa rule (ow_applied w')" if "granted_in ns sa rule (rbac_manifests ''openshift-karpenter'' (ocpOwnerRef karp) cloud)" for rule ns
    using that sub unfolding granted_in_def by blast
  have "\<forall>role \<in> set (ra_clusterRoles CoreRBAC @ ra_clusterRoles cloud). \<forall>rule \<in> set (role_rules role).
      granted_cluster sa rule (rbac_manifests ''openshift-karpenter'' (ocpOwnerRef karp) cloud)"
    using granted_clusterI [OF _ assets_bound(1)] by (simp add: cloud_def sa_def)
  moreover have "\<forall>role \<in> set (ra_roles CoreRBAC @ ra_roles cloud). \<forall>rule \<in> set (role_rules role).
      granted_in ''openshift-karpenter'' sa rule (rbac_manifests ''openshift-karpenter'' (ocpOwnerRef karp) cloud)"
    using granted_inI [OF _ assets_bound(2)] by (simp add: cloud_def sa_def)
  moreover have "ps_serviceAccountName (dpc_podSpec d) = snd sa" "dpc_namespace d = fst sa"
    using buildDeployment_Inr [OF d] assms(4)
    by (auto simp: sa_def karpenterName_def ocp_operandConfig_def elim: operand_pod)
  ultimately show ?thesis using account dep mono mono' by blast
qed

lemma for_apply_no_faults:
  "api_faults w = [] \<Longrightarrow> forE xs (\<lambda>x. cl_apply (f x)) w = (Inr (), w\<lparr>ow_applied := fold record_apply (map f xs) (ow_applied w)\<rparr>)"
  by (induction xs arbitrary: w) (simp_all add: bindE_run apply_no_faults)

lemmas apply_runs = applyClusterRoles_def applyClusterRoleBindings_def applyRoles_def applyRoleBindings_def
  applyDeployment_def applyPodMonitor_def for_apply_no_faults apply_no_faults

lemma ocp_deploy_runs:
  assumes "api_faults w = []" "operand_image (occ_karpenterImage c) karp \<noteq> []"
  shows "\<exists>r w'. ocp_deploy ssa c karp w = (Inr r, w')"
proof -
  let ?cfg = "ocp_operandConfig c (operand_image (occ_karpenterImage c) karp) karp"
  obtain d where d: "buildDeployment ?cfg (ocpOwnerRef karp) = Inr d"
    using buildDeployment_total [of ?cfg] by (auto simp: uid_ok_def)
  obtain w1 where sa: "applyServiceAccount ssa (occ_namespace c) (ocpOwnerRef karp) [] w = (Inr (), w1)" "api_faults w1 = []"
    using applyServiceAccount_runs [OF assms(1)] by blast
  with assms(2) d show ?thesis
    by (simp add: ocp_deploy_def Let_def bindE_run wrapE_run handleE_run apply_runs)
qed

definition demo_karpenter :: karpenter where
  "demo_karpenter = object_meta.extend (zero_object_meta\<lparr>name := SingletonName\<rparr>) \<lparr>karp_logLevel = []\<rparr>"

definition demo_ocp :: ocp_controller_config where
  "demo_ocp = \<lparr>occ_namespace = ''openshift-karpenter'', occ_karpenterImage = ''karpenter:1'', occ_clusterName = ''a-x'',
     occ_clusterEndpoint = ''https://api:6443'', occ_cloudProvider = demo_aws, occ_imagePullPolicy = PullIfNotPresent\<rparr>"

theorem standalone_operand_authorized_witness:
  "\<exists>w'. ocp_deploy demo_ssa demo_ocp demo_karpenter demo_operand_world = (Inr Result0, w') \<and>
    granted_cluster (''openshift-karpenter'', ''karpenter'')
      (mk_rule [''karpenter.k8s.aws''] [''ec2nodeclasses'', ''ec2nodeclasses/status''] [] [''patch'', ''update'']) (ow_applied w')"
proof -
  have w: "api_faults demo_operand_world = []" by (simp add: demo_operand_world_def)
  have c: "occ_karpenterImage demo_ocp \<noteq> []" "occ_namespace demo_ocp = ''openshift-karpenter''" "occ_cloudProvider demo_ocp = demo_aws"
    by (simp_all add: demo_ocp_def)
  have "operand_image (occ_karpenterImage demo_ocp) demo_karpenter \<noteq> []"
    using c(1) by (simp add: operand_image_def)
  from ocp_deploy_runs [OF w this] obtain r w' where run: "ocp_deploy demo_ssa demo_ocp demo_karpenter demo_operand_world = (Inr r, w')"
    by blast
  then have "r = Result0"
    by (auto simp: ocp_deploy_def Let_def split: if_splits elim!: bindE_InrE)
  moreover have "granted_cluster (''openshift-karpenter'', ''karpenter'')
      (mk_rule [''karpenter.k8s.aws''] [''ec2nodeclasses'', ''ec2nodeclasses/status''] [] [''patch'', ''update'']) (ow_applied w')"
    using standalone_operand_authorized [OF run _ demo_ssa_contract c(2)] w
    by (simp add: c(3) demo_aws_def AWSRBACAssets_def aws_clusterrole_rules_def)
  ultimately show ?thesis using run by blast
qed

text \<open>
  In any other namespace the same manifests grant the operand's ServiceAccount nothing: the subject
  of every binding keeps the namespace of its asset.
\<close>

lemma other_namespace_unauthorized:
  assumes "ns \<noteq> ''openshift-karpenter''"
  shows "\<not> granted_cluster (ns, sa) rule (rbac_manifests ns ref (provider_RBAC p))"
    and "\<not> granted_in ns (ns, sa) rule (rbac_manifests ns ref (provider_RBAC p))"
proof -
  have "\<not> is_subject (ns, sa) (subjects [karpenter_subject] ns)"
    using assms by (simp add: is_subject_def subjects_def karpenter_subject_def ServiceAccountKind_def)
  then show "\<not> granted_cluster (ns, sa) rule (rbac_manifests ns ref (provider_RBAC p))"
    "\<not> granted_in ns (ns, sa) rule (rbac_manifests ns ref (provider_RBAC p))"
    by (cases p; auto simp: granted_cluster_def granted_in_def rbac_manifests_def CoreRBAC_def AWSRBACAssets_def no_rbac_def)+
qed

end
