(* ===== verification/Cluster_Operator.thy ===== *)
theory Cluster_Operator
  imports Cloud_Provider
begin

text \<open>
  \<open>pkg/controllers/clusteroperator/controller.go\<close>: the controller that reports the state of the
  operand, or that the platform has none, in the status of the ClusterOperator \<open>karpenter\<close>.

  How the API server merges the applied list of conditions, a list keyed by type, into the
  stored one is the parameter \<open>merge\<close>; the text of an error in a message is \<open>showErr\<close>.
\<close>

section \<open>The cluster\<close>

record deployment_status = object_meta +
  dst_replicas :: int32
  dst_updatedReplicas :: int32
  dst_availableReplicas :: int32

text \<open>\<open>coc_message\<close> is empty when the configuration leaves it out.\<close>

record co_condition =
  coc_type :: string
  coc_status :: condition_status
  coc_reason :: string
  coc_message :: string
  coc_lastTransitionTime :: "gotime option"

record cluster_operator = object_meta +
  co_conditions :: "co_condition list"
  co_versions :: "(string \<times> string) list"
  co_relatedObjects :: "object_reference list"

record co_world = api +
  cw_karpenters :: "karpenter list"
  cw_deployments :: "deployment_status list"
  cw_clusterOperators :: "cluster_operator list"

definition CoKarpenters :: "(co_world, karpenter) kind" where
  "CoKarpenters = \<lparr>k_objs = cw_karpenters, k_upd = cw_karpenters_update, k_keepStatus = (\<lambda>old new. new), k_norm = norm_meta\<rparr>"

definition CoDeployments :: "(co_world, deployment_status) kind" where
  "CoDeployments = \<lparr>k_objs = cw_deployments, k_upd = cw_deployments_update, k_keepStatus = (\<lambda>old new. new), k_norm = norm_meta\<rparr>"

definition ClusterOperators :: "(co_world, cluster_operator) kind" where
  "ClusterOperators =
     \<lparr>k_objs = cw_clusterOperators, k_upd = cw_clusterOperators_update,
      k_keepStatus = (\<lambda>old new. new\<lparr>co_conditions := co_conditions old, co_versions := co_versions old,
                                     co_relatedObjects := co_relatedObjects old\<rparr>),
      k_norm = norm_meta\<rparr>"

interpretation coKarpenters: api_kind CoKarpenters
  by unfold_locales (simp_all add: CoKarpenters_def)

interpretation coDeployments: api_kind CoDeployments
  by unfold_locales (simp_all add: CoDeployments_def)

interpretation clusterOperators: api_kind ClusterOperators
  by unfold_locales (simp_all add: ClusterOperators_def obj_key_def)

lemma co_kinds [simp]:
  "k_objs CoKarpenters = cw_karpenters" "k_objs CoDeployments = cw_deployments" "k_objs ClusterOperators = cw_clusterOperators"
  by (simp_all add: CoKarpenters_def CoDeployments_def ClusterOperators_def)

section \<open>Conditions\<close>

definition OperatorAvailable :: string where "OperatorAvailable = ''Available''"
definition OperatorProgressing :: string where "OperatorProgressing = ''Progressing''"
definition OperatorDegraded :: string where "OperatorDegraded = ''Degraded''"
definition OperatorUpgradeable :: string where "OperatorUpgradeable = ''Upgradeable''"

lemmas operator_types = OperatorAvailable_def OperatorProgressing_def OperatorDegraded_def OperatorUpgradeable_def

definition co_condition_of :: "string \<Rightarrow> condition_status \<Rightarrow> string \<Rightarrow> string \<Rightarrow> co_condition" where
  "co_condition_of condType status reason message =
     \<lparr>coc_type = condType, coc_status = status, coc_reason = reason, coc_message = message, coc_lastTransitionTime = None\<rparr>"

definition availableConditions :: "string \<Rightarrow> string \<Rightarrow> co_condition list" where
  "availableConditions reason message =
     [co_condition_of OperatorAvailable ConditionTrue reason message,
      co_condition_of OperatorProgressing ConditionFalse ''AsExpected'' [],
      co_condition_of OperatorDegraded ConditionFalse ''AsExpected'' [],
      co_condition_of OperatorUpgradeable ConditionTrue ''AsExpected'' []]"

definition progressingConditions :: "string \<Rightarrow> string \<Rightarrow> co_condition list" where
  "progressingConditions reason message =
     [co_condition_of OperatorAvailable ConditionTrue ''AsExpected'' [],
      co_condition_of OperatorProgressing ConditionTrue reason message,
      co_condition_of OperatorDegraded ConditionFalse ''AsExpected'' [],
      co_condition_of OperatorUpgradeable ConditionTrue ''AsExpected'' []]"

definition degradedConditions :: "string \<Rightarrow> string \<Rightarrow> co_condition list" where
  "degradedConditions reason message =
     [co_condition_of OperatorAvailable ConditionTrue ''AsExpected'' [],
      co_condition_of OperatorProgressing ConditionFalse ''AsExpected'' [],
      co_condition_of OperatorDegraded ConditionTrue reason message,
      co_condition_of OperatorUpgradeable ConditionTrue ''AsExpected'' []]"

definition findCondition :: "co_condition list \<Rightarrow> string \<Rightarrow> co_condition option" where
  "findCondition conditions condType = find (\<lambda>c. coc_type c = condType) conditions"

section \<open>The controller\<close>

definition clusterOperatorName :: string where
  "clusterOperatorName = ''karpenter''"

definition reasonUnsupportedPlatform :: string where
  "reasonUnsupportedPlatform = ''UnsupportedPlatform''"

record co_controller_config =
  cc_namespace :: string
  cc_releaseVersion :: string
  cc_additionalRelatedObjects :: "object_reference list"
  cc_unsupportedPlatform :: "string option"

definition at_version :: "co_controller_config \<Rightarrow> string" where
  "at_version cfg = ''at version '' @ cc_releaseVersion cfg"

definition operandConditions :: "(error \<Rightarrow> string) \<Rightarrow> co_controller_config \<Rightarrow> (co_world, co_condition list) io" where
  "operandConditions showErr cfg =
     handleE (cl_get CoKarpenters ([], SingletonName))
       (\<lambda>err. if is_not_found err then ret (availableConditions ''KarpenterNotFound'' (at_version cfg))
              else ret (degradedConditions ''KarpenterCheckFailed'' (''Failed to get Karpenter CR: '' @ showErr err)))
       (\<lambda>karp. handleE (cl_get CoDeployments (cc_namespace cfg, ''karpenter''))
         (\<lambda>err. if is_not_found err then
                  ret (progressingConditions ''OperandNotYetCreated'' ''Waiting for karpenter Deployment to be created'')
                else ret (degradedConditions ''OperandCheckFailed'' (''Failed to get operand Deployment: '' @ showErr err)))
         (\<lambda>deploy.
            if sint (dst_availableReplicas deploy) < 1 then
              ret (progressingConditions ''OperandNotReady'' ''Waiting for karpenter Deployment to become available'')
            else if dst_updatedReplicas deploy \<noteq> dst_replicas deploy then
              ret (progressingConditions ''OperandRollingOut'' ''Karpenter Deployment is rolling out'')
            else ret (availableConditions ''AsExpected'' (at_version cfg))))"

definition co_reference :: "string \<Rightarrow> string \<Rightarrow> string \<Rightarrow> string \<Rightarrow> object_reference" where
  "co_reference g r n ns = \<lparr>oref_group = g, oref_resource = r, oref_name = n, oref_namespace = ns\<rparr>"

definition relatedObjects :: "co_controller_config \<Rightarrow> object_reference list" where
  "relatedObjects cfg =
     [co_reference [] ''namespaces'' (cc_namespace cfg) [],
      co_reference ''apps'' ''deployments'' ''karpenter-operator'' (cc_namespace cfg),
      co_reference ''rbac.authorization.k8s.io'' ''clusterroles'' ''karpenter-operator'' [],
      co_reference ''rbac.authorization.k8s.io'' ''clusterrolebindings'' ''karpenter-operator'' []] @
     (if cc_unsupportedPlatform cfg = None
      then [co_reference ''karpenter.sh'' ''nodepools'' [] [], co_reference ''karpenter.sh'' ''nodeclaims'' [] []] else []) @
     map (\<lambda>ref. co_reference (oref_group ref) (oref_resource ref) (oref_name ref) (oref_namespace ref)) (cc_additionalRelatedObjects cfg)"

text \<open>The body of the loop: an unchanged status keeps its transition time.\<close>

definition stamp :: "int \<Rightarrow> co_condition list \<Rightarrow> co_condition \<Rightarrow> co_condition" where
  "stamp now existing c =
     (let c1 = (if coc_lastTransitionTime c = None then c\<lparr>coc_lastTransitionTime := Some (At now)\<rparr> else c) in
      case findCondition existing (coc_type c) of
        Some prev \<Rightarrow> if coc_status prev = coc_status c then c1\<lparr>coc_lastTransitionTime := coc_lastTransitionTime prev\<rparr> else c1
      | None \<Rightarrow> c1)"

text \<open>
  The apply without a status creates the object and sets nothing on an existing one; the apply
  of the status merges the conditions and replaces the other lists. An apply that changes nothing writes nothing.
\<close>

definition new_cluster_operator :: cluster_operator where
  "new_cluster_operator = object_meta.extend (zero_object_meta\<lparr>name := clusterOperatorName, resourceVersion := 1\<rparr>)
     \<lparr>co_conditions = [], co_versions = [], co_relatedObjects = []\<rparr>"

definition apply_co :: "(co_world, unit) io" where
  "apply_co =
     bindE api_call (\<lambda>_. modifyE (cw_clusterOperators_update (\<lambda>objs.
       if find_obj ([], clusterOperatorName) objs = None then objs @ [new_cluster_operator] else objs)))"

type_synonym condition_merge = "co_condition list \<Rightarrow> co_condition list \<Rightarrow> co_condition list"

definition apply_co_status ::
  "condition_merge \<Rightarrow> co_condition list \<Rightarrow> (string \<times> string) list \<Rightarrow> object_reference list \<Rightarrow> (co_world, unit) io" where
  "apply_co_status merge conditions versions objs =
     bindE api_call (\<lambda>_. \<lambda>w.
       case find_obj ([], clusterOperatorName) (cw_clusterOperators w) of
         None \<Rightarrow> (Inl (ApiErr NotFound), w)
       | Some old \<Rightarrow>
           let new = old\<lparr>co_conditions := merge conditions (co_conditions old), co_versions := versions, co_relatedObjects := objs\<rparr> in
           if new = old then (Inr (), w)
           else (Inr (), w\<lparr>cw_clusterOperators :=
                   put_obj (new\<lparr>resourceVersion := Suc (resourceVersion old)\<rparr>) (cw_clusterOperators w)\<rparr>))"

definition applyStatus :: "condition_merge \<Rightarrow> co_controller_config \<Rightarrow> co_condition list \<Rightarrow> (co_world, unit) io" where
  "applyStatus merge cfg conditions =
     bindE (wrapE ''applying ClusterOperator: %w'' [] apply_co) (\<lambda>_.
     bindE (wrapE ''reading existing ClusterOperator: %w'' [] (cl_get ClusterOperators ([], clusterOperatorName))) (\<lambda>existing.
     bindE nowE (\<lambda>now.
       apply_co_status merge (map (stamp now (co_conditions existing)) conditions)
         [(''operator'', cc_releaseVersion cfg)] (relatedObjects cfg))))"

definition co_Reconcile ::
  "condition_merge \<Rightarrow> (error \<Rightarrow> string) \<Rightarrow> co_controller_config \<Rightarrow> (co_world, ctrl_result) io" where
  "co_Reconcile merge showErr cfg =
     bindE (case cc_unsupportedPlatform cfg of
              Some platform \<Rightarrow> ret (availableConditions reasonUnsupportedPlatform
                 (''Karpenter is not supported on platform '' @ platform @ '', no operand is deployed''))
            | None \<Rightarrow> operandConditions showErr cfg) (\<lambda>conditions.
     bindE (wrapE ''updating ClusterOperator status: %w'' [] (applyStatus merge cfg conditions)) (\<lambda>_.
     ret Result0))"

section \<open>What is reported\<close>

text \<open>Documented behaviour of the keyed list: an applied entry is stored as applied.\<close>

definition merge_contract :: "condition_merge \<Rightarrow> bool" where
  "merge_contract merge \<longleftrightarrow>
     (\<forall>cfg old t. distinct (map coc_type cfg) \<longrightarrow> t \<in> coc_type ` set cfg \<longrightarrow> findCondition (merge cfg old) t = findCondition cfg t)"

definition stored_conditions :: "co_world \<Rightarrow> co_condition list" where
  "stored_conditions w =
     (case find_obj ([], clusterOperatorName) (cw_clusterOperators w) of None \<Rightarrow> [] | Some co \<Rightarrow> co_conditions co)"

definition reported :: "(error \<Rightarrow> string) \<Rightarrow> co_controller_config \<Rightarrow> (co_world, co_condition list) io" where
  "reported showErr cfg =
     (case cc_unsupportedPlatform cfg of
        Some platform \<Rightarrow> ret (availableConditions reasonUnsupportedPlatform
           (''Karpenter is not supported on platform '' @ platform @ '', no operand is deployed''))
      | None \<Rightarrow> operandConditions showErr cfg)"

text \<open>The four conditions always come with these types, Available and Upgradeable as True.\<close>

definition four_conditions :: "co_condition list \<Rightarrow> condition_status \<Rightarrow> condition_status \<Rightarrow> bool" where
  "four_conditions cs progressing degraded \<longleftrightarrow>
     map (\<lambda>c. (coc_type c, coc_status c)) cs =
       [(OperatorAvailable, ConditionTrue), (OperatorProgressing, progressing), (OperatorDegraded, degraded),
        (OperatorUpgradeable, ConditionTrue)] \<and>
     list_all (\<lambda>c. coc_lastTransitionTime c = None) cs"

lemma builders [simp]:
  "four_conditions (availableConditions r m) p d \<longleftrightarrow> p = ConditionFalse \<and> d = ConditionFalse"
  "four_conditions (progressingConditions r m) p d \<longleftrightarrow> p = ConditionTrue \<and> d = ConditionFalse"
  "four_conditions (degradedConditions r m) p d \<longleftrightarrow> p = ConditionFalse \<and> d = ConditionTrue"
  by (auto simp: four_conditions_def availableConditions_def progressingConditions_def degradedConditions_def co_condition_of_def)

lemma builders_Ex [simp]:
  "Ex (four_conditions (availableConditions r m) p) \<longleftrightarrow> p = ConditionFalse"
  "Ex (four_conditions (progressingConditions r m) p) \<longleftrightarrow> p = ConditionTrue"
  "Ex (four_conditions (degradedConditions r m) p) \<longleftrightarrow> p = ConditionFalse"
  by auto

lemma four_types: "four_conditions cs p d \<Longrightarrow> map coc_type cs = [OperatorAvailable, OperatorProgressing, OperatorDegraded, OperatorUpgradeable]"
  by (auto simp: four_conditions_def map_eq_Cons_conv)

lemma reported_four:
  "\<exists>cs v p d. reported showErr cfg w = (Inr cs, v) \<and> four_conditions cs p d \<and>
     cw_clusterOperators v = cw_clusterOperators w \<and> api_now v = api_now w"
proof (cases "cc_unsupportedPlatform cfg")
  case None
  show ?thesis
  proof (cases rule: cl_get_cases [of CoKarpenters "([], SingletonName)" w])
    case (found k fs)
    with None show ?thesis
      by (cases rule: cl_get_cases [of CoDeployments "(cc_namespace cfg, ''karpenter'')" "w\<lparr>api_faults := fs\<rparr>"])
        (auto simp: reported_def operandConditions_def handleE_run)
  qed (use None in \<open>auto simp: reported_def operandConditions_def handleE_run\<close>)
qed (simp add: reported_def)

lemma find_stamp:
  "findCondition (map (stamp now old) cs) t = map_option (stamp now old) (findCondition cs t)"
proof -
  have "coc_type (stamp now old c) = coc_type c" for c
    by (simp add: stamp_def Let_def split: option.split)
  then show ?thesis by (induction cs) (auto simp: findCondition_def)
qed

lemma stamp_fields: "coc_type (stamp now old c) = coc_type c" "coc_status (stamp now old c) = coc_status c"
  "coc_reason (stamp now old c) = coc_reason c" "coc_message (stamp now old c) = coc_message c"
  by (simp_all add: stamp_def Let_def split: option.split)

lemma findCondition_mem: "distinct (map coc_type cs) \<Longrightarrow> c \<in> set cs \<Longrightarrow> findCondition cs (coc_type c) = Some c"
  by (induction cs) (auto simp: findCondition_def)

lemma obj_key_status [simp]:
  "obj_key (co\<lparr>co_conditions := a\<rparr>) = obj_key co" "obj_key (co\<lparr>co_versions := b\<rparr>) = obj_key co"
  "obj_key (co\<lparr>co_relatedObjects := c\<rparr>) = obj_key co"
  "obj_key new_cluster_operator = ([], clusterOperatorName)"
  by (simp_all add: obj_key_def new_cluster_operator_def object_meta.defs zero_object_meta_def)

lemma apply_co_status_ok:
  assumes run: "apply_co_status merge cs vs os w = (Inr u, w')" and ex: "find_obj ([], clusterOperatorName) (cw_clusterOperators w) = Some ex"
  shows "\<exists>co. find_obj ([], clusterOperatorName) (cw_clusterOperators w') = Some co \<and>
    co_conditions co = merge cs (co_conditions ex) \<and> co_versions co = vs \<and> co_relatedObjects co = os"
proof -
  let ?new = "ex\<lparr>co_conditions := merge cs (co_conditions ex), co_versions := vs, co_relatedObjects := os\<rparr>"
  show ?thesis
  proof (cases "?new = ex")
    case True
    then have fields: "co_conditions ex = co_conditions ?new" "co_versions ex = co_versions ?new" "co_relatedObjects ex = co_relatedObjects ?new"
      by simp_all
    from run True ex have "cw_clusterOperators w' = cw_clusterOperators w"
      by (cases rule: api_call_cases [of w]) (auto simp: apply_co_status_def bindE_run)
    with ex fields show ?thesis by simp
  next
    case False
    from run False ex find_obj_Some [OF ex] show ?thesis
      by (cases rule: api_call_cases [of w]) (auto simp: apply_co_status_def bindE_run Let_def)
  qed
qed

lemma applyStatus_runs:
  assumes "api_faults w = []"
  shows "\<exists>w'. applyStatus merge cfg cs w = (Inr (), w')"
proof -
  have status: "\<exists>w'. apply_co_status merge cs vs os v = (Inr (), w')"
    if "api_faults v = []" "find_obj ([], clusterOperatorName) (cw_clusterOperators v) \<noteq> None" for cs vs os v
    using that by (auto simp: apply_co_status_def bindE_run Let_def)
  obtain v where v: "apply_co w = (Inr (), v)" "api_faults v = []" "find_obj ([], clusterOperatorName) (cw_clusterOperators v) \<noteq> None"
    using assms by (auto simp: apply_co_def bindE_run find_obj_append split: option.split)
  then obtain ex where "cl_get ClusterOperators ([], clusterOperatorName) v = (Inr ex, v)"
    by (auto simp: clusterOperators.get_no_faults)
  with v status show ?thesis
    by (simp add: applyStatus_def bindE_run wrapE_run nowE_def)
qed

lemma applyStatus_ok:
  assumes "applyStatus merge cfg cs w = (Inr u, w')"
  shows "\<exists>co. find_obj ([], clusterOperatorName) (cw_clusterOperators w') = Some co \<and>
    co_conditions co = merge (map (stamp (api_now w) (stored_conditions w)) cs) (stored_conditions w) \<and>
    co_versions co = [(''operator'', cc_releaseVersion cfg)] \<and> co_relatedObjects co = relatedObjects cfg"
proof -
  from assms obtain u1 w1 ex w2 where created: "apply_co w = (Inr u1, w1)"
    and read: "cl_get ClusterOperators ([], clusterOperatorName) w1 = (Inr ex, w2)"
    and status: "apply_co_status merge (map (stamp (api_now w2) (co_conditions ex)) cs) [(''operator'', cc_releaseVersion cfg)] (relatedObjects cfg) w2 = (Inr u, w')"
    unfolding applyStatus_def nowE_def by (elim bindE_InrE) (auto simp: bindE_run)
  have new: "co_conditions new_cluster_operator = []"
    by (simp add: new_cluster_operator_def object_meta.defs)
  from created have w1: "stored_conditions w1 = stored_conditions w \<and> api_now w1 = api_now w"
    by (cases rule: api_call_cases [of w])
      (auto simp: apply_co_def bindE_run stored_conditions_def find_obj_append new split: option.split)
  from get_leaves [OF read] obtain fs where leaves: "w2 = w1\<lparr>api_faults := fs\<rparr>" by blast
  have w2: "find_obj ([], clusterOperatorName) (cw_clusterOperators w2) = Some ex" "api_now w2 = api_now w1"
    using clusterOperators.get_ok [OF read] leaves by simp_all
  then have ex: "co_conditions ex = stored_conditions w1"
    using leaves by (simp add: stored_conditions_def)
  from apply_co_status_ok [OF status w2(1)] show ?thesis
    by (simp add: w2(2) ex w1)
qed

section \<open>Properties\<close>

text \<open>The operand is wanted and not fully rolled out, as the store has it.\<close>

definition operand_pending :: "co_controller_config \<Rightarrow> co_world \<Rightarrow> bool" where
  "operand_pending cfg w \<longleftrightarrow>
     find_obj ([], SingletonName) (cw_karpenters w) \<noteq> None \<and>
     (case find_obj (cc_namespace cfg, ''karpenter'') (cw_deployments w) of
        None \<Rightarrow> True
      | Some d \<Rightarrow> sint (dst_availableReplicas d) < 1 \<or> dst_updatedReplicas d \<noteq> dst_replicas d)"

lemma operand_verdict:
  assumes "api_faults w = []" "cc_unsupportedPlatform cfg = None" "fst (reported showErr cfg w) = Inr cs" "four_conditions cs p d"
  shows "p = (if operand_pending cfg w then ConditionTrue else ConditionFalse) \<and> d = ConditionFalse"
  using assms coKarpenters.get_no_faults [OF assms(1), of "([], SingletonName)"]
    coDeployments.get_no_faults [OF assms(1), of "(cc_namespace cfg, ''karpenter'')"]
  by (auto simp: reported_def operandConditions_def handleE_run operand_pending_def split: option.splits if_splits)

lemma co_Reconcile_reported:
  "co_Reconcile merge showErr cfg =
     bindE (reported showErr cfg) (\<lambda>conditions.
     bindE (wrapE ''updating ClusterOperator status: %w'' [] (applyStatus merge cfg conditions)) (\<lambda>_. ret Result0))"
  by (simp add: co_Reconcile_def reported_def)

text \<open>What a successful reconcile stores for a verdict.\<close>

lemma co_Reconcile_stores:
  assumes run: "co_Reconcile merge showErr cfg w = (Inr r, w')" and contract: "merge_contract merge"
    and rep: "reported showErr cfg w = (Inr cs, v)" and four: "four_conditions cs p d"
    and v: "cw_clusterOperators v = cw_clusterOperators w" "api_now v = api_now w"
  shows "\<forall>c \<in> set cs. \<exists>c'. findCondition (stored_conditions w') (coc_type c) = Some c' \<and>
       coc_status c' = coc_status c \<and> coc_reason c' = coc_reason c \<and> coc_message c' = coc_message c \<and>
       coc_lastTransitionTime c' =
         (case findCondition (stored_conditions w) (coc_type c) of
            Some prev \<Rightarrow> if coc_status prev = coc_status c then coc_lastTransitionTime prev else Some (At (api_now w))
          | None \<Rightarrow> Some (At (api_now w)))"
proof -
  from run rep obtain u where "applyStatus merge cfg cs v = (Inr u, w')"
    by (auto simp: co_Reconcile_reported elim!: bindE_InrE)
  from applyStatus_ok [OF this] v have stored: "stored_conditions w' = merge (map (stamp (api_now w) (stored_conditions w)) cs) (stored_conditions w)"
    by (auto simp: stored_conditions_def)
  have types: "distinct (map coc_type cs)"
    using four_types [OF four] by (simp add: operator_types)
  have fresh: "coc_lastTransitionTime c = None" if "c \<in> set cs" for c
    using four that by (auto simp: four_conditions_def list_all_iff)
  have "findCondition (stored_conditions w') (coc_type c) = Some (stamp (api_now w) (stored_conditions w) c)" if "c \<in> set cs" for c
  proof -
    have "findCondition (stored_conditions w') (coc_type c) =
        findCondition (map (stamp (api_now w) (stored_conditions w)) cs) (coc_type c)"
      using contract types that unfolding merge_contract_def stored
      by (simp add: image_image stamp_fields comp_def)
    then show ?thesis by (simp add: find_stamp findCondition_mem [OF types that])
  qed
  then show ?thesis
    using fresh by (auto simp: stamp_fields) (simp add: stamp_def Let_def split: option.split)
qed

text \<open>
  C27: a reconcile that succeeds, whatever errors the reads of the operand returned, stores all four
  conditions with the status, reason and message of its verdict. A transition time moves exactly
  when the status differs from the stored one. On an unsupported platform the verdict is
  always available; otherwise, without errors, it is never degraded, and progressing exactly while
  the Karpenter resource exists and the Deployment is missing, unavailable or not fully updated.
\<close>

theorem cluster_operator_reports:
  assumes run: "co_Reconcile merge showErr cfg w = (Inr r, w')" and "merge_contract merge"
  shows "\<exists>cs p d. fst (reported showErr cfg w) = Inr cs \<and> four_conditions cs p d \<and>
    (\<forall>c \<in> set cs. \<exists>c'. findCondition (stored_conditions w') (coc_type c) = Some c' \<and>
       coc_status c' = coc_status c \<and> coc_reason c' = coc_reason c \<and> coc_message c' = coc_message c \<and>
       coc_lastTransitionTime c' =
         (case findCondition (stored_conditions w) (coc_type c) of
            Some prev \<Rightarrow> if coc_status prev = coc_status c then coc_lastTransitionTime prev else Some (At (api_now w))
          | None \<Rightarrow> Some (At (api_now w)))) \<and>
    (cc_unsupportedPlatform cfg \<noteq> None \<longrightarrow> p = ConditionFalse \<and> d = ConditionFalse) \<and>
    (cc_unsupportedPlatform cfg = None \<and> api_faults w = [] \<longrightarrow>
       p = (if operand_pending cfg w then ConditionTrue else ConditionFalse) \<and> d = ConditionFalse)"
proof -
  obtain cs v p d where rep: "reported showErr cfg w = (Inr cs, v)" and four: "four_conditions cs p d"
    and v: "cw_clusterOperators v = cw_clusterOperators w" "api_now v = api_now w"
    using reported_four [of showErr cfg w] by blast
  note co_Reconcile_stores [OF run assms(2) rep four v]
  moreover have "cc_unsupportedPlatform cfg \<noteq> None \<longrightarrow> p = ConditionFalse \<and> d = ConditionFalse"
    using rep four by (auto simp: reported_def)
  ultimately show ?thesis
    using rep four operand_verdict [of w cfg showErr cs p d] by (intro exI [of _ cs] exI [of _ p] exI [of _ d]) auto
qed

text \<open>A merge of keyed lists: applied entries replace those of their type, others stay.\<close>

definition demo_merge :: condition_merge where
  "demo_merge cfg old = cfg @ filter (\<lambda>c. coc_type c \<notin> coc_type ` set cfg) old"

lemma demo_merge_contract: "merge_contract demo_merge"
proof -
  have "findCondition (cfg @ rest) t = findCondition cfg t" if "t \<in> coc_type ` set cfg" for cfg rest t
    using that by (induction cfg) (auto simp: findCondition_def)
  then show ?thesis by (simp add: merge_contract_def demo_merge_def)
qed

definition demo_co_config :: co_controller_config where
  "demo_co_config = \<lparr>cc_namespace = ''openshift-karpenter'', cc_releaseVersion = ''4.20.1'', cc_additionalRelatedObjects = [],
     cc_unsupportedPlatform = None\<rparr>"

definition demo_co_world :: co_world where
  "demo_co_world = \<lparr>api_faults = [], api_now = 7, cw_karpenters = [object_meta.extend (zero_object_meta\<lparr>name := SingletonName\<rparr>) \<lparr>karp_logLevel = []\<rparr>],
     cw_deployments = [], cw_clusterOperators = []\<rparr>"

theorem cluster_operator_reports_witness:
  "\<exists>w' c. co_Reconcile demo_merge (\<lambda>_. []) demo_co_config demo_co_world = (Inr Result0, w') \<and>
     findCondition (stored_conditions w') OperatorProgressing = Some c \<and> coc_status c = ConditionTrue \<and>
     coc_lastTransitionTime c = Some (At 7)"
proof -
  have w: "api_faults demo_co_world = []" "api_now demo_co_world = 7" "stored_conditions demo_co_world = []"
    by (simp_all add: demo_co_world_def stored_conditions_def)
  have pending: "operand_pending demo_co_config demo_co_world" and platform: "cc_unsupportedPlatform demo_co_config = None"
    by (simp_all add: operand_pending_def demo_co_world_def demo_co_config_def object_meta.defs zero_object_meta_def obj_key_def)
  have no_condition: "findCondition [] t = None" for t by (simp add: findCondition_def)
  obtain cs v where rep: "reported (\<lambda>_. []) demo_co_config demo_co_world = (Inr cs, v)" and v: "api_faults v = []"
    using coKarpenters.get_no_faults [OF w(1), of "([], SingletonName)"]
      coDeployments.get_no_faults [OF w(1), of "(''openshift-karpenter'', ''karpenter'')"]
    by (simp add: reported_def operandConditions_def handleE_run demo_co_world_def demo_co_config_def object_meta.defs
        zero_object_meta_def obj_key_def)
  have "\<exists>w'. co_Reconcile demo_merge (\<lambda>_. []) demo_co_config demo_co_world = (Inr Result0, w')"
    using applyStatus_runs [OF v, of demo_merge demo_co_config cs] by (auto simp: co_Reconcile_reported bindE_run wrapE_run rep)
  then obtain w' where run: "co_Reconcile demo_merge (\<lambda>_. []) demo_co_config demo_co_world = (Inr Result0, w')" by blast
  from cluster_operator_reports [OF run demo_merge_contract] w pending platform rep
  obtain cs where four: "four_conditions cs ConditionTrue ConditionFalse"
    and all: "\<forall>c \<in> set cs. \<exists>c'. findCondition (stored_conditions w') (coc_type c) = Some c' \<and> coc_status c' = coc_status c \<and>
      coc_reason c' = coc_reason c \<and> coc_message c' = coc_message c \<and> coc_lastTransitionTime c' = Some (At 7)"
    by (auto simp: no_condition)
  from four obtain c where "c \<in> set cs" "coc_type c = OperatorProgressing" "coc_status c = ConditionTrue"
    by (fastforce simp: four_conditions_def map_eq_Cons_conv)
  with all run show ?thesis by metis
qed

end
