(* ===== verification/Go_Strconv.thy ===== *)
theory Go_Strconv
  imports Api_Types Go_Duration
begin

text \<open>
  \<open>strconv.ParseBool\<close> and \<open>strconv.ParseInt(s, 10, 64)\<close> of the Go standard library, as the
  operator uses them on its environment, with the round trip of decimal numbers.
\<close>

definition ErrSyntax :: error where "ErrSyntax = Sentinel ''invalid syntax''"
definition ErrRange :: error where "ErrRange = Sentinel ''value out of range''"

definition ParseBool :: "string \<Rightarrow> error + bool" where
  "ParseBool s =
     (if s \<in> set [''1'', ''t'', ''T'', ''true'', ''TRUE'', ''True''] then Inr True
      else if s \<in> set [''0'', ''f'', ''F'', ''false'', ''FALSE'', ''False''] then Inr False
      else Inl ErrSyntax)"

text \<open>The value of a string of digits; no value for another byte.\<close>

fun digits_value :: "int \<Rightarrow> string \<Rightarrow> int option" where
  "digits_value acc [] = Some acc"
| "digits_value acc (c # cs) = (if is_digit c then digits_value (acc * 10 + digit_val c) cs else None)"

definition cutoff :: int where
  "cutoff = 2 ^ 63"

definition ParseInt :: "string \<Rightarrow> error + int64" where
  "ParseInt s =
     (let (neg, digits) =
        (case s of
           [] \<Rightarrow> (False, [])
         | c # cs \<Rightarrow> if c = CHR ''+'' then (False, cs) else if c = CHR ''-'' then (True, cs) else (False, s))
      in if digits = [] then Inl ErrSyntax
         else case digits_value 0 digits of
           None \<Rightarrow> Inl ErrSyntax
         | Some n \<Rightarrow>
             if \<not> neg \<and> n \<ge> cutoff then Inl ErrRange
             else if neg \<and> n > cutoff then Inl ErrRange
             else Inr (word_of_int (if neg then - n else n)))"

section \<open>Round trip\<close>

lemma digits_value_append: "digits_value acc (xs @ ys) = (case digits_value acc xs of None \<Rightarrow> None | Some n \<Rightarrow> digits_value n ys)"
  by (induction xs arbitrary: acc) auto

lemma digit_char:
  "n < 10 \<Longrightarrow> is_digit (char_of (48 + n)) \<and> digit_val (char_of (48 + n)) = int n"
proof -
  assume "n < 10"
  then have "(of_char (char_of (48 + n) :: char) :: nat) = 48 + n" by simp
  then have "(of_char (char_of (48 + n) :: char) :: int) = 48 + int n"
    by (metis of_nat_of_char of_nat_add of_nat_numeral)
  with \<open>n < 10\<close> show ?thesis by (simp add: is_digit_def digit_val_def)
qed

lemma digits_value_show: "digits_value 0 (show_nat n) = Some (int n)"
proof (induction n rule: show_nat.induct)
  case (1 n)
  show ?case
  proof (cases "n < 10")
    case True
    then show ?thesis using digit_char [of n] by (subst show_nat.simps) simp
  next
    case False
    with 1 have "digits_value 0 (show_nat (n div 10)) = Some (int (n div 10))" by simp
    with False digit_char [of "n mod 10"] show ?thesis
      by (subst show_nat.simps) (simp add: digits_value_append zdiv_int zmod_int)
  qed
qed

lemma show_nat_digits: "list_all is_digit (show_nat n)"
proof (induction n rule: show_nat.induct)
  case (1 n)
  then show ?case using digit_char [of n] digit_char [of "n mod 10"]
    by (subst show_nat.simps) auto
qed

lemma show_nat_unsigned:
  obtains c cs where "show_nat n = c # cs" "c \<noteq> CHR ''+''" "c \<noteq> CHR ''-''"
proof (cases "show_nat n")
  case (Cons c cs)
  with show_nat_digits [of n] have "is_digit c" by simp
  then have "c \<noteq> CHR ''+''" "c \<noteq> CHR ''-''"
    by (auto simp: is_digit_def)
  with Cons that show ?thesis by blast
qed simp

lemma ParseInt_show:
  "ParseInt (show_nat n) = (if int n < 2 ^ 63 then Inr (word_of_int (int n)) else Inl ErrRange)"
proof -
  obtain c cs where c: "show_nat n = c # cs" "c \<noteq> CHR ''+''" "c \<noteq> CHR ''-''"
    by (rule show_nat_unsigned)
  then have "digits_value 0 (c # cs) = Some (int n)"
    using digits_value_show [of n] by simp
  with c show ?thesis by (simp add: ParseInt_def cutoff_def del: digits_value.simps)
qed

lemma ParseInt_negative:
  "ParseInt (CHR ''-'' # show_nat n) = (if int n \<le> 2 ^ 63 then Inr (word_of_int (- int n)) else Inl ErrRange)"
  by (simp add: ParseInt_def cutoff_def digits_value_show)

end
