(* ===== verification/Operator_Setup.thy ===== *)
theory Operator_Setup
  imports Operand_Props Cluster_Operator Go_Strconv Machine_Approver
begin

text \<open>
  \<open>pkg/operator/{options,operator}.go\<close> and \<open>pkg/controllers/controllers.go\<close>: from the flags and the
  environment to the controllers that run. What talks to the outside at startup (the kube
  configuration, the clients, the managers) may fail and is a field of \<open>runtime\<close>; the result of
  \<open>Run\<close> is the list of controllers the started manager holds.
\<close>

section \<open>Options\<close>

record options =
  opt_namespace :: string
  opt_releaseVersion :: string
  opt_clusterName :: string
  opt_clusterEndpoint :: string
  opt_platform :: string
  opt_region :: string
  opt_targetKubeconfig :: string
  opt_managementCluster :: bool
  opt_tokenMinterImage :: string
  opt_defaultSecurityContextUID :: "int64 option"
  opt_metricsAddr :: string
  opt_probeAddr :: string
  opt_leaderElect :: bool

definition ReleaseVersionEnvName :: string where "ReleaseVersionEnvName = ''RELEASE_VERSION''"
definition ClusterNameEnvName :: string where "ClusterNameEnvName = ''CLUSTER_NAME''"
definition ClusterEndpointEnvName :: string where "ClusterEndpointEnvName = ''CLUSTER_ENDPOINT''"
definition PlatformEnvName :: string where "PlatformEnvName = ''PLATFORM''"
definition RegionEnvName :: string where "RegionEnvName = ''REGION''"
definition ManagementClusterEnvName :: string where "ManagementClusterEnvName = ''MANAGEMENT_CLUSTER''"
definition TokenMinterImageEnvName :: string where "TokenMinterImageEnvName = ''TOKEN_MINTER_IMAGE''"
definition DefaultSecurityContextUIDEnvName :: string where "DefaultSecurityContextUIDEnvName = ''DEFAULT_SECURITY_CONTEXT_UID''"

definition ParseManagementClusterEnv :: "environment \<Rightarrow> error + bool" where
  "ParseManagementClusterEnv getenv =
     (let v = getenv ManagementClusterEnvName in
      if v = [] then Inr False
      else case ParseBool v of
        Inl err \<Rightarrow> Inl (Wrap ''invalid %s value %q: %w'' [AStr ManagementClusterEnvName, AStr v] err)
      | Inr b \<Rightarrow> Inr b)"

definition parseSecurityContextUID :: "environment \<Rightarrow> error + int64 option" where
  "parseSecurityContextUID getenv =
     (let v = getenv DefaultSecurityContextUIDEnvName in
      if v = [] then Inr None
      else case ParseInt v of
        Inl err \<Rightarrow> Inl (Wrap ''parsing security context UID: %w'' [] err)
      | Inr n \<Rightarrow> Inr (Some n))"

definition LoadEnv :: "environment \<Rightarrow> options \<Rightarrow> error + options" where
  "LoadEnv getenv o' =
     (let o1 = o'\<lparr>opt_releaseVersion := getenv ReleaseVersionEnvName, opt_clusterName := getenv ClusterNameEnvName,
                 opt_clusterEndpoint := getenv ClusterEndpointEnvName, opt_platform := getenv PlatformEnvName,
                 opt_region := getenv RegionEnvName, opt_tokenMinterImage := getenv TokenMinterImageEnvName\<rparr>
      in case ParseManagementClusterEnv getenv of
        Inl err \<Rightarrow> Inl err
      | Inr b \<Rightarrow>
          case parseSecurityContextUID getenv of
            Inl err \<Rightarrow> Inl (Wrap ''loading %s: %w'' [AStr DefaultSecurityContextUIDEnvName] err)
          | Inr u \<Rightarrow> Inr (o1\<lparr>opt_managementCluster := b, opt_defaultSecurityContextUID := u\<rparr>))"

definition missing_options :: "options \<Rightarrow> string list" where
  "missing_options o' =
     (if opt_namespace o' = [] then [''--namespace''] else []) @
     (if opt_managementCluster o' then
        (if opt_targetKubeconfig o' = [] then [''--target-kubeconfig''] else []) @
        (if opt_clusterName o' = [] then [ClusterNameEnvName] else []) @
        (if opt_clusterEndpoint o' = [] then [ClusterEndpointEnvName] else []) @
        (if opt_platform o' = [] then [PlatformEnvName] else []) @
        (if opt_region o' = [] then [RegionEnvName] else []) @
        (if opt_tokenMinterImage o' = [] then [TokenMinterImageEnvName] else [])
      else [])"

text \<open>\<open>strings.Join\<close>\<close>

fun join :: "string \<Rightarrow> string list \<Rightarrow> string" where
  "join sep [] = []"
| "join sep [x] = x"
| "join sep (x # xs) = x @ sep @ join sep xs"

definition Validate :: "options \<Rightarrow> error option" where
  "Validate o' =
     (if sint (case opt_defaultSecurityContextUID o' of None \<Rightarrow> 1 | Some u \<Rightarrow> u) \<le> 0 then
        Some (Errorf ''%s must be a positive non-root UID'' [AStr DefaultSecurityContextUIDEnvName])
      else let missing = missing_options o' in
        if length missing > 0 then Some (Errorf ''required configuration not set: %s'' [AStr (join '', '' missing)]) else None)"

section \<open>Infrastructure\<close>

text \<open>The Infrastructure resource: the platform type with the AWS region, when its status has them.\<close>

record infrastructure =
  inf_platformStatus :: "(string \<times> string option) option"
  inf_infrastructureName :: string
  inf_apiServerInternalURL :: string

text \<open>The options of the manager: the namespace of its cache, its addresses and its leader election.\<close>

record manager_options =
  mo_defaultNamespace :: string
  mo_metricsBindAddress :: string
  mo_healthProbeBindAddress :: string
  mo_leaderElection :: bool
  mo_leaderElectionID :: string

record runtime =
  rt_getenv :: environment
  rt_getConfig :: "error option"
  rt_newClient :: "error option"
  rt_getInfrastructure :: "error + infrastructure"
  rt_loadDefaultConfig :: "string \<Rightarrow> error option"
  rt_addToScheme :: "error option"
  rt_newManager :: "manager_options \<Rightarrow> error option"
  rt_buildConfig :: "string \<Rightarrow> error option"
  rt_newCluster :: "error option"
  rt_addCluster :: "error option"
  \<comment> \<open>constructing the controller of a name, and watching a kind for it\<close>
  rt_newController :: "string \<Rightarrow> error option"
  rt_watch :: "string \<Rightarrow> string \<Rightarrow> error option"
  rt_restMapping :: "error option"
  rt_certClient :: "error option"
  rt_addHealthzCheck :: "error option"
  rt_addReadyzCheck :: "error option"
  rt_start :: "error option"
  \<comment> \<open>the contents of the embedded CRD files\<close>
  rt_crdSpec :: "string \<Rightarrow> string"

definition discoverInfrastructureFromEnv :: "options \<Rightarrow> infrastructure_info" where
  "discoverInfrastructureFromEnv opts =
     \<lparr>ii_platformType = opt_platform opts, ii_region = opt_region opts, ii_infraName = opt_clusterName opts,
      ii_clusterEndpoint = opt_clusterEndpoint opts\<rparr>"

definition discoverInfrastructure :: "runtime \<Rightarrow> error + infrastructure_info" where
  "discoverInfrastructure rt =
     (case rt_newClient rt of
        Some err \<Rightarrow> Inl (Wrap ''creating client for infrastructure discovery: %w'' [] err)
      | None \<Rightarrow>
          case rt_getInfrastructure rt of
            Inl err \<Rightarrow> Inl (Wrap ''getting Infrastructure CR: %w'' [] err)
          | Inr infra \<Rightarrow>
              case inf_platformStatus infra of
                None \<Rightarrow> Inl (Errorf ''infrastructure status.platformStatus is nil'' [])
              | Some (ptype, aws) \<Rightarrow>
                  if inf_infrastructureName infra = [] then
                    Inl (Errorf ''infrastructure status.infrastructureName is empty'' [])
                  else Inr \<lparr>ii_platformType = ptype, ii_region = (case aws of None \<Rightarrow> [] | Some r \<Rightarrow> r),
                            ii_infraName = inf_infrastructureName infra,
                            ii_clusterEndpoint = inf_apiServerInternalURL infra\<rparr>)"

definition isPlatformSupported :: "bool \<Rightarrow> string \<Rightarrow> bool" where
  "isPlatformSupported managementCluster platform \<longleftrightarrow> managementCluster \<or> platform = AWSPlatformType"

section \<open>Controllers\<close>

record config =
  cfg_namespace :: string
  cfg_karpenterImage :: string
  cfg_clusterName :: string
  cfg_clusterEndpoint :: string
  cfg_releaseVersion :: string
  cfg_managementCluster :: bool
  cfg_cloudProvider :: cloud_provider
  cfg_hostedCluster :: bool
  cfg_tokenMinterImage :: string
  cfg_defaultSecurityContextUID :: "int64 option"

datatype controller =
    CRDController "crd list" bool
  | DefaultNodeClassController hcp_provider
  | EC2NodeClassController
  | EC2SubnetController
  | AzureNodeClassController
  | NodeClassVAPController string bool
  | HCPOperandController hcp_controller_config
  | AutoNodeStatusController
  | HCPDeletionController
  | MachineApproverController
  | OCPOperandController ocp_controller_config
  | ClusterOperatorController co_controller_config

definition ResolveControllerConfig :: "options \<Rightarrow> infrastructure_info \<Rightarrow> cloud_provider \<Rightarrow> config" where
  "ResolveControllerConfig o' infra provider =
     \<lparr>cfg_namespace = opt_namespace o', cfg_karpenterImage = KarpenterImage provider,
      cfg_clusterName = ii_infraName infra, cfg_clusterEndpoint = ii_clusterEndpoint infra,
      cfg_releaseVersion = opt_releaseVersion o', cfg_managementCluster = opt_managementCluster o',
      cfg_cloudProvider = provider, cfg_hostedCluster = False, cfg_tokenMinterImage = opt_tokenMinterImage o',
      cfg_defaultSecurityContextUID = opt_defaultSecurityContextUID o'\<rparr>"

definition newHCPNodeClassProvider :: "config \<Rightarrow> hcp_provider option" where
  "newHCPNodeClassProvider cfg =
     (if \<not> cfg_managementCluster cfg \<or> \<not> cfg_hostedCluster cfg then None
      else Some (HCPNodeClassProvider (cfg_cloudProvider cfg)))"

definition karpenterCRDs :: "(string \<Rightarrow> string) \<Rightarrow> config \<Rightarrow> hcp_provider option \<Rightarrow> crd list" where
  "karpenterCRDs spec cfg hcpNodeClassProvider =
     CoreCRDs spec @ provider_CRDs spec (cfg_cloudProvider cfg) @
     (case hcpNodeClassProvider of None \<Rightarrow> [] | Some p \<Rightarrow> hcp_provider_CRDs spec p)"

fun hcp_provider_NewControllers :: "hcp_provider \<Rightarrow> controller list" where
  "hcp_provider_NewControllers HCPEC2NodeClassProvider =
     [EC2NodeClassController, EC2SubnetController, NodeClassVAPController ''karpenter.ec2nodeclass.hypershift.io'' True]"
| "hcp_provider_NewControllers (HCPAzureNodeClassProvider v) =
     [AzureNodeClassController, NodeClassVAPController ''karpenter.aksnodeclass.hypershift.io'' False]"

definition newMachineApproverController :: "config \<Rightarrow> controller option" where
  "newMachineApproverController cfg =
     (if \<not> cfg_hostedCluster cfg then None
      else if \<not> NodeIdentityVerifier (cfg_cloudProvider cfg) then None
      else Some MachineApproverController)"

definition NewControllers :: "(string \<Rightarrow> string) \<Rightarrow> environment \<Rightarrow> config \<Rightarrow> controller list" where
  "NewControllers spec getenv cfg =
     (let hcpNodeClassProvider = newHCPNodeClassProvider cfg in
      [CRDController (karpenterCRDs spec cfg hcpNodeClassProvider) (cfg_hostedCluster cfg)] @
      (if cfg_managementCluster cfg then
         (case hcpNodeClassProvider of
            None \<Rightarrow> []
          | Some p \<Rightarrow> DefaultNodeClassController p # hcp_provider_NewControllers p) @
         [HCPOperandController
            \<lparr>hc_namespace = cfg_namespace cfg, hc_karpenterImage = cfg_karpenterImage cfg, hc_clusterName = cfg_clusterName cfg,
             hc_clusterEndpoint = cfg_clusterEndpoint cfg, hc_cloudProvider = cfg_cloudProvider cfg,
             hc_tokenMinterImage = cfg_tokenMinterImage cfg,
             hc_defaultSecurityContextUID = cfg_defaultSecurityContextUID cfg\<rparr>] @
         (if cfg_hostedCluster cfg then [AutoNodeStatusController, HCPDeletionController] else []) @
         (case newMachineApproverController cfg of None \<Rightarrow> [] | Some c \<Rightarrow> [c])
       else
         [OCPOperandController
            \<lparr>occ_namespace = cfg_namespace cfg, occ_karpenterImage = cfg_karpenterImage cfg, occ_clusterName = cfg_clusterName cfg,
             occ_clusterEndpoint = cfg_clusterEndpoint cfg, occ_cloudProvider = cfg_cloudProvider cfg,
             occ_imagePullPolicy = operandImagePullPolicy getenv\<rparr>,
          ClusterOperatorController
            \<lparr>cc_namespace = cfg_namespace cfg, cc_releaseVersion = cfg_releaseVersion cfg,
             cc_additionalRelatedObjects = RelatedObjects (cfg_cloudProvider cfg), cc_unsupportedPlatform = None\<rparr>]))"

section \<open>Startup\<close>

definition wrap_result :: "string \<Rightarrow> fmt_arg list \<Rightarrow> error + 'a \<Rightarrow> error + 'a" where
  "wrap_result f as r = (case r of Inl e \<Rightarrow> Inl (Wrap f as e) | Inr a \<Rightarrow> Inr a)"

definition check :: "string \<Rightarrow> error option \<Rightarrow> error + unit" where
  "check f r = (case r of None \<Rightarrow> Inr () | Some e \<Rightarrow> Inl (Wrap f [] e))"

definition newManager :: "runtime \<Rightarrow> options \<Rightarrow> error + unit" where
  "newManager rt opts =
     check ''creating manager: %w''
       (rt_newManager rt
          \<lparr>mo_defaultNamespace = opt_namespace opts, mo_metricsBindAddress = opt_metricsAddr opts,
           mo_healthProbeBindAddress = opt_probeAddr opts, mo_leaderElection = opt_leaderElect opts,
           mo_leaderElectionID = ''karpenter-operator.openshift.io''\<rparr>)"

text \<open>The name of a controller must not be in use; a name is in use once it has been checked.\<close>

definition checkName :: "string set \<Rightarrow> string \<Rightarrow> error option" where
  "checkName usedNames n =
     (if n \<in> usedNames then Some (Errorf ''controller with name %s already exists'' [AStr n]) else None)"

definition first_error :: "error option list \<Rightarrow> error option" where
  "first_error rs = (case filter (\<lambda>r. r \<noteq> None) rs of [] \<Rightarrow> None | r # _ \<Rightarrow> r)"

definition new_controller :: "runtime \<Rightarrow> string set \<Rightarrow> string \<Rightarrow> error option" where
  "new_controller rt usedNames n = first_error [checkName usedNames n, rt_newController rt n]"

text \<open>The builder: construct the controller, then start each watch.\<close>

definition complete :: "runtime \<Rightarrow> string set \<Rightarrow> string \<Rightarrow> string list \<Rightarrow> error option" where
  "complete rt usedNames n kinds = first_error (new_controller rt usedNames n # map (rt_watch rt n) kinds)"

definition crd_Name :: string where
  "crd_Name = ''crd''"

definition default_Name :: string where
  "default_Name = ''default-nodeclass''"

definition ec2_Name :: string where
  "ec2_Name = ''ec2-nodeclass''"

definition subnet_Name :: string where
  "subnet_Name = ''ec2-nodeclass-subnets''"

definition azure_Name :: string where
  "azure_Name = ''azure-nodeclass''"

definition vap_Name :: string where
  "vap_Name = ''nodeclass-vap''"

definition hcp_operand_Name :: string where
  "hcp_operand_Name = ''karpenter''"

definition autonode_Name :: string where
  "autonode_Name = ''autonode-status''"

definition deletion_Name :: string where
  "deletion_Name = ''hcp-deletion''"

definition approver_Name :: string where
  "approver_Name = controllerName"

definition ocp_Name :: string where
  "ocp_Name = ''karpenter''"

definition co_Name :: string where
  "co_Name = ''clusteroperator''"

lemmas controller_names = crd_Name_def default_Name_def ec2_Name_def subnet_Name_def azure_Name_def vap_Name_def hcp_operand_Name_def autonode_Name_def deletion_Name_def approver_Name_def ocp_Name_def co_Name_def controllerName_def

fun controller_Name :: "controller \<Rightarrow> string" where
  "controller_Name (CRDController crds hosted) = crd_Name"
| "controller_Name (DefaultNodeClassController p) = default_Name"
| "controller_Name EC2NodeClassController = ec2_Name"
| "controller_Name EC2SubnetController = subnet_Name"
| "controller_Name AzureNodeClassController = azure_Name"
| "controller_Name (NodeClassVAPController policy managementWatch) = vap_Name"
| "controller_Name (HCPOperandController c) = hcp_operand_Name"
| "controller_Name AutoNodeStatusController = autonode_Name"
| "controller_Name HCPDeletionController = deletion_Name"
| "controller_Name MachineApproverController = approver_Name"
| "controller_Name (OCPOperandController c) = ocp_Name"
| "controller_Name (ClusterOperatorController c) = co_Name"

definition require_hosted :: "bool \<Rightarrow> string \<Rightarrow> error option \<Rightarrow> error option" where
  "require_hosted hosted message r = (if \<not> hosted then Some (Errorf message []) else r)"

definition wrap_error :: "string \<Rightarrow> fmt_arg list \<Rightarrow> error option \<Rightarrow> error option" where
  "wrap_error f as r = map_option (Wrap f as) r"

text \<open>
  \<open>SetupWithManager\<close> of each controller: what it requires, and the kinds it watches.
  \<open>hosted\<close>: a hosted cluster is configured.
\<close>

definition crd_SetupWithManager :: "runtime \<Rightarrow> bool \<Rightarrow> string set \<Rightarrow> error option" where
  "crd_SetupWithManager rt hosted used =
     first_error
       [wrap_error ''creating controller: %w'' [] (new_controller rt used crd_Name),
        wrap_error ''watching CRDs: %w'' [] (rt_watch rt crd_Name ''CustomResourceDefinition''),
        wrap_error ''watching initial sync: %w'' [] (rt_watch rt crd_Name [])]"

definition default_SetupWithManager :: "runtime \<Rightarrow> bool \<Rightarrow> string set \<Rightarrow> error option" where
  "default_SetupWithManager rt hosted used =
     require_hosted hosted ''hosted cluster is required for default NodeClass controller''
       (complete rt used default_Name [''HostedControlPlane'', ''NodeClass''])"

definition ec2_SetupWithManager :: "runtime \<Rightarrow> bool \<Rightarrow> string set \<Rightarrow> error option" where
  "ec2_SetupWithManager rt hosted used =
     require_hosted hosted ''hosted cluster is required''
       (complete rt used ec2_Name [''OpenshiftEC2NodeClass'', ''EC2NodeClass'', ''Secret'', ''HostedControlPlane''])"

definition subnet_SetupWithManager :: "runtime \<Rightarrow> bool \<Rightarrow> string set \<Rightarrow> error option" where
  "subnet_SetupWithManager rt hosted used =
     require_hosted hosted ''hosted cluster is required''
       (complete rt used subnet_Name [''HostedControlPlane'', ''ConfigMap'', ''OpenshiftEC2NodeClass''])"

definition azure_SetupWithManager :: "runtime \<Rightarrow> bool \<Rightarrow> string set \<Rightarrow> error option" where
  "azure_SetupWithManager rt hosted used =
     complete rt used azure_Name [''OpenShiftAzureNodeClass'', ''AKSNodeClass'', ''HostedControlPlane'', ''Secret'']"

definition vap_SetupWithManager :: "runtime \<Rightarrow> bool \<Rightarrow> string set \<Rightarrow> bool \<Rightarrow> error option" where
  "vap_SetupWithManager rt hosted used managementWatch =
     require_hosted hosted ''hosted cluster is required for nodeclass admission policy controller''
       (complete rt used vap_Name
          ([''ValidatingAdmissionPolicy'', ''ValidatingAdmissionPolicyBinding'', []] @
           (if managementWatch then [''HostedControlPlane''] else [])))"

definition hcp_operand_SetupWithManager :: "runtime \<Rightarrow> bool \<Rightarrow> string set \<Rightarrow> error option" where
  "hcp_operand_SetupWithManager rt hosted used =
     complete rt used hcp_operand_Name [''HostedControlPlane'', ''Deployment'', ''PodMonitor'', ''ServiceAccount'']"

definition autonode_SetupWithManager :: "runtime \<Rightarrow> bool \<Rightarrow> string set \<Rightarrow> error option" where
  "autonode_SetupWithManager rt hosted used =
     require_hosted hosted ''hosted cluster is required''
       (complete rt used autonode_Name [''HostedControlPlane'', ''NodeClaim'', ''Node''])"

definition deletion_SetupWithManager :: "runtime \<Rightarrow> bool \<Rightarrow> string set \<Rightarrow> error option" where
  "deletion_SetupWithManager rt hosted used =
     require_hosted hosted ''hosted cluster is required''
       (first_error
          [wrap_error ''resolving CAPI Cluster version: %w'' [] (rt_restMapping rt),
           complete rt used deletion_Name [''HostedControlPlane'', ''Cluster'']])"

definition approver_SetupWithManager :: "runtime \<Rightarrow> bool \<Rightarrow> string set \<Rightarrow> error option" where
  "approver_SetupWithManager rt hosted used =
     require_hosted hosted ''hosted cluster is required''
       (first_error
          [rt_certClient rt,
           wrap_error ''constructing %s controller: %w'' [AStr approver_Name] (new_controller rt used approver_Name),
           wrap_error ''watching CertificateSigningRequest: %w'' [] (rt_watch rt approver_Name ''CertificateSigningRequest'')])"

definition ocp_SetupWithManager :: "runtime \<Rightarrow> bool \<Rightarrow> string set \<Rightarrow> error option" where
  "ocp_SetupWithManager rt hosted used =
     complete rt used ocp_Name
       [''Karpenter'', ''Deployment'', ''PodMonitor'', ''ServiceAccount'', ''Role'', ''RoleBinding'', ''Secret'', ''ClusterRole'', ''ClusterRoleBinding'']"

definition co_SetupWithManager :: "runtime \<Rightarrow> bool \<Rightarrow> string set \<Rightarrow> error option" where
  "co_SetupWithManager rt hosted used =
     complete rt used co_Name [''ClusterOperator'', ''Karpenter'', ''Deployment'']"

fun SetupWithManager :: "runtime \<Rightarrow> bool \<Rightarrow> string set \<Rightarrow> controller \<Rightarrow> error option" where
  "SetupWithManager rt hosted used (CRDController crds h) = crd_SetupWithManager rt hosted used"
| "SetupWithManager rt hosted used (DefaultNodeClassController p) = default_SetupWithManager rt hosted used"
| "SetupWithManager rt hosted used EC2NodeClassController = ec2_SetupWithManager rt hosted used"
| "SetupWithManager rt hosted used EC2SubnetController = subnet_SetupWithManager rt hosted used"
| "SetupWithManager rt hosted used AzureNodeClassController = azure_SetupWithManager rt hosted used"
| "SetupWithManager rt hosted used (NodeClassVAPController policy managementWatch) = vap_SetupWithManager rt hosted used managementWatch"
| "SetupWithManager rt hosted used (HCPOperandController c) = hcp_operand_SetupWithManager rt hosted used"
| "SetupWithManager rt hosted used AutoNodeStatusController = autonode_SetupWithManager rt hosted used"
| "SetupWithManager rt hosted used HCPDeletionController = deletion_SetupWithManager rt hosted used"
| "SetupWithManager rt hosted used MachineApproverController = approver_SetupWithManager rt hosted used"
| "SetupWithManager rt hosted used (OCPOperandController c) = ocp_SetupWithManager rt hosted used"
| "SetupWithManager rt hosted used (ClusterOperatorController c) = co_SetupWithManager rt hosted used"

lemmas setups = crd_SetupWithManager_def
  default_SetupWithManager_def
  ec2_SetupWithManager_def
  subnet_SetupWithManager_def
  azure_SetupWithManager_def
  vap_SetupWithManager_def
  hcp_operand_SetupWithManager_def
  autonode_SetupWithManager_def
  deletion_SetupWithManager_def
  approver_SetupWithManager_def
  ocp_SetupWithManager_def
  co_SetupWithManager_def

fun Setup :: "runtime \<Rightarrow> bool \<Rightarrow> string set \<Rightarrow> controller list \<Rightarrow> error option" where
  "Setup rt hosted used [] = None"
| "Setup rt hosted used (c # cs) =
     (case SetupWithManager rt hosted used c of
        Some err \<Rightarrow> Some (Wrap ''setting up controller: %w'' [] err)
      | None \<Rightarrow> Setup rt hosted (insert (controller_Name c) used) cs)"

definition setup_controllers :: "runtime \<Rightarrow> bool \<Rightarrow> controller list \<Rightarrow> error + unit" where
  "setup_controllers rt hosted cs = (case Setup rt hosted {} cs of None \<Rightarrow> Inr () | Some err \<Rightarrow> Inl err)"

definition startManager :: "runtime \<Rightarrow> controller list \<Rightarrow> error + controller list" where
  "startManager rt controllers =
     bind_result (check ''setting up health check: %w'' (rt_addHealthzCheck rt)) (\<lambda>_.
     bind_result (check ''setting up ready check: %w'' (rt_addReadyzCheck rt)) (\<lambda>_.
     bind_result (check ''starting manager: %w'' (rt_start rt)) (\<lambda>_. Inr controllers)))"

definition runClusterOperatorReporter :: "runtime \<Rightarrow> options \<Rightarrow> string \<Rightarrow> error + controller list" where
  "runClusterOperatorReporter rt opts platform =
     bind_result (newManager rt opts) (\<lambda>_.
     let reporter = ClusterOperatorController
       \<lparr>cc_namespace = opt_namespace opts, cc_releaseVersion = opt_releaseVersion opts,
        cc_additionalRelatedObjects = [], cc_unsupportedPlatform = Some platform\<rparr>
     in bind_result (setup_controllers rt False [reporter]) (\<lambda>_. startManager rt [reporter]))"

definition resolve_infrastructure :: "runtime \<Rightarrow> options \<Rightarrow> error + infrastructure_info" where
  "resolve_infrastructure rt opts =
     bind_result
       (if opt_managementCluster opts then Inr (discoverInfrastructureFromEnv opts)
        else wrap_result ''discovering infrastructure: %w'' [] (discoverInfrastructure rt)) (\<lambda>infra.
     let infra = (if opt_clusterName opts \<noteq> [] then infra\<lparr>ii_infraName := opt_clusterName opts\<rparr> else infra) in
     Inr (if opt_clusterEndpoint opts \<noteq> [] then infra\<lparr>ii_clusterEndpoint := opt_clusterEndpoint opts\<rparr> else infra))"

definition Run :: "runtime \<Rightarrow> options \<Rightarrow> error + controller list" where
  "Run rt opts =
     bind_result (check ''loading kube config: %w'' (rt_getConfig rt)) (\<lambda>_.
     bind_result (resolve_infrastructure rt opts) (\<lambda>infra.
     if \<not> isPlatformSupported (opt_managementCluster opts) (ii_platformType infra) then
       runClusterOperatorReporter rt opts (ii_platformType infra)
     else
       bind_result (wrap_result ''initializing cloud provider: %w'' []
                      (GetCloudProvider (rt_getenv rt) (rt_loadDefaultConfig rt) infra)) (\<lambda>provider.
       let cfg = ResolveControllerConfig opts infra provider in
       bind_result (check ''adding cloud provider types to scheme: %w'' (rt_addToScheme rt)) (\<lambda>_.
       bind_result (newManager rt opts) (\<lambda>_.
       bind_result
         (if opt_targetKubeconfig opts \<noteq> [] \<and> opt_managementCluster opts then
            bind_result (case rt_buildConfig rt (opt_targetKubeconfig opts) of
                 Some e \<Rightarrow> Inl (Wrap ''loading kubeconfig %q: %w'' [AStr (opt_targetKubeconfig opts)] e) | None \<Rightarrow> Inr ()) (\<lambda>_.
            bind_result (check ''creating hosted cluster: %w'' (rt_newCluster rt)) (\<lambda>_.
            bind_result (check ''adding hosted cluster to manager: %w'' (rt_addCluster rt)) (\<lambda>_.
            Inr (cfg\<lparr>cfg_hostedCluster := True\<rparr>))))
          else Inr cfg) (\<lambda>cfg.
       let controllers = NewControllers (rt_crdSpec rt) (rt_getenv rt) cfg in
       bind_result (setup_controllers rt (cfg_hostedCluster cfg) controllers) (\<lambda>_.
       startManager rt controllers)))))))"

section \<open>Facts of the startup\<close>

lemma wrap_result_Inr [simp]: "wrap_result f as r = Inr a \<longleftrightarrow> r = Inr a"
  by (simp add: wrap_result_def split: sum.split)

lemma check_Inr [simp]: "check f r = Inr u \<longleftrightarrow> r = None"
  by (simp add: check_def split: option.split)

lemma startManager_Inr:
  "startManager rt cs = Inr cs' \<longleftrightarrow> cs' = cs \<and> rt_addHealthzCheck rt = None \<and> rt_addReadyzCheck rt = None \<and> rt_start rt = None"
  by (auto simp: startManager_def bind_result_Inr_iff)

lemma setup_controllers_Inr [simp]: "setup_controllers rt hosted cs = Inr u \<longleftrightarrow> Setup rt hosted {} cs = None"
  by (simp add: setup_controllers_def split: option.split)

lemma Validate_None:
  "Validate o' = None \<longleftrightarrow> uid_ok (opt_defaultSecurityContextUID o') \<and> missing_options o' = []"
  by (auto simp: Validate_def uid_ok_def Let_def split: option.split)

lemma missing_options_Nil:
  "missing_options o' = [] \<longleftrightarrow> opt_namespace o' \<noteq> [] \<and>
     (opt_managementCluster o' \<longrightarrow> opt_targetKubeconfig o' \<noteq> [] \<and> opt_clusterName o' \<noteq> [] \<and> opt_clusterEndpoint o' \<noteq> [] \<and>
        opt_platform o' \<noteq> [] \<and> opt_region o' \<noteq> [] \<and> opt_tokenMinterImage o' \<noteq> [])"
  by (auto simp: missing_options_def)

lemma GetCloudProvider_Inr:
  assumes "GetCloudProvider getenv load infra = Inr p"
  shows "ii_platformType infra = (case p of AWSProvider _ \<Rightarrow> AWSPlatformType | AzureProvider _ \<Rightarrow> AzurePlatformType)"
    and "ii_region infra \<noteq> []"
proof -
  have "aws_New getenv load infra = Inr q \<Longrightarrow> ii_region infra \<noteq> []" "azure_New getenv infra = Inr q' \<Longrightarrow> ii_region infra \<noteq> []" for q q'
    by (auto simp: aws_New_def azure_New_def split: if_splits)
  with assms show "ii_platformType infra = (case p of AWSProvider _ \<Rightarrow> AWSPlatformType | AzureProvider _ \<Rightarrow> AzurePlatformType)"
    "ii_region infra \<noteq> []"
    by (auto simp: GetCloudProvider_def map_sum_def split: if_splits sum.splits)
qed

text \<open>Registration fails only where the client library does, as long as names differ and the hosted cluster is there.\<close>

fun needs_hosted :: "controller \<Rightarrow> bool" where
  "needs_hosted (CRDController crds h) = False"
| "needs_hosted AzureNodeClassController = False"
| "needs_hosted (HCPOperandController c) = False"
| "needs_hosted (OCPOperandController c) = False"
| "needs_hosted (ClusterOperatorController c) = False"
| "needs_hosted _ = True"

definition libraries_ok :: "runtime \<Rightarrow> bool" where
  "libraries_ok rt \<longleftrightarrow>
     rt_getConfig rt = None \<and> rt_newClient rt = None \<and> (\<forall>r. rt_loadDefaultConfig rt r = None) \<and> rt_addToScheme rt = None \<and>
     (\<forall>o'. rt_newManager rt o' = None) \<and> (\<forall>k. rt_buildConfig rt k = None) \<and> rt_newCluster rt = None \<and> rt_addCluster rt = None \<and>
     (\<forall>n. rt_newController rt n = None) \<and> (\<forall>n k. rt_watch rt n k = None) \<and> rt_restMapping rt = None \<and> rt_certClient rt = None \<and>
     rt_addHealthzCheck rt = None \<and> rt_addReadyzCheck rt = None \<and> rt_start rt = None"

lemma SetupWithManager_quiet:
  assumes "libraries_ok rt" "hosted \<or> \<not> needs_hosted c" "controller_Name c \<notin> used"
  shows "SetupWithManager rt hosted used c = None"
  using assms by (cases c) (auto simp: setups libraries_ok_def first_error_def complete_def new_controller_def checkName_def require_hosted_def wrap_error_def)

lemma Setup_quiet:
  assumes "libraries_ok rt" "hosted \<or> list_all (\<lambda>c. \<not> needs_hosted c) cs"
    and "distinct (map controller_Name cs)" "set (map controller_Name cs) \<inter> used = {}"
  shows "Setup rt hosted used cs = None"
  using assms(2-) by (induction cs arbitrary: used) (auto simp: SetupWithManager_quiet [OF assms(1)])

lemma NewControllers_names:
  "distinct (map controller_Name (NewControllers spec getenv cfg))"
  "cfg_hostedCluster cfg \<or> list_all (\<lambda>c. \<not> needs_hosted c) (NewControllers spec getenv cfg)"
proof -
  note defs = NewControllers_def newHCPNodeClassProvider_def newMachineApproverController_def Let_def controller_names
  show "distinct (map controller_Name (NewControllers spec getenv cfg))"
    by (cases "cfg_managementCluster cfg"; cases "cfg_hostedCluster cfg"; cases "cfg_cloudProvider cfg"; simp add: defs)
  show "cfg_hostedCluster cfg \<or> list_all (\<lambda>c. \<not> needs_hosted c) (NewControllers spec getenv cfg)"
    by (cases "cfg_managementCluster cfg"; cases "cfg_hostedCluster cfg"; simp add: defs)
qed

lemma Setup_NewControllers:
  "libraries_ok rt \<Longrightarrow> Setup rt (cfg_hostedCluster cfg) {} (NewControllers spec getenv cfg) = None"
  by (rule Setup_quiet) (simp_all add: NewControllers_names)

lemma startManager_quiet: "libraries_ok rt \<Longrightarrow> startManager rt cs = Inr cs"
  by (simp add: startManager_def libraries_ok_def check_def)

text \<open>In management cluster mode the infrastructure is that of the options.\<close>

lemma resolve_management:
  "opt_managementCluster opts \<Longrightarrow> resolve_infrastructure rt opts = Inr (discoverInfrastructureFromEnv opts)"
  by (simp add: resolve_infrastructure_def discoverInfrastructureFromEnv_def Let_def)

text \<open>When the libraries answer, the cloud provider decides.\<close>

lemma Run_management_quiet:
  assumes "libraries_ok rt" "Validate opts = None" "opt_managementCluster opts"
  shows "Run rt opts =
    bind_result (wrap_result ''initializing cloud provider: %w'' []
      (GetCloudProvider (rt_getenv rt) (rt_loadDefaultConfig rt) (discoverInfrastructureFromEnv opts)))
    (\<lambda>p. Inr (NewControllers (rt_crdSpec rt) (rt_getenv rt)
       ((ResolveControllerConfig opts (discoverInfrastructureFromEnv opts) p)\<lparr>cfg_hostedCluster := True\<rparr>)))"
proof -
  have registered: "setup_controllers rt True (NewControllers spec getenv (cfg\<lparr>cfg_hostedCluster := True\<rparr>)) = Inr ()" for spec getenv cfg
    using Setup_NewControllers [OF assms(1), of "cfg\<lparr>cfg_hostedCluster := True\<rparr>"] by simp
  have kube: "opt_targetKubeconfig opts \<noteq> []"
    using assms(2,3) by (simp add: Validate_None missing_options_Nil)
  show ?thesis
    using assms(1,3) kube
    by (simp add: Run_def resolve_management isPlatformSupported_def newManager_def check_def libraries_ok_def registered
        startManager_quiet [OF assms(1)] Let_def)
qed

lemma Run_standalone_quiet:
  assumes "libraries_ok rt" "\<not> opt_managementCluster opts" "resolve_infrastructure rt opts = Inr infra"
    and "ii_platformType infra \<noteq> AWSPlatformType"
  shows "Run rt opts = Inr [ClusterOperatorController
    \<lparr>cc_namespace = opt_namespace opts, cc_releaseVersion = opt_releaseVersion opts,
     cc_additionalRelatedObjects = [], cc_unsupportedPlatform = Some (ii_platformType infra)\<rparr>]"
proof -
  have "setup_controllers rt False [ClusterOperatorController c] = Inr ()" for c
    using Setup_quiet [OF assms(1), of False "[ClusterOperatorController c]" "{}"] by simp
  moreover have "rt_getConfig rt = None" "\<And>o'. rt_newManager rt o' = None"
    using assms(1) by (simp_all add: libraries_ok_def)
  ultimately show ?thesis
    using assms(2-4)
    by (simp add: Run_def isPlatformSupported_def runClusterOperatorReporter_def newManager_def check_def Let_def
        startManager_quiet [OF assms(1)] del: setup_controllers_Inr)
qed

text \<open>The environment each provider needs.\<close>

definition provider_env :: "string \<Rightarrow> string list" where
  "provider_env platform =
     (if platform = AWSPlatformType then [AWSSharedAuthFileEnvName]
      else [AzureClientIDEnvName, AzureTenantIDEnvName, AzureSubscriptionIDEnvName, AzureFederatedTokenFileEnvName,
            AzureVNetSubnetIDEnvName, AzureNodeResourceGroupEnvName])"

lemma GetCloudProvider_iff:
  assumes "ii_region infra \<noteq> []" "\<forall>r. load r = None"
  shows "(\<exists>p. GetCloudProvider getenv load infra = Inr p) \<longleftrightarrow>
    ii_platformType infra \<in> {AWSPlatformType, AzurePlatformType} \<and> (\<forall>n \<in> set (provider_env (ii_platformType infra)). getenv n \<noteq> [])"
proof -
  have "AWSPlatformType \<noteq> AzurePlatformType" by (simp add: AWSPlatformType_def AzurePlatformType_def)
  with assms show ?thesis
    by (auto simp: GetCloudProvider_def provider_env_def aws_New_def azure_New_def bind_result_def RequireEnv_def Let_def
        split: sum.splits if_splits)
qed

definition hcp_operand_config :: "options \<Rightarrow> cloud_provider \<Rightarrow> hcp_controller_config" where
  "hcp_operand_config opts p =
     \<lparr>hc_namespace = opt_namespace opts, hc_karpenterImage = KarpenterImage p, hc_clusterName = opt_clusterName opts,
      hc_clusterEndpoint = opt_clusterEndpoint opts, hc_cloudProvider = p, hc_tokenMinterImage = opt_tokenMinterImage opts,
      hc_defaultSecurityContextUID = opt_defaultSecurityContextUID opts\<rparr>"

lemma Run_management:
  assumes "Validate opts = None" "opt_managementCluster opts" "Run rt opts = Inr cs"
  shows "\<exists>p. GetCloudProvider (rt_getenv rt) (rt_loadDefaultConfig rt) (discoverInfrastructureFromEnv opts) = Inr p \<and>
    cs = [CRDController (CoreCRDs (rt_crdSpec rt) @ provider_CRDs (rt_crdSpec rt) p @ hcp_provider_CRDs (rt_crdSpec rt) (HCPNodeClassProvider p)) True,
          DefaultNodeClassController (HCPNodeClassProvider p)] @ hcp_provider_NewControllers (HCPNodeClassProvider p) @
         [HCPOperandController (hcp_operand_config opts p), AutoNodeStatusController, HCPDeletionController] @
         (if opt_platform opts = AWSPlatformType then [MachineApproverController] else [])"
proof -
  have kube: "opt_targetKubeconfig opts \<noteq> []"
    using assms(1,2) by (simp add: Validate_None missing_options_Nil)
  with assms(2,3) obtain p where p: "GetCloudProvider (rt_getenv rt) (rt_loadDefaultConfig rt) (discoverInfrastructureFromEnv opts) = Inr p"
    and cs: "cs = NewControllers (rt_crdSpec rt) (rt_getenv rt)
      ((ResolveControllerConfig opts (discoverInfrastructureFromEnv opts) p)\<lparr>cfg_hostedCluster := True\<rparr>)"
    by (auto simp: Run_def bind_result_Inr_iff resolve_management isPlatformSupported_def startManager_Inr Let_def split: sum.splits)
  have "opt_platform opts = (case p of AWSProvider _ \<Rightarrow> AWSPlatformType | AzureProvider _ \<Rightarrow> AzurePlatformType)"
    using GetCloudProvider_Inr(1) [OF p] by (simp add: discoverInfrastructureFromEnv_def)
  then have "NodeIdentityVerifier p \<longleftrightarrow> opt_platform opts = AWSPlatformType"
    by (cases p) (simp_all add: AWSPlatformType_def AzurePlatformType_def)
  with assms(2) p show ?thesis
    by (simp add: cs NewControllers_def Let_def newHCPNodeClassProvider_def karpenterCRDs_def newMachineApproverController_def
        ResolveControllerConfig_def hcp_operand_config_def discoverInfrastructureFromEnv_def)
qed

section \<open>Properties\<close>

text \<open>
  C23: a validated management-cluster configuration that starts runs, for the provider of its
  platform, exactly the controllers of a hosted cluster: CRDs, the default NodeClass, the provider's
  NodeClass controllers with the admission policy that guards their target, the operand with a
  complete configuration, AutoNode status and deletion; the machine approver runs on AWS only.
\<close>

theorem management_startup:
  assumes "Validate opts = None" "opt_managementCluster opts" "Run rt opts = Inr cs"
  shows "\<exists>p c rest. opt_platform opts \<in> {AWSPlatformType, AzurePlatformType} \<and>
    cs = [CRDController (CoreCRDs (rt_crdSpec rt) @ provider_CRDs (rt_crdSpec rt) p @ hcp_provider_CRDs (rt_crdSpec rt) (HCPNodeClassProvider p)) True,
          DefaultNodeClassController (HCPNodeClassProvider p)] @ hcp_provider_NewControllers (HCPNodeClassProvider p) @
         [HCPOperandController c, AutoNodeStatusController, HCPDeletionController] @ rest \<and>
    rest = (if opt_platform opts = AWSPlatformType then [MachineApproverController] else []) \<and>
    (\<exists>policy watch. NodeClassVAPController policy watch \<in> set cs) \<and>
    hc_namespace c \<noteq> [] \<and> hc_clusterName c \<noteq> [] \<and> hc_clusterEndpoint c \<noteq> [] \<and> hc_tokenMinterImage c \<noteq> [] \<and>
    uid_ok (hc_defaultSecurityContextUID c)"
proof -
  from Run_management [OF assms] obtain p where
    p: "GetCloudProvider (rt_getenv rt) (rt_loadDefaultConfig rt) (discoverInfrastructureFromEnv opts) = Inr p"
    and cs: "cs = [CRDController (CoreCRDs (rt_crdSpec rt) @ provider_CRDs (rt_crdSpec rt) p @ hcp_provider_CRDs (rt_crdSpec rt) (HCPNodeClassProvider p)) True,
          DefaultNodeClassController (HCPNodeClassProvider p)] @ hcp_provider_NewControllers (HCPNodeClassProvider p) @
         [HCPOperandController (hcp_operand_config opts p), AutoNodeStatusController, HCPDeletionController] @
         (if opt_platform opts = AWSPlatformType then [MachineApproverController] else [])"
    by blast
  have "opt_platform opts \<in> {AWSPlatformType, AzurePlatformType}"
    using GetCloudProvider_Inr(1) [OF p] by (cases p) (simp_all add: discoverInfrastructureFromEnv_def)
  moreover have "\<exists>policy watch. NodeClassVAPController policy watch \<in> set cs"
    unfolding cs by (cases p) auto
  moreover have "uid_ok (opt_defaultSecurityContextUID opts)" "missing_options opts = []"
    using assms(1) by (simp_all add: Validate_None)
  ultimately show ?thesis
    using assms(2) cs
    by (intro exI [of _ p] exI [of _ "hcp_operand_config opts p"])
      (simp add: missing_options_Nil hcp_operand_config_def)
qed

text \<open>
  C24: a standalone start deploys Karpenter on AWS only: the CRD, operand and ClusterOperator
  controllers run there, and on every other platform just a ClusterOperator controller that
  reports the platform as unsupported. A target kubeconfig is ignored.
\<close>

theorem standalone_startup:
  assumes "\<not> opt_managementCluster opts" "Run rt opts = Inr cs"
  shows "\<exists>platform region infra. rt_getInfrastructure rt = Inr infra \<and> inf_platformStatus infra = Some (platform, region) \<and>
    (if platform = AWSPlatformType then
       \<exists>p c o'. cs = [CRDController (CoreCRDs (rt_crdSpec rt) @ AWSCRDs (rt_crdSpec rt)) False, OCPOperandController c, ClusterOperatorController o'] \<and>
         occ_cloudProvider c = AWSProvider p \<and> ap_region p \<noteq> [] \<and> region = Some (ap_region p) \<and>
         occ_clusterName c = (if opt_clusterName opts \<noteq> [] then opt_clusterName opts else inf_infrastructureName infra) \<and>
         occ_clusterName c \<noteq> [] \<and> cc_unsupportedPlatform o' = None \<and> cc_namespace o' = occ_namespace c
     else \<exists>o'. cs = [ClusterOperatorController o'] \<and> cc_unsupportedPlatform o' = Some platform)"
proof -
  from assms obtain infra where infra: "resolve_infrastructure rt opts = Inr infra"
    and rest: "isPlatformSupported False (ii_platformType infra) \<longrightarrow>
      (\<exists>p. GetCloudProvider (rt_getenv rt) (rt_loadDefaultConfig rt) infra = Inr p \<and>
         cs = NewControllers (rt_crdSpec rt) (rt_getenv rt) (ResolveControllerConfig opts infra p))"
      "\<not> isPlatformSupported False (ii_platformType infra) \<longrightarrow>
         runClusterOperatorReporter rt opts (ii_platformType infra) = Inr cs"
    by (auto simp: Run_def bind_result_Inr_iff startManager_Inr Let_def split: sum.splits if_splits)
  from infra assms(1) obtain cr platform region where cr: "rt_getInfrastructure rt = Inr cr" "inf_platformStatus cr = Some (platform, region)"
    "inf_infrastructureName cr \<noteq> []"
    and ii: "ii_platformType infra = platform" "ii_region infra = (case region of None \<Rightarrow> [] | Some r \<Rightarrow> r)"
      "ii_infraName infra = (if opt_clusterName opts \<noteq> [] then opt_clusterName opts else inf_infrastructureName cr)"
    by (auto simp: resolve_infrastructure_def discoverInfrastructure_def bind_result_Inr_iff Let_def split: option.splits sum.splits if_splits)
  show ?thesis
  proof (cases "platform = AWSPlatformType")
    case True
    with rest(1) ii(1) obtain p where p: "GetCloudProvider (rt_getenv rt) (rt_loadDefaultConfig rt) infra = Inr p"
      and cs: "cs = NewControllers (rt_crdSpec rt) (rt_getenv rt) (ResolveControllerConfig opts infra p)"
      by (auto simp: isPlatformSupported_def)
    from GetCloudProvider_Inr [OF p] True ii(1) obtain q where q: "p = AWSProvider q" and region: "ii_region infra \<noteq> []"
      by (cases p) (auto simp: AWSPlatformType_def AzurePlatformType_def)
    with p True ii(1) have "aws_New (rt_getenv rt) (rt_loadDefaultConfig rt) infra = Inr q"
      by (auto simp: GetCloudProvider_def map_sum_def split: sum.splits)
    then have "ap_region q = ii_region infra"
      by (auto simp: aws_New_def Let_def split: if_splits sum.splits option.splits)
    with True cr ii region assms(1) q show ?thesis
      by (auto simp: cs NewControllers_def Let_def newHCPNodeClassProvider_def karpenterCRDs_def ResolveControllerConfig_def
          split: option.splits)
  next
    case False
    with rest(2) ii(1) have "runClusterOperatorReporter rt opts platform = Inr cs"
      by (auto simp: isPlatformSupported_def)
    with False cr show ?thesis
      by (auto simp: runClusterOperatorReporter_def bind_result_Inr_iff startManager_Inr Let_def)
  qed
qed

lemma management_starts_iff:
  assumes "libraries_ok rt" "Validate opts = None" "opt_managementCluster opts"
  shows "(\<exists>cs. Run rt opts = Inr cs) \<longleftrightarrow>
    opt_platform opts \<in> {AWSPlatformType, AzurePlatformType} \<and>
    (\<forall>n \<in> set (provider_env (opt_platform opts)). rt_getenv rt n \<noteq> [])"
proof -
  have "opt_region opts \<noteq> []"
    using assms(2,3) by (simp add: Validate_None missing_options_Nil)
  moreover have "\<forall>r. rt_loadDefaultConfig rt r = None"
    using assms(1) by (simp add: libraries_ok_def)
  ultimately have "(\<exists>p. GetCloudProvider (rt_getenv rt) (rt_loadDefaultConfig rt) (discoverInfrastructureFromEnv opts) = Inr p) \<longleftrightarrow>
      opt_platform opts \<in> {AWSPlatformType, AzurePlatformType} \<and> (\<forall>n \<in> set (provider_env (opt_platform opts)). rt_getenv rt n \<noteq> [])"
    using GetCloudProvider_iff [of "discoverInfrastructureFromEnv opts"] by (simp add: discoverInfrastructureFromEnv_def)
  moreover have "(\<exists>cs. Run rt opts = Inr cs) \<longleftrightarrow>
      (\<exists>p. GetCloudProvider (rt_getenv rt) (rt_loadDefaultConfig rt) (discoverInfrastructureFromEnv opts) = Inr p)"
    by (simp add: Run_management_quiet [OF assms] bind_result_Inr_iff)
  ultimately show ?thesis by (simp only:)
qed

text \<open>
  When the client libraries answer, a validated management-cluster configuration starts exactly if
  its platform is AWS or Azure and the environment has what that provider needs: no controller misses its
  hosted cluster, and no two controllers claim one name.
\<close>

theorem management_start_succeeds:
  assumes "libraries_ok rt" "Validate opts = None" "opt_managementCluster opts"
  shows "(\<exists>cs. Run rt opts = Inr cs) \<longleftrightarrow>
    opt_platform opts \<in> {AWSPlatformType, AzurePlatformType} \<and>
    (\<forall>n \<in> set (provider_env (opt_platform opts)). rt_getenv rt n \<noteq> [])"
  using assms by (rule management_starts_iff)

definition demo_env :: environment where
  "demo_env n = (if n = AWSSharedAuthFileEnvName then ''/creds'' else if n = KarpenterImageEnvName_aws then ''karpenter:1''
     else if n = ClusterNameEnvName then ''a-x'' else if n = ClusterEndpointEnvName then ''https://api''
     else if n = PlatformEnvName then ''AWS'' else if n = RegionEnvName then ''us-east-1''
     else if n = TokenMinterImageEnvName then ''cpo:1'' else if n = ManagementClusterEnvName then ''true''
     else if n = DefaultSecurityContextUIDEnvName then ''1001'' else [])"

definition demo_runtime :: runtime where
  "demo_runtime = \<lparr>rt_getenv = demo_env, rt_getConfig = None, rt_newClient = None,
     rt_getInfrastructure = Inr \<lparr>inf_platformStatus = Some (''Azure'', None), inf_infrastructureName = ''b'', inf_apiServerInternalURL = ''https://b''\<rparr>,
     rt_loadDefaultConfig = (\<lambda>_. None), rt_addToScheme = None, rt_newManager = (\<lambda>_. None), rt_buildConfig = (\<lambda>_. None),
     rt_newCluster = None, rt_addCluster = None, rt_newController = (\<lambda>_. None),
     rt_watch = (\<lambda>_ _. None), rt_restMapping = None, rt_certClient = None, rt_addHealthzCheck = None, rt_addReadyzCheck = None, rt_start = None, rt_crdSpec = (\<lambda>_. [])\<rparr>"

definition flags :: options where
  "flags = \<lparr>opt_namespace = ''clusters-a'', opt_releaseVersion = [], opt_clusterName = [], opt_clusterEndpoint = [], opt_platform = [],
     opt_region = [], opt_targetKubeconfig = ''/kubeconfig'', opt_managementCluster = False, opt_tokenMinterImage = [],
     opt_defaultSecurityContextUID = None, opt_metricsAddr = '':8080'', opt_probeAddr = '':8081'', opt_leaderElect = False\<rparr>"

lemmas env_names = ReleaseVersionEnvName_def ClusterNameEnvName_def ClusterEndpointEnvName_def PlatformEnvName_def RegionEnvName_def
  ManagementClusterEnvName_def TokenMinterImageEnvName_def DefaultSecurityContextUIDEnvName_def AWSSharedAuthFileEnvName_def
  KarpenterImageEnvName_aws_def

definition demo_options :: options where
  "demo_options = flags\<lparr>opt_clusterName := ''a-x'', opt_clusterEndpoint := ''https://api'', opt_platform := ''AWS'', opt_region := ''us-east-1'',
     opt_tokenMinterImage := ''cpo:1'', opt_managementCluster := True, opt_defaultSecurityContextUID := Some 1001\<rparr>"

lemma demo_valid: "Validate demo_options = None" "opt_managementCluster demo_options"
  by (simp_all add: Validate_None missing_options_Nil demo_options_def flags_def uid_ok_def)

lemma demo_provider:
  "GetCloudProvider demo_env (\<lambda>_. None) (discoverInfrastructureFromEnv demo_options) =
    Inr (AWSProvider \<lparr>ap_region = ''us-east-1'', ap_infraName = ''a-x'', ap_clusterEndpoint = ''https://api'', ap_karpenterImage = ''karpenter:1''\<rparr>)"
  by (simp add: GetCloudProvider_def aws_New_def discoverInfrastructureFromEnv_def demo_options_def RequireEnv_def demo_env_def env_names
      AWSPlatformType_def)

lemma demo_libraries: "libraries_ok demo_runtime"
  by (simp add: libraries_ok_def demo_runtime_def)

lemma demo_starts: "\<exists>cs. Run demo_runtime demo_options = Inr cs"
  using Run_management_quiet [OF demo_libraries demo_valid] demo_provider by (simp add: demo_runtime_def wrap_result_def)

theorem management_startup_witness:
  "\<exists>cs. Run demo_runtime demo_options = Inr cs \<and> MachineApproverController \<in> set cs"
proof -
  from demo_starts obtain cs where run: "Run demo_runtime demo_options = Inr cs" by blast
  have "opt_platform demo_options = AWSPlatformType"
    by (simp add: demo_options_def AWSPlatformType_def)
  with management_startup [OF demo_valid run] run show ?thesis by auto
qed

theorem management_start_succeeds_witness:
  "(\<exists>cs. Run demo_runtime demo_options = Inr cs) \<and>
   \<not> (\<exists>cs. Run (demo_runtime\<lparr>rt_getenv := \<lambda>_. []\<rparr>) demo_options = Inr cs)"
proof -
  have ok: "libraries_ok (demo_runtime\<lparr>rt_getenv := \<lambda>_. []\<rparr>)"
    using demo_libraries by (simp add: libraries_ok_def)
  have platform: "opt_platform demo_options = AWSPlatformType"
    by (simp add: demo_options_def AWSPlatformType_def)
  have env: "rt_getenv demo_runtime AWSSharedAuthFileEnvName \<noteq> []"
    by (simp add: demo_runtime_def demo_env_def)
  from platform env management_start_succeeds [OF demo_libraries demo_valid] management_start_succeeds [OF ok demo_valid] show ?thesis
    by (simp add: provider_env_def)
qed

theorem standalone_startup_witness:
  "\<exists>o'. Run demo_runtime flags = Inr [ClusterOperatorController o'] \<and> cc_unsupportedPlatform o' = Some ''Azure''"
proof -
  have "resolve_infrastructure demo_runtime flags = Inr \<lparr>ii_platformType = ''Azure'', ii_region = [], ii_infraName = ''b'', ii_clusterEndpoint = ''https://b''\<rparr>"
    by (simp add: resolve_infrastructure_def discoverInfrastructure_def demo_runtime_def flags_def wrap_result_def)
  from Run_standalone_quiet [OF demo_libraries _ this] obtain cs where run: "Run demo_runtime flags = Inr cs"
    by (auto simp: flags_def AWSPlatformType_def)
  have "\<not> opt_managementCluster flags" by (simp add: flags_def)
  from standalone_startup [OF this run] run show ?thesis
    by (auto simp: demo_runtime_def AWSPlatformType_def)
qed

text \<open>
  The UID of the environment reaches the operand's pod unchanged: when \<open>LoadEnv\<close> reads the decimal
  number \<open>n\<close> and the options validate, \<open>n\<close> is positive and fits into an int64, and both runAsUser and
  fsGroup of the pod are \<open>n\<close>.
\<close>

theorem security_uid_roundtrip:
  assumes "getenv DefaultSecurityContextUIDEnvName = show_nat n" "LoadEnv getenv o' = Inr opts" "Validate opts = None"
  shows "0 < n \<and> int n < 2 ^ 63 \<and>
    (\<exists>sc u. operand_securityContext (opt_defaultSecurityContextUID opts) = Inr sc \<and> psc_runAsUser sc = Some u \<and> psc_fsGroup sc = Some u \<and>
       psc_runAsNonRoot sc \<and> sint u = int n)"
proof -
  have small: "int n < 2 ^ 63" and opts: "opt_defaultSecurityContextUID opts = Some (word_of_int (int n))"
    using assms(1,2)
    by (auto simp: LoadEnv_def parseSecurityContextUID_def Let_def ParseInt_show split: sum.splits if_splits)
  then have n: "sint (word_of_int (int n) :: int64) = int n"
    by (intro sint_of_int_64) simp_all
  have "uid_ok (Some (word_of_int (int n)))"
    using assms(3) opts by (simp add: Validate_None)
  then have "0 < int n" using n by (simp add: uid_ok_def)
  with small opts n show ?thesis
    by (simp add: operand_securityContext_def)
qed

theorem security_uid_roundtrip_witness:
  "\<exists>opts. LoadEnv demo_env flags = Inr opts \<and>
     (\<exists>sc. operand_securityContext (opt_defaultSecurityContextUID opts) = Inr sc \<and> psc_runAsNonRoot sc)"
proof -
  have decimal: "show_nat 1001 = ''1001''" by code_simp
  have env: "demo_env DefaultSecurityContextUIDEnvName = show_nat 1001"
    unfolding decimal by (simp add: demo_env_def env_names)
  have uid: "parseSecurityContextUID demo_env = Inr (Some 1001)"
    unfolding parseSecurityContextUID_def env by (simp add: ParseInt_show)
  have mgmt: "ParseManagementClusterEnv demo_env = Inr True"
    by (simp add: ParseManagementClusterEnv_def demo_env_def env_names ParseBool_def)
  have load: "LoadEnv demo_env flags = Inr (flags\<lparr>opt_releaseVersion := demo_env ReleaseVersionEnvName, opt_clusterName := demo_env ClusterNameEnvName,
      opt_clusterEndpoint := demo_env ClusterEndpointEnvName, opt_platform := demo_env PlatformEnvName,
      opt_region := demo_env RegionEnvName, opt_tokenMinterImage := demo_env TokenMinterImageEnvName,
      opt_managementCluster := True, opt_defaultSecurityContextUID := Some 1001\<rparr>)" (is "_ = Inr ?opts")
    by (simp add: LoadEnv_def mgmt uid)
  have "Validate ?opts = None"
    by (simp add: Validate_None missing_options_Nil uid_ok_def flags_def demo_env_def env_names)
  from security_uid_roundtrip [OF env load this] load show ?thesis by blast
qed

end
