(* ===== verification/Watches.thy ===== *)
theory Watches
  imports Operator_Setup Operand_Props Vap Crd Default_Nodeclass Ec2_Nodeclass Ec2_Subnet Azure_Nodeclass Autonode_Status
begin

text \<open>
  Which events of the watched clusters enqueue which requests: the watches that the
  \<open>SetupWithManager\<close> functions register, with their predicates and map functions, over the
  handlers of controller-runtime. With the reconcilers of the other theories this gives the
  repair of drifted operands and the completeness of the ClusterOperator's watches.

  Handlers of the kinds the operand controllers own read the metadata only, so these events
  carry an \<^typ>\<open>object_meta\<close> and the name of the kind.
\<close>

section \<open>Handlers\<close>

fun event_sides :: "'o watch_event \<Rightarrow> 'o list" where
  "event_sides (CreateEvent o') = [o']"
| "event_sides (UpdateEvent old new) = [old, new]"
| "event_sides (DeleteEvent o') = [o']"
| "event_sides (GenericEvent o') = [o']"

text \<open>\<open>EnqueueRequestForObject\<close>: one request, on an update for the new object.\<close>

definition EnqueueRequestForObject :: "'a object_meta_scheme watch_event \<Rightarrow> object_key list" where
  "EnqueueRequestForObject ev = [obj_key (event_object ev)]"

text \<open>\<open>mapAndEnqueue\<close>: a request is added once for both objects of an update.\<close>

fun add_new :: "'r list \<Rightarrow> 'r list \<Rightarrow> 'r list" where
  "add_new reqs [] = reqs"
| "add_new reqs (r # rs) = add_new (if r \<in> set reqs then reqs else reqs @ [r]) rs"

definition EnqueueRequestsFromMapFunc :: "('o \<Rightarrow> 'r list) \<Rightarrow> 'o watch_event \<Rightarrow> 'r list" where
  "EnqueueRequestsFromMapFunc f ev = foldl (\<lambda>reqs o'. add_new reqs (f o')) [] (event_sides ev)"

text \<open>The same for a map function that calls the API.\<close>

fun map_and_enqueue :: "('o \<Rightarrow> ('w, 'r list) io) \<Rightarrow> 'o list \<Rightarrow> 'r list \<Rightarrow> ('w, 'r list) io" where
  "map_and_enqueue f [] reqs = ret reqs"
| "map_and_enqueue f (o' # os) reqs = bindE (f o') (\<lambda>rs. map_and_enqueue f os (add_new reqs rs))"

text \<open>
  \<open>getOwnerReconcileRequest\<close> with the option \<open>OnlyControllerOwner\<close>, as \<open>Owns\<close> sets it.
  \<open>scope\<close> is the answer of the REST mapper for the owner's kind: an error, or whether it is namespaced.
\<close>

definition getOwnerReconcileRequest ::
  "bool option \<Rightarrow> string \<Rightarrow> string \<Rightarrow> 'a object_meta_scheme \<Rightarrow> object_key list" where
  "getOwnerReconcileRequest scope ownerGroup kind obj =
     (case GetControllerOf obj of
        None \<Rightarrow> []
      | Some ref \<Rightarrow>
          if api_group (or_apiVersion ref) = Some ownerGroup \<and> or_kind ref = kind then
            (case scope of
               None \<Rightarrow> []
             | Some namespaced \<Rightarrow> [(if namespaced then namespace obj else [], or_name ref)])
          else [])"

definition EnqueueRequestForOwner ::
  "bool option \<Rightarrow> string \<Rightarrow> string \<Rightarrow> 'a object_meta_scheme watch_event \<Rightarrow> object_key list" where
  "EnqueueRequestForOwner scope ownerGroup kind = EnqueueRequestsFromMapFunc (getOwnerReconcileRequest scope ownerGroup kind)"

text \<open>An event that a predicate rejects does not reach the handler.\<close>

definition filtered :: "('o watch_event \<Rightarrow> bool) \<Rightarrow> ('o watch_event \<Rightarrow> 'r list) \<Rightarrow> 'o watch_event \<Rightarrow> 'r list" where
  "filtered p h ev = (if p ev then h ev else [])"

text \<open>\<open>predicate.NewPredicateFuncs\<close> looks at the new object of an update.\<close>

definition NewPredicateFuncs :: "('o \<Rightarrow> bool) \<Rightarrow> 'o watch_event \<Rightarrow> bool" where
  "NewPredicateFuncs f ev = f (event_object ev)"

section \<open>The watches of the controllers\<close>

datatype source_event =
    InitialSync
  | HCPEvent "hosted_control_plane watch_event"
  | CAPIClusterEvent "capi_cluster watch_event"
  | SecretEvent "secret watch_event"
  | ConfigMapEvent "config_map watch_event"
  | NodeClaimEvent "node_claim watch_event"
  | NodeEvent "node watch_event"
  | CSREvent "csr watch_event"
  | OpenshiftEC2Event "openshift_ec2_node_class watch_event"
  | EC2Event "ec2_node_class watch_event"
  | OpenShiftAzureEvent "openshift_azure_node_class watch_event"
  | AKSEvent "aks_node_class watch_event"
  | PolicyEvent "vap watch_event"
  | BindingEvent "vap_binding watch_event"
  | CRDEvent "crd watch_event"
  | KarpenterEvent "karpenter watch_event"
  | ClusterOperatorEvent "cluster_operator watch_event"
  | OperandEvent string "object_meta watch_event"

fun crd_watches :: "crd list \<Rightarrow> source_event \<Rightarrow> object_key list" where
  "crd_watches managed (CRDEvent ev) = filtered generationChanged (EnqueueRequestsFromMapFunc (crd_requests managed)) ev"
| "crd_watches managed InitialSync = [([], [])]"
| "crd_watches managed _ = []"

text \<open>The default NodeClass controller watches the NodeClass kind of its provider.\<close>

fun default_watches :: "string \<Rightarrow> hcp_provider \<Rightarrow> source_event \<Rightarrow> object_key list" where
  "default_watches ns p (HCPEvent ev) = filtered default_hcpPredicate EnqueueRequestForObject ev"
| "default_watches ns HCPEC2NodeClassProvider (OpenshiftEC2Event ev) =
     filtered nodeClassPredicate (EnqueueRequestsFromMapFunc (\<lambda>_. [(ns, [])])) ev"
| "default_watches ns (HCPAzureNodeClassProvider v) (OpenShiftAzureEvent ev) =
     filtered nodeClassPredicate (EnqueueRequestsFromMapFunc (\<lambda>_. [(ns, [])])) ev"
| "default_watches ns p _ = []"

fun ec2_watches :: "source_event \<Rightarrow> (world, object_key list) io" where
  "ec2_watches (OpenshiftEC2Event ev) = ret (EnqueueRequestForObject ev)"
| "ec2_watches (EC2Event ev) = ret (EnqueueRequestForObject ev)"
| "ec2_watches (SecretEvent ev) =
     ret (filtered KarpenterSecretPredicate (EnqueueRequestsFromMapFunc mapUserDataSecretToNodeClass) ev)"
| "ec2_watches (HCPEvent ev) =
     (if ec2_hcpPredicate ev then map_and_enqueue (\<lambda>_. mapToOpenShiftEC2NodeClasses) (event_sides ev) [] else ret [])"
| "ec2_watches _ = ret []"

definition subnet_request :: "string \<Rightarrow> object_key" where
  "subnet_request ns = (ns, configMapName)"

fun subnet_watches :: "string \<Rightarrow> source_event \<Rightarrow> object_key list" where
  "subnet_watches ns (HCPEvent ev) = filtered subnet_hcpPredicate (EnqueueRequestsFromMapFunc (\<lambda>_. [subnet_request ns])) ev"
| "subnet_watches ns (ConfigMapEvent ev) = filtered configMapPredicate (EnqueueRequestsFromMapFunc (\<lambda>_. [subnet_request ns])) ev"
| "subnet_watches ns (OpenshiftEC2Event ev) = EnqueueRequestsFromMapFunc (\<lambda>_. [subnet_request ns]) ev"
| "subnet_watches ns _ = []"

fun azure_watches :: "source_event \<Rightarrow> (world, object_key list) io" where
  "azure_watches (OpenShiftAzureEvent ev) = ret (EnqueueRequestForObject ev)"
| "azure_watches (AKSEvent ev) = ret (EnqueueRequestForObject ev)"
| "azure_watches (HCPEvent ev) =
     (if azure_hcpPredicate ev then map_and_enqueue (\<lambda>_. mapToNodeClasses) (event_sides ev) [] else ret [])"
| "azure_watches (SecretEvent ev) =
     ret (filtered KarpenterSecretPredicate (EnqueueRequestsFromMapFunc mapUserDataSecretToNodeClass) ev)"
| "azure_watches _ = ret []"

text \<open>\<open>managementWatch\<close>: the predicate of the watch on the management cluster, where the provider has one.\<close>

fun vap_watches :: "vap_config \<Rightarrow> (hosted_control_plane watch_event \<Rightarrow> bool) option \<Rightarrow> source_event \<Rightarrow> object_key list" where
  "vap_watches cfg managementWatch (PolicyEvent ev) =
     filtered (managedPolicyPredicate cfg) (EnqueueRequestsFromMapFunc (\<lambda>_. [([], [])])) ev"
| "vap_watches cfg managementWatch (BindingEvent ev) =
     filtered (managedBindingPredicate cfg) (EnqueueRequestsFromMapFunc (\<lambda>_. [([], [])])) ev"
| "vap_watches cfg managementWatch InitialSync = [([], [])]"
| "vap_watches cfg (Some p) (HCPEvent ev) = filtered p (EnqueueRequestsFromMapFunc (\<lambda>_. [([], [])])) ev"
| "vap_watches cfg managementWatch _ = []"

definition namespaceRequests :: "string \<Rightarrow> object_key list" where
  "namespaceRequests ns = [(ns, [])]"

fun autonode_watches :: "string \<Rightarrow> source_event \<Rightarrow> object_key list" where
  "autonode_watches ns (HCPEvent ev) = EnqueueRequestsFromMapFunc (\<lambda>_. namespaceRequests ns) ev"
| "autonode_watches ns (NodeClaimEvent ev) = filtered nodeClaimPredicate (EnqueueRequestsFromMapFunc (\<lambda>_. namespaceRequests ns)) ev"
| "autonode_watches ns (NodeEvent ev) = filtered countChangePredicate (EnqueueRequestsFromMapFunc (\<lambda>_. namespaceRequests ns)) ev"
| "autonode_watches ns _ = []"

fun deletion_watches :: "string \<Rightarrow> source_event \<Rightarrow> object_key list" where
  "deletion_watches ns (HCPEvent ev) = EnqueueRequestsFromMapFunc (\<lambda>_. [(ns, [])]) ev"
| "deletion_watches ns (CAPIClusterEvent ev) = EnqueueRequestsFromMapFunc (\<lambda>_. [(ns, [])]) ev"
| "deletion_watches ns _ = []"

fun approver_watches :: "source_event \<Rightarrow> object_key list" where
  "approver_watches (CSREvent ev) = filtered (NewPredicateFuncs csrFilterFn) EnqueueRequestForObject ev"
| "approver_watches _ = []"

definition karpenterDeploymentName :: string where
  "karpenterDeploymentName = ''karpenter''"

text \<open>The operand controllers, with the scope the REST mapper reports for the owner.\<close>

fun hcp_operand_watches :: "bool option \<Rightarrow> source_event \<Rightarrow> object_key list" where
  "hcp_operand_watches scope (HCPEvent ev) = filtered hcpOperandReconcilePredicate EnqueueRequestForObject ev"
| "hcp_operand_watches scope (OperandEvent kind ev) =
     (if kind \<in> {''Deployment'', ''PodMonitor'', ''ServiceAccount''}
      then filtered (NewPredicateFuncs (\<lambda>o'. name o' = karpenterDeploymentName))
             (EnqueueRequestForOwner scope ''hypershift.openshift.io'' ''HostedControlPlane'') ev
      else [])"
| "hcp_operand_watches scope _ = []"

definition ocp_request :: "object_key list" where
  "ocp_request = [([], SingletonName)]"

definition managedClusterRoles :: "ocp_controller_config \<Rightarrow> string set" where
  "managedClusterRoles c = name ` set (ra_clusterRoles CoreRBAC @ ra_clusterRoles (provider_RBAC (occ_cloudProvider c)))"

definition managedClusterRoleBindings :: "ocp_controller_config \<Rightarrow> string set" where
  "managedClusterRoleBindings c =
     name ` set (ra_clusterRoleBindings CoreRBAC @ ra_clusterRoleBindings (provider_RBAC (occ_cloudProvider c)))"

definition ocp_owned :: "string list" where
  "ocp_owned = [''Deployment'', ''PodMonitor'', ''ServiceAccount'', ''Role'', ''RoleBinding'']"

fun ocp_watches :: "bool option \<Rightarrow> ocp_controller_config \<Rightarrow> source_event \<Rightarrow> object_key list" where
  "ocp_watches scope c (KarpenterEvent ev) = EnqueueRequestForObject ev"
| "ocp_watches scope c (OperandEvent kind ev) =
     (if kind \<in> set ocp_owned then EnqueueRequestForOwner scope ''autoscaling.openshift.io'' ''Karpenter'' ev
      else if kind = ''ClusterRole''
        then EnqueueRequestsFromMapFunc (\<lambda>o'. if name o' \<notin> managedClusterRoles c then [] else ocp_request) ev
      else if kind = ''ClusterRoleBinding''
        then EnqueueRequestsFromMapFunc (\<lambda>o'. if name o' \<notin> managedClusterRoleBindings c then [] else ocp_request) ev
      else [])"
| "ocp_watches scope c (SecretEvent ev) =
     EnqueueRequestsFromMapFunc (\<lambda>o'.
       if namespace o' \<noteq> occ_namespace c \<or> name o' \<noteq> oc_credentialsSecretName (OperandConfig (occ_cloudProvider c))
       then [] else ocp_request) ev"
| "ocp_watches scope c _ = []"

definition co_request :: "object_key list" where
  "co_request = [([], clusterOperatorName)]"

fun co_watches :: "co_controller_config \<Rightarrow> source_event \<Rightarrow> object_key list" where
  "co_watches cfg (ClusterOperatorEvent ev) =
     filtered (NewPredicateFuncs (\<lambda>o'. name o' = clusterOperatorName)) EnqueueRequestForObject ev"
| "co_watches cfg (KarpenterEvent ev) =
     EnqueueRequestsFromMapFunc (\<lambda>o'. if name o' \<noteq> SingletonName then [] else co_request) ev"
| "co_watches cfg (OperandEvent kind ev) =
     (if kind = ''Deployment''
      then EnqueueRequestsFromMapFunc
             (\<lambda>o'. if namespace o' \<noteq> cc_namespace cfg \<or> name o' \<noteq> ''karpenter'' then [] else co_request) ev
      else [])"
| "co_watches cfg _ = []"

section \<open>The manager's cache\<close>

text \<open>
  The manager watches the namespaced objects of one namespace only (the \<open>DefaultNamespaces\<close> of \<open>newManager\<close>)
  and the cluster-scoped ones, which have no namespace; an event on any other object reaches no handler.
\<close>

definition cached_in :: "string \<Rightarrow> 'a object_meta_scheme watch_event \<Rightarrow> bool" where
  "cached_in ns ev \<longleftrightarrow> (\<forall>o' \<in> set (event_sides ev). namespace o' = [] \<or> namespace o' = ns)"

fun manager_source :: "string \<Rightarrow> source_event \<Rightarrow> bool" where
  "manager_source ns InitialSync = True"
| "manager_source ns (HCPEvent ev) = cached_in ns ev"
| "manager_source ns (CAPIClusterEvent ev) = cached_in ns ev"
| "manager_source ns (SecretEvent ev) = cached_in ns ev"
| "manager_source ns (ConfigMapEvent ev) = cached_in ns ev"
| "manager_source ns (NodeClaimEvent ev) = cached_in ns ev"
| "manager_source ns (NodeEvent ev) = cached_in ns ev"
| "manager_source ns (CSREvent ev) = cached_in ns ev"
| "manager_source ns (OpenshiftEC2Event ev) = cached_in ns ev"
| "manager_source ns (EC2Event ev) = cached_in ns ev"
| "manager_source ns (OpenShiftAzureEvent ev) = cached_in ns ev"
| "manager_source ns (AKSEvent ev) = cached_in ns ev"
| "manager_source ns (PolicyEvent ev) = cached_in ns ev"
| "manager_source ns (BindingEvent ev) = cached_in ns ev"
| "manager_source ns (CRDEvent ev) = cached_in ns ev"
| "manager_source ns (KarpenterEvent ev) = cached_in ns ev"
| "manager_source ns (ClusterOperatorEvent ev) = cached_in ns ev"
| "manager_source ns (OperandEvent kind ev) = cached_in ns ev"

text \<open>The requests of a controller all of whose sources are of the manager.\<close>

definition from_manager :: "string \<Rightarrow> (source_event \<Rightarrow> object_key list) \<Rightarrow> source_event \<Rightarrow> object_key list" where
  "from_manager ns watches ev = (if manager_source ns ev then watches ev else [])"

section \<open>Facts of the handlers\<close>

lemma set_add_new [simp]: "set (add_new reqs rs) = set reqs \<union> set rs"
  by (induction rs arbitrary: reqs) auto

lemma distinct_add_new [simp]: "distinct (add_new reqs rs) \<longleftrightarrow> distinct reqs"
  by (induction rs arbitrary: reqs) auto

lemma set_EnqueueRequestsFromMapFunc [simp]:
  "set (EnqueueRequestsFromMapFunc f ev) = (\<Union>o' \<in> set (event_sides ev). set (f o'))"
  by (cases ev) (auto simp: EnqueueRequestsFromMapFunc_def)

lemma EnqueueRequestsFromMapFunc_Nil [simp]:
  "EnqueueRequestsFromMapFunc f ev = [] \<longleftrightarrow> (\<forall>o' \<in> set (event_sides ev). f o' = [])"
proof -
  have "EnqueueRequestsFromMapFunc f ev = [] \<longleftrightarrow> set (EnqueueRequestsFromMapFunc f ev) = {}"
    by (simp only: set_empty)
  then show ?thesis by simp
qed

lemma event_object_side: "event_object ev \<in> set (event_sides ev)"
  by (cases ev) (simp_all add: event_object_def)

lemma mapped_const [simp]: "EnqueueRequestsFromMapFunc (\<lambda>_. [r]) ev = [r]"
  by (cases ev) (simp_all add: EnqueueRequestsFromMapFunc_def)

text \<open>
  Controllers that aggregate have one work item, so two of their reconciles never overlap: the
  subnet, admission policy, AutoNode status and deletion controllers.
\<close>

lemma subnet_work_item: "set (subnet_watches ns ev) \<subseteq> {subnet_request ns}"
  by (cases ev) (auto simp: filtered_def)

lemma vap_work_item: "set (vap_watches cfg p ev) \<subseteq> {([], [])}"
  by (cases p; cases ev) (auto simp: filtered_def)

lemma autonode_work_item: "set (autonode_watches ns ev) \<subseteq> {(ns, [])}"
  by (cases ev) (auto simp: filtered_def namespaceRequests_def)

lemma deletion_work_item: "set (deletion_watches ns ev) \<subseteq> {(ns, [])}"
  by (cases ev) simp_all

section \<open>Drift of the operand\<close>

lemma ocp_owner_request:
  "GetControllerOf o' = Some (ocpOwnerRef karp) \<Longrightarrow>
   getOwnerReconcileRequest (Some False) ''autoscaling.openshift.io'' ''Karpenter'' o' = [([], name karp)]"
  by (simp add: getOwnerReconcileRequest_def ocpOwnerRef_def api_group_def cut_def)

lemma hcp_owner_request:
  "GetControllerOf o' = Some (hcpOwnerRef hcp) \<Longrightarrow>
   getOwnerReconcileRequest (Some True) ''hypershift.openshift.io'' ''HostedControlPlane'' o' = [(namespace o', name hcp)]"
  by (simp add: getOwnerReconcileRequest_def hcpOwnerRef_def api_group_def cut_def)

text \<open>The objects of the standalone operand: a ServiceAccount and the applied manifests.\<close>

definition ocp_objects :: "ocp_controller_config \<Rightarrow> karpenter \<Rightarrow> deployment_config \<Rightarrow> (string \<times> object_key) list" where
  "ocp_objects c karp d = (''ServiceAccount'', occ_namespace c, karpenterName) # map manifest_key (ocp_manifests c karp d)"

lemma ocp_manifest_watched:
  assumes "m \<in> set (ocp_manifests c karp d)"
  shows "(case m of ClusterRoleManifest r \<Rightarrow> rlc_name r \<in> managedClusterRoles c
     | ClusterRoleBindingManifest b \<Rightarrow> bdc_name b \<in> managedClusterRoleBindings c | _ \<Rightarrow> fst (manifest_key m) \<in> set ocp_owned)"
  by (cases m)
    (use assms in \<open>auto simp: ocp_manifests_def rbac_manifests_def image_iff managedClusterRoles_def managedClusterRoleBindings_def ocp_owned_def\<close>)

lemma ocp_objects_watched:
  assumes "(kind, key) \<in> set (ocp_objects c karp d)"
  obtains (owned) "kind \<in> set ocp_owned"
  | (role) "kind = ''ClusterRole''" "kind \<notin> set ocp_owned" "snd key \<in> managedClusterRoles c"
  | (binding) "kind = ''ClusterRoleBinding''" "kind \<notin> set ocp_owned" "snd key \<in> managedClusterRoleBindings c"
proof -
  have other: "''ClusterRole'' \<notin> set ocp_owned" "''ClusterRoleBinding'' \<notin> set ocp_owned" "''ServiceAccount'' \<in> set ocp_owned"
    by (simp_all add: ocp_owned_def)
  from assms have "kind = ''ServiceAccount'' \<or> (kind, key) \<in> manifest_key ` set (ocp_manifests c karp d)"
    unfolding ocp_objects_def list.set set_map by (elim insertE) (simp_all only: prod.inject simp_thms)
  then consider "kind = ''ServiceAccount''" | m where "m \<in> set (ocp_manifests c karp d)" "manifest_key m = (kind, key)"
    by (elim disjE imageE) simp_all
  then show thesis
  proof cases
    case 1
    with other(3) show thesis by (intro owned) simp
  next
    case (2 m)
    from ocp_manifest_watched [OF 2(1)] 2(2) show thesis
      by (cases m) (use other in \<open>auto intro: owned role binding\<close>)
  qed
qed

lemma mapped_mem: "o' \<in> set (event_sides ev) \<Longrightarrow> r \<in> set (f o') \<Longrightarrow> r \<in> set (EnqueueRequestsFromMapFunc f ev)"
  by auto

lemma ocp_drift_enqueued:
  assumes "(kind, key) \<in> set (ocp_objects c karp d)" and o': "o' \<in> set (event_sides ev)" "obj_key o' = key"
    and owner: "GetControllerOf o' = Some (ocpOwnerRef karp)" "name karp = SingletonName"
  shows "([], SingletonName) \<in> set (ocp_watches (Some False) c (OperandEvent kind ev))"
proof -
  have key: "snd key = name o'"
    using o'(2) by (auto simp: obj_key_def)
  from assms(1) show ?thesis
  proof (cases rule: ocp_objects_watched)
    case owned
    then show ?thesis
      using mapped_mem [OF o'(1), where f = "getOwnerReconcileRequest (Some False) ''autoscaling.openshift.io'' ''Karpenter''"]
        ocp_owner_request [OF owner(1)] owner(2)
      by (simp add: EnqueueRequestForOwner_def)
  next
    case role
    then show ?thesis
      using o'(1) key by (simp add: ocp_request_def) blast
  next
    case binding
    then show ?thesis
      using o'(1) key by (simp add: ocp_request_def) blast
  qed
qed

text \<open>
  A drift: an event on the object of a key, whatever a user did to it, that the owner's reference
  was on before or after. Both objects of an update have one key.
\<close>

definition drift :: "owner_reference \<Rightarrow> object_key \<Rightarrow> object_meta watch_event \<Rightarrow> bool" where
  "drift ref key ev \<longleftrightarrow>
     (\<forall>o' \<in> set (event_sides ev). obj_key o' = key) \<and> (\<exists>o' \<in> set (event_sides ev). GetControllerOf o' = Some ref)"

definition all_applied :: "manifest list \<Rightarrow> operand_world \<Rightarrow> bool" where
  "all_applied ms w \<longleftrightarrow> (\<forall>m \<in> set ms. find_manifest (manifest_key m) (ow_applied w) = Some m)"

lemma drift_cached: "drift ref key ev \<Longrightarrow> cached_in ns ev \<longleftrightarrow> fst key = [] \<or> fst key = ns"
  unfolding drift_def cached_in_def obj_key_def by (metis fst_conv)

lemma ocp_objects_cached:
  assumes "buildDeployment (ocp_operandConfig c img karp) ref = Inr d" "(kind, key) \<in> set (ocp_objects c karp d)"
  shows "fst key = [] \<or> fst key = occ_namespace c"
  using assms(2) buildDeployment_Inr [OF assms(1)]
  by (auto simp: ocp_objects_def ocp_manifests_def rbac_manifests_def buildPodMonitor_def ocp_operandConfig_def)


text \<open>The objects of the operand of a hosted cluster.\<close>

definition hcp_objects :: "hcp_controller_config \<Rightarrow> hosted_control_plane \<Rightarrow> deployment_config \<Rightarrow> (string \<times> object_key) list" where
  "hcp_objects c hcp d = (''ServiceAccount'', hc_namespace c, karpenterName) # map manifest_key (hcp_manifests c hcp d)"

lemma hcp_objects_eq:
  assumes "buildDeployment (hcp_operandConfig c img hcp) ref = Inr d"
  shows "hcp_objects c hcp d = [(''ServiceAccount'', hc_namespace c, karpenterName), (''Deployment'', hc_namespace c, karpenterName),
    (''PodMonitor'', hc_namespace c, karpenterName)]"
  using buildDeployment_Inr [OF assms]
  by (auto simp: hcp_objects_def hcp_manifests_def buildPodMonitor_def hcp_operandConfig_def)

lemma hcp_drift_enqueued:
  assumes "drift (hcpOwnerRef hcp) (ns, karpenterName) ev" "kind \<in> {''Deployment'', ''PodMonitor'', ''ServiceAccount''}"
  shows "(ns, name hcp) \<in> set (hcp_operand_watches (Some True) (OperandEvent kind ev))"
proof -
  from assms(1) obtain o' where o': "o' \<in> set (event_sides ev)" "GetControllerOf o' = Some (hcpOwnerRef hcp)"
    "namespace o' = ns" "name (event_object ev) = karpenterDeploymentName"
    unfolding drift_def using event_object_side [of ev]
    by (auto simp: obj_key_def karpenterName_def karpenterDeploymentName_def)
  have "(ns, name hcp) \<in> set (EnqueueRequestForOwner (Some True) ''hypershift.openshift.io'' ''HostedControlPlane'' ev)"
    unfolding EnqueueRequestForOwner_def
    by (rule mapped_mem [OF o'(1)]) (simp add: hcp_owner_request [OF o'(2)] o'(3))
  with o'(4) assms(2) show ?thesis
    by (simp only: hcp_operand_watches.simps if_True filtered_def NewPredicateFuncs_def simp_thms)
qed



section \<open>The watches of the ClusterOperator controller\<close>

text \<open>A computation that cannot tell related worlds apart.\<close>

definition depends_on :: "('w \<Rightarrow> 'w \<Rightarrow> bool) \<Rightarrow> ('w, 'a) io \<Rightarrow> bool" where
  "depends_on R f \<longleftrightarrow> (\<forall>w v. R w v \<longrightarrow> fst (f w) = fst (f v) \<and> R (snd (f w)) (snd (f v)))"

lemma depends_ret [intro]: "depends_on R (ret a)"
  by (simp add: depends_on_def ret_def)

lemma depends_raise [intro]: "depends_on R (raise e)"
  by (simp add: depends_on_def raise_def)

lemma depends_handleE [intro]:
  assumes "depends_on R m" "\<And>e. depends_on R (h e)" "\<And>a. depends_on R (k a)"
  shows "depends_on R (handleE m h k)"
  unfolding depends_on_def
proof (intro allI impI)
  fix w v assume "R w v"
  with assms(1) have m: "fst (m w) = fst (m v)" "R (snd (m w)) (snd (m v))"
    by (auto simp: depends_on_def)
  with assms(2,3) show "fst (handleE m h k w) = fst (handleE m h k v) \<and> R (snd (handleE m h k w)) (snd (handleE m h k v))"
    by (cases "fst (m v)") (auto simp: handleE_run depends_on_def split: prod.splits)
qed

lemma depends_bindE [intro]: "depends_on R m \<Longrightarrow> (\<And>a. depends_on R (k a)) \<Longrightarrow> depends_on R (bindE m k)"
  unfolding bindE_def by (intro depends_handleE depends_raise)

lemma depends_wrapE [intro]: "depends_on R m \<Longrightarrow> depends_on R (wrapE f as m)"
  unfolding wrapE_def by (intro depends_handleE depends_raise depends_ret)

text \<open>Worlds that agree on what a reconcile of the ClusterOperator reads.\<close>

definition co_view :: "co_controller_config \<Rightarrow> co_world \<Rightarrow>
    api_error option list \<times> int \<times> karpenter option \<times> deployment_status option \<times> cluster_operator option" where
  "co_view cfg w =
     (api_faults w, api_now w, find_obj ([], SingletonName) (cw_karpenters w),
      find_obj (cc_namespace cfg, ''karpenter'') (cw_deployments w), find_obj ([], clusterOperatorName) (cw_clusterOperators w))"

abbreviation co_same :: "co_controller_config \<Rightarrow> co_world \<Rightarrow> co_world \<Rightarrow> bool" where
  "co_same cfg w v \<equiv> co_view cfg w = co_view cfg v"

lemma depends_api_call: "depends_on (co_same cfg) api_call"
  by (auto simp: depends_on_def co_view_def api_call_def split: list.split option.split)

lemma depends_get:
  assumes "\<And>w v. co_same cfg w v \<Longrightarrow> find_obj key (k_objs K w) = find_obj key (k_objs K v)"
  shows "depends_on (co_same cfg) (cl_get K key)"
  unfolding cl_get_def
  by (intro depends_bindE depends_api_call) (auto simp: depends_on_def dest: assms split: option.split)

lemma depends_operandConditions: "depends_on (co_same cfg) (operandConditions showErr cfg)"
  unfolding operandConditions_def
  by (intro depends_handleE depends_get) (auto simp: co_view_def)

lemma depends_applyStatus: "depends_on (co_same cfg) (applyStatus merge cfg conditions)"
proof -
  have "depends_on (co_same cfg) apply_co"
    unfolding apply_co_def
    by (intro depends_bindE depends_api_call) (auto simp: depends_on_def co_view_def modifyE_def find_obj_append)
  moreover have "depends_on (co_same cfg) (cl_get ClusterOperators ([], clusterOperatorName))"
    by (rule depends_get) (simp add: co_view_def)
  moreover have "depends_on (co_same cfg) nowE"
    by (auto simp: depends_on_def nowE_def readE_def co_view_def)
  moreover have "depends_on (co_same cfg) (apply_co_status merge cs vs os)" for cs vs os
    unfolding apply_co_status_def
    by (intro depends_bindE depends_api_call)
      (auto simp: depends_on_def co_view_def Let_def split: option.split dest: find_obj_Some)
  ultimately show ?thesis
    unfolding applyStatus_def by (intro depends_bindE depends_wrapE)
qed

lemma depends_co_Reconcile: "depends_on (co_same cfg) (co_Reconcile merge showErr cfg)"
  unfolding co_Reconcile_def
  by (intro depends_bindE depends_wrapE depends_applyStatus depends_ret)
    (auto simp: depends_operandConditions split: option.split)

text \<open>The changes of the store behind the watched events, and the event of each.\<close>

datatype co_change =
    KarpenterChange "karpenter watch_event"
  | DeploymentChange "deployment_status watch_event"
  | ClusterOperatorChange "cluster_operator watch_event"

fun store_event :: "'a object_meta_scheme watch_event \<Rightarrow> 'a object_meta_scheme list \<Rightarrow> 'a object_meta_scheme list" where
  "store_event (CreateEvent o') objs = objs @ [o']"
| "store_event (UpdateEvent old new) objs = put_obj new objs"
| "store_event (DeleteEvent o') objs = remove_obj (obj_key o') objs"
| "store_event (GenericEvent o') objs = objs"

text \<open>An event of an informer reports a change of the stored object.\<close>

fun event_possible :: "'a object_meta_scheme watch_event \<Rightarrow> 'a object_meta_scheme list \<Rightarrow> bool" where
  "event_possible (CreateEvent o') objs \<longleftrightarrow> find_obj (obj_key o') objs = None"
| "event_possible (UpdateEvent old new) objs \<longleftrightarrow> find_obj (obj_key new) objs = Some old"
| "event_possible (DeleteEvent o') objs \<longleftrightarrow> find_obj (obj_key o') objs = Some o'"
| "event_possible (GenericEvent o') objs \<longleftrightarrow> False"

lemma event_keys: "event_possible ev objs \<Longrightarrow> o' \<in> set (event_sides ev) \<Longrightarrow> obj_key o' = obj_key (event_object ev)"
  by (cases ev) (auto simp: event_object_def dest: find_obj_Some)

fun co_store :: "co_change \<Rightarrow> co_world \<Rightarrow> co_world" where
  "co_store (KarpenterChange ev) w = w\<lparr>cw_karpenters := store_event ev (cw_karpenters w)\<rparr>"
| "co_store (DeploymentChange ev) w = w\<lparr>cw_deployments := store_event ev (cw_deployments w)\<rparr>"
| "co_store (ClusterOperatorChange ev) w = w\<lparr>cw_clusterOperators := store_event ev (cw_clusterOperators w)\<rparr>"

fun co_event :: "co_change \<Rightarrow> source_event" where
  "co_event (KarpenterChange ev) = KarpenterEvent ev"
| "co_event (DeploymentChange ev) = OperandEvent ''Deployment'' (map_watch_event object_meta.truncate ev)"
| "co_event (ClusterOperatorChange ev) = ClusterOperatorEvent ev"

lemma store_event_other:
  "key \<notin> obj_key ` set (event_sides ev) \<Longrightarrow> find_obj key (store_event ev objs) = find_obj key objs"
  by (cases ev) (auto simp: find_obj_append split: option.split)

lemma truncate_meta [simp]:
  "name (object_meta.truncate o') = name o'" "namespace (object_meta.truncate o') = namespace o'"
  by (simp_all add: object_meta.defs)

lemma event_sides_map [simp]: "event_sides (map_watch_event f ev) = map f (event_sides ev)"
  by (cases ev) simp_all

lemma co_unwatched:
  assumes "co_watches cfg (co_event ch) = []" "\<And>old new. ch = ClusterOperatorChange (UpdateEvent old new) \<Longrightarrow> name old = name new"
  shows "co_same cfg (co_store ch w) w"
proof (cases ch)
  case (KarpenterChange ev)
  with assms(1) have "\<forall>o' \<in> set (event_sides ev). name o' \<noteq> SingletonName"
    by (auto simp: co_request_def split: if_splits)
  then have "([], SingletonName) \<notin> obj_key ` set (event_sides ev)"
    by (auto simp: obj_key_def)
  with KarpenterChange show ?thesis by (simp add: co_view_def store_event_other)
next
  case (DeploymentChange ev)
  with assms(1) have "\<forall>o' \<in> set (event_sides ev). namespace o' \<noteq> cc_namespace cfg \<or> name o' \<noteq> ''karpenter''"
    by (auto simp: co_request_def split: if_splits)
  then have "(cc_namespace cfg, ''karpenter'') \<notin> obj_key ` set (event_sides ev)"
    by (auto simp: obj_key_def)
  with DeploymentChange show ?thesis by (simp add: co_view_def store_event_other)
next
  case (ClusterOperatorChange ev)
  with assms(1) have "name (event_object ev) \<noteq> clusterOperatorName"
    by (simp add: filtered_def NewPredicateFuncs_def EnqueueRequestForObject_def split: if_splits)
  then have "name o' \<noteq> clusterOperatorName" if "o' \<in> set (event_sides ev)" for o'
  proof (cases ev)
    case (UpdateEvent old new)
    with assms(2) [of old new] ClusterOperatorChange have "name old = name new" by simp
    with UpdateEvent that \<open>name (event_object ev) \<noteq> clusterOperatorName\<close> show ?thesis
      by (simp add: event_object_def) metis
  qed (use that \<open>name (event_object ev) \<noteq> clusterOperatorName\<close> in \<open>simp_all add: event_object_def\<close>)
  then have "([], clusterOperatorName) \<notin> obj_key ` set (event_sides ev)"
    unfolding obj_key_def by (metis (no_types, lifting) Pair_inject imageE)
  with ClusterOperatorChange show ?thesis by (simp add: co_view_def store_event_other)
qed

text \<open>
  The watches of the ClusterOperator controller are complete: a change of a Karpenter
  resource, a Deployment or a ClusterOperator that enqueues nothing has no effect on what a reconcile
  answers, nor on the ClusterOperator it leaves, whatever errors the API returns.
\<close>

theorem cluster_operator_watch_complete:
  assumes "co_watches cfg (co_event ch) = []" "\<And>old new. ch = ClusterOperatorChange (UpdateEvent old new) \<Longrightarrow> name old = name new"
  shows "fst (co_Reconcile merge showErr cfg (co_store ch w)) = fst (co_Reconcile merge showErr cfg w) \<and>
    find_obj ([], clusterOperatorName) (cw_clusterOperators (snd (co_Reconcile merge showErr cfg (co_store ch w)))) =
    find_obj ([], clusterOperatorName) (cw_clusterOperators (snd (co_Reconcile merge showErr cfg w)))"
proof -
  have "co_same cfg (co_store ch w) w"
    by (rule co_unwatched [OF assms])
  with depends_co_Reconcile [of cfg merge showErr]
  have "fst (co_Reconcile merge showErr cfg (co_store ch w)) = fst (co_Reconcile merge showErr cfg w)"
    and same: "co_same cfg (snd (co_Reconcile merge showErr cfg (co_store ch w))) (snd (co_Reconcile merge showErr cfg w))"
    unfolding depends_on_def by blast+
  moreover from same have "find_obj ([], clusterOperatorName) (cw_clusterOperators (snd (co_Reconcile merge showErr cfg (co_store ch w)))) =
      find_obj ([], clusterOperatorName) (cw_clusterOperators (snd (co_Reconcile merge showErr cfg w)))"
    unfolding co_view_def by (simp only: prod.inject)
  ultimately show ?thesis by blast
qed

text \<open>For instance a Deployment of that name in another namespace.\<close>

definition demo_co_config :: co_controller_config where
  "demo_co_config = \<lparr>cc_namespace = ''openshift-karpenter'', cc_releaseVersion = ''4.20.0'', cc_additionalRelatedObjects = [],
     cc_unsupportedPlatform = None\<rparr>"

definition foreign_deployment :: deployment_status where
  "foreign_deployment = object_meta.extend (zero_object_meta\<lparr>name := ''karpenter'', namespace := ''other''\<rparr>)
     \<lparr>dst_replicas = 1, dst_updatedReplicas = 0, dst_availableReplicas = 0\<rparr>"

definition empty_co_world :: co_world where
  "empty_co_world = \<lparr>api_faults = [], api_now = 0, cw_karpenters = [], cw_deployments = [], cw_clusterOperators = []\<rparr>"

theorem cluster_operator_watch_complete_witness:
  "fst (co_Reconcile (\<lambda>new old. new) (\<lambda>_. []) demo_co_config (co_store (DeploymentChange (CreateEvent foreign_deployment)) empty_co_world)) =
   fst (co_Reconcile (\<lambda>new old. new) (\<lambda>_. []) demo_co_config empty_co_world)"
proof -
  have "co_watches demo_co_config (co_event (DeploymentChange (CreateEvent foreign_deployment))) = []"
    by (simp add: demo_co_config_def foreign_deployment_def object_meta.defs)
  from cluster_operator_watch_complete [OF this] show ?thesis by blast
qed

end
