(* ===== verification/Azure_Queue.thy ===== *)
theory Azure_Queue
  imports Work_Queue Watches
begin

text \<open>
  The Azure NodeClass controller as an event-driven program: its watches (\<open>Watches\<close>) feed the queue of
  \<open>Work_Queue\<close>, its reconciler (\<open>Azure_Nodeclass\<close>) empties it. A key that is not in the queue is at rest:
  reconciling it again would change nothing, and its AKSNodeClass is the one it asks for.
\<close>

section \<open>The controller\<close>

text \<open>NodeClasses are cluster-scoped, and condition types are the keys of a list.\<close>

fun azure_possible :: "source_event \<Rightarrow> world \<Rightarrow> bool" where
  "azure_possible (OpenShiftAzureEvent ev) w \<longleftrightarrow>
     event_possible ev (w_openshiftAzure w) \<and> (\<forall>nc \<in> set (event_sides ev). namespace nc = [])"
| "azure_possible (AKSEvent ev) w \<longleftrightarrow>
     event_possible ev (w_aks w) \<and> (\<forall>a \<in> set (event_sides ev). distinct (map c_type (akc_conditions a)))"
| "azure_possible (HCPEvent ev) w \<longleftrightarrow> event_possible ev (w_hcps w)"
| "azure_possible (SecretEvent ev) w \<longleftrightarrow> event_possible ev (w_secrets w)"
| "azure_possible _ w \<longleftrightarrow> False"

fun azure_store :: "source_event \<Rightarrow> world \<Rightarrow> world" where
  "azure_store (OpenShiftAzureEvent ev) w = w\<lparr>w_openshiftAzure := store_event ev (w_openshiftAzure w)\<rparr>"
| "azure_store (AKSEvent ev) w = w\<lparr>w_aks := store_event ev (w_aks w)\<rparr>"
| "azure_store (HCPEvent ev) w = w\<lparr>w_hcps := store_event ev (w_hcps w)\<rparr>"
| "azure_store (SecretEvent ev) w = w\<lparr>w_secrets := store_event ev (w_secrets w)\<rparr>"
| "azure_store _ w = w"

text \<open>The map function of the HostedControlPlane lists the NodeClasses from the cache, which does not fail.\<close>

definition azure_enqueue :: "source_event \<Rightarrow> world \<Rightarrow> object_key set" where
  "azure_enqueue ev w = (case fst (azure_watches ev (w\<lparr>api_faults := []\<rparr>)) of Inl err \<Rightarrow> {} | Inr keys \<Rightarrow> set keys)"

text \<open>A write of a NodeClass or an AKSNodeClass is an event of that object.\<close>

definition azure_own :: "world \<Rightarrow> world \<Rightarrow> object_key set" where
  "azure_own w w' =
     {key. find_obj key (w_openshiftAzure w') \<noteq> find_obj key (w_openshiftAzure w) \<or>
           find_obj key (w_aks w') \<noteq> find_obj key (w_aks w)}"

definition azure_elsewhere :: "world \<Rightarrow> world \<Rightarrow> bool" where
  "azure_elsewhere w w' \<longleftrightarrow>
     w_openshiftAzure w' = w_openshiftAzure w \<and> w_aks w' = w_aks w \<and> w_hcps w' = w_hcps w \<and> w_secrets w' = w_secrets w"

definition azure_controller :: "string \<Rightarrow> (world, object_key, source_event) event_controller" where
  "azure_controller ns =
     \<lparr>ec_reconcile = azure_Reconcile ns, ec_possible = azure_possible, ec_store = azure_store,
      ec_enqueue = azure_enqueue, ec_own = azure_own, ec_elsewhere = azure_elsewhere\<rparr>"

lemma azure_controller_simps [simp]:
  "ec_reconcile (azure_controller ns) = azure_Reconcile ns" "ec_possible (azure_controller ns) = azure_possible"
  "ec_store (azure_controller ns) = azure_store" "ec_enqueue (azure_controller ns) = azure_enqueue"
  "ec_own (azure_controller ns) = azure_own" "ec_elsewhere (azure_controller ns) = azure_elsewhere"
  by (simp_all add: azure_controller_def)

section \<open>Rest\<close>

definition azure_wf :: "world \<Rightarrow> bool" where
  "azure_wf w \<longleftrightarrow>
     (\<forall>nc \<in> set (w_openshiftAzure w). namespace nc = []) \<and>
     (\<forall>a \<in> set (w_aks w). distinct (map c_type (akc_conditions a))) \<and>
     distinct (map obj_key (w_hcps w))"

abbreviation user_secret :: "string \<Rightarrow> string \<Rightarrow> secret \<Rightarrow> bool" where
  "user_secret ns n s \<equiv> namespace s = ns \<and> karpenterSecretSelector s \<and> is_user_data_secret ns n s"

text \<open>The AKSNodeClass is what the mutation would make of it, and the conditions are synchronized.\<close>

definition azure_synced :: "openshift_azure_node_class \<Rightarrow> hosted_control_plane \<Rightarrow> secret \<Rightarrow> aks_node_class \<Rightarrow> bool" where
  "azure_synced nc hcp s a \<longleftrightarrow>
     (\<exists>m. aks_mutate nc hcp s a = Inr m \<and> norm_aks_node_class a = norm_aks_node_class m) \<and>
     (\<forall>t. SyncConditions t (azs_conditions (anc_status nc)) (akc_conditions a) (generation nc) = azs_conditions (anc_status nc))"

text \<open>At rest with what a reconcile reads: the NodeClass, its AKSNodeClass, control planes and Secrets.\<close>

definition azure_settled ::
  "openshift_azure_node_class \<Rightarrow> aks_node_class option \<Rightarrow> hosted_control_plane list \<Rightarrow> secret list \<Rightarrow> bool" where
  "azure_settled nc ao hs ss \<longleftrightarrow>
     (if \<not> time_is_zero (deletionTimestamp nc) then ao = None \<and> \<not> ContainsFinalizer nc azure_finalizer
      else ContainsFinalizer nc azure_finalizer \<and>
        (hs = [] \<or> (\<exists>hcp. hs = [hcp] \<and> (ss = [] \<or> (\<exists>s a. ss = [s] \<and> ao = Some a \<and> azure_synced nc hcp s a)))))"

definition azure_rest :: "string \<Rightarrow> object_key \<Rightarrow> world \<Rightarrow> bool" where
  "azure_rest ns key w \<longleftrightarrow>
     (case find_obj key (w_openshiftAzure w) of
        None \<Rightarrow> True
      | Some nc \<Rightarrow> azure_settled nc (find_obj key (w_aks w)) (filter (\<lambda>h. namespace h = ns) (w_hcps w))
                     (filter (user_secret ns (snd key)) (w_secrets w)))"

lemma azure_rest_faults [simp]: "azure_rest ns key (w\<lparr>api_faults := fs\<rparr>) = azure_rest ns key w"
  "azure_wf (w\<lparr>api_faults := fs\<rparr>) = azure_wf w"
  by (simp_all add: azure_rest_def azure_wf_def split: option.split)

lemma errors_is_self [simp]: "errors_is e e"
  by (cases e) simp_all

lemma aks_mutate_fields:
  assumes "aks_mutate nc hcp s a = Inr m"
  shows "obj_key m = obj_key a" "akc_conditions m = akc_conditions a" "resourceVersion m = resourceVersion a"
    "deletionTimestamp m = deletionTimestamp a" "finalizers m = finalizers a" "name m = name a"
  using assms SetControllerReference_Inr(1)
  by (auto simp: aks_mutate_def obj_key_def split: sum.splits dest!: SetControllerReference_Inr(1))

text \<open>At rest, a reconcile without faults does nothing, at whatever time.\<close>

lemma azure_rest_noop:
  assumes "azure_wf w" "azure_rest ns key w" "api_faults w = []"
  shows "azure_Reconcile ns key w = (Inr Result0, w)"
proof (cases "find_obj key (w_openshiftAzure w)")
  case None
  with assms(3) show ?thesis
    by (simp add: azure_Reconcile_def io_simps openshiftAzure.get_no_faults)
next
  case (Some nc)
  let ?hs = "filter (\<lambda>h. namespace h = ns) (w_hcps w)" and ?ss = "filter (user_secret ns (snd key)) (w_secrets w)"
  have nc: "key = ([], name nc)" "namespace nc = []"
    using find_obj_Some [OF Some] assms(1) by (auto simp: azure_wf_def obj_key_def)
  have get: "cl_get OpenshiftAzure key w = (Inr nc, w)"
    using Some assms(3) by (simp add: openshiftAzure.get_no_faults)
  have settled: "azure_settled nc (find_obj key (w_aks w)) ?hs ?ss"
    using assms(2) Some by (simp add: azure_rest_def)
  show ?thesis
  proof (cases "time_is_zero (deletionTimestamp nc)")
    case False
    with settled have "find_obj ([], name nc) (w_aks w) = None" "\<not> ContainsFinalizer nc azure_finalizer"
      by (simp_all add: azure_settled_def nc(1))
    moreover from this(1) assms(3) have "cl_delete AKS ([], name nc) w = (Inl (ApiErr NotFound), w)"
      by (intro aks.delete_missing_no_faults) simp_all
    ultimately show ?thesis
      using get False by (simp add: azure_Reconcile_def azure_reconcileDelete_def io_simps)
  next
    case True
    with settled have fin: "ContainsFinalizer nc azure_finalizer"
      by (simp add: azure_settled_def)
    with get True have live: "azure_Reconcile ns key w = azure_reconcileLive ns nc w"
      by (simp add: azure_Reconcile_def io_simps)
    from settled True consider "?hs = []" | hcp where "?hs = [hcp]" "?ss = []"
      | hcp s a where "?hs = [hcp]" "?ss = [s]" "find_obj ([], name nc) (w_aks w) = Some a" "azure_synced nc hcp s a"
      unfolding azure_settled_def nc(1) by auto
    then show ?thesis
    proof cases
      case 1
      with assms(3) show ?thesis
        by (simp add: live azure_reconcileLive_def io_simps GetHostedControlPlane_no_faults)
    next
      case 2
      with assms(3) show ?thesis
        unfolding live
        by (simp add: nc(1) azure_reconcileLive_def io_simps GetHostedControlPlane_no_faults GetUserDataSecret_no_faults)
    next
      case 3
      then obtain m where m: "aks_mutate nc hcp s a = Inr m" "norm_aks_node_class a = norm_aks_node_class m"
        and sync: "SyncConditions (api_now w) (azs_conditions (anc_status nc)) (akc_conditions a) (generation nc) = azs_conditions (anc_status nc)"
        unfolding azure_synced_def by blast
      have key: "obj_key m = ([], name nc)"
        using aks_mutate_fields(1) [OF m(1)] find_obj_Some [OF 3(3)] by simp
      have "createOrUpdate AKS (new_aks_node_class (name nc)) (aks_mutate nc hcp s) w = (Inr (OperationResultNone, m), w)"
        using m key 3(3) assms(3) by (intro aks.createOrUpdate_unchanged [where old = a]) (simp_all add: AKS_def)
      moreover have "azure_reconcileStatus nc m w = (Inr (), w)"
        using sync aks_mutate_fields(2) [OF m(1)] by (intro azure_status_settled) simp
      ultimately show ?thesis
        using 3(1,2) assms(3)
        unfolding live
        by (simp add: nc(1) azure_reconcileLive_def io_simps GetHostedControlPlane_no_faults GetUserDataSecret_no_faults
            reconcileAKSNodeClass_def)
    qed
  qed
qed

section \<open>Events keep the rest\<close>

lemma store_event_members: "x \<in> set (store_event ev objs) \<Longrightarrow> x \<in> set objs \<or> x \<in> set (event_sides ev)"
  by (cases ev) (auto dest: set_put_obj)

lemma store_event_elsewhere:
  "event_possible ev objs \<Longrightarrow> key \<noteq> obj_key (event_object ev) \<Longrightarrow> find_obj key (store_event ev objs) = find_obj key objs"
  using event_keys by (intro store_event_other) fastforce

lemma store_event_distinct:
  assumes "event_possible ev objs" "distinct (map obj_key objs)"
  shows "distinct (map obj_key (store_event ev objs))"
proof (cases ev)
  case (CreateEvent o')
  with assms show ?thesis by (auto simp: find_obj_None_iff)
next
  case (UpdateEvent old new)
  with assms show ?thesis by simp
next
  case (DeleteEvent o')
  with assms show ?thesis by (simp add: distinct_remove_obj)
qed (use assms in simp)

text \<open>A selection that no new object enters keeps its objects or loses those of the event's key.\<close>

lemma filter_put: "\<not> P new \<Longrightarrow> filter P (put_obj new objs) = filter (\<lambda>o'. obj_key o' \<noteq> obj_key new) (filter P objs)"
  by (induction objs) (auto simp: put_obj_def)

lemma filter_remove: "filter P (remove_obj key objs) = filter (\<lambda>o'. obj_key o' \<noteq> key) (filter P objs)"
  by (induction objs) (auto simp: remove_obj_def)

lemma filter_store_event:
  assumes "event_possible ev objs" "\<And>o'. ev = CreateEvent o' \<Longrightarrow> \<not> P o'" "\<And>old new. ev = UpdateEvent old new \<Longrightarrow> \<not> P new"
  shows "\<exists>Q. filter P (store_event ev objs) = filter Q (filter P objs)"
proof (cases ev)
  case (CreateEvent o')
  with assms(2) show ?thesis by (intro exI [of _ "\<lambda>_. True"]) simp
next
  case (UpdateEvent old new)
  have "\<not> P new" using assms(3) UpdateEvent by blast
  with UpdateEvent filter_put [of P new objs] show ?thesis by auto
next
  case (DeleteEvent o')
  with filter_remove [of P "obj_key o'" objs] show ?thesis by auto
qed (use assms(1) in simp)

lemma filter_le_one: "length (xs :: 'a list) \<le> 1 \<Longrightarrow> filter Q xs = xs \<or> filter Q xs = []"
  by (cases xs) auto

text \<open>What rests without a control plane or a Secret rests with fewer of them.\<close>

lemma settled_fewer_hcps: "azure_settled nc ao hs ss \<Longrightarrow> azure_settled nc ao (filter Q hs) ss"
  by (auto simp: azure_settled_def split: if_splits)

lemma settled_fewer_secrets: "azure_settled nc ao hs ss \<Longrightarrow> azure_settled nc ao hs (filter Q ss)"
  by (auto simp: azure_settled_def split: if_splits)

lemma aks_mutate_version:
  "hcp_controlPlaneVersion hcp' = hcp_controlPlaneVersion hcp \<Longrightarrow> aks_mutate nc hcp' s a = aks_mutate nc hcp s a"
proof -
  assume "hcp_controlPlaneVersion hcp' = hcp_controlPlaneVersion hcp"
  then have "WaitsForControlPlaneUpgrade hcp' v = WaitsForControlPlaneUpgrade hcp v" for v
    by (simp add: WaitsForControlPlaneUpgrade_def isControlPlaneUpgrading_def)
  then show ?thesis
    by (simp only: aks_mutate_def reconcileAKSNodeClassRelease_def)
qed

lemma settled_same_versions:
  assumes "azure_settled nc ao hs ss" "map hcp_controlPlaneVersion hs' = map hcp_controlPlaneVersion hs"
  shows "azure_settled nc ao hs' ss"
proof -
  have "azure_synced nc h' s a" if "azure_synced nc h s a" "hcp_controlPlaneVersion h' = hcp_controlPlaneVersion h" for h h' s a
    using that aks_mutate_version [of h' h] by (simp add: azure_synced_def)
  with assms show ?thesis
    unfolding azure_settled_def by (auto simp: map_eq_Cons_conv split: if_splits)
qed

lemma filter_put_versions:
  assumes "distinct (map obj_key objs)" "find_obj (obj_key new) objs = Some old"
    and "hcp_controlPlaneVersion new = hcp_controlPlaneVersion old"
  shows "map hcp_controlPlaneVersion (filter (\<lambda>h. namespace h = ns) (put_obj new objs)) =
    map hcp_controlPlaneVersion (filter (\<lambda>h. namespace h = ns) objs)"
  using assms(1,2)
proof (induction objs)
  case (Cons h objs)
  show ?case
  proof (cases "obj_key h = obj_key new")
    case True
    with Cons.prems have "h = old" "obj_key new \<notin> obj_key ` set objs"
      by auto
    from this(2) have "put_obj new objs = objs"
      unfolding put_obj_def by (intro map_idI) (metis image_eqI)
    moreover have "namespace new = namespace h"
      using True by (simp add: obj_key_def)
    ultimately show ?thesis
      using True \<open>h = old\<close> assms(3) by (simp add: put_obj_def)
  next
    case False
    with Cons show ?thesis by (simp add: put_obj_def)
  qed
qed simp

text \<open>What each event enqueues.\<close>

lemma enqueue_object [simp]:
  "azure_enqueue (OpenShiftAzureEvent e) w = {obj_key (event_object e)}"
  "azure_enqueue (AKSEvent e') w = {obj_key (event_object e')}"
  by (simp_all add: azure_enqueue_def EnqueueRequestForObject_def)

lemma enqueue_secret [simp]:
  "azure_enqueue (SecretEvent e) w =
     (if KarpenterSecretPredicate e then \<Union>(set ` mapUserDataSecretToNodeClass ` set (event_sides e)) else {})"
  by (auto simp: azure_enqueue_def filtered_def)

lemma map_node_classes:
  "api_faults w = [] \<Longrightarrow> mapToNodeClasses w = (Inr (map (\<lambda>nc. ([], name nc)) (w_openshiftAzure w)), w)"
  by (simp add: mapToNodeClasses_def io_simps openshiftAzure.list_no_faults)

lemma enqueue_hcp [simp]:
  "azure_enqueue (HCPEvent e) w = (if azure_hcpPredicate e then (\<lambda>nc. ([], name nc)) ` set (w_openshiftAzure w) else {})"
  by (cases e) (simp_all add: azure_enqueue_def io_simps map_node_classes)

lemma azure_rest_store:
  assumes wf: "azure_wf w" and possible: "azure_possible ev w" and rest: "azure_rest ns key w"
    and quiet: "key \<notin> azure_enqueue ev (azure_store ev w)" and ns: "CHR ''/'' \<notin> set ns"
  shows "azure_rest ns key (azure_store ev w)"
proof (cases ev)
  case (OpenShiftAzureEvent e)
  with quiet possible have "find_obj key (store_event e (w_openshiftAzure w)) = find_obj key (w_openshiftAzure w)"
    by (intro store_event_elsewhere) simp_all
  with rest OpenShiftAzureEvent show ?thesis by (simp add: azure_rest_def split: option.splits)
next
  case (AKSEvent e)
  with quiet possible have "find_obj key (store_event e (w_aks w)) = find_obj key (w_aks w)"
    by (intro store_event_elsewhere) simp_all
  with rest AKSEvent show ?thesis by (simp add: azure_rest_def split: option.splits)
next
  case (HCPEvent e)
  show ?thesis
  proof (cases "find_obj key (w_openshiftAzure w)")
    case None
    with HCPEvent show ?thesis by (simp add: azure_rest_def)
  next
    case (Some nc)
    let ?hs = "filter (\<lambda>h. namespace h = ns) (w_hcps w)" and ?hs' = "filter (\<lambda>h. namespace h = ns) (store_event e (w_hcps w))"
    have "key = ([], name nc)" "nc \<in> set (w_openshiftAzure w)"
      using find_obj_Some [OF Some] wf by (auto simp: azure_wf_def obj_key_def)
    with quiet HCPEvent have rejected: "\<not> azure_hcpPredicate e"
      by (auto split: if_splits)
    have "map hcp_controlPlaneVersion ?hs' = map hcp_controlPlaneVersion ?hs \<or> (\<exists>Q. ?hs' = filter Q ?hs)"
    proof (cases e)
      case (UpdateEvent old new)
      with rejected possible wf HCPEvent filter_put_versions [of "w_hcps w" new old ns] show ?thesis
        by (simp add: azure_hcpPredicate_def ControlPlaneVersionChanged_def azure_wf_def)
    next
      case (DeleteEvent h)
      with possible HCPEvent filter_store_event [of e "w_hcps w" "\<lambda>h. namespace h = ns"] show ?thesis by simp
    qed (use rejected possible HCPEvent in \<open>simp_all add: azure_hcpPredicate_def\<close>)
    moreover have settled: "azure_settled nc (find_obj key (w_aks w)) ?hs (filter (user_secret ns (snd key)) (w_secrets w))"
      using rest Some by (simp add: azure_rest_def)
    ultimately have "azure_settled nc (find_obj key (w_aks w)) ?hs' (filter (user_secret ns (snd key)) (w_secrets w))"
      by (elim disjE exE) (erule settled_same_versions [OF settled], erule ssubst, rule settled_fewer_hcps [OF settled])
    with Some HCPEvent show ?thesis by (simp add: azure_rest_def)
  qed
next
  case (SecretEvent e)
  show ?thesis
  proof (cases "find_obj key (w_openshiftAzure w)")
    case None
    with SecretEvent show ?thesis by (simp add: azure_rest_def)
  next
    case (Some nc)
    let ?P = "user_secret ns (snd key)"
    have key: "key = ([], snd key)"
      using find_obj_Some [OF Some] wf by (auto simp: azure_wf_def obj_key_def)
    have entering: "\<not> ?P s" if "KarpenterSecretPredicate e \<longleftrightarrow> karpenterSecretSelector s" "s \<in> set (event_sides e)" for s
    proof
      assume "?P s"
      with that(1) have "KarpenterSecretPredicate e" "mapUserDataSecretToNodeClass s = [key]"
        using mapUserDataSecretToNodeClass_user_data [of ns "snd key" s] ns key by auto
      with that(2) quiet SecretEvent show False by auto
    qed
    have settled: "azure_settled nc (find_obj key (w_aks w)) (filter (\<lambda>h. namespace h = ns) (w_hcps w)) (filter ?P (w_secrets w))"
      using rest Some by (simp add: azure_rest_def)
    have "\<exists>Q. filter ?P (store_event e (w_secrets w)) = filter Q (filter ?P (w_secrets w))"
      by (rule filter_store_event)
        (use possible SecretEvent entering in \<open>auto simp: KarpenterSecretPredicate_def\<close>)
    then have "azure_settled nc (find_obj key (w_aks w)) (filter (\<lambda>h. namespace h = ns) (w_hcps w)) (filter ?P (store_event e (w_secrets w)))"
      by (elim exE) (erule ssubst, rule settled_fewer_secrets [OF settled])
    with Some SecretEvent show ?thesis by (simp add: azure_rest_def)
  qed
qed (use possible in simp_all)

lemma azure_wf_store:
  assumes "azure_wf w" "azure_possible ev w"
  shows "azure_wf (azure_store ev w)"
  using assms store_event_distinct [of _ "w_hcps w"]
  by (cases ev) (auto simp: azure_wf_def dest: store_event_members)

section \<open>What a reconcile keeps\<close>

lemma azure_Reconcile_keeps':
  assumes reads: "\<And>key. keeps P (cl_get OpenshiftAzure key)" "\<And>n. keeps P (GetUserDataSecret ns n)" "keeps P (GetHostedControlPlane ns)"
    and patch: "\<And>nc nc'. keeps P (cl_patch OpenshiftAzure True nc (finalizers_body nc'))"
    and status: "\<And>nc body. keeps P (cl_status_patch OpenshiftAzure True nc body)"
    and delete: "\<And>key. keeps P (cl_delete AKS key)"
    and apply_aks: "\<And>n nc hcp s. keeps P (createOrUpdate AKS (new_aks_node_class n) (aks_mutate nc hcp s))"
  shows "keeps P (azure_Reconcile ns key)"
proof -
  have "keeps P (azure_reconcileLive ns nc)" for nc
    unfolding azure_reconcileLive_def azure_reconcileStatus_def reconcileAKSNodeClass_def Let_def
    by (intro hoare_intros reads apply_aks status)
  moreover have "keeps P (azure_reconcileDelete nc)" for nc
    unfolding azure_reconcileDelete_def by (intro hoare_intros delete patch) simp_all
  ultimately show ?thesis
    unfolding azure_Reconcile_def by (intro hoare_intros reads patch) simp_all
qed

lemma azure_Reconcile_keeps:
  assumes flt: "\<And>w fs. P w \<Longrightarrow> P (w\<lparr>api_faults := fs\<rparr>)"
    and "\<And>nc nc'. keeps P (cl_patch OpenshiftAzure True nc (finalizers_body nc'))"
    and "\<And>nc body. keeps P (cl_status_patch OpenshiftAzure True nc body)"
    and "\<And>key. keeps P (cl_delete AKS key)"
    and "\<And>n nc hcp s. keeps P (createOrUpdate AKS (new_aks_node_class n) (aks_mutate nc hcp s))"
  shows "keeps P (azure_Reconcile ns key)"
proof -
  have "keeps P (GetUserDataSecret ns n)" "keeps P (GetHostedControlPlane ns)" for n
    unfolding GetUserDataSecret_def GetHostedControlPlane_def Let_def by (intro hoare_intros keeps_cl_list; simp add: flt)+
  then show ?thesis
    by (intro azure_Reconcile_keeps' assms keeps_cl_get) simp_all
qed

lemma azure_Reconcile_reads:
  "w_hcps (snd (azure_Reconcile ns key w)) = w_hcps w \<and> w_secrets (snd (azure_Reconcile ns key w)) = w_secrets w"
proof -
  have "keeps (\<lambda>v. w_hcps v = w_hcps w \<and> w_secrets v = w_secrets w) (azure_Reconcile ns key)"
    by (rule azure_Reconcile_keeps, simp) (intro openshiftAzure.frame aks.frame; simp)+
  from keepsD [OF this] show ?thesis by simp
qed

lemma azure_wf_write:
  assumes "azure_wf w" "find_obj (obj_key nc) (w_openshiftAzure w) = Some old" "obj_key new = obj_key old"
  shows "azure_wf (w_openshiftAzure_update (put_obj new) w)" "azure_wf (w_openshiftAzure_update (commit_obj new) w)"
proof -
  have "namespace new = []"
    using assms find_obj_Some [OF assms(2)] by (auto simp: azure_wf_def obj_key_def)
  with assms(1) show "azure_wf (w_openshiftAzure_update (put_obj new) w)" "azure_wf (w_openshiftAzure_update (commit_obj new) w)"
    by (auto simp: azure_wf_def dest!: set_put_obj set_commit_obj)
qed

lemma azure_wf_reconcile: "azure_wf w \<Longrightarrow> azure_wf (snd (azure_Reconcile ns key w))"
proof (rule keepsD [of azure_wf], rule azure_Reconcile_keeps)
  fix nc nc' :: openshift_azure_node_class
  show "keeps azure_wf (cl_patch OpenshiftAzure True nc (finalizers_body nc'))"
  proof (rule keepsI)
    fix w :: world
    assume wf: "azure_wf w"
    show "azure_wf (snd (cl_patch OpenshiftAzure True nc (finalizers_body nc') w))"
    proof (cases rule: openshiftAzure.patch_cases [of True nc "finalizers_body nc'" w])
      case (patched old new fs)
      then have "obj_key new = obj_key old"
        by (simp add: openshiftAzure.keep_key finalizers_body_def)
      with patched wf azure_wf_write(2) [of "w\<lparr>api_faults := fs\<rparr>" nc old new] show ?thesis by simp
    qed (use wf in simp)
  qed
next
  fix nc :: openshift_azure_node_class and body
  show "keeps azure_wf (cl_status_patch OpenshiftAzure True nc body)"
  proof (rule keepsI)
    fix w :: world
    assume wf: "azure_wf w"
    show "azure_wf (snd (cl_status_patch OpenshiftAzure True nc body w))"
    proof (cases rule: openshiftAzure.status_patch_cases [of True nc body w])
      case (patched old new fs)
      then have "obj_key new = obj_key old"
        by (simp add: openshiftAzure.keep_key)
      with patched wf azure_wf_write(1) [of "w\<lparr>api_faults := fs\<rparr>" nc old new] show ?thesis by simp
    qed (use wf in simp)
  qed
next
  fix key
  show "keeps azure_wf (cl_delete AKS key)"
  proof (rule keepsI)
    fix w :: world
    assume wf: "azure_wf w"
    show "azure_wf (snd (cl_delete AKS key w))"
    proof (cases rule: aks.delete_cases [of key w])
      case (deleted old fs)
      have "distinct (map c_type (akc_conditions a))" if "a \<in> set (delete_obj (api_now w) key (w_aks w))" for a
        using that wf deleted(1) find_obj_Some [of key "w_aks w" old]
        by (auto simp: azure_wf_def delete_obj_def split: if_splits dest!: set_put_obj)
      with deleted wf show ?thesis by (simp add: azure_wf_def)
    qed (use wf in simp)
  qed
next
  fix n nc hcp s
  show "keeps azure_wf (createOrUpdate AKS (new_aks_node_class n) (aks_mutate nc hcp s))"
  proof (rule aks.keeps_createOrUpdate)
    fix w :: world and m
    assume "azure_wf w" "aks_mutate nc hcp s (new_aks_node_class n) = Inr m"
    with aks_mutate_fields(2) [of nc hcp s "new_aks_node_class n" m]
    show "azure_wf (k_upd AKS (\<lambda>objs. objs @ [m\<lparr>resourceVersion := 1, deletionTimestamp := None\<rparr>]) w)"
      by (auto simp: azure_wf_def)
  next
    fix w :: world and existing old m
    assume "azure_wf w" "find_obj (obj_key (new_aks_node_class n)) (k_objs AKS w) = Some old"
    then show "azure_wf (k_upd AKS (commit_obj ((k_keepStatus AKS old m)\<lparr>resourceVersion := Suc (resourceVersion old)\<rparr>)) w)"
      using find_obj_Some [of "obj_key (new_aks_node_class n)" "w_aks w" old]
      by (auto simp: azure_wf_def AKS_def dest!: set_commit_obj)
  qed simp
qed simp

section \<open>A reconcile that succeeds without a write rests\<close>

lemma hcp_not_found:
  assumes "GetHostedControlPlane ns w = (Inl e, w')" "errors_is e ErrHostedControlPlaneNotFound"
  shows "filter (\<lambda>h. namespace h = ns) (w_hcps w) = []"
  using assms
  by (cases rule: cl_list_cases [of HCPs "\<lambda>o'. namespace o' = ns" w])
    (auto simp: GetHostedControlPlane_def io_simps ErrHostedControlPlaneNotFound_def split: list.splits)

lemma user_data_not_found:
  assumes "GetUserDataSecret ns n w = (Inl e, w')" "errors_is e ErrUserDataSecretNotFound"
  shows "filter (user_secret ns n) (w_secrets w) = []"
proof -
  have eq: "filter (is_user_data_secret ns n) (filter (\<lambda>s. namespace s = ns \<and> karpenterSecretSelector s) ss) =
      filter (user_secret ns n) ss" for ss
    by (simp add: conj_commute conj_left_commute)
  show ?thesis
    using assms
    by (cases rule: cl_list_cases [of Secrets "\<lambda>s. namespace s = ns \<and> karpenterSecretSelector s" w])
      (auto simp: GetUserDataSecret_def io_simps ErrUserDataSecretNotFound_def Let_def eq simp del: filter_filter split: list.splits)
qed

lemma user_data_found:
  assumes "GetUserDataSecret ns n w = (Inr s, w')"
  shows "filter (user_secret ns n) (w_secrets w) = [s] \<and> (\<exists>fs. w' = w\<lparr>api_faults := fs\<rparr>)"
proof -
  have eq: "filter (is_user_data_secret ns n) (filter (\<lambda>s. namespace s = ns \<and> karpenterSecretSelector s) ss) =
      filter (user_secret ns n) ss" for ss
    by (simp add: conj_commute conj_left_commute)
  show ?thesis
    using assms
    by (cases rule: cl_list_cases [of Secrets "\<lambda>s. namespace s = ns \<and> karpenterSecretSelector s" w])
      (auto simp: GetUserDataSecret_def io_simps Let_def eq simp del: filter_filter split: list.splits)
qed

text \<open>A successful \<open>createOrUpdate\<close> changes the object of its key, or the object was what the mutation makes.\<close>

lemma aks_applied:
  assumes run: "createOrUpdate AKS (new_aks_node_class n) f w = (Inr (op, x), w')" and honest: "honest w"
    and same: "find_obj ([], n) (w_aks w') = find_obj ([], n) (w_aks w)"
  shows "\<exists>a fs. find_obj ([], n) (w_aks w) = Some a \<and> f a = Inr x \<and> norm_aks_node_class a = norm_aks_node_class x \<and>
    w' = w\<lparr>api_faults := fs\<rparr>"
proof (cases rule: cl_get_cases [of AKS "([], n)" w])
  case (fault e fs)
  have "\<not> is_not_found (ApiErr e)"
  proof
    assume nf: "is_not_found (ApiErr e)"
    with get_error_honest [OF honest fault] have none: "find_obj ([], n) (w_aks w) = None" by simp
    from run fault nf obtain m where m: "f (new_aks_node_class n) = Inr m" "obj_key m = ([], n)"
      and cre: "cl_create AKS m (w\<lparr>api_faults := fs\<rparr>) = (Inr x, w')"
      by (auto simp: createOrUpdate_def io_simps mutate_obj_def split: sum.splits if_splits prod.splits)
    with none same show False
      by (cases rule: aks.create_cases [of m "w\<lparr>api_faults := fs\<rparr>"]) (auto simp: find_obj_append)
  qed
  with run fault show ?thesis by (simp add: createOrUpdate_def io_simps)
next
  case (missing fs)
  with run obtain m where m: "f (new_aks_node_class n) = Inr m" "obj_key m = ([], n)"
    and cre: "cl_create AKS m (w\<lparr>api_faults := fs\<rparr>) = (Inr x, w')"
    by (auto simp: createOrUpdate_def io_simps mutate_obj_def split: sum.splits if_splits prod.splits)
  with missing(2) same show ?thesis
    by (cases rule: aks.create_cases [of m "w\<lparr>api_faults := fs\<rparr>"]) (auto simp: find_obj_append)
next
  case (found a fs)
  with run obtain m where m: "f a = Inr m" "obj_key m = ([], n)"
    by (auto simp: createOrUpdate_def io_simps mutate_obj_def split: sum.splits if_splits)
  show ?thesis
  proof (cases "norm_aks_node_class a = norm_aks_node_class m")
    case True
    with run found m show ?thesis
      by (auto simp: createOrUpdate_def io_simps mutate_obj_def AKS_def)
  next
    case False
    with run found m have upd: "cl_update AKS m (w\<lparr>api_faults := fs\<rparr>) = (Inr x, w')"
      by (auto simp: createOrUpdate_def io_simps mutate_obj_def AKS_def split: prod.splits sum.splits)
    show ?thesis
    proof (cases rule: aks.update_cases [of m "w\<lparr>api_faults := fs\<rparr>"])
      case (updated old new fs')
      have "obj_key new = ([], n)" "resourceVersion new = Suc (resourceVersion a)" "old = a"
        using updated(1,4) found(2) m(2) by (simp_all add: aks.keep_key)
      moreover from this(2) have "new \<noteq> a" by force
      moreover have "w_aks w' = commit_obj new (w_aks w)"
        using updated(5) upd by auto
      ultimately show ?thesis
        using found(2) same by (auto simp: find_commit_obj split: if_splits)
    qed (use upd in simp)
  qed
qed

text \<open>A status patch raises the version of the NodeClass.\<close>

lemma status_patch_noticed:
  assumes "cl_status_patch OpenshiftAzure True nc body w = (Inr x, w')" "namespace nc = []"
  shows "find_obj ([], name nc) (w_openshiftAzure w') \<noteq> find_obj ([], name nc) (w_openshiftAzure w)"
proof (cases rule: openshiftAzure.status_patch_cases [of True nc body w])
  case (patched old new fs)
  have key: "obj_key nc = ([], name nc)"
    using assms(2) by (simp add: obj_key_def)
  have "obj_key new = ([], name nc)" "resourceVersion new = Suc (resourceVersion old)"
    using patched(1,3) find_obj_Some key by (fastforce simp: openshiftAzure.keep_key)+
  moreover from this(2) have "new \<noteq> old" by force
  ultimately show ?thesis
    using patched(1,4) assms(1) key by auto
qed (use assms in simp)

lemma patch_noticed:
  assumes "cl_patch OpenshiftAzure True nc (finalizers_body nc') w = (Inr x, w')" "namespace nc = []"
    and "find_obj ([], name nc) (w_openshiftAzure w) = Some nc"
  shows "find_obj ([], name nc) (w_openshiftAzure w') \<noteq> Some nc \<and>
    (\<forall>y. find_obj ([], name nc) (w_openshiftAzure w') = Some y \<longrightarrow> resourceVersion nc < resourceVersion y) \<and>
    namespace x = [] \<and> name x = name nc"
proof (cases rule: openshiftAzure.patch_cases [of True nc "finalizers_body nc'" w])
  case (patched old new fs)
  have key: "obj_key nc = ([], name nc)"
    using assms(2) by (simp add: obj_key_def)
  have new: "obj_key new = ([], name nc)" "resourceVersion new = Suc (resourceVersion nc)" "old = nc" "x = new"
    using patched assms(1,3) key by (auto simp: openshiftAzure.keep_key finalizers_body_def)
  moreover from new(2) have "new \<noteq> nc" by force
  ultimately show ?thesis
    using patched(5) assms(1,3) by (auto simp: find_commit_obj obj_key_def)
qed (use assms in simp)

text \<open>From then on the version only grows.\<close>

definition version_above :: "object_key \<Rightarrow> nat \<Rightarrow> world \<Rightarrow> bool" where
  "version_above key v w \<longleftrightarrow> (\<forall>x. find_obj key (w_openshiftAzure w) = Some x \<longrightarrow> v < resourceVersion x)"

lemma version_above_live: "keeps (version_above key v) (azure_reconcileLive ns nc)"
proof -
  have flt: "version_above key v (w\<lparr>api_faults := fs\<rparr>) = version_above key v w" for w fs
    by (simp add: version_above_def)
  have status: "keeps (version_above key v) (cl_status_patch OpenshiftAzure True nc body)" for body
  proof (rule keepsI)
    fix w assume above: "version_above key v w"
    show "version_above key v (snd (cl_status_patch OpenshiftAzure True nc body w))"
    proof (cases rule: openshiftAzure.status_patch_cases [of True nc body w])
      case (patched old new fs)
      then have "obj_key new = obj_key old" "resourceVersion new = Suc (resourceVersion old)" "obj_key old = obj_key nc"
        by (auto simp: openshiftAzure.keep_key dest: find_obj_Some)
      with patched above show ?thesis
        by (auto simp: version_above_def)
    qed (use above flt in simp)
  qed
  have reads: "keeps (version_above key v) (GetUserDataSecret ns (name nc))" "keeps (version_above key v) (GetHostedControlPlane ns)"
    unfolding GetUserDataSecret_def GetHostedControlPlane_def Let_def by (intro hoare_intros keeps_cl_list; simp add: flt)+
  show ?thesis
    unfolding azure_reconcileLive_def azure_reconcileStatus_def reconcileAKSNodeClass_def Let_def
    by (intro hoare_intros reads status aks.frame) (simp_all add: version_above_def)
qed

lemma honest_reads: "keeps honest (GetHostedControlPlane ns)" "keeps honest (GetUserDataSecret ns n)"
  unfolding GetHostedControlPlane_def GetUserDataSecret_def Let_def by (intro hoare_intros honest_list; simp)+

lemma azure_status_ok:
  assumes run: "azure_reconcileStatus nc a w = (Inr u, w')" and ns: "namespace nc = []"
  shows "w_aks w' = w_aks w \<and>
    (find_obj ([], name nc) (w_openshiftAzure w') = find_obj ([], name nc) (w_openshiftAzure w) \<longrightarrow>
     SyncConditions (api_now w) (azs_conditions (anc_status nc)) (akc_conditions a) (generation nc) = azs_conditions (anc_status nc))"
proof -
  have "keeps (\<lambda>v. w_aks v = w_aks w) (azure_reconcileStatus nc a)"
    unfolding azure_reconcileStatus_def Let_def by (intro hoare_intros openshiftAzure.frame) simp_all
  from keepsD [OF this, of w] run have aks: "w_aks w' = w_aks w" by simp
  show ?thesis
  proof (cases "SyncConditions (api_now w) (azs_conditions (anc_status nc)) (akc_conditions a) (generation nc) = azs_conditions (anc_status nc)")
    case False
    with run obtain body x where "cl_status_patch OpenshiftAzure True nc body w = (Inr x, w')"
      by (auto simp: azure_reconcileStatus_def nowE_def bindE_run wrapE_run Let_def split: prod.splits sum.splits)
    with status_patch_noticed [OF _ ns] aks show ?thesis by blast
  qed (use aks in simp)
qed

lemma azure_live_rests:
  assumes run: "azure_reconcileLive ns nc w = (Inr r, w')" and wf: "azure_wf w" and honest: "honest w"
    and nc: "find_obj ([], name nc) (w_openshiftAzure w) = Some nc" "time_is_zero (deletionTimestamp nc)" "ContainsFinalizer nc azure_finalizer"
    and same: "find_obj ([], name nc) (w_openshiftAzure w') = Some nc" "find_obj ([], name nc) (w_aks w') = find_obj ([], name nc) (w_aks w)"
  shows "azure_rest ns ([], name nc) w"
proof -
  let ?key = "([], name nc)"
  have ns: "namespace nc = []"
    using find_obj_Some [OF nc(1)] wf by (simp add: azure_wf_def)
  have settled: "azure_rest ns ?key w"
    if "azure_settled nc (find_obj ?key (w_aks w)) (filter (\<lambda>h. namespace h = ns) (w_hcps w)) (filter (user_secret ns (name nc)) (w_secrets w))"
    using that nc(1) by (simp add: azure_rest_def)
  show ?thesis
  proof (cases "GetHostedControlPlane ns w")
    case (Pair hr w1)
    show ?thesis
    proof (cases hr)
      case (Inl e)
      with Pair run have "errors_is e ErrHostedControlPlaneNotFound"
        by (auto simp: azure_reconcileLive_def handleE_run split: if_splits)
      with Pair Inl hcp_not_found have "filter (\<lambda>h. namespace h = ns) (w_hcps w) = []" by blast
      with nc(2,3) show ?thesis
        by (intro settled) (simp add: azure_settled_def)
    next
      case (Inr hcp)
      obtain fs where hcp: "filter (\<lambda>h. namespace h = ns) (w_hcps w) = [hcp]" "w1 = w\<lparr>api_faults := fs\<rparr>"
        using Pair Inr by (cases rule: GetHostedControlPlane_cases [of ns w]) auto
      have honest1: "honest w1"
        using keepsD [OF honest_reads(1) honest, of ns] Pair by simp
      show ?thesis
      proof (cases "GetUserDataSecret ns (name nc) w1")
        case sec: (Pair sr w2)
        show ?thesis
        proof (cases sr)
          case (Inl e)
          with Pair Inr sec run have "errors_is e ErrUserDataSecretNotFound"
            by (auto simp: azure_reconcileLive_def handleE_run \<open>hr = Inr hcp\<close> split: if_splits)
          with sec Inl user_data_not_found have "filter (user_secret ns (name nc)) (w_secrets w1) = []" by blast
          with hcp nc(2,3) show ?thesis
            by (intro settled) (simp add: azure_settled_def)
        next
          case s: (Inr s)
          with sec user_data_found obtain fs' where secret: "filter (user_secret ns (name nc)) (w_secrets w) = [s]" "w2 = w1\<lparr>api_faults := fs'\<rparr>"
            using hcp(2) by fastforce
          have w2: "w_aks w2 = w_aks w" "w_openshiftAzure w2 = w_openshiftAzure w" "honest w2"
            using keepsD [OF honest_reads(2) honest1, of ns "name nc"] sec secret(2) hcp(2) by simp_all
          from run Pair Inr sec s obtain u op a w3 where
            applied: "createOrUpdate AKS (new_aks_node_class (name nc)) (aks_mutate nc hcp s) w2 = (Inr (op, a), w3)"
            and status: "azure_reconcileStatus nc a w3 = (Inr u, w')"
            by (auto simp: azure_reconcileLive_def reconcileAKSNodeClass_def handleE_run bindE_run wrapE_run split: prod.splits sum.splits)
          have "find_obj ?key (w_aks w3) = find_obj ?key (w_aks w2)"
            using azure_status_ok [OF status ns] same(2) w2(1) by simp
          from aks_applied [OF applied w2(3) this] obtain a0 fs'' where a0: "find_obj ?key (w_aks w) = Some a0"
            "aks_mutate nc hcp s a0 = Inr a" "norm_aks_node_class a0 = norm_aks_node_class a" "w3 = w2\<lparr>api_faults := fs''\<rparr>"
            using w2(1) by auto
          have conds: "akc_conditions a = akc_conditions a0"
            using aks_mutate_fields(2) [OF a0(2)] .
          have "SyncConditions (api_now w3) (azs_conditions (anc_status nc)) (akc_conditions a0) (generation nc) = azs_conditions (anc_status nc)"
            using azure_status_ok [OF status ns] same(1) nc(1) a0(4) w2(2) conds by simp
          moreover have "distinct (map c_type (akc_conditions a0))"
            using wf find_obj_Some [OF a0(1)] by (simp add: azure_wf_def)
          ultimately have "SyncConditions t (azs_conditions (anc_status nc)) (akc_conditions a0) (generation nc) = azs_conditions (anc_status nc)" for t
            using sync_again by metis
          with a0 have "azure_synced nc hcp s a0"
            unfolding azure_synced_def by blast
          with hcp(1) secret(1) a0(1) nc(2,3) show ?thesis
            by (intro settled) (simp add: azure_settled_def)
        qed
      qed
    qed
  qed
qed

lemma azure_reconcile_rests:
  assumes run: "azure_Reconcile ns key w = (Inr r, w')" and wf: "azure_wf w" and honest: "honest w" and quiet: "key \<notin> azure_own w w'"
  shows "azure_rest ns key w"
proof (cases rule: cl_get_cases [of OpenshiftAzure key w])
  case (fault e fs)
  with run have "is_not_found (ApiErr e)"
    by (auto simp: azure_Reconcile_def handleE_run split: if_splits)
  with get_error_honest [OF honest fault] have "find_obj key (w_openshiftAzure w) = None" by simp
  then show ?thesis by (simp add: azure_rest_def)
next
  case (missing fs)
  then show ?thesis by (simp add: azure_rest_def)
next
  case (found nc fs)
  let ?w = "w\<lparr>api_faults := fs\<rparr>"
  have nc: "find_obj key (w_openshiftAzure w) = Some nc" using found(2) by simp
  have key: "key = ([], name nc)" "namespace nc = []" "obj_key nc = ([], name nc)"
    using find_obj_Some [OF nc] wf by (auto simp: azure_wf_def obj_key_def)
  have same: "find_obj ([], name nc) (w_openshiftAzure w') = Some nc" "find_obj ([], name nc) (w_aks w') = find_obj ([], name nc) (w_aks w)"
    using quiet nc by (auto simp: azure_own_def key(1))
  have honest': "honest ?w"
    using keepsD [OF honest_get honest, of OpenshiftAzure key] found(1) by simp
  show ?thesis
  proof (cases "time_is_zero (deletionTimestamp nc)")
    case False
    with run found obtain u where del: "azure_reconcileDelete nc ?w = (Inr u, w')"
      by (auto simp: azure_Reconcile_def io_simps split: prod.splits sum.splits)
    show ?thesis
    proof (cases rule: aks.delete_cases [of "([], name nc)" ?w])
      case (failed e fs')
      let ?v = "w\<lparr>api_faults := fs'\<rparr>"
      from del failed have nf: "is_not_found e"
        by (auto simp: azure_reconcileDelete_def handleE_run split: if_splits)
      with aks.delete_error_honest [OF honest' failed] have gone: "find_obj ([], name nc) (w_aks w) = None" by simp
      have "\<not> ContainsFinalizer nc azure_finalizer"
      proof
        assume "ContainsFinalizer nc azure_finalizer"
        with del failed nf obtain x where "cl_patch OpenshiftAzure True nc (finalizers_body (RemoveFinalizer azure_finalizer nc)) ?v = (Inr x, w')"
          by (auto simp: azure_reconcileDelete_def handleE_run bindE_run wrapE_run split: prod.splits sum.splits)
        from patch_noticed [OF this key(2)] nc key(1) same(1) show False by simp
      qed
      with gone False nc show ?thesis
        by (simp add: azure_rest_def azure_settled_def key(1))
    next
      case (deleted old fs')
      let ?v = "w\<lparr>api_faults := fs'\<rparr>"
      have "w' = w_aks_update (delete_obj (api_now ?w) ([], name nc)) ?v"
        using del deleted by (simp add: azure_reconcileDelete_def handleE_run)
      then have "find_obj ([], name nc) (delete_obj (api_now w) ([], name nc) (w_aks w)) = Some old"
        using same(2) deleted(1) by simp
      moreover have "old\<lparr>deletionTimestamp := x, resourceVersion := Suc (resourceVersion old)\<rparr> \<noteq> old" for x
      proof
        assume "old\<lparr>deletionTimestamp := x, resourceVersion := Suc (resourceVersion old)\<rparr> = old"
        then have "resourceVersion (old\<lparr>deletionTimestamp := x, resourceVersion := Suc (resourceVersion old)\<rparr>) = resourceVersion old"
          by (simp only:)
        then show False by simp
      qed
      ultimately have False
        using deleted(1) find_obj_Some [of "([], name nc)" "w_aks w" old] by (auto simp: delete_obj_def split: if_splits)
      then show ?thesis ..
    qed
  next
    case True
    show ?thesis
    proof (cases "ContainsFinalizer nc azure_finalizer")
      case fin: True
      with run found True have "azure_reconcileLive ns nc ?w = (Inr r, w')"
        by (simp add: azure_Reconcile_def io_simps)
      from azure_live_rests [OF this _ honest' _ True fin same(1)] wf nc same(2) show ?thesis
        by (simp add: key(1))
    next
      case False
      with run found True obtain x w1 where adopt:
        "cl_patch OpenshiftAzure True nc (finalizers_body (AddFinalizer azure_finalizer nc)) ?w = (Inr x, w1)"
        and live: "azure_reconcileLive ns x w1 = (Inr r, w')"
        by (auto simp: azure_Reconcile_def io_simps split: prod.splits sum.splits)
      have "version_above ([], name nc) (resourceVersion nc) w1"
        using patch_noticed [OF adopt key(2)] nc key(1) by (simp add: version_above_def)
      with keepsD [OF version_above_live, of _ _ w1 ns x] live have "version_above ([], name nc) (resourceVersion nc) w'" by fastforce
      with same(1) show ?thesis by (simp add: version_above_def)
    qed
  qed
qed

lemma azure_rest_same:
  assumes "find_obj key (w_openshiftAzure w') = find_obj key (w_openshiftAzure w)" "find_obj key (w_aks w') = find_obj key (w_aks w)"
    and "w_hcps w' = w_hcps w" "w_secrets w' = w_secrets w"
  shows "azure_rest ns key w' = azure_rest ns key w"
  by (simp add: azure_rest_def assms split: option.split)

text \<open>A namespace has no slash, so the annotation of a user data Secret splits at the right place.\<close>

definition azure_world_ok :: "string \<Rightarrow> world \<Rightarrow> bool" where
  "azure_world_ok ns w \<longleftrightarrow> azure_wf w \<and> CHR ''/'' \<notin> set ns"

interpretation azure_queue: level_triggered "azure_controller ns" "azure_world_ok ns" "azure_rest ns" for ns
proof
  fix w ev
  assume "azure_world_ok ns w" "ec_possible (azure_controller ns) ev w"
  then show "azure_world_ok ns (ec_store (azure_controller ns) ev w)"
    by (simp add: azure_world_ok_def azure_wf_store)
next
  fix w w'
  assume "azure_world_ok ns w" "ec_elsewhere (azure_controller ns) w w'"
  then show "azure_world_ok ns w'"
    by (simp add: azure_world_ok_def azure_wf_def azure_elsewhere_def)
next
  fix w k
  assume "azure_world_ok ns w"
  then show "azure_world_ok ns (snd (ec_reconcile (azure_controller ns) k w))"
    by (simp add: azure_world_ok_def azure_wf_reconcile)
next
  fix w ev k
  assume "azure_world_ok ns w" "ec_possible (azure_controller ns) ev w" "azure_rest ns k w"
    "k \<notin> ec_enqueue (azure_controller ns) ev (ec_store (azure_controller ns) ev w)"
  then show "azure_rest ns k (ec_store (azure_controller ns) ev w)"
    by (simp add: azure_world_ok_def azure_rest_store)
next
  fix k w w'
  assume "azure_rest ns k w" "ec_elsewhere (azure_controller ns) w w'"
  then show "azure_rest ns k w'"
    using azure_rest_same [of k w' w ns] by (simp add: azure_elsewhere_def)
next
  fix w k r w' k'
  assume "ec_reconcile (azure_controller ns) k w = (r, w')" "azure_rest ns k' w" "k' \<notin> ec_own (azure_controller ns) w w'"
  then show "azure_rest ns k' w'"
    using azure_rest_same [of k' w' w ns] azure_Reconcile_reads [of ns k w] by (simp add: azure_own_def)
next
  fix w k result w'
  assume a: "azure_world_ok ns w" "honest w" "ec_reconcile (azure_controller ns) k w = (Inr result, w')"
    "k \<notin> ec_own (azure_controller ns) w w'"
  then have "azure_rest ns k w"
    using azure_reconcile_rests [of ns k w result w'] by (simp add: azure_world_ok_def)
  with a show "azure_rest ns k w'"
    using azure_rest_same [of k w' w ns] azure_Reconcile_reads [of ns k w] by (simp add: azure_own_def)
qed

section \<open>Properties\<close>

abbreviation azure_queue_step :: "string \<Rightarrow> world \<times> object_key set \<Rightarrow> world \<times> object_key set \<Rightarrow> bool" where
  "azure_queue_step ns \<equiv> queue_step (azure_controller ns)"

text \<open>
  C20: no wakeup is lost. The controller starts with every NodeClass in its queue. After any
  interleaving of changes of NodeClasses, AKSNodeClasses, HostedControlPlanes and Secrets with reconciles that
  the API may fail at any call, a NodeClass that is not in the queue has nothing left to do: a
  reconcile without faults, at any time, would change nothing. So when its control plane and user
  data Secret are there and no upgrade holds its release back, its AKSNodeClass has
  the desired spec.
\<close>

theorem azure_no_lost_wakeup:
  assumes run: "(azure_queue_step ns)\<^sup>*\<^sup>* (w0, q0) (w, q)"
    and start: "azure_wf w0" "CHR ''/'' \<notin> set ns" "(\<lambda>nc. ([], name nc)) ` set (w_openshiftAzure w0) \<subseteq> q0"
    and idle: "([], n) \<notin> q"
  shows "azure_Reconcile ns ([], n) (w\<lparr>api_faults := [], api_now := t\<rparr>) = (Inr Result0, w\<lparr>api_faults := [], api_now := t\<rparr>) \<and>
    (\<forall>nc hcp s i. azure_ready ns nc hcp s (w\<lparr>api_faults := []\<rparr>) \<longrightarrow> name nc = n \<longrightarrow>
       marketplaceImageFromUserDataSecret s = Inr i \<longrightarrow> \<not> WaitsForControlPlaneUpgrade hcp (az_version (anc_spec nc)) \<longrightarrow>
       (\<exists>a. find_obj ([], n) (w_aks w) = Some a \<and>
          akc_spec a = (desired_aks_spec nc s i)\<lparr>ak_tags := ak_tags (akc_spec a)\<rparr> \<and>
          sm_norm (ak_tags (akc_spec a)) = sm_norm (az_tags (anc_spec nc))))"
proof -
  have "k \<in> q0 \<or> azure_rest ns k w0" for k
  proof (cases "find_obj k (w_openshiftAzure w0)")
    case (Some nc)
    with find_obj_Some [OF Some] start show ?thesis by (auto simp: azure_wf_def obj_key_def)
  qed (simp add: azure_rest_def)
  then have "azure_world_ok ns w \<and> (([], n) \<in> q \<or> azure_rest ns ([], n) w)"
    using azure_queue.no_lost_wakeup [OF run] start(1,2) by (simp add: azure_world_ok_def)
  with idle have wf: "azure_wf w" and rest: "azure_rest ns ([], n) w"
    by (simp_all add: azure_world_ok_def)
  have "azure_rest ns ([], n) (w\<lparr>api_faults := [], api_now := t\<rparr>)" "azure_wf (w\<lparr>api_faults := [], api_now := t\<rparr>)"
    using azure_rest_same [of "([], n)" "w\<lparr>api_faults := [], api_now := t\<rparr>" w ns] rest wf by (simp_all add: azure_wf_def)
  then have "azure_Reconcile ns ([], n) (w\<lparr>api_faults := [], api_now := t\<rparr>) = (Inr Result0, w\<lparr>api_faults := [], api_now := t\<rparr>)"
    by (intro azure_rest_noop) simp_all
  moreover have "\<exists>a. find_obj ([], n) (w_aks w) = Some a \<and>
      akc_spec a = (desired_aks_spec nc s i)\<lparr>ak_tags := ak_tags (akc_spec a)\<rparr> \<and>
      sm_norm (ak_tags (akc_spec a)) = sm_norm (az_tags (anc_spec nc))"
    if ready: "azure_ready ns nc hcp s (w\<lparr>api_faults := []\<rparr>)" "name nc = n" and i: "marketplaceImageFromUserDataSecret s = Inr i"
      and now: "\<not> WaitsForControlPlaneUpgrade hcp (az_version (anc_spec nc))" for nc hcp s i
  proof -
    from rest ready have "azure_settled nc (find_obj ([], n) (w_aks w)) [hcp] [s]"
      by (simp add: azure_rest_def azure_ready_def)
    then obtain a m where a: "find_obj ([], n) (w_aks w) = Some a" "aks_mutate nc hcp s a = Inr m"
      and norm: "norm_aks_node_class a = norm_aks_node_class m"
      using ready by (auto simp: azure_settled_def azure_ready_def azure_synced_def)
    from a(2) i now have m: "akc_spec m = desired_aks_spec nc s i"
      by (auto simp: aks_mutate_def reconcileAKSNodeClassRelease_def desired_aks_spec_def dest!: SetControllerReference_Inr(1))
    have "(akc_spec a)\<lparr>ak_tags := sm_norm (ak_tags (akc_spec a))\<rparr> = (akc_spec m)\<lparr>ak_tags := sm_norm (ak_tags (akc_spec m))\<rparr>"
      using arg_cong [OF norm, of akc_spec] by (simp add: norm_aks_node_class_def norm_meta_def)
    then have "akc_spec a = (akc_spec m)\<lparr>ak_tags := ak_tags (akc_spec a)\<rparr>"
      "sm_norm (ak_tags (akc_spec a)) = sm_norm (ak_tags (akc_spec m))"
      by (cases "akc_spec a"; cases "akc_spec m"; simp)+
    with a(1) m show ?thesis
      by (auto simp: desired_aks_spec_def aksNodeClassSpec_def)
  qed
  ultimately show ?thesis by blast
qed

lemma azure_Reconcile_honest: "honest w \<Longrightarrow> honest (snd (azure_Reconcile ns key w))"
  by (rule keepsD [of honest], rule azure_Reconcile_keeps')
    (simp_all add: openshiftAzure.honest_calls aks.honest_calls honest_reads)

text \<open>The demo NodeClass: one reconcile writes, the next finds nothing to do and leaves the queue without its key.\<close>

theorem azure_no_lost_wakeup_witness:
  "\<exists>w q. (azure_queue_step ''clusters-a'')\<^sup>*\<^sup>* (demo_azure_world, {([], ''default'')}) (w, q) \<and>
    w_aks w = [created_aks demo_azure demo_azure_secret demo_azure_image] \<and>
    azure_Reconcile ''clusters-a'' ([], ''default'') (w\<lparr>api_faults := [], api_now := 7\<rparr>) =
      (Inr Result0, w\<lparr>api_faults := [], api_now := 7\<rparr>)"
proof -
  let ?c = "azure_controller ''clusters-a''" and ?k = "([], ''default'')"
  have demo: "name demo_azure = ''default''" "distinct (map obj_key (w_openshiftAzure demo_azure_world))" "w_aks demo_azure_world = []"
    "namespace demo_azure = []" "w_openshiftAzure demo_azure_world = [demo_azure]" "honest demo_azure_world"
    "w_hcps demo_azure_world = [demo_upgrading]"
    by (simp_all add: demo_azure_def object_meta.defs zero_object_meta_def demo_azure_world_def empty_world_def)
  obtain w where first: "azure_Reconcile ''clusters-a'' ?k demo_azure_world = (Inr Result0, w)"
    and aks: "w_aks w = [created_aks demo_azure demo_azure_secret demo_azure_image]"
    and again: "\<And>t. azure_Reconcile ''clusters-a'' ?k (w\<lparr>api_now := t\<rparr>) = (Inr Result0, w\<lparr>api_now := t\<rparr>)"
    using azure_converges [OF demo_azure_ready demo(2) _ demo_azure_resolves] demo by auto
  have "honest w"
    using azure_Reconcile_honest [OF demo(6), of "''clusters-a''" ?k] first by simp
  have second: "azure_Reconcile ''clusters-a'' ?k w = (Inr Result0, w)"
    using again [of "api_now w"] by simp
  define q1 where "q1 = after_work ?c ?k (Inr Result0) demo_azure_world w {?k}"
  define q2 where "q2 = after_work ?c ?k (Inr Result0) w w q1"
  have "?k \<in> q1"
    by (simp add: q1_def after_work_def azure_own_def aks demo)
  have "queue_step ?c (demo_azure_world, {?k}) (w, q1)"
    unfolding q1_def by (rule queue_step.work) (simp_all add: first demo(6))
  moreover have "queue_step ?c (w, q1) (w, q2)"
    unfolding q2_def by (rule queue_step.work) (simp_all add: second \<open>honest w\<close> \<open>?k \<in> q1\<close>)
  ultimately have run: "(queue_step ?c)\<^sup>*\<^sup>* (demo_azure_world, {?k}) (w, q2)"
    by simp
  have "?k \<notin> q2"
    by (simp add: q2_def after_work_def azure_own_def Result0_def)
  with azure_no_lost_wakeup [OF run _ _ _ this, of 7] demo run aks show ?thesis
    by (fastforce simp: azure_wf_def)
qed

end
