(* ===== verification/Co_Queue.thy ===== *)
theory Co_Queue
  imports Work_Queue Watches
begin

text \<open>
  The ClusterOperator controller as an event-driven program, in the loop of \<open>Work_Queue\<close>: its report is not stale. A
  failed read of the operand is reported as Degraded and the reconcile succeeds, so it is the one report that may stay.
\<close>

section \<open>The controller\<close>

text \<open>ClusterOperators are cluster-scoped.\<close>

fun co_possible :: "co_change \<Rightarrow> co_world \<Rightarrow> bool" where
  "co_possible (KarpenterChange ev) w \<longleftrightarrow> event_possible ev (cw_karpenters w)"
| "co_possible (DeploymentChange ev) w \<longleftrightarrow> event_possible ev (cw_deployments w)"
| "co_possible (ClusterOperatorChange ev) w \<longleftrightarrow>
     event_possible ev (cw_clusterOperators w) \<and> (\<forall>co \<in> set (event_sides ev). namespace co = [])"

definition co_enqueue :: "co_controller_config \<Rightarrow> co_change \<Rightarrow> co_world \<Rightarrow> object_key set" where
  "co_enqueue cfg ch w = set (co_watches cfg (co_event ch))"

text \<open>A write of the ClusterOperator is an event of it.\<close>

definition co_own :: "co_world \<Rightarrow> co_world \<Rightarrow> object_key set" where
  "co_own w w' =
     (if find_obj ([], clusterOperatorName) (cw_clusterOperators w') \<noteq> find_obj ([], clusterOperatorName) (cw_clusterOperators w)
      then {([], clusterOperatorName)} else {})"

definition co_elsewhere :: "co_world \<Rightarrow> co_world \<Rightarrow> bool" where
  "co_elsewhere w w' \<longleftrightarrow>
     cw_karpenters w' = cw_karpenters w \<and> cw_deployments w' = cw_deployments w \<and> cw_clusterOperators w' = cw_clusterOperators w"

definition co_controller ::
  "condition_merge \<Rightarrow> (error \<Rightarrow> string) \<Rightarrow> co_controller_config \<Rightarrow> (co_world, object_key, co_change) event_controller" where
  "co_controller merge showErr cfg =
     \<lparr>ec_reconcile = (\<lambda>_. co_Reconcile merge showErr cfg), ec_possible = co_possible, ec_store = co_store,
      ec_enqueue = co_enqueue cfg, ec_own = co_own, ec_elsewhere = co_elsewhere\<rparr>"

lemma co_controller_simps [simp]:
  "ec_reconcile (co_controller merge showErr cfg) k = co_Reconcile merge showErr cfg"
  "ec_possible (co_controller merge showErr cfg) = co_possible" "ec_store (co_controller merge showErr cfg) = co_store"
  "ec_enqueue (co_controller merge showErr cfg) = co_enqueue cfg" "ec_own (co_controller merge showErr cfg) = co_own"
  "ec_elsewhere (co_controller merge showErr cfg) = co_elsewhere"
  by (simp_all add: co_controller_def)

section \<open>Reports\<close>

definition shows_report :: "co_condition list \<Rightarrow> co_world \<Rightarrow> bool" where
  "shows_report cs w \<longleftrightarrow>
     (\<forall>c \<in> set cs. \<exists>c'. findCondition (stored_conditions w) (coc_type c) = Some c' \<and>
        coc_status c' = coc_status c \<and> coc_reason c' = coc_reason c \<and> coc_message c' = coc_message c)"

text \<open>The report of the operand as the store has it, and that of a read that failed.\<close>

definition report_current :: "(error \<Rightarrow> string) \<Rightarrow> co_controller_config \<Rightarrow> co_world \<Rightarrow> bool" where
  "report_current showErr cfg w \<longleftrightarrow>
     (case fst (reported showErr cfg (w\<lparr>api_faults := []\<rparr>)) of Inl err \<Rightarrow> False | Inr cs \<Rightarrow> shows_report cs w)"

definition report_of_failed_read :: "co_controller_config \<Rightarrow> co_world \<Rightarrow> bool" where
  "report_of_failed_read cfg w \<longleftrightarrow> cc_unsupportedPlatform cfg = None \<and>
     (\<exists>reason \<in> {''KarpenterCheckFailed'', ''OperandCheckFailed''}. \<exists>m. shows_report (degradedConditions reason m) w)"

definition co_rest :: "(error \<Rightarrow> string) \<Rightarrow> co_controller_config \<Rightarrow> object_key \<Rightarrow> co_world \<Rightarrow> bool" where
  "co_rest showErr cfg k w \<longleftrightarrow> k = ([], clusterOperatorName) \<longrightarrow> report_current showErr cfg w \<or> report_of_failed_read cfg w"

text \<open>When the API does not lie, a reconcile reports what the store has unless a read failed.\<close>

lemma reported_honest:
  assumes "honest w" "reported showErr cfg w = (Inr cs, v)"
  shows "fst (reported showErr cfg (w\<lparr>api_faults := []\<rparr>)) = Inr cs \<or>
    cc_unsupportedPlatform cfg = None \<and> (\<exists>reason \<in> {''KarpenterCheckFailed'', ''OperandCheckFailed''}. \<exists>m. cs = degradedConditions reason m)"
proof (cases "cc_unsupportedPlatform cfg")
  case (Some platform)
  with assms(2) show ?thesis by (simp add: reported_def)
next
  case None
  have faultless: "cl_get K key (w\<lparr>api_faults := []\<rparr>) =
      (case find_obj key (k_objs K (w\<lparr>api_faults := []\<rparr>)) of None \<Rightarrow> Inl (ApiErr NotFound) | Some o' \<Rightarrow> Inr o', w\<lparr>api_faults := []\<rparr>)" for K :: "(co_world, 'a object_meta_scheme) kind" and key
    by (simp add: cl_get_def bindE_run split: option.split)
  note sim = reported_def operandConditions_def handleE_run faultless None
  let ?karp = "([], SingletonName)" and ?dep = "(cc_namespace cfg, ''karpenter'')"
  show ?thesis
  proof (cases rule: cl_get_cases [of CoKarpenters ?karp w])
    case (fault e fs)
    with get_error_honest [OF assms(1) fault] assms(2) show ?thesis
      by (auto simp: sim split: if_splits)
  next
    case (missing fs)
    with assms(2) show ?thesis by (auto simp: sim)
  next
    case (found karp fs)
    have honest: "honest (w\<lparr>api_faults := fs\<rparr>)"
      using keepsD [OF honest_get assms(1), of CoKarpenters ?karp] found(1) by simp
    show ?thesis
    proof (cases rule: cl_get_cases [of CoDeployments ?dep "w\<lparr>api_faults := fs\<rparr>"])
      case (fault e fs')
      with get_error_honest [OF honest fault] found assms(2) show ?thesis
        by (auto simp: sim split: if_splits)
    next
      case (missing fs')
      with found assms(2) show ?thesis by (auto simp: sim)
    next
      case deploy: (found d fs')
      with found assms(2) show ?thesis by (auto simp: sim split: if_splits)
    qed
  qed
qed

lemma co_reads: "cw_karpenters (snd (co_Reconcile merge showErr cfg w)) = cw_karpenters w \<and>
    cw_deployments (snd (co_Reconcile merge showErr cfg w)) = cw_deployments w"
proof -
  let ?P = "\<lambda>v. cw_karpenters v = cw_karpenters w \<and> cw_deployments v = cw_deployments w"
  have "keeps ?P apply_co"
    unfolding apply_co_def by (intro keeps_bindE keeps_api_call) (auto intro!: keepsI simp: modifyE_def)
  moreover have "keeps ?P (apply_co_status merge cs vs os)" for cs vs os
    unfolding apply_co_status_def by (intro keeps_bindE keeps_api_call) (auto intro!: keepsI simp: Let_def split: option.splits if_splits)
  ultimately have "keeps ?P (co_Reconcile merge showErr cfg)"
    unfolding co_Reconcile_def operandConditions_def applyStatus_def
    by (intro hoare_intros keeps_cl_get) auto
  from keepsD [OF this] show ?thesis by simp
qed

lemma reported_same:
  assumes "cw_karpenters w' = cw_karpenters w" "cw_deployments w' = cw_deployments w"
  shows "fst (reported showErr cfg (w'\<lparr>api_faults := []\<rparr>)) = fst (reported showErr cfg (w\<lparr>api_faults := []\<rparr>))"
  using assms
  by (simp add: reported_def operandConditions_def handleE_run cl_get_def bindE_run split: option.split)

lemma co_rest_same:
  assumes "find_obj ([], SingletonName) (cw_karpenters w') = find_obj ([], SingletonName) (cw_karpenters w)"
    and "find_obj (cc_namespace cfg, ''karpenter'') (cw_deployments w') = find_obj (cc_namespace cfg, ''karpenter'') (cw_deployments w)"
    and "find_obj ([], clusterOperatorName) (cw_clusterOperators w') = find_obj ([], clusterOperatorName) (cw_clusterOperators w)"
  shows "co_rest showErr cfg k w' = co_rest showErr cfg k w"
proof -
  have "fst (reported showErr cfg (w'\<lparr>api_faults := []\<rparr>)) = fst (reported showErr cfg (w\<lparr>api_faults := []\<rparr>))"
    using assms(1,2) by (simp add: reported_def operandConditions_def handleE_run cl_get_def bindE_run split: option.split)
  moreover have "stored_conditions w' = stored_conditions w"
    using assms(3) by (simp add: stored_conditions_def)
  then have "shows_report cs w' = shows_report cs w" for cs
    by (simp add: shows_report_def)
  ultimately show ?thesis
    by (simp add: co_rest_def report_current_def report_of_failed_read_def split: sum.split)
qed

lemma co_enqueues_one:
  assumes "co_possible ch w" "co_watches cfg (co_event ch) \<noteq> []"
  shows "([], clusterOperatorName) \<in> set (co_watches cfg (co_event ch))"
proof (cases ch)
  case (ClusterOperatorChange ev)
  with assms(2) have "name (event_object ev) = clusterOperatorName"
    by (simp add: filtered_def NewPredicateFuncs_def split: if_splits)
  moreover have "namespace (event_object ev) = []"
    using assms(1) ClusterOperatorChange event_object_side [of ev] by simp
  ultimately show ?thesis
    using ClusterOperatorChange
    by (cases ev) (auto simp: filtered_def NewPredicateFuncs_def EnqueueRequestForObject_def event_object_def obj_key_def)
qed (use assms(2) in \<open>auto simp: co_request_def split: if_splits\<close>)

lemma co_reconcile_rests:
  assumes "merge_contract merge" "honest w" "co_Reconcile merge showErr cfg w = (Inr r, w')"
  shows "co_rest showErr cfg k w'"
proof -
  obtain cs v p d where rep: "reported showErr cfg w = (Inr cs, v)" and four: "four_conditions cs p d"
    and v: "cw_clusterOperators v = cw_clusterOperators w" "api_now v = api_now w"
    using reported_four [of showErr cfg w] by blast
  from co_Reconcile_stores [OF assms(3,1) rep four v] have shown: "shows_report cs w'"
    unfolding shows_report_def by blast
  have "fst (reported showErr cfg (w'\<lparr>api_faults := []\<rparr>)) = fst (reported showErr cfg (w\<lparr>api_faults := []\<rparr>))"
    using co_reads [of merge showErr cfg w] assms(3) by (intro reported_same) simp_all
  with reported_honest [OF assms(2) rep] shown show ?thesis
    by (auto simp: co_rest_def report_current_def report_of_failed_read_def)
qed

interpretation co_queue: level_triggered "co_controller merge showErr cfg" "\<lambda>w. merge_contract merge" "co_rest showErr cfg"
  for merge showErr cfg
proof
  fix w ch k
  assume possible: "ec_possible (co_controller merge showErr cfg) ch w" and rest: "co_rest showErr cfg k w"
    and quiet: "k \<notin> ec_enqueue (co_controller merge showErr cfg) ch (ec_store (co_controller merge showErr cfg) ch w)"
  show "co_rest showErr cfg k (ec_store (co_controller merge showErr cfg) ch w)"
  proof (cases "k = ([], clusterOperatorName)")
    case True
    with quiet possible co_enqueues_one [of ch w cfg] have "co_watches cfg (co_event ch) = []"
      by (auto simp: co_enqueue_def)
    moreover have "name old = name new" if "ch = ClusterOperatorChange (UpdateEvent old new)" for old new
    proof -
      from possible that have "find_obj (obj_key new) (cw_clusterOperators w) = Some old" by simp
      from find_obj_Some [OF this] show ?thesis by (simp add: obj_key_def)
    qed
    ultimately have "co_same cfg (co_store ch w) w"
      by (rule co_unwatched)
    with rest co_rest_same [of "co_store ch w" w cfg showErr k] show ?thesis
      by (simp add: co_view_def)
  qed (simp add: co_rest_def)
next
  fix k w w'
  assume "co_rest showErr cfg k w" "ec_elsewhere (co_controller merge showErr cfg) w w'"
  then show "co_rest showErr cfg k w'"
    using co_rest_same [of w' w cfg showErr k] by (simp add: co_elsewhere_def)
next
  fix w k r w' k'
  assume "ec_reconcile (co_controller merge showErr cfg) k w = (r, w')" "co_rest showErr cfg k' w"
    "k' \<notin> ec_own (co_controller merge showErr cfg) w w'"
  then show "co_rest showErr cfg k' w'"
    using co_rest_same [of w' w cfg showErr k'] co_reads [of merge showErr cfg w]
    by (cases "k' = ([], clusterOperatorName)") (auto simp: co_own_def co_rest_def split: if_splits)
next
  fix w k result w'
  assume "merge_contract merge" "honest w" "ec_reconcile (co_controller merge showErr cfg) k w = (Inr result, w')"
  then show "co_rest showErr cfg k w'"
    by (auto intro: co_reconcile_rests)
qed

section \<open>Properties\<close>

abbreviation co_queue_step :: "condition_merge \<Rightarrow> (error \<Rightarrow> string) \<Rightarrow> co_controller_config \<Rightarrow>
    co_world \<times> object_key set \<Rightarrow> co_world \<times> object_key set \<Rightarrow> bool" where
  "co_queue_step merge showErr cfg \<equiv> queue_step (co_controller merge showErr cfg)"

text \<open>
  C19: the report of the ClusterOperator is not stale. The controller starts with its ClusterOperator in the queue. After any
  interleaving of changes of Karpenter resources, Deployments and ClusterOperators with reconciles that the API may fail at
  any call, while the ClusterOperator is not in the queue its four conditions are those of the operand as the store has it, with
  status, reason and message; the one exception is the Degraded report of a read that failed, which names that read.
\<close>

theorem cluster_operator_not_stale:
  assumes run: "(co_queue_step merge showErr cfg)\<^sup>*\<^sup>* (w0, q0) (w, q)" and "merge_contract merge"
    and start: "([], clusterOperatorName) \<in> q0" and idle: "([], clusterOperatorName) \<notin> q"
  shows "report_current showErr cfg w \<or> report_of_failed_read cfg w"
proof -
  have "k \<in> q0 \<or> co_rest showErr cfg k w0" for k
    using start by (auto simp: co_rest_def)
  with co_queue.no_lost_wakeup [OF run, of "([], clusterOperatorName)"] assms(2) idle show ?thesis
    by (simp add: co_rest_def)
qed

definition demo_reporter :: co_controller_config where
  "demo_reporter = \<lparr>cc_namespace = ''openshift-karpenter'', cc_releaseVersion = ''4.20.1'', cc_additionalRelatedObjects = [],
     cc_unsupportedPlatform = None\<rparr>"

definition demo_rolled_out :: co_world where
  "demo_rolled_out = \<lparr>api_faults = [], api_now = 7,
     cw_karpenters = [object_meta.extend (zero_object_meta\<lparr>name := SingletonName\<rparr>) \<lparr>karp_logLevel = []\<rparr>],
     cw_deployments = [object_meta.extend (zero_object_meta\<lparr>namespace := ''openshift-karpenter'', name := ''karpenter''\<rparr>)
       \<lparr>dst_replicas = 1, dst_updatedReplicas = 1, dst_availableReplicas = 1\<rparr>],
     cw_clusterOperators = []\<rparr>"

abbreviation demo_report :: "co_world \<Rightarrow> co_world" where
  "demo_report w \<equiv> snd (co_Reconcile demo_merge (\<lambda>_. []) demo_reporter w)"

text \<open>Two reconciles of which the second changes nothing empty the queue, with changes elsewhere before each.\<close>

lemma two_reports:
  assumes "\<And>w. co_elsewhere w (e w)" "honest (e w0)" "honest (e w1)"
    and first: "co_Reconcile merge showErr cfg (e w0) = (Inr Result0, w1)" and second: "co_Reconcile merge showErr cfg (e w1) = (Inr Result0, w2)"
    and same: "find_obj ([], clusterOperatorName) (cw_clusterOperators w2) = find_obj ([], clusterOperatorName) (cw_clusterOperators w1)"
    and new: "find_obj ([], clusterOperatorName) (cw_clusterOperators w1) \<noteq> find_obj ([], clusterOperatorName) (cw_clusterOperators w0)"
  shows "(co_queue_step merge showErr cfg)\<^sup>*\<^sup>* (w0, {([], clusterOperatorName)}) (w2, {})"
proof -
  let ?c = "co_controller merge showErr cfg" and ?k = "([], clusterOperatorName)"
  have elsewhere: "cw_clusterOperators (e w) = cw_clusterOperators w" for w
    using assms(1) [of w] by (simp add: co_elsewhere_def)
  have "after_work ?c ?k (Inr Result0) (e w0) w1 {?k} = {?k}" "after_work ?c ?k (Inr Result0) (e w1) w2 {?k} = {}"
    using new same by (simp_all add: after_work_def co_own_def elsewhere Result0_def)
  then have "queue_step ?c (e w0, {?k}) (w1, {?k})" "queue_step ?c (e w1, {?k}) (w2, {})"
    using queue_step.work [of ?k "{?k}" "e w0" ?c] queue_step.work [of ?k "{?k}" "e w1" ?c] first second assms(2,3) by fastforce+
  moreover have "queue_step ?c (w, {?k}) (e w, {?k})" for w
    by (rule queue_step.unwatched) (simp add: assms(1))
  ultimately show ?thesis
    by (meson converse_rtranclp_into_rtranclp rtranclp.rtrancl_refl)
qed

lemma demo_reports:
  "co_Reconcile demo_merge (\<lambda>_. []) demo_reporter demo_rolled_out = (Inr Result0, demo_report demo_rolled_out)"
  "co_Reconcile demo_merge (\<lambda>_. []) demo_reporter (demo_report demo_rolled_out) = (Inr Result0, demo_report (demo_report demo_rolled_out))"
  "find_obj ([], clusterOperatorName) (cw_clusterOperators (demo_report (demo_report demo_rolled_out))) =
     find_obj ([], clusterOperatorName) (cw_clusterOperators (demo_report demo_rolled_out))"
  "find_obj ([], clusterOperatorName) (cw_clusterOperators (demo_report demo_rolled_out)) \<noteq> None"
  "find_obj ([], clusterOperatorName) (cw_clusterOperators demo_rolled_out) = None"
  "api_faults demo_rolled_out = []" "api_faults (demo_report demo_rolled_out) = []"
  by code_simp+

theorem cluster_operator_not_stale_witness:
  "\<exists>w. (co_queue_step demo_merge (\<lambda>_. []) demo_reporter)\<^sup>*\<^sup>* (demo_rolled_out, {([], clusterOperatorName)}) (w, {}) \<and>
     (report_current (\<lambda>_. []) demo_reporter w \<or> report_of_failed_read demo_reporter w)"
proof -
  have "(co_queue_step demo_merge (\<lambda>_. []) demo_reporter)\<^sup>*\<^sup>*
      (demo_rolled_out, {([], clusterOperatorName)}) (demo_report (demo_report demo_rolled_out), {})"
    by (rule two_reports [where e = "\<lambda>w. w"]) (use demo_reports in \<open>simp_all add: co_elsewhere_def honest_def\<close>)
  with cluster_operator_not_stale [OF this demo_merge_contract] show ?thesis by blast
qed

text \<open>
  That report does stay: when two reconciles in a row fail to read the Karpenter resource, the second changes nothing, and with
  nothing left in the queue an operand that is fully rolled out is reported as Degraded though the API works again.
\<close>

definition api_fails_once :: "co_world \<Rightarrow> co_world" where
  "api_fails_once w = w\<lparr>api_faults := [Some (OtherApi ''timeout'')]\<rparr>"

lemma demo_failed_reports:
  "fst (co_Reconcile demo_merge (\<lambda>_. []) demo_reporter (api_fails_once demo_rolled_out)) = Inr Result0"
  "fst (co_Reconcile demo_merge (\<lambda>_. []) demo_reporter (api_fails_once (demo_report (api_fails_once demo_rolled_out)))) = Inr Result0"
  "find_obj ([], clusterOperatorName) (cw_clusterOperators (demo_report (api_fails_once (demo_report (api_fails_once demo_rolled_out))))) =
     find_obj ([], clusterOperatorName) (cw_clusterOperators (demo_report (api_fails_once demo_rolled_out)))"
  "find_obj ([], clusterOperatorName) (cw_clusterOperators (demo_report (api_fails_once demo_rolled_out))) \<noteq> None"
  "api_faults (demo_report (api_fails_once (demo_report (api_fails_once demo_rolled_out)))) = []"
  "map_option coc_status (findCondition (stored_conditions (demo_report (api_fails_once (demo_report (api_fails_once demo_rolled_out)))))
     OperatorDegraded) = Some ConditionTrue"
  "\<not> operand_pending demo_reporter (demo_report (api_fails_once (demo_report (api_fails_once demo_rolled_out))))"
  by code_simp+

theorem failed_read_report_stays:
  "\<exists>w. (co_queue_step demo_merge (\<lambda>_. []) demo_reporter)\<^sup>*\<^sup>* (demo_rolled_out, {([], clusterOperatorName)}) (w, {}) \<and>
     api_faults w = [] \<and> \<not> operand_pending demo_reporter w \<and>
     map_option coc_status (findCondition (stored_conditions w) OperatorDegraded) = Some ConditionTrue"
proof -
  have "(co_queue_step demo_merge (\<lambda>_. []) demo_reporter)\<^sup>*\<^sup>*
      (demo_rolled_out, {([], clusterOperatorName)}) (demo_report (api_fails_once (demo_report (api_fails_once demo_rolled_out))), {})"
    by (rule two_reports [where e = api_fails_once])
      (use demo_failed_reports demo_reports(5) in \<open>simp_all add: co_elsewhere_def api_fails_once_def honest_def prod_eq_iff\<close>)
  with demo_failed_reports show ?thesis by blast
qed

end
