(* ===== verification/Approver_Queue.thy ===== *)
theory Approver_Queue
  imports Work_Queue Watches
begin

text \<open>
  The machine approver in the loop of \<open>Work_Queue\<close>. It watches the requests and not the NodeClaims, and a refused request
  is not enqueued again: unlike the controllers of \<open>Azure_Queue\<close> and \<open>Co_Queue\<close> it is not level-triggered.
\<close>

fun approver_possible :: "source_event \<Rightarrow> world \<Rightarrow> bool" where
  "approver_possible (CSREvent ev) w \<longleftrightarrow> event_possible ev (w_csrs w)"
| "approver_possible (NodeClaimEvent ev) w \<longleftrightarrow> event_possible ev (w_nodeClaims w)"
| "approver_possible _ w \<longleftrightarrow> False"

fun approver_store :: "source_event \<Rightarrow> world \<Rightarrow> world" where
  "approver_store (CSREvent ev) w = w\<lparr>w_csrs := store_event ev (w_csrs w)\<rparr>"
| "approver_store (NodeClaimEvent ev) w = w\<lparr>w_nodeClaims := store_event ev (w_nodeClaims w)\<rparr>"
| "approver_store _ w = w"

text \<open>A write of a pending kubelet request is an event of it that the filter lets through.\<close>

definition approver_own :: "world \<Rightarrow> world \<Rightarrow> object_key set" where
  "approver_own w w' =
     {key. find_obj key (w_csrs w') \<noteq> find_obj key (w_csrs w) \<and>
        (case find_obj key (w_csrs w') of None \<Rightarrow> False | Some c \<Rightarrow> csrFilterFn c)}"

definition approver_elsewhere :: "world \<Rightarrow> world \<Rightarrow> bool" where
  "approver_elsewhere w w' \<longleftrightarrow> w_csrs w' = w_csrs w \<and> w_nodeClaims w' = w_nodeClaims w"

definition approver_controller ::
  "verifier \<Rightarrow> pem_decoder \<Rightarrow> x509_parser \<Rightarrow> (world, object_key, source_event) event_controller" where
  "approver_controller verify pem x509 =
     \<lparr>ec_reconcile = approver_Reconcile verify pem x509, ec_possible = approver_possible, ec_store = approver_store,
      ec_enqueue = (\<lambda>ev w. set (approver_watches ev)), ec_own = approver_own, ec_elsewhere = approver_elsewhere\<rparr>"

text \<open>A request that is refused without a fault leaves the queue.\<close>

lemma refused_leaves_queue:
  assumes "api_faults w = []" "find_obj key (w_csrs w) = Some c" "time_is_zero (deletionTimestamp c)" "isCertificateRequestPending c"
    and "authorization verify pem x509 c (w_nodeClaims w) = Inr False" "key \<in> q"
  shows "queue_step (approver_controller verify pem x509) (w, q) (w, q - {key})"
proof -
  have "authorize verify pem x509 c w = (Inr False, w)"
    using assms(1,5) by (simp add: authorize_no_faults)
  then have run: "approver_Reconcile verify pem x509 key w = (Inr Result0, w)"
    using assms by (simp add: approver_Reconcile_def io_simps csrs.get_no_faults)
  have "after_work (approver_controller verify pem x509) key (Inr Result0) w w q = q - {key}"
    by (simp add: after_work_def approver_controller_def approver_own_def Result0_def)
  with queue_step.work [of key q w "approver_controller verify pem x509" "Inr Result0" w] run assms(1,6) show ?thesis
    by (simp add: approver_controller_def honest_def)
qed

text \<open>A change of the NodeClaims enqueues nothing.\<close>

lemma node_claim_change:
  assumes "event_possible ev (w_nodeClaims w)"
  shows "queue_step (approver_controller verify pem x509) (w, q) (w\<lparr>w_nodeClaims := store_event ev (w_nodeClaims w)\<rparr>, q)"
  using queue_step.watched [of "approver_controller verify pem x509" "NodeClaimEvent ev" w q] assms
  by (simp add: approver_controller_def)

text \<open>
  A kubelet request that arrives before its NodeClaim has the instance: it is refused, the NodeClaim comes, and with nothing left in the
  queue the request stays pending although it would be approved now.
\<close>

theorem late_node_claim_not_retried:
  "\<exists>w. (queue_step (approver_controller (Verify (fleet_describe demo_fleet)) pem x509))\<^sup>*\<^sup>*
       (demo_approving\<lparr>w_nodeClaims := []\<rparr>, {([], ''csr-1'')}) (w, {}) \<and>
     find_obj ([], ''csr-1'') (w_csrs w) = Some demo_csr \<and> csrFilterFn demo_csr \<and>
     authorization (Verify (fleet_describe demo_fleet)) pem x509 demo_csr (w_nodeClaims w) = Inr True"
proof -
  let ?c = "approver_controller (Verify (fleet_describe demo_fleet)) pem x509" and ?early = "demo_approving\<lparr>w_nodeClaims := []\<rparr>"
  have csr: "find_obj ([], ''csr-1'') (w_csrs ?early) = Some demo_csr" "deletionTimestamp demo_csr = None" "api_faults ?early = []"
    "isCertificateRequestPending demo_csr" "csrFilterFn demo_csr"
    by (simp_all add: demo_approving_def empty_world_def demo_csr_def object_meta.defs obj_key_def zero_object_meta_def
        isCertificateRequestPending_def csrFilterFn_def)
  have "authorization (Verify (fleet_describe demo_fleet)) pem x509 demo_csr [] = Inr False"
    by (simp add: authorization_def requested_node_def vouching_claims_def demo_csr_def object_meta.defs trim_prefix_def has_prefix_def)
  with refused_leaves_queue [OF csr(3,1) _ csr(4)] csr(2)
  have "queue_step ?c (?early, {([], ''csr-1'')}) (?early, {})"
    by fastforce
  moreover have "queue_step ?c (?early, {}) (?early\<lparr>w_nodeClaims := store_event (CreateEvent demo_csr_claim) (w_nodeClaims ?early)\<rparr>, {})"
    by (rule node_claim_change) simp
  then have "queue_step ?c (?early, {}) (demo_approving, {})"
    by (simp add: demo_approving_def)
  ultimately have "(queue_step ?c)\<^sup>*\<^sup>* (?early, {([], ''csr-1'')}) (demo_approving, {})"
    by (meson converse_rtranclp_into_rtranclp rtranclp.rtrancl_refl)
  moreover have "authorization (Verify (fleet_describe demo_fleet)) pem x509 demo_csr (w_nodeClaims demo_approving) = Inr True"
    using demo_verified
    by (simp add: authorization_def requested_node_def vouching_claims_def demo_csr_def object_meta.defs demo_approving_def
        trim_prefix_def has_prefix_def demo_csr_claim_def)
  ultimately show ?thesis
    using csr by auto
qed

end
