(* ===== verification/Command_Line.thy ===== *)
theory Command_Line
  imports Operator_Setup
begin

text \<open>
  \<open>cmd/main.go\<close>: the process. Its flags are those of main, of controller-runtime's zap logger and the
  kubeconfig flag of controller-runtime; they are parsed as Go's flag package does, then the environment is loaded, the
  options are validated and the operator runs. Arguments are ASCII; what the process logs is left out.
\<close>

section \<open>The version\<close>

definition version_Raw :: string where
  "version_Raw = ''v0.0.0-was-not-built-properly''"

definition version_String :: string where
  "version_String = ''karpenter-operator '' @ version_Raw"

section \<open>Values of flags\<close>

text \<open>\<open>zapcore.Level\<close> is an int8.\<close>

type_synonym zap_level = "8 word"

definition DebugLevel :: zap_level where "DebugLevel = - 1"
definition InfoLevel :: zap_level where "InfoLevel = 0"
definition ErrorLevel :: zap_level where "ErrorLevel = 2"
definition PanicLevel :: zap_level where "PanicLevel = 4"

datatype zap_encoder = newJSONEncoder | newConsoleEncoder

datatype time_encoder =
    RFC3339NanoTimeEncoder | RFC3339TimeEncoder | ISO8601TimeEncoder | EpochMillisTimeEncoder | EpochNanosTimeEncoder
  | EpochTimeEncoder

record zap_options =
  zo_development :: bool
  zo_newEncoder :: "zap_encoder option"
  zo_level :: "zap_level option"
  zo_stacktraceLevel :: "zap_level option"
  zo_timeEncoder :: "time_encoder option"

text \<open>What the flags write to.\<close>

record command_line =
  cl_opts :: options
  cl_kubeconfig :: string
  cl_zapOpts :: zap_options

definition levelStrings :: "(string \<times> zap_level) list" where
  "levelStrings = [(''debug'', DebugLevel), (''info'', InfoLevel), (''error'', ErrorLevel), (''panic'', PanicLevel)]"

definition stackLevelStrings :: "(string \<times> zap_level) list" where
  "stackLevelStrings = [(''info'', InfoLevel), (''error'', ErrorLevel), (''panic'', PanicLevel)]"

definition encoderFlag_Set :: "string \<Rightarrow> error + zap_encoder" where
  "encoderFlag_Set flagValue =
     (let val = to_lower flagValue in
      if val = ''json'' then Inr newJSONEncoder
      else if val = ''console'' then Inr newConsoleEncoder
      else Inl (Errorf ''invalid encoder value \"%s\"'' [AStr flagValue]))"

definition levelFlag_Set :: "string \<Rightarrow> error + zap_level" where
  "levelFlag_Set flagValue =
     (case map_of levelStrings (to_lower flagValue) of
        Some level \<Rightarrow> Inr level
      | None \<Rightarrow>
          (case ParseInt flagValue of
             Inl err \<Rightarrow> Inl (Errorf ''invalid log level \"%s\"'' [AStr flagValue])
           | Inr logLevel \<Rightarrow>
               if sint logLevel > 0 then Inr (word_of_int (- 1 * sint logLevel))
               else Inl (Errorf ''invalid log level \"%s\"'' [AStr flagValue])))"

definition stackTraceFlag_Set :: "string \<Rightarrow> error + zap_level" where
  "stackTraceFlag_Set flagValue =
     (case map_of stackLevelStrings (to_lower flagValue) of
        Some level \<Rightarrow> Inr level
      | None \<Rightarrow> Inl (Errorf ''invalid stacktrace level \"%s\"'' [AStr flagValue]))"

definition timeEncodings :: "(string \<times> time_encoder) list" where
  "timeEncodings =
     [(''rfc3339nano'', RFC3339NanoTimeEncoder), (''rfc3339'', RFC3339TimeEncoder), (''iso8601'', ISO8601TimeEncoder),
      (''millis'', EpochMillisTimeEncoder), (''nanos'', EpochNanosTimeEncoder), (''epoch'', EpochTimeEncoder)]"

definition timeEncodingFlag_Set :: "string \<Rightarrow> error + time_encoder" where
  "timeEncodingFlag_Set flagValue =
     (case map_of timeEncodings (to_lower flagValue) of
        Some enc \<Rightarrow> Inr enc
      | None \<Rightarrow> Inl (Errorf ''invalid time-encoding value \"%s\"'' [AStr flagValue]))"

section \<open>The flag set\<close>

record go_flag =
  fl_name :: string
  fl_isBoolFlag :: bool
  fl_set :: "string \<Rightarrow> command_line \<Rightarrow> error + command_line"

definition Var :: "string \<Rightarrow> (string \<Rightarrow> error + 'a) \<Rightarrow> ('a \<Rightarrow> command_line \<Rightarrow> command_line) \<Rightarrow> go_flag" where
  "Var n set' upd =
     \<lparr>fl_name = n, fl_isBoolFlag = False, fl_set = (\<lambda>v cl. bind_result (set' v) (\<lambda>a. Inr (upd a cl)))\<rparr>"

definition StringVar :: "string \<Rightarrow> (string \<Rightarrow> command_line \<Rightarrow> command_line) \<Rightarrow> go_flag" where
  "StringVar n upd = Var n Inr upd"

definition errParse :: error where "errParse = Sentinel ''parse error''"

definition BoolVar :: "string \<Rightarrow> (bool \<Rightarrow> command_line \<Rightarrow> command_line) \<Rightarrow> go_flag" where
  "BoolVar n upd =
     \<lparr>fl_name = n, fl_isBoolFlag = True,
      fl_set = (\<lambda>v cl. case ParseBool v of Inl err \<Rightarrow> Inl errParse | Inr b \<Rightarrow> Inr (upd b cl))\<rparr>"

definition zap_BindFlags :: "go_flag list" where
  "zap_BindFlags =
     [BoolVar ''zap-devel'' (\<lambda>b. cl_zapOpts_update (zo_development_update (\<lambda>_. b))),
      Var ''zap-encoder'' encoderFlag_Set (\<lambda>e. cl_zapOpts_update (zo_newEncoder_update (\<lambda>_. Some e))),
      Var ''zap-log-level'' levelFlag_Set (\<lambda>l. cl_zapOpts_update (zo_level_update (\<lambda>_. Some l))),
      Var ''zap-stacktrace-level'' stackTraceFlag_Set (\<lambda>l. cl_zapOpts_update (zo_stacktraceLevel_update (\<lambda>_. Some l))),
      Var ''zap-time-encoding'' timeEncodingFlag_Set (\<lambda>e. cl_zapOpts_update (zo_timeEncoder_update (\<lambda>_. Some e)))]"

definition main_flags :: "go_flag list" where
  "main_flags =
     [StringVar ''namespace'' (\<lambda>v. cl_opts_update (opt_namespace_update (\<lambda>_. v))),
      StringVar ''metrics-bind-address'' (\<lambda>v. cl_opts_update (opt_metricsAddr_update (\<lambda>_. v))),
      StringVar ''health-probe-bind-address'' (\<lambda>v. cl_opts_update (opt_probeAddr_update (\<lambda>_. v))),
      BoolVar ''leader-elect'' (\<lambda>b. cl_opts_update (opt_leaderElect_update (\<lambda>_. b))),
      StringVar ''target-kubeconfig'' (\<lambda>v. cl_opts_update (opt_targetKubeconfig_update (\<lambda>_. v)))]"

text \<open>\<open>config.RegisterFlags\<close>, from the package's initialization\<close>

definition kubeconfig_flag :: go_flag where
  "kubeconfig_flag = StringVar ''kubeconfig'' (\<lambda>v. cl_kubeconfig_update (\<lambda>_. v))"

definition CommandLine :: "go_flag list" where
  "CommandLine = kubeconfig_flag # main_flags @ zap_BindFlags"

text \<open>Defining a flag stores its default.\<close>

definition zero_options :: options where
  "zero_options =
     \<lparr>opt_namespace = [], opt_releaseVersion = [], opt_clusterName = [], opt_clusterEndpoint = [], opt_platform = [], opt_region = [],
      opt_targetKubeconfig = [], opt_managementCluster = False, opt_tokenMinterImage = [], opt_defaultSecurityContextUID = None,
      opt_metricsAddr = [], opt_probeAddr = [], opt_leaderElect = False\<rparr>"

definition flag_defaults :: command_line where
  "flag_defaults =
     \<lparr>cl_opts = zero_options\<lparr>opt_namespace := [], opt_metricsAddr := '':8080'', opt_probeAddr := '':8081'', opt_leaderElect := False,
                            opt_targetKubeconfig := []\<rparr>,
      cl_kubeconfig = [],
      cl_zapOpts = \<lparr>zo_development = False, zo_newEncoder = None, zo_level = None, zo_stacktraceLevel = None, zo_timeEncoder = None\<rparr>\<rparr>"

section \<open>Parsing\<close>

datatype flag_error = ErrHelp | Failf string "fmt_arg list" "error option"

text \<open>The name of a flag and the value after the first equals sign that is not its first byte.\<close>

fun flag_value :: "string \<Rightarrow> string \<times> string option" where
  "flag_value [] = ([], None)"
| "flag_value (c # cs) = (case cut cs CHR ''='' of (n, v, hasValue) \<Rightarrow> (c # n, if hasValue then Some v else None))"

definition parseOne :: "go_flag list \<Rightarrow> string list \<Rightarrow> command_line \<Rightarrow> flag_error + bool \<times> string list \<times> command_line" where
  "parseOne formal args cl =
     (case args of
        [] \<Rightarrow> Inr (False, args, cl)
      | s # args' \<Rightarrow>
          if length s < 2 \<or> s ! 0 \<noteq> CHR ''-'' then Inr (False, args, cl)
          else if s ! 1 = CHR ''-'' \<and> length s = 2 then Inr (False, args', cl)
          else
            let n = drop (if s ! 1 = CHR ''-'' then 2 else 1) s in
            if length n = 0 \<or> n ! 0 = CHR ''-'' \<or> n ! 0 = CHR ''='' then Inl (Failf ''bad flag syntax: %s'' [AStr s] None)
            else case flag_value n of (n, v) \<Rightarrow>
              case find (\<lambda>f. fl_name f = n) formal of
                None \<Rightarrow>
                  if n = ''help'' \<or> n = ''h'' then Inl ErrHelp
                  else Inl (Failf ''flag provided but not defined: -%s'' [AStr n] None)
              | Some f \<Rightarrow>
                  if fl_isBoolFlag f then
                    (case v of
                       Some b \<Rightarrow>
                         (case fl_set f b cl of
                            Inl err \<Rightarrow> Inl (Failf ''invalid boolean value %q for -%s: %v'' [AStr b, AStr n] (Some err))
                          | Inr cl' \<Rightarrow> Inr (True, args', cl'))
                     | None \<Rightarrow>
                         (case fl_set f ''true'' cl of
                            Inl err \<Rightarrow> Inl (Failf ''invalid boolean flag %s: %v'' [AStr n] (Some err))
                          | Inr cl' \<Rightarrow> Inr (True, args', cl')))
                  else
                    (case (case v of
                             Some b \<Rightarrow> Some (b, args')
                           | None \<Rightarrow> (case args' of [] \<Rightarrow> None | b # args'' \<Rightarrow> Some (b, args''))) of
                       None \<Rightarrow> Inl (Failf ''flag needs an argument: -%s'' [AStr n] None)
                     | Some (b, args'') \<Rightarrow>
                         (case fl_set f b cl of
                            Inl err \<Rightarrow> Inl (Failf ''invalid value %q for flag -%s: %v'' [AStr b, AStr n] (Some err))
                          | Inr cl' \<Rightarrow> Inr (True, args'', cl'))))"

lemma parseOne_shorter:
  "parseOne formal args cl = Inr (True, args', cl') \<Longrightarrow> length args' < length args"
  unfolding parseOne_def
  by (auto simp: Let_def split: list.splits if_splits prod.splits option.splits sum.splits)

function Parse :: "go_flag list \<Rightarrow> string list \<Rightarrow> command_line \<Rightarrow> flag_error + string list \<times> command_line" where
  "Parse formal args cl =
     (case parseOne formal args cl of
        Inl err \<Rightarrow> Inl err
      | Inr (seen, args', cl') \<Rightarrow> if seen then Parse formal args' cl' else Inr (args', cl'))"
  by pat_completeness auto

termination
  by (relation "measure (\<lambda>(formal, args, cl). length args)") (auto dest: parseOne_shorter)

declare Parse.simps [simp del]

section \<open>The process\<close>

text \<open>How the process ends, with its exit status. A process that ran its controllers ends when it is told to stop.\<close>

datatype process_end =
    HelpShown
  | BadFlags flag_error
  | Failed string error
  | Stopped "controller list"

fun exit_status :: "process_end \<Rightarrow> nat" where
  "exit_status HelpShown = 0"
| "exit_status (BadFlags err) = 2"
| "exit_status (Failed msg err) = 1"
| "exit_status (Stopped cs) = 0"

definition main :: "runtime \<Rightarrow> string list \<Rightarrow> process_end" where
  "main rt args =
     (case Parse CommandLine args flag_defaults of
        Inl err \<Rightarrow> if err = ErrHelp then HelpShown else BadFlags err
      | Inr (rest, cl) \<Rightarrow>
          (case LoadEnv (rt_getenv rt) (cl_opts cl) of
             Inl err \<Rightarrow> Failed ''Could not load environment'' err
           | Inr opts \<Rightarrow>
               (case Validate opts of
                  Some err \<Rightarrow> Failed ''Could not validate configuration'' err
                | None \<Rightarrow>
                    (case Run rt opts of
                       Inl err \<Rightarrow> Failed ''Could not run operator'' err
                     | Inr cs \<Rightarrow> Stopped cs))))"

section \<open>Spelled settings\<close>

text \<open>
  A setting of a flag, as it is written in the arguments: with one or two dashes, the value joined, in the next
  argument, or left out where it is true.
\<close>

datatype spelling = Joined | Apart | Bare

record setting =
  st_twoDashes :: bool
  st_spelling :: spelling
  st_name :: string
  st_value :: string

definition spell :: "setting \<Rightarrow> string list" where
  "spell s =
     (let flag = (if st_twoDashes s then ''--'' else ''-'') @ st_name s in
      case st_spelling s of
        Joined \<Rightarrow> [flag @ CHR ''='' # st_value s]
      | Apart \<Rightarrow> [flag, st_value s]
      | Bare \<Rightarrow> [flag])"

definition flag_of :: "setting \<Rightarrow> go_flag option" where
  "flag_of s = find (\<lambda>f. fl_name f = st_name s) CommandLine"

text \<open>A flag of the process with a value it takes. Only a boolean flag can be bare, and its value cannot stand apart.\<close>

fun spelled_for :: "bool \<Rightarrow> setting \<Rightarrow> bool" where
  "spelled_for isBool s \<longleftrightarrow>
     (case st_spelling s of Joined \<Rightarrow> True | Apart \<Rightarrow> \<not> isBool | Bare \<Rightarrow> isBool \<and> st_value s = ''true'')"

definition accepted :: "setting \<Rightarrow> bool" where
  "accepted s \<longleftrightarrow>
     (case flag_of s of
        None \<Rightarrow> False
      | Some f \<Rightarrow> spelled_for (fl_isBoolFlag f) s \<and> (case fl_set f (st_value s) flag_defaults of Inl err \<Rightarrow> False | Inr cl \<Rightarrow> True))"

text \<open>Where parsing stops: at the end, at an argument that is not a flag, or at two dashes.\<close>

definition stops :: "string list \<Rightarrow> bool" where
  "stops args \<longleftrightarrow> (case args of [] \<Rightarrow> True | s # _ \<Rightarrow> s = ''--'' \<or> length s < 2 \<or> s ! 0 \<noteq> CHR ''-'')"

definition last_value :: "string \<Rightarrow> string \<Rightarrow> setting list \<Rightarrow> string" where
  "last_value n d ss = (case find (\<lambda>s. st_name s = n) (rev ss) of None \<Rightarrow> d | Some s \<Rightarrow> st_value s)"

definition flag_options :: "setting list \<Rightarrow> options" where
  "flag_options ss =
     zero_options\<lparr>opt_namespace := last_value ''namespace'' [] ss,
                  opt_metricsAddr := last_value ''metrics-bind-address'' '':8080'' ss,
                  opt_probeAddr := last_value ''health-probe-bind-address'' '':8081'' ss,
                  opt_leaderElect := (ParseBool (last_value ''leader-elect'' ''false'' ss) = Inr True),
                  opt_targetKubeconfig := last_value ''target-kubeconfig'' [] ss\<rparr>"

definition apply_setting :: "setting \<Rightarrow> command_line \<Rightarrow> command_line" where
  "apply_setting s cl =
     (case flag_of s of
        None \<Rightarrow> cl
      | Some f \<Rightarrow> (case fl_set f (st_value s) cl of Inl err \<Rightarrow> cl | Inr cl' \<Rightarrow> cl'))"

lemmas flag_defs = CommandLine_def kubeconfig_flag_def main_flags_def zap_BindFlags_def Var_def StringVar_def BoolVar_def

lemma CommandLine_names:
  "list_all (\<lambda>f. fl_name f \<noteq> [] \<and> fl_name f ! 0 \<noteq> CHR ''-'' \<and> CHR ''='' \<notin> set (fl_name f)) CommandLine"
  by (simp add: flag_defs)

lemma flag_of_name:
  assumes "flag_of s = Some f"
  shows "st_name s \<noteq> []" "st_name s ! 0 \<noteq> CHR ''-''" "CHR ''='' \<notin> set (st_name s)" "fl_name f = st_name s" "f \<in> set CommandLine"
proof -
  from assms show f: "fl_name f = st_name s" "f \<in> set CommandLine"
    by (auto simp: flag_of_def find_Some_iff)
  with CommandLine_names show "st_name s \<noteq> []" "st_name s ! 0 \<noteq> CHR ''-''" "CHR ''='' \<notin> set (st_name s)"
    by (auto simp: list_all_iff)
qed

text \<open>Whether a flag takes a value does not depend on the flags before.\<close>

lemma fl_set_total:
  "f \<in> set CommandLine \<Longrightarrow> fl_set f v cl = Inr cl' \<Longrightarrow> \<exists>cl''. fl_set f v cl2 = Inr cl''"
  by (auto simp: flag_defs bind_result_Inr_iff split: sum.splits)

lemma flag_value_joined: "n \<noteq> [] \<Longrightarrow> CHR ''='' \<notin> set n \<Longrightarrow> flag_value (n @ CHR ''='' # v) = (n, Some v)"
  by (cases n) (auto simp: cut_append)

lemma flag_value_bare: "CHR ''='' \<notin> set n \<Longrightarrow> flag_value n = (n, None)"
  by (cases n) (auto simp: cut_no_sep)

lemma parseOne_spell:
  assumes "accepted s"
  shows "parseOne CommandLine (spell s @ rest) cl = Inr (True, rest, apply_setting s cl)"
proof -
  from assms obtain f cl0 where f: "flag_of s = Some f" "spelled_for (fl_isBoolFlag f) s" "fl_set f (st_value s) flag_defaults = Inr cl0"
    by (auto simp: accepted_def split: option.splits sum.splits)
  note n = flag_of_name [OF f(1)]
  from fl_set_total [OF n(5) f(3)] obtain cl' where set: "fl_set f (st_value s) cl = Inr cl'" by blast
  have "apply_setting s cl = cl'"
    by (simp add: apply_setting_def f set)
  moreover have "find (\<lambda>f. fl_name f = st_name s) CommandLine = Some f"
    using f(1) by (simp add: flag_of_def)
  moreover obtain c cs where c: "st_name s = c # cs" "c \<noteq> CHR ''-''" "c \<noteq> CHR ''=''"
    using n by (cases "st_name s") auto
  moreover have "flag_value (c # cs @ CHR ''='' # st_value s) = (c # cs, Some (st_value s))" "flag_value (c # cs) = (c # cs, None)"
    using flag_value_joined [of "st_name s"] flag_value_bare [of "st_name s"] n c by simp_all
  ultimately show ?thesis
    using f(2) set by (cases "st_spelling s") (auto simp: parseOne_def spell_def Let_def simp del: flag_value.simps)
qed

lemma Parse_stops: "stops rest \<Longrightarrow> Parse formal rest cl = Inr (if take 1 rest = [''--''] then tl rest else rest, cl)"
  by (subst Parse.simps) (auto simp: parseOne_def stops_def split: list.splits)

lemma Parse_spell:
  "list_all accepted ss \<Longrightarrow> Parse CommandLine (concat (map spell ss) @ rest) cl = Parse CommandLine rest (fold apply_setting ss cl)"
proof (induction ss arbitrary: cl)
  case (Cons s ss)
  then show ?case
    by (subst Parse.simps) (simp add: parseOne_spell)
qed simp

lemma last_value_simps [simp]:
  "last_value n d [] = d"
  "last_value n d (ss @ [s]) = (if st_name s = n then st_value s else last_value n d ss)"
  by (simp_all add: last_value_def)

definition set_option :: "string \<Rightarrow> string \<Rightarrow> options \<Rightarrow> options" where
  "set_option n v o' =
     (if n = ''namespace'' then o'\<lparr>opt_namespace := v\<rparr>
      else if n = ''metrics-bind-address'' then o'\<lparr>opt_metricsAddr := v\<rparr>
      else if n = ''health-probe-bind-address'' then o'\<lparr>opt_probeAddr := v\<rparr>
      else if n = ''leader-elect'' then o'\<lparr>opt_leaderElect := (ParseBool v = Inr True)\<rparr>
      else if n = ''target-kubeconfig'' then o'\<lparr>opt_targetKubeconfig := v\<rparr> else o')"

lemma fl_set_option:
  "f \<in> set CommandLine \<Longrightarrow> fl_set f v cl = Inr cl' \<Longrightarrow>
   cl_opts cl' = set_option (fl_name f) v (cl_opts cl) \<and>
   cl_kubeconfig cl' = (if fl_name f = ''kubeconfig'' then v else cl_kubeconfig cl)"
  by (auto simp: flag_defs set_option_def bind_result_Inr_iff split: sum.splits)

lemma flag_options_snoc: "flag_options (ss @ [s]) = set_option (st_name s) (st_value s) (flag_options ss)"
  by (simp add: flag_options_def set_option_def)

lemma apply_setting_options:
  assumes "accepted s"
  shows "cl_opts (apply_setting s cl) = set_option (st_name s) (st_value s) (cl_opts cl)"
    and "cl_kubeconfig (apply_setting s cl) = (if st_name s = ''kubeconfig'' then st_value s else cl_kubeconfig cl)"
proof -
  from assms obtain f cl0 where f: "flag_of s = Some f" "fl_set f (st_value s) flag_defaults = Inr cl0"
    by (auto simp: accepted_def split: option.splits sum.splits)
  note n = flag_of_name [OF f(1)]
  from fl_set_total [OF n(5) f(2)] obtain cl' where set: "fl_set f (st_value s) cl = Inr cl'" by blast
  with fl_set_option [OF n(5) set] f n(4)
  show "cl_opts (apply_setting s cl) = set_option (st_name s) (st_value s) (cl_opts cl)"
    "cl_kubeconfig (apply_setting s cl) = (if st_name s = ''kubeconfig'' then st_value s else cl_kubeconfig cl)"
    by (simp_all add: apply_setting_def)
qed

lemma fold_settings:
  assumes "list_all accepted ss"
  shows "cl_opts (fold apply_setting ss flag_defaults) = flag_options ss"
    and "cl_kubeconfig (fold apply_setting ss flag_defaults) = last_value ''kubeconfig'' [] ss"
proof -
  have "cl_opts (fold apply_setting ss flag_defaults) = flag_options ss \<and>
    cl_kubeconfig (fold apply_setting ss flag_defaults) = last_value ''kubeconfig'' [] ss"
    using assms
  proof (induction ss rule: rev_induct)
    case Nil
    show ?case by (simp add: flag_defaults_def flag_options_def zero_options_def ParseBool_def)
  next
    case (snoc s ss)
    then show ?case by (simp add: apply_setting_options flag_options_snoc)
  qed
  then show "cl_opts (fold apply_setting ss flag_defaults) = flag_options ss"
    "cl_kubeconfig (fold apply_setting ss flag_defaults) = last_value ''kubeconfig'' [] ss" by simp_all
qed

lemma Parse_settings:
  assumes "list_all accepted ss" "stops rest"
  obtains cl where "Parse CommandLine (concat (map spell ss) @ rest) flag_defaults = Inr (if take 1 rest = [''--''] then tl rest else rest, cl)"
    and "cl_opts cl = flag_options ss" "cl_kubeconfig cl = last_value ''kubeconfig'' [] ss"
  using that fold_settings [OF assms(1)] by (simp add: Parse_spell [OF assms(1)] Parse_stops [OF assms(2)])

lemma last_leader_bool:
  assumes "list_all accepted ss"
  shows "\<exists>b. ParseBool (last_value ''leader-elect'' ''false'' ss) = Inr b"
  using assms
proof (induction ss rule: rev_induct)
  case Nil
  show ?case by (rule exI [of _ False]) (simp add: ParseBool_def)
next
  case (snoc s ss)
  have "\<exists>b. ParseBool (st_value s) = Inr b" if "accepted s" "st_name s = ''leader-elect''"
    using that by (auto simp: accepted_def flag_of_def flag_defs split: sum.splits)
  with snoc show ?case by simp
qed

section \<open>Properties\<close>

lemma LoadEnv_management:
  assumes "ParseBool (getenv ManagementClusterEnvName) = Inr True"
  shows "LoadEnv getenv o' = (case parseSecurityContextUID getenv of
      Inl err \<Rightarrow> Inl (Wrap ''loading %s: %w'' [AStr DefaultSecurityContextUIDEnvName] err)
    | Inr u \<Rightarrow> Inr (o'\<lparr>opt_releaseVersion := getenv ReleaseVersionEnvName, opt_clusterName := getenv ClusterNameEnvName,
        opt_clusterEndpoint := getenv ClusterEndpointEnvName, opt_platform := getenv PlatformEnvName,
        opt_region := getenv RegionEnvName, opt_tokenMinterImage := getenv TokenMinterImageEnvName,
        opt_managementCluster := True, opt_defaultSecurityContextUID := u\<rparr>))"
proof -
  have "getenv ManagementClusterEnvName \<noteq> []"
    using assms by (auto simp: ParseBool_def)
  then have "ParseManagementClusterEnv getenv = Inr True"
    using assms by (simp add: ParseManagementClusterEnv_def)
  then show ?thesis by (simp add: LoadEnv_def Let_def)
qed

lemma parseSecurityContextUID_ok:
  "(\<exists>u. parseSecurityContextUID getenv = Inr u \<and> uid_ok u) \<longleftrightarrow>
   getenv DefaultSecurityContextUIDEnvName = [] \<or>
   (\<exists>u. ParseInt (getenv DefaultSecurityContextUIDEnvName) = Inr u \<and> 0 < sint u)"
  by (auto simp: parseSecurityContextUID_def uid_ok_def Let_def split: sum.splits)

text \<open>
  C13: the flags of a command line. However the settings are spelled, in whatever order, each option of the
  process is the last value its flag is given, or the default; parsing ends at the first argument that is not
  a flag, and what follows is ignored. In particular a value after \<open>--leader-elect\<close>
  is such an argument and hides the flags after it.
\<close>

theorem flags_roundtrip:
  assumes "list_all accepted ss" "stops rest"
  shows "\<exists>cl. Parse CommandLine (concat (map spell ss) @ rest) flag_defaults =
      Inr (if take 1 rest = [''--''] then tl rest else rest, cl) \<and>
    opt_namespace (cl_opts cl) = last_value ''namespace'' [] ss \<and>
    opt_targetKubeconfig (cl_opts cl) = last_value ''target-kubeconfig'' [] ss \<and>
    opt_metricsAddr (cl_opts cl) = last_value ''metrics-bind-address'' '':8080'' ss \<and>
    opt_probeAddr (cl_opts cl) = last_value ''health-probe-bind-address'' '':8081'' ss \<and>
    ParseBool (last_value ''leader-elect'' ''false'' ss) = Inr (opt_leaderElect (cl_opts cl)) \<and>
    cl_kubeconfig cl = last_value ''kubeconfig'' [] ss"
proof -
  from Parse_settings [OF assms] obtain cl where cl:
    "Parse CommandLine (concat (map spell ss) @ rest) flag_defaults = Inr (if take 1 rest = [''--''] then tl rest else rest, cl)"
    "cl_opts cl = flag_options ss" "cl_kubeconfig cl = last_value ''kubeconfig'' [] ss" .
  from last_leader_bool [OF assms(1)] obtain b where "ParseBool (last_value ''leader-elect'' ''false'' ss) = Inr b" ..
  with cl show ?thesis
    by (intro exI [of _ cl]) (simp add: flag_options_def)
qed

text \<open>The requirements on a deployment.\<close>

definition start_requirements :: "runtime \<Rightarrow> setting list \<Rightarrow> bool" where
  "start_requirements rt ss \<longleftrightarrow>
     last_value ''namespace'' [] ss \<noteq> [] \<and> last_value ''target-kubeconfig'' [] ss \<noteq> [] \<and>
     (\<forall>n \<in> {ClusterNameEnvName, ClusterEndpointEnvName, PlatformEnvName, RegionEnvName, TokenMinterImageEnvName}. rt_getenv rt n \<noteq> []) \<and>
     (rt_getenv rt DefaultSecurityContextUIDEnvName = [] \<or>
      (\<exists>u. ParseInt (rt_getenv rt DefaultSecurityContextUIDEnvName) = Inr u \<and> 0 < sint u)) \<and>
     rt_getenv rt PlatformEnvName \<in> {AWSPlatformType, AzurePlatformType} \<and>
     (\<forall>n \<in> set (provider_env (rt_getenv rt PlatformEnvName)). rt_getenv rt n \<noteq> [])"

lemma main_Stopped:
  assumes "Parse CommandLine args flag_defaults = Inr (rest, cl)"
  shows "(\<exists>cs. main rt args = Stopped cs) \<longleftrightarrow>
    (\<exists>opts. LoadEnv (rt_getenv rt) (cl_opts cl) = Inr opts \<and> Validate opts = None \<and> (\<exists>cs. Run rt opts = Inr cs))"
    and "exit_status (main rt args) = (if \<exists>cs. main rt args = Stopped cs then 0 else 1)"
  by (auto simp: main_def assms split: sum.splits option.splits)

lemma validated_management:
  assumes "libraries_ok rt" and mode: "ParseBool (rt_getenv rt ManagementClusterEnvName) = Inr True"
  shows "(\<exists>opts. LoadEnv (rt_getenv rt) (flag_options ss) = Inr opts \<and> Validate opts = None \<and> (\<exists>cs. Run rt opts = Inr cs)) \<longleftrightarrow>
    start_requirements rt ss"
proof (cases "parseSecurityContextUID (rt_getenv rt)")
  case (Inl err)
  then show ?thesis
    using parseSecurityContextUID_ok [of "rt_getenv rt"] by (simp add: LoadEnv_management [of "rt_getenv rt", OF mode] start_requirements_def)
next
  case (Inr u)
  let ?opts = "(flag_options ss)\<lparr>opt_releaseVersion := rt_getenv rt ReleaseVersionEnvName, opt_clusterName := rt_getenv rt ClusterNameEnvName,
        opt_clusterEndpoint := rt_getenv rt ClusterEndpointEnvName, opt_platform := rt_getenv rt PlatformEnvName,
        opt_region := rt_getenv rt RegionEnvName, opt_tokenMinterImage := rt_getenv rt TokenMinterImageEnvName,
        opt_managementCluster := True, opt_defaultSecurityContextUID := u\<rparr>"
  have load: "LoadEnv (rt_getenv rt) (flag_options ss) = Inr ?opts"
    by (simp add: LoadEnv_management [of "rt_getenv rt", OF mode] Inr)
  have "Validate ?opts = None \<longleftrightarrow> uid_ok u \<and> missing_options ?opts = []"
    by (simp add: Validate_None)
  moreover have "(\<exists>cs. Run rt ?opts = Inr cs) \<longleftrightarrow> rt_getenv rt PlatformEnvName \<in> {AWSPlatformType, AzurePlatformType} \<and>
      (\<forall>n \<in> set (provider_env (rt_getenv rt PlatformEnvName)). rt_getenv rt n \<noteq> [])" if "Validate ?opts = None"
    using management_starts_iff [OF assms(1) that] by simp
  ultimately have "(Validate ?opts = None \<and> (\<exists>cs. Run rt ?opts = Inr cs)) \<longleftrightarrow> start_requirements rt ss"
    using parseSecurityContextUID_ok [of "rt_getenv rt"] Inr
    by (auto simp: start_requirements_def missing_options_Nil flag_options_def)
  then show ?thesis by (simp add: load)
qed

text \<open>
  C12: what a deployment on a management cluster has to give the process. With working client libraries, the
  process runs its controllers and ends with status 0 exactly if the last \<open>--namespace\<close> and \<open>--target-kubeconfig\<close>
  are not empty, the environment names the cluster, its endpoint, platform, region and token minter image, the UID is
  absent or a positive int64, and the platform is AWS or Azure with the environment of its provider;
  otherwise it runs none and ends with status 1.
\<close>

theorem management_process_starts:
  assumes "libraries_ok rt" "list_all accepted ss" "stops rest"
    and "ParseBool (rt_getenv rt ManagementClusterEnvName) = Inr True"
  shows "((\<exists>cs. main rt (concat (map spell ss) @ rest) = Stopped cs) \<longleftrightarrow> start_requirements rt ss) \<and>
    exit_status (main rt (concat (map spell ss) @ rest)) = (if start_requirements rt ss then 0 else 1)"
proof -
  from Parse_settings [OF assms(2,3)] obtain rest' cl where cl:
    "Parse CommandLine (concat (map spell ss) @ rest) flag_defaults = Inr (rest', cl)" "cl_opts cl = flag_options ss" by metis
  show ?thesis
    using main_Stopped [OF cl(1), of rt] validated_management [OF assms(1,4), of ss] by (simp add: cl(2))
qed

lemma main_StoppedE:
  assumes "main rt (concat (map spell ss) @ rest) = Stopped cs" "list_all accepted ss" "stops rest"
  obtains opts where "LoadEnv (rt_getenv rt) (flag_options ss) = Inr opts" "Validate opts = None" "Run rt opts = Inr cs"
proof -
  from Parse_settings [OF assms(2,3)] obtain rest' cl where
    "Parse CommandLine (concat (map spell ss) @ rest) flag_defaults = Inr (rest', cl)" "cl_opts cl = flag_options ss" by metis
  with assms(1) that show thesis
    by (auto simp: main_def split: sum.splits option.splits if_splits)
qed

section \<open>Witnesses\<close>

definition demo_settings :: "setting list" where
  "demo_settings =
     [\<lparr>st_twoDashes = True, st_spelling = Apart, st_name = ''namespace'', st_value = ''old''\<rparr>,
      \<lparr>st_twoDashes = True, st_spelling = Bare, st_name = ''leader-elect'', st_value = ''true''\<rparr>,
      \<lparr>st_twoDashes = False, st_spelling = Joined, st_name = ''zap-log-level'', st_value = ''Debug''\<rparr>,
      \<lparr>st_twoDashes = False, st_spelling = Apart, st_name = ''target-kubeconfig'', st_value = ''/kubeconfig''\<rparr>,
      \<lparr>st_twoDashes = False, st_spelling = Joined, st_name = ''namespace'', st_value = ''clusters-a''\<rparr>]"

lemma demo_accepted: "list_all accepted demo_settings"
  by code_simp

lemma demo_spelled:
  "concat (map spell demo_settings) =
    [''--namespace'', ''old'', ''--leader-elect'', ''-zap-log-level=Debug'', ''-target-kubeconfig'', ''/kubeconfig'',
     ''-namespace=clusters-a'']"
  by (simp add: demo_settings_def spell_def)

theorem flags_roundtrip_witness:
  "\<exists>cl. Parse CommandLine
      [''--namespace'', ''old'', ''--leader-elect'', ''-zap-log-level=Debug'', ''-target-kubeconfig'', ''/kubeconfig'',
       ''-namespace=clusters-a'', ''now'', ''--namespace=b''] flag_defaults = Inr ([''now'', ''--namespace=b''], cl) \<and>
    opt_namespace (cl_opts cl) = ''clusters-a'' \<and> opt_targetKubeconfig (cl_opts cl) = ''/kubeconfig'' \<and>
    opt_probeAddr (cl_opts cl) = '':8081'' \<and> opt_leaderElect (cl_opts cl)"
  using flags_roundtrip [OF demo_accepted, of "[''now'', ''--namespace=b'']"]
  by (auto simp: demo_spelled stops_def) (auto simp: demo_settings_def last_value_def ParseBool_def)

lemma demo_requirements:
  "start_requirements demo_runtime demo_settings" "ParseBool (rt_getenv demo_runtime ManagementClusterEnvName) = Inr True"
proof -
  have last: "last_value ''namespace'' [] demo_settings = ''clusters-a''" "last_value ''target-kubeconfig'' [] demo_settings = ''/kubeconfig''"
    by (simp_all add: demo_settings_def last_value_def)
  have decimal: "show_nat 1001 = ''1001''" by code_simp
  have uid: "ParseInt (demo_env DefaultSecurityContextUIDEnvName) = Inr 1001"
    using ParseInt_show [of 1001] unfolding decimal by (simp add: demo_env_def env_names)
  have "rt_getenv demo_runtime = demo_env"
    by (simp add: demo_runtime_def)
  then show "start_requirements demo_runtime demo_settings"
    using uid by (simp add: start_requirements_def last demo_env_def env_names provider_env_def AWSPlatformType_def)
  show "ParseBool (rt_getenv demo_runtime ManagementClusterEnvName) = Inr True"
    by (simp add: demo_runtime_def demo_env_def env_names ParseBool_def)
qed

theorem management_process_starts_witness:
  "exit_status (main demo_runtime [''--namespace'', ''old'', ''--leader-elect'', ''-zap-log-level=Debug'', ''-target-kubeconfig'',
     ''/kubeconfig'', ''-namespace=clusters-a'']) = 0 \<and>
   exit_status (main demo_runtime [''--leader-elect'', ''true'', ''--namespace=a'']) = 1"
proof -
  have leader: "list_all accepted [\<lparr>st_twoDashes = True, st_spelling = Bare, st_name = ''leader-elect'', st_value = ''true''\<rparr>]"
    by code_simp
  from demo_requirements(1) management_process_starts [OF demo_libraries demo_accepted _ demo_requirements(2), of "[]"]
  have "exit_status (main demo_runtime (concat (map spell demo_settings))) = 0"
    by (simp add: stops_def)
  moreover have "exit_status (main demo_runtime [''--leader-elect'', ''true'', ''--namespace=a'']) = 1"
    using management_process_starts [OF demo_libraries leader _ demo_requirements(2), of "[''true'', ''--namespace=a'']"]
    by (simp add: stops_def spell_def start_requirements_def last_value_def)
  ultimately show ?thesis by (simp add: demo_spelled)
qed

end
