(* ===== verification/Operator_Metrics.thy ===== *)
theory Operator_Metrics
  imports Cloud_Provider
begin

text \<open>
  \<open>pkg/controllers/metrics.go\<close>: the metric that names the running operator's image, which the
  kubelet reports some time after the start. Time is counted in milliseconds; a read of the
  pod is an answer with the time it took, an oracle of the environment, as is \<open>tie\<close>, which of two
  timers that expire together Go's \<open>select\<close> takes.
\<close>

section \<open>Reading the image\<close>

definition OperatorContainerName :: string where
  "OperatorContainerName = ''karpenter-operator''"

text \<open>An answer: an error, or the container statuses of the pod (name, image).\<close>

type_synonym pod_answer = "error + (string \<times> string) list"

definition operatorImage :: "pod_answer \<Rightarrow> error + string" where
  "operatorImage answer =
     (case answer of
        Inl err \<Rightarrow> Inl (Wrap ''get operator pod: %w'' [] err)
      | Inr statuses \<Rightarrow>
          (case find (\<lambda>(n, img). n = OperatorContainerName \<and> img \<noteq> []) statuses of
             Some (n, img) \<Rightarrow> Inr img
           | None \<Rightarrow> Inr []))"

record poll =
  poll_result :: "error + string"
  poll_reads :: nat
  poll_end :: nat

text \<open>Whether an answer ends the loop, and how.\<close>

definition poll_done :: "pod_answer \<Rightarrow> (error + string) option" where
  "poll_done answer =
     (case operatorImage answer of
        Inl err \<Rightarrow> if \<not> is_not_found err then Some (Inl err) else None
      | Inr img \<Rightarrow> if img \<noteq> [] then Some (Inr img) else None)"

text \<open>The error at the deadline wraps the context's: cancelled by the caller, or timed out.\<close>

definition expired :: "string \<Rightarrow> string \<Rightarrow> error \<Rightarrow> error" where
  "expired ns podName ctxErr =
     Wrap ''operator pod %s/%s container status unavailable: %w'' [AStr ns, AStr podName] ctxErr"

definition Canceled :: error where "Canceled = Sentinel ''context canceled''"
definition DeadlineExceeded :: error where "DeadlineExceeded = Sentinel ''context deadline exceeded''"

text \<open>\<open>poll_loop late reader tie deadline k t\<close>: the loop before read \<open>k\<close> at time \<open>t\<close>, \<open>late\<close> the error at the deadline.\<close>

function poll_loop :: "error \<Rightarrow> (nat \<Rightarrow> pod_answer \<times> nat) \<Rightarrow> (nat \<Rightarrow> bool) \<Rightarrow> nat \<Rightarrow> nat \<Rightarrow> nat \<Rightarrow> poll" where
  "poll_loop late reader tie deadline k t =
     (let t' = t + snd (reader k) in
      case poll_done (fst (reader k)) of
        Some r \<Rightarrow> \<lparr>poll_result = r, poll_reads = Suc k, poll_end = t'\<rparr>
      | None \<Rightarrow>
          if t' + 500 < deadline \<or> (t' + 500 = deadline \<and> tie k)
          then poll_loop late reader tie deadline (Suc k) (t' + 500)
          else \<lparr>poll_result = Inl late, poll_reads = Suc k, poll_end = max t' deadline\<rparr>)"
  by pat_completeness auto
termination
  by (relation "measure (\<lambda>(late, reader, tie, deadline, k, t). Suc deadline - t)") auto

declare poll_loop.simps [simp del]

text \<open>The timeout is 15 seconds; \<open>cancelAt\<close> is when the caller's context ends, if it does.\<close>

definition wait_deadline :: "nat option \<Rightarrow> nat \<Rightarrow> nat \<times> error" where
  "wait_deadline cancelAt t =
     (case cancelAt of
        None \<Rightarrow> (t + 15000, DeadlineExceeded)
      | Some c \<Rightarrow> if c < t + 15000 then (c, Canceled) else (t + 15000, DeadlineExceeded))"

definition waitForOperatorImage ::
  "string \<Rightarrow> string \<Rightarrow> (nat \<Rightarrow> pod_answer \<times> nat) \<Rightarrow> (nat \<Rightarrow> bool) \<Rightarrow> nat option \<Rightarrow> nat \<Rightarrow> poll" where
  "waitForOperatorImage ns podName reader tie cancelAt t =
     poll_loop (expired ns podName (snd (wait_deadline cancelAt t))) reader tie (fst (wait_deadline cancelAt t)) 0 t"

section \<open>Registering the metric\<close>

text \<open>The registry's answer for an image, \<open>register\<close>; the result comes with the time it is known.\<close>

definition setupOperatorInfoMetric ::
  "environment \<Rightarrow> string \<Rightarrow> (string \<Rightarrow> error option) \<Rightarrow> (nat \<Rightarrow> pod_answer \<times> nat) \<Rightarrow> (nat \<Rightarrow> bool) \<Rightarrow> nat option \<Rightarrow> nat
     \<Rightarrow> (error + string) \<times> nat" where
  "setupOperatorInfoMetric getenv ns register reader tie cancelAt t =
     (if getenv ''POD_NAME'' = [] then (Inl (Errorf ''POD_NAME is not set'' []), t)
      else let p = waitForOperatorImage ns (getenv ''POD_NAME'') reader tie cancelAt t in
        case poll_result p of
          Inl err \<Rightarrow> (Inl (Wrap ''read operator image: %w'' [] err), poll_end p)
        | Inr img \<Rightarrow> (case register img of Some err \<Rightarrow> (Inl err, poll_end p) | None \<Rightarrow> (Inr img, poll_end p)))"

record retried =
  rtr_image :: "string option"
  rtr_attempts :: nat
  rtr_end :: nat

definition cancelled :: "nat option \<Rightarrow> nat \<Rightarrow> bool" where
  "cancelled cancelAt t = (case cancelAt of None \<Rightarrow> False | Some c \<Rightarrow> c \<le> t)"

text \<open>
  \<open>ExponentialBackoffWithContext\<close> without jitter and cap: \<open>steps\<close> attempts are left, the next pause
  is \<open>delay\<close>.
\<close>

fun backoff :: "(nat \<Rightarrow> nat \<Rightarrow> (error + string) \<times> nat) \<Rightarrow> nat option \<Rightarrow> nat \<Rightarrow> nat \<Rightarrow> nat \<Rightarrow> nat \<Rightarrow> retried" where
  "backoff attempt cancelAt 0 delay i t = \<lparr>rtr_image = None, rtr_attempts = i, rtr_end = t\<rparr>"
| "backoff attempt cancelAt (Suc steps) delay i t =
     (if cancelled cancelAt t then \<lparr>rtr_image = None, rtr_attempts = i, rtr_end = t\<rparr>
      else case attempt i t of
        (Inr img, t') \<Rightarrow> \<lparr>rtr_image = Some img, rtr_attempts = Suc i, rtr_end = t'\<rparr>
      | (Inl err, t') \<Rightarrow>
          if steps = 0 then \<lparr>rtr_image = None, rtr_attempts = Suc i, rtr_end = t'\<rparr>
          else if cancelled cancelAt (t' + delay) then
            \<lparr>rtr_image = None, rtr_attempts = Suc i, rtr_end = (case cancelAt of None \<Rightarrow> t' | Some c \<Rightarrow> max t' c)\<rparr>
          else backoff attempt cancelAt steps (2 * delay) (Suc i) (t' + delay))"

text \<open>The environment answers each attempt on its own: \<open>registers i\<close>, \<open>readers i\<close>.\<close>

definition setupOperatorInfoMetricWithRetry ::
  "environment \<Rightarrow> string \<Rightarrow> (nat \<Rightarrow> string \<Rightarrow> error option) \<Rightarrow> (nat \<Rightarrow> nat \<Rightarrow> pod_answer \<times> nat) \<Rightarrow> (nat \<Rightarrow> bool) \<Rightarrow> nat option \<Rightarrow> nat \<Rightarrow> retried" where
  "setupOperatorInfoMetricWithRetry getenv ns registers readers tie cancelAt t =
     backoff (\<lambda>i. setupOperatorInfoMetric getenv ns (registers i) (readers i) tie cancelAt) cancelAt 5 1000 0 t"

section \<open>Bounds\<close>

lemma poll_loop_reads:
  "t \<le> deadline \<Longrightarrow> poll_reads (poll_loop late reader tie deadline k t) \<le> Suc (k + (deadline - t) div 500)"
proof (induction late reader tie deadline k t rule: poll_loop.induct)
  case (1 late reader tie deadline k t)
  let ?t = "t + snd (reader k)"
  show ?case
  proof (cases "poll_done (fst (reader k)) = None \<and> (?t + 500 < deadline \<or> (?t + 500 = deadline \<and> tie k))")
    case True
    with 1 have "poll_reads (poll_loop late reader tie deadline (Suc k) (?t + 500)) \<le> Suc (Suc k + (deadline - (?t + 500)) div 500)"
      by auto
    also have "\<dots> \<le> Suc (k + (deadline - t) div 500)"
    proof -
      have "Suc ((deadline - (?t + 500)) div 500) = (deadline - (?t + 500) + 500) div 500" by simp
      also have "\<dots> \<le> (deadline - t) div 500"
        using True by (intro div_le_mono) auto
      finally show ?thesis by simp
    qed
    finally show ?thesis using True by (subst poll_loop.simps) (simp add: Let_def)
  next
    case False
    then show ?thesis by (subst poll_loop.simps) (auto simp: Let_def split: option.split)
  qed
qed

lemma poll_loop_end:
  "(\<And>k. snd (reader k) \<le> D) \<Longrightarrow> t \<le> deadline \<Longrightarrow> t \<le> poll_end (poll_loop late reader tie deadline k t) \<and>
     poll_end (poll_loop late reader tie deadline k t) \<le> deadline + D"
proof (induction late reader tie deadline k t rule: poll_loop.induct)
  case (1 late reader tie deadline k t)
  let ?t = "t + snd (reader k)"
  have step: "snd (reader k) \<le> D" using 1 by blast
  show ?case
  proof (cases "poll_done (fst (reader k)) = None \<and> (?t + 500 < deadline \<or> (?t + 500 = deadline \<and> tie k))")
    case True
    have "?t + 500 \<le> poll_end (poll_loop late reader tie deadline (Suc k) (?t + 500)) \<and>
        poll_end (poll_loop late reader tie deadline (Suc k) (?t + 500)) \<le> deadline + D"
      by (rule 1(1)) (use True 1(2) in auto)
    with True show ?thesis by (subst (1 2) poll_loop.simps) (simp add: Let_def)
  next
    case False
    with step 1(3) show ?thesis by (subst (1 2) poll_loop.simps) (auto simp: Let_def max_def split: option.split)
  qed
qed

lemma poll_loop_result:
  "poll_result (poll_loop late reader tie deadline k t) = Inr img \<Longrightarrow>
   img \<noteq> [] \<and> (\<exists>j < poll_reads (poll_loop late reader tie deadline k t). operatorImage (fst (reader j)) = Inr img)"
proof (induction late reader tie deadline k t rule: poll_loop.induct)
  case (1 late reader tie deadline k t)
  let ?t = "t + snd (reader k)"
  show ?case
  proof (cases "poll_done (fst (reader k)) = None \<and> (?t + 500 < deadline \<or> (?t + 500 = deadline \<and> tie k))")
    case True
    then have "poll_loop late reader tie deadline k t = poll_loop late reader tie deadline (Suc k) (?t + 500)"
      by (subst poll_loop.simps) (simp add: Let_def)
    with 1(1) [OF refl _ _] 1(2) True show ?thesis by auto
  next
    case False
    with 1(2) show ?thesis
      by (subst (asm) poll_loop.simps, subst poll_loop.simps)
        (auto simp: Let_def poll_done_def split: option.splits sum.splits if_splits)
  qed
qed

lemma backoff_bounds:
  assumes "\<And>i t. \<not> cancelled cancelAt t \<Longrightarrow> t \<le> snd (attempt i t) \<and> snd (attempt i t) \<le> t + A" "1 \<le> steps"
  shows "rtr_attempts (backoff attempt cancelAt steps delay i t) \<le> i + steps \<and>
    rtr_end (backoff attempt cancelAt steps delay i t) \<le> t + steps * A + delay * (2 ^ (steps - 1) - 1)"
  using assms(2)
proof (induction steps arbitrary: delay i t)
  case (Suc steps)
  show ?case
  proof (cases "cancelled cancelAt t \<or> steps = 0 \<or> isl (fst (attempt i t)) = False")
    case True
    with assms(1) [of t i] show ?thesis
      by (cases "attempt i t"; cases "fst (attempt i t)") auto
  next
    case False
    then obtain err t' where r: "attempt i t = (Inl err, t')" "t \<le> t'" "t' \<le> t + A"
      using assms(1) [of t i] by (cases "attempt i t"; cases "fst (attempt i t)") auto
    from False have steps: "1 \<le> steps" by simp
    obtain m where m: "2 ^ (steps - 1) = Suc m"
      by (metis gr0_implies_Suc zero_less_numeral zero_less_power)
    with steps have pow: "2 ^ steps - 1 = Suc (2 * m)"
      by (cases steps) auto
    show ?thesis
    proof (cases "cancelled cancelAt (t' + delay)")
      case True
      with r have "rtr_end (backoff attempt cancelAt (Suc steps) delay i t) \<le> t' + delay"
        using False by (auto simp: cancelled_def split: option.splits)
      moreover have "t' + delay \<le> t + Suc steps * A + delay * (2 ^ steps - 1)"
        unfolding pow using r by simp
      ultimately show ?thesis using True False r steps by simp
    next
      case going: False
      from Suc.IH [OF steps, of "2 * delay" "Suc i" "t' + delay", unfolded m] r
      have "rtr_attempts (backoff attempt cancelAt steps (2 * delay) (Suc i) (t' + delay)) \<le> i + Suc steps \<and>
          rtr_end (backoff attempt cancelAt steps (2 * delay) (Suc i) (t' + delay)) \<le> t + Suc steps * A + delay * (2 ^ steps - 1)"
        unfolding pow by (auto simp: algebra_simps)
      with False r going show ?thesis by simp
    qed
  qed
qed simp

section \<open>Properties\<close>

lemma setup_end:
  assumes "\<And>k. snd (reader k) \<le> D" "\<not> cancelled cancelAt t"
  shows "t \<le> snd (setupOperatorInfoMetric getenv ns register reader tie cancelAt t) \<and>
    snd (setupOperatorInfoMetric getenv ns register reader tie cancelAt t) \<le> t + (15000 + D)"
proof -
  define deadline where "deadline = fst (wait_deadline cancelAt t)"
  have d: "t \<le> deadline" "deadline \<le> t + 15000"
    using assms(2) by (auto simp: deadline_def wait_deadline_def cancelled_def split: option.splits)
  from poll_loop_end [where late = "expired ns (getenv ''POD_NAME'') (snd (wait_deadline cancelAt t))" and reader = reader and tie = tie and k = 0, OF assms(1) d(1)] d(2) show ?thesis
    by (auto simp: setupOperatorInfoMetric_def waitForOperatorImage_def deadline_def [symmetric] Let_def split: sum.split option.split)
qed

text \<open>
  C29: waiting for the operator's image always ends: after at most 31 reads of the pod, within the
  timeout and the time of the last read, whatever the reads answer and however long each takes; and
  an image it returns is one the pod reported.
\<close>

theorem operator_image_wait_ends:
  assumes "case cancelAt of None \<Rightarrow> True | Some c \<Rightarrow> t \<le> c"
  shows "poll_reads (waitForOperatorImage ns podName reader tie cancelAt t) \<le> 31 \<and>
    (\<forall>D. (\<forall>k. snd (reader k) \<le> D) \<longrightarrow> poll_end (waitForOperatorImage ns podName reader tie cancelAt t) \<le> t + 15000 + D) \<and>
    (\<forall>img. poll_result (waitForOperatorImage ns podName reader tie cancelAt t) = Inr img \<longrightarrow>
       img \<noteq> [] \<and> (\<exists>j < 31. operatorImage (fst (reader j)) = Inr img))"
proof -
  define deadline where "deadline = fst (wait_deadline cancelAt t)"
  define late where "late = expired ns podName (snd (wait_deadline cancelAt t))"
  have wait: "waitForOperatorImage ns podName reader tie cancelAt t = poll_loop late reader tie deadline 0 t"
    by (simp add: waitForOperatorImage_def deadline_def late_def)
  have d: "t \<le> deadline" "deadline \<le> t + 15000"
    using assms by (auto simp: deadline_def wait_deadline_def split: option.splits)
  have "(deadline - t) div 500 \<le> 15000 div 500"
    using d(2) by (intro div_le_mono) simp
  with poll_loop_reads [OF d(1), where late = late and reader = reader and tie = tie and k = 0] have reads: "poll_reads (poll_loop late reader tie deadline 0 t) \<le> 31" by simp
  moreover have "poll_end (poll_loop late reader tie deadline 0 t) \<le> t + 15000 + D" if "\<forall>k. snd (reader k) \<le> D" for D
    using poll_loop_end [where late = late and reader = reader and D = D and t = t and deadline = deadline and tie = tie and k = 0] that d by auto
  moreover have "img \<noteq> [] \<and> (\<exists>j < 31. operatorImage (fst (reader j)) = Inr img)"
    if "poll_result (poll_loop late reader tie deadline 0 t) = Inr img" for img
    using poll_loop_result [OF that] reads by (meson order.strict_trans2)
  ultimately show ?thesis unfolding wait by blast
qed

theorem operator_image_wait_ends_witness:
  "poll_result (waitForOperatorImage ''openshift-karpenter'' ''pod'' (\<lambda>k. (if k < 2 then Inr [] else Inr [(OperatorContainerName, ''operator:1'')], 10)) (\<lambda>_. True) None 0)
     = Inr ''operator:1'' \<and>
   poll_reads (waitForOperatorImage ''openshift-karpenter'' ''pod'' (\<lambda>_. (Inl (ApiErr NotFound), 10)) (\<lambda>_. True) (Some 2000) 0) \<le> 31"
proof -
  have "poll_result (waitForOperatorImage ''openshift-karpenter'' ''pod'' (\<lambda>k. (if k < 2 then Inr [] else Inr [(OperatorContainerName, ''operator:1'')], 10)) (\<lambda>_. True) None 0)
      = Inr ''operator:1''"
    by (simp add: waitForOperatorImage_def wait_deadline_def poll_loop.simps poll_done_def operatorImage_def Let_def)
  moreover have "poll_reads (waitForOperatorImage ''openshift-karpenter'' ''pod'' (\<lambda>_. (Inl (ApiErr NotFound), 10)) (\<lambda>_. True) (Some 2000) 0) \<le> 31"
    using operator_image_wait_ends [where cancelAt = "Some 2000" and t = 0 and reader = "\<lambda>_. (Inl (ApiErr NotFound), 10)" and tie = "\<lambda>_. True"] by simp
  ultimately show ?thesis by blast
qed

text \<open>
  The metric setup gives up after at most five attempts, and if no read takes longer than \<open>D\<close>
  milliseconds, within 90 seconds and five reads.
\<close>

theorem metric_setup_bounded:
  assumes "\<forall>i k. snd (readers i k) \<le> D"
  shows "rtr_attempts (setupOperatorInfoMetricWithRetry getenv ns registers readers tie cancelAt t) \<le> 5 \<and>
    rtr_end (setupOperatorInfoMetricWithRetry getenv ns registers readers tie cancelAt t) \<le> t + 90000 + 5 * D"
proof -
  let ?attempt = "\<lambda>i. setupOperatorInfoMetric getenv ns (registers i) (readers i) tie cancelAt"
  have "\<not> cancelled cancelAt t' \<Longrightarrow>
      t' \<le> snd (setupOperatorInfoMetric getenv ns (registers i) (readers i) tie cancelAt t') \<and>
      snd (setupOperatorInfoMetric getenv ns (registers i) (readers i) tie cancelAt t') \<le> t' + (15000 + D)" for i t'
    using assms by (intro setup_end) simp_all
  from backoff_bounds [where attempt = ?attempt and cancelAt = cancelAt and steps = 5 and delay = 1000 and i = 0 and t = t, OF this] show ?thesis
    by (simp add: setupOperatorInfoMetricWithRetry_def)
qed

theorem metric_setup_bounded_witness:
  "rtr_attempts (setupOperatorInfoMetricWithRetry (\<lambda>_. ''pod'') ''openshift-karpenter'' (\<lambda>_ _. None) (\<lambda>_ _. (Inl (ApiErr (OtherApi ''down'')), 3)) (\<lambda>_. True) None 0) = 5 \<and>
   rtr_end (setupOperatorInfoMetricWithRetry (\<lambda>_. ''pod'') ''openshift-karpenter'' (\<lambda>_ _. None) (\<lambda>_ _. (Inl (ApiErr (OtherApi ''down'')), 3)) (\<lambda>_. True) None 0) \<le> 90015"
proof -
  have five: "(5::nat) = Suc (Suc (Suc (Suc (Suc 0))))" by simp
  let ?reader = "\<lambda>(_::nat) (_::nat). (Inl (ApiErr (OtherApi ''down'')) :: pod_answer, 3)"
  have attempt: "setupOperatorInfoMetric (\<lambda>_. ''pod'') ''openshift-karpenter'' (\<lambda>_. None) (?reader i) (\<lambda>_. True) None t = (Inl (Wrap ''read operator image: %w'' []
      (Wrap ''get operator pod: %w'' [] (ApiErr (OtherApi ''down'')))), t + 3)" for i t
    by (simp add: setupOperatorInfoMetric_def waitForOperatorImage_def poll_loop.simps poll_done_def operatorImage_def Let_def)
  have "rtr_attempts (setupOperatorInfoMetricWithRetry (\<lambda>_. ''pod'') ''openshift-karpenter'' (\<lambda>_ _. None) ?reader (\<lambda>_. True) None 0) = 5"
    unfolding setupOperatorInfoMetricWithRetry_def attempt five by (simp add: cancelled_def)
  moreover have "rtr_end (setupOperatorInfoMetricWithRetry (\<lambda>_. ''pod'') ''openshift-karpenter'' (\<lambda>_ _. None) ?reader (\<lambda>_. True) None 0) \<le> 0 + 90000 + 5 * 3"
    by (rule metric_setup_bounded [THEN conjunct2]) simp
  ultimately show ?thesis by simp
qed

end
