(* ===== verification/Kubelet_Json.thy ===== *)
theory Kubelet_Json
  imports World
begin

text \<open>
  \<open>api/karpenter/v1/kubelet_config.go\<close>: the JSON form of a KubeletConfiguration, with typed fields
  and an overflow that carries every other key. JSON is taken at the level of its values, as
  \<open>encoding/json\<close> parses and prints them; only the overflow is kept as bytes, so the encoding of an
  object to bytes and its parser are the parameters \<open>enc\<close> and \<open>dec\<close>. Keys are ASCII.
\<close>

section \<open>JSON\<close>

text \<open>A number is an integer literal or another one, kept as text. An object keeps the order and the duplicates of the text.\<close>

datatype json =
    JNull
  | JBool bool
  | JNum int
  | JOtherNum string
  | JStr string
  | JArr "json list"
  | JObj "(string \<times> json) list"

text \<open>\<open>map[string]json.RawMessage\<close>: a later duplicate replaces an earlier one.\<close>

type_synonym raw_map = "(string, json) fmap"

definition raw_of :: "(string \<times> json) list \<Rightarrow> raw_map" where
  "raw_of kvs = fold (\<lambda>(k, v) m. fmupd k v m) kvs fmempty"

definition type_error :: error where
  "type_error = Errorf ''json: cannot unmarshal'' []"

section \<open>The fields\<close>

datatype kubelet_field =
    MaxPods | PodsPerCore | SystemReserved | KubeReserved | EvictionHard | EvictionSoft
  | EvictionSoftGracePeriod | EvictionMaxPodGracePeriod | ImageGCHighThresholdPercent
  | ImageGCLowThresholdPercent | CPUCFSQuota

text \<open>The json tags of the struct; the field \<open>Overflow\<close> has the tag \<open>-\<close>.\<close>

definition kubelet_fields :: "(string \<times> kubelet_field) list" where
  "kubelet_fields =
     [(''maxPods'', MaxPods), (''podsPerCore'', PodsPerCore), (''systemReserved'', SystemReserved),
      (''kubeReserved'', KubeReserved), (''evictionHard'', EvictionHard), (''evictionSoft'', EvictionSoft),
      (''evictionSoftGracePeriod'', EvictionSoftGracePeriod),
      (''evictionMaxPodGracePeriod'', EvictionMaxPodGracePeriod),
      (''imageGCHighThresholdPercent'', ImageGCHighThresholdPercent),
      (''imageGCLowThresholdPercent'', ImageGCLowThresholdPercent), (''cpuCFSQuota'', CPUCFSQuota)]"

definition kubeletConfigKnownFields :: "string list" where
  "kubeletConfigKnownFields = map fst kubelet_fields"

text \<open>\<open>encoding/json\<close> takes the field of exactly that name, or else one that differs in case only.\<close>

definition field_of :: "string \<Rightarrow> kubelet_field option" where
  "field_of key =
     (case map_of kubelet_fields key of
        Some f \<Rightarrow> Some f
      | None \<Rightarrow> map_option snd (find (\<lambda>(n, f). to_lower n = to_lower key) kubelet_fields))"

datatype field_value = VInt int32 | VMap smap | VPtr "int32 option" | VBool "bool option"

fun get_field :: "kubelet_field \<Rightarrow> kubelet_configuration \<Rightarrow> field_value" where
  "get_field MaxPods k = VInt (kc_maxPods k)"
| "get_field PodsPerCore k = VInt (kc_podsPerCore k)"
| "get_field SystemReserved k = VMap (kc_systemReserved k)"
| "get_field KubeReserved k = VMap (kc_kubeReserved k)"
| "get_field EvictionHard k = VMap (kc_evictionHard k)"
| "get_field EvictionSoft k = VMap (kc_evictionSoft k)"
| "get_field EvictionSoftGracePeriod k = VMap (kc_evictionSoftGracePeriod k)"
| "get_field EvictionMaxPodGracePeriod k = VPtr (kc_evictionMaxPodGracePeriod k)"
| "get_field ImageGCHighThresholdPercent k = VPtr (kc_imageGCHighThresholdPercent k)"
| "get_field ImageGCLowThresholdPercent k = VPtr (kc_imageGCLowThresholdPercent k)"
| "get_field CPUCFSQuota k = VBool (kc_cpuCFSQuota k)"

fun put_field :: "kubelet_field \<Rightarrow> field_value \<Rightarrow> kubelet_configuration \<Rightarrow> kubelet_configuration" where
  "put_field MaxPods (VInt n) k = k\<lparr>kc_maxPods := n\<rparr>"
| "put_field PodsPerCore (VInt n) k = k\<lparr>kc_podsPerCore := n\<rparr>"
| "put_field SystemReserved (VMap m) k = k\<lparr>kc_systemReserved := m\<rparr>"
| "put_field KubeReserved (VMap m) k = k\<lparr>kc_kubeReserved := m\<rparr>"
| "put_field EvictionHard (VMap m) k = k\<lparr>kc_evictionHard := m\<rparr>"
| "put_field EvictionSoft (VMap m) k = k\<lparr>kc_evictionSoft := m\<rparr>"
| "put_field EvictionSoftGracePeriod (VMap m) k = k\<lparr>kc_evictionSoftGracePeriod := m\<rparr>"
| "put_field EvictionMaxPodGracePeriod (VPtr p) k = k\<lparr>kc_evictionMaxPodGracePeriod := p\<rparr>"
| "put_field ImageGCHighThresholdPercent (VPtr p) k = k\<lparr>kc_imageGCHighThresholdPercent := p\<rparr>"
| "put_field ImageGCLowThresholdPercent (VPtr p) k = k\<lparr>kc_imageGCLowThresholdPercent := p\<rparr>"
| "put_field CPUCFSQuota (VBool b) k = k\<lparr>kc_cpuCFSQuota := b\<rparr>"
| "put_field _ _ k = k"

section \<open>Decoding and encoding a field\<close>

text \<open>Strings decode into a map that is there already, or a new one; null stores an empty string.\<close>

fun decode_strings :: "(string \<times> json) list \<Rightarrow> (string, string) fmap \<Rightarrow> (string, string) fmap option" where
  "decode_strings [] m = Some m"
| "decode_strings ((k, JStr s) # kvs) m = decode_strings kvs (fmupd k s m)"
| "decode_strings ((k, JNull) # kvs) m = decode_strings kvs (fmupd k [] m)"
| "decode_strings (kv # kvs) m = None"

definition decode_int32 :: "int \<Rightarrow> int32 option" where
  "decode_int32 n = (if - (2 ^ 31) \<le> n \<and> n < 2 ^ 31 then Some (word_of_int n) else None)"

text \<open>The new value of a field from the old one; \<open>None\<close> is a type error.\<close>

fun decode_value :: "json \<Rightarrow> field_value \<Rightarrow> field_value option" where
  "decode_value (JNum n) (VInt _) = map_option VInt (decode_int32 n)"
| "decode_value JNull (VInt old) = Some (VInt old)"
| "decode_value (JNum n) (VPtr _) = map_option (\<lambda>x. VPtr (Some x)) (decode_int32 n)"
| "decode_value JNull (VPtr _) = Some (VPtr None)"
| "decode_value (JBool b) (VBool _) = Some (VBool (Some b))"
| "decode_value JNull (VBool _) = Some (VBool None)"
| "decode_value (JObj kvs) (VMap old) =
     map_option (\<lambda>m. VMap (Some m)) (decode_strings kvs (case old of None \<Rightarrow> fmempty | Some m \<Rightarrow> m))"
| "decode_value JNull (VMap _) = Some (VMap None)"
| "decode_value _ _ = None"

text \<open>\<open>omitempty\<close>: no key for a zero number, a nil or empty map, a nil pointer.\<close>

fun encode_value :: "field_value \<Rightarrow> json option" where
  "encode_value (VInt n) = (if n = 0 then None else Some (JNum (sint n)))"
| "encode_value (VPtr p) = map_option (\<lambda>n. JNum (sint n)) p"
| "encode_value (VBool b) = map_option JBool b"
| "encode_value (VMap m) =
     (case m of None \<Rightarrow> None
      | Some f \<Rightarrow> if f = fmempty then None else Some (JObj (map (\<lambda>(k, v). (k, JStr v)) (sorted_list_of_fmap f))))"

fun decode_fields :: "(string \<times> json) list \<Rightarrow> kubelet_configuration \<Rightarrow> kubelet_configuration option" where
  "decode_fields [] k = Some k"
| "decode_fields ((key, v) # kvs) k =
     (case field_of key of
        None \<Rightarrow> decode_fields kvs k
      | Some f \<Rightarrow>
          (case decode_value v (get_field f k) of
             None \<Rightarrow> None
           | Some x \<Rightarrow> decode_fields kvs (put_field f x k)))"

section \<open>The methods\<close>

text \<open>\<open>enc\<close>: the bytes of an object, its keys sorted; \<open>dec\<close>: the value of bytes.\<close>

definition UnmarshalJSON :: "(raw_map \<Rightarrow> string) \<Rightarrow> json \<Rightarrow> error + kubelet_configuration" where
  "UnmarshalJSON enc data =
     (case data of
        JObj kvs \<Rightarrow>
          (case decode_fields kvs zero_kubelet of
             None \<Rightarrow> Inl type_error
           | Some k \<Rightarrow>
               let raw = fold fmdrop kubeletConfigKnownFields (raw_of kvs) in
               if fcard (fmdom raw) > 0 then Inr (k\<lparr>kc_overflow := enc raw\<rparr>) else Inr k)
      | JNull \<Rightarrow> Inr zero_kubelet
      | _ \<Rightarrow> Inl type_error)"

text \<open>The object of the typed fields, in the order of the struct.\<close>

definition marshal_alias :: "kubelet_configuration \<Rightarrow> (string \<times> json) list" where
  "marshal_alias k =
     concat (map (\<lambda>(n, f). case encode_value (get_field f k) of None \<Rightarrow> [] | Some j \<Rightarrow> [(n, j)]) kubelet_fields)"

text \<open>Assigning to a nil map, which the bytes \<open>null\<close> give, panics.\<close>

definition MarshalJSON :: "(string \<Rightarrow> error + json) \<Rightarrow> kubelet_configuration \<Rightarrow> error + json" where
  "MarshalJSON dec k =
     (let structured = marshal_alias k in
      if kc_overflow k = [] then Inr (JObj structured)
      else case dec (kc_overflow k) of
        Inl err \<Rightarrow> Inl err
      | Inr (JObj kvs) \<Rightarrow>
          Inr (JObj (sorted_list_of_fmap (fold (\<lambda>(key, val) m. fmupd key val m) structured (raw_of kvs))))
      | Inr JNull \<Rightarrow> if structured = [] then Inr JNull else Inl (Panic ''assignment to entry in nil map'')
      | Inr _ \<Rightarrow> Inl type_error)"

section \<open>Raw maps\<close>

lemma lookup_fold_upd:
  "fmlookup (fold (\<lambda>(k, v) m. fmupd k v m) kvs m) key = (case map_of (rev kvs) key of None \<Rightarrow> fmlookup m key | Some v \<Rightarrow> Some v)"
  by (induction kvs arbitrary: m) (auto simp: map_add_def split: option.splits)

lemma lookup_raw_of: "fmlookup (raw_of kvs) key = map_of (rev kvs) key"
  by (simp add: raw_of_def lookup_fold_upd split: option.split)

lemma sorted_keys: "map fst (sorted_list_of_fmap m) = sorted_list_of_fset (fmdom m)"
  by (simp add: sorted_list_of_fmap_def comp_def)

lemma sorted_distinct: "distinct (map fst (sorted_list_of_fmap m))"
  unfolding sorted_keys by (simp add: sorted_list_of_fset.rep_eq)

lemma map_of_rev: "distinct (map fst xs) \<Longrightarrow> map_of (rev xs) = map_of xs"
  by (rule map_of_eqI) (auto simp: rev_map [symmetric] intro: map_of_is_SomeI)

lemma raw_of_sorted [simp]: "raw_of (sorted_list_of_fmap m) = m"
  by (rule fmap_ext) (simp add: lookup_raw_of map_of_rev [OF sorted_distinct])

lemma lookup_drop: "fmlookup (fold fmdrop ks m) key = (if key \<in> set ks then None else fmlookup m key)"
  by (induction ks arbitrary: m) auto

section \<open>Fields\<close>

fun same_kind :: "field_value \<Rightarrow> field_value \<Rightarrow> bool" where
  "same_kind (VInt _) (VInt _) = True"
| "same_kind (VMap _) (VMap _) = True"
| "same_kind (VPtr _) (VPtr _) = True"
| "same_kind (VBool _) (VBool _) = True"
| "same_kind _ _ = False"

lemma decode_same_kind: "decode_value j v = Some x \<Longrightarrow> same_kind v x"
  by (cases "(j, v)" rule: decode_value.cases) auto

lemma get_put_field: "same_kind (get_field f k) x \<Longrightarrow> get_field g (put_field f x k) = (if g = f then x else get_field g k)"
  by (cases f; cases x; cases g) simp_all

lemma overflow_put_field [simp]: "kc_overflow (put_field f x k) = kc_overflow k"
  by (cases f; cases x) simp_all

lemma kubelet_eqI:
  assumes "\<And>f. get_field f a = get_field f b" "kc_overflow a = kc_overflow b"
  shows "a = (b :: kubelet_configuration)"
proof (rule kubelet_configuration.equality)
  show "kc_maxPods a = kc_maxPods b" using assms(1) [of MaxPods] by simp
  show "kc_podsPerCore a = kc_podsPerCore b" using assms(1) [of PodsPerCore] by simp
  show "kc_systemReserved a = kc_systemReserved b" using assms(1) [of SystemReserved] by simp
  show "kc_kubeReserved a = kc_kubeReserved b" using assms(1) [of KubeReserved] by simp
  show "kc_evictionHard a = kc_evictionHard b" using assms(1) [of EvictionHard] by simp
  show "kc_evictionSoft a = kc_evictionSoft b" using assms(1) [of EvictionSoft] by simp
  show "kc_evictionSoftGracePeriod a = kc_evictionSoftGracePeriod b" using assms(1) [of EvictionSoftGracePeriod] by simp
  show "kc_evictionMaxPodGracePeriod a = kc_evictionMaxPodGracePeriod b" using assms(1) [of EvictionMaxPodGracePeriod] by simp
  show "kc_imageGCHighThresholdPercent a = kc_imageGCHighThresholdPercent b" using assms(1) [of ImageGCHighThresholdPercent] by simp
  show "kc_imageGCLowThresholdPercent a = kc_imageGCLowThresholdPercent b" using assms(1) [of ImageGCLowThresholdPercent] by simp
  show "kc_cpuCFSQuota a = kc_cpuCFSQuota b" using assms(1) [of CPUCFSQuota] by simp
qed (simp_all add: assms(2))

fun norm_value :: "field_value \<Rightarrow> field_value" where
  "norm_value (VMap m) = VMap (sm_norm m)"
| "norm_value v = v"

lemma get_norm_kubelet: "get_field f (norm_kubelet k) = norm_value (get_field f k)"
  by (cases f) (simp_all add: norm_kubelet_def)

lemma decode_sorted_strings: "decode_strings (map (\<lambda>(k, v). (k, JStr v)) xs) m = Some (fold (\<lambda>(k, v) m. fmupd k v m) xs m)"
  by (induction xs arbitrary: m) auto

lemma decode_sorted_map: "decode_strings (map (\<lambda>(k, v). (k, JStr v)) (sorted_list_of_fmap f)) fmempty = Some f"
proof -
  have "fold (\<lambda>(k, v) m. fmupd k v m) (sorted_list_of_fmap f) fmempty = f"
    by (rule fmap_ext) (simp add: lookup_fold_upd map_of_rev [OF sorted_distinct] split: option.split)
  then show ?thesis by (simp add: decode_sorted_strings)
qed

lemma decode_int32_sint [simp]: "decode_int32 (sint (n :: int32)) = Some n"
  using sint_greater_eq [of n] sint_less [of n] by (simp add: decode_int32_def)

lemma decode_encoded:
  "encode_value (get_field f k) = Some j \<Longrightarrow> decode_value j (get_field f zero_kubelet) = Some (norm_value (get_field f k))"
  by (cases f) (auto simp: zero_kubelet_def sm_norm_def decode_sorted_map split: if_splits option.splits)

lemma encode_None:
  "encode_value (get_field f k) = None \<Longrightarrow> norm_value (get_field f k) = get_field f zero_kubelet"
  by (cases f) (auto simp: zero_kubelet_def sm_norm_def split: if_splits option.splits)

text \<open>The names of the fields, and what \<open>field_of\<close> makes of them.\<close>

lemma field_names: "distinct (map fst kubelet_fields)" "distinct (map snd kubelet_fields)" "\<exists>n. (n, f) \<in> set kubelet_fields"
  by (simp_all add: kubelet_fields_def) (cases f; auto)

lemma field_of_known: "(n, f) \<in> set kubelet_fields \<Longrightarrow> field_of n = Some f"
  using field_names(1) by (simp add: field_of_def)

lemma set_marshal_alias:
  "(n, j) \<in> set (marshal_alias k) \<longleftrightarrow> (\<exists>f. (n, f) \<in> set kubelet_fields \<and> encode_value (get_field f k) = Some j)"
  by (force simp: marshal_alias_def split: option.splits)

lemma keys_marshal_alias: "map fst (marshal_alias k) = map fst (filter (\<lambda>(n, f). encode_value (get_field f k) \<noteq> None) kubelet_fields)"
proof -
  have "map fst (concat (map (\<lambda>(n, f). case encode_value (get_field f k) of None \<Rightarrow> [] | Some j \<Rightarrow> [(n, j)]) fs)) =
      map fst (filter (\<lambda>(n, f). encode_value (get_field f k) \<noteq> None) fs)" for fs
    by (induction fs) (auto split: option.splits)
  then show ?thesis by (simp add: marshal_alias_def)
qed

lemma distinct_marshal_alias: "distinct (map fst (marshal_alias k))"
  unfolding keys_marshal_alias by (simp add: distinct_map_filter field_names(1))

section \<open>Decoding what was encoded\<close>

text \<open>\<open>encodes k kvs\<close>: every entry is foreign to the struct or the encoding of its field in \<open>k\<close>.\<close>

definition encodes :: "kubelet_configuration \<Rightarrow> (string \<times> json) list \<Rightarrow> bool" where
  "encodes k kvs \<longleftrightarrow>
     (\<forall>n j. (n, j) \<in> set kvs \<longrightarrow> field_of n = None \<or> (\<exists>f. (n, f) \<in> set kubelet_fields \<and> encode_value (get_field f k) = Some j))"

definition names_field :: "(string \<times> json) list \<Rightarrow> kubelet_field \<Rightarrow> bool" where
  "names_field kvs f \<longleftrightarrow> (\<exists>n j. (n, j) \<in> set kvs \<and> field_of n = Some f)"

lemma name_of_field: "(n, f) \<in> set kubelet_fields \<Longrightarrow> (n', f) \<in> set kubelet_fields \<Longrightarrow> n = n'"
  using field_names(2) by (metis distinct_map inj_onD prod.sel)

lemma encodes_field:
  "encodes k kvs \<Longrightarrow> (n, j) \<in> set kvs \<Longrightarrow> field_of n = Some f \<Longrightarrow>
   (n, f) \<in> set kubelet_fields \<and> encode_value (get_field f k) = Some j"
  by (metis encodes_def field_of_known option.distinct(1) option.inject)

lemma decode_fields_encoded:
  assumes "distinct (map fst kvs)" "encodes k kvs" "\<And>f. names_field kvs f \<Longrightarrow> get_field f k0 = get_field f zero_kubelet"
  shows "\<exists>k'. decode_fields kvs k0 = Some k' \<and> kc_overflow k' = kc_overflow k0 \<and>
    (\<forall>f. get_field f k' = (if names_field kvs f then norm_value (get_field f k) else get_field f k0))"
  using assms
proof (induction kvs arbitrary: k0)
  case Nil
  then show ?case by (simp add: names_field_def)
next
  case (Cons kv kvs)
  obtain n j where kv: "kv = (n, j)" by (cases kv)
  have enc: "encodes k kvs" and dist: "distinct (map fst kvs)" "n \<notin> fst ` set kvs"
    using Cons.prems(1,2) by (auto simp: encodes_def kv)
  show ?case
  proof (cases "field_of n")
    case None
    then have same: "names_field (kv # kvs) = names_field kvs"
      by (auto simp: names_field_def kv fun_eq_iff)
    from Cons.IH [OF dist(1) enc, of k0] Cons.prems(3) None show ?thesis
      unfolding same by (simp add: kv)
  next
    case (Some f)
    with encodes_field [OF Cons.prems(2), of n j f] have f: "(n, f) \<in> set kubelet_fields" "encode_value (get_field f k) = Some j"
      by (simp_all add: kv)
    have names: "names_field (kv # kvs) g \<longleftrightarrow> g = f \<or> names_field kvs g" for g
      using Some by (auto simp: names_field_def kv)
    let ?x = "norm_value (get_field f k)" and ?k = "put_field f (norm_value (get_field f k)) k0"
    have dec: "decode_value j (get_field f k0) = Some ?x"
      using decode_encoded [OF f(2)] Cons.prems(3) names by simp
    note get = get_put_field [OF decode_same_kind [OF dec]]
    have fresh: "\<not> names_field kvs f"
    proof
      assume "names_field kvs f"
      then obtain n' j' where n': "(n', j') \<in> set kvs" "field_of n' = Some f" by (auto simp: names_field_def)
      from encodes_field [OF enc n'] name_of_field f(1) have "n' = n" by blast
      with n'(1) dist(2) show False by force
    qed
    with Cons.prems(3) names get have "names_field kvs g \<Longrightarrow> get_field g ?k = get_field g zero_kubelet" for g
      by auto
    from Cons.IH [OF dist(1) enc this] obtain k' where k': "decode_fields kvs ?k = Some k'" "kc_overflow k' = kc_overflow ?k"
      "\<And>g. get_field g k' = (if names_field kvs g then norm_value (get_field g k) else get_field g ?k)"
      by blast
    with Some dec fresh names get show ?thesis
      by (intro exI [of _ k']) (auto simp: kv)
  qed
qed

lemma decode_whole:
  assumes "distinct (map fst kvs)" "encodes k kvs"
    and "\<And>n j. (n, j) \<in> set (marshal_alias k) \<Longrightarrow> (n, j) \<in> set kvs"
  shows "decode_fields kvs zero_kubelet = Some ((norm_kubelet k)\<lparr>kc_overflow := []\<rparr>)"
proof -
  from decode_fields_encoded [OF assms(1,2), of zero_kubelet] obtain k' where
    k': "decode_fields kvs zero_kubelet = Some k'" "kc_overflow k' = []"
    "\<And>f. get_field f k' = (if names_field kvs f then norm_value (get_field f k) else get_field f zero_kubelet)"
    by (auto simp: zero_kubelet_def)
  have "get_field f k' = norm_value (get_field f k)" for f
  proof (cases "encode_value (get_field f k)")
    case None
    then have "norm_value (get_field f k) = get_field f zero_kubelet" by (rule encode_None)
    then show ?thesis by (simp add: k'(3))
  next
    case (Some j)
    obtain n where n: "(n, f) \<in> set kubelet_fields" using field_names(3) by blast
    with Some have "(n, j) \<in> set kvs" by (intro assms(3)) (auto simp: set_marshal_alias)
    with field_of_known [OF n] have "names_field kvs f" by (auto simp: names_field_def)
    then show ?thesis by (simp add: k'(3))
  qed
  moreover have "get_field f ((norm_kubelet k)\<lparr>kc_overflow := []\<rparr>) = norm_value (get_field f k)" for f
    using get_norm_kubelet [of f k] by (cases f) simp_all
  ultimately have "k' = (norm_kubelet k)\<lparr>kc_overflow := []\<rparr>"
    by (intro kubelet_eqI) (simp_all add: k'(2))
  with k'(1) show ?thesis by simp
qed

section \<open>Properties\<close>

text \<open>What the operator relies on for the bytes of an object \<open>m\<close>: they are not empty and parse back.\<close>

definition json_contract :: "(raw_map \<Rightarrow> string) \<Rightarrow> (string \<Rightarrow> error + json) \<Rightarrow> raw_map \<Rightarrow> bool" where
  "json_contract enc dec m \<longleftrightarrow> enc m \<noteq> [] \<and> dec (enc m) = Inr (JObj (sorted_list_of_fmap m))"

text \<open>An overflow as \<open>UnmarshalJSON\<close> makes it, of keys that are no field's in any case.\<close>

definition overflow_of :: "(raw_map \<Rightarrow> string) \<Rightarrow> (string \<Rightarrow> error + json) \<Rightarrow> kubelet_configuration \<Rightarrow> raw_map \<Rightarrow> bool" where
  "overflow_of enc dec k m \<longleftrightarrow>
     (if m = fmempty then kc_overflow k = [] else kc_overflow k = enc m \<and> json_contract enc dec m) \<and>
     fmpred (\<lambda>key _. field_of key = None) m"

lemma known_field: "key \<in> set kubeletConfigKnownFields \<longleftrightarrow> (\<exists>f. (key, f) \<in> set kubelet_fields)"
  by (force simp: kubeletConfigKnownFields_def)

lemma known_not_foreign: "field_of key = None \<Longrightarrow> key \<notin> set kubeletConfigKnownFields"
  using field_of_known known_field by fastforce

lemma marshal_alias_known: "key \<notin> set kubeletConfigKnownFields \<Longrightarrow> map_of (marshal_alias k) key = None"
  using set_marshal_alias known_field by (metis map_of_SomeD not_None_eq)

lemma raw_of_alias: "fmlookup (raw_of (marshal_alias k)) key = map_of (marshal_alias k) key"
  by (simp add: lookup_raw_of map_of_rev [OF distinct_marshal_alias])

lemma no_foreign_rest: "fold fmdrop kubeletConfigKnownFields (raw_of (marshal_alias k)) = fmempty"
proof (rule fmap_ext)
  fix key
  show "fmlookup (fold fmdrop kubeletConfigKnownFields (raw_of (marshal_alias k))) key = fmlookup fmempty key"
    using marshal_alias_known [of key k] by (auto simp: lookup_drop raw_of_alias)
qed

lemma norm_overflow: "kc_overflow k = v \<Longrightarrow> (norm_kubelet k)\<lparr>kc_overflow := v\<rparr> = norm_kubelet k"
  by (cases k) (simp add: norm_kubelet_def)

text \<open>The object the typed fields and a foreign overflow are merged into.\<close>

lemma merged_lookup:
  "fmlookup (fold (\<lambda>(key, val) m. fmupd key val m) (marshal_alias k) m) key =
     (case map_of (marshal_alias k) key of None \<Rightarrow> fmlookup m key | Some j \<Rightarrow> Some j)"
  by (simp add: lookup_fold_upd map_of_rev [OF distinct_marshal_alias])

lemma in_sorted_iff: "(n, j) \<in> set (sorted_list_of_fmap m) \<longleftrightarrow> fmlookup m n = Some j"
  using map_of_eq_Some_iff [OF sorted_distinct, of m n j] by simp

lemma fcard_positive: "m \<noteq> fmempty \<Longrightarrow> fcard (fmdom m) > 0"
proof (rule ccontr)
  assume "m \<noteq> fmempty" "\<not> fcard (fmdom m) > 0"
  then have "fmdom m = {||}" by (simp add: fcard_0_eq)
  then have "m = fmempty" by (intro fmap_ext) (metis fempty_iff fmempty_lookup fmdom_notI fmdom_notD)
  with \<open>m \<noteq> fmempty\<close> show False by blast
qed


text \<open>Example: a configuration with a typed field, an empty map and an overflow.\<close>

definition demo_overflow :: raw_map where
  "demo_overflow = fmap_of_list [(''serializeImagePulls'', JBool False)]"

definition demo_bytes :: string where
  "demo_bytes = ''{\"serializeImagePulls\":false}''"

definition demo_enc :: "raw_map \<Rightarrow> string" where
  "demo_enc m = (if m = demo_overflow then demo_bytes else ''{}'')"

definition demo_dec :: "string \<Rightarrow> error + json" where
  "demo_dec s = (if s = demo_bytes then Inr (JObj [(''serializeImagePulls'', JBool False)]) else Inr (JObj []))"

lemma demo_bytes: "demo_bytes \<noteq> []"
  by (simp add: demo_bytes_def)

lemma demo_json: "json_contract demo_enc demo_dec demo_overflow"
proof -
  have "sorted_list_of_fmap demo_overflow = [(''serializeImagePulls'', JBool False)]"
    by (simp add: demo_overflow_def sorted_list_of_fmap_def sorted_list_of_fset.rep_eq)
  then show ?thesis by (simp add: json_contract_def demo_enc_def demo_dec_def demo_bytes_def)
qed


text \<open>
  Whatever the operator reads, writing it back keeps every key it has no field for, with its value.
\<close>

theorem kubelet_overflow_preserved:
  assumes "UnmarshalJSON enc (JObj kvs) = Inr k" "MarshalJSON dec k = Inr data" "key \<notin> set kubeletConfigKnownFields"
    and "json_contract enc dec (fold fmdrop kubeletConfigKnownFields (raw_of kvs))"
  shows "\<exists>obj. data = JObj obj \<and> fmlookup (raw_of obj) key = fmlookup (raw_of kvs) key"
proof -
  let ?rest = "fold fmdrop kubeletConfigKnownFields (raw_of kvs)"
  from assms(1) obtain k0 where k0: "decode_fields kvs zero_kubelet = Some k0"
    and k: "k = (if fcard (fmdom ?rest) > 0 then k0\<lparr>kc_overflow := enc ?rest\<rparr> else k0)"
    by (auto simp: UnmarshalJSON_def Let_def split: option.splits if_splits)
  have "decode_fields xs x = Some y \<Longrightarrow> kc_overflow y = kc_overflow x" for xs x y
    by (induction xs x rule: decode_fields.induct) (auto split: option.splits)
  from this [OF k0] have "kc_overflow k0 = []" by (simp add: zero_kubelet_def)
  show ?thesis
  proof (cases "?rest = fmempty")
    case True
    then have "fmlookup ?rest key = None" by simp
    with assms(3) have "fmlookup (raw_of kvs) key = None" by (simp add: lookup_drop)
    with True k \<open>kc_overflow k0 = []\<close> assms(2,3) show ?thesis
      by (auto simp: MarshalJSON_def Let_def raw_of_alias marshal_alias_known fcard_fempty)
  next
    case False
    from fcard_positive [OF False] k have "kc_overflow k = enc ?rest" by simp
    with assms(2,4) have "data = JObj (sorted_list_of_fmap (fold (\<lambda>(key, val) m. fmupd key val m) (marshal_alias k) ?rest))"
      by (simp add: MarshalJSON_def json_contract_def Let_def)
    with assms(3) show ?thesis
      by (simp add: merged_lookup marshal_alias_known lookup_drop)
  qed
qed

theorem kubelet_overflow_preserved_witness:
  "\<exists>k data obj. UnmarshalJSON demo_enc (JObj [(''serializeImagePulls'', JBool False), (''maxPods'', JNum 110)]) = Inr k \<and>
     MarshalJSON demo_dec k = Inr data \<and> data = JObj obj \<and> fmlookup (raw_of obj) ''serializeImagePulls'' = Some (JBool False)"
proof -
  let ?kvs = "[(''serializeImagePulls'', JBool False), (''maxPods'', JNum 110)]"
  have known: "''serializeImagePulls'' \<notin> set kubeletConfigKnownFields" "field_of ''serializeImagePulls'' = None" "field_of ''maxPods'' = Some MaxPods"
    by code_simp+
  have rest: "fold fmdrop kubeletConfigKnownFields (raw_of ?kvs) = demo_overflow"
  proof (rule fmap_ext)
    fix key
    show "fmlookup (fold fmdrop kubeletConfigKnownFields (raw_of ?kvs)) key = fmlookup demo_overflow key"
      using known(1) by (auto simp: lookup_drop lookup_raw_of demo_overflow_def kubeletConfigKnownFields_def kubelet_fields_def)
  qed
  have ne: "demo_overflow \<noteq> fmempty"
    by (metis demo_overflow_def fmap_of_list_simps(2) fmempty_lookup fmupd_lookup option.distinct(1))
  obtain k0 where "decode_fields ?kvs zero_kubelet = Some k0"
    by (simp add: known zero_kubelet_def decode_int32_def)
  then obtain k where un: "UnmarshalJSON demo_enc (JObj ?kvs) = Inr k" "kc_overflow k = demo_bytes"
    using fcard_positive [OF ne] by (simp add: UnmarshalJSON_def rest demo_enc_def)
  then obtain data where mar: "MarshalJSON demo_dec k = Inr data"
    using demo_bytes by (simp add: MarshalJSON_def demo_dec_def Let_def)
  from kubelet_overflow_preserved [OF un(1) mar known(1)] demo_json obtain obj where "data = JObj obj"
    "fmlookup (raw_of obj) ''serializeImagePulls'' = fmlookup (raw_of ?kvs) ''serializeImagePulls''"
    by (auto simp: rest)
  with un(1) mar show ?thesis by (auto simp: lookup_raw_of)
qed

text \<open>
  A key that differs from a field's in case only sets the field and stays in the overflow: the
  configuration then carries the setting under both names.
\<close>

lemma case_variant_duplicated:
  "UnmarshalJSON enc (JObj [(''MaxPods'', JNum 10)]) =
     Inr (zero_kubelet\<lparr>kc_maxPods := 10, kc_overflow := enc (raw_of [(''MaxPods'', JNum 10)])\<rparr>)"
proof -
  have field: "field_of ''MaxPods'' = Some MaxPods" and foreign: "''MaxPods'' \<notin> set kubeletConfigKnownFields"
    by code_simp+
  have rest: "fold fmdrop kubeletConfigKnownFields (raw_of [(''MaxPods'', JNum 10)]) = raw_of [(''MaxPods'', JNum 10)]"
    using foreign by (intro fmap_ext) (auto simp: lookup_drop lookup_raw_of)
  have "raw_of [(''MaxPods'', JNum 10)] \<noteq> fmempty"
    by (metis fmempty_lookup lookup_raw_of map_of_Cons_code(2) option.distinct(1) rev_singleton_conv)
  from fcard_positive [OF this] show ?thesis
    by (simp add: UnmarshalJSON_def field rest zero_kubelet_def decode_int32_def)
qed

end
