(* ===== verification/Deep_Copy.thy ===== *)
theory Deep_Copy
  imports Prelude
begin

text \<open>
  The generated \<open>zz_generated.deepcopy.go\<close> of the API types. The other theories read a Go struct as its value; the
  deep copies are what makes that right, so here a value shows where it is stored: a pointer, a slice and a map carry the address of what
  they point to, and a shallow assignment keeps it. A deep copy has the same value at fresh
  addresses, and no write through one of the two is seen through the other.
\<close>

section \<open>Values with addresses\<close>

text \<open>
  A basic value is a string, a number, a bool or a \<open>time.Time\<close>, which is immutable. \<open>GoNil\<close> is the nil pointer, slice,
  map or interface. The values of the API are trees; an address may occur twice where storage is shared.
\<close>

datatype basic = BString string | BInt int | BBool bool

datatype go_value =
    Basic basic
  | GoNil
  | Pointer nat go_value
  | Slice nat "go_value list"
  | MapVal nat "basic list" "go_value list"
  | Struct "string list" "go_value list"

datatype go_type =
    BasicT
  | PointerT go_type
  | SliceT go_type
  | MapT go_type
  | StructT "string list" "go_type list"
  | InterfaceT

fun has_type :: "go_type \<Rightarrow> go_value \<Rightarrow> bool" where
  "has_type BasicT v = (case v of Basic b \<Rightarrow> True | _ \<Rightarrow> False)"
| "has_type (PointerT t) v = (case v of GoNil \<Rightarrow> True | Pointer a w \<Rightarrow> has_type t w | _ \<Rightarrow> False)"
| "has_type (SliceT t) v = (case v of GoNil \<Rightarrow> True | Slice a vs \<Rightarrow> list_all (has_type t) vs | _ \<Rightarrow> False)"
| "has_type (MapT t) v = (case v of GoNil \<Rightarrow> True | MapVal a ks vs \<Rightarrow> length ks = length vs \<and> list_all (has_type t) vs | _ \<Rightarrow> False)"
| "has_type (StructT ns ts) v = (case v of Struct ms vs \<Rightarrow> ms = ns \<and> length ns = length vs \<and> list_all2 has_type ts vs | _ \<Rightarrow> False)"
| "has_type InterfaceT v = (case v of GoNil \<Rightarrow> True | Pointer a w \<Rightarrow> True | _ \<Rightarrow> False)"

text \<open>The addresses a value reaches, the value without them, and a write to what an address holds.\<close>

fun addrs :: "go_value \<Rightarrow> nat list" where
  "addrs (Basic b) = []"
| "addrs GoNil = []"
| "addrs (Pointer a v) = a # addrs v"
| "addrs (Slice a vs) = a # concat (map addrs vs)"
| "addrs (MapVal a ks vs) = a # concat (map addrs vs)"
| "addrs (Struct ns vs) = concat (map addrs vs)"

fun erase :: "go_value \<Rightarrow> go_value" where
  "erase (Basic b) = Basic b"
| "erase GoNil = GoNil"
| "erase (Pointer a v) = Pointer 0 (erase v)"
| "erase (Slice a vs) = Slice 0 (map erase vs)"
| "erase (MapVal a ks vs) = MapVal 0 ks (map erase vs)"
| "erase (Struct ns vs) = Struct ns (map erase vs)"

fun write_at :: "nat \<Rightarrow> (go_value \<Rightarrow> go_value) \<Rightarrow> go_value \<Rightarrow> go_value" where
  "write_at x f (Basic b) = Basic b"
| "write_at x f GoNil = GoNil"
| "write_at x f (Pointer a v) = (if a = x then f (Pointer a v) else Pointer a (write_at x f v))"
| "write_at x f (Slice a vs) = (if a = x then f (Slice a vs) else Slice a (map (write_at x f) vs))"
| "write_at x f (MapVal a ks vs) = (if a = x then f (MapVal a ks vs) else MapVal a ks (map (write_at x f) vs))"
| "write_at x f (Struct ns vs) = Struct ns (map (write_at x f) vs)"

lemma write_at_unreached: "x \<notin> set (addrs v) \<Longrightarrow> write_at x f v = v"
  by (induction v) (auto intro: map_idI)

section \<open>Copying\<close>

text \<open>A copy takes the value and the next free address, which an allocation moves on.\<close>

type_synonym copier = "go_value \<Rightarrow> nat \<Rightarrow> go_value \<times> nat"

text \<open>\<open>*out = *in\<close>\<close>

definition shallow :: copier where
  "shallow v n = (v, n)"

fun copy_all :: "copier list \<Rightarrow> go_value list \<Rightarrow> nat \<Rightarrow> go_value list \<times> nat" where
  "copy_all (f # fs) (v # vs) n = (case f v n of (v', n1) \<Rightarrow> case copy_all fs vs n1 of (vs', n2) \<Rightarrow> (v' # vs', n2))"
| "copy_all fs vs n = ([], n)"

text \<open>\<open>*out = new(T)\<close> and a copy of what the pointer points to\<close>

definition copy_pointer :: "copier \<Rightarrow> copier" where
  "copy_pointer f v n =
     (case v of
        Pointer a w \<Rightarrow> (case f w (Suc n) of (w', n') \<Rightarrow> (Pointer n w', n'))
      | _ \<Rightarrow> (v, n))"

text \<open>\<open>*out = make([]T, len(*in))\<close> and a copy of each element\<close>

definition copy_slice :: "copier \<Rightarrow> copier" where
  "copy_slice f v n =
     (case v of
        Slice a vs \<Rightarrow> (case copy_all (replicate (length vs) f) vs (Suc n) of (vs', n') \<Rightarrow> (Slice n vs', n'))
      | _ \<Rightarrow> (v, n))"

text \<open>\<open>*out = make(map[string]T, len(*in))\<close> and an assignment for each key\<close>

definition copy_map :: copier where
  "copy_map v n = (case v of MapVal a ks vs \<Rightarrow> (MapVal n ks vs, Suc n) | _ \<Rightarrow> (v, n))"

text \<open>\<open>*out = *in\<close>, then a copy of each of the named fields\<close>

definition copy_fields :: "(string \<times> copier) list \<Rightarrow> copier" where
  "copy_fields cs v n =
     (case v of
        Struct ns vs \<Rightarrow>
          (case copy_all (map (\<lambda>m. case map_of cs m of None \<Rightarrow> shallow | Some f \<Rightarrow> f) ns) vs n of (vs', n') \<Rightarrow> (Struct ns vs', n'))
      | _ \<Rightarrow> (v, n))"

text \<open>\<open>DeepCopy\<close>: nil for nil, else a new T into which the receiver is copied\<close>

definition DeepCopy :: "copier \<Rightarrow> copier" where
  "DeepCopy DeepCopyInto = copy_pointer DeepCopyInto"

text \<open>\<open>DeepCopyObject\<close>: nil when the copy is nil\<close>

definition DeepCopyObject :: "copier \<Rightarrow> copier" where
  "DeepCopyObject DeepCopyInto v n = (case DeepCopy DeepCopyInto v n of (c, n') \<Rightarrow> if c \<noteq> GoNil then (c, n') else (GoNil, n'))"

section \<open>What a deep copy promises\<close>

named_theorems deep_copies

definition fresh_copy :: "go_value \<Rightarrow> nat \<Rightarrow> go_value \<times> nat \<Rightarrow> bool" where
  "fresh_copy v n r \<longleftrightarrow>
     erase (fst r) = erase v \<and> n \<le> snd r \<and> distinct (addrs (fst r)) \<and> set (addrs (fst r)) \<subseteq> {n ..< snd r}"

definition deep :: "go_type \<Rightarrow> copier \<Rightarrow> bool" where
  "deep t f \<longleftrightarrow> (\<forall>v n. has_type t v \<longrightarrow> fresh_copy v n (f v n))"

text \<open>A type without references may be assigned.\<close>

fun plain :: "go_type \<Rightarrow> bool" where
  "plain BasicT = True"
| "plain (StructT ns ts) = list_all plain ts"
| "plain t = False"

lemma plain_addrs: "plain t \<Longrightarrow> has_type t v \<Longrightarrow> addrs v = []"
proof (induction t v rule: has_type.induct)
  case (5 ns ts v)
  then obtain vs where v: "v = Struct ns vs" "list_all2 has_type ts vs"
    by (auto split: go_value.splits)
  have "addrs w = []" if "w \<in> set vs" for w
  proof -
    from that v(2) obtain t where "t \<in> set ts" "has_type t w"
      by (metis in_set_conv_nth list_all2_conv_all_nth)
    with 5 v that show ?thesis by (auto simp: list_all_iff)
  qed
  then show ?case by (simp add: v)
qed (auto split: go_value.splits)

lemma deep_plain [deep_copies]: "plain t \<Longrightarrow> deep t shallow"
  by (simp add: deep_def fresh_copy_def shallow_def plain_addrs)

lemma copy_all_fresh:
  assumes "list_all2 (\<lambda>f v. \<forall>n. fresh_copy v n (f v n)) fs vs" "copy_all fs vs n = (vs', n')"
  shows "map erase vs' = map erase vs \<and> n \<le> n' \<and> distinct (concat (map addrs vs')) \<and> set (concat (map addrs vs')) \<subseteq> {n ..< n'}"
  using assms
proof (induction fs vs arbitrary: n vs' n' rule: list_all2_induct)
  case (Cons f fs v vs)
  obtain c n1 where c: "f v n = (c, n1)" by fastforce
  obtain cs n2 where cs: "copy_all fs vs n1 = (cs, n2)" by fastforce
  have "fresh_copy v n (c, n1)" using Cons(1) c by metis
  moreover note Cons.IH [OF cs]
  moreover have "vs' = c # cs" "n' = n2" using Cons.prems c cs by simp_all
  ultimately show ?case by (fastforce simp: fresh_copy_def)
qed simp

lemma deep_pointer [deep_copies]:
  assumes "deep t f"
  shows "deep (PointerT t) (copy_pointer f)"
proof -
  have "fresh_copy (Pointer a w) n (copy_pointer f (Pointer a w) n)" if "has_type t w" for a w n
  proof -
    have "fresh_copy w (Suc n) (f w (Suc n))" using assms that by (simp add: deep_def)
    then show ?thesis by (fastforce simp: copy_pointer_def fresh_copy_def split: prod.split)
  qed
  then show ?thesis
    by (auto simp: deep_def split: go_value.splits) (simp add: copy_pointer_def fresh_copy_def)
qed

lemma deep_slice [deep_copies]:
  assumes "deep t f"
  shows "deep (SliceT t) (copy_slice f)"
proof -
  have "fresh_copy (Slice a vs) n (copy_slice f (Slice a vs) n)" if "list_all (has_type t) vs" for a vs n
  proof -
    have "list_all2 (\<lambda>f v. \<forall>n. fresh_copy v n (f v n)) (replicate (length vs) f) vs"
      using assms that by (auto simp: list_all2_conv_all_nth list_all_length deep_def)
    from copy_all_fresh [OF this, of "Suc n"] show ?thesis
      by (fastforce simp: copy_slice_def fresh_copy_def split: prod.split)
  qed
  then show ?thesis
    by (auto simp: deep_def split: go_value.splits) (simp add: copy_slice_def fresh_copy_def)
qed

lemma deep_map [deep_copies]:
  assumes "plain t"
  shows "deep (MapT t) copy_map"
proof -
  have "distinct (concat (map addrs vs)) \<and> (\<forall>v \<in> set vs. addrs v = [])" if "list_all (has_type t) vs" for vs
    using that by (induction vs) (simp_all add: plain_addrs [OF assms])
  then show ?thesis
    by (auto simp: deep_def copy_map_def fresh_copy_def split: go_value.splits)
qed

definition struct_type :: "(string \<times> go_type) list \<Rightarrow> go_type" where
  "struct_type fs = StructT (map fst fs) (map snd fs)"

lemma deep_fields:
  assumes "list_all (\<lambda>(m, t). case map_of cs m of None \<Rightarrow> plain t | Some f \<Rightarrow> deep t f) fs"
  shows "deep (struct_type fs) (copy_fields cs)"
proof -
  have "fresh_copy (Struct ns vs) n (copy_fields cs (Struct ns vs) n)"
    if "ns = map fst fs" "list_all2 has_type (map snd fs) vs" for ns vs n
  proof -
    have "list_all2 (\<lambda>f v. \<forall>n. fresh_copy v n (f v n)) (map (\<lambda>m. case map_of cs m of None \<Rightarrow> shallow | Some f \<Rightarrow> f) ns) vs"
      unfolding list_all2_conv_all_nth
    proof (intro conjI allI impI)
      fix i n
      assume i: "i < length (map (\<lambda>m. case map_of cs m of None \<Rightarrow> shallow | Some f \<Rightarrow> f) ns)"
      obtain m t where fs: "fs ! i = (m, t)" by fastforce
      have "has_type t (vs ! i)"
        using that(2) i fs by (auto simp: list_all2_conv_all_nth that(1))
      moreover have "deep t (case map_of cs m of None \<Rightarrow> shallow | Some f \<Rightarrow> f)"
        using assms i fs deep_plain [of t] by (fastforce simp: list_all_length that(1) split: option.split)
      ultimately show "fresh_copy (vs ! i) n ((map (\<lambda>m. case map_of cs m of None \<Rightarrow> shallow | Some f \<Rightarrow> f) ns ! i) (vs ! i) n)"
        using i fs by (simp add: that(1) deep_def)
    qed (use that list_all2_lengthD [OF that(2)] in simp)
    from copy_all_fresh [OF this, of n] show ?thesis
      by (fastforce simp: copy_fields_def fresh_copy_def split: prod.split)
  qed
  then show ?thesis
    by (auto simp: deep_def struct_type_def split: go_value.splits)
qed

lemma plain_struct: "plain (struct_type fs) = list_all (\<lambda>(n, t). plain t) fs"
  by (induction fs) (auto simp: struct_type_def)

lemma deep_DeepCopy [deep_copies]: "deep t f \<Longrightarrow> deep (PointerT t) (DeepCopy f)"
  by (simp add: DeepCopy_def deep_pointer)

lemma DeepCopyObject_eq: "DeepCopyObject f = DeepCopy f"
  by (auto simp: DeepCopyObject_def fun_eq_iff split: prod.split)

text \<open>A copy of a whole value, whatever its type: a deep copy of every type, interfaces included.\<close>

fun copy_value :: "go_value \<Rightarrow> nat \<Rightarrow> go_value \<times> nat" and copy_values :: "go_value list \<Rightarrow> nat \<Rightarrow> go_value list \<times> nat" where
  "copy_value (Basic b) n = (Basic b, n)"
| "copy_value GoNil n = (GoNil, n)"
| "copy_value (Pointer a v) n = (case copy_value v (Suc n) of (v', n') \<Rightarrow> (Pointer n v', n'))"
| "copy_value (Slice a vs) n = (case copy_values vs (Suc n) of (vs', n') \<Rightarrow> (Slice n vs', n'))"
| "copy_value (MapVal a ks vs) n = (case copy_values vs (Suc n) of (vs', n') \<Rightarrow> (MapVal n ks vs', n'))"
| "copy_value (Struct ns vs) n = (case copy_values vs n of (vs', n') \<Rightarrow> (Struct ns vs', n'))"
| "copy_values [] n = ([], n)"
| "copy_values (v # vs) n = (case copy_value v n of (v', n1) \<Rightarrow> case copy_values vs n1 of (vs', n2) \<Rightarrow> (v' # vs', n2))"

lemma copy_value_fresh:
  "fresh_copy v n (copy_value v n)"
  "case copy_values vs n of (vs', n') \<Rightarrow> map erase vs' = map erase vs \<and> n \<le> n' \<and> distinct (concat (map addrs vs')) \<and>
     set (concat (map addrs vs')) \<subseteq> {n ..< n'}"
  by (induction v n and vs n rule: copy_value_copy_values.induct) (fastforce simp: fresh_copy_def split: prod.splits)+

lemma deep_copy_value: "deep t copy_value"
  by (simp add: deep_def copy_value_fresh)

text \<open>A deep copy and its source do not see each other's writes.\<close>

lemma deep_independent:
  assumes "deep t f" "has_type t v" "\<forall>a \<in> set (addrs v). a < n" "f v n = (c, n')"
  shows "erase c = erase v \<and> (\<forall>a \<in> set (addrs c). \<forall>g. write_at a g v = v) \<and> (\<forall>a \<in> set (addrs v). \<forall>g. write_at a g c = c)"
proof -
  have fresh: "fresh_copy v n (c, n')"
    using assms(1,2,4) by (metis deep_def)
  with assms(3) have "set (addrs c) \<inter> set (addrs v) = {}"
    by (fastforce simp: fresh_copy_def)
  then have "write_at a g v = v" if "a \<in> set (addrs c)" for a g
    using that by (intro write_at_unreached) blast
  moreover have "write_at a g c = c" if "a \<in> set (addrs v)" for a g
    using that \<open>set (addrs c) \<inter> set (addrs v) = {}\<close> by (intro write_at_unreached) blast
  ultimately show ?thesis
    using fresh by (simp add: fresh_copy_def)
qed

end
