(* ===== verification/Api_Copies.thy ===== *)
theory Api_Copies
  imports Deep_Copy
begin

text \<open>
  The types of the API as Go declares them, field by field, and their generated deep copies, over the combinators of
  \<open>Deep_Copy\<close>. The parameter \<open>dyn\<close> is DeepCopyObject of the object in a RawExtension, whatever its type.
\<close>

section \<open>apimachinery\<close>

definition FieldsV1_type :: go_type where
  "FieldsV1_type = struct_type
     [(''Raw'', SliceT BasicT)]"

definition FieldsV1_DeepCopyInto :: copier where
  "FieldsV1_DeepCopyInto = copy_fields
     [(''Raw'', copy_slice shallow)]"

definition ManagedFieldsEntry_type :: go_type where
  "ManagedFieldsEntry_type = struct_type
     [(''Manager'', BasicT), (''Operation'', BasicT), (''APIVersion'', BasicT), (''Time'', PointerT BasicT),
      (''FieldsType'', BasicT), (''FieldsV1'', PointerT FieldsV1_type), (''Subresource'', BasicT)]"

definition ManagedFieldsEntry_DeepCopyInto :: copier where
  "ManagedFieldsEntry_DeepCopyInto = copy_fields
     [(''Time'', DeepCopy shallow), (''FieldsV1'', DeepCopy FieldsV1_DeepCopyInto)]"

definition OwnerReference_type :: go_type where
  "OwnerReference_type = struct_type
     [(''APIVersion'', BasicT), (''Kind'', BasicT), (''Name'', BasicT), (''UID'', BasicT), (''Controller'', PointerT BasicT),
      (''BlockOwnerDeletion'', PointerT BasicT)]"

definition OwnerReference_DeepCopyInto :: copier where
  "OwnerReference_DeepCopyInto = copy_fields
     [(''Controller'', copy_pointer shallow), (''BlockOwnerDeletion'', copy_pointer shallow)]"

definition ObjectMeta_type :: go_type where
  "ObjectMeta_type = struct_type
     [(''Name'', BasicT), (''GenerateName'', BasicT), (''Namespace'', BasicT), (''SelfLink'', BasicT), (''UID'', BasicT),
      (''ResourceVersion'', BasicT), (''Generation'', BasicT), (''CreationTimestamp'', BasicT),
      (''DeletionTimestamp'', PointerT BasicT), (''DeletionGracePeriodSeconds'', PointerT BasicT), (''Labels'', MapT BasicT),
      (''Annotations'', MapT BasicT), (''OwnerReferences'', SliceT OwnerReference_type), (''Finalizers'', SliceT BasicT),
      (''ManagedFields'', SliceT ManagedFieldsEntry_type)]"

definition ObjectMeta_DeepCopyInto :: copier where
  "ObjectMeta_DeepCopyInto = copy_fields
     [(''CreationTimestamp'', shallow), (''DeletionTimestamp'', DeepCopy shallow),
      (''DeletionGracePeriodSeconds'', copy_pointer shallow), (''Labels'', copy_map), (''Annotations'', copy_map),
      (''OwnerReferences'', copy_slice OwnerReference_DeepCopyInto), (''Finalizers'', copy_slice shallow),
      (''ManagedFields'', copy_slice ManagedFieldsEntry_DeepCopyInto)]"

definition TypeMeta_type :: go_type where
  "TypeMeta_type = struct_type
     [(''Kind'', BasicT), (''APIVersion'', BasicT)]"

definition ShardInfo_type :: go_type where
  "ShardInfo_type = struct_type
     [(''Selector'', BasicT)]"

definition ShardInfo_DeepCopyInto :: copier where
  "ShardInfo_DeepCopyInto = shallow"

definition ListMeta_type :: go_type where
  "ListMeta_type = struct_type
     [(''SelfLink'', BasicT), (''ResourceVersion'', BasicT), (''Continue'', BasicT), (''RemainingItemCount'', PointerT BasicT),
      (''ShardInfo'', PointerT ShardInfo_type)]"

definition ListMeta_DeepCopyInto :: copier where
  "ListMeta_DeepCopyInto = copy_fields
     [(''RemainingItemCount'', copy_pointer shallow), (''ShardInfo'', copy_pointer shallow)]"

definition Condition_type :: go_type where
  "Condition_type = struct_type
     [(''Type'', BasicT), (''Status'', BasicT), (''ObservedGeneration'', BasicT), (''LastTransitionTime'', BasicT),
      (''Reason'', BasicT), (''Message'', BasicT)]"

definition Condition_DeepCopyInto :: copier where
  "Condition_DeepCopyInto = copy_fields
     [(''LastTransitionTime'', shallow)]"

definition RawExtension_type :: go_type where
  "RawExtension_type = struct_type
     [(''Raw'', SliceT BasicT), (''Object'', InterfaceT)]"

definition RawExtension_DeepCopyInto :: "copier \<Rightarrow> copier" where
  "RawExtension_DeepCopyInto dyn = copy_fields
     [(''Raw'', copy_slice shallow), (''Object'', dyn)]"

section \<open>src/api/karpenter/v1\<close>

definition BlockDevice_type :: go_type where
  "BlockDevice_type = struct_type
     [(''DeleteOnTermination'', BasicT), (''Encrypted'', BasicT), (''IOPS'', PointerT BasicT), (''KMSKeyID'', BasicT),
      (''SnapshotID'', BasicT), (''Throughput'', PointerT BasicT), (''VolumeSizeGiB'', BasicT), (''VolumeType'', BasicT)]"

definition BlockDevice_DeepCopyInto :: copier where
  "BlockDevice_DeepCopyInto = copy_fields
     [(''IOPS'', copy_pointer shallow), (''Throughput'', copy_pointer shallow)]"

definition BlockDevice_DeepCopy :: copier where
  "BlockDevice_DeepCopy = DeepCopy BlockDevice_DeepCopyInto"

definition BlockDeviceMapping_type :: go_type where
  "BlockDeviceMapping_type = struct_type
     [(''DeviceName'', BasicT), (''EBS'', BlockDevice_type), (''RootVolume'', BasicT)]"

definition BlockDeviceMapping_DeepCopyInto :: copier where
  "BlockDeviceMapping_DeepCopyInto = copy_fields
     [(''EBS'', BlockDevice_DeepCopyInto)]"

definition BlockDeviceMapping_DeepCopy :: copier where
  "BlockDeviceMapping_DeepCopy = DeepCopy BlockDeviceMapping_DeepCopyInto"

definition CapacityReservation_type :: go_type where
  "CapacityReservation_type = struct_type
     [(''AvailabilityZone'', BasicT), (''EndTime'', BasicT), (''ID'', BasicT), (''InstanceMatchCriteria'', BasicT),
      (''InstanceType'', BasicT), (''OwnerID'', BasicT), (''ReservationType'', BasicT), (''State'', BasicT)]"

definition CapacityReservation_DeepCopyInto :: copier where
  "CapacityReservation_DeepCopyInto = copy_fields
     [(''EndTime'', shallow)]"

definition CapacityReservation_DeepCopy :: copier where
  "CapacityReservation_DeepCopy = DeepCopy CapacityReservation_DeepCopyInto"

definition CapacityReservationSelectorTerm_type :: go_type where
  "CapacityReservationSelectorTerm_type = struct_type
     [(''Tags'', MapT BasicT), (''ID'', BasicT), (''OwnerID'', BasicT), (''InstanceMatchCriteria'', BasicT)]"

definition CapacityReservationSelectorTerm_DeepCopyInto :: copier where
  "CapacityReservationSelectorTerm_DeepCopyInto = copy_fields
     [(''Tags'', copy_map)]"

definition CapacityReservationSelectorTerm_DeepCopy :: copier where
  "CapacityReservationSelectorTerm_DeepCopy = DeepCopy CapacityReservationSelectorTerm_DeepCopyInto"

definition KubeletConfiguration_type :: go_type where
  "KubeletConfiguration_type = struct_type
     [(''MaxPods'', BasicT), (''PodsPerCore'', BasicT), (''SystemReserved'', MapT BasicT), (''KubeReserved'', MapT BasicT),
      (''EvictionHard'', MapT BasicT), (''EvictionSoft'', MapT BasicT), (''EvictionSoftGracePeriod'', MapT BasicT),
      (''EvictionMaxPodGracePeriod'', PointerT BasicT), (''ImageGCHighThresholdPercent'', PointerT BasicT),
      (''ImageGCLowThresholdPercent'', PointerT BasicT), (''CPUCFSQuota'', PointerT BasicT), (''Overflow'', RawExtension_type)]"

definition KubeletConfiguration_DeepCopyInto :: "copier \<Rightarrow> copier" where
  "KubeletConfiguration_DeepCopyInto dyn = copy_fields
     [(''SystemReserved'', copy_map), (''KubeReserved'', copy_map), (''EvictionHard'', copy_map), (''EvictionSoft'', copy_map),
      (''EvictionSoftGracePeriod'', copy_map), (''EvictionMaxPodGracePeriod'', copy_pointer shallow),
      (''ImageGCHighThresholdPercent'', copy_pointer shallow), (''ImageGCLowThresholdPercent'', copy_pointer shallow),
      (''CPUCFSQuota'', copy_pointer shallow), (''Overflow'', RawExtension_DeepCopyInto dyn)]"

definition KubeletConfiguration_DeepCopy :: "copier \<Rightarrow> copier" where
  "KubeletConfiguration_DeepCopy dyn = DeepCopy (KubeletConfiguration_DeepCopyInto dyn)"

definition MetadataOptions_type :: go_type where
  "MetadataOptions_type = struct_type
     [(''Access'', BasicT), (''HTTPIPProtocol'', BasicT), (''HTTPPutResponseHopLimit'', BasicT), (''HTTPTokens'', BasicT)]"

definition MetadataOptions_DeepCopyInto :: copier where
  "MetadataOptions_DeepCopyInto = shallow"

definition MetadataOptions_DeepCopy :: copier where
  "MetadataOptions_DeepCopy = DeepCopy MetadataOptions_DeepCopyInto"

definition SecurityGroup_type :: go_type where
  "SecurityGroup_type = struct_type
     [(''ID'', BasicT), (''Name'', BasicT)]"

definition SecurityGroup_DeepCopyInto :: copier where
  "SecurityGroup_DeepCopyInto = shallow"

definition SecurityGroup_DeepCopy :: copier where
  "SecurityGroup_DeepCopy = DeepCopy SecurityGroup_DeepCopyInto"

definition SecurityGroupSelectorTerm_type :: go_type where
  "SecurityGroupSelectorTerm_type = struct_type
     [(''Tags'', MapT BasicT), (''ID'', BasicT), (''Name'', BasicT)]"

definition SecurityGroupSelectorTerm_DeepCopyInto :: copier where
  "SecurityGroupSelectorTerm_DeepCopyInto = copy_fields
     [(''Tags'', copy_map)]"

definition SecurityGroupSelectorTerm_DeepCopy :: copier where
  "SecurityGroupSelectorTerm_DeepCopy = DeepCopy SecurityGroupSelectorTerm_DeepCopyInto"

definition Subnet_type :: go_type where
  "Subnet_type = struct_type
     [(''ID'', BasicT), (''Zone'', BasicT), (''ZoneID'', BasicT)]"

definition Subnet_DeepCopyInto :: copier where
  "Subnet_DeepCopyInto = shallow"

definition Subnet_DeepCopy :: copier where
  "Subnet_DeepCopy = DeepCopy Subnet_DeepCopyInto"

definition SubnetSelectorTerm_type :: go_type where
  "SubnetSelectorTerm_type = struct_type
     [(''Tags'', MapT BasicT), (''ID'', BasicT)]"

definition SubnetSelectorTerm_DeepCopyInto :: copier where
  "SubnetSelectorTerm_DeepCopyInto = copy_fields
     [(''Tags'', copy_map)]"

definition SubnetSelectorTerm_DeepCopy :: copier where
  "SubnetSelectorTerm_DeepCopy = DeepCopy SubnetSelectorTerm_DeepCopyInto"

definition OpenshiftEC2NodeClassSpec_type :: go_type where
  "OpenshiftEC2NodeClassSpec_type = struct_type
     [(''SubnetSelectorTerms'', SliceT SubnetSelectorTerm_type),
      (''SecurityGroupSelectorTerms'', SliceT SecurityGroupSelectorTerm_type),
      (''CapacityReservationSelectorTerms'', SliceT CapacityReservationSelectorTerm_type), (''IPAddressAssociation'', BasicT),
      (''Tags'', MapT BasicT), (''BlockDeviceMappings'', SliceT BlockDeviceMapping_type), (''InstanceStorePolicy'', BasicT),
      (''Monitoring'', BasicT), (''MetadataOptions'', MetadataOptions_type), (''Version'', BasicT),
      (''Kubelet'', KubeletConfiguration_type)]"

definition OpenshiftEC2NodeClassSpec_DeepCopyInto :: "copier \<Rightarrow> copier" where
  "OpenshiftEC2NodeClassSpec_DeepCopyInto dyn = copy_fields
     [(''SubnetSelectorTerms'', copy_slice SubnetSelectorTerm_DeepCopyInto),
      (''SecurityGroupSelectorTerms'', copy_slice SecurityGroupSelectorTerm_DeepCopyInto),
      (''CapacityReservationSelectorTerms'', copy_slice CapacityReservationSelectorTerm_DeepCopyInto), (''Tags'', copy_map),
      (''BlockDeviceMappings'', copy_slice BlockDeviceMapping_DeepCopyInto), (''MetadataOptions'', shallow),
      (''Kubelet'', KubeletConfiguration_DeepCopyInto dyn)]"

definition OpenshiftEC2NodeClassSpec_DeepCopy :: "copier \<Rightarrow> copier" where
  "OpenshiftEC2NodeClassSpec_DeepCopy dyn = DeepCopy (OpenshiftEC2NodeClassSpec_DeepCopyInto dyn)"

definition OpenshiftEC2NodeClassStatus_type :: go_type where
  "OpenshiftEC2NodeClassStatus_type = struct_type
     [(''Conditions'', SliceT Condition_type), (''Subnets'', SliceT Subnet_type),
      (''SecurityGroups'', SliceT SecurityGroup_type), (''ReleaseImage'', BasicT), (''Version'', BasicT),
      (''CapacityReservations'', SliceT CapacityReservation_type)]"

definition OpenshiftEC2NodeClassStatus_DeepCopyInto :: copier where
  "OpenshiftEC2NodeClassStatus_DeepCopyInto = copy_fields
     [(''Conditions'', copy_slice Condition_DeepCopyInto), (''Subnets'', copy_slice shallow),
      (''SecurityGroups'', copy_slice shallow), (''CapacityReservations'', copy_slice CapacityReservation_DeepCopyInto)]"

definition OpenshiftEC2NodeClassStatus_DeepCopy :: copier where
  "OpenshiftEC2NodeClassStatus_DeepCopy = DeepCopy OpenshiftEC2NodeClassStatus_DeepCopyInto"

definition OpenshiftEC2NodeClass_type :: go_type where
  "OpenshiftEC2NodeClass_type = struct_type
     [(''TypeMeta'', TypeMeta_type), (''ObjectMeta'', ObjectMeta_type), (''Spec'', OpenshiftEC2NodeClassSpec_type),
      (''Status'', OpenshiftEC2NodeClassStatus_type)]"

definition OpenshiftEC2NodeClass_DeepCopyInto :: "copier \<Rightarrow> copier" where
  "OpenshiftEC2NodeClass_DeepCopyInto dyn = copy_fields
     [(''TypeMeta'', shallow), (''ObjectMeta'', ObjectMeta_DeepCopyInto),
      (''Spec'', OpenshiftEC2NodeClassSpec_DeepCopyInto dyn), (''Status'', OpenshiftEC2NodeClassStatus_DeepCopyInto)]"

definition OpenshiftEC2NodeClass_DeepCopy :: "copier \<Rightarrow> copier" where
  "OpenshiftEC2NodeClass_DeepCopy dyn = DeepCopy (OpenshiftEC2NodeClass_DeepCopyInto dyn)"

definition OpenshiftEC2NodeClass_DeepCopyObject :: "copier \<Rightarrow> copier" where
  "OpenshiftEC2NodeClass_DeepCopyObject dyn = DeepCopyObject (OpenshiftEC2NodeClass_DeepCopyInto dyn)"

definition OpenshiftEC2NodeClassList_type :: go_type where
  "OpenshiftEC2NodeClassList_type = struct_type
     [(''TypeMeta'', TypeMeta_type), (''ListMeta'', ListMeta_type), (''Items'', SliceT OpenshiftEC2NodeClass_type)]"

definition OpenshiftEC2NodeClassList_DeepCopyInto :: "copier \<Rightarrow> copier" where
  "OpenshiftEC2NodeClassList_DeepCopyInto dyn = copy_fields
     [(''TypeMeta'', shallow), (''ListMeta'', ListMeta_DeepCopyInto),
      (''Items'', copy_slice (OpenshiftEC2NodeClass_DeepCopyInto dyn))]"

definition OpenshiftEC2NodeClassList_DeepCopy :: "copier \<Rightarrow> copier" where
  "OpenshiftEC2NodeClassList_DeepCopy dyn = DeepCopy (OpenshiftEC2NodeClassList_DeepCopyInto dyn)"

definition OpenshiftEC2NodeClassList_DeepCopyObject :: "copier \<Rightarrow> copier" where
  "OpenshiftEC2NodeClassList_DeepCopyObject dyn = DeepCopyObject (OpenshiftEC2NodeClassList_DeepCopyInto dyn)"

section \<open>src/api/karpenter/v1alpha1\<close>

definition AzureEncryption_type :: go_type where
  "AzureEncryption_type = struct_type
     [(''HostEncryption'', BasicT)]"

definition AzureEncryption_DeepCopyInto :: copier where
  "AzureEncryption_DeepCopyInto = shallow"

definition AzureEncryption_DeepCopy :: copier where
  "AzureEncryption_DeepCopy = DeepCopy AzureEncryption_DeepCopyInto"

definition AzureSecurity_type :: go_type where
  "AzureSecurity_type = struct_type
     [(''Encryption'', AzureEncryption_type)]"

definition AzureSecurity_DeepCopyInto :: copier where
  "AzureSecurity_DeepCopyInto = copy_fields
     [(''Encryption'', shallow)]"

definition AzureSecurity_DeepCopy :: copier where
  "AzureSecurity_DeepCopy = DeepCopy AzureSecurity_DeepCopyInto"

definition OpenShiftAzureNodeClassSpec_type :: go_type where
  "OpenShiftAzureNodeClassSpec_type = struct_type
     [(''VNETSubnetID'', BasicT), (''OSDiskSizeGiB'', BasicT), (''Tags'', MapT BasicT),
      (''Kubelet'', KubeletConfiguration_type), (''Security'', AzureSecurity_type), (''Version'', BasicT)]"

definition OpenShiftAzureNodeClassSpec_DeepCopyInto :: "copier \<Rightarrow> copier" where
  "OpenShiftAzureNodeClassSpec_DeepCopyInto dyn = copy_fields
     [(''Tags'', copy_map), (''Kubelet'', KubeletConfiguration_DeepCopyInto dyn), (''Security'', shallow)]"

definition OpenShiftAzureNodeClassSpec_DeepCopy :: "copier \<Rightarrow> copier" where
  "OpenShiftAzureNodeClassSpec_DeepCopy dyn = DeepCopy (OpenShiftAzureNodeClassSpec_DeepCopyInto dyn)"

definition OpenShiftAzureNodeClassStatus_type :: go_type where
  "OpenShiftAzureNodeClassStatus_type = struct_type
     [(''Conditions'', SliceT Condition_type), (''ReleaseImage'', BasicT), (''Version'', BasicT)]"

definition OpenShiftAzureNodeClassStatus_DeepCopyInto :: copier where
  "OpenShiftAzureNodeClassStatus_DeepCopyInto = copy_fields
     [(''Conditions'', copy_slice Condition_DeepCopyInto)]"

definition OpenShiftAzureNodeClassStatus_DeepCopy :: copier where
  "OpenShiftAzureNodeClassStatus_DeepCopy = DeepCopy OpenShiftAzureNodeClassStatus_DeepCopyInto"

definition OpenShiftAzureNodeClass_type :: go_type where
  "OpenShiftAzureNodeClass_type = struct_type
     [(''TypeMeta'', TypeMeta_type), (''ObjectMeta'', ObjectMeta_type), (''Spec'', OpenShiftAzureNodeClassSpec_type),
      (''Status'', OpenShiftAzureNodeClassStatus_type)]"

definition OpenShiftAzureNodeClass_DeepCopyInto :: "copier \<Rightarrow> copier" where
  "OpenShiftAzureNodeClass_DeepCopyInto dyn = copy_fields
     [(''TypeMeta'', shallow), (''ObjectMeta'', ObjectMeta_DeepCopyInto),
      (''Spec'', OpenShiftAzureNodeClassSpec_DeepCopyInto dyn), (''Status'', OpenShiftAzureNodeClassStatus_DeepCopyInto)]"

definition OpenShiftAzureNodeClass_DeepCopy :: "copier \<Rightarrow> copier" where
  "OpenShiftAzureNodeClass_DeepCopy dyn = DeepCopy (OpenShiftAzureNodeClass_DeepCopyInto dyn)"

definition OpenShiftAzureNodeClass_DeepCopyObject :: "copier \<Rightarrow> copier" where
  "OpenShiftAzureNodeClass_DeepCopyObject dyn = DeepCopyObject (OpenShiftAzureNodeClass_DeepCopyInto dyn)"

definition OpenShiftAzureNodeClassList_type :: go_type where
  "OpenShiftAzureNodeClassList_type = struct_type
     [(''TypeMeta'', TypeMeta_type), (''ListMeta'', ListMeta_type), (''Items'', SliceT OpenShiftAzureNodeClass_type)]"

definition OpenShiftAzureNodeClassList_DeepCopyInto :: "copier \<Rightarrow> copier" where
  "OpenShiftAzureNodeClassList_DeepCopyInto dyn = copy_fields
     [(''TypeMeta'', shallow), (''ListMeta'', ListMeta_DeepCopyInto),
      (''Items'', copy_slice (OpenShiftAzureNodeClass_DeepCopyInto dyn))]"

definition OpenShiftAzureNodeClassList_DeepCopy :: "copier \<Rightarrow> copier" where
  "OpenShiftAzureNodeClassList_DeepCopy dyn = DeepCopy (OpenShiftAzureNodeClassList_DeepCopyInto dyn)"

definition OpenShiftAzureNodeClassList_DeepCopyObject :: "copier \<Rightarrow> copier" where
  "OpenShiftAzureNodeClassList_DeepCopyObject dyn = DeepCopyObject (OpenShiftAzureNodeClassList_DeepCopyInto dyn)"

section \<open>src/pkg/apis/autoscaling/v1alpha1\<close>

definition KarpenterSpec_type :: go_type where
  "KarpenterSpec_type = struct_type
     [(''LogLevel'', BasicT)]"

definition KarpenterSpec_DeepCopyInto :: copier where
  "KarpenterSpec_DeepCopyInto = shallow"

definition KarpenterSpec_DeepCopy :: copier where
  "KarpenterSpec_DeepCopy = DeepCopy KarpenterSpec_DeepCopyInto"

definition KarpenterStatus_type :: go_type where
  "KarpenterStatus_type = struct_type
     [(''Conditions'', SliceT Condition_type)]"

definition KarpenterStatus_DeepCopyInto :: copier where
  "KarpenterStatus_DeepCopyInto = copy_fields
     [(''Conditions'', copy_slice Condition_DeepCopyInto)]"

definition KarpenterStatus_DeepCopy :: copier where
  "KarpenterStatus_DeepCopy = DeepCopy KarpenterStatus_DeepCopyInto"

definition Karpenter_type :: go_type where
  "Karpenter_type = struct_type
     [(''TypeMeta'', TypeMeta_type), (''ObjectMeta'', ObjectMeta_type), (''Spec'', KarpenterSpec_type),
      (''Status'', KarpenterStatus_type)]"

definition Karpenter_DeepCopyInto :: copier where
  "Karpenter_DeepCopyInto = copy_fields
     [(''TypeMeta'', shallow), (''ObjectMeta'', ObjectMeta_DeepCopyInto), (''Spec'', shallow),
      (''Status'', KarpenterStatus_DeepCopyInto)]"

definition Karpenter_DeepCopy :: copier where
  "Karpenter_DeepCopy = DeepCopy Karpenter_DeepCopyInto"

definition Karpenter_DeepCopyObject :: copier where
  "Karpenter_DeepCopyObject = DeepCopyObject Karpenter_DeepCopyInto"

definition KarpenterList_type :: go_type where
  "KarpenterList_type = struct_type
     [(''TypeMeta'', TypeMeta_type), (''ListMeta'', ListMeta_type), (''Items'', SliceT Karpenter_type)]"

definition KarpenterList_DeepCopyInto :: copier where
  "KarpenterList_DeepCopyInto = copy_fields
     [(''TypeMeta'', shallow), (''ListMeta'', ListMeta_DeepCopyInto), (''Items'', copy_slice Karpenter_DeepCopyInto)]"

definition KarpenterList_DeepCopy :: copier where
  "KarpenterList_DeepCopy = DeepCopy KarpenterList_DeepCopyInto"

definition KarpenterList_DeepCopyObject :: copier where
  "KarpenterList_DeepCopyObject = DeepCopyObject KarpenterList_DeepCopyInto"

section \<open>Every copy is deep\<close>

lemma deep_FieldsV1 [deep_copies]: "deep FieldsV1_type FieldsV1_DeepCopyInto"
  unfolding FieldsV1_type_def FieldsV1_DeepCopyInto_def by (rule deep_fields) (simp add: deep_copies)

lemma deep_ManagedFieldsEntry [deep_copies]: "deep ManagedFieldsEntry_type ManagedFieldsEntry_DeepCopyInto"
  unfolding ManagedFieldsEntry_type_def ManagedFieldsEntry_DeepCopyInto_def by (rule deep_fields) (simp add: deep_copies)

lemma deep_OwnerReference [deep_copies]: "deep OwnerReference_type OwnerReference_DeepCopyInto"
  unfolding OwnerReference_type_def OwnerReference_DeepCopyInto_def by (rule deep_fields) (simp add: deep_copies)

lemma deep_ObjectMeta [deep_copies]: "deep ObjectMeta_type ObjectMeta_DeepCopyInto"
  unfolding ObjectMeta_type_def ObjectMeta_DeepCopyInto_def by (rule deep_fields) (simp add: deep_copies)

lemma plain_TypeMeta [simp]: "plain TypeMeta_type"
  by (simp add: TypeMeta_type_def plain_struct)

lemma plain_ShardInfo [simp]: "plain ShardInfo_type"
  by (simp add: ShardInfo_type_def plain_struct)

lemma deep_ShardInfo [deep_copies]: "deep ShardInfo_type ShardInfo_DeepCopyInto"
  by (simp add: ShardInfo_DeepCopyInto_def deep_plain)

lemma deep_ListMeta [deep_copies]: "deep ListMeta_type ListMeta_DeepCopyInto"
  unfolding ListMeta_type_def ListMeta_DeepCopyInto_def by (rule deep_fields) (simp add: deep_copies)

lemma plain_Condition [simp]: "plain Condition_type"
  by (simp add: Condition_type_def plain_struct)

lemma deep_Condition [deep_copies]: "deep Condition_type Condition_DeepCopyInto"
  unfolding Condition_type_def Condition_DeepCopyInto_def by (rule deep_fields) (simp add: deep_copies)

lemma deep_RawExtension [deep_copies]: "deep InterfaceT dyn \<Longrightarrow> deep RawExtension_type (RawExtension_DeepCopyInto dyn)"
  unfolding RawExtension_type_def RawExtension_DeepCopyInto_def by (rule deep_fields) (simp add: deep_copies)

lemma deep_BlockDevice [deep_copies]: "deep BlockDevice_type BlockDevice_DeepCopyInto"
  unfolding BlockDevice_type_def BlockDevice_DeepCopyInto_def by (rule deep_fields) (simp add: deep_copies)

lemma deep_BlockDeviceMapping [deep_copies]: "deep BlockDeviceMapping_type BlockDeviceMapping_DeepCopyInto"
  unfolding BlockDeviceMapping_type_def BlockDeviceMapping_DeepCopyInto_def by (rule deep_fields) (simp add: deep_copies)

lemma plain_CapacityReservation [simp]: "plain CapacityReservation_type"
  by (simp add: CapacityReservation_type_def plain_struct)

lemma deep_CapacityReservation [deep_copies]: "deep CapacityReservation_type CapacityReservation_DeepCopyInto"
  unfolding CapacityReservation_type_def CapacityReservation_DeepCopyInto_def by (rule deep_fields) (simp add: deep_copies)

lemma deep_CapacityReservationSelectorTerm [deep_copies]: "deep CapacityReservationSelectorTerm_type CapacityReservationSelectorTerm_DeepCopyInto"
  unfolding CapacityReservationSelectorTerm_type_def CapacityReservationSelectorTerm_DeepCopyInto_def by (rule deep_fields) (simp add: deep_copies)

lemma deep_KubeletConfiguration [deep_copies]: "deep InterfaceT dyn \<Longrightarrow> deep KubeletConfiguration_type (KubeletConfiguration_DeepCopyInto dyn)"
  unfolding KubeletConfiguration_type_def KubeletConfiguration_DeepCopyInto_def by (rule deep_fields) (simp add: deep_copies)

lemma plain_MetadataOptions [simp]: "plain MetadataOptions_type"
  by (simp add: MetadataOptions_type_def plain_struct)

lemma deep_MetadataOptions [deep_copies]: "deep MetadataOptions_type MetadataOptions_DeepCopyInto"
  by (simp add: MetadataOptions_DeepCopyInto_def deep_plain)

lemma plain_SecurityGroup [simp]: "plain SecurityGroup_type"
  by (simp add: SecurityGroup_type_def plain_struct)

lemma deep_SecurityGroup [deep_copies]: "deep SecurityGroup_type SecurityGroup_DeepCopyInto"
  by (simp add: SecurityGroup_DeepCopyInto_def deep_plain)

lemma deep_SecurityGroupSelectorTerm [deep_copies]: "deep SecurityGroupSelectorTerm_type SecurityGroupSelectorTerm_DeepCopyInto"
  unfolding SecurityGroupSelectorTerm_type_def SecurityGroupSelectorTerm_DeepCopyInto_def by (rule deep_fields) (simp add: deep_copies)

lemma plain_Subnet [simp]: "plain Subnet_type"
  by (simp add: Subnet_type_def plain_struct)

lemma deep_Subnet [deep_copies]: "deep Subnet_type Subnet_DeepCopyInto"
  by (simp add: Subnet_DeepCopyInto_def deep_plain)

lemma deep_SubnetSelectorTerm [deep_copies]: "deep SubnetSelectorTerm_type SubnetSelectorTerm_DeepCopyInto"
  unfolding SubnetSelectorTerm_type_def SubnetSelectorTerm_DeepCopyInto_def by (rule deep_fields) (simp add: deep_copies)

lemma deep_OpenshiftEC2NodeClassSpec [deep_copies]: "deep InterfaceT dyn \<Longrightarrow> deep OpenshiftEC2NodeClassSpec_type (OpenshiftEC2NodeClassSpec_DeepCopyInto dyn)"
  unfolding OpenshiftEC2NodeClassSpec_type_def OpenshiftEC2NodeClassSpec_DeepCopyInto_def by (rule deep_fields) (simp add: deep_copies)

lemma deep_OpenshiftEC2NodeClassStatus [deep_copies]: "deep OpenshiftEC2NodeClassStatus_type OpenshiftEC2NodeClassStatus_DeepCopyInto"
  unfolding OpenshiftEC2NodeClassStatus_type_def OpenshiftEC2NodeClassStatus_DeepCopyInto_def by (rule deep_fields) (simp add: deep_copies)

lemma deep_OpenshiftEC2NodeClass [deep_copies]: "deep InterfaceT dyn \<Longrightarrow> deep OpenshiftEC2NodeClass_type (OpenshiftEC2NodeClass_DeepCopyInto dyn)"
  unfolding OpenshiftEC2NodeClass_type_def OpenshiftEC2NodeClass_DeepCopyInto_def by (rule deep_fields) (simp add: deep_copies)

lemma deep_OpenshiftEC2NodeClassList [deep_copies]: "deep InterfaceT dyn \<Longrightarrow> deep OpenshiftEC2NodeClassList_type (OpenshiftEC2NodeClassList_DeepCopyInto dyn)"
  unfolding OpenshiftEC2NodeClassList_type_def OpenshiftEC2NodeClassList_DeepCopyInto_def by (rule deep_fields) (simp add: deep_copies)

lemma plain_AzureEncryption [simp]: "plain AzureEncryption_type"
  by (simp add: AzureEncryption_type_def plain_struct)

lemma deep_AzureEncryption [deep_copies]: "deep AzureEncryption_type AzureEncryption_DeepCopyInto"
  by (simp add: AzureEncryption_DeepCopyInto_def deep_plain)

lemma plain_AzureSecurity [simp]: "plain AzureSecurity_type"
  by (simp add: AzureSecurity_type_def plain_struct)

lemma deep_AzureSecurity [deep_copies]: "deep AzureSecurity_type AzureSecurity_DeepCopyInto"
  unfolding AzureSecurity_type_def AzureSecurity_DeepCopyInto_def by (rule deep_fields) (simp add: deep_copies)

lemma deep_OpenShiftAzureNodeClassSpec [deep_copies]: "deep InterfaceT dyn \<Longrightarrow> deep OpenShiftAzureNodeClassSpec_type (OpenShiftAzureNodeClassSpec_DeepCopyInto dyn)"
  unfolding OpenShiftAzureNodeClassSpec_type_def OpenShiftAzureNodeClassSpec_DeepCopyInto_def by (rule deep_fields) (simp add: deep_copies)

lemma deep_OpenShiftAzureNodeClassStatus [deep_copies]: "deep OpenShiftAzureNodeClassStatus_type OpenShiftAzureNodeClassStatus_DeepCopyInto"
  unfolding OpenShiftAzureNodeClassStatus_type_def OpenShiftAzureNodeClassStatus_DeepCopyInto_def by (rule deep_fields) (simp add: deep_copies)

lemma deep_OpenShiftAzureNodeClass [deep_copies]: "deep InterfaceT dyn \<Longrightarrow> deep OpenShiftAzureNodeClass_type (OpenShiftAzureNodeClass_DeepCopyInto dyn)"
  unfolding OpenShiftAzureNodeClass_type_def OpenShiftAzureNodeClass_DeepCopyInto_def by (rule deep_fields) (simp add: deep_copies)

lemma deep_OpenShiftAzureNodeClassList [deep_copies]: "deep InterfaceT dyn \<Longrightarrow> deep OpenShiftAzureNodeClassList_type (OpenShiftAzureNodeClassList_DeepCopyInto dyn)"
  unfolding OpenShiftAzureNodeClassList_type_def OpenShiftAzureNodeClassList_DeepCopyInto_def by (rule deep_fields) (simp add: deep_copies)

lemma plain_KarpenterSpec [simp]: "plain KarpenterSpec_type"
  by (simp add: KarpenterSpec_type_def plain_struct)

lemma deep_KarpenterSpec [deep_copies]: "deep KarpenterSpec_type KarpenterSpec_DeepCopyInto"
  by (simp add: KarpenterSpec_DeepCopyInto_def deep_plain)

lemma deep_KarpenterStatus [deep_copies]: "deep KarpenterStatus_type KarpenterStatus_DeepCopyInto"
  unfolding KarpenterStatus_type_def KarpenterStatus_DeepCopyInto_def by (rule deep_fields) (simp add: deep_copies)

lemma deep_Karpenter [deep_copies]: "deep Karpenter_type Karpenter_DeepCopyInto"
  unfolding Karpenter_type_def Karpenter_DeepCopyInto_def by (rule deep_fields) (simp add: deep_copies)

lemma deep_KarpenterList [deep_copies]: "deep KarpenterList_type KarpenterList_DeepCopyInto"
  unfolding KarpenterList_type_def KarpenterList_DeepCopyInto_def by (rule deep_fields) (simp add: deep_copies)

section \<open>Properties\<close>

text \<open>The types with their \<open>DeepCopy\<close>, and the kinds with their \<open>DeepCopyObject\<close>.\<close>

definition api_copies :: "copier \<Rightarrow> (go_type \<times> copier) list" where
  "api_copies dyn =
     [(BlockDevice_type, BlockDevice_DeepCopy), (BlockDeviceMapping_type, BlockDeviceMapping_DeepCopy),
      (CapacityReservation_type, CapacityReservation_DeepCopy),
      (CapacityReservationSelectorTerm_type, CapacityReservationSelectorTerm_DeepCopy),
      (KubeletConfiguration_type, KubeletConfiguration_DeepCopy dyn), (MetadataOptions_type, MetadataOptions_DeepCopy),
      (SecurityGroup_type, SecurityGroup_DeepCopy), (SecurityGroupSelectorTerm_type, SecurityGroupSelectorTerm_DeepCopy),
      (Subnet_type, Subnet_DeepCopy), (SubnetSelectorTerm_type, SubnetSelectorTerm_DeepCopy),
      (OpenshiftEC2NodeClassSpec_type, OpenshiftEC2NodeClassSpec_DeepCopy dyn),
      (OpenshiftEC2NodeClassStatus_type, OpenshiftEC2NodeClassStatus_DeepCopy),
      (OpenshiftEC2NodeClass_type, OpenshiftEC2NodeClass_DeepCopy dyn),
      (OpenshiftEC2NodeClassList_type, OpenshiftEC2NodeClassList_DeepCopy dyn),
      (AzureEncryption_type, AzureEncryption_DeepCopy), (AzureSecurity_type, AzureSecurity_DeepCopy),
      (OpenShiftAzureNodeClassSpec_type, OpenShiftAzureNodeClassSpec_DeepCopy dyn),
      (OpenShiftAzureNodeClassStatus_type, OpenShiftAzureNodeClassStatus_DeepCopy),
      (OpenShiftAzureNodeClass_type, OpenShiftAzureNodeClass_DeepCopy dyn),
      (OpenShiftAzureNodeClassList_type, OpenShiftAzureNodeClassList_DeepCopy dyn),
      (KarpenterSpec_type, KarpenterSpec_DeepCopy), (KarpenterStatus_type, KarpenterStatus_DeepCopy),
      (Karpenter_type, Karpenter_DeepCopy), (KarpenterList_type, KarpenterList_DeepCopy),
      (OpenshiftEC2NodeClass_type, OpenshiftEC2NodeClass_DeepCopyObject dyn),
      (OpenshiftEC2NodeClassList_type, OpenshiftEC2NodeClassList_DeepCopyObject dyn),
      (OpenShiftAzureNodeClass_type, OpenShiftAzureNodeClass_DeepCopyObject dyn),
      (OpenShiftAzureNodeClassList_type, OpenShiftAzureNodeClassList_DeepCopyObject dyn),
      (Karpenter_type, Karpenter_DeepCopyObject), (KarpenterList_type, KarpenterList_DeepCopyObject)]"

lemmas DeepCopy_defs =
  BlockDevice_DeepCopy_def BlockDeviceMapping_DeepCopy_def CapacityReservation_DeepCopy_def
  CapacityReservationSelectorTerm_DeepCopy_def KubeletConfiguration_DeepCopy_def MetadataOptions_DeepCopy_def
  SecurityGroup_DeepCopy_def SecurityGroupSelectorTerm_DeepCopy_def Subnet_DeepCopy_def SubnetSelectorTerm_DeepCopy_def
  OpenshiftEC2NodeClassSpec_DeepCopy_def OpenshiftEC2NodeClassStatus_DeepCopy_def OpenshiftEC2NodeClass_DeepCopy_def
  OpenshiftEC2NodeClassList_DeepCopy_def AzureEncryption_DeepCopy_def AzureSecurity_DeepCopy_def
  OpenShiftAzureNodeClassSpec_DeepCopy_def OpenShiftAzureNodeClassStatus_DeepCopy_def OpenShiftAzureNodeClass_DeepCopy_def
  OpenShiftAzureNodeClassList_DeepCopy_def KarpenterSpec_DeepCopy_def KarpenterStatus_DeepCopy_def Karpenter_DeepCopy_def
  KarpenterList_DeepCopy_def OpenshiftEC2NodeClass_DeepCopyObject_def OpenshiftEC2NodeClassList_DeepCopyObject_def
  OpenShiftAzureNodeClass_DeepCopyObject_def OpenShiftAzureNodeClassList_DeepCopyObject_def Karpenter_DeepCopyObject_def
  KarpenterList_DeepCopyObject_def

lemma api_copies_deep: "deep InterfaceT dyn \<Longrightarrow> (t, copy) \<in> set (api_copies dyn) \<Longrightarrow> deep (PointerT t) copy"
  by (auto simp: api_copies_def DeepCopy_defs DeepCopyObject_eq deep_copies)

text \<open>
  C33: the generated deep copies are deep. For every type of the API, \<open>DeepCopy\<close> (and \<open>DeepCopyObject\<close> of a kind) of a value that lives below the next
  free address gives the same value, and a write through any address of the copy leaves the original as it is, as a write
  through an address of the original leaves the copy; so a controller may change an object and patch it against its copy.
  The object in a RawExtension is copied by its own type, whose \<open>DeepCopyObject\<close> is deep.
\<close>

theorem deep_copies_independent:
  assumes "deep InterfaceT dyn" "(t, copy) \<in> set (api_copies dyn)"
    and "has_type (PointerT t) v" "\<forall>a \<in> set (addrs v). a < n" "copy v n = (c, n')"
  shows "erase c = erase v \<and> (\<forall>a \<in> set (addrs c). \<forall>g. write_at a g v = v) \<and> (\<forall>a \<in> set (addrs v). \<forall>g. write_at a g c = c)"
  using deep_independent [OF api_copies_deep [OF assms(1,2)] assms(3-5)] .

text \<open>A Karpenter with a label, a finalizer and a condition.\<close>

definition demo_karpenter :: go_value where
  "demo_karpenter = Pointer 0 (Struct [''TypeMeta'', ''ObjectMeta'', ''Spec'', ''Status'']
     [Struct [''Kind'', ''APIVersion''] [Basic (BString ''Karpenter''), Basic (BString [])],
      Struct [''Name'', ''GenerateName'', ''Namespace'', ''SelfLink'', ''UID'', ''ResourceVersion'', ''Generation'', ''CreationTimestamp'',
              ''DeletionTimestamp'', ''DeletionGracePeriodSeconds'', ''Labels'', ''Annotations'', ''OwnerReferences'', ''Finalizers'',
              ''ManagedFields'']
        [Basic (BString ''karpenter''), Basic (BString []), Basic (BString []), Basic (BString []), Basic (BString ''u''),
         Basic (BString ''1''), Basic (BInt 1), Basic (BInt 0), GoNil, GoNil, MapVal 1 [BString ''app''] [Basic (BString ''k'')], GoNil, GoNil,
         Slice 2 [Basic (BString ''f'')], GoNil],
      Struct [''LogLevel''] [Basic (BString ''info'')],
      Struct [''Conditions'']
        [Slice 3 [Struct [''Type'', ''Status'', ''ObservedGeneration'', ''LastTransitionTime'', ''Reason'', ''Message'']
           [Basic (BString ''Ready''), Basic (BString ''True''), Basic (BInt 1), Basic (BInt 7), Basic (BString ''AsExpected''), Basic (BString [])]]]])"

theorem deep_copies_independent_witness:
  "\<exists>c n'. Karpenter_DeepCopy demo_karpenter 4 = (c, n') \<and> erase c = erase demo_karpenter \<and>
     addrs c = [4, 5, 6, 7] \<and> write_at 6 (\<lambda>_. Slice 6 []) demo_karpenter = demo_karpenter"
proof -
  have typed: "has_type (PointerT Karpenter_type) demo_karpenter"
    by code_simp
  have low: "\<forall>a \<in> set (addrs demo_karpenter). a < 4"
    by (simp add: demo_karpenter_def)
  have mem: "(Karpenter_type, Karpenter_DeepCopy) \<in> set (api_copies copy_value)"
    by (simp add: api_copies_def)
  obtain c n' where c: "Karpenter_DeepCopy demo_karpenter 4 = (c, n')" by fastforce
  have "addrs (fst (Karpenter_DeepCopy demo_karpenter 4)) = [4, 5, 6, 7]"
    by code_simp
  with c deep_copies_independent [OF deep_copy_value mem typed low c] show ?thesis
    by fastforce
qed

end
