(* ===== verification/Scheme_Registration.thy ===== *)
theory Scheme_Registration
  imports Operator_Setup
begin

text \<open>
  The registration of the API types: the part of the client library's \<open>Scheme\<close> that relates Go
  types and API kinds, the registrations of the repository's packages and of \<open>operator.init\<close>, and
  the types that each controller watches. A watch of a type that the scheme does not know never
  starts, and two types for one kind end the process, so the theory shows that every type which a
  started controller watches is resolved to one kind.

  \<open>Option\<close> models the panics of the registration: \<^const>\<open>None\<close> is a panic. The conversions that the
  scheme also records are left out, as they do not bear on the kinds. The API groups of the
  Kubernetes client are a parameter, the list of its packages with the types each registers.
\<close>

section \<open>The scheme of the client library\<close>

type_synonym group_version = "string \<times> string"
type_synonym gvk = "group_version \<times> string"

text \<open>A Go type is its package and its name.\<close>

type_synonym go_type = "string \<times> string"

record api_scheme =
  gvkToType :: "gvk \<rightharpoonup> go_type"
  typeToGVK :: "go_type \<Rightarrow> gvk list"
  unversionedTypes :: "go_type \<rightharpoonup> gvk"
  unversionedKinds :: "string \<rightharpoonup> go_type"
  observedVersions :: "group_version list"

definition NewScheme :: api_scheme where
  "NewScheme = \<lparr>gvkToType = Map.empty, typeToGVK = (\<lambda>_. []), unversionedTypes = Map.empty, unversionedKinds = Map.empty,
                observedVersions = []\<rparr>"

definition APIVersionInternal :: string where "APIVersionInternal = ''__internal''"

definition addObservedVersion :: "group_version \<Rightarrow> api_scheme \<Rightarrow> api_scheme" where
  "addObservedVersion gv s =
     (if snd gv = [] \<or> snd gv = APIVersionInternal \<or> gv \<in> set (observedVersions s) then s
      else s\<lparr>observedVersions := observedVersions s @ [gv]\<rparr>)"

definition AddKnownTypeWithName :: "gvk \<Rightarrow> go_type \<Rightarrow> api_scheme \<Rightarrow> api_scheme option" where
  "AddKnownTypeWithName gvk t s0 =
     (let s = addObservedVersion (fst gvk) s0 in
      if snd (fst gvk) = [] then None
      else if (case gvkToType s gvk of Some oldT \<Rightarrow> oldT \<noteq> t | None \<Rightarrow> False) then None
      else
        let s = s\<lparr>gvkToType := (gvkToType s)(gvk \<mapsto> t)\<rparr> in
        Some (if gvk \<in> set (typeToGVK s t) then s
              else s\<lparr>typeToGVK := (typeToGVK s)(t := typeToGVK s t @ [gvk])\<rparr>))"

text \<open>A run of registrations, which stops at the first panic.\<close>

fun steps :: "('s \<Rightarrow> 's option) list \<Rightarrow> 's \<Rightarrow> 's option" where
  "steps [] s = Some s"
| "steps (f # fs) s = Option.bind (f s) (steps fs)"

definition AddKnownTypes :: "group_version \<Rightarrow> go_type list \<Rightarrow> api_scheme \<Rightarrow> api_scheme option" where
  "AddKnownTypes gv ts s = steps (map (\<lambda>t. AddKnownTypeWithName (gv, snd t) t) ts) (addObservedVersion gv s)"

definition add_unversioned :: "group_version \<Rightarrow> go_type \<Rightarrow> api_scheme \<Rightarrow> api_scheme option" where
  "add_unversioned gv t s0 =
     (let s = s0\<lparr>unversionedTypes := (unversionedTypes s0)(t \<mapsto> (gv, snd t))\<rparr> in
      if (case unversionedKinds s (snd t) of Some old \<Rightarrow> t \<noteq> old | None \<Rightarrow> False) then None
      else Some (s\<lparr>unversionedKinds := (unversionedKinds s)(snd t \<mapsto> t)\<rparr>))"

definition AddUnversionedTypes :: "group_version \<Rightarrow> go_type list \<Rightarrow> api_scheme \<Rightarrow> api_scheme option" where
  "AddUnversionedTypes gv ts s =
     steps (AddKnownTypes gv ts # map (add_unversioned gv) ts) (addObservedVersion gv s)"

text \<open>\<open>ObjectKinds\<close> and \<open>GVKForObject\<close>, for an object whose own kind is not set.\<close>

definition ObjectKinds :: "api_scheme \<Rightarrow> go_type \<Rightarrow> error + gvk list \<times> bool" where
  "ObjectKinds s t =
     (if typeToGVK s t = [] then Inl (Errorf ''no kind is registered for the type %v in scheme'' [AStr (snd t)])
      else Inr (typeToGVK s t, unversionedTypes s t \<noteq> None))"

definition GVKForObject :: "api_scheme \<Rightarrow> go_type \<Rightarrow> error + gvk" where
  "GVKForObject s t =
     (case ObjectKinds s t of
        Inl err \<Rightarrow> Inl err
      | Inr (gvks, isUnversioned) \<Rightarrow>
          if isUnversioned then Inl (Errorf ''cannot create group-version-kind for unversioned type %T'' [AStr (snd t)])
          else if length gvks > 1 then
            Inl (Errorf ''multiple GroupVersionKinds associated with Go type %T within the Scheme'' [AStr (snd t)])
          else Inr (hd gvks))"

definition Recognizes :: "api_scheme \<Rightarrow> gvk \<Rightarrow> bool" where
  "Recognizes s gvk \<longleftrightarrow> gvkToType s gvk \<noteq> None"

section \<open>The registrations\<close>

definition metav1_pkg :: string where "metav1_pkg = ''k8s.io/apimachinery/pkg/apis/meta/v1''"
definition WatchEventKind :: string where "WatchEventKind = ''WatchEvent''"
definition Unversioned :: group_version where "Unversioned = ('''', ''v1'')"

definition optionsTypes :: "string list" where
  "optionsTypes = [''ListOptions'', ''GetOptions'', ''DeleteOptions'', ''CreateOptions'', ''UpdateOptions'', ''PatchOptions'']"

definition unversioned_names :: "string list" where
  "unversioned_names = [''Status'', ''APIVersions'', ''APIGroupList'', ''APIGroup'', ''APIResourceList'']"

definition AddToGroupVersion :: "group_version \<Rightarrow> api_scheme \<Rightarrow> api_scheme option" where
  "AddToGroupVersion gv =
     steps [AddKnownTypeWithName (gv, WatchEventKind) (metav1_pkg, ''WatchEvent''),
            AddKnownTypeWithName ((fst gv, APIVersionInternal), WatchEventKind) (metav1_pkg, ''InternalEvent''),
            AddKnownTypes gv (map (Pair metav1_pkg) optionsTypes),
            AddUnversionedTypes Unversioned (map (Pair metav1_pkg) unversioned_names)]"

text \<open>An API package: its group and version, its path and the types it registers.\<close>

type_synonym api_package = "group_version \<times> string \<times> string list"

fun add_known :: "api_package \<Rightarrow> api_scheme \<Rightarrow> api_scheme option" where
  "add_known (gv, pkg, kinds) = AddKnownTypes gv (map (Pair pkg) kinds)"

definition add_package :: "api_package \<Rightarrow> api_scheme \<Rightarrow> api_scheme option" where
  "add_package b = steps [add_known b, AddToGroupVersion (fst b)]"

text \<open>The packages of this repository.\<close>

definition openshift_karpenter_v1 :: api_package where
  "openshift_karpenter_v1 =
     ((''karpenter.hypershift.openshift.io'', ''v1''), ''github.com/openshift/karpenter-operator/api/karpenter/v1'',
      [''OpenshiftEC2NodeClass'', ''OpenshiftEC2NodeClassList''])"

definition openshift_karpenter_v1alpha1 :: api_package where
  "openshift_karpenter_v1alpha1 =
     ((''karpenter.hypershift.openshift.io'', ''v1alpha1''), ''github.com/openshift/karpenter-operator/api/karpenter/v1alpha1'',
      [''OpenShiftAzureNodeClass'', ''OpenShiftAzureNodeClassList''])"

definition autoscaling_v1alpha1 :: api_package where
  "autoscaling_v1alpha1 =
     ((''autoscaling.openshift.io'', ''v1alpha1''), ''github.com/openshift/karpenter-operator/pkg/apis/autoscaling/v1alpha1'',
      [''Karpenter'', ''KarpenterList''])"

definition openshiftkarpenterv1_AddToScheme :: "api_scheme \<Rightarrow> api_scheme option" where
  "openshiftkarpenterv1_AddToScheme = add_package openshift_karpenter_v1"

definition openshiftkarpenterv1alpha1_AddToScheme :: "api_scheme \<Rightarrow> api_scheme option" where
  "openshiftkarpenterv1alpha1_AddToScheme = add_package openshift_karpenter_v1alpha1"

text \<open>This package adds its group and version first.\<close>

definition autoscalingv1alpha1_AddToScheme :: "api_scheme \<Rightarrow> api_scheme option" where
  "autoscalingv1alpha1_AddToScheme = steps [AddToGroupVersion (fst autoscaling_v1alpha1), add_known autoscaling_v1alpha1]"

text \<open>The vendored packages.\<close>

definition with_lists :: "string list \<Rightarrow> string list" where
  "with_lists ks = concat (map (\<lambda>k. [k, k @ ''List'']) ks)"

definition config_v1 :: api_package where
  "config_v1 =
     ((''config.openshift.io'', ''v1''), ''github.com/openshift/api/config/v1'',
      with_lists [''APIServer'', ''Authentication'', ''Build'', ''ClusterOperator'', ''ClusterVersion'', ''Console'', ''DNS'',
        ''FeatureGate'', ''Image'', ''Infrastructure'', ''Ingress'', ''Node'', ''Network'', ''OAuth'', ''OperatorHub'', ''Project'',
        ''Proxy'', ''Scheduler'', ''ImageContentPolicy'', ''ImageDigestMirrorSet'', ''ImageTagMirrorSet'', ''ImagePolicy'',
        ''ClusterImagePolicy'', ''InsightsDataGather'', ''CRIOCredentialProviderConfig''])"

definition apiextensions_v1 :: api_package where
  "apiextensions_v1 =
     ((''apiextensions.k8s.io'', ''v1''), ''k8s.io/apiextensions-apiserver/pkg/apis/apiextensions/v1'',
      [''CustomResourceDefinition'', ''CustomResourceDefinitionList'', ''ConversionReview''])"

text \<open>HyperShift's package registers its types one by one, from the files that declare them.\<close>

definition hypershift_names :: "string list" where
  "hypershift_names = [''AzurePrivateLinkService'', ''ControlPlaneComponent'', ''AWSEndpointService'', ''HCPEtcdBackup'',
     ''GCPPrivateServiceConnect'', ''HostedControlPlane'', ''HostedCluster'', ''NodePool'']"

definition hypershift_v1beta1 :: api_package where
  "hypershift_v1beta1 =
     ((''hypershift.openshift.io'', ''v1beta1''), ''github.com/openshift/hypershift/api/hypershift/v1beta1'', with_lists hypershift_names)"

definition hyperv1beta1_AddToScheme :: "api_scheme \<Rightarrow> api_scheme option" where
  "hyperv1beta1_AddToScheme =
     steps (add_package (fst hypershift_v1beta1, fst (snd hypershift_v1beta1), []) #
            map (\<lambda>k. add_package (fst hypershift_v1beta1, fst (snd hypershift_v1beta1), [k, k @ ''List''])) hypershift_names)"

definition monitoring_v1 :: api_package where
  "monitoring_v1 =
     ((''monitoring.coreos.com'', ''v1''), ''github.com/prometheus-operator/prometheus-operator/pkg/apis/monitoring/v1'',
      with_lists [''Prometheus'', ''ServiceMonitor'', ''PodMonitor'', ''Probe'', ''Alertmanager'', ''PrometheusRule'',
        ''ThanosRuler''])"

definition karpenter_v1 :: api_package where
  "karpenter_v1 =
     ((''karpenter.sh'', ''v1''), ''sigs.k8s.io/karpenter/pkg/apis/v1'', [''NodePool'', ''NodePoolList'', ''NodeClaim'', ''NodeClaimList''])"

definition aws_karpenter_v1 :: api_package where
  "aws_karpenter_v1 =
     ((''karpenter.k8s.aws'', ''v1''), ''github.com/aws/karpenter-provider-aws/pkg/apis/v1'', [''EC2NodeClass'', ''EC2NodeClassList''])"

definition azure_karpenter_v1beta1 :: api_package where
  "azure_karpenter_v1beta1 =
     ((''karpenter.azure.com'', ''v1beta1''), ''github.com/Azure/karpenter-provider-azure/pkg/apis/v1beta1'',
      [''AKSNodeClass'', ''AKSNodeClassList''])"

text \<open>The core package also registers the common type \<open>Status\<close> for its group and version, as \<open>AddToGroupVersion\<close> does.\<close>

definition clientgo_AddToScheme :: "api_package list \<Rightarrow> api_scheme \<Rightarrow> api_scheme option" where
  "clientgo_AddToScheme clientgo = steps (map add_package clientgo)"

text \<open>The scheme of the operator after \<open>init\<close>; \<open>Must\<close> and the library's own panics end the process alike.\<close>

definition operator_init :: "api_package list \<Rightarrow> api_scheme \<Rightarrow> api_scheme option" where
  "operator_init clientgo =
     steps [clientgo_AddToScheme clientgo, add_package config_v1, add_package apiextensions_v1, autoscalingv1alpha1_AddToScheme,
            openshiftkarpenterv1_AddToScheme, openshiftkarpenterv1alpha1_AddToScheme, hyperv1beta1_AddToScheme,
            add_package monitoring_v1, AddToGroupVersion (fst karpenter_v1), add_known karpenter_v1]"

text \<open>
  Importing the package of Karpenter's own API registers it with the scheme of the client as well, after
  the client's initialiser; the assets have a scheme of their own.
\<close>

definition autoscalingv1alpha1_init :: "api_scheme \<Rightarrow> api_scheme option" where
  "autoscalingv1alpha1_init = steps [AddToGroupVersion (fst autoscaling_v1alpha1), add_known autoscaling_v1alpha1]"

definition clientgo_init :: "api_package list \<Rightarrow> api_scheme \<Rightarrow> api_scheme option" where
  "clientgo_init clientgo = steps [AddToGroupVersion ([], ''v1''), clientgo_AddToScheme clientgo]"

definition assets_init :: "api_package list \<Rightarrow> api_scheme \<Rightarrow> api_scheme option" where
  "assets_init clientgo = steps [clientgo_AddToScheme clientgo, add_package apiextensions_v1]"

definition aws_AddToScheme :: "api_scheme \<Rightarrow> api_scheme option" where
  "aws_AddToScheme = steps [AddToGroupVersion (fst aws_karpenter_v1), add_known aws_karpenter_v1]"

definition azure_AddToScheme :: "api_scheme \<Rightarrow> api_scheme option" where
  "azure_AddToScheme = add_package azure_karpenter_v1beta1"

fun provider_AddToScheme :: "cloud_provider \<Rightarrow> api_scheme \<Rightarrow> api_scheme option" where
  "provider_AddToScheme (AWSProvider p) = aws_AddToScheme"
| "provider_AddToScheme (AzureProvider p) = azure_AddToScheme"

text \<open>The scheme that the manager of \<open>Run\<close> gets: the provider's types are added once the provider is known.\<close>

definition Run_scheme :: "runtime \<Rightarrow> options \<Rightarrow> api_scheme \<Rightarrow> api_scheme option" where
  "Run_scheme rt opts s =
     (case resolve_infrastructure rt opts of
        Inl _ \<Rightarrow> Some s
      | Inr infra \<Rightarrow>
          if \<not> isPlatformSupported (opt_managementCluster opts) (ii_platformType infra) then Some s
          else case GetCloudProvider (rt_getenv rt) (rt_loadDefaultConfig rt) infra of
            Inl _ \<Rightarrow> Some s
          | Inr provider \<Rightarrow> provider_AddToScheme provider s)"

section \<open>Registrations as relations\<close>

text \<open>
  The abstract state of a scheme is the relation of its kinds and types and the relation of its
  unversioned kinds; a registration adds pairs to them and succeeds exactly when both stay
  single-valued and every kind has a version. So the order of registrations does not matter.
\<close>

definition known :: "api_scheme \<Rightarrow> (gvk \<times> go_type) set" where
  "known s = {(g, t). gvkToType s g = Some t}"

definition unver :: "api_scheme \<Rightarrow> (string \<times> go_type) set" where
  "unver s = {(k, t). unversionedKinds s k = Some t}"

definition consistent :: "(gvk \<times> go_type) set \<Rightarrow> (string \<times> go_type) set \<Rightarrow> bool" where
  "consistent K U \<longleftrightarrow> single_valued K \<and> single_valued U \<and> (\<forall>g\<in>Domain K. snd (fst g) \<noteq> [])"

definition scheme_inv :: "api_scheme \<Rightarrow> bool" where
  "scheme_inv s \<longleftrightarrow>
     (\<forall>t. distinct (typeToGVK s t) \<and> set (typeToGVK s t) = {g. (g, t) \<in> known s}) \<and>
     (\<forall>g\<in>Domain (known s). snd (fst g) \<noteq> []) \<and>
     (\<forall>t. unversionedTypes s t \<noteq> None \<longleftrightarrow> t \<in> Range (unver s))"

definition registers ::
  "(api_scheme \<Rightarrow> api_scheme option) \<Rightarrow> (gvk \<times> go_type) set \<Rightarrow> (string \<times> go_type) set \<Rightarrow> bool" where
  "registers f K U \<longleftrightarrow>
     (\<forall>s. scheme_inv s \<longrightarrow>
       (case f s of
          None \<Rightarrow> \<not> consistent (known s \<union> K) (unver s \<union> U)
        | Some s' \<Rightarrow> scheme_inv s' \<and> known s' = known s \<union> K \<and> unver s' = unver s \<union> U))"

lemma consistent_mono: "consistent (K \<union> K') (U \<union> U') \<Longrightarrow> consistent K U"
  by (auto simp: consistent_def single_valued_def)

lemma consistent_subset: "consistent K U \<Longrightarrow> K' \<subseteq> K \<Longrightarrow> consistent K' U"
  using consistent_mono [of K' K U "{}"] by (simp add: Un_absorb1)

lemma scheme_inv_consistent: "scheme_inv s \<Longrightarrow> consistent (known s) (unver s)"
  by (auto simp: scheme_inv_def consistent_def known_def unver_def single_valued_def)

lemma registers_iff:
  assumes "registers f K U" "scheme_inv s"
  shows "f s \<noteq> None \<longleftrightarrow> consistent (known s \<union> K) (unver s \<union> U)"
  using assms scheme_inv_consistent by (fastforce simp: registers_def split: option.splits)

lemma registers_Some:
  assumes "registers f K U" "scheme_inv s" "f s = Some s'"
  shows "scheme_inv s'" "known s' = known s \<union> K" "unver s' = unver s \<union> U"
  using assms by (auto simp: registers_def)

lemma registers_Nil: "registers Some {} {}"
  by (simp add: registers_def)

lemma registers_bind:
  assumes f: "registers f K U" and g: "registers g K' U'"
  shows "registers (\<lambda>s. Option.bind (f s) g) (K \<union> K') (U \<union> U')"
  unfolding registers_def
proof (intro allI impI)
  fix s assume s: "scheme_inv s"
  show "case Option.bind (f s) g of
      None \<Rightarrow> \<not> consistent (known s \<union> (K \<union> K')) (unver s \<union> (U \<union> U'))
    | Some s' \<Rightarrow> scheme_inv s' \<and> known s' = known s \<union> (K \<union> K') \<and> unver s' = unver s \<union> (U \<union> U')"
  proof (cases "f s")
    case None
    with registers_iff [OF f s] have "\<not> consistent (known s \<union> K) (unver s \<union> U)" by simp
    with None consistent_mono [of "known s \<union> K" K' "unver s \<union> U" U'] show ?thesis by (auto simp: Un_assoc)
  next
    case (Some s')
    note s' = registers_Some [OF f s Some]
    show ?thesis
      using g s' Some by (auto simp: registers_def Un_assoc split: option.splits)
  qed
qed

lemma registers_steps:
  assumes "\<And>f K U. (f, K, U) \<in> set rs \<Longrightarrow> registers f K U"
  shows "registers (steps (map fst rs)) (\<Union>(f, K, U)\<in>set rs. K) (\<Union>(f, K, U)\<in>set rs. U)"
  using assms
proof (induction rs)
  case (Cons r rs)
  obtain f K U where r: "r = (f, K, U)" by (cases r)
  have "registers (\<lambda>s. Option.bind (f s) (steps (map fst rs)))
      (K \<union> (\<Union>(f, K, U)\<in>set rs. K)) (U \<union> (\<Union>(f, K, U)\<in>set rs. U))"
    by (rule registers_bind) (use Cons r in auto)
  then show ?case by (simp add: r fun_eq_iff)
qed (simp add: registers_def)

lemma steps_Cons: "steps (f # fs) = (\<lambda>s. Option.bind (f s) (steps fs))"
  by (simp add: fun_eq_iff)

lemma registers_Cons:
  "registers f K U \<Longrightarrow> registers (steps fs) K' U' \<Longrightarrow> registers (steps (f # fs)) (K \<union> K') (U \<union> U')"
  unfolding steps_Cons by (rule registers_bind)

lemma registers_empty: "registers (steps []) {} {}"
  by (simp add: registers_def)

lemma registers_map:
  assumes "\<And>x. x \<in> set xs \<Longrightarrow> registers (h x) (K x) (U x)"
  shows "registers (steps (map h xs)) (\<Union>x\<in>set xs. K x) (\<Union>x\<in>set xs. U x)"
  using assms by (induction xs) (auto intro: registers_Cons registers_empty simp del: steps.simps)

lemma observed [simp]:
  "gvkToType (addObservedVersion gv s) = gvkToType s" "typeToGVK (addObservedVersion gv s) = typeToGVK s"
  "unversionedTypes (addObservedVersion gv s) = unversionedTypes s" "unversionedKinds (addObservedVersion gv s) = unversionedKinds s"
  "known (addObservedVersion gv s) = known s" "unver (addObservedVersion gv s) = unver s"
  "scheme_inv (addObservedVersion gv s) = scheme_inv s"
  by (simp_all add: addObservedVersion_def known_def unver_def scheme_inv_def)

lemma registers_observed:
  "registers f K U \<Longrightarrow> registers (\<lambda>s. f (addObservedVersion gv s)) K U"
  unfolding registers_def
proof (intro allI impI)
  fix s assume r: "\<forall>s. scheme_inv s \<longrightarrow>
       (case f s of
          None \<Rightarrow> \<not> consistent (known s \<union> K) (unver s \<union> U)
        | Some s' \<Rightarrow> scheme_inv s' \<and> known s' = known s \<union> K \<and> unver s' = unver s \<union> U)" and s: "scheme_inv s"
  show "case f (addObservedVersion gv s) of
      None \<Rightarrow> \<not> consistent (known s \<union> K) (unver s \<union> U)
    | Some s' \<Rightarrow> scheme_inv s' \<and> known s' = known s \<union> K \<and> unver s' = unver s \<union> U"
    using r [rule_format, of "addObservedVersion gv s"] s by (simp split: option.splits)
qed

lemma clash: "(k, a) \<in> R \<Longrightarrow> (k, b) \<in> R \<Longrightarrow> a \<noteq> b \<Longrightarrow> \<not> single_valued R"
  by (auto simp: single_valued_def)

lemma known_iff: "(g, t) \<in> known s \<longleftrightarrow> gvkToType s g = Some t"
  by (simp add: known_def)

lemma unver_iff: "(k, t) \<in> unver s \<longleftrightarrow> unversionedKinds s k = Some t"
  by (simp add: unver_def)

lemma registers_AddKnownTypeWithName: "registers (AddKnownTypeWithName g t) {(g, t)} {}"
  unfolding registers_def
proof (intro allI impI)
  fix s assume inv: "scheme_inv s"
  show "case AddKnownTypeWithName g t s of None \<Rightarrow> \<not> consistent (known s \<union> {(g, t)}) (unver s \<union> {})
      | Some s' \<Rightarrow> scheme_inv s' \<and> known s' = known s \<union> {(g, t)} \<and> unver s' = unver s \<union> {}"
  proof (cases "snd (fst g) = [] \<or> (\<exists>old. gvkToType s g = Some old \<and> old \<noteq> t)")
    case True
    then have "AddKnownTypeWithName g t s = None"
      by (auto simp: AddKnownTypeWithName_def Let_def)
    moreover have "\<not> consistent (known s \<union> {(g, t)}) (unver s \<union> {})"
      using True clash [of g _ "known s \<union> {(g, t)}" t]
      by (auto simp: consistent_def known_iff simp del: split_paired_All split_paired_Ex)
    ultimately show ?thesis by simp
  next
    case False
    then have r: "gvkToType s g = None \<or> gvkToType s g = Some t" and v: "snd (fst g) \<noteq> []"
      by (cases "gvkToType s g"; simp del: split_paired_All split_paired_Ex)+
    then obtain s' where s': "AddKnownTypeWithName g t s = Some s'"
      and fs: "gvkToType s' = (gvkToType s)(g \<mapsto> t)"
        "typeToGVK s' = (if g \<in> set (typeToGVK s t) then typeToGVK s else (typeToGVK s)(t := typeToGVK s t @ [g]))"
        "unversionedTypes s' = unversionedTypes s" "unversionedKinds s' = unversionedKinds s"
      by (cases "gvkToType s g") (auto simp: AddKnownTypeWithName_def Let_def)
    have k: "known s' = known s \<union> {(g, t)}" and u: "unver s' = unver s"
      using r fs by (auto simp: known_def unver_def split: if_splits)
    have "scheme_inv s'"
      using inv v by (auto simp: scheme_inv_def k u fs simp del: split_paired_All split_paired_Ex)
    with s' k u show ?thesis by simp
  qed
qed

lemma registers_AddKnownTypes:
  "registers (AddKnownTypes gv ts) ((\<lambda>t. ((gv, snd t), t)) ` set ts) {}"
proof -
  have "registers (steps (map (\<lambda>t. AddKnownTypeWithName (gv, snd t) t) ts)) (\<Union>t\<in>set ts. {((gv, snd t), t)}) (\<Union>t\<in>set ts. {})"
    by (rule registers_map) (rule registers_AddKnownTypeWithName)
  then have "registers (steps (map (\<lambda>t. AddKnownTypeWithName (gv, snd t) t) ts)) ((\<lambda>t. ((gv, snd t), t)) ` set ts) {}"
    by (simp add: UNION_singleton_eq_range)
  from registers_observed [OF this] show ?thesis
    by (simp add: AddKnownTypes_def [abs_def])
qed

lemma registers_add_unversioned: "registers (add_unversioned gv t) {} {(snd t, t)}"
  unfolding registers_def
proof (intro allI impI)
  fix s assume inv: "scheme_inv s"
  show "case add_unversioned gv t s of None \<Rightarrow> \<not> consistent (known s \<union> {}) (unver s \<union> {(snd t, t)})
      | Some s' \<Rightarrow> scheme_inv s' \<and> known s' = known s \<union> {} \<and> unver s' = unver s \<union> {(snd t, t)}"
  proof (cases "\<exists>old. unversionedKinds s (snd t) = Some old \<and> t \<noteq> old")
    case True
    then have "add_unversioned gv t s = None"
      by (auto simp: add_unversioned_def Let_def)
    moreover have "\<not> consistent (known s \<union> {}) (unver s \<union> {(snd t, t)})"
      using True clash [of "snd t" _ "unver s \<union> {(snd t, t)}" t]
      by (auto simp: consistent_def unver_iff simp del: split_paired_All split_paired_Ex)
    ultimately show ?thesis by simp
  next
    case False
    then have r: "unversionedKinds s (snd t) = None \<or> unversionedKinds s (snd t) = Some t"
      by (cases "unversionedKinds s (snd t)") (auto simp del: split_paired_All split_paired_Ex)
    then obtain s' where s': "add_unversioned gv t s = Some s'"
      and fs: "gvkToType s' = gvkToType s" "typeToGVK s' = typeToGVK s"
        "unversionedTypes s' = (unversionedTypes s)(t \<mapsto> (gv, snd t))" "unversionedKinds s' = (unversionedKinds s)(snd t \<mapsto> t)"
      by (cases "unversionedKinds s (snd t)") (auto simp: add_unversioned_def Let_def)
    have k: "known s' = known s" and u: "unver s' = unver s \<union> {(snd t, t)}"
      using r fs by (auto simp: known_def unver_def split: if_splits)
    have "scheme_inv s'"
      using inv by (auto simp: scheme_inv_def k u fs simp del: split_paired_All split_paired_Ex)
    with s' k u show ?thesis by simp
  qed
qed

section \<open>The registrations of the packages\<close>

definition own_kinds :: "api_package \<Rightarrow> (gvk \<times> go_type) set" where
  "own_kinds b = (\<lambda>k. ((fst b, k), (fst (snd b), k))) ` set (snd (snd b))"

definition meta_kinds :: "group_version \<Rightarrow> (gvk \<times> go_type) set" where
  "meta_kinds gv =
     insert ((gv, WatchEventKind), (metav1_pkg, ''WatchEvent''))
       (insert (((fst gv, APIVersionInternal), WatchEventKind), (metav1_pkg, ''InternalEvent''))
         ((\<lambda>k. ((gv, k), (metav1_pkg, k))) ` set optionsTypes \<union>
          (\<lambda>k. ((Unversioned, k), (metav1_pkg, k))) ` set unversioned_names))"

definition meta_unver :: "(string \<times> go_type) set" where
  "meta_unver = (\<lambda>k. (k, (metav1_pkg, k))) ` set unversioned_names"

definition package_kinds :: "api_package \<Rightarrow> (gvk \<times> go_type) set" where
  "package_kinds b = own_kinds b \<union> meta_kinds (fst b)"

lemma registers_cong: "registers f K U \<Longrightarrow> K = K' \<Longrightarrow> U = U' \<Longrightarrow> registers f K' U'"
  by simp

lemma registers_add_known: "registers (add_known b) (own_kinds b) {}"
proof (cases b rule: add_known.cases)
  case (1 gv pkg kinds)
  show ?thesis
    unfolding 1 add_known.simps
    by (rule registers_cong, rule registers_AddKnownTypes) (simp_all add: own_kinds_def image_image)
qed

lemma registers_AddUnversionedTypes:
  "registers (AddUnversionedTypes gv ts) ((\<lambda>t. ((gv, snd t), t)) ` set ts) ((\<lambda>t. (snd t, t)) ` set ts)"
proof -
  have u: "registers (steps (map (add_unversioned gv) ts)) (\<Union>t\<in>set ts. {}) (\<Union>t\<in>set ts. {(snd t, t)})"
    by (rule registers_map) (rule registers_add_unversioned)
  show ?thesis
    using registers_observed [OF registers_Cons [OF registers_AddKnownTypes u]]
    by (auto simp: AddUnversionedTypes_def [abs_def] UNION_singleton_eq_range)
qed

lemma registers_AddToGroupVersion: "registers (AddToGroupVersion gv) (meta_kinds gv) meta_unver"
  unfolding AddToGroupVersion_def
  by (rule registers_cong, rule registers_Cons [OF registers_AddKnownTypeWithName
        registers_Cons [OF registers_AddKnownTypeWithName registers_Cons [OF registers_AddKnownTypes
        registers_Cons [OF registers_AddUnversionedTypes registers_empty]]]])
    (auto simp: meta_kinds_def meta_unver_def image_image)

lemma registers_package: "registers (add_package b) (package_kinds b) meta_unver"
  unfolding add_package_def
  by (rule registers_cong, rule registers_Cons [OF registers_add_known registers_Cons [OF registers_AddToGroupVersion registers_empty]])
    (auto simp: package_kinds_def)

lemma registers_package': "registers (steps [AddToGroupVersion (fst b), add_known b]) (package_kinds b) meta_unver"
  by (rule registers_cong, rule registers_Cons [OF registers_AddToGroupVersion registers_Cons [OF registers_add_known registers_empty]])
    (auto simp: package_kinds_def)

definition operator_packages :: "api_package list" where
  "operator_packages =
     [config_v1, apiextensions_v1, autoscaling_v1alpha1, openshift_karpenter_v1, openshift_karpenter_v1alpha1, hypershift_v1beta1,
      monitoring_v1, karpenter_v1]"

lemma registers_clientgo:
  "registers (clientgo_AddToScheme clientgo) (\<Union>b\<in>set clientgo. package_kinds b) (\<Union>b\<in>set clientgo. meta_unver)"
  unfolding clientgo_AddToScheme_def by (rule registers_map) (rule registers_package)

lemmas repo_registrations = autoscalingv1alpha1_AddToScheme_def openshiftkarpenterv1_AddToScheme_def
  openshiftkarpenterv1alpha1_AddToScheme_def aws_AddToScheme_def azure_AddToScheme_def

lemma registers_hypershift: "registers hyperv1beta1_AddToScheme (package_kinds hypershift_v1beta1) meta_unver"
proof -
  let ?one = "\<lambda>ks. (fst hypershift_v1beta1, fst (snd hypershift_v1beta1), ks)"
  have "registers (steps (map (\<lambda>k. add_package (?one [k, k @ ''List''])) hypershift_names))
      (\<Union>k\<in>set hypershift_names. package_kinds (?one [k, k @ ''List''])) (\<Union>k\<in>set hypershift_names. meta_unver)"
    by (rule registers_map) (rule registers_package)
  from registers_Cons [OF registers_package [of "?one []"] this]
  have r: "registers hyperv1beta1_AddToScheme
      (package_kinds (?one []) \<union> (\<Union>k\<in>set hypershift_names. package_kinds (?one [k, k @ ''List''])))
      (meta_unver \<union> (\<Union>k\<in>set hypershift_names. meta_unver))"
    by (simp only: hyperv1beta1_AddToScheme_def)
  have "snd (snd hypershift_v1beta1) = with_lists hypershift_names"
    by (simp add: hypershift_v1beta1_def)
  then show ?thesis
    by (intro registers_cong [OF r]) (auto simp: package_kinds_def own_kinds_def with_lists_def)
qed

lemma registers_init:
  "registers (operator_init clientgo) (\<Union>b\<in>set (clientgo @ operator_packages). package_kinds b) meta_unver"
  unfolding operator_init_def repo_registrations
  by (rule registers_cong, rule registers_Cons [OF registers_clientgo registers_Cons [OF registers_package
        registers_Cons [OF registers_package registers_Cons [OF registers_package' registers_Cons [OF registers_package
        registers_Cons [OF registers_package registers_Cons [OF registers_hypershift registers_Cons [OF registers_package
        registers_Cons [OF registers_AddToGroupVersion registers_Cons [OF registers_add_known registers_empty]]]]]]]]]])
    (auto simp: operator_packages_def package_kinds_def)

fun provider_package :: "cloud_provider \<Rightarrow> api_package" where
  "provider_package (AWSProvider p) = aws_karpenter_v1"
| "provider_package (AzureProvider p) = azure_karpenter_v1beta1"

lemma registers_provider: "registers (provider_AddToScheme p) (package_kinds (provider_package p)) meta_unver"
  by (cases p) (simp_all add: repo_registrations registers_package registers_package')

section \<open>Packages that fit together\<close>

text \<open>
  What the registrations rely on: packages have their own group version and path, a version that is
  neither empty nor the internal one, and no type with the name of a common one.
\<close>

definition common_names :: "string list" where
  "common_names = WatchEventKind # optionsTypes @ unversioned_names"

definition package_ok :: "api_package \<Rightarrow> bool" where
  "package_ok b \<longleftrightarrow>
     (case b of (gv, pkg, kinds) \<Rightarrow>
        snd gv \<noteq> [] \<and> snd gv \<noteq> APIVersionInternal \<and> pkg \<noteq> metav1_pkg \<and> set kinds \<inter> set common_names = {})"

definition packages_ok :: "api_package list \<Rightarrow> bool" where
  "packages_ok bs \<longleftrightarrow> distinct (map fst bs) \<and> distinct (map (fst \<circ> snd) bs) \<and> list_all package_ok bs"

lemma packages_okD:
  assumes "packages_ok bs" "b \<in> set bs" "b' \<in> set bs"
  shows "package_ok b" "fst b = fst b' \<longleftrightarrow> b = b'" "fst (snd b) = fst (snd b') \<longleftrightarrow> b = b'"
proof -
  have i: "inj_on fst (set bs)" "inj_on (\<lambda>b. fst (snd b)) (set bs)" and l: "list_all package_ok bs"
    using assms(1) by (simp_all add: packages_ok_def distinct_map comp_def)
  show "package_ok b" using l assms(2) by (simp add: list_all_iff)
  show "fst b = fst b' \<longleftrightarrow> b = b'" by (rule inj_on_eq_iff [OF i(1) assms(2,3)])
  show "fst (snd b) = fst (snd b') \<longleftrightarrow> b = b'" by (rule inj_on_eq_iff [OF i(2) assms(2,3)])
qed

text \<open>The type of a kind, for kinds of the packages and for the common ones.\<close>

definition meta_type :: "gvk \<Rightarrow> go_type" where
  "meta_type g = (metav1_pkg, if snd (fst g) = APIVersionInternal then ''InternalEvent'' else snd g)"

lemma meta_kinds_type:
  assumes "(g, t) \<in> meta_kinds gv" "snd gv \<noteq> APIVersionInternal" "snd gv \<noteq> []"
  shows "t = meta_type g" "snd g \<in> set common_names" "snd (fst g) \<noteq> []"
  using assms by (auto simp: meta_kinds_def meta_type_def common_names_def APIVersionInternal_def WatchEventKind_def Unversioned_def)

lemma own_kinds_type:
  assumes "(g, t) \<in> own_kinds b" "package_ok b"
  shows "t = (fst (snd b), snd g)" "fst g = fst b" "snd g \<in> set (snd (snd b))" "snd g \<notin> set common_names" "snd (fst g) \<noteq> []"
    "fst t \<noteq> metav1_pkg"
  using assms by (auto simp: own_kinds_def package_ok_def split: prod.splits)

lemma packages_consistent:
  assumes ok: "packages_ok bs"
  shows "consistent (\<Union>b\<in>set bs. package_kinds b) meta_unver"
proof -
  have "t = t'" if "b \<in> set bs" "(g, t) \<in> package_kinds b" "b' \<in> set bs" "(g, t') \<in> package_kinds b'" for b b' g t t'
  proof -
    note p = packages_okD [OF ok that(1) that(3)] packages_okD(1) [OF ok that(3) that(3)]
    have v: "snd (fst b) \<noteq> APIVersionInternal" "snd (fst b) \<noteq> []" "snd (fst b') \<noteq> APIVersionInternal" "snd (fst b') \<noteq> []"
      using p by (auto simp: package_ok_def split: prod.splits)
    show ?thesis
      using that(2,4) p meta_kinds_type [of g t "fst b"] meta_kinds_type [of g t' "fst b'"]
        own_kinds_type [of g t b] own_kinds_type [of g t' b'] v
      unfolding package_kinds_def by (metis UnE)
  qed
  moreover have "snd (fst g) \<noteq> []" if "b \<in> set bs" "(g, t) \<in> package_kinds b" for b g t
  proof -
    note p = packages_okD(1) [OF ok that(1) that(1)]
    then have "snd (fst b) \<noteq> APIVersionInternal" "snd (fst b) \<noteq> []"
      by (auto simp: package_ok_def split: prod.splits)
    with that(2) p meta_kinds_type(3) [of g t "fst b"] own_kinds_type(5) [of g t b] show ?thesis
      by (auto simp: package_kinds_def)
  qed
  moreover have "single_valued meta_unver" by (auto simp: meta_unver_def single_valued_def)
  ultimately show ?thesis
    by (auto simp: consistent_def single_valued_def Domain_iff simp del: split_paired_All split_paired_Ex)
qed

text \<open>A type of a package has exactly one kind.\<close>

lemma packages_kinds_of:
  assumes ok: "packages_ok bs" and b: "(gv, pkg, kinds) \<in> set bs" and k: "k \<in> set kinds"
  shows "{g. (g, (pkg, k)) \<in> (\<Union>b\<in>set bs. package_kinds b)} = {(gv, k)}"
proof (intro equalityI subsetI)
  fix g assume "g \<in> {g. (g, (pkg, k)) \<in> (\<Union>b\<in>set bs. package_kinds b)}"
  then obtain b' where b': "b' \<in> set bs" and g: "(g, (pkg, k)) \<in> package_kinds b'" by blast
  note p = packages_okD [OF ok b b'] packages_okD(1) [OF ok b' b']
  from p have v: "snd (fst b') \<noteq> APIVersionInternal" "snd (fst b') \<noteq> []" "pkg \<noteq> metav1_pkg"
    by (auto simp: package_ok_def split: prod.splits)
  have "(g, (pkg, k)) \<in> own_kinds b'"
    using g v meta_kinds_type(1) [of g "(pkg, k)" "fst b'"] by (auto simp: package_kinds_def meta_type_def)
  from own_kinds_type [OF this] p show "g \<in> {(gv, k)}"
    by (cases g) auto
next
  fix g assume "g \<in> {(gv, k)}"
  with b k show "g \<in> {g. (g, (pkg, k)) \<in> (\<Union>b\<in>set bs. package_kinds b)}"
    by (force simp: package_kinds_def own_kinds_def)
qed

section \<open>The types that the controllers watch\<close>

definition core_type :: "string \<Rightarrow> go_type" where "core_type k = (''k8s.io/api/core/v1'', k)"
definition apps_type :: "string \<Rightarrow> go_type" where "apps_type k = (''k8s.io/api/apps/v1'', k)"
definition rbac_type :: "string \<Rightarrow> go_type" where "rbac_type k = (''k8s.io/api/rbac/v1'', k)"
definition certificates_type :: "string \<Rightarrow> go_type" where "certificates_type k = (''k8s.io/api/certificates/v1'', k)"
definition admission_type :: "string \<Rightarrow> go_type" where "admission_type k = (''k8s.io/api/admissionregistration/v1'', k)"

definition type_of_package :: "api_package \<Rightarrow> string \<Rightarrow> go_type" where
  "type_of_package b k = (fst (snd b), k)"

definition HCP_type :: go_type where "HCP_type = type_of_package hypershift_v1beta1 ''HostedControlPlane''"

definition crd_types :: "go_type list" where
  "crd_types = [type_of_package apiextensions_v1 ''CustomResourceDefinition'']"

fun WatchObject :: "hcp_provider \<Rightarrow> go_type" where
  "WatchObject HCPEC2NodeClassProvider = type_of_package openshift_karpenter_v1 ''OpenshiftEC2NodeClass''"
| "WatchObject (HCPAzureNodeClassProvider v) = type_of_package openshift_karpenter_v1alpha1 ''OpenShiftAzureNodeClass''"

definition default_types :: "hcp_provider \<Rightarrow> go_type list" where
  "default_types p = [HCP_type, WatchObject p]"

definition ec2_types :: "go_type list" where
  "ec2_types = [type_of_package openshift_karpenter_v1 ''OpenshiftEC2NodeClass'', type_of_package aws_karpenter_v1 ''EC2NodeClass'',
     core_type ''Secret'', HCP_type]"

definition subnet_types :: "go_type list" where
  "subnet_types = [HCP_type, core_type ''ConfigMap'', type_of_package openshift_karpenter_v1 ''OpenshiftEC2NodeClass'']"

definition azure_types :: "go_type list" where
  "azure_types = [type_of_package openshift_karpenter_v1alpha1 ''OpenShiftAzureNodeClass'',
     type_of_package azure_karpenter_v1beta1 ''AKSNodeClass'', HCP_type, core_type ''Secret'']"

definition vap_types :: "bool \<Rightarrow> go_type list" where
  "vap_types managementWatch = [admission_type ''ValidatingAdmissionPolicy'', admission_type ''ValidatingAdmissionPolicyBinding''] @
     (if managementWatch then [HCP_type] else [])"

definition hcp_operand_types :: "go_type list" where
  "hcp_operand_types = [HCP_type, apps_type ''Deployment'', type_of_package monitoring_v1 ''PodMonitor'', core_type ''ServiceAccount'']"

definition autonode_types :: "go_type list" where
  "autonode_types = [HCP_type, type_of_package karpenter_v1 ''NodeClaim'', core_type ''Node'']"

text \<open>The CAPI cluster is watched by its metadata alone, with the kind in the object.\<close>

definition deletion_types :: "go_type list" where
  "deletion_types = [HCP_type]"

definition approver_types :: "go_type list" where
  "approver_types = [certificates_type ''CertificateSigningRequest'']"

definition ocp_types :: "go_type list" where
  "ocp_types = [type_of_package autoscaling_v1alpha1 ''Karpenter'', apps_type ''Deployment'', type_of_package monitoring_v1 ''PodMonitor'',
     core_type ''ServiceAccount'', rbac_type ''Role'', rbac_type ''RoleBinding'', core_type ''Secret'', rbac_type ''ClusterRole'',
     rbac_type ''ClusterRoleBinding'']"

definition co_types :: "go_type list" where
  "co_types = [type_of_package config_v1 ''ClusterOperator'', type_of_package autoscaling_v1alpha1 ''Karpenter'', apps_type ''Deployment'']"

fun watched_types :: "controller \<Rightarrow> go_type list" where
  "watched_types (CRDController crds h) = crd_types"
| "watched_types (DefaultNodeClassController p) = default_types p"
| "watched_types EC2NodeClassController = ec2_types"
| "watched_types EC2SubnetController = subnet_types"
| "watched_types AzureNodeClassController = azure_types"
| "watched_types (NodeClassVAPController policy managementWatch) = vap_types managementWatch"
| "watched_types (HCPOperandController c) = hcp_operand_types"
| "watched_types AutoNodeStatusController = autonode_types"
| "watched_types HCPDeletionController = deletion_types"
| "watched_types MachineApproverController = approver_types"
| "watched_types (OCPOperandController c) = ocp_types"
| "watched_types (ClusterOperatorController c) = co_types"

lemmas controller_types = crd_types_def default_types_def ec2_types_def subnet_types_def azure_types_def vap_types_def
  hcp_operand_types_def autonode_types_def deletion_types_def approver_types_def ocp_types_def co_types_def

section \<open>The Kubernetes client\<close>

text \<open>
  What the operator relies on of the client's packages: their paths are below \<open>k8s.io/api/\<close>, none has
  a group of the operator's other packages, and the five below hold the types that are watched.
\<close>

definition clientgo_needed :: "api_package list" where
  "clientgo_needed =
     [(('''', ''v1''), ''k8s.io/api/core/v1'', with_lists [''Secret'', ''ConfigMap'', ''Node'', ''ServiceAccount'']),
      ((''apps'', ''v1''), ''k8s.io/api/apps/v1'', with_lists [''Deployment'']),
      ((''rbac.authorization.k8s.io'', ''v1''), ''k8s.io/api/rbac/v1'',
         with_lists [''Role'', ''RoleBinding'', ''ClusterRole'', ''ClusterRoleBinding'']),
      ((''certificates.k8s.io'', ''v1''), ''k8s.io/api/certificates/v1'', with_lists [''CertificateSigningRequest'']),
      ((''admissionregistration.k8s.io'', ''v1''), ''k8s.io/api/admissionregistration/v1'',
         with_lists [''ValidatingAdmissionPolicy'', ''ValidatingAdmissionPolicyBinding''])]"

definition operator_groups :: "string list" where
  "operator_groups = map (fst \<circ> fst) (operator_packages @ [aws_karpenter_v1, azure_karpenter_v1beta1])"

definition clientgo_ok :: "api_package list \<Rightarrow> bool" where
  "clientgo_ok clientgo \<longleftrightarrow>
     packages_ok clientgo \<and>
     list_all (\<lambda>b. take 11 (fst (snd b)) = ''k8s.io/api/'' \<and> fst (fst b) \<notin> set operator_groups) clientgo \<and>
     list_all (\<lambda>n. list_ex (\<lambda>b. fst b = fst n \<and> fst (snd b) = fst (snd n) \<and> set (snd (snd n)) \<subseteq> set (snd (snd b))) clientgo)
       clientgo_needed"

lemma packages_ok_append:
  assumes "packages_ok as" "packages_ok bs"
    and "\<And>a b. a \<in> set as \<Longrightarrow> b \<in> set bs \<Longrightarrow> fst a \<noteq> fst b \<and> fst (snd a) \<noteq> fst (snd b)"
  shows "packages_ok (as @ bs)"
  using assms by (fastforce simp: packages_ok_def)

lemmas package_defs = config_v1_def apiextensions_v1_def autoscaling_v1alpha1_def openshift_karpenter_v1_def
  openshift_karpenter_v1alpha1_def hypershift_v1beta1_def hypershift_names_def monitoring_v1_def karpenter_v1_def aws_karpenter_v1_def
  azure_karpenter_v1beta1_def

lemma each_package_ok: "list_all package_ok (operator_packages @ [aws_karpenter_v1, azure_karpenter_v1beta1])"
  by (simp add: operator_packages_def package_ok_def package_defs with_lists_def common_names_def WatchEventKind_def optionsTypes_def
      unversioned_names_def APIVersionInternal_def metav1_pkg_def)

lemma operator_packages_ok: "packages_ok (operator_packages @ [provider_package p])"
proof -
  have "list_all package_ok (operator_packages @ [provider_package p])"
    using each_package_ok by (cases p) (simp_all add: list_all_iff)
  then show ?thesis
    by (cases p) (simp_all add: packages_ok_def operator_packages_def package_defs)
qed

lemma operator_packages_groups:
  assumes "b \<in> set (operator_packages @ [provider_package p])"
  shows "fst (fst b) \<in> set operator_groups"
  using assms by (cases p) (auto simp: operator_groups_def)

lemma operator_packages_paths:
  "list_all (\<lambda>b. take 11 (fst (snd b)) \<noteq> ''k8s.io/api/'') (operator_packages @ [provider_package p])"
  by (cases p) (simp_all add: operator_packages_def package_defs)

lemma all_packages_ok:
  assumes "clientgo_ok clientgo"
  shows "packages_ok (clientgo @ operator_packages @ [provider_package p])"
proof (rule packages_ok_append)
  fix a b assume a: "a \<in> set clientgo" and b: "b \<in> set (operator_packages @ [provider_package p])"
  from assms a have "fst (fst a) \<notin> set operator_groups" "take 11 (fst (snd a)) = ''k8s.io/api/''"
    by (auto simp: clientgo_ok_def list_all_iff)
  moreover have "fst (fst b) \<in> set operator_groups" "take 11 (fst (snd b)) \<noteq> ''k8s.io/api/''"
    using operator_packages_groups [OF b] operator_packages_paths [of p] b by (auto simp: list_all_iff)
  ultimately show "fst a \<noteq> fst b \<and> fst (snd a) \<noteq> fst (snd b)" by metis
qed (use assms operator_packages_ok in \<open>simp_all add: clientgo_ok_def\<close>)

section \<open>The types of a started controller\<close>

text \<open>A type that a watch can start with: it has one kind, and the kind's list is registered too.\<close>

definition watchable :: "api_scheme \<Rightarrow> go_type \<Rightarrow> gvk \<Rightarrow> bool" where
  "watchable s t g \<longleftrightarrow> GVKForObject s t = Inr g \<and> Recognizes s g \<and> Recognizes s (fst g, snd g @ ''List'')"

lemma NewScheme_inv: "scheme_inv NewScheme" "known NewScheme = {}" "unver NewScheme = {}"
  by (simp_all add: NewScheme_def scheme_inv_def known_def unver_def)

lemma distinct_set_singleton: "distinct xs \<Longrightarrow> set xs = {x} \<Longrightarrow> xs = [x]"
  by (cases xs) (auto simp: subset_singleton_iff)

lemma package_type_watchable:
  assumes ok: "packages_ok bs" and inv: "scheme_inv s"
    and known: "known s = (\<Union>b\<in>set bs. package_kinds b)" and unver: "unver s = meta_unver"
    and b: "(gv, pkg, kinds) \<in> set bs" and k: "{k, k @ ''List''} \<subseteq> set kinds"
  shows "watchable s (pkg, k) (gv, k)"
proof -
  have "set (typeToGVK s (pkg, k)) = {(gv, k)}" "distinct (typeToGVK s (pkg, k))"
    using inv packages_kinds_of [OF ok b, of k] k by (auto simp: scheme_inv_def known)
  then have g: "typeToGVK s (pkg, k) = [(gv, k)]" by (metis distinct_set_singleton)
  have "pkg \<noteq> metav1_pkg" using packages_okD(1) [OF ok b b] by (simp add: package_ok_def)
  then have "(pkg, k) \<notin> Range (unver s)" by (auto simp: unver meta_unver_def)
  with inv have u: "unversionedTypes s (pkg, k) = None"
    unfolding scheme_inv_def by metis
  have "((gv, k'), (pkg, k')) \<in> known s" if "k' \<in> set kinds" for k'
    using packages_kinds_of [OF ok b that] by (auto simp: known)
  then have "gvkToType s (gv, k') = Some (pkg, k')" if "k' \<in> set kinds" for k'
    using that by (simp add: known_iff)
  with k show ?thesis
    by (simp add: watchable_def GVKForObject_def ObjectKinds_def g u Recognizes_def)
qed

lemma clientgo_type_watchable:
  assumes cg: "clientgo_ok clientgo" and ok: "packages_ok (clientgo @ bs)" and inv: "scheme_inv s"
    and known: "known s = (\<Union>b\<in>set (clientgo @ bs). package_kinds b)" and unver: "unver s = meta_unver"
    and n: "(gv, pkg, kinds) \<in> set clientgo_needed" and k: "{k, k @ ''List''} \<subseteq> set kinds"
  shows "watchable s (pkg, k) (gv, k)"
proof -
  from cg n obtain kinds' where b: "(gv, pkg, kinds') \<in> set clientgo" and sub: "set kinds \<subseteq> set kinds'"
    by (fastforce simp: clientgo_ok_def list_all_iff list_ex_iff)
  show ?thesis
    by (rule package_type_watchable [OF ok inv known unver, of gv pkg kinds']) (use b sub k in auto)
qed

text \<open>The packages that the operator registers for what it starts.\<close>

definition run_packages :: "api_package list \<Rightarrow> cloud_provider option \<Rightarrow> api_package list" where
  "run_packages clientgo p = clientgo @ operator_packages @ (case p of None \<Rightarrow> [] | Some p \<Rightarrow> [provider_package p])"

lemma packages_ok_prefix: "packages_ok (as @ bs) \<Longrightarrow> packages_ok as"
  by (simp add: packages_ok_def)

lemma run_packages_ok:
  assumes "clientgo_ok clientgo"
  shows "packages_ok (run_packages clientgo p)"
proof (cases p)
  case None
  have "packages_ok ((clientgo @ operator_packages) @ [provider_package (AWSProvider undefined)])"
    using all_packages_ok [OF assms] by (simp only: append_assoc)
  from packages_ok_prefix [OF this] None show ?thesis by (simp add: run_packages_def)
next
  case (Some q)
  with all_packages_ok [OF assms, of q] show ?thesis by (simp add: run_packages_def)
qed

definition has_packages :: "api_scheme \<Rightarrow> api_package list \<Rightarrow> bool" where
  "has_packages s bs \<longleftrightarrow> scheme_inv s \<and> known s = (\<Union>b\<in>set bs. package_kinds b) \<and> unver s = meta_unver"

lemma operator_init_packages:
  assumes "clientgo_ok clientgo"
  shows "\<exists>s. operator_init clientgo NewScheme = Some s \<and> has_packages s (run_packages clientgo None)"
proof -
  have "operator_init clientgo NewScheme \<noteq> None"
    using registers_iff [OF registers_init NewScheme_inv(1), of clientgo] packages_consistent [OF run_packages_ok [OF assms, of None]]
    by (simp add: NewScheme_inv run_packages_def)
  then obtain s where s: "operator_init clientgo NewScheme = Some s" by blast
  with registers_Some [OF registers_init NewScheme_inv(1) s] show ?thesis
    by (simp add: NewScheme_inv has_packages_def run_packages_def)
qed

lemma registers_from_new:
  assumes "registers f K U" "consistent K U"
  shows "f NewScheme \<noteq> None"
  using registers_iff [OF assms(1) NewScheme_inv(1)] assms(2) by (simp add: NewScheme_inv)

lemma package_inits:
  assumes "clientgo_ok clientgo"
  shows "steps [clientgo_init clientgo, autoscalingv1alpha1_init] NewScheme \<noteq> None" "assets_init clientgo NewScheme \<noteq> None"
proof -
  note all = packages_consistent [OF run_packages_ok [OF assms, of None]]
  have core: "(([], ''v1''), ''k8s.io/api/core/v1'', with_lists [''Secret'', ''ConfigMap'', ''Node'', ''ServiceAccount'']) \<in> set clientgo_needed"
    by (simp add: clientgo_needed_def)
  with assms obtain b where b: "b \<in> set clientgo" "fst b = ([], ''v1'')"
    by (fastforce simp: clientgo_ok_def list_all_iff list_ex_iff)
  have "registers (steps [clientgo_init clientgo, autoscalingv1alpha1_init])
      ((\<Union>b\<in>set clientgo. package_kinds b) \<union> package_kinds autoscaling_v1alpha1) meta_unver"
    unfolding clientgo_init_def autoscalingv1alpha1_init_def
    by (rule registers_cong, rule registers_Cons [OF registers_Cons [OF registers_AddToGroupVersion registers_Cons [OF registers_clientgo registers_empty]]
          registers_Cons [OF registers_package' registers_empty]])
      (use b in \<open>auto simp: package_kinds_def\<close>)
  moreover have "consistent ((\<Union>b\<in>set clientgo. package_kinds b) \<union> package_kinds autoscaling_v1alpha1) meta_unver"
    using all by (rule consistent_subset) (auto simp: run_packages_def operator_packages_def)
  ultimately show "steps [clientgo_init clientgo, autoscalingv1alpha1_init] NewScheme \<noteq> None" by (rule registers_from_new)
  have "registers (assets_init clientgo) ((\<Union>b\<in>set clientgo. package_kinds b) \<union> package_kinds apiextensions_v1) meta_unver"
    unfolding assets_init_def
    by (rule registers_cong, rule registers_Cons [OF registers_clientgo registers_Cons [OF registers_package registers_empty]]) auto
  moreover have "consistent ((\<Union>b\<in>set clientgo. package_kinds b) \<union> package_kinds apiextensions_v1) meta_unver"
    using all by (rule consistent_subset) (auto simp: run_packages_def operator_packages_def)
  ultimately show "assets_init clientgo NewScheme \<noteq> None" by (rule registers_from_new)
qed

lemma provider_packages:
  assumes "clientgo_ok clientgo" "has_packages s0 (run_packages clientgo None)"
  shows "\<exists>s. provider_AddToScheme p s0 = Some s \<and> has_packages s (run_packages clientgo (Some p))"
proof -
  have inv: "scheme_inv s0" using assms(2) by (simp add: has_packages_def)
  have k: "known s0 \<union> package_kinds (provider_package p) = (\<Union>b\<in>set (run_packages clientgo (Some p)). package_kinds b)"
    and u: "unver s0 \<union> meta_unver = meta_unver"
    using assms(2) by (auto simp: has_packages_def run_packages_def)
  have "provider_AddToScheme p s0 \<noteq> None"
    using registers_iff [OF registers_provider inv, of p] packages_consistent [OF run_packages_ok [OF assms(1), of "Some p"]] k u by simp
  then obtain s where s: "provider_AddToScheme p s0 = Some s" by blast
  from registers_Some [OF registers_provider inv s] k u s show ?thesis by (simp add: has_packages_def)
qed

definition serves :: "api_package list \<Rightarrow> go_type \<Rightarrow> bool" where
  "serves bs t \<longleftrightarrow>
     list_ex (\<lambda>b. fst t = fst (snd b) \<and> snd t \<in> set (snd (snd b)) \<and> snd t @ ''List'' \<in> set (snd (snd b))) bs"

definition watched_packages :: "cloud_provider option \<Rightarrow> api_package list" where
  "watched_packages p = clientgo_needed @ operator_packages @ (case p of None \<Rightarrow> [] | Some p \<Rightarrow> [provider_package p])"

lemma served_watchable:
  assumes cg: "clientgo_ok clientgo" and s: "has_packages s (run_packages clientgo p)" and t: "serves (watched_packages p) t"
  shows "\<exists>g. watchable s t g \<and> snd g = snd t"
proof -
  from t obtain gv pkg kinds k where b: "(gv, pkg, kinds) \<in> set (watched_packages p)" and k: "{k, k @ ''List''} \<subseteq> set kinds" and t: "t = (pkg, k)"
    by (cases t) (fastforce simp: serves_def list_ex_iff)
  note ok = run_packages_ok [OF cg, of p]
  have inv: "scheme_inv s" and known: "known s = (\<Union>b\<in>set (run_packages clientgo p). package_kinds b)" and unver: "unver s = meta_unver"
    using s by (simp_all add: has_packages_def)
  show ?thesis
  proof (cases "(gv, pkg, kinds) \<in> set clientgo_needed")
    case True
    from clientgo_type_watchable [OF cg ok [unfolded run_packages_def] inv known [unfolded run_packages_def] unver True k]
    show ?thesis unfolding t by (intro exI [of _ "(gv, k)"]) simp
  next
    case False
    with b have "(gv, pkg, kinds) \<in> set (run_packages clientgo p)" by (auto simp: watched_packages_def run_packages_def)
    from package_type_watchable [OF ok inv known unver this k] show ?thesis
      unfolding t by (intro exI [of _ "(gv, k)"]) simp
  qed
qed

text \<open>Every provider's packages serve the controllers that \<open>NewControllers\<close> builds for it.\<close>

definition common_lists :: "go_type list list" where
  "common_lists = [crd_types, vap_types True, hcp_operand_types, autonode_types, deletion_types,
     approver_types, ocp_types, co_types, subnet_types, default_types HCPEC2NodeClassProvider, default_types (HCPAzureNodeClassProvider [])]"

definition common_types :: "go_type list" where
  "common_types = concat common_lists"

lemma common_types_served: "list_all (serves (watched_packages None)) common_types"
  by code_simp

lemma serves_more: "serves (watched_packages None) t \<Longrightarrow> serves (watched_packages p) t"
  by (auto simp: serves_def watched_packages_def)

lemma provider_types_served:
  "list_all (serves (watched_packages (Some (AWSProvider q)))) ec2_types"
  "list_all (serves (watched_packages (Some (AzureProvider q')))) azure_types"
  by (code_simp, code_simp)

lemma common_served:
  assumes "t \<in> set common_types"
  shows "serves (watched_packages p) t"
  using common_types_served assms by (simp add: list_all_iff serves_more)

lemma common_watched:
  assumes "c \<noteq> EC2NodeClassController" "c \<noteq> AzureNodeClassController"
  shows "set (watched_types c) \<subseteq> set common_types"
proof -
  have sub: "set ts \<subseteq> set common_types" if "ts \<in> set common_lists" for ts
    using that by (auto simp: common_types_def)
  have d: "set (default_types h) \<subseteq> set common_types" for h
  proof (cases h)
    case HCPEC2NodeClassProvider
    then show ?thesis by (intro sub) (simp add: common_lists_def)
  next
    case (HCPAzureNodeClassProvider v)
    then have "default_types h = default_types (HCPAzureNodeClassProvider [])" by (simp add: default_types_def)
    then show ?thesis by (intro sub) (simp add: common_lists_def)
  qed
  have "set (vap_types m) \<subseteq> set (vap_types True)" for m
    by (auto simp: vap_types_def)
  moreover have "set (vap_types True) \<subseteq> set common_types" by (rule sub) (simp add: common_lists_def)
  ultimately have v: "set (vap_types m) \<subseteq> set common_types" for m by (rule subset_trans)
  have "watched_types c \<in> set common_lists \<or> (\<exists>h. watched_types c = default_types h) \<or> (\<exists>m. watched_types c = vap_types m)"
    using assms by (cases c) (auto simp: common_lists_def)
  then show ?thesis using sub d v by metis
qed

lemma NewControllers_served:
  assumes "c \<in> set (NewControllers spec getenv cfg)" "t \<in> set (watched_types c)"
  shows "serves (watched_packages (Some (cfg_cloudProvider cfg))) t"
proof -
  have hp: "hcp_provider_NewControllers (HCPNodeClassProvider p) = (case p of
      AWSProvider q \<Rightarrow> [EC2NodeClassController, EC2SubnetController, NodeClassVAPController ''karpenter.ec2nodeclass.hypershift.io'' True]
    | AzureProvider q \<Rightarrow> [AzureNodeClassController, NodeClassVAPController ''karpenter.aksnodeclass.hypershift.io'' False])" for p
    by (cases p) simp_all
  have "c = EC2NodeClassController \<Longrightarrow> \<exists>q. cfg_cloudProvider cfg = AWSProvider q"
    and "c = AzureNodeClassController \<Longrightarrow> \<exists>q. cfg_cloudProvider cfg = AzureProvider q"
    using assms(1) by (cases "cfg_cloudProvider cfg";
      auto simp: NewControllers_def newHCPNodeClassProvider_def newMachineApproverController_def hp Let_def split: if_splits)+
  then show ?thesis
    using assms(2) common_served [of t] common_watched [of c] provider_types_served
    by (cases "c = EC2NodeClassController \<or> c = AzureNodeClassController") (auto simp: list_all_iff)
qed

definition started_for :: "runtime \<Rightarrow> cloud_provider \<Rightarrow> controller list \<Rightarrow> bool" where
  "started_for rt provider cs \<longleftrightarrow>
     (\<exists>cfg. cfg_cloudProvider cfg = provider \<and> cs = NewControllers (rt_crdSpec rt) (rt_getenv rt) cfg)"

lemma Run_starts:
  assumes run: "Run rt opts = Inr cs" and infra: "resolve_infrastructure rt opts = Inr infra"
    and supported: "isPlatformSupported (opt_managementCluster opts) (ii_platformType infra)"
  shows "\<exists>provider. GetCloudProvider (rt_getenv rt) (rt_loadDefaultConfig rt) infra = Inr provider \<and> started_for rt provider cs"
proof -
  have "started_for rt p (NewControllers (rt_crdSpec rt) (rt_getenv rt) (ResolveControllerConfig opts infra p))"
    and "started_for rt p (NewControllers (rt_crdSpec rt) (rt_getenv rt) (ResolveControllerConfig opts infra p\<lparr>cfg_hostedCluster := True\<rparr>))" for p
    unfolding started_for_def by (rule exI, rule conjI [rotated], rule refl, simp add: ResolveControllerConfig_def)+
  with run supported show ?thesis
    by (auto simp: Run_def bind_result_Inr_iff infra startManager_Inr Let_def split: if_splits)
qed

lemma Run_reports:
  assumes run: "Run rt opts = Inr cs" and infra: "resolve_infrastructure rt opts = Inr infra"
    and unsupported: "\<not> isPlatformSupported (opt_managementCluster opts) (ii_platformType infra)"
  shows "\<exists>o'. cs = [ClusterOperatorController o']"
  using run unsupported
  by (auto simp: Run_def bind_result_Inr_iff infra runClusterOperatorReporter_def startManager_Inr Let_def)



end
