(* ===== verification/Regex_Match.thy ===== *)
theory Regex_Match
  imports Prelude
begin

text \<open>
  Regular expressions as the validation patterns of the CRDs use them: an executable matcher by
  derivatives, shown to decide the language of the expression. A pattern between \<open>^\<close> and \<open>$\<close>
  matches the whole value; one without anchors matches a value that contains a match.
\<close>

section \<open>Expressions\<close>

text \<open>A class is a list of ranges of bytes.\<close>

datatype re = RNone | REps | RCls "(char \<times> char) list" | RSeq re re | RAlt re re | RStar re

definition in_range :: "char \<Rightarrow> char \<times> char \<Rightarrow> bool" where
  "in_range c r \<longleftrightarrow> of_char (fst r) \<le> (of_char c :: nat) \<and> (of_char c :: nat) \<le> of_char (snd r)"

definition in_class :: "char \<Rightarrow> (char \<times> char) list \<Rightarrow> bool" where
  "in_class c rs = list_ex (in_range c) rs"

definition star_lang :: "string set \<Rightarrow> string set" where
  "star_lang L = {concat ws | ws. set ws \<subseteq> L}"

fun lang :: "re \<Rightarrow> string set" where
  "lang RNone = {}"
| "lang REps = {[]}"
| "lang (RCls rs) = {[c] | c. in_class c rs}"
| "lang (RSeq r s) = {u @ v | u v. u \<in> lang r \<and> v \<in> lang s}"
| "lang (RAlt r s) = lang r \<union> lang s"
| "lang (RStar r) = star_lang (lang r)"

section \<open>The matcher\<close>

fun nullable :: "re \<Rightarrow> bool" where
  "nullable RNone = False"
| "nullable REps = True"
| "nullable (RCls rs) = False"
| "nullable (RSeq r s) = (nullable r \<and> nullable s)"
| "nullable (RAlt r s) = (nullable r \<or> nullable s)"
| "nullable (RStar r) = True"

text \<open>Sequence and choice without the parts that cannot match keep the derivatives small.\<close>

fun seq :: "re \<Rightarrow> re \<Rightarrow> re" where
  "seq RNone s = RNone"
| "seq REps s = s"
| "seq r s = RSeq r s"

fun alt :: "re \<Rightarrow> re \<Rightarrow> re" where
  "alt RNone s = s"
| "alt r RNone = r"
| "alt r s = RAlt r s"

fun deriv :: "char \<Rightarrow> re \<Rightarrow> re" where
  "deriv c RNone = RNone"
| "deriv c REps = RNone"
| "deriv c (RCls rs) = (if in_class c rs then REps else RNone)"
| "deriv c (RSeq r s) = (if nullable r then alt (seq (deriv c r) s) (deriv c s) else seq (deriv c r) s)"
| "deriv c (RAlt r s) = alt (deriv c r) (deriv c s)"
| "deriv c (RStar r) = seq (deriv c r) (RStar r)"

fun matches :: "re \<Rightarrow> string \<Rightarrow> bool" where
  "matches r [] = nullable r"
| "matches r (c # s) = matches (deriv c r) s"

section \<open>The matcher decides the language\<close>

lemma star_Nil [simp]: "[] \<in> star_lang L"
  unfolding star_lang_def by (auto intro: exI [of _ "[]"])

lemma star_append: "u \<in> L \<Longrightarrow> v \<in> star_lang L \<Longrightarrow> u @ v \<in> star_lang L"
  unfolding star_lang_def
proof clarsimp
  fix ws assume "u \<in> L" "set ws \<subseteq> L"
  then show "\<exists>ws'. u @ concat ws = concat ws' \<and> set ws' \<subseteq> L"
    by (intro exI [of _ "u # ws"]) simp
qed

lemma star_Cons_iff: "c # s \<in> star_lang L \<longleftrightarrow> (\<exists>u v. s = u @ v \<and> c # u \<in> L \<and> v \<in> star_lang L)"
proof
  assume "c # s \<in> star_lang L"
  then obtain ws where "c # s = concat ws" "set ws \<subseteq> L" by (auto simp: star_lang_def)
  then show "\<exists>u v. s = u @ v \<and> c # u \<in> L \<and> v \<in> star_lang L"
  proof (induction ws)
    case (Cons w ws)
    then show ?case by (cases w) (auto simp: star_lang_def)
  qed simp
next
  assume "\<exists>u v. s = u @ v \<and> c # u \<in> L \<and> v \<in> star_lang L"
  then show "c # s \<in> star_lang L" using star_append [of "c # _" L] by fastforce
qed

lemma lang_seq [simp]: "lang (seq r s) = lang (RSeq r s)"
  by (cases r) auto

lemma lang_alt [simp]: "lang (alt r s) = lang (RAlt r s)"
  by (cases r; cases s) auto

lemma nullable_lang: "nullable r \<longleftrightarrow> [] \<in> lang r"
  by (induction r) auto

lemma deriv_lang: "s \<in> lang (deriv c r) \<longleftrightarrow> c # s \<in> lang r"
proof (induction r arbitrary: s)
  case (RSeq r1 r2)
  then show ?case
    by (auto simp: nullable_lang Cons_eq_append_conv)
next
  case (RStar r)
  then show ?case by (auto simp: star_Cons_iff)
qed auto

theorem matches_lang: "matches r s \<longleftrightarrow> s \<in> lang r"
  by (induction s arbitrary: r) (simp_all add: nullable_lang deriv_lang)

section \<open>Derived forms\<close>

definition lit :: "string \<Rightarrow> re" where
  "lit s = foldr (\<lambda>c r. RSeq (RCls [(c, c)]) r) s REps"

definition opt :: "re \<Rightarrow> re" where
  "opt r = RAlt r REps"

definition plus1 :: "re \<Rightarrow> re" where
  "plus1 r = RSeq r (RStar r)"

text \<open>\<open>r{n}\<close> and \<open>r{0,n}\<close>\<close>

fun times :: "nat \<Rightarrow> re \<Rightarrow> re" where
  "times 0 r = REps"
| "times (Suc n) r = RSeq r (times n r)"

fun upto_times :: "nat \<Rightarrow> re \<Rightarrow> re" where
  "upto_times 0 r = REps"
| "upto_times (Suc n) r = opt (RSeq r (upto_times n r))"

definition seqs :: "re list \<Rightarrow> re" where
  "seqs rs = foldr RSeq rs REps"

definition alts :: "re list \<Rightarrow> re" where
  "alts rs = foldr RAlt rs RNone"

definition digit :: re where
  "digit = RCls [(CHR ''0'', CHR ''9'')]"

definition between :: "char \<Rightarrow> char \<Rightarrow> re" where
  "between a b = RCls [(a, b)]"

definition any_byte :: re where
  "any_byte = RCls [(CHR 0x00, CHR 0xFF)]"

text \<open>A match somewhere in the value.\<close>

definition contains :: "re \<Rightarrow> string \<Rightarrow> bool" where
  "contains r s = matches (RSeq (RStar any_byte) (RSeq r (RStar any_byte))) s"

lemma in_class_any [simp]: "in_class c [(CHR 0x00, CHR 0xFF)]"
proof -
  have "(of_char c :: nat) \<le> 255" using nat_of_char_less_256 [of c] by linarith
  then show ?thesis by (simp add: in_class_def in_range_def)
qed

lemma star_any: "s \<in> star_lang {[c] | c. True}"
  by (induction s) (auto simp: star_Cons_iff)

theorem contains_iff: "contains r s \<longleftrightarrow> (\<exists>u v w. s = u @ v @ w \<and> v \<in> lang r)"
proof -
  have any: "lang (RStar any_byte) = UNIV"
    using star_any by (auto simp: any_byte_def)
  have "lang (RSeq (RStar any_byte) (RSeq r (RStar any_byte))) = {u @ v @ w | u v w. v \<in> lang r}"
    unfolding lang.simps(4) any by blast
  then show ?thesis by (simp add: contains_def matches_lang)
qed

lemma contains_match: "matches r s \<Longrightarrow> contains r s"
  unfolding contains_iff matches_lang by (rule exI [of _ "[]"], rule exI [of _ s], rule exI [of _ "[]"]) simp

section \<open>Languages of the derived forms\<close>

lemma in_class_single [simp]: "in_class c [(d, d)] \<longleftrightarrow> c = d"
  unfolding in_class_def in_range_def
  by simp (metis of_char_eq_iff order_antisym order_refl)

lemma lang_lit [simp]: "lang (lit s) = {s}"
proof (induction s)
  case (Cons c s)
  have "lit (c # s) = RSeq (RCls [(c, c)]) (lit s)" by (simp add: lit_def)
  with Cons show ?case by simp
qed (simp add: lit_def)

lemma lang_RSeq_cls: "s \<in> lang (RSeq (RCls rs) r) \<longleftrightarrow> (\<exists>c t. s = c # t \<and> in_class c rs \<and> t \<in> lang r)"
  by (auto intro: exI [of _ "[_]"])

lemma lang_RSeq_lit: "s \<in> lang (RSeq (lit x) r) \<longleftrightarrow> (\<exists>t. s = x @ t \<and> t \<in> lang r)"
  by auto

lemma lang_RSeq_REps: "s \<in> lang (RSeq r REps) \<longleftrightarrow> s \<in> lang r"
  by auto

lemmas lang_RSeq = lang_RSeq_cls lang_RSeq_lit lang_RSeq_REps

abbreviation digits :: "string \<Rightarrow> bool" where
  "digits s \<equiv> list_all (\<lambda>d. in_class d [(CHR ''0'', CHR ''9'')]) s"

text \<open>Repetitions of a class.\<close>

abbreviation all_in :: "(char \<times> char) list \<Rightarrow> string \<Rightarrow> bool" where
  "all_in rs s \<equiv> list_all (\<lambda>c. in_class c rs) s"

lemma lang_times_cls [simp]: "s \<in> lang (times k (RCls rs)) \<longleftrightarrow> length s = k \<and> all_in rs s"
proof (induction k arbitrary: s)
  case (Suc k)
  then show ?case by (cases s) (auto simp: lang_RSeq_cls simp del: lang.simps(4))
qed auto

lemma lang_upto_cls [simp]: "s \<in> lang (upto_times k (RCls rs)) \<longleftrightarrow> length s \<le> k \<and> all_in rs s"
proof (induction k arbitrary: s)
  case (Suc k)
  then show ?case by (cases s) (auto simp: opt_def lang_RSeq_cls simp del: lang.simps(4))
qed auto

lemma star_cls [simp]: "s \<in> star_lang {[c] | c. in_class c rs} \<longleftrightarrow> all_in rs s"
  by (induction s) (auto simp: star_Cons_iff)

lemma lang_plus_cls [simp]: "s \<in> lang (plus1 (RCls rs)) \<longleftrightarrow> s \<noteq> [] \<and> all_in rs s"
  by (cases s) (auto simp: plus1_def lang_RSeq_cls simp del: lang.simps(4))

lemma lang_times_digit [simp]: "s \<in> lang (times k digit) \<longleftrightarrow> length s = k \<and> digits s"
  by (simp add: digit_def)

lemma lang_upto_digit [simp]: "s \<in> lang (upto_times k digit) \<longleftrightarrow> length s \<le> k \<and> digits s"
  by (simp add: digit_def)

text \<open>A match of one byte.\<close>

lemma contains_cls: "contains (RCls rs) s \<longleftrightarrow> (\<exists>c\<in>set s. in_class c rs)"
proof
  assume "contains (RCls rs) s"
  then show "\<exists>c\<in>set s. in_class c rs" unfolding contains_iff by auto
next
  assume "\<exists>c\<in>set s. in_class c rs"
  then obtain c where "c \<in> set s" "in_class c rs" by blast
  moreover from this(1) obtain u w where "s = u @ c # w" by (auto simp: in_set_conv_decomp)
  ultimately show "contains (RCls rs) s"
    unfolding contains_iff by (intro exI [of _ u] exI [of _ "[c]"] exI [of _ w]) simp
qed

lemma in_class_singles: "in_class c (map (\<lambda>d. (d, d)) ds) \<longleftrightarrow> c \<in> set ds"
  using in_class_single [of c] by (induction ds) (auto simp: in_class_def)

end
