(* ===== verification/Ec2_Schema.thy ===== *)
theory Ec2_Schema
  imports Ec2_Spec Regex_Match
begin

text \<open>
  What the API server admits: the validation of the OpenshiftEC2NodeClass (the markers of
  \<open>api/karpenter/v1\<close>, generated into the CRD below \<open>pkg/assets/hypershift\<close>) and of the EC2NodeClass (the
  CRD below \<open>pkg/assets/aws\<close>), as predicates over the decoded specs, and which admitted
  OpenshiftEC2NodeClasses are translated to an EC2NodeClass that is admitted too.

  A decoded field is present when it has not its zero value, as the encoding omits it otherwise; a
  minimum of 1 or a minimal length keeps zero values out of stored objects. Lengths count bytes. The
  numeric functions of CEL are parameters.
\<close>

section \<open>Patterns\<close>

definition lower_alnum :: re where
  "lower_alnum = RCls [(CHR ''0'', CHR ''9''), (CHR ''a'', CHR ''z'')]"

text \<open>\<open>subnet-[0-9a-z]+\<close> and the like\<close>

definition id_re :: "string \<Rightarrow> re" where
  "id_re prefix = RSeq (lit prefix) (plus1 lower_alnum)"

definition owner_re :: re where
  "owner_re = times 12 digit"

text \<open>\<open>([0-9]+(\.[0-9]*)?)|(\.[0-9]+)\<close>\<close>

definition decimal_re :: re where
  "decimal_re =
     RAlt (RSeq (plus1 digit) (opt (RSeq (lit ''.'') (RStar digit)))) (RSeq (lit ''.'') (plus1 digit))"

definition sign_re :: re where
  "sign_re = RAlt (lit ''+'') (lit ''-'')"

definition one_of :: "string \<Rightarrow> re" where
  "one_of cs = RCls (map (\<lambda>c. (c, c)) cs)"

definition quantity_re :: re where
  "quantity_re =
     seqs [opt sign_re, decimal_re,
           opt (alts [RSeq (one_of ''KMGTPE'') (lit ''i''), one_of ''numkMGTPE'', seqs [one_of ''eE'', opt sign_re, decimal_re]])]"

definition percent_re :: re where
  "percent_re =
     RSeq (RAlt (seqs [digit, opt digit, opt (seqs [lit ''.'', digit, opt digit])])
                (seqs [lit ''100'', opt (seqs [lit ''.'', lit ''0'', opt (lit ''0'')])])) (lit ''%'')"

definition eviction_re :: re where
  "eviction_re = alts [percent_re, REps, quantity_re]"

text \<open>The pattern of \<open>volumeSize\<close>, with its empty alternatives.\<close>

definition gi_re :: re where
  "gi_re = alts [RSeq (between (CHR ''1'') (CHR ''9'')) (upto_times 3 digit),
     RSeq (between (CHR ''1'') (CHR ''4'')) (times 4 digit),
     seqs [lit ''5'', between (CHR ''0'') (CHR ''8''), times 3 digit],
     lit ''59000'']"

definition g_re :: re where
  "g_re = alts [RSeq (between (CHR ''1'') (CHR ''9'')) (upto_times 3 digit),
     RSeq (between (CHR ''1'') (CHR ''5'')) (times 4 digit),
     seqs [lit ''6'', between (CHR ''0'') (CHR ''3''), times 3 digit],
     lit ''64000'']"

definition ti_re :: re where
  "ti_re = alts [between (CHR ''1'') (CHR ''9''), REps,
     RSeq (between (CHR ''1'') (CHR ''5'')) (between (CHR ''0'') (CHR ''7'')), lit ''58'']"

definition t_re :: re where
  "t_re = alts [between (CHR ''1'') (CHR ''9''), REps, RSeq (between (CHR ''1'') (CHR ''5'')) digit,
     RSeq (lit ''6'') (between (CHR ''0'') (CHR ''3'')), lit ''64'']"

definition volume_re :: re where
  "volume_re = alts [RSeq gi_re (lit ''Gi''), RSeq g_re (lit ''G''), RSeq ti_re (lit ''Ti''), RSeq t_re (lit ''T'')]"

text \<open>The pattern of \<open>version\<close>, a semantic version.\<close>

definition number_re :: re where
  "number_re = RAlt (lit ''0'') (RSeq (between (CHR ''1'') (CHR ''9'')) (RStar digit))"

definition ident_char :: re where
  "ident_char = RCls [(CHR ''0'', CHR ''9''), (CHR ''a'', CHR ''z''), (CHR ''A'', CHR ''Z''), (CHR ''-'', CHR ''-'')]"

definition prerelease_re :: re where
  "prerelease_re =
     RAlt number_re (seqs [RStar digit, RCls [(CHR ''a'', CHR ''z''), (CHR ''A'', CHR ''Z''), (CHR ''-'', CHR ''-'')], RStar ident_char])"

definition version_re :: re where
  "version_re =
     seqs [number_re, lit ''.'', number_re, lit ''.'', number_re,
       opt (seqs [lit ''-'', prerelease_re, RStar (RSeq (lit ''.'') prerelease_re)]),
       opt (seqs [lit ''+'', plus1 ident_char, RStar (RSeq (lit ''.'') (plus1 ident_char))])]"

section \<open>OpenshiftEC2NodeClass\<close>

text \<open>Enumerations; an absent value is empty.\<close>

definition IPAddressAssociation_enum :: "string list" where
  "IPAddressAssociation_enum = [IPAddressAssociationPublic, IPAddressAssociationSubnetDefault]"

definition MonitoringState_enum :: "string list" where
  "MonitoringState_enum = [MonitoringStateDetailed, MonitoringStateBasic]"

definition RootVolumeDesignationNotRootVolume :: string where
  "RootVolumeDesignationNotRootVolume = ''NotRootVolume''"

definition RootVolumeDesignation_enum :: "string list" where
  "RootVolumeDesignation_enum = [RootVolumeDesignationRootVolume, RootVolumeDesignationNotRootVolume]"

definition DeleteOnTerminationPolicy_enum :: "string list" where
  "DeleteOnTerminationPolicy_enum = [DeleteOnTerminationPolicyDelete, DeleteOnTerminationPolicyRetain]"

definition EncryptionState_enum :: "string list" where
  "EncryptionState_enum = [EncryptionStateEncrypted, EncryptionStateUnencrypted]"

definition VolumeType_enum :: "string list" where
  "VolumeType_enum = [''Standard'', ''IO1'', ''IO2'', ''GP2'', ''SC1'', ''ST1'', ''GP3'']"

definition InstanceStorePolicy_enum :: "string list" where
  "InstanceStorePolicy_enum = [''RAID0'']"

definition InstanceMatchCriteria_enum :: "string list" where
  "InstanceMatchCriteria_enum = [InstanceMatchCriteriaOpen, InstanceMatchCriteriaTargeted]"

definition MetadataAccess_enum :: "string list" where
  "MetadataAccess_enum = [MetadataAccessHTTPEndpoint, MetadataAccessNone]"

definition MetadataHTTPProtocol_enum :: "string list" where
  "MetadataHTTPProtocol_enum = [MetadataHTTPProtocolIPv4, MetadataHTTPProtocolIPv6]"

definition MetadataHTTPTokensState_enum :: "string list" where
  "MetadataHTTPTokensState_enum = [MetadataHTTPTokensStateRequired, MetadataHTTPTokensStateOptional]"

definition enum_ok :: "string list \<Rightarrow> string \<Rightarrow> bool" where
  "enum_ok vals s \<longleftrightarrow> s = [] \<or> s \<in> set vals"

definition len_ok :: "nat \<Rightarrow> string \<Rightarrow> bool" where
  "len_ok n s \<longleftrightarrow> length s \<le> n"

definition has_map :: "smap \<Rightarrow> bool" where
  "has_map m \<longleftrightarrow> m \<noteq> None \<and> m \<noteq> Some fmempty"

text \<open>The rules on a map, for a map that is present; \<open>present\<close> is \<open>minProperties: 1\<close>.\<close>

definition map_all :: "(string \<Rightarrow> string \<Rightarrow> bool) \<Rightarrow> smap \<Rightarrow> bool" where
  "map_all p m = (case m of None \<Rightarrow> True | Some f \<Rightarrow> fmpred p f)"

definition min_properties :: "smap \<Rightarrow> bool" where
  "min_properties m \<longleftrightarrow> m \<noteq> Some fmempty"

definition selector_tags_ok :: "smap \<Rightarrow> bool" where
  "selector_tags_ok m \<longleftrightarrow> sm_len m \<le> 20 \<and> map_all (\<lambda>k v. k \<noteq> [] \<and> v \<noteq> []) m"

definition SubnetSelectorTerm_valid :: "subnet_selector_term \<Rightarrow> bool" where
  "SubnetSelectorTerm_valid t \<longleftrightarrow>
     selector_tags_ok (sst_tags t) \<and> min_properties (sst_tags t) \<and>
     len_ok 256 (sst_id t) \<and> (sst_id t \<noteq> [] \<longrightarrow> matches (id_re ''subnet-'') (sst_id t))"

definition SecurityGroupSelectorTerm_valid :: "security_group_selector_term \<Rightarrow> bool" where
  "SecurityGroupSelectorTerm_valid t \<longleftrightarrow>
     selector_tags_ok (sgst_tags t) \<and> min_properties (sgst_tags t) \<and>
     len_ok 256 (sgst_id t) \<and> (sgst_id t \<noteq> [] \<longrightarrow> matches (id_re ''sg-'') (sgst_id t)) \<and> len_ok 256 (sgst_name t)"

definition CapacityReservationSelectorTerm_valid :: "capacity_reservation_selector_term \<Rightarrow> bool" where
  "CapacityReservationSelectorTerm_valid t \<longleftrightarrow>
     selector_tags_ok (crst_tags t) \<and> min_properties (crst_tags t) \<and>
     len_ok 256 (crst_id t) \<and> (crst_id t \<noteq> [] \<longrightarrow> matches (id_re ''cr-'') (crst_id t)) \<and>
     len_ok 12 (crst_ownerID t) \<and> (crst_ownerID t \<noteq> [] \<longrightarrow> matches owner_re (crst_ownerID t)) \<and>
     enum_ok InstanceMatchCriteria_enum (crst_instanceMatchCriteria t)"

definition BlockDevice_valid :: "block_device \<Rightarrow> bool" where
  "BlockDevice_valid b \<longleftrightarrow>
     enum_ok DeleteOnTerminationPolicy_enum (bd_deleteOnTermination b) \<and> enum_ok EncryptionState_enum (bd_encrypted b) \<and>
     len_ok 2048 (bd_kmsKeyID b) \<and> len_ok 256 (bd_snapshotID b) \<and>
     (bd_volumeSizeGiB b \<noteq> 0 \<longrightarrow> 1 \<le> sint (bd_volumeSizeGiB b) \<and> sint (bd_volumeSizeGiB b) \<le> 65536) \<and>
     enum_ok VolumeType_enum (bd_volumeType b) \<and>
     (bd_snapshotID b \<noteq> [] \<or> bd_volumeSizeGiB b \<noteq> 0)"

definition BlockDeviceMapping_valid :: "block_device_mapping \<Rightarrow> bool" where
  "BlockDeviceMapping_valid m \<longleftrightarrow>
     len_ok 256 (bdm_deviceName m) \<and> BlockDevice_valid (bdm_ebs m) \<and> enum_ok RootVolumeDesignation_enum (bdm_rootVolume m)"

definition MetadataOptions_valid :: "metadata_options \<Rightarrow> bool" where
  "MetadataOptions_valid m \<longleftrightarrow>
     enum_ok MetadataAccess_enum (mo_access m) \<and> enum_ok MetadataHTTPProtocol_enum (mo_httpIPProtocol m) \<and>
     (mo_httpPutResponseHopLimit m \<noteq> 0 \<longrightarrow> 1 \<le> sint (mo_httpPutResponseHopLimit m) \<and> sint (mo_httpPutResponseHopLimit m) \<le> 64) \<and>
     enum_ok MetadataHTTPTokensState_enum (mo_httpTokens m)"

definition eviction_signals :: "string list" where
  "eviction_signals = [''memory.available'', ''nodefs.available'', ''nodefs.inodesFree'', ''imagefs.available'',
     ''imagefs.inodesFree'', ''pid.available'']"

definition reserved_resources :: "string list" where
  "reserved_resources = [''cpu'', ''memory'', ''ephemeral-storage'', ''pid'']"

definition reserved_valid :: "smap \<Rightarrow> bool" where
  "reserved_valid m \<longleftrightarrow>
     min_properties m \<and> sm_len m \<le> 20 \<and>
     map_all (\<lambda>k v. k \<in> set reserved_resources \<and> \<not> has_prefix v ''-'' \<and> v \<noteq> []) m"

definition EvictionThreshold_valid :: "string \<Rightarrow> bool" where
  "EvictionThreshold_valid v \<longleftrightarrow> len_ok 64 v"

definition eviction_valid :: "smap \<Rightarrow> bool" where
  "eviction_valid m \<longleftrightarrow>
     min_properties m \<and> sm_len m \<le> 20 \<and> map_all (\<lambda>k v. k \<in> set eviction_signals \<and> v \<noteq> [] \<and> EvictionThreshold_valid v) m"

definition percent_ok :: "int32 option \<Rightarrow> bool" where
  "percent_ok p = (case p of None \<Rightarrow> True | Some v \<Rightarrow> 0 \<le> sint v \<and> sint v \<le> 100)"

definition pods_ok :: "int32 \<Rightarrow> bool" where
  "pods_ok v \<longleftrightarrow> v = 0 \<or> 1 \<le> sint v \<and> sint v \<le> 2500"

text \<open>The numeric functions of CEL, each false where its evaluation fails.\<close>

record cel_numbers =
  cel_double_ge :: "string \<Rightarrow> string \<Rightarrow> bool"
  cel_isQuantity :: "string \<Rightarrow> bool"
  cel_quantity_ge :: "string \<Rightarrow> string \<Rightarrow> bool"

definition soft_before_hard :: "cel_numbers \<Rightarrow> smap \<Rightarrow> smap \<Rightarrow> bool" where
  "soft_before_hard cel hard soft \<longleftrightarrow>
     map_all (\<lambda>key h. case sm_lookup soft key of
         None \<Rightarrow> True
       | Some s \<Rightarrow>
           if has_suffix s ''%'' \<and> has_suffix h ''%'' then
             length s \<le> 1 \<or> length h \<le> 1 \<or> cel_double_ge cel (butlast s) (butlast h)
           else \<not> (cel_isQuantity cel s \<and> cel_isQuantity cel h) \<or> cel_quantity_ge cel s h) hard"

definition KubeletConfiguration_valid :: "cel_numbers \<Rightarrow> kubelet_configuration \<Rightarrow> bool" where
  "KubeletConfiguration_valid cel k \<longleftrightarrow>
     pods_ok (kc_maxPods k) \<and> pods_ok (kc_podsPerCore k) \<and>
     reserved_valid (kc_systemReserved k) \<and> reserved_valid (kc_kubeReserved k) \<and>
     eviction_valid (kc_evictionHard k) \<and> eviction_valid (kc_evictionSoft k) \<and>
     min_properties (kc_evictionSoftGracePeriod k) \<and> sm_len (kc_evictionSoftGracePeriod k) \<le> 20 \<and>
     map_all (\<lambda>key _. key \<in> set eviction_signals) (kc_evictionSoftGracePeriod k) \<and>
     percent_ok (kc_imageGCHighThresholdPercent k) \<and> percent_ok (kc_imageGCLowThresholdPercent k) \<and>
     (case (kc_imageGCHighThresholdPercent k, kc_imageGCLowThresholdPercent k) of
        (Some high, Some low) \<Rightarrow> sint high > sint low | _ \<Rightarrow> True) \<and>
     (kc_podsPerCore k = 0 \<or> kc_maxPods k = 0 \<or> sint (kc_podsPerCore k) \<le> sint (kc_maxPods k)) \<and>
     (has_map (kc_evictionSoft k) \<longrightarrow>
        has_map (kc_evictionSoftGracePeriod k) \<and>
        map_all (\<lambda>e _. sm_lookup (kc_evictionSoftGracePeriod k) e \<noteq> None) (kc_evictionSoft k)) \<and>
     (has_map (kc_evictionSoftGracePeriod k) \<longrightarrow>
        has_map (kc_evictionSoft k) \<and>
        map_all (\<lambda>e _. sm_lookup (kc_evictionSoft k) e \<noteq> None) (kc_evictionSoftGracePeriod k)) \<and>
     soft_before_hard cel (kc_evictionHard k) (kc_evictionSoft k)"

definition restricted_by_rule :: "string \<Rightarrow> bool" where
  "restricted_by_rule k \<longleftrightarrow>
     k = [] \<or> k = ''eks:eks-cluster-name'' \<or> has_prefix k ''kubernetes.io/cluster'' \<or> k = ''karpenter.sh/nodepool'' \<or>
     k = ''karpenter.sh/nodeclaim'' \<or> k = ''karpenter.k8s.aws/ec2nodeclass''"

text \<open>The rules on lists of terms, with the types' presence tests.\<close>

definition terms_rule :: "nat \<Rightarrow> ('t \<Rightarrow> bool) \<Rightarrow> ('t \<Rightarrow> bool) list \<Rightarrow> ('t \<Rightarrow> bool) \<Rightarrow> 't list \<Rightarrow> bool" where
  "terms_rule n has_one exclusive item ts \<longleftrightarrow>
     ts \<noteq> [] \<and> length ts \<le> n \<and> list_all has_one ts \<and> list_all (\<lambda>x. \<not> list_all x ts) exclusive \<and> list_all item ts"

definition subnet_terms_rule :: "(subnet_selector_term \<Rightarrow> bool) \<Rightarrow> subnet_selector_term list \<Rightarrow> bool" where
  "subnet_terms_rule =
     terms_rule 30 (\<lambda>x. has_map (sst_tags x) \<or> sst_id x \<noteq> []) [\<lambda>x. sst_id x \<noteq> [] \<and> has_map (sst_tags x)]"

definition sg_terms_rule :: "(security_group_selector_term \<Rightarrow> bool) \<Rightarrow> security_group_selector_term list \<Rightarrow> bool" where
  "sg_terms_rule =
     terms_rule 30 (\<lambda>x. has_map (sgst_tags x) \<or> sgst_id x \<noteq> [] \<or> sgst_name x \<noteq> [])
       [\<lambda>x. sgst_id x \<noteq> [] \<and> (has_map (sgst_tags x) \<or> sgst_name x \<noteq> []),
        \<lambda>x. sgst_name x \<noteq> [] \<and> (has_map (sgst_tags x) \<or> sgst_id x \<noteq> [])]"

definition cr_exclusive :: "capacity_reservation_selector_term \<Rightarrow> bool" where
  "cr_exclusive x \<longleftrightarrow> crst_id x \<noteq> [] \<and> (has_map (crst_tags x) \<or> crst_ownerID x \<noteq> [] \<or> crst_instanceMatchCriteria x \<noteq> [])"

definition optional :: "('a \<Rightarrow> bool) \<Rightarrow> 'a option \<Rightarrow> bool" where
  "optional p x = (case x of None \<Rightarrow> True | Some a \<Rightarrow> p a)"

definition OpenshiftEC2NodeClassSpec_valid :: "cel_numbers \<Rightarrow> openshift_ec2_spec \<Rightarrow> bool" where
  "OpenshiftEC2NodeClassSpec_valid cel s \<longleftrightarrow>
     s \<noteq> zero_openshift_ec2_spec \<and>
     optional (subnet_terms_rule SubnetSelectorTerm_valid) (os_subnetSelectorTerms s) \<and>
     optional (sg_terms_rule SecurityGroupSelectorTerm_valid) (os_securityGroupSelectorTerms s) \<and>
     optional (terms_rule 30
         (\<lambda>x. has_map (crst_tags x) \<or> crst_id x \<noteq> [] \<or> crst_ownerID x \<noteq> [] \<or> crst_instanceMatchCriteria x \<noteq> [])
         [cr_exclusive] CapacityReservationSelectorTerm_valid) (os_capacityReservationSelectorTerms s) \<and>
     enum_ok IPAddressAssociation_enum (os_ipAddressAssociation s) \<and>
     min_properties (os_tags s) \<and> map_all (\<lambda>k _. \<not> restricted_by_rule k) (os_tags s) \<and>
     optional (\<lambda>ms. ms \<noteq> [] \<and> length ms \<le> 50 \<and>
         length (filter (\<lambda>m. bdm_rootVolume m = RootVolumeDesignationRootVolume) ms) \<le> 1 \<and> list_all BlockDeviceMapping_valid ms)
       (os_blockDeviceMappings s) \<and>
     enum_ok InstanceStorePolicy_enum (os_instanceStorePolicy s) \<and>
     enum_ok MonitoringState_enum (os_monitoring s) \<and>
     MetadataOptions_valid (os_metadataOptions s) \<and>
     (os_version s \<noteq> [] \<longrightarrow> 5 \<le> length (os_version s) \<and> len_ok 64 (os_version s) \<and> matches version_re (os_version s)) \<and>
     KubeletConfiguration_valid cel (os_kubelet s)"

section \<open>EC2NodeClass\<close>

text \<open>
  The encoding of a binary quantity of a kilobyte or more: it loses its factors of 1024 and takes the
  suffix of what is left. A parsed quantity keeps its text instead, but only where that is this text.
\<close>

fun removeInt64Factors :: "nat \<Rightarrow> nat \<times> nat" where
  "removeInt64Factors v =
     (if 1024 \<le> v \<and> v mod 1024 = 0 then
        case removeInt64Factors (v div 1024) of (result, n) \<Rightarrow> (result, Suc n)
      else (v, 0))"

declare removeInt64Factors.simps [simp del]

definition binary_suffixes :: "string list" where
  "binary_suffixes = ['''', ''Ki'', ''Mi'', ''Gi'', ''Ti'', ''Pi'', ''Ei'']"

definition CanonicalizeBytes :: "quantity \<Rightarrow> string" where
  "CanonicalizeBytes q = (case removeInt64Factors (nat (q div nano)) of (number, n) \<Rightarrow> show_nat number @ binary_suffixes ! n)"

definition ec2_id_ok :: "string \<Rightarrow> string \<Rightarrow> bool" where
  "ec2_id_ok prefix i \<longleftrightarrow> i \<noteq> [] \<longrightarrow> contains (id_re prefix) i"

definition ec2_SubnetSelectorTerm_valid :: "subnet_selector_term \<Rightarrow> bool" where
  "ec2_SubnetSelectorTerm_valid t \<longleftrightarrow> selector_tags_ok (sst_tags t) \<and> ec2_id_ok ''subnet-'' (sst_id t)"

definition ec2_SecurityGroupSelectorTerm_valid :: "security_group_selector_term \<Rightarrow> bool" where
  "ec2_SecurityGroupSelectorTerm_valid t \<longleftrightarrow> selector_tags_ok (sgst_tags t) \<and> ec2_id_ok ''sg-'' (sgst_id t)"

definition ec2_CapacityReservationSelectorTerm_valid :: "capacity_reservation_selector_term \<Rightarrow> bool" where
  "ec2_CapacityReservationSelectorTerm_valid t \<longleftrightarrow>
     selector_tags_ok (crst_tags t) \<and>
     (crst_id t \<noteq> [] \<longrightarrow> matches (id_re ''cr-'') (crst_id t)) \<and>
     (crst_ownerID t \<noteq> [] \<longrightarrow> matches owner_re (crst_ownerID t)) \<and>
     enum_ok [''open'', ''targeted''] (crst_instanceMatchCriteria t)"

definition ec2_BlockDevice_valid :: "ec2_block_device \<Rightarrow> bool" where
  "ec2_BlockDevice_valid b \<longleftrightarrow>
     optional (\<lambda>q. matches volume_re (CanonicalizeBytes q)) (eb_volumeSize b) \<and>
     optional (\<lambda>t. t \<in> {''standard'', ''io1'', ''io2'', ''gp2'', ''sc1'', ''st1'', ''gp3''}) (eb_volumeType b) \<and>
     (eb_snapshotID b \<noteq> None \<or> eb_volumeSize b \<noteq> None)"

definition ec2_MetadataOptions_valid :: "ec2_metadata_options \<Rightarrow> bool" where
  "ec2_MetadataOptions_valid m \<longleftrightarrow>
     optional (\<lambda>v. v \<in> {''enabled'', ''disabled''}) (eo_httpEndpoint m) \<and>
     optional (\<lambda>v. v \<in> {''enabled'', ''disabled''}) (eo_httpProtocolIPv6 m) \<and>
     optional (\<lambda>v. 1 \<le> sint v \<and> sint v \<le> 64) (eo_httpPutResponseHopLimit m) \<and>
     optional (\<lambda>v. v \<in> {''required'', ''optional''}) (eo_httpTokens m)"

definition ec2_reserved_valid :: "smap \<Rightarrow> bool" where
  "ec2_reserved_valid m \<longleftrightarrow>
     map_all (\<lambda>k v. matches quantity_re v \<and> k \<in> set reserved_resources \<and> \<not> has_prefix v ''-'') m"

definition ec2_eviction_valid :: "smap \<Rightarrow> bool" where
  "ec2_eviction_valid m \<longleftrightarrow> map_all (\<lambda>k v. matches eviction_re v \<and> k \<in> set eviction_signals) m"

text \<open>An empty map is omitted; reading an absent map is an error, and the rule fails.\<close>

definition ec2_KubeletConfiguration_valid :: "ec2_kubelet_configuration \<Rightarrow> bool" where
  "ec2_KubeletConfiguration_valid k \<longleftrightarrow>
     optional (\<lambda>v. 0 \<le> sint v) (ek_maxPods k) \<and> optional (\<lambda>v. 0 \<le> sint v) (ek_podsPerCore k) \<and>
     ec2_reserved_valid (ek_systemReserved k) \<and> ec2_reserved_valid (ek_kubeReserved k) \<and>
     ec2_eviction_valid (ek_evictionHard k) \<and> ec2_eviction_valid (ek_evictionSoft k) \<and>
     optional (fmpred (\<lambda>key _. key \<in> set eviction_signals)) (ek_evictionSoftGracePeriod k) \<and>
     percent_ok (ek_imageGCHighThresholdPercent k) \<and> percent_ok (ek_imageGCLowThresholdPercent k) \<and>
     (case (ek_imageGCHighThresholdPercent k, ek_imageGCLowThresholdPercent k) of
        (Some high, Some low) \<Rightarrow> sint high > sint low | _ \<Rightarrow> True) \<and>
     (has_map (ek_evictionSoft k) \<longrightarrow>
        (case ek_evictionSoftGracePeriod k of
           None \<Rightarrow> False
         | Some g \<Rightarrow> g \<noteq> fmempty \<and> map_all (\<lambda>e _. fmlookup g e \<noteq> None) (ek_evictionSoft k))) \<and>
     optional (\<lambda>g. g \<noteq> fmempty \<longrightarrow>
         has_map (ek_evictionSoft k) \<and> fmpred (\<lambda>e _. sm_lookup (ek_evictionSoft k) e \<noteq> None) g) (ek_evictionSoftGracePeriod k)"

definition EC2NodeClassSpec_valid :: "ec2_spec \<Rightarrow> bool" where
  "EC2NodeClassSpec_valid s \<longleftrightarrow>
     optional (\<lambda>f. f = ''Custom'') (ec_amiFamily s) \<and>
     ec_amiSelectorTerms s \<noteq> [] \<and> length (ec_amiSelectorTerms s) \<le> 30 \<and>
     list_all (\<lambda>i. i \<noteq> [] \<and> contains (id_re ''ami-'') i) (ec_amiSelectorTerms s) \<and>
     length (ec_blockDeviceMappings s) \<le> 50 \<and>
     length (filter em_rootVolume (ec_blockDeviceMappings s)) \<le> 1 \<and>
     list_all (optional ec2_BlockDevice_valid \<circ> em_ebs) (ec_blockDeviceMappings s) \<and>
     (ec_capacityReservationSelectorTerms s = [] \<or>
        terms_rule 30 (\<lambda>x. has_map (crst_tags x) \<or> crst_id x \<noteq> [] \<or> crst_instanceMatchCriteria x \<noteq> [])
          [cr_exclusive] ec2_CapacityReservationSelectorTerm_valid (ec_capacityReservationSelectorTerms s)) \<and>
     optional (\<lambda>p. p \<noteq> []) (ec_instanceProfile s) \<and>
     optional (\<lambda>p. p = ''RAID0'') (ec_instanceStorePolicy s) \<and>
     optional ec2_KubeletConfiguration_valid (ec_kubelet s) \<and>
     optional ec2_MetadataOptions_valid (ec_metadataOptions s) \<and>
     sg_terms_rule ec2_SecurityGroupSelectorTerm_valid (ec_securityGroupSelectorTerms s) \<and>
     subnet_terms_rule ec2_SubnetSelectorTerm_valid (ec_subnetSelectorTerms s) \<and>
     map_all (\<lambda>k _. \<not> restricted_by_rule k) (ec_tags s) \<and>
     ec_unmanaged s = []"

text \<open>The defaults of the CRD, filled in before the validation.\<close>

definition default_to :: "'a \<Rightarrow> 'a option \<Rightarrow> 'a option" where
  "default_to d x = (case x of None \<Rightarrow> Some d | Some a \<Rightarrow> Some a)"

definition ec2_default_metadata_options :: ec2_metadata_options where
  "ec2_default_metadata_options =
     \<lparr>eo_httpEndpoint = Some ''enabled'', eo_httpProtocolIPv6 = Some ''disabled'', eo_httpPutResponseHopLimit = Some 1,
      eo_httpTokens = Some ''required''\<rparr>"

definition ec2_defaults :: "ec2_spec \<Rightarrow> ec2_spec" where
  "ec2_defaults s =
     s\<lparr>ec_metadataOptions :=
         Some (case ec_metadataOptions s of
             None \<Rightarrow> ec2_default_metadata_options
           | Some m \<Rightarrow>
               \<lparr>eo_httpEndpoint = default_to ''enabled'' (eo_httpEndpoint m),
                eo_httpProtocolIPv6 = default_to ''disabled'' (eo_httpProtocolIPv6 m),
                eo_httpPutResponseHopLimit = default_to 1 (eo_httpPutResponseHopLimit m),
                eo_httpTokens = default_to ''required'' (eo_httpTokens m)\<rparr>)\<rparr>"

definition ec2_admitted :: "ec2_spec \<Rightarrow> bool" where
  "ec2_admitted s \<longleftrightarrow> EC2NodeClassSpec_valid (ec2_defaults s)"

section \<open>What is translated to an admitted spec\<close>

definition volume_size_ok :: "int \<Rightarrow> bool" where
  "volume_size_ok n \<longleftrightarrow>
     (if n mod 1024 = 0 then let k = n div 1024 in k \<le> 9 \<or> k mod 10 \<le> 7 \<and> k \<le> 57 \<or> k = 58 else n \<le> 59000)"

definition kubelet_translatable :: "kubelet_configuration \<Rightarrow> bool" where
  "kubelet_translatable k \<longleftrightarrow>
     map_all (\<lambda>_ v. matches quantity_re v) (kc_systemReserved k) \<and> map_all (\<lambda>_ v. matches quantity_re v) (kc_kubeReserved k) \<and>
     map_all (\<lambda>_ v. matches eviction_re v) (kc_evictionHard k) \<and> map_all (\<lambda>_ v. matches eviction_re v) (kc_evictionSoft k) \<and>
     map_all (\<lambda>_ v. \<exists>d. ParseDuration v = Inr d) (kc_evictionSoftGracePeriod k)"

definition tags_translatable :: "openshift_ec2_spec \<Rightarrow> hosted_control_plane \<Rightarrow> bool" where
  "tags_translatable s hcp \<longleftrightarrow>
     list_all (\<lambda>t. rt_key t \<noteq> [] \<and> (has_prefix (rt_key t) ''kubernetes.io/cluster'' \<longrightarrow> isRestricted (rt_key t))) (platform_tags hcp)"

definition ec2_translatable :: "openshift_ec2_spec \<Rightarrow> hosted_control_plane \<Rightarrow> bool" where
  "ec2_translatable s hcp \<longleftrightarrow>
     (os_securityGroupSelectorTerms s = None \<longrightarrow> hcp_infraID hcp \<noteq> []) \<and>
     optional (list_all (\<lambda>t. has_map (crst_tags t) \<or> crst_id t \<noteq> [] \<or> crst_instanceMatchCriteria t \<noteq> []))
       (os_capacityReservationSelectorTerms s) \<and>
     optional (list_all (\<lambda>m. bd_volumeSizeGiB (bdm_ebs m) \<noteq> 0 \<longrightarrow> volume_size_ok (sint (bd_volumeSizeGiB (bdm_ebs m)))))
       (os_blockDeviceMappings s) \<and>
     kubelet_translatable (os_kubelet s) \<and>
     tags_translatable s hcp"

end
