(* ===== verification/Volume_Size.thy ===== *)
theory Volume_Size
  imports Ec2_Schema Go_Strconv
begin

text \<open>
  Which volume sizes of a block device the EC2NodeClass CRD admits: the OpenshiftEC2NodeClass gives a
  number of GiB, the translation a quantity whose encoding drops the factors of 1024, and the pattern
  of \<open>volumeSize\<close> decides digit by digit.
\<close>

section \<open>The encoding of a size\<close>

lemma removeInt64Factors_1024: "0 < v \<Longrightarrow> removeInt64Factors (v * 1024) = (case removeInt64Factors v of (r, n) \<Rightarrow> (r, Suc n))"
  by (subst removeInt64Factors.simps) simp

lemma removeInt64Factors_stop: "v < 1024 \<or> v mod 1024 \<noteq> 0 \<Longrightarrow> removeInt64Factors v = (v, 0)"
  by (subst removeInt64Factors.simps) auto

lemma removeInt64Factors_small:
  assumes "0 < n" "n \<le> 65536"
  shows "removeInt64Factors n = (if n mod 1024 = 0 then (n div 1024, 1) else (n, 0))"
proof (cases "n mod 1024 = 0")
  case True
  define k where "k = n div 1024"
  have k: "n = k * 1024" "0 < k" "k < 1024" using True assms by (auto simp: k_def)
  have "removeInt64Factors n = (k, 1)"
    unfolding k(1) removeInt64Factors_1024 [OF k(2)] using k(3) by (simp add: removeInt64Factors_stop)
  with True k_def show ?thesis by simp
qed (simp add: removeInt64Factors_stop)

lemma CanonicalizeBytes_gi:
  assumes "1 \<le> n" "n \<le> 65536"
  shows "CanonicalizeBytes (gibibytes n) =
    (if n mod 1024 = 0 then show_nat (nat (n div 1024)) @ ''Ti'' else show_nat (nat n) @ ''Gi'')"
proof -
  define m where "m = nat n"
  then have m: "n = int m" "0 < m" "m \<le> 65536" using assms by auto
  have v: "nat (gibibytes n div nano) = m * 1024 * 1024 * 1024"
    using m by (simp add: gibibytes_def nano_def nat_mult_distrib)
  have "removeInt64Factors (m * 1024 * 1024 * 1024) = (case removeInt64Factors m of (r, k) \<Rightarrow> (r, Suc (Suc (Suc k))))"
    using m(2) by (subst removeInt64Factors_1024, simp, subst removeInt64Factors_1024, simp, subst removeInt64Factors_1024, simp)
      (simp split: prod.splits)
  also have "\<dots> = (if m mod 1024 = 0 then (m div 1024, 4) else (m, 3))"
    using removeInt64Factors_small [OF m(2,3)] by simp
  finally have f: "removeInt64Factors (nat (gibibytes n div nano)) = (if m mod 1024 = 0 then (m div 1024, 4) else (m, 3))"
    unfolding v .
  have "(int m mod 1024 = 0) = (m mod 1024 = 0)" "nat (int m div 1024) = m div 1024"
    by presburger (simp add: nat_div_distrib)
  then show ?thesis
    unfolding CanonicalizeBytes_def f unfolding m(1) by (simp add: binary_suffixes_def del: of_nat_mod)
qed

section \<open>Decimal digits\<close>

definition dchar :: "nat \<Rightarrow> char" where
  "dchar d = char_of (48 + d)"

lemma in_class_dchar [simp]:
  "d < 10 \<Longrightarrow> in_class (dchar d) [(lo, hi)] \<longleftrightarrow> of_char lo \<le> 48 + d \<and> 48 + d \<le> of_char hi"
  by (simp add: in_class_def in_range_def dchar_def)

lemma show_nat_one: "n < 10 \<Longrightarrow> show_nat n = [dchar n]"
  by (subst show_nat.simps) (simp add: dchar_def)

lemma show_nat_snoc: "10 \<le> n \<Longrightarrow> show_nat n = show_nat (n div 10) @ [dchar (n mod 10)]"
  by (subst show_nat.simps) (simp add: dchar_def)

lemma show_nat_shape:
  assumes "0 < n"
  shows "\<exists>c s. show_nat n = c # s \<and> in_class c [(CHR ''1'', CHR ''9'')] \<and> digits s"
  using assms
proof (induction n rule: less_induct)
  case (less n)
  show ?case
  proof (cases "n < 10")
    case True
    with less(2) show ?thesis by (simp add: show_nat_one)
  next
    case False
    then have "n div 10 < n" "0 < n div 10" by auto
    with less(1) obtain c s where "show_nat (n div 10) = c # s" "in_class c [(CHR ''1'', CHR ''9'')]" "digits s"
      by blast
    with False show ?thesis by (simp add: show_nat_snoc)
  qed
qed

lemma show_nat_length: "n < 10 ^ Suc k \<Longrightarrow> length (show_nat n) \<le> Suc k"
proof (induction k arbitrary: n)
  case (Suc k)
  show ?case
  proof (cases "n < 10")
    case False
    have "n div 10 < 10 ^ Suc k" using Suc(2) by (simp add: less_mult_imp_div_less)
    with Suc(1) False show ?thesis by (simp add: show_nat_snoc)
  qed (simp add: show_nat_one)
qed (simp add: show_nat_one)

lemma show_nat_inj: "show_nat m = show_nat n \<Longrightarrow> m = n"
  by (metis digits_value_show option.inject of_nat_eq_iff)

section \<open>The pattern\<close>

lemma lang_gi: "s \<in> lang gi_re \<longleftrightarrow>
    s = ''59000'' \<or>
    (\<exists>c t. s = c # t \<and> digits t \<and>
       (in_class c [(CHR ''1'', CHR ''9'')] \<and> length t \<le> 3 \<or> in_class c [(CHR ''1'', CHR ''4'')] \<and> length t = 4 \<or>
        c = CHR ''5'' \<and> (\<exists>d u. t = d # u \<and> in_class d [(CHR ''0'', CHR ''8'')] \<and> length u = 3)))"
proof -
  have "in_class d [(CHR ''0'', CHR ''8'')] \<Longrightarrow> in_class d [(CHR ''0'', CHR ''9'')]" for d
    by (simp add: in_class_def in_range_def)
  then show ?thesis
    unfolding gi_re_def alts_def seqs_def between_def foldr.simps comp_def id_def lang.simps(1,5) Un_iff lang_RSeq lang_lit
      lang_upto_digit lang_times_digit
    by auto
qed

lemma matches_gi:
  assumes "0 < n" "n \<le> 65536"
  shows "matches gi_re (show_nat n) \<longleftrightarrow> n \<le> 59000"
proof (cases "n < 10000")
  case True
  then have "length (show_nat n) \<le> 4" using show_nat_length [of n 3] by simp
  moreover obtain c s where "show_nat n = c # s" "in_class c [(CHR ''1'', CHR ''9'')]" "digits s"
    using show_nat_shape [OF assms(1)] by blast
  ultimately show ?thesis using True by (auto simp: matches_lang lang_gi)
next
  case False
  define a b c d e where "a = n div 10000" "b = n div 1000 mod 10" "c = n div 100 mod 10" "d = n div 10 mod 10" "e = n mod 10"
  note ds = this
  have n: "show_nat n = [dchar a, dchar b, dchar c, dchar d, dchar e]"
    using False assms(2) unfolding ds
    by (simp add: show_nat_snoc [of n] show_nat_snoc [of "n div 10"] show_nat_snoc [of "n div 100"]
        show_nat_snoc [of "n div 1000"] show_nat_one div_mult2_eq [symmetric])
  have lt: "0 < a" "a < 10" "b < 10" "c < 10" "d < 10" "e < 10"
    using False assms(2) by (auto simp: ds)
  have "show_nat n = ''59000'' \<longleftrightarrow> n = 59000"
  proof -
    have "show_nat 59000 = ''59000''" by (simp add: show_nat_snoc show_nat_one dchar_def, code_simp)
    then show ?thesis using show_nat_inj [of n 59000] by metis
  qed
  moreover have "dchar a = CHR ''5'' \<longleftrightarrow> a = 5"
    using lt(2) in_class_dchar [of a "CHR ''5''" "CHR ''5''"] by auto
  ultimately have "matches gi_re (show_nat n) \<longleftrightarrow> n = 59000 \<or> a \<le> 4 \<or> a = 5 \<and> b \<le> 8"
    using lt unfolding matches_lang lang_gi n by auto
  also have "\<dots> \<longleftrightarrow> n \<le> 59000"
  proof -
    have "n div 1000 div 10 = a" by (simp add: ds div_mult2_eq [symmetric])
    then have "n div 1000 = 10 * a + b" using div_mult_mod_eq [of "n div 1000" 10] ds by simp
    moreover have "n = 1000 * (n div 1000) + n mod 1000" "n mod 1000 < 1000" by simp_all
    ultimately show ?thesis using lt by linarith
  qed
  finally show ?thesis .
qed

lemma volume_Gi: "matches volume_re (s @ ''Gi'') \<longleftrightarrow> matches gi_re s"
proof -
  have "s @ ''Gi'' = u @ ''Gi'' \<longleftrightarrow> u = s" "s @ ''Gi'' \<noteq> u @ ''G''" "s @ ''Gi'' \<noteq> u @ ''Ti''" "s @ ''Gi'' \<noteq> u @ ''T''" for u
    by (auto simp: append_eq_append_conv2 Cons_eq_append_conv append_eq_Cons_conv dest: arg_cong [of _ _ last])
  then show ?thesis
    unfolding matches_lang volume_re_def alts_def by simp
qed

lemma volume_Ti: "matches volume_re (s @ ''Ti'') \<longleftrightarrow> matches ti_re s"
proof -
  have "s @ ''Ti'' = u @ ''Ti'' \<longleftrightarrow> u = s" "s @ ''Ti'' \<noteq> u @ ''G''" "s @ ''Ti'' \<noteq> u @ ''Gi''" "s @ ''Ti'' \<noteq> u @ ''T''" for u
    by (auto simp: append_eq_append_conv2 Cons_eq_append_conv append_eq_Cons_conv dest: arg_cong [of _ _ last])
  then show ?thesis
    unfolding matches_lang volume_re_def alts_def by simp
qed

lemma lang_ti: "s \<in> lang ti_re \<longleftrightarrow>
    s = [] \<or> s = ''58'' \<or> (\<exists>c. s = [c] \<and> in_class c [(CHR ''1'', CHR ''9'')]) \<or>
    (\<exists>c d. s = [c, d] \<and> in_class c [(CHR ''1'', CHR ''5'')] \<and> in_class d [(CHR ''0'', CHR ''7'')])"
  unfolding ti_re_def alts_def between_def foldr.simps comp_def id_def lang.simps(1,2,3,5) Un_iff lang_RSeq lang_lit by auto

lemma matches_ti:
  assumes "0 < k" "k \<le> 64"
  shows "matches ti_re (show_nat k) \<longleftrightarrow> k \<le> 9 \<or> k mod 10 \<le> 7 \<and> k \<le> 57 \<or> k = 58"
proof (cases "k < 10")
  case True
  with assms show ?thesis by (simp add: show_nat_one matches_lang lang_ti)
next
  case False
  have n: "show_nat k = [dchar (k div 10), dchar (k mod 10)]"
    using False assms by (simp add: show_nat_snoc [of k] show_nat_one)
  have "show_nat k = ''58'' \<longleftrightarrow> k = 58"
  proof -
    have "show_nat 58 = ''58''" by (simp add: show_nat_snoc show_nat_one dchar_def, code_simp)
    then show ?thesis using show_nat_inj [of k 58] by metis
  qed
  then have "matches ti_re (show_nat k) \<longleftrightarrow> k = 58 \<or> (1 \<le> k div 10 \<and> k div 10 \<le> 5 \<and> k mod 10 \<le> 7)"
    using False assms unfolding matches_lang lang_ti n by auto
  also have "\<dots> \<longleftrightarrow> k \<le> 9 \<or> k mod 10 \<le> 7 \<and> k \<le> 57 \<or> k = 58"
  proof -
    have "k = 10 * (k div 10) + k mod 10" "k mod 10 < 10" by simp_all
    with False show ?thesis by linarith
  qed
  finally show ?thesis .
qed

lemma volume_admitted:
  assumes "1 \<le> n" "n \<le> 65536"
  shows "matches volume_re (CanonicalizeBytes (gibibytes n)) \<longleftrightarrow> volume_size_ok n"
proof (cases "n mod 1024 = 0")
  case True
  define k where "k = nat (n div 1024)"
  have d: "n div 1024 = int k" using assms by (simp add: k_def)
  have "n = 1024 * int k" using div_mult_mod_eq [of n 1024] True d by simp
  with assms have k: "0 < k" "k \<le> 64" by auto
  have "int k mod 10 \<le> 7 \<longleftrightarrow> k mod 10 \<le> 7" by presburger
  with True k show ?thesis
    unfolding CanonicalizeBytes_gi [OF assms] volume_size_ok_def Let_def d
    by (auto simp: volume_Ti matches_ti simp del: of_nat_mod)
next
  case False
  have "nat n \<le> 59000 \<longleftrightarrow> n \<le> 59000" by linarith
  with False assms show ?thesis
    unfolding CanonicalizeBytes_gi [OF assms] volume_size_ok_def by (simp add: volume_Gi matches_gi)
qed

end
