(* ===== verification/Ec2_Admission.thy ===== *)
theory Ec2_Admission
  imports Volume_Size
begin

text \<open>
  The composition of the two CRDs with the translation between them: for an OpenshiftEC2NodeClass
  that the API server admits, field by field, when the EC2NodeClass the controller writes for it is
  admitted too, and the admitted OpenshiftEC2NodeClasses whose EC2NodeClass is not.
\<close>

section \<open>Fields\<close>

lemma map_all_lookup: "map_all p m \<longleftrightarrow> (\<forall>k v. sm_lookup m k = Some v \<longrightarrow> p k v)"
  by (cases m) (auto simp: map_all_def fmpred_iff)

lemma map_all_None [simp]: "map_all p None"
  by (simp add: map_all_def)

lemma map_all_dom: "map_all (\<lambda>k _. p k) m \<longleftrightarrow> (\<forall>k. sm_lookup m k \<noteq> None \<longrightarrow> p k)"
  by (auto simp: map_all_lookup)

lemma fmpred_dom: "fmpred (\<lambda>k _. p k) f \<longleftrightarrow> (\<forall>k. fmlookup f k \<noteq> None \<longrightarrow> p k)"
  by (auto simp: fmpred_iff)

lemma fmap_nonempty: "f \<noteq> fmempty \<longleftrightarrow> (\<exists>k. fmlookup f k \<noteq> None)"
  by (metis fmap_ext fmempty_lookup)

lemma has_map_lookup: "has_map m \<longleftrightarrow> (\<exists>k. sm_lookup m k \<noteq> None)"
  by (cases m) (simp_all add: has_map_def fmap_nonempty)

lemma optional_simps [simp]:
  "optional p None"
  "optional p (Some a) \<longleftrightarrow> p a"
  by (simp_all add: optional_def)

lemma to_lower_Nil [simp]: "to_lower s = [] \<longleftrightarrow> s = []"
  by (simp add: to_lower_def)

lemma sm_len_of_list: "sm_len (Some (fmap_of_list l)) \<le> length l"
proof -
  have "fcard (fset_of_list (map fst l)) \<le> length (map fst l)"
    unfolding fcard.rep_eq fset_of_list.rep_eq by (rule card_length)
  then show ?thesis by (simp add: sm_len_def)
qed

lemma selector_tags_of_list:
  "selector_tags_ok (Some (fmap_of_list l)) \<longleftrightarrow> (\<forall>k v. map_of l k = Some v \<longrightarrow> k \<noteq> [] \<and> v \<noteq> [])" if "length l \<le> 20"
  using sm_len_of_list [of l] that by (simp add: selector_tags_ok_def map_all_lookup fmlookup_of_list)

lemma selector_tags_default:
  "selector_tags_ok (DefaultSubnetSelectorTags i)" "has_map (DefaultSubnetSelectorTags i)"
  unfolding DefaultSubnetSelectorTags_def has_map_lookup
  by (subst selector_tags_of_list) (auto simp: fmlookup_of_list split: if_splits)

lemma sg_selector_tags_default:
  "selector_tags_ok (DefaultSecurityGroupSelectorTags i) \<longleftrightarrow> i \<noteq> []" "has_map (DefaultSecurityGroupSelectorTags i)"
  unfolding DefaultSecurityGroupSelectorTags_def has_map_lookup
  by (subst selector_tags_of_list) (auto simp: fmlookup_of_list split: if_splits)

lemma terms_rule_mono:
  "terms_rule n has_one ex p ts \<Longrightarrow> (\<And>t. t \<in> set ts \<Longrightarrow> p t \<Longrightarrow> q t) \<Longrightarrow> terms_rule n has_one ex q ts"
  by (auto simp: terms_rule_def list_all_iff)

lemma terms_copied [simp]:
  "map (\<lambda>t. \<lparr>sst_tags = sst_tags t, sst_id = sst_id t\<rparr>) ts = ts"
  "map (\<lambda>t. \<lparr>sgst_tags = sgst_tags t, sgst_id = sgst_id t, sgst_name = sgst_name t\<rparr>) us = us"
  by (simp_all add: map_idI)

lemma subnet_terms_admitted:
  assumes "optional (subnet_terms_rule SubnetSelectorTerm_valid) (os_subnetSelectorTerms s)" "onc_spec nc = s"
  shows "subnet_terms_rule ec2_SubnetSelectorTerm_valid (ec_subnetSelectorTerms (ec2NodeClassSpec nc hcp))"
proof (cases "os_subnetSelectorTerms s")
  case None
  then show ?thesis using assms(2)
    by (simp add: ec2NodeClassSpec_def Let_def subnet_terms_rule_def terms_rule_def selector_tags_default
        ec2_SubnetSelectorTerm_valid_def ec2_id_ok_def)
next
  case (Some ts)
  with assms have "terms_rule 30 (\<lambda>x. has_map (sst_tags x) \<or> sst_id x \<noteq> []) [\<lambda>x. sst_id x \<noteq> [] \<and> has_map (sst_tags x)]
      SubnetSelectorTerm_valid ts"
    by (simp add: subnet_terms_rule_def)
  then show ?thesis using Some assms(2) unfolding subnet_terms_rule_def
    by (simp add: ec2NodeClassSpec_def Let_def)
      (erule terms_rule_mono, simp add: SubnetSelectorTerm_valid_def ec2_SubnetSelectorTerm_valid_def ec2_id_ok_def contains_match)
qed

lemma sg_terms_admitted:
  assumes "optional (sg_terms_rule SecurityGroupSelectorTerm_valid) (os_securityGroupSelectorTerms s)" "onc_spec nc = s"
  shows "sg_terms_rule ec2_SecurityGroupSelectorTerm_valid (ec_securityGroupSelectorTerms (ec2NodeClassSpec nc hcp)) \<longleftrightarrow>
    (os_securityGroupSelectorTerms s = None \<longrightarrow> hcp_infraID hcp \<noteq> [])"
proof (cases "os_securityGroupSelectorTerms s")
  case None
  then show ?thesis using assms(2)
    by (simp add: ec2NodeClassSpec_def Let_def sg_terms_rule_def terms_rule_def sg_selector_tags_default
        ec2_SecurityGroupSelectorTerm_valid_def ec2_id_ok_def)
next
  case (Some ts)
  have "sg_terms_rule ec2_SecurityGroupSelectorTerm_valid ts"
    if "sg_terms_rule SecurityGroupSelectorTerm_valid ts"
    using that unfolding sg_terms_rule_def
    by (rule terms_rule_mono) (simp add: SecurityGroupSelectorTerm_valid_def ec2_SecurityGroupSelectorTerm_valid_def ec2_id_ok_def contains_match)
  with Some assms show ?thesis by (simp add: ec2NodeClassSpec_def Let_def)
qed

lemma cr_terms_admitted:
  assumes "optional (terms_rule 30
         (\<lambda>x. has_map (crst_tags x) \<or> crst_id x \<noteq> [] \<or> crst_ownerID x \<noteq> [] \<or> crst_instanceMatchCriteria x \<noteq> [])
         [cr_exclusive] CapacityReservationSelectorTerm_valid) (os_capacityReservationSelectorTerms s)"
  shows "(let ts = karpenterCapacityReservationSelectorTermsFromNodeClassSpec s in ts = [] \<or>
        terms_rule 30 (\<lambda>x. has_map (crst_tags x) \<or> crst_id x \<noteq> [] \<or> crst_instanceMatchCriteria x \<noteq> [])
          [cr_exclusive] ec2_CapacityReservationSelectorTerm_valid ts) \<longleftrightarrow>
    optional (list_all (\<lambda>t. has_map (crst_tags t) \<or> crst_id t \<noteq> [] \<or> crst_instanceMatchCriteria t \<noteq> []))
       (os_capacityReservationSelectorTerms s)"
proof (cases "os_capacityReservationSelectorTerms s")
  case (Some ts)
  have "ec2_CapacityReservationSelectorTerm_valid \<lparr>crst_tags = crst_tags t, crst_id = crst_id t, crst_ownerID = crst_ownerID t,
        crst_instanceMatchCriteria = to_lower (crst_instanceMatchCriteria t)\<rparr>"
    if "CapacityReservationSelectorTerm_valid t" for t
  proof -
    have "enum_ok [''open'', ''targeted''] (to_lower (crst_instanceMatchCriteria t))"
      using that by (auto simp: CapacityReservationSelectorTerm_valid_def enum_ok_def InstanceMatchCriteria_enum_def
          InstanceMatchCriteriaOpen_def InstanceMatchCriteriaTargeted_def) (code_simp+)
    with that show ?thesis
      by (simp add: CapacityReservationSelectorTerm_valid_def ec2_CapacityReservationSelectorTerm_valid_def)
  qed
  with Some assms show ?thesis
    by (auto simp: karpenterCapacityReservationSelectorTermsFromNodeClassSpec_def terms_rule_def list_all_iff cr_exclusive_def)
qed (simp add: karpenterCapacityReservationSelectorTermsFromNodeClassSpec_def)


lemma block_device_admitted:
  assumes "BlockDevice_valid b"
  shows "ec2_BlockDevice_valid (karpenterBlockDeviceFromBlockDevice b) \<longleftrightarrow>
    (bd_volumeSizeGiB b \<noteq> 0 \<longrightarrow> volume_size_ok (sint (bd_volumeSizeGiB b)))"
proof -
  have "optional (\<lambda>q. matches volume_re (CanonicalizeBytes q)) (volumeSizeGiBToQuantity (bd_volumeSizeGiB b)) \<longleftrightarrow>
      (bd_volumeSizeGiB b \<noteq> 0 \<longrightarrow> volume_size_ok (sint (bd_volumeSizeGiB b)))"
    using assms by (simp add: volumeSizeGiBToQuantity_def BlockDevice_valid_def volume_admitted)
  moreover have "optional (\<lambda>t. t \<in> {''standard'', ''io1'', ''io2'', ''gp2'', ''sc1'', ''st1'', ''gp3''})
      (volumeTypeToKarpenter (bd_volumeType b))"
  proof -
    have "list_all (\<lambda>t. to_lower t \<in> {''standard'', ''io1'', ''io2'', ''gp2'', ''sc1'', ''st1'', ''gp3''}) VolumeType_enum"
      by code_simp
    with assms show ?thesis
      by (auto simp: volumeTypeToKarpenter_def BlockDevice_valid_def enum_ok_def list_all_iff)
  qed
  moreover have "eb_snapshotID (karpenterBlockDeviceFromBlockDevice b) \<noteq> None \<or> eb_volumeSize (karpenterBlockDeviceFromBlockDevice b) \<noteq> None"
    using assms by (auto simp: karpenterBlockDeviceFromBlockDevice_def BlockDevice_valid_def ptrIfNonEmpty_def volumeSizeGiBToQuantity_def)
  ultimately show ?thesis
    by (simp add: ec2_BlockDevice_valid_def karpenterBlockDeviceFromBlockDevice_def)
qed

definition ec2_mappings_valid :: "ec2_block_device_mapping list \<Rightarrow> bool" where
  "ec2_mappings_valid ms \<longleftrightarrow>
     length ms \<le> 50 \<and> length (filter em_rootVolume ms) \<le> 1 \<and> list_all (optional ec2_BlockDevice_valid \<circ> em_ebs) ms"

lemma default_mapping_admitted: "ec2_mappings_valid [default_block_device_mapping]"
proof -
  have "volume_size_ok 120" by (simp add: volume_size_ok_def)
  then show ?thesis
    by (simp add: ec2_mappings_valid_def default_block_device_mapping_def ec2_BlockDevice_valid_def defaultRootVolumeSize_def
        volume_admitted)
qed

lemma block_device_mappings_admitted:
  assumes "optional (\<lambda>ms. ms \<noteq> [] \<and> length ms \<le> 50 \<and>
         length (filter (\<lambda>m. bdm_rootVolume m = RootVolumeDesignationRootVolume) ms) \<le> 1 \<and> list_all BlockDeviceMapping_valid ms)
       (os_blockDeviceMappings s)" "onc_spec nc = s"
  shows "ec2_mappings_valid (ec_blockDeviceMappings (ec2NodeClassSpec nc hcp)) \<longleftrightarrow>
    optional (list_all (\<lambda>m. bd_volumeSizeGiB (bdm_ebs m) \<noteq> 0 \<longrightarrow> volume_size_ok (sint (bd_volumeSizeGiB (bdm_ebs m)))))
       (os_blockDeviceMappings s)"
proof (cases "os_blockDeviceMappings s")
  case None
  then show ?thesis using assms(2) default_mapping_admitted
    by (simp add: ec2NodeClassSpec_def Let_def karpenterBlockDeviceMappingFromNodeClassSpec_def)
next
  case (Some ms)
  have "ec2_BlockDevice_valid (karpenterBlockDeviceFromBlockDevice (bdm_ebs m)) \<longleftrightarrow>
      (bd_volumeSizeGiB (bdm_ebs m) \<noteq> 0 \<longrightarrow> volume_size_ok (sint (bd_volumeSizeGiB (bdm_ebs m))))" if "m \<in> set ms" for m
    using that Some assms(1) by (intro block_device_admitted) (simp add: list_all_iff BlockDeviceMapping_valid_def)
  with Some assms show ?thesis
    by (simp add: ec2NodeClassSpec_def Let_def karpenterBlockDeviceMappingFromNodeClassSpec_def ec2_mappings_valid_def
        list_all_iff filter_map comp_def)
qed

lemma metadata_options_admitted:
  "MetadataOptions_valid (os_metadataOptions s) \<Longrightarrow>
   optional ec2_MetadataOptions_valid (karpenterMetadataOptionsFromNodeClassSpec s)"
  by (auto simp: karpenterMetadataOptionsFromNodeClassSpec_def Let_def MetadataOptions_valid_def ec2_MetadataOptions_valid_def)

section \<open>The kubelet configuration\<close>

lemma reserved_admitted:
  "reserved_valid m \<Longrightarrow> ec2_reserved_valid m \<longleftrightarrow> map_all (\<lambda>_ v. matches quantity_re v) m"
  unfolding reserved_valid_def ec2_reserved_valid_def map_all_lookup by blast

lemma eviction_admitted:
  "eviction_valid m \<Longrightarrow> ec2_eviction_valid m \<longleftrightarrow> map_all (\<lambda>_ v. matches eviction_re v) m"
  unfolding eviction_valid_def ec2_eviction_valid_def map_all_lookup by blast

lemma grace_lookup:
  "(case evictionSoftGracePeriodToDuration m of None \<Rightarrow> None | Some g \<Rightarrow> fmlookup g k) =
     (case sm_lookup m k of None \<Rightarrow> None | Some v \<Rightarrow> (case ParseDuration v of Inl e \<Rightarrow> None | Inr d \<Rightarrow> Some d))"
  by (cases m) (simp_all add: evictionSoftGracePeriodToDuration_def grace_loop_lookup cong: option.case_cong sum.case_cong)

text \<open>The two rules on soft eviction, over the looked up grace periods.\<close>

definition soft_rules :: "smap \<Rightarrow> (string, 'a) fmap option \<Rightarrow> bool" where
  "soft_rules soft grace \<longleftrightarrow>
     (has_map soft \<longrightarrow>
        (case grace of None \<Rightarrow> False | Some g \<Rightarrow> g \<noteq> fmempty \<and> map_all (\<lambda>e _. fmlookup g e \<noteq> None) soft)) \<and>
     optional (\<lambda>g. g \<noteq> fmempty \<longrightarrow> has_map soft \<and> fmpred (\<lambda>e _. sm_lookup soft e \<noteq> None) g) grace"

lemma soft_rules_lookup:
  "soft_rules soft grace \<longleftrightarrow>
     (\<forall>e. (sm_lookup soft e \<noteq> None) = ((case grace of None \<Rightarrow> None | Some g \<Rightarrow> fmlookup g e) \<noteq> None))"
proof (cases grace)
  case None
  then show ?thesis by (auto simp: soft_rules_def has_map_lookup)
next
  case (Some g)
  show ?thesis
    unfolding Some soft_rules_def option.case optional_simps has_map_lookup map_all_dom fmpred_dom fmap_nonempty by blast
qed

lemma soft_rules_admitted:
  assumes "soft_rules soft grace" "map_all (\<lambda>key _. key \<in> set eviction_signals) grace"
  shows "soft_rules soft (evictionSoftGracePeriodToDuration grace) \<longleftrightarrow> map_all (\<lambda>_ v. \<exists>d. ParseDuration v = Inr d) grace"
    and "optional (fmpred (\<lambda>key _. key \<in> set eviction_signals)) (evictionSoftGracePeriodToDuration grace)"
proof -
  have g: "sm_lookup grace e = (case grace of None \<Rightarrow> None | Some g \<Rightarrow> fmlookup g e)" for e
    by (simp add: sm_lookup_def)
  have same: "(sm_lookup soft e \<noteq> None) = (sm_lookup grace e \<noteq> None)" for e
    using assms(1) unfolding soft_rules_lookup g by blast
  have parses: "((x \<noteq> None) = ((case x of None \<Rightarrow> None | Some v \<Rightarrow> (case ParseDuration v of Inl e \<Rightarrow> None | Inr d \<Rightarrow> Some d)) \<noteq> None)) \<longleftrightarrow>
      (\<forall>v. x = Some v \<longrightarrow> (\<exists>d. ParseDuration v = Inr d))" for x
    by (cases x) (simp_all split: sum.split)
  show "soft_rules soft (evictionSoftGracePeriodToDuration grace) \<longleftrightarrow> map_all (\<lambda>_ v. \<exists>d. ParseDuration v = Inr d) grace"
    unfolding soft_rules_lookup grace_lookup same map_all_lookup parses by blast
  show "optional (fmpred (\<lambda>key _. key \<in> set eviction_signals)) (evictionSoftGracePeriodToDuration grace)"
  proof (cases "evictionSoftGracePeriodToDuration grace")
    case (Some h)
    have "sm_lookup grace k \<noteq> None" if "fmlookup h k = Some d" for k d
      using that grace_lookup [where m = grace and k = k] Some by (auto split: option.splits)
    with assms(2) show ?thesis unfolding Some map_all_lookup by (auto simp: fmpred_iff)
  qed simp
qed

lemma ec2_kubelet_soft_rules:
  "ec2_KubeletConfiguration_valid k \<longleftrightarrow>
     optional (\<lambda>v. 0 \<le> sint v) (ek_maxPods k) \<and> optional (\<lambda>v. 0 \<le> sint v) (ek_podsPerCore k) \<and>
     ec2_reserved_valid (ek_systemReserved k) \<and> ec2_reserved_valid (ek_kubeReserved k) \<and>
     ec2_eviction_valid (ek_evictionHard k) \<and> ec2_eviction_valid (ek_evictionSoft k) \<and>
     optional (fmpred (\<lambda>key _. key \<in> set eviction_signals)) (ek_evictionSoftGracePeriod k) \<and>
     percent_ok (ek_imageGCHighThresholdPercent k) \<and> percent_ok (ek_imageGCLowThresholdPercent k) \<and>
     (case (ek_imageGCHighThresholdPercent k, ek_imageGCLowThresholdPercent k) of
        (Some high, Some low) \<Rightarrow> sint high > sint low | _ \<Rightarrow> True) \<and>
     soft_rules (ek_evictionSoft k) (ek_evictionSoftGracePeriod k)"
  unfolding ec2_KubeletConfiguration_valid_def soft_rules_def by blast

lemma kubelet_admitted:
  assumes "KubeletConfiguration_valid cel (os_kubelet s)"
  shows "optional ec2_KubeletConfiguration_valid (karpenterKubeletConfigurationFromNodeClassSpec s) \<longleftrightarrow>
    kubelet_translatable (os_kubelet s)"
proof (cases "HasTypedFields (os_kubelet s)")
  case False
  then show ?thesis
    by (simp add: karpenterKubeletConfigurationFromNodeClassSpec_def Let_def kubelet_translatable_def HasTypedFields_def)
next
  case True
  let ?k = "os_kubelet s"
  note v = assms [unfolded KubeletConfiguration_valid_def]
  have soft: "soft_rules (kc_evictionSoft ?k) (kc_evictionSoftGracePeriod ?k)"
    using v unfolding soft_rules_lookup sm_lookup_def [symmetric] has_map_lookup map_all_dom by blast
  have "optional (\<lambda>v. 0 \<le> sint v) (ptrIfNonZero (kc_maxPods ?k))" "optional (\<lambda>v. 0 \<le> sint v) (ptrIfNonZero (kc_podsPerCore ?k))"
    using v by (auto simp: ptrIfNonZero_def pods_ok_def)
  with v True soft_rules_admitted [OF soft] show ?thesis
    by (simp add: karpenterKubeletConfigurationFromNodeClassSpec_def Let_def ec2_kubelet_soft_rules
        evictionThresholdMapToStringMap_id reserved_admitted eviction_admitted kubelet_translatable_def conj_ac)
qed

section \<open>Tags\<close>

lemma restricted_by_rule_iff:
  "isRestricted k \<or> \<not> restricted_by_rule k \<longleftrightarrow> k \<noteq> [] \<and> (has_prefix k ''kubernetes.io/cluster'' \<longrightarrow> isRestricted k)"
proof -
  have "restricted_by_rule k \<Longrightarrow> isRestricted k \<or> k = [] \<or> has_prefix k ''kubernetes.io/cluster''"
    by (auto simp: restricted_by_rule_def isRestricted_def RestrictedTagPatterns_def)
  moreover have "\<not> isRestricted []"
    by (simp add: isRestricted_def RestrictedTagPatterns_def cluster_tag_pattern_def has_prefix_def clusterTagPrefix_def)
  moreover have "k = [] \<or> has_prefix k ''kubernetes.io/cluster'' \<Longrightarrow> restricted_by_rule k"
    by (auto simp: restricted_by_rule_def)
  ultimately show ?thesis by blast
qed

lemma tags_admitted:
  assumes "map_all (\<lambda>k _. \<not> restricted_by_rule k) (os_tags s)"
  shows "map_all (\<lambda>k _. \<not> restricted_by_rule k) (mergeEC2NodeClassTags s hcp) \<longleftrightarrow> tags_translatable s hcp"
proof -
  let ?p = "platform_tags hcp"
  have plat: "platform_value ?p k \<noteq> None \<longleftrightarrow> (\<exists>t \<in> set ?p. rt_key t = k)" for k
    by (auto simp: platform_value_def map_of_eq_None_iff image_image)
  have merged: "sm_lookup (mergeEC2NodeClassTags s hcp) k \<noteq> None \<longleftrightarrow>
      \<not> isRestricted k \<and> (platform_value ?p k \<noteq> None \<or> sm_lookup (os_tags s) k \<noteq> None)" for k
    by (auto simp: mergeEC2NodeClassTags_lookup merged_tags_lookup split: option.splits)
  have "map_all (\<lambda>k _. \<not> restricted_by_rule k) (mergeEC2NodeClassTags s hcp) \<longleftrightarrow>
      (\<forall>k. sm_lookup (mergeEC2NodeClassTags s hcp) k \<noteq> None \<longrightarrow> \<not> restricted_by_rule k)"
    unfolding map_all_dom by blast
  also have "\<dots> \<longleftrightarrow> (\<forall>k. platform_value ?p k \<noteq> None \<longrightarrow> isRestricted k \<or> \<not> restricted_by_rule k)"
    unfolding merged using assms unfolding map_all_dom by blast
  also have "\<dots> \<longleftrightarrow> tags_translatable s hcp"
    unfolding plat tags_translatable_def list_all_iff restricted_by_rule_iff by blast
  finally show ?thesis .
qed

section \<open>The spec\<close>

lemma translation_admitted:
  assumes "OpenshiftEC2NodeClassSpec_valid cel (onc_spec nc)" "ids \<noteq> []"
  shows "EC2NodeClassSpec_valid ((ec2NodeClassSpec nc hcp)\<lparr>ec_userData := u, ec_amiSelectorTerms := ids\<rparr>) \<longleftrightarrow>
    ec2_translatable (onc_spec nc) hcp \<and> length ids \<le> 30 \<and> list_all (\<lambda>i. i \<noteq> [] \<and> contains (id_re ''ami-'') i) ids"
proof -
  let ?s = "onc_spec nc" and ?d = "ec2NodeClassSpec nc hcp"
  note v = assms(1) [unfolded OpenshiftEC2NodeClassSpec_valid_def]
  have subnets: "subnet_terms_rule ec2_SubnetSelectorTerm_valid (ec_subnetSelectorTerms ?d)"
    using v by (intro subnet_terms_admitted [OF _ refl]) blast
  have groups: "sg_terms_rule ec2_SecurityGroupSelectorTerm_valid (ec_securityGroupSelectorTerms ?d) \<longleftrightarrow>
      (os_securityGroupSelectorTerms ?s = None \<longrightarrow> hcp_infraID hcp \<noteq> [])"
    using v by (intro sg_terms_admitted [OF _ refl]) blast
  have reservations: "(ec_capacityReservationSelectorTerms ?d = [] \<or>
        terms_rule 30 (\<lambda>x. has_map (crst_tags x) \<or> crst_id x \<noteq> [] \<or> crst_instanceMatchCriteria x \<noteq> [])
          [cr_exclusive] ec2_CapacityReservationSelectorTerm_valid (ec_capacityReservationSelectorTerms ?d)) \<longleftrightarrow>
      optional (list_all (\<lambda>t. has_map (crst_tags t) \<or> crst_id t \<noteq> [] \<or> crst_instanceMatchCriteria t \<noteq> []))
        (os_capacityReservationSelectorTerms ?s)"
    using v cr_terms_admitted [of ?s] by (simp add: ec2NodeClassSpec_def Let_def)
  have mappings: "ec2_mappings_valid (ec_blockDeviceMappings ?d) \<longleftrightarrow>
      optional (list_all (\<lambda>m. bd_volumeSizeGiB (bdm_ebs m) \<noteq> 0 \<longrightarrow> volume_size_ok (sint (bd_volumeSizeGiB (bdm_ebs m)))))
        (os_blockDeviceMappings ?s)"
    using v by (intro block_device_mappings_admitted [OF _ refl]) blast
  have kubelet: "optional ec2_KubeletConfiguration_valid (ec_kubelet ?d) \<longleftrightarrow> kubelet_translatable (os_kubelet ?s)"
    using v kubelet_admitted [of cel ?s] by (simp add: ec2NodeClassSpec_def Let_def)
  have metadata: "optional ec2_MetadataOptions_valid (ec_metadataOptions ?d)"
    using v metadata_options_admitted [of ?s] by (simp add: ec2NodeClassSpec_def Let_def)
  have tags: "map_all (\<lambda>k _. \<not> restricted_by_rule k) (ec_tags ?d) \<longleftrightarrow> tags_translatable ?s hcp"
    using v tags_admitted [of ?s hcp] by (simp add: ec2NodeClassSpec_def Let_def)
  have policy: "optional (\<lambda>p. p = ''RAID0'') (ec_instanceStorePolicy ?d)"
    using v by (auto simp: ec2NodeClassSpec_def Let_def karpenterInstanceStorePolicyFromNodeClassSpec_def enum_ok_def InstanceStorePolicy_enum_def)
  have others: "optional (\<lambda>f. f = ''Custom'') (ec_amiFamily ?d)" "optional (\<lambda>p. p \<noteq> []) (ec_instanceProfile ?d)" "ec_unmanaged ?d = []"
    by (simp_all add: ec2NodeClassSpec_def Let_def)
  let ?r = "?d\<lparr>ec_userData := u, ec_amiSelectorTerms := ids\<rparr>"
  have kept: "ec_amiFamily ?r = ec_amiFamily ?d" "ec_amiSelectorTerms ?r = ids"
    "ec_blockDeviceMappings ?r = ec_blockDeviceMappings ?d"
    "ec_capacityReservationSelectorTerms ?r = ec_capacityReservationSelectorTerms ?d"
    "ec_instanceProfile ?r = ec_instanceProfile ?d" "ec_instanceStorePolicy ?r = ec_instanceStorePolicy ?d"
    "ec_kubelet ?r = ec_kubelet ?d" "ec_metadataOptions ?r = ec_metadataOptions ?d"
    "ec_securityGroupSelectorTerms ?r = ec_securityGroupSelectorTerms ?d"
    "ec_subnetSelectorTerms ?r = ec_subnetSelectorTerms ?d" "ec_tags ?r = ec_tags ?d" "ec_unmanaged ?r = ec_unmanaged ?d"
    by simp_all
  show ?thesis
    using assms(2) subnets groups reservations mappings kubelet metadata tags policy others
    unfolding EC2NodeClassSpec_valid_def ec2_translatable_def ec2_mappings_valid_def kept by argo
qed

lemma reconciled_release:
  assumes "reconcileEC2NodeClassRelease desired current version hcp s = Inr d"
  obtains u ids where "d = desired\<lparr>ec_userData := u, ec_amiSelectorTerms := ids\<rparr>" "ids \<noteq> []"
proof (cases "WaitsForControlPlaneUpgrade hcp version \<and> ec_userData current \<noteq> None \<and> ec_amiSelectorTerms current \<noteq> []")
  case True
  with assms have "d = desired\<lparr>ec_userData := ec_userData current, ec_amiSelectorTerms := ec_amiSelectorTerms current\<rparr>"
    by (simp add: reconcileEC2NodeClassRelease_def)
  with True that show ?thesis by blast
next
  case False
  then obtain ids where "amiSelectorTermsFromUserDataSecret s = Inr ids"
    "d = desired\<lparr>ec_userData := Some (sm_get (sec_data s) ''value''), ec_amiSelectorTerms := ids\<rparr>"
    using assms by (simp only: reconcileEC2NodeClassRelease_def Let_def if_False split: sum.splits) auto
  moreover from this(1) have "ids \<noteq> []" by (auto simp: amiSelectorTermsFromUserDataSecret_def Let_def split: if_splits)
  ultimately show ?thesis using that by blast
qed

lemma defaults_kept:
  "ec_metadataOptions (ec2_defaults s) \<noteq> None" "(ec2_defaults s)\<lparr>ec_metadataOptions := None\<rparr> = s\<lparr>ec_metadataOptions := None\<rparr>"
  by (simp_all add: ec2_defaults_def)

lemma defaulted_metadata_valid:
  "optional ec2_MetadataOptions_valid (ec_metadataOptions (ec2_defaults s)) \<longleftrightarrow>
   optional ec2_MetadataOptions_valid (ec_metadataOptions s)"
  by (auto simp: ec2_defaults_def ec2_MetadataOptions_valid_def ec2_default_metadata_options_def default_to_def
      split: option.splits)

lemma admitted_iff_valid: "ec2_admitted s \<longleftrightarrow> EC2NodeClassSpec_valid s"
proof -
  have kept: "ec_amiFamily (ec2_defaults s) = ec_amiFamily s" "ec_amiSelectorTerms (ec2_defaults s) = ec_amiSelectorTerms s"
    "ec_blockDeviceMappings (ec2_defaults s) = ec_blockDeviceMappings s"
    "ec_capacityReservationSelectorTerms (ec2_defaults s) = ec_capacityReservationSelectorTerms s"
    "ec_instanceProfile (ec2_defaults s) = ec_instanceProfile s" "ec_instanceStorePolicy (ec2_defaults s) = ec_instanceStorePolicy s"
    "ec_kubelet (ec2_defaults s) = ec_kubelet s" "ec_securityGroupSelectorTerms (ec2_defaults s) = ec_securityGroupSelectorTerms s"
    "ec_subnetSelectorTerms (ec2_defaults s) = ec_subnetSelectorTerms s" "ec_tags (ec2_defaults s) = ec_tags s"
    "ec_unmanaged (ec2_defaults s) = ec_unmanaged s"
    by (simp_all add: ec2_defaults_def)
  show ?thesis
    unfolding ec2_admitted_def EC2NodeClassSpec_valid_def defaulted_metadata_valid kept by (rule refl)
qed

section \<open>An admitted spec\<close>

declare matches.simps [simp del]

definition demo_admitted_spec :: openshift_ec2_spec where
  "demo_admitted_spec = zero_openshift_ec2_spec\<lparr>os_version := ''4.20.1''\<rparr>"

definition demo_cel :: cel_numbers where
  "demo_cel = \<lparr>cel_double_ge = (\<lambda>_ _. True), cel_isQuantity = (\<lambda>_. True), cel_quantity_ge = (\<lambda>_ _. True)\<rparr>"

definition node_class_of :: "openshift_ec2_spec \<Rightarrow> openshift_ec2_node_class" where
  "node_class_of s = object_meta.extend zero_object_meta \<lparr>onc_spec = s, onc_status = zero_openshift_ec2_status\<rparr>"

lemma onc_spec_node_class_of [simp]: "onc_spec (node_class_of s) = s"
  by (simp add: node_class_of_def object_meta.defs)

lemma version_admitted: "matches version_re ''4.20.1''"
  by code_simp

lemmas openshift_ec2_valid_defs =
  OpenshiftEC2NodeClassSpec_valid_def demo_admitted_spec_def zero_openshift_ec2_spec_def zero_metadata_options_def zero_kubelet_def
  MetadataOptions_valid_def KubeletConfiguration_valid_def enum_ok_def len_ok_def min_properties_def pods_ok_def percent_ok_def
  reserved_valid_def eviction_valid_def EvictionThreshold_valid_def soft_before_hard_def has_map_lookup sm_len_def

lemma demo_admitted: "OpenshiftEC2NodeClassSpec_valid cel demo_admitted_spec"
  by (simp add: openshift_ec2_valid_defs version_admitted)

section \<open>Properties\<close>

text \<open>
  C8: which OpenshiftEC2NodeClasses can be realised. For a spec that its own CRD admits, the
  EC2NodeClass that a successful reconcile writes is admitted by the AWS provider's CRD exactly when
  the spec and the platform are translatable (the conditions of \<open>ec2_translatable\<close>) and the AMI IDs
  have the form of AMI IDs: no other field of an admitted spec can make the write fail.
\<close>

theorem ec2_translation_admitted:
  assumes "OpenshiftEC2NodeClassSpec_valid cel (onc_spec nc)"
    and "reconcileEC2NodeClassRelease (ec2NodeClassSpec nc hcp) current version hcp s = Inr d"
  shows "ec2_admitted d \<longleftrightarrow>
    ec2_translatable (onc_spec nc) hcp \<and> length (ec_amiSelectorTerms d) \<le> 30 \<and>
    list_all (\<lambda>i. i \<noteq> [] \<and> contains (id_re ''ami-'') i) (ec_amiSelectorTerms d)"
proof -
  obtain u ids where d: "d = (ec2NodeClassSpec nc hcp)\<lparr>ec_userData := u, ec_amiSelectorTerms := ids\<rparr>" and "ids \<noteq> []"
    using assms(2) by (rule reconciled_release)
  moreover have "ec_amiSelectorTerms d = ids" by (simp add: d)
  ultimately show ?thesis using translation_admitted [OF assms(1)] by (simp add: admitted_iff_valid)
qed

theorem ec2_translation_admitted_witness:
  "\<exists>d. reconcileEC2NodeClassRelease (ec2NodeClassSpec (node_class_of demo_admitted_spec) demo_upgrading)
      (zero_ec2_spec\<lparr>ec_userData := Some ''old'', ec_amiSelectorTerms := [''ami-0'']\<rparr>) [] demo_upgrading demo_user_data = Inr d \<and>
    ec2_admitted d"
proof -
  let ?c = "zero_ec2_spec\<lparr>ec_userData := Some ''old'', ec_amiSelectorTerms := [''ami-0'']\<rparr>"
  have waits: "WaitsForControlPlaneUpgrade demo_upgrading []"
    by (simp add: WaitsForControlPlaneUpgrade_def isControlPlaneUpgrading_def demo_upgrading_def
        object_meta.defs CompletedUpdate_def)
  then obtain d where d: "reconcileEC2NodeClassRelease (ec2NodeClassSpec (node_class_of demo_admitted_spec) demo_upgrading)
      ?c [] demo_upgrading demo_user_data = Inr d" and ids: "ec_amiSelectorTerms d = [''ami-0'']"
    by (auto simp: reconcileEC2NodeClassRelease_def)
  have "contains (id_re ''ami-'') ''ami-0''" by (rule contains_match) code_simp
  moreover have "ec2_translatable demo_admitted_spec demo_upgrading"
    by (simp add: ec2_translatable_def demo_admitted_spec_def zero_openshift_ec2_spec_def zero_kubelet_def kubelet_translatable_def
        tags_translatable_def platform_tags_def demo_upgrading_def object_meta.defs)
  ultimately have "ec2_admitted d"
    using ec2_translation_admitted [of demo_cel "node_class_of demo_admitted_spec" demo_upgrading ?c "[]" demo_user_data d] d ids demo_admitted
    by simp
  with d show ?thesis by blast
qed

text \<open>
  C16: the sizes of an admitted block device that the provider's CRD accepts: up to 59000 GiB where the
  size is no multiple of 1024 GiB, and otherwise those whose number of TiB is at most 9, or 58, or has
  a first digit of at most 5 and a second one of at most 7.
\<close>

theorem volume_size_admitted:
  assumes "BlockDevice_valid b" "bd_volumeSizeGiB b \<noteq> 0"
  shows "ec2_BlockDevice_valid (karpenterBlockDeviceFromBlockDevice b) \<longleftrightarrow>
    (let n = sint (bd_volumeSizeGiB b); k = n div 1024
     in if n mod 1024 = 0 then k \<le> 9 \<or> k div 10 \<le> 5 \<and> k mod 10 \<le> 7 \<or> k = 58 else n \<le> 59000)"
proof -
  have "k \<le> 57 \<longleftrightarrow> k div 10 \<le> 5" if "k mod 10 \<le> 7" for k :: int
    using that by presburger
  then show ?thesis
    using block_device_admitted [OF assms(1)] assms(2) unfolding volume_size_ok_def Let_def by auto
qed

definition demo_device :: "int64 \<Rightarrow> block_device" where
  "demo_device n = \<lparr>bd_deleteOnTermination = [], bd_encrypted = [], bd_iops = None, bd_kmsKeyID = [],
     bd_snapshotID = [], bd_throughput = None, bd_volumeSizeGiB = n, bd_volumeType = []\<rparr>"

theorem volume_size_admitted_witness:
  "ec2_BlockDevice_valid (karpenterBlockDeviceFromBlockDevice (demo_device 17408)) \<and>
   \<not> ec2_BlockDevice_valid (karpenterBlockDeviceFromBlockDevice (demo_device 18432))"
proof -
  have "BlockDevice_valid (demo_device 17408)" "BlockDevice_valid (demo_device 18432)"
    by (simp_all add: demo_device_def BlockDevice_valid_def enum_ok_def len_ok_def)
  then show ?thesis
    using volume_size_admitted [of "demo_device 17408"] volume_size_admitted [of "demo_device 18432"]
    by (simp add: demo_device_def)
qed

section \<open>Admitted and not realised\<close>

definition unrealisable :: "openshift_ec2_spec \<Rightarrow> bool" where
  "unrealisable s \<longleftrightarrow>
     (\<forall>cel. OpenshiftEC2NodeClassSpec_valid cel s) \<and>
     (\<forall>hcp u ids. ids \<noteq> [] \<longrightarrow>
        \<not> ec2_admitted ((ec2NodeClassSpec (node_class_of s) hcp)\<lparr>ec_userData := u, ec_amiSelectorTerms := ids\<rparr>))"

lemma unrealisableI:
  assumes "\<And>cel. OpenshiftEC2NodeClassSpec_valid cel s" "\<And>hcp. \<not> ec2_translatable s hcp"
  shows "unrealisable s"
  using assms translation_admitted [of _ "node_class_of s"] by (auto simp: unrealisable_def admitted_iff_valid)

text \<open>A capacity reservation selected by its owner only.\<close>

lemma reservation_by_owner_unrealisable:
  "unrealisable (demo_admitted_spec\<lparr>os_capacityReservationSelectorTerms :=
     Some [\<lparr>crst_tags = None, crst_id = [], crst_ownerID = ''123456789012'', crst_instanceMatchCriteria = []\<rparr>]\<rparr>)"
proof (rule unrealisableI)
  have "matches owner_re ''123456789012''" by code_simp
  then show "OpenshiftEC2NodeClassSpec_valid cel (demo_admitted_spec\<lparr>os_capacityReservationSelectorTerms :=
      Some [\<lparr>crst_tags = None, crst_id = [], crst_ownerID = ''123456789012'', crst_instanceMatchCriteria = []\<rparr>]\<rparr>)" for cel
    by (simp add: openshift_ec2_valid_defs version_admitted terms_rule_def cr_exclusive_def CapacityReservationSelectorTerm_valid_def
        selector_tags_ok_def)
qed (simp add: ec2_translatable_def has_map_lookup)

text \<open>Volumes of 60000 GiB and of 18 TiB, between the minimum and the maximum of \<open>volumeSizeGiB\<close>.\<close>

definition with_volume :: "int64 \<Rightarrow> openshift_ec2_spec" where
  "with_volume n = demo_admitted_spec\<lparr>os_blockDeviceMappings :=
     Some [\<lparr>bdm_deviceName = [], bdm_ebs = demo_device n, bdm_rootVolume = []\<rparr>]\<rparr>"

lemma volume_unrealisable:
  assumes "1 \<le> sint n" "sint n \<le> 65536" "\<not> volume_size_ok (sint n)"
  shows "unrealisable (with_volume n)"
proof (rule unrealisableI)
  have "n \<noteq> 0" using assms(1) by auto
  with assms show "OpenshiftEC2NodeClassSpec_valid cel (with_volume n)" for cel
    by (simp add: with_volume_def demo_device_def openshift_ec2_valid_defs version_admitted BlockDeviceMapping_valid_def BlockDevice_valid_def
        RootVolumeDesignationRootVolume_def)
  from \<open>n \<noteq> 0\<close> assms show "\<not> ec2_translatable (with_volume n) hcp" for hcp
    by (simp add: with_volume_def demo_device_def ec2_translatable_def)
qed

lemma volumes_unrealisable: "unrealisable (with_volume 60000)" "unrealisable (with_volume (18 * 1024))"
  by (rule volume_unrealisable; simp add: volume_size_ok_def)+

text \<open>A grace period without a unit, which is no Go duration.\<close>

lemma grace_period_unrealisable:
  "unrealisable (demo_admitted_spec\<lparr>os_kubelet := zero_kubelet\<lparr>
     kc_evictionSoft := Some (fmap_of_list [(''memory.available'', ''1Gi'')]),
     kc_evictionSoftGracePeriod := Some (fmap_of_list [(''memory.available'', ''90'')])\<rparr>\<rparr>)" (is "unrealisable ?s")
proof (rule unrealisableI)
  show "OpenshiftEC2NodeClassSpec_valid cel ?s" for cel
    by (simp add: openshift_ec2_valid_defs version_admitted map_all_lookup fmlookup_of_list eviction_signals_def fcard.rep_eq fmap_nonempty)
  show "\<not> ec2_translatable ?s hcp" for hcp
    by (simp add: ParseDuration_examples ec2_translatable_def kubelet_translatable_def map_all_lookup)
qed

text \<open>An eviction threshold that is no quantity.\<close>

lemma eviction_threshold_unrealisable:
  "unrealisable (demo_admitted_spec\<lparr>os_kubelet := zero_kubelet\<lparr>
     kc_evictionHard := Some (fmap_of_list [(''memory.available'', ''1 GB'')])\<rparr>\<rparr>)" (is "unrealisable ?s")
proof (rule unrealisableI)
  show "OpenshiftEC2NodeClassSpec_valid cel ?s" for cel
    by (simp add: openshift_ec2_valid_defs version_admitted map_all_lookup fmlookup_of_list eviction_signals_def fcard.rep_eq fmap_nonempty)
  have "\<not> matches eviction_re ''1 GB''" by code_simp
  then show "\<not> ec2_translatable ?s hcp" for hcp
    by (simp add: ec2_translatable_def kubelet_translatable_def map_all_lookup)
qed

end
