(* ===== verification/Ec2_Defaulting.thy ===== *)
theory Ec2_Defaulting
  imports Ec2_Admission Ec2_Nodeclass
begin

text \<open>
  The defaults of the EC2NodeClass CRD against the reconcile that writes it: the API server fills in the
  metadata options, \<open>CreateOrUpdate\<close> compares what it stored with what the spec asks for, and which of
  the two is the case on every later reconcile.
\<close>

section \<open>A stored spec\<close>

lemma release_settled:
  assumes "reconcileEC2NodeClassRelease desired current version hcp s = Inr d"
    and "ec_userData stored = ec_userData d" "ec_amiSelectorTerms stored = ec_amiSelectorTerms d"
  shows "reconcileEC2NodeClassRelease desired stored version hcp s = Inr d"
  using assms by (auto simp: reconcileEC2NodeClassRelease_def Let_def split: if_splits sum.splits)

lemma mutate_settled:
  assumes "reconcileEC2NodeClassRelease (ec2NodeClassSpec nc hcp) current (os_version (onc_spec nc)) hcp s = Inr d"
    and "enc_spec x = ec2_defaults d" "ec2_mutate nc hcp s x = Inr x'"
  shows "enc_spec x' = d"
proof -
  have "reconcileEC2NodeClassRelease (ec2NodeClassSpec nc hcp) (enc_spec x) (os_version (onc_spec nc)) hcp s = Inr d"
    using assms(1) by (rule release_settled) (simp_all add: assms(2) ec2_defaults_def)
  with assms(3) show ?thesis
    by (auto simp: ec2_mutate_def SetControllerReference_def Let_def split: if_splits option.splits)
qed

definition metadata_complete :: "metadata_options \<Rightarrow> bool" where
  "metadata_complete m \<longleftrightarrow>
     mo_access m \<noteq> [] \<and> mo_httpIPProtocol m \<noteq> [] \<and> mo_httpPutResponseHopLimit m \<noteq> 0 \<and> mo_httpTokens m \<noteq> []"

lemma default_to_same: "default_to d x = x \<longleftrightarrow> x \<noteq> None"
  by (auto simp: default_to_def split: option.split)

lemma defaulted_same_iff:
  "ec_metadataOptions (ec2_defaults d) = ec_metadataOptions d \<longleftrightarrow>
     (case ec_metadataOptions d of
        None \<Rightarrow> False
      | Some m \<Rightarrow> eo_httpEndpoint m \<noteq> None \<and> eo_httpProtocolIPv6 m \<noteq> None \<and> eo_httpPutResponseHopLimit m \<noteq> None \<and>
          eo_httpTokens m \<noteq> None)"
proof (cases "ec_metadataOptions d")
  case (Some m)
  then show ?thesis by (cases m) (simp add: ec2_defaults_def default_to_same)
qed (simp add: ec2_defaults_def)

lemma enum_two:
  assumes "enum_ok [a, b] x" "a \<noteq> []" "b \<noteq> []"
  shows "(if x = a then Some u else if x = b then Some v else None) \<noteq> None \<longleftrightarrow> x \<noteq> []"
    and "(if x = b then Some v else if x = a then Some u else None) \<noteq> None \<longleftrightarrow> x \<noteq> []"
  using assms by (auto simp: enum_ok_def)

lemma defaulted_same:
  assumes "MetadataOptions_valid (os_metadataOptions s)" "ec_metadataOptions d = karpenterMetadataOptionsFromNodeClassSpec s"
  shows "ec_metadataOptions (ec2_defaults d) = ec_metadataOptions d \<longleftrightarrow> metadata_complete (os_metadataOptions s)"
proof (cases "karpenterMetadataOptionsFromNodeClassSpec s")
  case None
  moreover from this have "mo_access (os_metadataOptions s) = []"
    by (simp add: karpenterMetadataOptionsFromNodeClassSpec_def Let_def split: if_splits)
  ultimately show ?thesis
    using assms(2) unfolding defaulted_same_iff metadata_complete_def by simp
next
  case (Some m)
  let ?m = "os_metadataOptions s"
  note v = assms(1) [unfolded MetadataOptions_valid_def MetadataAccess_enum_def MetadataHTTPProtocol_enum_def
      MetadataHTTPTokensState_enum_def]
  have m: "eo_httpEndpoint m = (if mo_access ?m = MetadataAccessHTTPEndpoint then Some ''enabled''
            else if mo_access ?m = MetadataAccessNone then Some ''disabled'' else None)"
    "eo_httpProtocolIPv6 m = (if mo_httpIPProtocol ?m = MetadataHTTPProtocolIPv6 then Some ''enabled''
            else if mo_httpIPProtocol ?m = MetadataHTTPProtocolIPv4 then Some ''disabled'' else None)"
    "eo_httpPutResponseHopLimit m = (if mo_httpPutResponseHopLimit ?m \<noteq> 0 then Some (mo_httpPutResponseHopLimit ?m) else None)"
    "eo_httpTokens m = (if mo_httpTokens ?m = MetadataHTTPTokensStateRequired then Some ''required''
            else if mo_httpTokens ?m = MetadataHTTPTokensStateOptional then Some ''optional'' else None)"
    using Some unfolding karpenterMetadataOptionsFromNodeClassSpec_def Let_def
    by (simp_all only: split: if_splits, auto)
  have "eo_httpEndpoint m \<noteq> None \<longleftrightarrow> mo_access ?m \<noteq> []"
    unfolding m using v by (intro enum_two(1)) (simp_all add: MetadataAccessHTTPEndpoint_def MetadataAccessNone_def)
  moreover have "eo_httpProtocolIPv6 m \<noteq> None \<longleftrightarrow> mo_httpIPProtocol ?m \<noteq> []"
    unfolding m using v by (intro enum_two(2)) (simp_all add: MetadataHTTPProtocolIPv4_def MetadataHTTPProtocolIPv6_def)
  moreover have "eo_httpTokens m \<noteq> None \<longleftrightarrow> mo_httpTokens ?m \<noteq> []"
    unfolding m using v by (intro enum_two(1)) (simp_all add: MetadataHTTPTokensStateRequired_def MetadataHTTPTokensStateOptional_def)
  moreover have "eo_httpPutResponseHopLimit m \<noteq> None \<longleftrightarrow> mo_httpPutResponseHopLimit ?m \<noteq> 0"
    unfolding m by simp
  ultimately show ?thesis
    unfolding defaulted_same_iff unfolding assms(2) Some metadata_complete_def by simp
qed

lemma norm_ec2_spec_same:
  assumes "d'\<lparr>ec_metadataOptions := None\<rparr> = d\<lparr>ec_metadataOptions := None\<rparr>"
  shows "norm_ec2_spec d' = norm_ec2_spec d \<longleftrightarrow> ec_metadataOptions d' = ec_metadataOptions d"
proof
  assume "norm_ec2_spec d' = norm_ec2_spec d"
  then have "ec_metadataOptions (norm_ec2_spec d') = ec_metadataOptions (norm_ec2_spec d)" by simp
  then show "ec_metadataOptions d' = ec_metadataOptions d" by (simp add: norm_ec2_spec_def)
next
  assume "ec_metadataOptions d' = ec_metadataOptions d"
  with assms have "d' = d" by (cases d'; cases d) simp
  then show "norm_ec2_spec d' = norm_ec2_spec d" by simp
qed

lemma k_norm_EC2_spec:
  fixes x :: ec2_node_class
  shows "k_norm EC2 x = k_norm EC2 (x\<lparr>enc_spec := d\<rparr>) \<longleftrightarrow> norm_ec2_spec (enc_spec x) = norm_ec2_spec d"
  by (cases x) (auto simp: EC2_def norm_ec2_node_class_def norm_meta_def)

section \<open>Properties\<close>

text \<open>
  C34: a later reconcile of a stored EC2NodeClass, with the defaults of its CRD filled in. It asks for the
  same spec as before, and finds it different from the stored one, so that it sends an update, unless the
  OpenshiftEC2NodeClass sets all four metadata options.
\<close>

theorem defaulted_spec_updated:
  assumes "reconcileEC2NodeClassRelease (ec2NodeClassSpec nc hcp) current (os_version (onc_spec nc)) hcp s = Inr d"
    and "MetadataOptions_valid (os_metadataOptions (onc_spec nc))"
    and "enc_spec x = ec2_defaults d" "ec2_mutate nc hcp s x = Inr x'" "ownerReferences x' = ownerReferences x"
  shows "enc_spec x' = d \<and> (k_norm EC2 x = k_norm EC2 x' \<longleftrightarrow> metadata_complete (os_metadataOptions (onc_spec nc)))"
proof -
  have d: "enc_spec x' = d" using assms(1,3,4) by (rule mutate_settled)
  obtain spec where "SetControllerReference ''karpenter.hypershift.openshift.io/v1'' ''OpenshiftEC2NodeClass'' nc (x\<lparr>enc_spec := spec\<rparr>) = Inr x'"
    using assms(4) by (auto simp: ec2_mutate_def split: sum.splits)
  from SetControllerReference_Inr(1) [OF this] d assms(5) have "x' = x\<lparr>enc_spec := d\<rparr>" by auto
  moreover have "ec_metadataOptions d = karpenterMetadataOptionsFromNodeClassSpec (onc_spec nc)"
    using assms(1) by (rule reconciled_release) (simp add: ec2NodeClassSpec_def Let_def)
  ultimately show ?thesis
    using d defaulted_same [OF assms(2)] norm_ec2_spec_same [OF defaults_kept(2)]
    by (simp add: k_norm_EC2_spec assms(3))
qed

definition demo_stored_spec :: ec2_spec where
  "demo_stored_spec =
     (ec2NodeClassSpec demo_nodeclass demo_upgrading)\<lparr>ec_userData := Some ''old'', ec_amiSelectorTerms := [''ami-0'']\<rparr>"

definition demo_stored :: ec2_node_class where
  "demo_stored = demo_ec2
     \<lparr>enc_spec := ec2_defaults demo_stored_spec,
      ownerReferences := [controller_ref ''karpenter.hypershift.openshift.io/v1'' ''OpenshiftEC2NodeClass'' demo_nodeclass]\<rparr>"

theorem defaulted_spec_updated_witness:
  "\<exists>x'. ec2_mutate demo_nodeclass demo_upgrading demo_user_data demo_stored = Inr x' \<and> enc_spec x' = demo_stored_spec \<and>
    k_norm EC2 demo_stored \<noteq> k_norm EC2 x'"
proof -
  have waits: "WaitsForControlPlaneUpgrade demo_upgrading (os_version (onc_spec demo_nodeclass))"
    by (simp add: WaitsForControlPlaneUpgrade_def isControlPlaneUpgrading_def demo_upgrading_def
        object_meta.defs CompletedUpdate_def demo_nodeclass_def zero_openshift_ec2_spec_def)
  then have settled: "reconcileEC2NodeClassRelease (ec2NodeClassSpec demo_nodeclass demo_upgrading) (enc_spec demo_stored)
      (os_version (onc_spec demo_nodeclass)) demo_upgrading demo_user_data = Inr demo_stored_spec"
    by (simp add: reconcileEC2NodeClassRelease_def demo_stored_def ec2_defaults_def demo_stored_spec_def)
  have same: "referSameObject r r" if "r = controller_ref ''karpenter.hypershift.openshift.io/v1'' ''OpenshiftEC2NodeClass'' demo_nodeclass" for r
    unfolding that by (simp add: referSameObject_def controller_ref_def api_group_def)
  obtain x' where x': "ec2_mutate demo_nodeclass demo_upgrading demo_user_data demo_stored = Inr x'"
    "ownerReferences x' = ownerReferences demo_stored"
    using settled same
    by (simp add: ec2_mutate_def SetControllerReference_def validateOwner_def GetControllerOf_def demo_stored_def
        demo_nodeclass_def object_meta.defs zero_object_meta_def controller_ref_def)
  moreover have "MetadataOptions_valid (os_metadataOptions (onc_spec demo_nodeclass))"
    "\<not> metadata_complete (os_metadataOptions (onc_spec demo_nodeclass))"
    by (simp_all add: demo_nodeclass_def object_meta.defs zero_openshift_ec2_spec_def zero_metadata_options_def
        MetadataOptions_valid_def enum_ok_def metadata_complete_def)
  moreover have "enc_spec demo_stored = ec2_defaults demo_stored_spec" by (simp add: demo_stored_def)
  ultimately show ?thesis
    using defaulted_spec_updated [OF settled] by blast
qed

end
