(* ===== verification/Azure_Admission.thy ===== *)
theory Azure_Admission
  imports Ec2_Admission Azure_Nodeclass
begin

text \<open>
  What the API server admits on Azure: the validation of the OpenShiftAzureNodeClass (the markers of
  \<open>api/karpenter/v1alpha1\<close>) and of the AKSNodeClass (the CRD below \<open>pkg/assets/azure\<close>), as predicates over the
  decoded specs, with the conventions of \<open>Ec2_Schema\<close>, and their composition with the translation.
\<close>

section \<open>Patterns\<close>

text \<open>\<open>[^/]\<close>\<close>

definition not_slash :: "(char \<times> char) list" where
  "not_slash = [(CHR 0x00, CHR ''.''), (CHR ''0'', CHR 0xFF)]"

definition subnet_id_re :: re where
  "subnet_id_re =
     seqs [lit ''/subscriptions/'', plus1 (RCls not_slash), lit ''/resourceGroups/'', plus1 (RCls not_slash),
       lit ''/providers/Microsoft.Network/virtualNetworks/'', plus1 (RCls not_slash), lit ''/subnets/'', plus1 (RCls not_slash)]"

definition hex :: "(char \<times> char) list" where
  "hex = [(CHR ''0'', CHR ''9''), (CHR ''a'', CHR ''f''), (CHR ''A'', CHR ''F'')]"

definition uuid_re :: re where
  "uuid_re =
     seqs [times 8 (RCls hex), lit ''-'', times 3 (RSeq (times 4 (RCls hex)) (lit ''-'')), times 12 (RCls hex)]"

definition alnum :: "(char \<times> char) list" where
  "alnum = [(CHR ''a'', CHR ''z''), (CHR ''A'', CHR ''Z''), (CHR ''0'', CHR ''9'')]"

definition singles :: "string \<Rightarrow> (char \<times> char) list" where
  "singles = map (\<lambda>c. (c, c))"

text \<open>\<open>[a-zA-Z0-9-_\(\)\.]{1,90}\<close>\<close>

definition resource_group_re :: re where
  "resource_group_re = RSeq (RCls (alnum @ singles ''-_().'')) (upto_times 89 (RCls (alnum @ singles ''-_().'')))"

text \<open>\<open>[a-zA-Z0-9-_\.]{2,64}\<close>\<close>

definition vnet_re :: re where
  "vnet_re = RSeq (times 2 (RCls (alnum @ singles ''-_.''))) (upto_times 62 (RCls (alnum @ singles ''-_.'')))"

text \<open>\<open>[a-zA-Z0-9][a-zA-Z0-9-_\.]{0,79}\<close>\<close>

definition subnet_name_re :: re where
  "subnet_name_re = RSeq (RCls alnum) (upto_times 79 (RCls (alnum @ singles ''-_.'')))"

text \<open>A literal under \<open>(?i)\<close>, with the case folding of ASCII.\<close>

definition ci_lit :: "string \<Rightarrow> re" where
  "ci_lit s = foldr (\<lambda>c r. RSeq (RCls (singles [c, lower_char c, upper_char c])) r) s REps"

definition aks_subnet_re :: re where
  "aks_subnet_re =
     seqs [ci_lit ''/subscriptions/'', plus1 (RCls not_slash), ci_lit ''/resourceGroups/'',
       RSeq (upto_times 89 (RCls (alnum @ singles ''_-().''))) (RCls (alnum @ singles ''_-()'')),
       ci_lit ''/providers/Microsoft.Network/virtualNetworks/'', plus1 (RCls not_slash), ci_lit ''/subnets/'', plus1 (RCls not_slash)]"

section \<open>OpenShiftAzureNodeClass\<close>

text \<open>\<open>split\<close> of CEL at a one-byte separator\<close>

fun split_at :: "char \<Rightarrow> string \<Rightarrow> string list" where
  "split_at d [] = [[]]"
| "split_at d (c # s) =
     (if c = d then [] # split_at d s
      else case split_at d s of [] \<Rightarrow> [[c]] | w # ws \<Rightarrow> (c # w) # ws)"

text \<open>The rules on the parts are errors where the first rule fails, which rejects the value as well.\<close>

definition VNETSubnetID_valid :: "string \<Rightarrow> bool" where
  "VNETSubnetID_valid s \<longleftrightarrow>
     len_ok 355 s \<and>
     (let p = split_at (CHR ''/'') s in
      length p = 11 \<and> matches subnet_id_re s \<and>
      matches uuid_re (p ! 2) \<and>
      matches resource_group_re (p ! 4) \<and> \<not> has_suffix (p ! 4) ''.'' \<and>
      matches vnet_re (p ! 8) \<and> \<not> has_suffix (p ! 8) ''.'' \<and> \<not> has_suffix (p ! 8) ''-'' \<and>
      matches subnet_name_re (p ! 10) \<and> \<not> has_suffix (p ! 10) ''.'' \<and> \<not> has_suffix (p ! 10) ''-'')"

definition azure_tag_valid :: "string \<Rightarrow> string \<Rightarrow> bool" where
  "azure_tag_valid k v \<longleftrightarrow>
     1 \<le> length k \<and> length k \<le> 512 \<and> \<not> contains (one_of ''<>%&?/'') k \<and> CHR 0x5C \<notin> set k \<and> length v \<le> 256 \<and>
     \<not> has_prefix (to_lower k) ''karpenter.sh_'' \<and> \<not> has_prefix (to_lower k) ''karpenter.azure.com_'' \<and>
     to_lower k \<noteq> ''compute.aks.billing''"

definition AzureHostEncryptionDisabled :: string where
  "AzureHostEncryptionDisabled = ''Disabled''"

definition AzureHostEncryption_enum :: "string list" where
  "AzureHostEncryption_enum = [AzureHostEncryptionEnabled, AzureHostEncryptionDisabled]"

definition OpenShiftAzureNodeClassSpec_valid :: "cel_numbers \<Rightarrow> azure_spec \<Rightarrow> bool" where
  "OpenShiftAzureNodeClassSpec_valid cel s \<longleftrightarrow>
     (az_vnetSubnetID s \<noteq> [] \<longrightarrow> VNETSubnetID_valid (az_vnetSubnetID s)) \<and>
     (az_osDiskSizeGiB s \<noteq> 0 \<longrightarrow> 30 \<le> sint (az_osDiskSizeGiB s) \<and> sint (az_osDiskSizeGiB s) \<le> 2048) \<and>
     min_properties (az_tags s) \<and> sm_len (az_tags s) \<le> 47 \<and> map_all azure_tag_valid (az_tags s) \<and>
     KubeletConfiguration_valid cel (az_kubelet s) \<and>
     enum_ok AzureHostEncryption_enum (az_hostEncryption s) \<and>
     (az_version s \<noteq> [] \<longrightarrow> 5 \<le> length (az_version s) \<and> len_ok 64 (az_version s) \<and> matches version_re (az_version s))"

section \<open>AKSNodeClass\<close>

definition aks_tag_valid :: "string \<Rightarrow> string \<Rightarrow> bool" where
  "aks_tag_valid k v \<longleftrightarrow>
     length k \<le> 512 \<and> \<not> contains (one_of ''<>%&?'') k \<and> CHR 0x5C \<notin> set k \<and> length v \<le> 256"

definition MarketplaceImage_valid :: "marketplace_image \<Rightarrow> bool" where
  "MarketplaceImage_valid i \<longleftrightarrow> mi_publisher i \<noteq> [] \<and> mi_offer i \<noteq> [] \<and> mi_sku i \<noteq> [] \<and> mi_version i \<noteq> []"

definition AKSNodeClassSpec_valid :: "aks_spec \<Rightarrow> bool" where
  "AKSNodeClassSpec_valid s \<longleftrightarrow>
     optional (\<lambda>f. f \<in> {''Ubuntu'', ''Ubuntu2204'', ''Ubuntu2404'', ''AzureLinux''}) (ak_imageFamily s) \<and>
     optional MarketplaceImage_valid (ak_marketplaceImage s) \<and>
     optional (\<lambda>v. 30 \<le> sint v \<and> sint v \<le> 2048) (ak_osDiskSizeGB s) \<and>
     map_all aks_tag_valid (ak_tags s) \<and>
     optional (len_ok 65536) (ak_userData s) \<and>
     optional (matches aks_subnet_re) (ak_vnetSubnetID s) \<and>
     ak_unmanaged s = []"

text \<open>The defaults of the CRD, filled in before the validation.\<close>

definition aks_defaults :: "aks_spec \<Rightarrow> aks_spec" where
  "aks_defaults s =
     s\<lparr>ak_imageFamily := default_to ''Ubuntu'' (ak_imageFamily s), ak_osDiskSizeGB := default_to 128 (ak_osDiskSizeGB s)\<rparr>"

definition aks_admitted :: "aks_spec \<Rightarrow> bool" where
  "aks_admitted s \<longleftrightarrow> AKSNodeClassSpec_valid (aks_defaults s)"

section \<open>Subnet IDs\<close>

lemma split_at_Nil [simp]: "split_at d s \<noteq> []"
  by (induction s) (auto split: list.splits)

lemma split_at_one [simp]: "d \<notin> set w \<Longrightarrow> split_at d w = [w]"
  by (induction w) auto

lemma split_at_append [simp]: "d \<notin> set w \<Longrightarrow> split_at d (w @ d # s) = w # split_at d s"
  by (induction w) (auto split: list.splits)

lemma in_class_append: "in_class c (rs @ ss) \<longleftrightarrow> in_class c rs \<or> in_class c ss"
  by (simp add: in_class_def)

lemma in_class_singles' [simp]: "in_class c (singles ds) \<longleftrightarrow> c \<in> set ds"
  by (simp add: singles_def in_class_singles)

lemma not_slash_iff: "in_class c not_slash \<longleftrightarrow> c \<noteq> CHR ''/''"
proof -
  have "(of_char (CHR ''/'') :: nat) = 47" by simp
  then have "(of_char c :: nat) = 47 \<longleftrightarrow> c = CHR ''/''" by (metis of_char_eq_iff)
  moreover have "(of_char c :: nat) \<le> 255" using nat_of_char_less_256 [of c] by linarith
  ultimately show ?thesis by (auto simp: not_slash_def in_class_def in_range_def)
qed

lemma all_not_slash: "all_in not_slash s \<longleftrightarrow> CHR ''/'' \<notin> set s"
  by (auto simp: list_all_iff not_slash_iff)

lemma ci_lit_self: "s \<in> lang (ci_lit s)"
proof (induction s)
  case (Cons c s)
  have "ci_lit (c # s) = RSeq (RCls (singles [c, lower_char c, upper_char c])) (ci_lit s)" by (simp add: ci_lit_def)
  with Cons show ?case by (simp add: lang_RSeq_cls del: lang.simps(4))
qed (simp add: ci_lit_def)

lemma lang_seqsI: "u \<in> lang r \<Longrightarrow> v \<in> lang (seqs rs) \<Longrightarrow> u @ v \<in> lang (seqs (r # rs))"
  by (auto simp: seqs_def)

lemma lang_seqsE:
  assumes "s \<in> lang (seqs (r # rs))"
  obtains u v where "s = u @ v" "u \<in> lang r" "v \<in> lang (seqs rs)"
  using assms by (auto simp: seqs_def)

lemma lang_seqs_Nil: "s \<in> lang (seqs []) \<longleftrightarrow> s = []"
  by (simp add: seqs_def)

lemma subnet_id_parts:
  assumes "matches subnet_id_re s"
  obtains a b c d where
    "s = ''/subscriptions/'' @ a @ ''/resourceGroups/'' @ b @ ''/providers/Microsoft.Network/virtualNetworks/'' @ c @ ''/subnets/'' @ d"
    "CHR ''/'' \<notin> set a" "a \<noteq> []" "CHR ''/'' \<notin> set b" "CHR ''/'' \<notin> set c" "c \<noteq> []" "CHR ''/'' \<notin> set d" "d \<noteq> []"
proof -
  from assms have "s \<in> lang subnet_id_re" by (simp add: matches_lang)
  then show ?thesis
    unfolding subnet_id_re_def
    by (elim lang_seqsE) (rule that, auto simp: lang_seqs_Nil all_not_slash)
qed

lemma resource_group_last:
  assumes "matches resource_group_re b" "\<not> has_suffix b ''.''"
  shows "b \<in> lang (RSeq (upto_times 89 (RCls (alnum @ singles ''_-().''))) (RCls (alnum @ singles ''_-()'')))"
proof -
  from assms(1) obtain c t where b: "b = c # t" and t: "length t \<le> 89" "all_in (alnum @ singles ''-_().'') b"
    by (auto simp: matches_lang resource_group_re_def lang_RSeq_cls simp del: lang.simps(4))
  then have len: "length (butlast b) \<le> 89" and split: "b = butlast b @ [last b]" by simp_all
  have "last b \<noteq> CHR ''.''"
  proof
    assume "last b = CHR ''.''"
    with split have "b = butlast b @ ''.''" by simp
    then have "has_suffix b ''.''" unfolding has_suffix_def by (metis append_eq_conv_conj diff_add_inverse2 le_add2 length_append)
    with assms(2) show False by simp
  qed
  moreover have "all_in (alnum @ singles ''-_().'') (butlast b @ [last b])" using t(2) split by simp
  ultimately have "butlast b \<in> lang (upto_times 89 (RCls (alnum @ singles ''_-().'')))" "[last b] \<in> lang (RCls (alnum @ singles ''_-()''))"
    using len by (auto simp: in_class_append list_all_iff)
  with split show ?thesis unfolding lang.simps(4) by blast
qed

lemma subnet_id_admitted:
  assumes "VNETSubnetID_valid s"
  shows "matches aks_subnet_re s"
proof -
  from assms have "matches subnet_id_re s" by (simp add: VNETSubnetID_valid_def Let_def)
  then obtain a b c d where s:
    "s = ''/subscriptions/'' @ a @ ''/resourceGroups/'' @ b @ ''/providers/Microsoft.Network/virtualNetworks/'' @ c @ ''/subnets/'' @ d"
    and parts: "CHR ''/'' \<notin> set a" "a \<noteq> []" "CHR ''/'' \<notin> set b" "CHR ''/'' \<notin> set c" "c \<noteq> []" "CHR ''/'' \<notin> set d" "d \<noteq> []"
    by (rule subnet_id_parts)
  have "split_at (CHR ''/'') s ! 4 = b"
    using parts unfolding s by simp
  with assms have "matches resource_group_re b" "\<not> has_suffix b ''.''"
    by (simp_all add: VNETSubnetID_valid_def Let_def)
  then have "b \<in> lang (RSeq (upto_times 89 (RCls (alnum @ singles ''_-().''))) (RCls (alnum @ singles ''_-()'')))"
    by (rule resource_group_last)
  moreover have "a \<in> lang (plus1 (RCls not_slash))" "c \<in> lang (plus1 (RCls not_slash))" "d @ [] \<in> lang (seqs [plus1 (RCls not_slash)])"
    using parts by (simp_all add: all_not_slash, simp add: seqs_def all_not_slash)
  ultimately show ?thesis
    unfolding matches_lang aks_subnet_re_def s by (intro lang_seqsI ci_lit_self) simp_all
qed

section \<open>The other fields\<close>

lemma contains_one_of: "contains (one_of cs) s \<longleftrightarrow> set s \<inter> set cs \<noteq> {}"
  unfolding one_of_def contains_cls in_class_singles by blast

lemma azure_tag_admitted: "azure_tag_valid k v \<Longrightarrow> aks_tag_valid k v"
  by (auto simp: azure_tag_valid_def aks_tag_valid_def contains_one_of)

lemma azure_tags_admitted: "map_all azure_tag_valid m \<Longrightarrow> map_all aks_tag_valid m"
  by (simp add: map_all_lookup azure_tag_admitted)

lemma released_image_valid:
  assumes "marketplaceImageFromUserDataSecret s = Inr i"
  shows "MarketplaceImage_valid i"
  using assms by (auto simp: marketplaceImageFromUserDataSecret_def MarketplaceImage_valid_def split: option.splits if_splits)

text \<open>The translation of an admitted spec, with any admitted image.\<close>

lemma aks_translation_admitted:
  assumes "OpenShiftAzureNodeClassSpec_valid cel spec" "optional MarketplaceImage_valid i"
  shows "AKSNodeClassSpec_valid ((aksNodeClassSpec spec)\<lparr>ak_userData := u, ak_marketplaceImage := i\<rparr>) \<longleftrightarrow> optional (len_ok 65536) u"
proof -
  have "optional (matches aks_subnet_re) (ptrIfNonEmpty (az_vnetSubnetID spec))"
    using assms(1) by (auto simp: OpenShiftAzureNodeClassSpec_valid_def ptrIfNonEmpty_def intro: subnet_id_admitted)
  moreover have "map_all aks_tag_valid (az_tags spec)"
    using assms(1) azure_tags_admitted by (simp add: OpenShiftAzureNodeClassSpec_valid_def)
  ultimately show ?thesis
    using assms by (auto simp: AKSNodeClassSpec_valid_def aksNodeClassSpec_def OpenShiftAzureNodeClassSpec_valid_def
        UbuntuImageFamily_def defaultOSDiskSizeGiB_def)
qed

lemma aks_defaults_same: "ak_imageFamily s \<noteq> None \<Longrightarrow> ak_osDiskSizeGB s \<noteq> None \<Longrightarrow> aks_defaults s = s"
  by (cases s) (auto simp: aks_defaults_def default_to_def)

lemma reconciled_aks_release:
  assumes "reconcileAKSNodeClassRelease desired current version hcp s = Inr d"
  obtains (kept) "WaitsForControlPlaneUpgrade hcp version" "ak_userData current \<noteq> None" "ak_marketplaceImage current \<noteq> None"
      "d = desired\<lparr>ak_userData := ak_userData current, ak_marketplaceImage := ak_marketplaceImage current\<rparr>"
  | (fresh) i where "marketplaceImageFromUserDataSecret s = Inr i"
      "\<not> (WaitsForControlPlaneUpgrade hcp version \<and> ak_userData current \<noteq> None \<and> ak_marketplaceImage current \<noteq> None)"
      "d = desired\<lparr>ak_userData := Some (sm_get (sec_data s) ''value''), ak_marketplaceImage := Some i\<rparr>"
  using assms by (auto simp: reconcileAKSNodeClassRelease_def split: if_splits sum.splits)

section \<open>An admitted spec\<close>

definition demo_subnet_id :: string where
  "demo_subnet_id = ''/subscriptions/12345678-1234-1234-1234-123456789abc/resourceGroups/rg/providers/Microsoft.Network/virtualNetworks/vn/subnets/s''"

definition demo_admitted_azure :: azure_spec where
  "demo_admitted_azure = zero_azure_spec\<lparr>az_vnetSubnetID := demo_subnet_id, az_osDiskSizeGiB := 2048,
     az_tags := Some (fmap_of_list [(''team'', ''a/b'')])\<rparr>"

lemma demo_subnet_id_valid: "VNETSubnetID_valid demo_subnet_id"
proof -
  have parts: "split_at (CHR ''/'') demo_subnet_id = [[], ''subscriptions'', ''12345678-1234-1234-1234-123456789abc'',
      ''resourceGroups'', ''rg'', ''providers'', ''Microsoft.Network'', ''virtualNetworks'', ''vn'', ''subnets'', ''s'']"
    by (simp add: demo_subnet_id_def)
  have "matches subnet_id_re demo_subnet_id" by code_simp
  moreover have "matches uuid_re ''12345678-1234-1234-1234-123456789abc''" by code_simp
  moreover have "matches resource_group_re ''rg''" by code_simp
  moreover have "matches vnet_re ''vn''" by code_simp
  moreover have "matches subnet_name_re ''s''" by code_simp
  ultimately show ?thesis
    by (simp add: VNETSubnetID_valid_def parts len_ok_def has_suffix_def) (simp add: demo_subnet_id_def)
qed

lemma demo_admitted_azure_valid: "OpenShiftAzureNodeClassSpec_valid cel demo_admitted_azure"
proof -
  have "azure_tag_valid ''team'' ''a/b''"
    unfolding azure_tag_valid_def contains_one_of by code_simp
  then have "map_all azure_tag_valid (Some (fmap_of_list [(''team'', ''a/b'')]))"
    by (simp add: map_all_lookup fmlookup_of_list)
  moreover have "sm_len (Some (fmap_of_list [(''team'', ''a/b'')])) \<le> 47"
    using sm_len_of_list [of "[(''team'', ''a/b'')]"] by simp
  moreover have "sm_len None = 0" by (simp add: sm_len_def)
  ultimately show ?thesis
    by (simp add: OpenShiftAzureNodeClassSpec_valid_def demo_admitted_azure_def zero_azure_spec_def demo_subnet_id_valid
        zero_kubelet_def KubeletConfiguration_valid_def enum_ok_def min_properties_def pods_ok_def percent_ok_def
        reserved_valid_def eviction_valid_def soft_before_hard_def has_map_lookup fmap_nonempty fmlookup_of_list)
qed

section \<open>Properties\<close>

text \<open>
  C9: every OpenShiftAzureNodeClass that its CRD admits is realised, up to the size of the ignition
  user data. The AKSNodeClass that a successful reconcile writes, over a new or an admitted one, is
  admitted by the CRD of the Azure provider exactly when the user data it takes from the Secret has at
  most 65536 bytes or the release of the current AKSNodeClass is kept; and the defaults of that CRD
  leave what is written as it is, so that a later reconcile finds its own spec.
\<close>

theorem azure_translation_admitted:
  assumes "OpenShiftAzureNodeClassSpec_valid cel spec" "AKSNodeClassSpec_valid current"
    and "reconcileAKSNodeClassRelease (aksNodeClassSpec spec) current version hcp s = Inr d"
  shows "aks_defaults d = d \<and>
    (aks_admitted d \<longleftrightarrow>
       WaitsForControlPlaneUpgrade hcp version \<and> ak_userData current \<noteq> None \<and> ak_marketplaceImage current \<noteq> None \<or>
       length (sm_get (sec_data s) ''value'') \<le> 65536)"
  using assms(3)
proof (cases rule: reconciled_aks_release)
  case kept
  have "optional MarketplaceImage_valid (ak_marketplaceImage current)" "optional (len_ok 65536) (ak_userData current)"
    using assms(2) by (simp_all add: AKSNodeClassSpec_valid_def)
  then have "AKSNodeClassSpec_valid d"
    using aks_translation_admitted [OF assms(1)] by (simp add: kept(4))
  moreover have "aks_defaults d = d"
    by (rule aks_defaults_same) (simp_all add: kept(4) aksNodeClassSpec_def)
  ultimately show ?thesis using kept(1-3) by (simp add: aks_admitted_def)
next
  case (fresh i)
  have "AKSNodeClassSpec_valid d \<longleftrightarrow> length (sm_get (sec_data s) ''value'') \<le> 65536"
    using aks_translation_admitted [OF assms(1), of "Some i"] released_image_valid [OF fresh(1)] by (simp add: fresh(3) len_ok_def)
  moreover have "aks_defaults d = d"
    by (rule aks_defaults_same) (simp_all add: fresh(3) aksNodeClassSpec_def)
  ultimately show ?thesis unfolding aks_admitted_def using fresh(2) by argo
qed

theorem azure_translation_admitted_witness:
  "\<exists>d. reconcileAKSNodeClassRelease (aksNodeClassSpec demo_admitted_azure) zero_aks_spec [] demo_upgrading demo_azure_secret = Inr d \<and>
    aks_defaults d = d \<and> aks_admitted d"
proof -
  obtain d where d: "reconcileAKSNodeClassRelease (aksNodeClassSpec demo_admitted_azure) zero_aks_spec [] demo_upgrading demo_azure_secret = Inr d"
    by (simp add: reconcileAKSNodeClassRelease_def demo_azure_resolves zero_aks_spec_def)
  have "AKSNodeClassSpec_valid zero_aks_spec"
    by (simp add: AKSNodeClassSpec_valid_def zero_aks_spec_def)
  moreover have "length (sm_get (sec_data demo_azure_secret) ''value'') \<le> 65536"
    by (simp add: demo_azure_secret_def object_meta.defs fmlookup_of_list)
  ultimately show ?thesis
    using d azure_translation_admitted [of demo_cel demo_admitted_azure zero_aks_spec "[]" demo_upgrading demo_azure_secret d] demo_admitted_azure_valid
    by blast
qed

end
