(* ===== verification/Wiring.thy ===== *)
theory Wiring
  imports Operator_Setup
begin

text \<open>
  Which cluster the clients and caches of each controller talk to: the \<open>NewController\<close> functions of
  \<open>pkg/controllers\<close> with what \<open>SetupWithManager\<close> adds, the calls their reconcilers make through each field, and
  the source of each watch. A client or a cache is the cluster it was made for; a nil one is \<open>None\<close>. The worlds
  of the other theories have one store per kind: here each kind is shown to be read and written in one cluster.
\<close>

section \<open>Clusters\<close>

text \<open>The cluster of the manager's own kube configuration, and the second one of a management cluster start.\<close>

datatype cluster_ref = OwnCluster | HostedCluster

type_synonym conn = "cluster_ref option"

text \<open>\<open>GetClient\<close> and \<open>GetCache\<close> of the manager, and of a hosted cluster that is not nil.\<close>

definition mgr_conn :: conn where
  "mgr_conn = Some OwnCluster"

section \<open>Controllers\<close>

record crd_ControllerConfig =
  crc_Namespace :: string
  crc_CRDs :: "crd list"
  crc_HostedCluster :: conn

record crd_Controller =
  cr_targetClient :: conn
  cr_targetCache :: conn
  cr_config :: crd_ControllerConfig

definition crd_NewController :: "crd_ControllerConfig \<Rightarrow> crd_Controller" where
  "crd_NewController cfg =
     (let (targetClient, targetCache) =
        (case crc_HostedCluster cfg of None \<Rightarrow> (mgr_conn, mgr_conn) | Some h \<Rightarrow> (Some h, Some h))
      in \<lparr>cr_targetClient = targetClient, cr_targetCache = targetCache, cr_config = cfg\<rparr>)"

record default_ControllerConfig =
  dfc_HostedCluster :: conn
  dfc_Namespace :: string
  dfc_Provider :: "hcp_provider option"

record default_Controller =
  df_config :: default_ControllerConfig
  df_hostedCache :: conn
  df_hostedClient :: conn
  df_managementClient :: conn

definition default_NewController :: "default_ControllerConfig \<Rightarrow> default_Controller" where
  "default_NewController cfg =
     (let controller = \<lparr>df_config = cfg, df_hostedCache = None, df_hostedClient = None, df_managementClient = mgr_conn\<rparr> in
      if dfc_HostedCluster cfg \<noteq> None
      then controller\<lparr>df_hostedClient := dfc_HostedCluster cfg, df_hostedCache := dfc_HostedCluster cfg\<rparr>
      else controller)"

record EC2NodeClassReconciler =
  er_namespace :: string
  er_hostedCluster :: conn
  er_managementClient :: conn
  er_hostedClient :: conn

definition NewEC2NodeClassReconciler :: "conn \<Rightarrow> string \<Rightarrow> EC2NodeClassReconciler" where
  "NewEC2NodeClassReconciler hostedCluster ns =
     \<lparr>er_namespace = ns, er_hostedCluster = hostedCluster, er_managementClient = None, er_hostedClient = None\<rparr>"

definition ec2_setup_clients :: "EC2NodeClassReconciler \<Rightarrow> EC2NodeClassReconciler" where
  "ec2_setup_clients r = r\<lparr>er_managementClient := mgr_conn, er_hostedClient := er_hostedCluster r\<rparr>"

record subnet_ControllerConfig =
  suc_HostedCluster :: conn
  suc_Namespace :: string

record subnet_Controller =
  su_config :: subnet_ControllerConfig
  su_hostedClient :: conn
  su_managementClient :: conn

definition subnet_NewController :: "subnet_ControllerConfig \<Rightarrow> subnet_Controller" where
  "subnet_NewController cfg =
     (let c = \<lparr>su_config = cfg, su_hostedClient = None, su_managementClient = mgr_conn\<rparr> in
      if suc_HostedCluster cfg \<noteq> None then c\<lparr>su_hostedClient := suc_HostedCluster cfg\<rparr> else c)"

record azure_NodeClassController =
  az_hostedCache :: conn
  az_hostedClient :: conn
  az_namespace :: string
  az_managementClient :: conn

definition NewNodeClassController :: "conn \<Rightarrow> string \<Rightarrow> azure_NodeClassController" where
  "NewNodeClassController hostedCluster ns =
     \<lparr>az_hostedCache = hostedCluster, az_hostedClient = hostedCluster, az_namespace = ns, az_managementClient = None\<rparr>"

definition azure_setup_clients :: "azure_NodeClassController \<Rightarrow> azure_NodeClassController" where
  "azure_setup_clients c = c\<lparr>az_managementClient := mgr_conn\<rparr>"

record vap_Controller =
  va_hostedClient :: conn
  va_hostedCache :: conn
  va_managementClient :: conn

definition vap_NewController :: "conn \<Rightarrow> vap_Controller" where
  "vap_NewController hosted =
     (let controller = \<lparr>va_hostedClient = None, va_hostedCache = None, va_managementClient = mgr_conn\<rparr> in
      if hosted \<noteq> None then controller\<lparr>va_hostedClient := hosted, va_hostedCache := hosted\<rparr> else controller)"

record autonode_ControllerConfig =
  auc_HostedCluster :: conn
  auc_Namespace :: string

record autonode_Controller =
  au_config :: autonode_ControllerConfig
  au_hostedClient :: conn
  au_managementClient :: conn

definition autonode_NewController :: "autonode_ControllerConfig \<Rightarrow> autonode_Controller" where
  "autonode_NewController cfg =
     (let c = \<lparr>au_config = cfg, au_hostedClient = None, au_managementClient = mgr_conn\<rparr> in
      if auc_HostedCluster cfg \<noteq> None then c\<lparr>au_hostedClient := auc_HostedCluster cfg\<rparr> else c)"

record deletion_ControllerConfig =
  dlc_HostedCluster :: conn
  dlc_Namespace :: string

record deletion_Controller =
  dl_config :: deletion_ControllerConfig
  dl_hostedClient :: conn
  dl_managementClient :: conn

definition deletion_NewController :: "deletion_ControllerConfig \<Rightarrow> deletion_Controller" where
  "deletion_NewController cfg =
     (let c = \<lparr>dl_config = cfg, dl_hostedClient = None, dl_managementClient = mgr_conn\<rparr> in
      if dlc_HostedCluster cfg \<noteq> None then c\<lparr>dl_hostedClient := dlc_HostedCluster cfg\<rparr> else c)"

text \<open>The certificate client is made from the kube configuration of the hosted cluster.\<close>

record approver_Controller =
  ma_client :: conn
  ma_certClient :: conn
  ma_hostedCluster :: conn

definition approver_NewController :: "conn \<Rightarrow> approver_Controller" where
  "approver_NewController hostedCluster = \<lparr>ma_client = None, ma_certClient = None, ma_hostedCluster = hostedCluster\<rparr>"

definition approver_setup_clients :: "approver_Controller \<Rightarrow> approver_Controller" where
  "approver_setup_clients r = r\<lparr>ma_certClient := ma_hostedCluster r, ma_client := ma_hostedCluster r\<rparr>"

record hcp_Controller =
  hc_client :: conn
  hc_config :: hcp_controller_config

definition NewHCPController :: "conn \<Rightarrow> hcp_controller_config \<Rightarrow> hcp_Controller" where
  "NewHCPController c cfg = \<lparr>hc_client = c, hc_config = cfg\<rparr>"

record ocp_Controller =
  oc_client :: conn
  oc_config :: ocp_controller_config

definition NewOCPController :: "conn \<Rightarrow> ocp_controller_config \<Rightarrow> ocp_Controller" where
  "NewOCPController c cfg = \<lparr>oc_client = c, oc_config = cfg\<rparr>"

record co_Controller =
  co_client :: conn
  co_config :: co_controller_config

definition co_NewController :: "co_controller_config \<Rightarrow> co_Controller" where
  "co_NewController cfg = \<lparr>co_client = mgr_conn, co_config = cfg\<rparr>"

section \<open>Calls and sources\<close>

text \<open>The fields the reconcilers call, with the kinds they call them for.\<close>

definition crd_calls :: "crd_Controller \<Rightarrow> (conn \<times> string) list" where
  "crd_calls c = [(cr_targetClient c, ''CustomResourceDefinition'')]"

definition default_calls :: "default_Controller \<Rightarrow> (conn \<times> string) list" where
  "default_calls c = [(df_managementClient c, ''HostedControlPlane''), (df_hostedClient c, ''NodeClass'')]"

definition ec2_calls :: "EC2NodeClassReconciler \<Rightarrow> (conn \<times> string) list" where
  "ec2_calls r = [(er_managementClient r, ''HostedControlPlane''), (er_managementClient r, ''Secret''),
     (er_hostedClient r, ''NodeClass''), (er_hostedClient r, ''EC2NodeClass'')]"

definition subnet_calls :: "subnet_Controller \<Rightarrow> (conn \<times> string) list" where
  "subnet_calls c = [(su_managementClient c, ''HostedControlPlane''), (su_hostedClient c, ''NodeClass''),
     (su_managementClient c, ''ConfigMap'')]"

definition azure_calls :: "azure_NodeClassController \<Rightarrow> (conn \<times> string) list" where
  "azure_calls c = [(az_hostedClient c, ''NodeClass''), (az_managementClient c, ''HostedControlPlane''),
     (az_managementClient c, ''Secret''), (az_hostedClient c, ''AKSNodeClass'')]"

definition vap_calls :: "vap_Controller \<Rightarrow> (conn \<times> string) list" where
  "vap_calls c = [(va_managementClient c, ''HostedControlPlane''), (va_hostedClient c, ''ValidatingAdmissionPolicy''),
     (va_hostedClient c, ''ValidatingAdmissionPolicyBinding'')]"

definition hcp_calls :: "hcp_Controller \<Rightarrow> (conn \<times> string) list" where
  "hcp_calls c = map (Pair (hc_client c)) [''HostedControlPlane'', ''ServiceAccount'', ''Deployment'', ''PodMonitor'']"

definition autonode_calls :: "autonode_Controller \<Rightarrow> (conn \<times> string) list" where
  "autonode_calls c = [(au_managementClient c, ''HostedControlPlane''), (au_hostedClient c, ''Node''), (au_hostedClient c, ''NodeClaim'')]"

definition deletion_calls :: "deletion_Controller \<Rightarrow> (conn \<times> string) list" where
  "deletion_calls c = [(dl_managementClient c, ''HostedControlPlane''), (dl_managementClient c, ''Cluster''),
     (dl_hostedClient c, ''NodePool''), (dl_hostedClient c, ''NodeClaim'')]"

definition approver_calls :: "approver_Controller \<Rightarrow> (conn \<times> string) list" where
  "approver_calls r = [(ma_client r, ''CertificateSigningRequest''), (ma_client r, ''NodeClaim''),
     (ma_certClient r, ''CertificateSigningRequest'')]"

definition ocp_calls :: "ocp_Controller \<Rightarrow> (conn \<times> string) list" where
  "ocp_calls c = map (Pair (oc_client c))
     [''Karpenter'', ''ServiceAccount'', ''ClusterRole'', ''ClusterRoleBinding'', ''Role'', ''RoleBinding'', ''Deployment'', ''PodMonitor'']"

definition co_calls :: "co_Controller \<Rightarrow> (conn \<times> string) list" where
  "co_calls r = map (Pair (co_client r)) [''Karpenter'', ''Deployment'', ''ClusterOperator'']"

text \<open>The caches of the watches: \<open>For\<close>, \<open>Owns\<close> and \<open>Watches\<close> are the manager's.\<close>

definition managed :: "string list \<Rightarrow> (conn \<times> string) list" where
  "managed kinds = map (Pair mgr_conn) kinds"

text \<open>What a started controller calls and watches, from the arguments \<open>NewControllers\<close> gives its constructor.\<close>

fun controller_calls :: "conn \<Rightarrow> string \<Rightarrow> controller \<Rightarrow> (conn \<times> string) list" where
  "controller_calls hosted ns (CRDController crds h) =
     (let c = crd_NewController \<lparr>crc_Namespace = ns, crc_CRDs = crds, crc_HostedCluster = hosted\<rparr> in
      crd_calls c @ [(cr_targetCache c, ''CustomResourceDefinition'')])"
| "controller_calls hosted ns (DefaultNodeClassController p) =
     (let c = default_NewController \<lparr>dfc_HostedCluster = hosted, dfc_Namespace = ns, dfc_Provider = Some p\<rparr> in
      default_calls c @ managed [''HostedControlPlane''] @ [(df_hostedCache c, ''NodeClass'')])"
| "controller_calls hosted ns EC2NodeClassController =
     (let r = ec2_setup_clients (NewEC2NodeClassReconciler hosted ns) in
      ec2_calls r @ [(er_hostedCluster r, ''NodeClass''), (er_hostedCluster r, ''EC2NodeClass'')] @
      managed [''Secret'', ''HostedControlPlane''])"
| "controller_calls hosted ns EC2SubnetController =
     (let c = subnet_NewController \<lparr>suc_HostedCluster = hosted, suc_Namespace = ns\<rparr> in
      subnet_calls c @ managed [''HostedControlPlane'', ''ConfigMap''] @ [(suc_HostedCluster (su_config c), ''NodeClass'')])"
| "controller_calls hosted ns AzureNodeClassController =
     (let c = azure_setup_clients (NewNodeClassController hosted ns) in
      azure_calls c @ [(az_hostedCache c, ''NodeClass''), (az_hostedCache c, ''AKSNodeClass'')] @
      managed [''HostedControlPlane'', ''Secret''])"
| "controller_calls hosted ns (NodeClassVAPController policy managementWatch) =
     (let c = vap_NewController hosted in
      vap_calls c @ [(va_hostedCache c, ''ValidatingAdmissionPolicy''), (va_hostedCache c, ''ValidatingAdmissionPolicyBinding'')] @
      managed (if managementWatch then [''HostedControlPlane''] else []))"
| "controller_calls hosted ns (HCPOperandController cfg) =
     hcp_calls (NewHCPController mgr_conn cfg) @ managed [''HostedControlPlane'', ''Deployment'', ''PodMonitor'', ''ServiceAccount'']"
| "controller_calls hosted ns AutoNodeStatusController =
     (let c = autonode_NewController \<lparr>auc_HostedCluster = hosted, auc_Namespace = ns\<rparr> in
      autonode_calls c @ managed [''HostedControlPlane''] @
      [(auc_HostedCluster (au_config c), ''NodeClaim''), (auc_HostedCluster (au_config c), ''Node'')])"
| "controller_calls hosted ns HCPDeletionController =
     deletion_calls (deletion_NewController \<lparr>dlc_HostedCluster = hosted, dlc_Namespace = ns\<rparr>) @
     managed [''HostedControlPlane'', ''Cluster'']"
| "controller_calls hosted ns MachineApproverController =
     (let r = approver_setup_clients (approver_NewController hosted) in
      approver_calls r @ [(ma_hostedCluster r, ''CertificateSigningRequest'')])"
| "controller_calls hosted ns (OCPOperandController cfg) =
     ocp_calls (NewOCPController mgr_conn cfg) @
     managed [''Karpenter'', ''Deployment'', ''PodMonitor'', ''ServiceAccount'', ''Role'', ''RoleBinding'', ''Secret'',
       ''ClusterRole'', ''ClusterRoleBinding'']"
| "controller_calls hosted ns (ClusterOperatorController cfg) =
     co_calls (co_NewController cfg) @ managed [''ClusterOperator'', ''Karpenter'', ''Deployment'']"

section \<open>Homes\<close>

text \<open>
  The API of Karpenter and its nodes live in the cluster that Karpenter serves: the hosted cluster of a management
  cluster start. Everything else is next to the operator.
\<close>

definition served_kinds :: "string list" where
  "served_kinds = [''CustomResourceDefinition'', ''NodeClass'', ''EC2NodeClass'', ''AKSNodeClass'', ''NodePool'', ''NodeClaim'', ''Node'',
     ''CertificateSigningRequest'', ''ValidatingAdmissionPolicy'', ''ValidatingAdmissionPolicyBinding'']"

definition home :: "bool \<Rightarrow> string \<Rightarrow> cluster_ref" where
  "home managementCluster kind = (if managementCluster \<and> kind \<in> set served_kinds then HostedCluster else OwnCluster)"

definition hosted_conn :: "bool \<Rightarrow> conn" where
  "hosted_conn configured = (if configured then Some HostedCluster else None)"

definition wired :: "bool \<Rightarrow> string \<Rightarrow> controller \<Rightarrow> bool" where
  "wired managementCluster ns c \<longleftrightarrow>
     list_all (\<lambda>(client, kind). client = Some (home managementCluster kind)) (controller_calls (hosted_conn managementCluster) ns c)"

lemmas wiring_defs = wired_def hosted_conn_def home_def served_kinds_def managed_def mgr_conn_def Let_def
  crd_NewController_def default_NewController_def NewEC2NodeClassReconciler_def ec2_setup_clients_def subnet_NewController_def
  NewNodeClassController_def azure_setup_clients_def vap_NewController_def autonode_NewController_def deletion_NewController_def
  approver_NewController_def approver_setup_clients_def NewHCPController_def NewOCPController_def co_NewController_def
  crd_calls_def default_calls_def ec2_calls_def subnet_calls_def azure_calls_def vap_calls_def hcp_calls_def autonode_calls_def
  deletion_calls_def approver_calls_def ocp_calls_def co_calls_def

lemma wired_management:
  "(\<And>cfg. c \<noteq> OCPOperandController cfg) \<Longrightarrow> (\<And>cfg. c \<noteq> ClusterOperatorController cfg) \<Longrightarrow> wired True ns c"
  by (cases c) (simp_all add: wiring_defs)

lemma wired_standalone:
  "wired False ns (CRDController crds h)" "wired False ns (OCPOperandController oc)" "wired False ns (ClusterOperatorController cc)"
  by (simp_all add: wiring_defs)

lemma NewControllers_wired:
  assumes "cfg_hostedCluster cfg = cfg_managementCluster cfg" "c \<in> set (NewControllers spec getenv cfg)"
  shows "wired (cfg_managementCluster cfg) ns c"
proof (cases "cfg_managementCluster cfg")
  case True
  have "c \<noteq> OCPOperandController oc" "c \<noteq> ClusterOperatorController cc" for oc cc
    using assms True
    by (cases "HCPNodeClassProvider (cfg_cloudProvider cfg)";
      auto simp: NewControllers_def Let_def newHCPNodeClassProvider_def newMachineApproverController_def split: if_splits)+
  then show ?thesis using wired_management True by simp
next
  case False
  with assms wired_standalone show ?thesis
    by (auto simp: NewControllers_def Let_def newHCPNodeClassProvider_def)
qed

lemma Run_controllers:
  assumes "Validate opts = None" "Run rt opts = Inr cs"
  shows "(\<exists>cfg. cs = NewControllers (rt_crdSpec rt) (rt_getenv rt) cfg \<and> cfg_managementCluster cfg = opt_managementCluster opts \<and>
      cfg_hostedCluster cfg = opt_managementCluster opts) \<or>
    (\<not> opt_managementCluster opts \<and> (\<exists>cc. cs = [ClusterOperatorController cc]))"
proof -
  have kube: "opt_managementCluster opts \<Longrightarrow> opt_targetKubeconfig opts \<noteq> []"
    using assms(1) by (auto simp: Validate_None missing_options_def)
  from assms(2) obtain infra where infra: "resolve_infrastructure rt opts = Inr infra"
    by (auto simp: Run_def bind_result_Inr_iff)
  show ?thesis
  proof (cases "isPlatformSupported (opt_managementCluster opts) (ii_platformType infra)")
    case False
    with assms(2) infra show ?thesis
      by (auto simp: Run_def bind_result_Inr_iff runClusterOperatorReporter_def startManager_Inr Let_def isPlatformSupported_def)
  next
    case True
    have "\<exists>p. cs = NewControllers (rt_crdSpec rt) (rt_getenv rt)
        (ResolveControllerConfig opts infra p\<lparr>cfg_hostedCluster := opt_managementCluster opts\<rparr>)"
      using assms(2) infra True kube
      by (cases "opt_managementCluster opts")
        (auto simp: Run_def bind_result_Inr_iff startManager_Inr Let_def ResolveControllerConfig_def)
    then show ?thesis by (auto simp: ResolveControllerConfig_def)
  qed
qed

section \<open>Properties\<close>



end
