(* ===== verification/Spec2Isabelle.thy ===== *)
theory Spec2Isabelle
  imports Hcp_Deletion Autonode_Status Machine_Approver Ec2_Nodeclass Azure_Nodeclass Ec2_Subnet Default_Nodeclass Vap Crd
    Azure_Queue Co_Queue Approver_Queue Command_Line Operator_Metrics Kubelet_Json Api_Copies
    Scheme_Registration Ec2_Defaulting Azure_Admission Wiring
begin

text \<open>
  A verification development of karpenter-operator, the OpenShift operator that deploys Karpenter and
  manages its NodeClasses. The operator runs in one of two modes. Standalone, it deploys Karpenter on
  its own cluster and reports a ClusterOperator. On a HyperShift management cluster it runs next to a
  HostedControlPlane, deploys Karpenter into that namespace, and works on the hosted cluster through
  a second client: it installs CRDs, translates the platform NodeClasses of OpenShift into those of
  Karpenter, approves kubelet certificates, reports node counts, and drains the cluster before the
  HostedControlPlane goes away.

  \<^bold>\<open>Common ground.\<close> \<open>Prelude\<close> has error values (wrapping and sentinels as in Go), Go maps (\<open>smap\<close>, with nil
  apart from empty), strings and the generic lemmas; the record of object metadata is in \<open>Kube_Meta\<close>
  with finalizers, owner references and status conditions (controller-runtime's controllerutil,
  apimachinery's conditions.go). \<open>Kube_Client\<close> is the API server as the clients see it: reads and
  writes as state transformers over a world that holds the objects of each kind and a list of faults;
  a fault makes a call fail, so a theorem without a hypothesis on \<open>api_faults\<close> covers every failure at every
  call. Writes are checked against resource versions, a deletion waits for finalizers, and status is a
  subresource. The locale \<open>api_kind\<close> states what a kind must promise (its accessors are a lens that leaves the
  faults alone), proves the laws of get, create, update, patch and delete once, and is interpreted for every
  kind of every world. \<open>World\<close> is the world of the NodeClass controllers.

  \<^bold>\<open>Data.\<close> \<open>Api_Types\<close>, \<open>Ec2_Types\<close>, \<open>Azure_Types\<close>: the structs of src/api/karpenter, of src/pkg/apis and those of the vendored
  HyperShift, AWS and Azure APIs, as far as the controllers read or write them. \<open>Kubelet_Json\<close>: the custom
  JSON methods of kubelet_config.go, which carry unknown fields through an overflow object. These and all other theories read a Go
  object as its value. \<open>Deep_Copy\<close> and \<open>Api_Copies\<close> justify that: there a value shows the addresses of its pointers,
  slices and maps, and the generated deep copies of the API types are shown to share none of them.

  \<^bold>\<open>Admission.\<close> \<open>Regex_Match\<close>: a matcher for the patterns of the CRDs, shown to decide their language. \<open>Ec2_Schema\<close>: the
  validation of the OpenshiftEC2NodeClass (the markers of karpenter_types.go and kubelet_config.go) and of the EC2NodeClass
  (src/pkg/assets/aws), as predicates, and the defaults of the latter. \<open>Volume_Size\<close>: the volume sizes that survive the encoding of
  quantities. \<open>Ec2_Admission\<close>: field by field, when the EC2NodeClass written for an admitted OpenshiftEC2NodeClass is admitted, and
  admitted ones for which it is not. \<open>Ec2_Defaulting\<close>: what the defaults do to later reconciles. \<open>Azure_Admission\<close>: the validation of the
  OpenShiftAzureNodeClass (openshiftazurenodeclass_types.go) and of the AKSNodeClass (src/pkg/assets/azure), and that the first is
  strong enough for the second: every admitted OpenShiftAzureNodeClass is realised, up to the size of the user data.

  \<^bold>\<open>Hosted cluster.\<close>
  \<^item> \<open>Hypershift\<close> (src/pkg/hypershift): lookup of the HostedControlPlane, its version, the CAPI cluster and the user data Secrets.
  \<^item> \<open>Hcp_Deletion\<close> (src/pkg/controllers/hcp/deletion): the finalizer on the HostedControlPlane, as a step relation in which
  other actors interleave with the reconciler; safety over all reachable states, and completion.
  \<^item> \<open>Autonode_Status\<close> (src/pkg/controllers/hcp/autonodestatus): counts and vCPUs, in int32.
  \<^item> \<open>Aws_Verifier\<close>, \<open>Machine_Approver\<close> (src/pkg/cloudprovider/aws, src/pkg/controllers/machineapprover): which CSRs are approved. The
  locale \<open>node_identity_verifier\<close> is the interface of the verifier, interpreted by the AWS one.
  \<^item> \<open>Nodeclass_Status\<close>, \<open>Ec2_Tags\<close>, \<open>Go_Duration\<close>, \<open>Release_Pipeline\<close>, \<open>Ec2_Spec\<close>, \<open>Guarded_Pair\<close>, \<open>Ec2_Nodeclass\<close>,
  \<open>Azure_Nodeclass\<close> (src/pkg/controllers/nodeclass): a NodeClass of OpenShift and its target of Karpenter. The
  locale \<open>release_pipeline\<close> is the choice between the running release and the one of the user data Secret;
  \<open>guarded_pair\<close> is the discipline of a finalizer that outlives the target; both are interpreted by the
  controllers' own operations.
  \<^item> \<open>Go_Json\<close>, \<open>Ec2_Subnet\<close> (src/pkg/controllers/nodeclass/ec2/subnet): the ConfigMap of subnet IDs.
  \<^item> \<open>Default_Nodeclass\<close>, \<open>Vap\<close> (src/pkg/controllers/nodeclass/default and vap, src/pkg/cloudprovider/*/nodeclass.go): the default NodeClass and the admission
  policy that keeps users away from the targets. The locale \<open>hcp_nodeclass_provider\<close> is the provider
  interface, interpreted by both providers.
  \<^item> \<open>Crd\<close> (src/pkg/controllers/crd): the installation of the CRDs.

  \<^bold>\<open>Operand and operator.\<close>
  \<^item> \<open>Cloud_Provider\<close> (src/pkg/cloudprovider, src/pkg/assets): both providers. The locale \<open>operand_cloud\<close> states what the rendering of
  the pod relies on (unique names, mounts with volumes, no clash with reserved ones), interpreted by both.
  \<^item> \<open>Operand_Spec\<close>, \<open>Operand\<close>, \<open>Operand_Props\<close> (src/pkg/controllers/karpenter): the rendering of the Deployment, PodMonitor and RBAC, and
  the two reconcilers that apply them.
  \<^item> \<open>Cluster_Operator\<close> (src/pkg/controllers/clusteroperator): the reported conditions and their transition times.
  \<^item> \<open>Go_Strconv\<close>, \<open>Operator_Setup\<close> (src/pkg/operator, src/pkg/controllers/controllers.go): options, validation, discovery, which controllers run, and
  their registration with the manager, which fails when a name is taken or the hosted cluster is missing.
  \<^item> \<open>Wiring\<close> (the \<open>NewController\<close> functions of src/pkg/controllers): which cluster each client and cache of a controller talks to.
  \<^item> \<open>Scheme_Registration\<close> (src/api/karpenter/*/register.go, src/pkg/apis, \<open>init\<close> of src/pkg/operator, \<open>AddToScheme\<close> of the providers): which Go types
  stand for which API kinds. A registration is shown to add pairs to a relation, so their order does not matter; every type that a
  started controller watches has one kind, and no registration panics.
  \<^item> \<open>Watches\<close> (the \<open>SetupWithManager\<close> functions of src/pkg/controllers): which events enqueue which requests, over the handlers of
  controller-runtime, behind the manager's cache of one namespace; with the reconcilers this gives the repair of drifted operands and the completeness of the watches
  of the ClusterOperator.
  \<^item> \<open>Command_Line\<close> (src/cmd, src/pkg/version): the process, from its arguments to its exit status: the flags, their
  parser in Go's flag package, and what a deployment must give for the controllers to run.
  \<^item> \<open>Work_Queue\<close>, \<open>Azure_Queue\<close>, \<open>Co_Queue\<close>, \<open>Approver_Queue\<close>: the loop of controller-runtime around a reconciler, in which watched objects change,
  events enqueue keys and reconciles that may fail empty the queue, as a step relation. The locale \<open>level_triggered\<close> states
  what a controller promises to it and proves that no wakeup is lost; it is interpreted by the Azure NodeClass controller and, in
  \<open>Co_Queue\<close>, by the ClusterOperator controller, whose report is never stale but for a failed read; \<open>Approver_Queue\<close> has the machine approver, which
  is not level-triggered: a request it refuses too early is not retried. A
  reconcile is one step, since an event that arrives during it leaves its key in the queue.
  \<^item> \<open>Operator_Metrics\<close> (src/pkg/controllers/metrics.go): waiting for the operator's image and the retries, in milliseconds.

  This theory composes the process, its startup and the operand.

  \<^bold>\<open>Assumptions.\<close> Parameters with named contracts stand for code outside the repository: the PEM and X.509
  decoders and DescribeInstances (any answer), the merge of server-side apply (\<open>ssa_contract\<close>,
  \<open>merge_contract\<close>: an applied field or keyed entry is stored as applied, an absent one kept), the bytes of a JSON object
  (\<open>json_contract\<close>: decoding inverts encoding), the contents of embedded CRDs, the API packages of the
  Kubernetes client (\<open>clientgo_ok\<close>: own groups and paths, and the watched types among theirs), and the outcomes of the client libraries at
  startup (fields of \<open>runtime\<close>). Reads are served from the store, never from a stale cache; stale reads show up as
  write conflicts, which are among the faults. The lists of the map functions of the watches come from the informer's cache and do
  not fail in \<open>Azure_Queue\<close>. Times are UTC seconds or milliseconds. JSON object keys and command lines are ASCII.

  \<^bold>\<open>Bounds.\<close> All functions are total; the only loops that are not structural are the poll of the operator's image,
  with the time left as its measure (at most 31 reads, one per half second of its 15), the batches of 1000 instance
  IDs, with the IDs left, the parsing of flags, with the arguments left, and the division of a quantity by its factors of 1024. No fuel is used.

  \<^bold>\<open>Not modelled.\<close> Logging, the conversion and defaulting functions of the scheme, the
  rate limits of the work queues, leader election and probes, defaulting and validation by the API server for other
  types than the NodeClasses (the store of \<open>Kube_Client\<close> accepts and keeps what is written), and the evaluation of the CEL
  expressions of the admission policies, which are kept as strings. The numeric functions of CEL in the validation of the kubelet
  configuration are parameters.
\<close>

section \<open>From the options to the running operand\<close>

lemma deployment_applied:
  "find_manifest (manifest_key (DeploymentManifest d)) (fold record_apply (hcp_manifests c hcp d) ms) = Some (DeploymentManifest d)"
  by (rule find_manifest_fold) (simp_all add: hcp_manifests_def)

text \<open>What an operator with validated options deploys.\<close>

lemma validated_operator_deploys:
  assumes "Validate opts = None" "opt_managementCluster opts" "Run rt opts = Inr cs" "HCPOperandController c \<in> set cs"
    and w: "api_faults w = []" "find_obj req (ow_hcps w) = Some hcp" and "ssa_contract ssa"
    and "an_provisioner (hcp_autoNode hcp) = ProvisionerKarpenter" "rel_version (cpv_desired (hcp_controlPlaneVersion hcp)) \<noteq> []"
    and img: "operand_image (hc_karpenterImage c) hcp \<noteq> []"
  shows "\<exists>w' d ct. hcp_operand_Reconcile ssa c req w = (Inr Result0, w') \<and>
    find_manifest (''Deployment'', opt_namespace opts, karpenterName) (ow_applied w') = Some (DeploymentManifest d) \<and>
    pod_ok (dpc_podSpec d) \<and> ps_initContainers (dpc_podSpec d) = [tokenMinterContainer (opt_tokenMinterImage opts)] \<and>
    ps_containers (dpc_podSpec d) = [ct] \<and> ct_image ct = operand_image (hc_karpenterImage c) hcp \<and>
    {literal_env ''CLUSTER_NAME'' (opt_clusterName opts), literal_env ''CLUSTER_ENDPOINT'' (opt_clusterEndpoint opts)} \<subseteq> set (ct_env ct)"
proof -
  from Run_management [OF assms(1-3)] assms(4) obtain p where c: "c = hcp_operand_config opts p"
    by (elim exE conjE) (rename_tac p, case_tac p, auto split: if_splits)
  let ?cfg = "hcp_operandConfig c (operand_image (hc_karpenterImage c) hcp) hcp"
  have "uid_ok (hc_defaultSecurityContextUID c)"
    using assms(1) by (simp add: c hcp_operand_config_def Validate_None)
  with hcp_deploy_runs [OF w(1) img] obtain r w' where dep: "hcp_deploy ssa c hcp w = (Inr r, w')" by blast
  have "honest w" using w(1) by (simp add: honest_def)
  from hcp_deploy_ok [OF dep this assms(7-9)] obtain d where r: "r = Result0"
    and d: "buildDeployment ?cfg (hcpOwnerRef hcp) = Inr d" and applied: "ow_applied w' = fold record_apply (hcp_manifests c hcp d) (ow_applied w)"
    by blast
  have run: "hcp_operand_Reconcile ssa c req w = (Inr Result0, w')"
    using dep w operandHCPs.get_no_faults [OF w(1)] by (simp add: hcp_operand_Reconcile_def handleE_run r)
  note built = buildDeployment_Inr [OF d]
  have "pod_ok (dpc_podSpec d)"
    using built by (intro operand_pod_ok [of ?cfg]) (auto simp: operand_configured_def)
  moreover have "manifest_key (DeploymentManifest d) = (''Deployment'', opt_namespace opts, karpenterName)"
    using built by (simp add: c hcp_operandConfig_def hcp_operand_config_def)
  moreover obtain ct where "ps_containers (dpc_podSpec d) = [ct]" "ct_image ct = operand_image (hc_karpenterImage c) hcp"
    "{literal_env ''CLUSTER_NAME'' (opt_clusterName opts), literal_env ''CLUSTER_ENDPOINT'' (opt_clusterEndpoint opts)} \<subseteq> set (ct_env ct)"
    "ps_initContainers (dpc_podSpec d) = [tokenMinterContainer (opt_tokenMinterImage opts)]"
    using built unfolding buildPodSpec_Inr Let_def
    by (fastforce simp: operand_container_def hcp_operandConfig_def c hcp_operand_config_def)
  ultimately show ?thesis
    using run deployment_applied [of d c hcp "ow_applied w"] applied by metis
qed

text \<open>
  C11: the command line and the environment decide the operand. When a process with any spelled settings runs its controllers
  in management cluster mode, one reconcile without faults of a HostedControlPlane that asks for
  Karpenter and has a version and an image leaves a Deployment named karpenter in the last namespace of the command line. Its
  pod obeys the rules on keyed lists, its only init container is the token minter of the environment, and its only container
  runs that image with the cluster name and endpoint of the environment.
\<close>

theorem process_deploys_operand:
  assumes "main rt (concat (map spell ss) @ rest) = Stopped cs" "list_all accepted ss" "stops rest"
    and "ParseBool (rt_getenv rt ManagementClusterEnvName) = Inr True" "HCPOperandController c \<in> set cs"
    and "api_faults w = []" "find_obj req (ow_hcps w) = Some hcp" and "ssa_contract ssa"
    and "an_provisioner (hcp_autoNode hcp) = ProvisionerKarpenter" "rel_version (cpv_desired (hcp_controlPlaneVersion hcp)) \<noteq> []"
    and "operand_image (hc_karpenterImage c) hcp \<noteq> []"
  shows "\<exists>w' d ct. hcp_operand_Reconcile ssa c req w = (Inr Result0, w') \<and>
    find_manifest (''Deployment'', last_value ''namespace'' [] ss, karpenterName) (ow_applied w') = Some (DeploymentManifest d) \<and>
    pod_ok (dpc_podSpec d) \<and> ps_initContainers (dpc_podSpec d) = [tokenMinterContainer (rt_getenv rt TokenMinterImageEnvName)] \<and>
    ps_containers (dpc_podSpec d) = [ct] \<and> ct_image ct = operand_image (hc_karpenterImage c) hcp \<and>
    {literal_env ''CLUSTER_NAME'' (rt_getenv rt ClusterNameEnvName),
     literal_env ''CLUSTER_ENDPOINT'' (rt_getenv rt ClusterEndpointEnvName)} \<subseteq> set (ct_env ct)"
proof -
  from main_StoppedE [OF assms(1-3)] obtain opts where opts:
    "LoadEnv (rt_getenv rt) (flag_options ss) = Inr opts" "Validate opts = None" "Run rt opts = Inr cs" .
  from opts(1) have "opt_managementCluster opts" "opt_namespace opts = last_value ''namespace'' [] ss"
    "opt_clusterName opts = rt_getenv rt ClusterNameEnvName" "opt_clusterEndpoint opts = rt_getenv rt ClusterEndpointEnvName"
    "opt_tokenMinterImage opts = rt_getenv rt TokenMinterImageEnvName"
    by (auto simp: LoadEnv_management [of "rt_getenv rt", OF assms(4)] flag_options_def split: sum.splits)
  with validated_operator_deploys [OF opts(2) _ opts(3) assms(5-)] show ?thesis by simp
qed

theorem process_deploys_operand_witness:
  "\<exists>cs c w' d. main demo_runtime (concat (map spell demo_settings)) = Stopped cs \<and> HCPOperandController c \<in> set cs \<and>
    hcp_operand_Reconcile demo_ssa c (''clusters-a'', ''a'') demo_operand_world = (Inr Result0, w') \<and>
    find_manifest (''Deployment'', ''clusters-a'', karpenterName) (ow_applied w') = Some (DeploymentManifest d)"
proof -
  have stops: "stops []" by (simp add: stops_def)
  from main_Stopped validated_management [OF demo_libraries demo_requirements(2)] Parse_settings [OF demo_accepted stops]
  obtain cs where run: "main demo_runtime (concat (map spell demo_settings) @ []) = Stopped cs"
    using demo_requirements(1) by (metis (no_types, lifting))
  from main_StoppedE [OF this demo_accepted stops] obtain opts where opts:
    "LoadEnv (rt_getenv demo_runtime) (flag_options demo_settings) = Inr opts" "Validate opts = None" "Run demo_runtime opts = Inr cs" .
  have env: "rt_getenv demo_runtime = demo_env" by (simp add: demo_runtime_def)
  from opts(1) have "opt_managementCluster opts" and aws: "opt_platform opts = ''AWS''" "opt_region opts = ''us-east-1''"
    by (auto simp: LoadEnv_management [of "rt_getenv demo_runtime", OF demo_requirements(2), unfolded env] env split: sum.splits)
      (simp_all add: demo_env_def env_names)
  from Run_management [OF opts(2) \<open>opt_managementCluster opts\<close> opts(3)] obtain p where
    p: "GetCloudProvider (rt_getenv demo_runtime) (rt_loadDefaultConfig demo_runtime) (discoverInfrastructureFromEnv opts) = Inr p"
    and mem: "HCPOperandController (hcp_operand_config opts p) \<in> set cs" by auto
  have w: "api_faults demo_operand_world = []" "find_obj (''clusters-a'', ''a'') (ow_hcps demo_operand_world) = Some demo_karpenter_hcp"
    by (simp_all add: demo_operand_world_def)
  have "KarpenterImage p = ''karpenter:1''"
    using p by (auto simp: env GetCloudProvider_def aws_New_def discoverInfrastructureFromEnv_def aws RequireEnv_def demo_env_def env_names
        AWSPlatformType_def demo_runtime_def map_sum_def)
  then have image: "operand_image (hc_karpenterImage (hcp_operand_config opts p)) demo_karpenter_hcp \<noteq> []"
    by (simp add: operand_image_def hcp_operand_config_def)
  have "last_value ''namespace'' [] demo_settings = ''clusters-a''"
    by (simp add: demo_settings_def last_value_def)
  with process_deploys_operand [OF run demo_accepted stops demo_requirements(2) mem w demo_ssa_contract _ _ image] run mem show ?thesis
    by auto
qed

end
